(* ===== verification/Go_Prelude.thy ===== *)
theory Go_Prelude
  imports Main
begin

text \<open>
  Shared vocabulary of the development: Go error values and the three operations of the
  package \<^verbatim>\<open>errors\<close> the sources use, panics, computations that thread a state and
  may panic (with \<^verbatim>\<open>defer\<close> and \<^verbatim>\<open>recover\<close>), contexts, and the generic
  lemmas the component theories build on.
\<close>

named_theorems wp \<open>weakest preconditions of the Go computation combinators\<close>

section \<open>Go error values\<close>

text \<open>
  Every sentinel error the modelled code compares against or returns.  The first group is
  declared in \<^verbatim>\<open>asyncengine/errors.go\<close>, the rest in \<^verbatim>\<open>pretrade\<close> and
  \<^verbatim>\<open>param\<close>, and \<open>CtxCanceled\<close>/\<open>CtxDeadlineExceeded\<close> are the two values
  \<^verbatim>\<open>ctx.Err()\<close> can return.
\<close>

datatype sentinel =
    ErrFinalizationInProgress | ErrMissingAccountID | ErrStopped | ErrQueueLimit
  | ErrDriverResult | ErrChainEngineMissing | ErrChainIncomplete | ErrChainOrderRequired
  | ErrChainAccountRequired | ErrChainAccountGroupRequired | ErrChainAccountMismatch
  | ErrChainInvalidDecision | ErrChainRetryUnsafe | ErrChainResultUnavailable
  | ErrExclusiveContext | errQueueRetired
  | ErrReservationClosed | ErrRequestClosed | ErrDropCopyOperationClosed
  | ErrDryRunReportClosed | ErrUninitializedAccountGroupID
  | CtxCanceled | CtxDeadlineExceeded

text \<open>
  \<open>Wrap pre e post\<close> is \<^verbatim>\<open>fmt.Errorf\<close> with one \<^verbatim>\<open>%w\<close> verb between two literal
  texts, \<open>Joined\<close> the value built by \<^verbatim>\<open>errors.Join\<close>, \<open>Text\<close> an error that wraps
  nothing and \<open>Foreign\<close> an error made by a driver or a hook.
\<close>

datatype go_error =
    Sentinel sentinel
  | Foreign string
  | Text string
  | Wrap string go_error string
  | Joined "go_error list"

type_synonym err = "go_error option"

primrec errors_Is1 :: "sentinel \<Rightarrow> go_error \<Rightarrow> bool" where
  "errors_Is1 t (Sentinel s) = (s = t)"
| "errors_Is1 t (Foreign m) = False"
| "errors_Is1 t (Text m) = False"
| "errors_Is1 t (Wrap pre e post) = errors_Is1 t e"
| "errors_Is1 t (Joined es) = list_ex id (map (errors_Is1 t) es)"

definition errors_Is :: "err \<Rightarrow> sentinel \<Rightarrow> bool" where
  "errors_Is e t = (case e of None \<Rightarrow> False | Some x \<Rightarrow> errors_Is1 t x)"

definition somes :: "'a option list \<Rightarrow> 'a list" where
  "somes xs = map the (filter (\<lambda>x. x \<noteq> None) xs)"

definition errors_Join :: "err list \<Rightarrow> err" where
  "errors_Join es = (case somes es of [] \<Rightarrow> None | xs \<Rightarrow> Some (Joined xs))"

definition wrapf :: "string \<Rightarrow> go_error \<Rightarrow> err" where
  "wrapf pre e = Some (Wrap pre e [])"

definition sentinel_suffix :: "sentinel \<Rightarrow> string \<Rightarrow> err" where
  "sentinel_suffix s post = Some (Wrap [] (Sentinel s) post)"

lemma somes_simps [simp]:
  "somes [] = []" "somes (None # xs) = somes xs" "somes (Some x # xs) = x # somes xs"
  by (simp_all add: somes_def)

lemma somes_append [simp]: "somes (xs @ ys) = somes xs @ somes ys"
  by (simp add: somes_def)

lemma set_somes: "set (somes xs) = {x. Some x \<in> set xs}"
  by (force simp: somes_def)

lemma errors_Is_simps [simp]:
  "errors_Is None t = False"
  "errors_Is (Some (Sentinel s)) t = (s = t)"
  "errors_Is (wrapf pre e) t = errors_Is (Some e) t"
  "errors_Is (sentinel_suffix s post) t = (s = t)"
  "errors_Is (Some (Wrap pre e post)) t = errors_Is (Some e) t"
  by (simp_all add: errors_Is_def wrapf_def sentinel_suffix_def)

lemma wrapf_not_None [simp]: "wrapf pre e \<noteq> None" "None \<noteq> wrapf pre e"
  by (simp_all add: wrapf_def)

lemma sentinel_suffix_not_None [simp]:
  "sentinel_suffix s post \<noteq> None" "None \<noteq> sentinel_suffix s post"
  by (simp_all add: sentinel_suffix_def)

lemma errors_Join_None: "errors_Join es = None \<longleftrightarrow> (\<forall>e \<in> set es. e = None)"
proof -
  have "errors_Join es = None \<longleftrightarrow> somes es = []"
    by (simp add: errors_Join_def split: list.splits)
  also have "\<dots> \<longleftrightarrow> (\<forall>e \<in> set es. e = None)"
    by (force simp: somes_def filter_empty_conv)
  finally show ?thesis .
qed

lemma errors_Is_Join: "errors_Is (errors_Join es) t \<longleftrightarrow> (\<exists>e \<in> set es. errors_Is e t)"
proof -
  have "errors_Is (errors_Join es) t \<longleftrightarrow> (\<exists>x \<in> set (somes es). errors_Is1 t x)"
    by (cases "somes es") (auto simp: errors_Join_def errors_Is_def list_ex_iff)
  also have "\<dots> \<longleftrightarrow> (\<exists>e \<in> set es. errors_Is e t)"
    by (force simp: set_somes errors_Is_def split: option.splits)
  finally show ?thesis .
qed

lemma errors_Join_pair_None [simp]:
  "errors_Join [a, b] = None \<longleftrightarrow> a = None \<and> b = None"
  by (simp add: errors_Join_None)

lemma errors_Is_Join_pair [simp]:
  "errors_Is (errors_Join [a, b]) t \<longleftrightarrow> errors_Is a t \<or> errors_Is b t"
  by (simp add: errors_Is_Join)

section \<open>Panics and computations\<close>

datatype panic = PanicError go_error | PanicValue string

datatype 'a res = Ret 'a | Panic panic

text \<open>A computation reads and writes a state and either returns or panics.\<close>

type_synonym ('s, 'a) go = "'s \<Rightarrow> 'a res \<times> 's"

definition ret :: "'a \<Rightarrow> ('s, 'a) go" where
  "ret x s = (Ret x, s)"

definition panic :: "panic \<Rightarrow> ('s, 'a) go" where
  "panic p s = (Panic p, s)"

definition bind :: "('s, 'a) go \<Rightarrow> ('a \<Rightarrow> ('s, 'b) go) \<Rightarrow> ('s, 'b) go" where
  "bind m f s = (case m s of (Ret x, t) \<Rightarrow> f x t | (Panic p, t) \<Rightarrow> (Panic p, t))"

definition modify :: "('s \<Rightarrow> 's) \<Rightarrow> ('s, unit) go" where
  "modify f s = (Ret (), f s)"

definition read :: "('s \<Rightarrow> 'a) \<Rightarrow> ('s, 'a) go" where
  "read f s = (Ret (f s), s)"

text \<open>
  \<^verbatim>\<open>defer cleanup(); body\<close>: the clean-up runs whether the body returns or panics; a panic
  of the clean-up replaces the body's.
\<close>

definition deferring :: "('s, 'a) go \<Rightarrow> ('s, unit) go \<Rightarrow> ('s, 'a) go" where
  "deferring body cleanup s =
     (case body s of (r, t) \<Rightarrow>
       (case cleanup t of (Ret _, u) \<Rightarrow> (r, u) | (Panic p, u) \<Rightarrow> (Panic p, u)))"

text \<open>\<^verbatim>\<open>recover\<close> in a deferred function: the panic becomes a value.\<close>

definition recovering :: "('s, 'a) go \<Rightarrow> (panic \<Rightarrow> 'a) \<Rightarrow> ('s, 'a) go" where
  "recovering body h s =
     (case body s of (Ret x, t) \<Rightarrow> (Ret x, t) | (Panic p, t) \<Rightarrow> (Ret (h p), t))"

lemmas go_defs = ret_def panic_def bind_def modify_def read_def deferring_def recovering_def

lemma bind_ret [simp]: "bind (ret x) f = f x"
  by (rule ext) (simp add: go_defs)

lemma bind_assoc: "bind (bind m f) g = bind m (\<lambda>x. bind (f x) g)"
  by (rule ext) (simp add: go_defs split: prod.splits res.splits)

text \<open>
  Weakest precondition: \<open>Q\<close> holds of the value and state when the computation returns, and
  \<open>E\<close> of the panic and state when it panics.
\<close>

definition wp :: "('s, 'a) go \<Rightarrow> ('a \<Rightarrow> 's \<Rightarrow> bool) \<Rightarrow> (panic \<Rightarrow> 's \<Rightarrow> bool) \<Rightarrow> 's \<Rightarrow> bool" where
  "wp m Q E s = (case m s of (Ret x, t) \<Rightarrow> Q x t | (Panic p, t) \<Rightarrow> E p t)"

text \<open>The rules are equations between predicates, so that they apply under binders too.\<close>

lemma wp_ret [wp]: "wp (ret x) Q E = Q x"
  by (rule ext) (simp add: wp_def ret_def)

lemma wp_panic [wp]: "wp (panic p) Q E = E p"
  by (rule ext) (simp add: wp_def panic_def)

lemma wp_bind [wp]: "wp (bind m f) Q E = wp m (\<lambda>x. wp (f x) Q E) E"
  by (rule ext) (simp add: wp_def bind_def split: prod.splits res.splits)

lemma wp_modify [wp]: "wp (modify f) Q E = (\<lambda>s. Q () (f s))"
  by (rule ext) (simp add: wp_def modify_def)

lemma wp_read [wp]: "wp (read f) Q E = (\<lambda>s. Q (f s) s)"
  by (rule ext) (simp add: wp_def read_def)

lemma wp_deferring [wp]:
  "wp (deferring m d) Q E = wp m (\<lambda>x. wp d (\<lambda>_. Q x) E) (\<lambda>p. wp d (\<lambda>_. E p) E)"
  by (rule ext) (simp add: wp_def deferring_def split: prod.splits res.splits)

lemma wp_recovering [wp]: "wp (recovering m h) Q E = wp m Q (\<lambda>p. Q (h p))"
  by (rule ext) (simp add: wp_def recovering_def split: prod.splits res.splits)

lemma wp_case_prod [wp]:
  "wp (case z of (a, b) \<Rightarrow> m a b) Q E = (case z of (a, b) \<Rightarrow> wp (m a b) Q E)"
  by (simp split: prod.splits)

lemma wp_case_option [wp]:
  "wp (case z of None \<Rightarrow> m | Some a \<Rightarrow> k a) Q E = (case z of None \<Rightarrow> wp m Q E | Some a \<Rightarrow> wp (k a) Q E)"
  by (simp split: option.splits)

lemma wp_case_sum [wp]:
  "wp (case z of Inl a \<Rightarrow> m a | Inr b \<Rightarrow> k b) Q E = (case z of Inl a \<Rightarrow> wp (m a) Q E | Inr b \<Rightarrow> wp (k b) Q E)"
  by (simp split: sum.splits)

lemma wp_if [wp]: "wp (if b then m else m') Q E = (if b then wp m Q E else wp m' Q E)"
  by simp

lemma wp_mono:
  "wp m Q E s \<Longrightarrow> (\<And>x t. Q x t \<Longrightarrow> Q' x t) \<Longrightarrow> (\<And>p t. E p t \<Longrightarrow> E' p t) \<Longrightarrow> wp m Q' E' s"
  by (simp add: wp_def split: prod.splits res.splits)

lemma wpD:
  assumes "wp m Q E s"
  shows "m s = (Ret x, t) \<Longrightarrow> Q x t" and "m s = (Panic p, t) \<Longrightarrow> E p t"
  using assms by (simp_all add: wp_def)

text \<open>Calling a function value that is nil panics in Go.\<close>

definition nilCall :: panic where
  "nilCall = PanicValue ''invalid memory address or nil pointer dereference''"

definition nilable :: "'f option \<Rightarrow> ('f \<Rightarrow> ('s, 'a) go) \<Rightarrow> ('s, 'a) go" where
  "nilable h k = (case h of None \<Rightarrow> panic nilCall | Some f \<Rightarrow> k f)"

lemma wp_nilable [wp]:
  "wp (nilable h k) Q E = (case h of None \<Rightarrow> E nilCall | Some f \<Rightarrow> wp (k f) Q E)"
  by (simp add: nilable_def wp_panic split: option.splits)

section \<open>Contexts\<close>

text \<open>
  What the code reads of a \<^verbatim>\<open>context.Context\<close>: whether \<^verbatim>\<open>Done()\<close> is nil (it can never
  be cancelled), \<^verbatim>\<open>Err()\<close>, and the values it carries.
\<close>

record go_context =
  ctx_doneNil :: bool
  ctx_Err :: err
  ctx_values :: "string \<Rightarrow> string option"

definition WithoutCancel :: "go_context \<Rightarrow> go_context" where
  "WithoutCancel c = c\<lparr>ctx_doneNil := True, ctx_Err := None\<rparr>"

section \<open>Lists\<close>

lemma filter_eq_single:
  assumes "filter P xs = [x]"
  shows "x \<in> set xs" "P x"
proof -
  have "x \<in> set (filter P xs)" by (simp add: assms)
  then show "x \<in> set xs" "P x" by simp_all
qed

end
