(* ===== verification/Handles.thy ===== *)
theory Handles
  imports Go_Prelude
begin

text \<open>
  The caller-owned native handles of \<^verbatim>\<open>pretrade\<close>: \<^verbatim>\<open>Request\<close>,
  \<^verbatim>\<open>Reservation\<close>, \<^verbatim>\<open>DropCopyOperation\<close> and \<^verbatim>\<open>DryRunReport\<close>.  A method is a
  function of the Go object that returns the new object and the calls it makes into the
  native library, in order; the library itself is not part of the sources.  The locale
  \<open>finalizable\<close> states what the two finalizable handles promise, and its lemmas give the
  at-most-once resolution and exactly-once release both inherit.
\<close>

type_synonym handle = nat

datatype native_call =
    PretradePreTradeRequestExecute handle
  | DestroyPretradePreTradeRequest handle
  | PretradePreTradeReservationCommit handle
  | PretradePreTradeReservationRollback handle
  | DestroyPretradePreTradeReservation handle
  | PretradeDropCopyOperationCommit handle
  | PretradeDropCopyOperationRollback handle
  | DestroyPretradeDropCopyOperation handle
  | DestroyPretradePreTradeDryRunReport handle

section \<open>Reservation\<close>

record reservation =
  res_handle :: "handle option"
  res_resolved :: bool

definition NewReservationFromHandle :: "handle option \<Rightarrow> reservation" where
  "NewReservationFromHandle h = \<lparr>res_handle = h, res_resolved = False\<rparr>"

definition Reservation_IsClosed :: "reservation \<Rightarrow> bool" where
  "Reservation_IsClosed r = (res_handle r = None)"

definition reservation_commit :: "reservation \<Rightarrow> reservation \<times> native_call list" where
  "reservation_commit r =
     (case res_handle r of
        None \<Rightarrow> (r, [])
      | Some h \<Rightarrow>
          if res_resolved r then (r, [])
          else (r\<lparr>res_resolved := True\<rparr>, [PretradePreTradeReservationCommit h]))"

definition reservation_rollback :: "reservation \<Rightarrow> reservation \<times> native_call list" where
  "reservation_rollback r =
     (case res_handle r of
        None \<Rightarrow> (r, [])
      | Some h \<Rightarrow>
          if res_resolved r then (r, [])
          else (r\<lparr>res_resolved := True\<rparr>, [PretradePreTradeReservationRollback h]))"

definition reservation_close :: "reservation \<Rightarrow> reservation \<times> native_call list" where
  "reservation_close r =
     (case res_handle r of
        None \<Rightarrow> (r, [])
      | Some h \<Rightarrow>
          (r\<lparr>res_handle := None, res_resolved := True\<rparr>,
           [DestroyPretradePreTradeReservation h]))"

section \<open>Drop-copy operation\<close>

record dropCopyOperation =
  op_handle :: "handle option"
  op_resolved :: bool

definition NewDropCopyOperationFromHandle :: "handle option \<Rightarrow> dropCopyOperation" where
  "NewDropCopyOperationFromHandle h = \<lparr>op_handle = h, op_resolved = False\<rparr>"

definition DropCopyOperation_IsClosed :: "dropCopyOperation \<Rightarrow> bool" where
  "DropCopyOperation_IsClosed o1 = (op_handle o1 = None)"

definition dropCopy_commit :: "dropCopyOperation \<Rightarrow> dropCopyOperation \<times> native_call list" where
  "dropCopy_commit o1 =
     (case op_handle o1 of
        None \<Rightarrow> (o1, [])
      | Some h \<Rightarrow>
          if op_resolved o1 then (o1, [])
          else (o1\<lparr>op_resolved := True\<rparr>, [PretradeDropCopyOperationCommit h]))"

definition dropCopy_rollback :: "dropCopyOperation \<Rightarrow> dropCopyOperation \<times> native_call list" where
  "dropCopy_rollback o1 =
     (case op_handle o1 of
        None \<Rightarrow> (o1, [])
      | Some h \<Rightarrow>
          if op_resolved o1 then (o1, [])
          else (o1\<lparr>op_resolved := True\<rparr>, [PretradeDropCopyOperationRollback h]))"

definition dropCopy_close :: "dropCopyOperation \<Rightarrow> dropCopyOperation \<times> native_call list" where
  "dropCopy_close o1 =
     (case op_handle o1 of
        None \<Rightarrow> (o1, [])
      | Some h \<Rightarrow>
          (o1\<lparr>op_handle := None, op_resolved := True\<rparr>,
           [DestroyPretradeDropCopyOperation h]))"

section \<open>Lifecycle calls\<close>

text \<open>
  The five lifecycle methods both handles export; \<open>lifecycle\<close> runs one given the three
  private methods of the object, \<open>lifecycles\<close> a whole sequence of them.
\<close>

datatype lifecycle_op = Commit | CommitAndClose | Rollback | RollbackAndClose | Close

definition seq2 :: "('o \<Rightarrow> 'o \<times> 'n list) \<Rightarrow> ('o \<Rightarrow> 'o \<times> 'n list) \<Rightarrow> 'o \<Rightarrow> 'o \<times> 'n list" where
  "seq2 f g x = (case f x of (y, a) \<Rightarrow> (case g y of (z, b) \<Rightarrow> (z, a @ b)))"

lemma seq2_simps [simp]:
  "fst (seq2 f g x) = fst (g (fst (f x)))"
  "snd (seq2 f g x) = snd (f x) @ snd (g (fst (f x)))"
  by (simp_all add: seq2_def split: prod.splits)

lemma seq2_idle: "f x = (x, []) \<Longrightarrow> g x = (x, []) \<Longrightarrow> seq2 f g x = (x, [])"
  by (simp add: seq2_def)

fun lifecycle ::
  "('o \<Rightarrow> 'o \<times> 'n list) \<Rightarrow> ('o \<Rightarrow> 'o \<times> 'n list) \<Rightarrow> ('o \<Rightarrow> 'o \<times> 'n list) \<Rightarrow>
   lifecycle_op \<Rightarrow> 'o \<Rightarrow> 'o \<times> 'n list" where
  "lifecycle com rb cl Commit = com"
| "lifecycle com rb cl CommitAndClose = seq2 com cl"
| "lifecycle com rb cl Rollback = rb"
| "lifecycle com rb cl RollbackAndClose = seq2 rb cl"
| "lifecycle com rb cl Close = cl"

fun lifecycles ::
  "(lifecycle_op \<Rightarrow> 'o \<Rightarrow> 'o \<times> 'n list) \<Rightarrow> lifecycle_op list \<Rightarrow> 'o \<Rightarrow> 'o \<times> 'n list" where
  "lifecycles f [] x = (x, [])"
| "lifecycles f (p # ps) x = seq2 (f p) (lifecycles f ps) x"

fun closing :: "lifecycle_op \<Rightarrow> bool" where
  "closing Commit = False"
| "closing Rollback = False"
| "closing _ = True"

definition Reservation_call :: "lifecycle_op \<Rightarrow> reservation \<Rightarrow> reservation \<times> native_call list" where
  "Reservation_call = lifecycle reservation_commit reservation_rollback reservation_close"

definition DropCopyOperation_call ::
  "lifecycle_op \<Rightarrow> dropCopyOperation \<Rightarrow> dropCopyOperation \<times> native_call list" where
  "DropCopyOperation_call = lifecycle dropCopy_commit dropCopy_rollback dropCopy_close"

section \<open>The finalizable-handle contract\<close>

locale finalizable =
  fixes com :: "'o \<Rightarrow> 'o \<times> 'n list"
    and rb :: "'o \<Rightarrow> 'o \<times> 'n list"
    and cl :: "'o \<Rightarrow> 'o \<times> 'n list"
    and hnd :: "'o \<Rightarrow> handle option"
    and resolved :: "'o \<Rightarrow> bool"
    and ncom :: "handle \<Rightarrow> 'n"
    and nrb :: "handle \<Rightarrow> 'n"
    and ncl :: "handle \<Rightarrow> 'n"
  assumes idle: "hnd x = None \<Longrightarrow> com x = (x, []) \<and> rb x = (x, []) \<and> cl x = (x, [])"
    and settled: "resolved x \<Longrightarrow> com x = (x, []) \<and> rb x = (x, [])"
    and com_live: "hnd x = Some h \<Longrightarrow> \<not> resolved x \<Longrightarrow>
        snd (com x) = [ncom h] \<and> hnd (fst (com x)) = Some h \<and> resolved (fst (com x))"
    and rb_live: "hnd x = Some h \<Longrightarrow> \<not> resolved x \<Longrightarrow>
        snd (rb x) = [nrb h] \<and> hnd (fst (rb x)) = Some h \<and> resolved (fst (rb x))"
    and cl_live: "hnd x = Some h \<Longrightarrow>
        snd (cl x) = [ncl h] \<and> hnd (fst (cl x)) = None \<and> resolved (fst (cl x))"
begin

text \<open>The decision a sequence of calls makes: the first resolving call wins.\<close>

fun decision :: "lifecycle_op list \<Rightarrow> (handle \<Rightarrow> 'n) option" where
  "decision [] = None"
| "decision (Close # ps) = None"
| "decision (Commit # ps) = Some ncom"
| "decision (CommitAndClose # ps) = Some ncom"
| "decision (Rollback # ps) = Some nrb"
| "decision (RollbackAndClose # ps) = Some nrb"

definition expected :: "lifecycle_op list \<Rightarrow> handle \<Rightarrow> 'n list" where
  "expected ps h =
     (case decision ps of None \<Rightarrow> [] | Some f \<Rightarrow> [f h]) @
     (if list_ex closing ps then [ncl h] else [])"

lemma lifecycle_idle: "hnd x = None \<Longrightarrow> lifecycle com rb cl p x = (x, [])"
  using idle [of x] by (cases p) (simp_all add: seq2_idle)

lemma lifecycles_idle: "hnd x = None \<Longrightarrow> lifecycles (lifecycle com rb cl) ps x = (x, [])"
  by (induction ps) (simp_all add: seq2_idle lifecycle_idle)

lemma lifecycle_settled:
  assumes "hnd x = Some h" "resolved x"
  shows "snd (lifecycle com rb cl p x) = (if closing p then [ncl h] else [])"
    "hnd (fst (lifecycle com rb cl p x)) = (if closing p then None else Some h)"
    "resolved (fst (lifecycle com rb cl p x))"
  using assms settled [of x] cl_live [of x h]
  by (cases p; simp)+

lemma lifecycles_settled:
  "hnd x = Some h \<Longrightarrow> resolved x \<Longrightarrow>
     snd (lifecycles (lifecycle com rb cl) ps x) = (if list_ex closing ps then [ncl h] else [])
   \<and> hnd (fst (lifecycles (lifecycle com rb cl) ps x)) =
       (if list_ex closing ps then None else Some h)"
proof (induction ps arbitrary: x)
  case Nil
  then show ?case by simp
next
  case (Cons p ps)
  obtain y a where y: "lifecycle com rb cl p x = (y, a)" by fastforce
  note step = lifecycle_settled [OF Cons.prems, of p, unfolded y fst_conv snd_conv]
  show ?case
  proof (cases "closing p")
    case True
    with step y show ?thesis by (simp add: lifecycles_idle)
  next
    case False
    with step Cons.IH [of y] y show ?thesis by simp
  qed
qed

lemma lifecycle_open:
  assumes "hnd x = Some h" "\<not> resolved x"
  shows "snd (lifecycle com rb cl p x) = expected [p] h"
    "hnd (fst (lifecycle com rb cl p x)) = (if closing p then None else Some h)"
    "resolved (fst (lifecycle com rb cl p x))"
proof -
  have c: "snd (cl (fst (com x))) = [ncl h] \<and> hnd (fst (cl (fst (com x)))) = None
      \<and> resolved (fst (cl (fst (com x))))"
    using com_live [OF assms] cl_live by blast
  have r: "snd (cl (fst (rb x))) = [ncl h] \<and> hnd (fst (cl (fst (rb x)))) = None
      \<and> resolved (fst (cl (fst (rb x))))"
    using rb_live [OF assms] cl_live by blast
  note facts = c r com_live [OF assms] rb_live [OF assms] cl_live [OF assms(1)]
  show "snd (lifecycle com rb cl p x) = expected [p] h"
    using facts by (cases p) (simp_all add: expected_def)
  show "hnd (fst (lifecycle com rb cl p x)) = (if closing p then None else Some h)"
    using facts by (cases p) simp_all
  show "resolved (fst (lifecycle com rb cl p x))"
    using facts by (cases p) simp_all
qed

text \<open>
  Every sequence of lifecycle calls on a live handle makes at most one resolving call, the
  one of the first resolving method, then at most one release, and the object is closed
  exactly when a closing method was among them.
\<close>

lemma lifecycles_live:
  assumes "hnd x = Some h" "\<not> resolved x"
  shows "snd (lifecycles (lifecycle com rb cl) ps x) = expected ps h
    \<and> hnd (fst (lifecycles (lifecycle com rb cl) ps x)) =
        (if list_ex closing ps then None else Some h)"
proof (cases ps)
  case Nil
  with assms show ?thesis by (simp add: expected_def)
next
  case (Cons p qs)
  obtain y a where y: "lifecycle com rb cl p x = (y, a)" by fastforce
  note step = lifecycle_open [OF assms, of p, unfolded y fst_conv snd_conv]
  show ?thesis
  proof (cases "closing p")
    case True
    with step y Cons show ?thesis
      by (cases p) (simp_all add: lifecycles_idle expected_def)
  next
    case False
    with step lifecycles_settled [of y h qs] y Cons show ?thesis
      by (cases p) (simp_all add: expected_def)
  qed
qed

end

lemmas reservation_method_defs =
  reservation_commit_def reservation_rollback_def reservation_close_def
lemmas dropCopy_method_defs = dropCopy_commit_def dropCopy_rollback_def dropCopy_close_def

interpretation resv: finalizable reservation_commit reservation_rollback reservation_close
  res_handle res_resolved PretradePreTradeReservationCommit PretradePreTradeReservationRollback
  DestroyPretradePreTradeReservation
  by unfold_locales (auto simp: reservation_method_defs split: option.splits)

interpretation drop: finalizable dropCopy_commit dropCopy_rollback dropCopy_close
  op_handle op_resolved PretradeDropCopyOperationCommit PretradeDropCopyOperationRollback
  DestroyPretradeDropCopyOperation
  by unfold_locales (auto simp: dropCopy_method_defs split: option.splits)

section \<open>Request and dry-run report\<close>

record request =
  req_handle :: "handle option"

definition NewRequestFromHandle :: "handle option \<Rightarrow> request" where
  "NewRequestFromHandle h = \<lparr>req_handle = h\<rparr>"

definition Request_IsClosed :: "request \<Rightarrow> bool" where
  "Request_IsClosed r = (req_handle r = None)"

definition Request_Close :: "request \<Rightarrow> request \<times> native_call list" where
  "Request_Close r =
     (case req_handle r of
        None \<Rightarrow> (r, [])
      | Some h \<Rightarrow> (r\<lparr>req_handle := None\<rparr>, [DestroyPretradePreTradeRequest h]))"

record dryRunReport =
  rep_handle :: "handle option"

definition NewDryRunReportFromHandle :: "handle option \<Rightarrow> dryRunReport" where
  "NewDryRunReportFromHandle h = \<lparr>rep_handle = h\<rparr>"

definition DryRunReport_IsClosed :: "dryRunReport \<Rightarrow> bool" where
  "DryRunReport_IsClosed r = (rep_handle r = None)"

definition DryRunReport_Close :: "dryRunReport \<Rightarrow> dryRunReport \<times> native_call list" where
  "DryRunReport_Close r =
     (case rep_handle r of
        None \<Rightarrow> (r, [])
      | Some h \<Rightarrow> (r\<lparr>rep_handle := None\<rparr>, [DestroyPretradePreTradeDryRunReport h]))"

section \<open>Properties\<close>

definition first_resolving :: "lifecycle_op list \<Rightarrow> lifecycle_op option" where
  "first_resolving ps = (case ps of [] \<Rightarrow> None | p # _ \<Rightarrow> if p = Close then None else Some p)"

text \<open>
  Whatever sequence of \<^verbatim>\<open>Commit\<close>, \<^verbatim>\<open>Rollback\<close>, \<^verbatim>\<open>Close\<close> and their
  combinations a caller applies to a live reservation, the native library sees at most one
  resolving call (a commit exactly when the first call of the sequence was a committing
  one, a rollback exactly when it was a rolling-back one), then at most one release, made
  exactly when some call closes; nothing follows the release.
\<close>

lemma reservation_resolved_once:
  "snd (lifecycles Reservation_call ps (NewReservationFromHandle (Some h))) =
     (case first_resolving ps of
        None \<Rightarrow> []
      | Some p \<Rightarrow> if p = Commit \<or> p = CommitAndClose
          then [PretradePreTradeReservationCommit h]
          else [PretradePreTradeReservationRollback h]) @
     (if list_ex closing ps then [DestroyPretradePreTradeReservation h] else [])
   \<and> Reservation_IsClosed (fst (lifecycles Reservation_call ps (NewReservationFromHandle (Some h))))
       = list_ex closing ps"
proof -
  have "\<not> res_resolved (NewReservationFromHandle (Some h))"
    "res_handle (NewReservationFromHandle (Some h)) = Some h"
    by (simp_all add: NewReservationFromHandle_def)
  from resv.lifecycles_live [OF this(2) this(1), of ps]
  show ?thesis
    by (cases ps rule: resv.decision.cases)
      (simp_all add: Reservation_call_def resv.expected_def first_resolving_def
        Reservation_IsClosed_def)
qed

text \<open>The same holds for drop-copy operations, with their own native calls.\<close>

lemma dropCopy_resolved_once:
  "snd (lifecycles DropCopyOperation_call ps (NewDropCopyOperationFromHandle (Some h))) =
     (case first_resolving ps of
        None \<Rightarrow> []
      | Some p \<Rightarrow> if p = Commit \<or> p = CommitAndClose
          then [PretradeDropCopyOperationCommit h]
          else [PretradeDropCopyOperationRollback h]) @
     (if list_ex closing ps then [DestroyPretradeDropCopyOperation h] else [])
   \<and> DropCopyOperation_IsClosed
       (fst (lifecycles DropCopyOperation_call ps (NewDropCopyOperationFromHandle (Some h))))
       = list_ex closing ps"
proof -
  have "\<not> op_resolved (NewDropCopyOperationFromHandle (Some h))"
    "op_handle (NewDropCopyOperationFromHandle (Some h)) = Some h"
    by (simp_all add: NewDropCopyOperationFromHandle_def)
  from drop.lifecycles_live [OF this(2) this(1), of ps]
  show ?thesis
    by (cases ps rule: drop.decision.cases)
      (simp_all add: DropCopyOperation_call_def drop.expected_def first_resolving_def
        DropCopyOperation_IsClosed_def)
qed

end
