(* ===== verification/Routing.thy ===== *)
theory Routing
  imports Go_Prelude "HOL-Library.Word"
begin

unbundle bit_operations_syntax

text \<open>
  Routing keys (\<^verbatim>\<open>asyncengine/strategy.go\<close>, \<^verbatim>\<open>engine.go\<close>,
  \<^verbatim>\<open>exclusive.go\<close>) and the shard choice of the Sharded strategy
  (\<^verbatim>\<open>asyncengine/sharded.go\<close>), with Go's \<^verbatim>\<open>uint64\<close> arithmetic kept at its width.
\<close>

text \<open>\<^verbatim>\<open>param.AccountID\<close> wraps a native \<^verbatim>\<open>uint64\<close>, the group ID a \<^verbatim>\<open>uint32\<close>
  and whether the value was ever constructed.\<close>

type_synonym accountID = "64 word"

record accountGroupID =
  grp_native :: "32 word"
  grp_initialized :: bool

datatype routingKeyKind =
  routingKeyAccount | routingKeyAccountGroup | routingKeyEngineWide | routingKeyExclusive

text \<open>The numeric value of the \<^verbatim>\<open>iota\<close> constants.\<close>

primrec kindValue :: "routingKeyKind \<Rightarrow> 64 word" where
  "kindValue routingKeyAccount = 0"
| "kindValue routingKeyAccountGroup = 1"
| "kindValue routingKeyEngineWide = 2"
| "kindValue routingKeyExclusive = 3"

record routingKey =
  rk_kind :: routingKeyKind
  rk_id :: "64 word"

definition accountRoutingKey :: "accountID \<Rightarrow> routingKey" where
  "accountRoutingKey a = \<lparr>rk_kind = routingKeyAccount, rk_id = a\<rparr>"

definition groupRoutingKey :: "accountGroupID \<Rightarrow> routingKey" where
  "groupRoutingKey g = \<lparr>rk_kind = routingKeyAccountGroup, rk_id = ucast (grp_native g)\<rparr>"

definition engineWideRoutingKey :: routingKey where
  "engineWideRoutingKey = \<lparr>rk_kind = routingKeyEngineWide, rk_id = 0\<rparr>"

definition exclusiveRoutingKey :: routingKey where
  "exclusiveRoutingKey = \<lparr>rk_kind = routingKeyExclusive, rk_id = 0\<rparr>"

definition observerAccountID :: "routingKey \<Rightarrow> accountID" where
  "observerAccountID k = rk_id k"

definition validateAccountGroupID :: "accountGroupID \<Rightarrow> err" where
  "validateAccountGroupID g =
     (if \<not> grp_initialized g then Some (Sentinel ErrUninitializedAccountGroupID) else None)"

section \<open>Shard choice\<close>

definition fibonacciHashMultiplier :: "64 word" where
  "fibonacciHashMultiplier = 11400714819323198485"

definition routingKindHashMultiplier :: "64 word" where
  "routingKindHashMultiplier = 15485907386658061715"

text \<open>\<^verbatim>\<open>bits.Mul64\<close>: the high and low halves of the 128-bit product.\<close>

definition Mul64 :: "64 word \<Rightarrow> 64 word \<Rightarrow> 64 word \<times> 64 word" where
  "Mul64 x y = (word_of_nat (unat x * unat y div 2 ^ 64), x * y)"

definition shardHash :: "routingKey \<Rightarrow> 64 word" where
  "shardHash key =
     (rk_id key * fibonacciHashMultiplier) XOR (kindValue (rk_kind key) * routingKindHashMultiplier)"

definition shardIndex :: "nat \<Rightarrow> routingKey \<Rightarrow> nat" where
  "shardIndex n key = (case Mul64 (shardHash key) (word_of_nat n) of (hi, _) \<Rightarrow> unat hi)"

text \<open>Indexing a Go slice out of range panics, which is \<open>None\<close> here.\<close>

definition shardFor :: "'q list \<Rightarrow> routingKey \<Rightarrow> 'q option" where
  "shardFor shards key =
     (let hi = shardIndex (length shards) key
      in if hi < length shards then Some (shards ! hi) else None)"

section \<open>Keys\<close>

text \<open>
  Distinct accounts, distinct (initialized) groups, the engine-wide lane and the
  section barrier never share a routing key, so the per-key serialization of one lane never
  comes from a collision of identifiers.
\<close>

lemma routing_keys_distinct:
  "(accountRoutingKey a = accountRoutingKey b \<longleftrightarrow> a = b)
   \<and> (groupRoutingKey g = groupRoutingKey h \<longleftrightarrow> grp_native g = grp_native h)
   \<and> distinct [accountRoutingKey a, groupRoutingKey g, engineWideRoutingKey, exclusiveRoutingKey]"
proof -
  have "ucast (grp_native g) = (ucast (grp_native h) :: 64 word) \<longleftrightarrow> grp_native g = grp_native h"
  proof
    assume "ucast (grp_native g) = (ucast (grp_native h) :: 64 word)"
    then have "(ucast (ucast (grp_native g) :: 64 word) :: 32 word)
        = ucast (ucast (grp_native h) :: 64 word)" by simp
    then show "grp_native g = grp_native h" by (simp add: unsigned_ucast_eq take_bit_word_eq_self)
  qed simp
  then show ?thesis
    by (simp add: accountRoutingKey_def groupRoutingKey_def engineWideRoutingKey_def
        exclusiveRoutingKey_def)
qed

section \<open>Balance of the shard choice\<close>

text \<open>Multiplication by the odd constant is undone by its inverse modulo \<open>2 ^ 64\<close>.\<close>

definition fibonacciInverse :: "64 word" where
  "fibonacciInverse = 17428512612931826493"

lemma fibonacci_inverse: "fibonacciHashMultiplier * fibonacciInverse = 1"
  by (simp add: fibonacciHashMultiplier_def fibonacciInverse_def)

lemma mult_fibonacci_cancel:
  "x * fibonacciHashMultiplier * fibonacciInverse = x"
  "x * fibonacciInverse * fibonacciHashMultiplier = x"
proof -
  have "fibonacciInverse * fibonacciHashMultiplier = 1"
    by (subst mult.commute) (rule fibonacci_inverse)
  then show "x * fibonacciInverse * fibonacciHashMultiplier = x"
    by (simp add: mult.assoc)
  show "x * fibonacciHashMultiplier * fibonacciInverse = x"
    by (simp add: mult.assoc fibonacci_inverse)
qed

lemma bij_hash: "bij (\<lambda>i. shardHash \<lparr>rk_kind = k, rk_id = i\<rparr>)"
proof (rule bijI)
  let ?c = "kindValue k * routingKindHashMultiplier"
  show "inj (\<lambda>i. shardHash \<lparr>rk_kind = k, rk_id = i\<rparr>)"
  proof (rule injI)
    fix x y assume "shardHash \<lparr>rk_kind = k, rk_id = x\<rparr> = shardHash \<lparr>rk_kind = k, rk_id = y\<rparr>"
    then have "(x * fibonacciHashMultiplier XOR ?c) XOR ?c
        = (y * fibonacciHashMultiplier XOR ?c) XOR ?c"
      by (simp add: shardHash_def)
    then have "x * fibonacciHashMultiplier = y * fibonacciHashMultiplier"
      by (simp add: xor.assoc)
    then have "x * fibonacciHashMultiplier * fibonacciInverse
        = y * fibonacciHashMultiplier * fibonacciInverse" by simp
    then show "x = y" by (simp only: mult_fibonacci_cancel)
  qed
  show "surj (\<lambda>i. shardHash \<lparr>rk_kind = k, rk_id = i\<rparr>)"
  proof (rule surjI)
    fix h :: "64 word"
    show "shardHash \<lparr>rk_kind = k, rk_id = (h XOR ?c) * fibonacciInverse\<rparr> = h"
      by (simp add: shardHash_def mult_fibonacci_cancel xor.assoc)
  qed
qed

lemma unat_word_of_nat: "m < 2 ^ 64 \<Longrightarrow> unat (word_of_nat m :: 64 word) = m"
  by (simp add: unsigned_of_nat take_bit_nat_eq_self)

lemma shardIndex_eq:
  assumes "0 < n" "n < 2 ^ 64"
  shows "shardIndex n key = unat (shardHash key) * n div 2 ^ 64"
proof -
  have n: "unat (word_of_nat n :: 64 word) = n"
    using assms by (simp add: unat_word_of_nat)
  have "unat (shardHash key) < 2 ^ 64"
    using unsigned_less [of "shardHash key"] by simp
  then have "unat (shardHash key) * n < n * 2 ^ 64" using assms by simp
  then have "unat (shardHash key) * n div 2 ^ 64 < n" by (rule less_mult_imp_div_less)
  then have "unat (shardHash key) * n div 2 ^ 64 < 2 ^ 64" using assms by linarith
  then show ?thesis
    by (simp only: shardIndex_def Mul64_def n prod.case) (simp add: unat_word_of_nat)
qed

lemma shardIndex_bound:
  assumes "0 < n" "n < 2 ^ 64"
  shows "shardIndex n key < n"
proof -
  have "unat (shardHash key) < 2 ^ 64"
    using unsigned_less [of "shardHash key"] by simp
  with assms have "unat (shardHash key) * n < n * 2 ^ 64" by simp
  then show ?thesis
    using assms by (simp only: shardIndex_eq) (simp add: less_mult_imp_div_less)
qed

text \<open>Integers whose scaled high half is \<open>i\<close> form an interval between two ceilings.\<close>

lemma scaled_interval:
  fixes M n h i :: nat
  assumes "0 < n" "0 < M"
  shows "h * n div M = i \<longleftrightarrow> (i * M + n - 1) div n \<le> h \<and> h < (Suc i * M + n - 1) div n"
proof -
  have ceil: "(c + n - 1) div n \<le> h \<longleftrightarrow> c \<le> h * n" for c
  proof -
    have "(c + n - 1) div n \<le> h \<longleftrightarrow> c + n - 1 < Suc h * n"
      using assms by (metis div_less_iff_less_mult less_Suc_eq_le)
    also have "\<dots> \<longleftrightarrow> c \<le> h * n" using assms by auto
    finally show ?thesis .
  qed
  have "h * n div M = i \<longleftrightarrow> i * M \<le> h * n \<and> h * n < Suc i * M"
    using assms by (metis div_less_iff_less_mult div_nat_eqI less_eq_div_iff_mult_less_eq
        less_Suc_eq_le mult.commute order_refl)
  then show ?thesis using ceil [of "i * M"] ceil [of "Suc i * M"] by linarith
qed

lemma ceiling_gap:
  fixes M n i :: nat
  assumes "0 < n"
  defines "g \<equiv> (Suc i * M + n - 1) div n - (i * M + n - 1) div n"
  shows "g = M div n \<or> g = Suc (M div n)"
proof -
  define X where "X = i * M + n - 1"
  have "Suc i * M + n - 1 = (X + M mod n) + (M div n) * n"
    using assms(1) div_mult_mod_eq [of M n] unfolding X_def mult_Suc by linarith
  then have b: "(Suc i * M + n - 1) div n = M div n + (X + M mod n) div n"
    using assms(1) by (simp only: div_mult_self1)
  have "X div n \<le> (X + M mod n) div n" by (simp add: div_le_mono)
  moreover have "(X + M mod n) div n \<le> (X + 1 * n) div n"
    using assms(1) by (simp only: mult_1) (simp add: div_le_mono less_imp_le del: div_add_self2)
  ultimately have "(X + M mod n) div n = X div n \<or> (X + M mod n) div n = Suc (X div n)"
    using div_mult_self1 [of n X 1] assms(1) by linarith
  with b show ?thesis unfolding g_def X_def [symmetric] by auto
qed

lemma card_words_unat:
  assumes "b \<le> 2 ^ 64"
  shows "card {h :: 64 word. a \<le> unat h \<and> unat h < b} = b - a"
proof -
  have "unat ` {h :: 64 word. a \<le> unat h \<and> unat h < b} = {a..<b}"
  proof (rule set_eqI, rule iffI)
    fix m assume "m \<in> {a..<b}"
    with assms have "m = unat (word_of_nat m :: 64 word)" "a \<le> m" "m < b"
      by (simp_all add: unat_word_of_nat)
    then show "m \<in> unat ` {h :: 64 word. a \<le> unat h \<and> unat h < b}" by auto
  qed auto
  then show ?thesis
    using card_image [of unat "{h :: 64 word. a \<le> unat h \<and> unat h < b}"]
    by (simp add: inj_on_def unsigned_word_eqI)
qed

text \<open>
  C1: shard choice is safe and balanced.  For every positive number of shards below
  \<open>2 ^ 64\<close> the slice index is in range (\<^verbatim>\<open>shardFor\<close> never panics), and for each
  routing kind every shard is the target of either \<open>2 ^ 64 div n\<close> or one more of the
  \<open>2 ^ 64\<close> identifiers.
\<close>

theorem shard_choice_balanced:
  assumes "0 < n" "n < 2 ^ 64" "i < n"
  shows "shardIndex n key < n \<and>
    card {ident. shardIndex n \<lparr>rk_kind = k, rk_id = ident\<rparr> = i}
      \<in> {2 ^ 64 div n, Suc (2 ^ 64 div n)}"
proof -
  let ?load = "card {ident. shardIndex n \<lparr>rk_kind = k, rk_id = ident\<rparr> = i}"
  let ?a = "(i * 2 ^ 64 + n - 1) div n" and ?b = "(Suc i * 2 ^ 64 + n - 1) div n"
  let ?f = "\<lambda>ident. shardHash \<lparr>rk_kind = k, rk_id = ident\<rparr>"
  have "{ident. shardIndex n \<lparr>rk_kind = k, rk_id = ident\<rparr> = i}
      = ?f -` {h. ?a \<le> unat h \<and> unat h < ?b}"
    unfolding shardIndex_eq [OF assms(1,2)] vimage_def mem_Collect_eq
    by (rule Collect_cong, rule scaled_interval [OF assms(1)]) simp
  then have "?load = card {h :: 64 word. ?a \<le> unat h \<and> unat h < ?b}"
    using bij_hash [of k] by (simp only: card_vimage_inj bij_def subset_UNIV)
  moreover have "?b \<le> 2 ^ 64"
  proof -
    have "Suc i * 2 ^ 64 \<le> n * 2 ^ 64" using assms(3) by (intro mult_right_mono) simp_all
    then have "Suc i * 2 ^ 64 + n - 1 \<le> (n - 1) + 2 ^ 64 * n"
      using assms(1) by (simp only: mult.commute [of "2 ^ 64" n])
    then have "?b \<le> ((n - 1) + 2 ^ 64 * n) div n" by (rule div_le_mono)
    then show ?thesis using div_mult_self1 [of n "n - 1" "2 ^ 64"] assms(1) by simp
  qed
  ultimately have "?load = ?b - ?a" by (simp add: card_words_unat)
  then show ?thesis
    using ceiling_gap [OF assms(1), of i "2 ^ 64"] shardIndex_bound [OF assms(1,2)] by auto
qed

theorem shard_choice_balanced_witness:
  "shardIndex 3 (accountRoutingKey 7) < 3 \<and>
   card {ident. shardIndex 3 \<lparr>rk_kind = routingKeyAccount, rk_id = ident\<rparr> = 2}
     \<in> {6148914691236517205, 6148914691236517206}"
  using shard_choice_balanced [of 3 2 "accountRoutingKey 7" routingKeyAccount] by simp

end
