(* ===== verification/World.thy ===== *)
theory World
  imports Handles Routing
begin

text \<open>
  The state the asynchronous facade works on: the heap of Go handle objects, a history of
  every call that crosses the driver, native or hook boundary, and the environment behind
  those boundaries.  What lies behind them (the wrapped engine, the native library, caller
  hooks) is not part of the sources: it is the record \<open>boundary\<close>, a parameter of every
  definition that crosses it.  Payloads the facade only passes on are opaque tokens.
\<close>

section \<open>Values passed through\<close>

type_synonym ptr = nat
type_synonym lock = "8 word list"
type_synonym adjustment = nat
type_synonym adjustmentOutcome = nat
type_synonym accountPnlOutcome = nat
type_synonym asset = string
type_synonym pnlState = nat

record reject =
  rj_Reason :: string
  rj_Details :: string
  rj_Policy :: string
  rj_UserData :: "64 word"
  rj_Code :: nat
  rj_Scope :: nat

record accountBlock =
  ab_Reason :: string
  ab_Details :: string
  ab_Policy :: string
  ab_UserData :: "64 word"
  ab_Code :: nat

text \<open>Of an order or report the facade reads only the operation's account; \<open>*_rest\<close>
  stands for the other fields.\<close>

record orderOperation =
  oo_accountID :: "accountID option"
  oo_rest :: nat

record order =
  ord_operation :: "orderOperation option"
  ord_rest :: nat

record executionReport =
  er_operation :: "orderOperation option"
  er_rest :: nat

record postTradeResult =
  ptr_AccountBlocks :: "accountBlock list"
  ptr_AccountPnls :: "accountPnlOutcome list"
  ptr_AccountAdjustments :: "adjustmentOutcome list"

record batchResult =
  br_BatchError :: "(reject list \<times> nat) option"
  br_Outcomes :: "adjustmentOutcome list"
  br_AccountBlocks :: "accountBlock list"

definition zeroPostTradeResult :: postTradeResult where
  "zeroPostTradeResult =
     \<lparr>ptr_AccountBlocks = [], ptr_AccountPnls = [], ptr_AccountAdjustments = []\<rparr>"

definition zeroBatchResult :: batchResult where
  "zeroBatchResult = \<lparr>br_BatchError = None, br_Outcomes = [], br_AccountBlocks = []\<rparr>"

definition extractOrderAccountID :: "order \<Rightarrow> go_error + accountID" where
  "extractOrderAccountID o1 =
     (case ord_operation o1 of
        None \<Rightarrow> Inl (Sentinel ErrMissingAccountID)
      | Some op \<Rightarrow>
         (case oo_accountID op of
            None \<Rightarrow> Inl (Sentinel ErrMissingAccountID)
          | Some a \<Rightarrow> Inr a))"

definition extractReportAccountID :: "executionReport \<Rightarrow> go_error + accountID" where
  "extractReportAccountID r =
     (case er_operation r of
        None \<Rightarrow> Inl (Sentinel ErrMissingAccountID)
      | Some op \<Rightarrow>
         (case oo_accountID op of
            None \<Rightarrow> Inl (Sentinel ErrMissingAccountID)
          | Some a \<Rightarrow> Inr a))"

section \<open>Boundary calls\<close>

datatype driver_call =
    DStartPreTrade order | DExecutePreTrade order | DExecutePreTradeDryRun order
  | DApplyDropCopy order | DApplyExecutionReport executionReport
  | DApplyAccountAdjustment accountID "adjustment list" | DRetireAccount accountID
  | DGroupOf accountID | DBlock accountID string | DBlockWithCause accountID accountBlock
  | DUnblock accountID | DUnblockAll | DReplaceBlockReason accountID string
  | DBlockGroup accountGroupID string | DUnblockGroup accountGroupID
  | DReplaceGroupBlockReason accountGroupID string
  | DSetCurrency accountID asset | DClearCurrency accountID
  | DSetSpotFundsAccountPnl string accountID pnlState

text \<open>
  The calls \<^verbatim>\<open>driver.go\<close> documents as potentially state-changing whatever they return:
  all but the dry run and the group lookup.
\<close>

fun mutating :: "driver_call \<Rightarrow> bool" where
  "mutating (DExecutePreTradeDryRun _) = False"
| "mutating (DGroupOf _) = False"
| "mutating _ = True"

datatype hook =
    HBegin | HThen | HOnRejected | HOnReserved | HOnApplied | HOnChecked | HReport | HOnSettled
  | HAdjustments | HOnAdjusted | HReason | HOnBlocked | HOnUnblocked | HCurrency | HOnSet
  | HOnCleared | HAssignment | HFinally | HSubmitted

text \<open>
  The history also records each live handle a driver hands over (\<open>EvOpen*\<close>) and each call
  of a future's \<^verbatim>\<open>Resolve\<close>.
\<close>

datatype event =
    EvNative native_call
  | EvDriver driver_call
  | EvHook hook
  | EvResolve nat
  | EvOpenRequest handle
  | EvOpenReservation handle
  | EvOpenOperation handle
  | EvOpenReport handle

text \<open>
  The driver interface (\<^verbatim>\<open>asyncengine/driver.go\<close>, with the account and configuration
  surfaces it returns), the native library's void calls, its main-stage execution and its
  read accessors.  A driver hands back freshly created handle objects, possibly already
  closed, and may panic.
\<close>

datatype c_status = StatusPassed | StatusRejected | StatusError | StatusOther nat

record 'e boundary =
  drv_StartPreTrade :: "order \<Rightarrow> ('e, request option \<times> reject list \<times> err) go"
  drv_ExecutePreTrade :: "order \<Rightarrow> ('e, reservation option \<times> reject list \<times> err) go"
  drv_ExecutePreTradeDryRun :: "order \<Rightarrow> ('e, dryRunReport option \<times> err) go"
  drv_ApplyDropCopy :: "order \<Rightarrow> ('e, dropCopyOperation option \<times> reject list \<times> err) go"
  drv_ApplyExecutionReport :: "executionReport \<Rightarrow> ('e, postTradeResult \<times> err) go"
  drv_ApplyAccountAdjustment :: "accountID \<Rightarrow> adjustment list \<Rightarrow> ('e, batchResult \<times> err) go"
  drv_GroupOf :: "accountID \<Rightarrow> ('e, accountGroupID option) go"
  drv_void :: "driver_call \<Rightarrow> ('e, unit) go"
  drv_fallible :: "driver_call \<Rightarrow> ('e, err) go"
  drv_SetSpotFundsAccountPnl ::
    "string \<Rightarrow> accountID \<Rightarrow> pnlState \<Rightarrow> ('e, accountBlock list \<times> err) go"
  nat_void :: "native_call \<Rightarrow> 'e \<Rightarrow> 'e"
  c_request_execute :: "handle \<Rightarrow> 'e \<Rightarrow> (c_status \<times> handle option \<times> reject list option \<times> string) \<times> 'e"
  nat_IsPass :: "handle \<Rightarrow> 'e \<Rightarrow> bool"
  nat_Rejects :: "handle \<Rightarrow> 'e \<Rightarrow> reject list"
  nat_Lock :: "handle \<Rightarrow> 'e \<Rightarrow> lock"
  nat_AccountAdjustments :: "handle \<Rightarrow> 'e \<Rightarrow> adjustmentOutcome list"
  nat_AccountBlocks :: "handle \<Rightarrow> 'e \<Rightarrow> accountBlock list"
  nat_IsAccountBlocked :: "handle \<Rightarrow> 'e \<Rightarrow> bool"

section \<open>The world\<close>

record 'e world =
  requests :: "ptr \<Rightarrow> request"
  reservations :: "ptr \<Rightarrow> reservation"
  operations :: "ptr \<Rightarrow> dropCopyOperation"
  reports :: "ptr \<Rightarrow> dryRunReport"
  nextPtr :: ptr
  history :: "event list"
  env :: 'e

definition emit :: "event \<Rightarrow> (('e, 'z) world_scheme, unit) go" where
  "emit ev = modify (\<lambda>w. w\<lparr>history := history w @ [ev]\<rparr>)"

definition onEnv :: "('e, 'a) go \<Rightarrow> (('e, 'z) world_scheme, 'a) go" where
  "onEnv m w = (case m (env w) of (r, e) \<Rightarrow> (r, w\<lparr>env := e\<rparr>))"

definition callDriver :: "driver_call \<Rightarrow> ('e, 'a) go \<Rightarrow> (('e, 'z) world_scheme, 'a) go" where
  "callDriver c m = bind (emit (EvDriver c)) (\<lambda>_. onEnv m)"

definition callHook :: "hook \<Rightarrow> ('e, 'a) go \<Rightarrow> (('e, 'z) world_scheme, 'a) go" where
  "callHook h m = bind (emit (EvHook h)) (\<lambda>_. onEnv m)"

definition natives ::
  "('e, 'x) boundary_scheme \<Rightarrow> native_call list \<Rightarrow> (('e, 'z) world_scheme, unit) go" where
  "natives x cs = modify (\<lambda>w. w\<lparr>history := history w @ map EvNative cs,
      env := fold (nat_void x) cs (env w)\<rparr>)"

section \<open>Handle objects on the heap\<close>

definition opened :: "(handle \<Rightarrow> event) \<Rightarrow> handle option \<Rightarrow> event list" where
  "opened ev h = (case h of None \<Rightarrow> [] | Some x \<Rightarrow> [ev x])"

definition newRequest :: "request option \<Rightarrow> (('e, 'z) world_scheme, ptr option) go" where
  "newRequest r w =
     (case r of None \<Rightarrow> (Ret None, w)
      | Some v \<Rightarrow> (Ret (Some (nextPtr w)),
          w\<lparr>requests := (requests w)(nextPtr w := v), nextPtr := Suc (nextPtr w),
            history := history w @ opened EvOpenRequest (req_handle v)\<rparr>))"

definition newReservation :: "reservation option \<Rightarrow> (('e, 'z) world_scheme, ptr option) go" where
  "newReservation r w =
     (case r of None \<Rightarrow> (Ret None, w)
      | Some v \<Rightarrow> (Ret (Some (nextPtr w)),
          w\<lparr>reservations := (reservations w)(nextPtr w := v), nextPtr := Suc (nextPtr w),
            history := history w @ opened EvOpenReservation (res_handle v)\<rparr>))"

definition newOperation :: "dropCopyOperation option \<Rightarrow> (('e, 'z) world_scheme, ptr option) go" where
  "newOperation r w =
     (case r of None \<Rightarrow> (Ret None, w)
      | Some v \<Rightarrow> (Ret (Some (nextPtr w)),
          w\<lparr>operations := (operations w)(nextPtr w := v), nextPtr := Suc (nextPtr w),
            history := history w @ opened EvOpenOperation (op_handle v)\<rparr>))"

definition newReport :: "dryRunReport option \<Rightarrow> (('e, 'z) world_scheme, ptr option) go" where
  "newReport r w =
     (case r of None \<Rightarrow> (Ret None, w)
      | Some v \<Rightarrow> (Ret (Some (nextPtr w)),
          w\<lparr>reports := (reports w)(nextPtr w := v), nextPtr := Suc (nextPtr w),
            history := history w @ opened EvOpenReport (rep_handle v)\<rparr>))"

definition reservationDo ::
  "('e, 'x) boundary_scheme \<Rightarrow> lifecycle_op \<Rightarrow> ptr \<Rightarrow> (('e, 'z) world_scheme, unit) go" where
  "reservationDo x op p w =
     (case Reservation_call op (reservations w p) of (r, cs) \<Rightarrow>
        natives x cs (w\<lparr>reservations := (reservations w)(p := r)\<rparr>))"

definition operationDo ::
  "('e, 'x) boundary_scheme \<Rightarrow> lifecycle_op \<Rightarrow> ptr \<Rightarrow> (('e, 'z) world_scheme, unit) go" where
  "operationDo x op p w =
     (case DropCopyOperation_call op (operations w p) of (r, cs) \<Rightarrow>
        natives x cs (w\<lparr>operations := (operations w)(p := r)\<rparr>))"

definition requestClose ::
  "('e, 'x) boundary_scheme \<Rightarrow> ptr \<Rightarrow> (('e, 'z) world_scheme, unit) go" where
  "requestClose x p w =
     (case Request_Close (requests w p) of (r, cs) \<Rightarrow>
        natives x cs (w\<lparr>requests := (requests w)(p := r)\<rparr>))"

definition reportClose ::
  "('e, 'x) boundary_scheme \<Rightarrow> ptr \<Rightarrow> (('e, 'z) world_scheme, unit) go" where
  "reportClose x p w =
     (case DryRunReport_Close (reports w p) of (r, cs) \<Rightarrow>
        natives x cs (w\<lparr>reports := (reports w)(p := r)\<rparr>))"

text \<open>
  \<^verbatim>\<open>reject.NewListFromHandle\<close> refuses an empty native list, and the cgo wrapper of the
  main stage (\<^verbatim>\<open>internal/native/engine.go\<close>) turns the C status and out-parameters into
  a Go triple; on a status it does not know it releases every out-handle and the request.
\<close>

definition NewListFromHandle :: "reject list \<Rightarrow> go_error + reject list" where
  "NewListFromHandle rs = (if rs = [] then Inl (Text ''reject list is not provided'') else Inr rs)"

definition nativeRequestExecute ::
  "('e, 'x) boundary_scheme \<Rightarrow> handle \<Rightarrow>
   (('e, 'z) world_scheme, handle option \<times> reject list option \<times> err) go" where
  "nativeRequestExecute x h =
     bind (emit (EvNative (PretradePreTradeRequestExecute h))) (\<lambda>_.
     bind (onEnv (\<lambda>e. case c_request_execute x h e of (r, e') \<Rightarrow> (Ret r, e')))
       (\<lambda>(status, rh, rejects, outError).
          case status of
            StatusPassed \<Rightarrow> ret (rh, None, None)
          | StatusRejected \<Rightarrow>
              (case rejects of
                 None \<Rightarrow> ret (None, None, Some (Text ''order rejected, but no reject reason provided''))
               | Some rs \<Rightarrow> ret (None, Some rs, None))
          | StatusError \<Rightarrow> ret (None, None, Some (Foreign outError))
          | StatusOther n \<Rightarrow>
              bind (natives x ((case rh of None \<Rightarrow> [] | Some r \<Rightarrow> [DestroyPretradePreTradeReservation r])
                      @ [DestroyPretradePreTradeRequest h]))
                (\<lambda>_. ret (None, None, Some (Text ''unexpected status'')))))"

text \<open>
  \<^verbatim>\<open>Request.Execute\<close>: a closed request reports \<^verbatim>\<open>ErrRequestClosed\<close>; otherwise the
  native main stage runs and an accepted call yields a new reservation object.
\<close>

definition Request_Execute ::
  "('e, 'x) boundary_scheme \<Rightarrow> ptr \<Rightarrow>
   (('e, 'z) world_scheme, reservation option \<times> reject list \<times> err) go" where
  "Request_Execute x p w =
     (case req_handle (requests w p) of
        None \<Rightarrow> ret (None, [], Some (Sentinel ErrRequestClosed)) w
      | Some h \<Rightarrow>
          bind (nativeRequestExecute x h) (\<lambda>(rh, rejects, e).
            ret (if e \<noteq> None then (None, [], e)
                 else case rejects of
                   Some rs \<Rightarrow>
                     (case NewListFromHandle rs of
                        Inl le \<Rightarrow> (None, [],
                          wrapf ''failed to create reject list for rejected order: '' le)
                      | Inr rs' \<Rightarrow> (None, rs', None))
                 | None \<Rightarrow> (Some (NewReservationFromHandle rh), [], None))) w)"

section \<open>The shape of a driver result\<close>

definition validateDriverResult :: "bool \<Rightarrow> bool \<Rightarrow> reject list \<Rightarrow> err \<Rightarrow> err" where
  "validateDriverResult hasHandle hasLiveHandle rejects e =
     (if hasHandle \<and> \<not> hasLiveHandle then errors_Join [Some (Sentinel ErrDriverResult), e]
      else
        let resultCount = (if hasLiveHandle then 1 else 0) + (if rejects \<noteq> [] then 1 else 0)
              + (if e \<noteq> None then 1 else (0::nat))
        in if resultCount = 1 then None
           else errors_Join [Some (Sentinel ErrDriverResult), e])"

text \<open>
  The four accepted shapes: nothing else passes, and every refusal is an
  \<^verbatim>\<open>ErrDriverResult\<close> that also wraps the driver's own error.
\<close>

lemma validateDriverResult_None:
  "validateDriverResult hh live rejects e = None \<longleftrightarrow>
     (hh \<longrightarrow> live) \<and>
     ((live \<and> rejects = [] \<and> e = None) \<or> (\<not> live \<and> rejects \<noteq> [] \<and> e = None)
      \<or> (\<not> live \<and> rejects = [] \<and> e \<noteq> None))"
  by (auto simp: validateDriverResult_def Let_def split: if_splits)

lemma validateDriverResult_Is:
  "validateDriverResult hh live rejects e = Some se \<Longrightarrow>
     errors_Is (Some se) ErrDriverResult \<and> (errors_Is e t \<longrightarrow> errors_Is (Some se) t)"
proof -
  assume v: "validateDriverResult hh live rejects e = Some se"
  have "validateDriverResult hh live rejects e = None
      \<or> validateDriverResult hh live rejects e = errors_Join [Some (Sentinel ErrDriverResult), e]"
    by (simp add: validateDriverResult_def Let_def)
  with v have "Some se = errors_Join [Some (Sentinel ErrDriverResult), e]" by simp
  then show ?thesis by simp
qed

section \<open>Weakest preconditions at the boundary\<close>

lemma wp_emit [wp]: "wp (emit ev) Q E = (\<lambda>w. Q () (w\<lparr>history := history w @ [ev]\<rparr>))"
  by (simp add: emit_def wp)

lemma wp_natives [wp]:
  "wp (natives x cs) Q E = (\<lambda>w.
     Q () (w\<lparr>history := history w @ map EvNative cs, env := fold (nat_void x) cs (env w)\<rparr>))"
  by (simp add: natives_def wp)

lemma wp_newReservation [wp]:
  "wp (newReservation r) Q E = (\<lambda>w.
     case r of None \<Rightarrow> Q None w
     | Some v \<Rightarrow> Q (Some (nextPtr w))
         (w\<lparr>reservations := (reservations w)(nextPtr w := v), nextPtr := Suc (nextPtr w),
            history := history w @ opened EvOpenReservation (res_handle v)\<rparr>))"
  by (rule ext) (simp add: newReservation_def wp_def split: option.splits)

lemma wp_newOperation [wp]:
  "wp (newOperation r) Q E = (\<lambda>w.
     case r of None \<Rightarrow> Q None w
     | Some v \<Rightarrow> Q (Some (nextPtr w))
         (w\<lparr>operations := (operations w)(nextPtr w := v), nextPtr := Suc (nextPtr w),
            history := history w @ opened EvOpenOperation (op_handle v)\<rparr>))"
  by (rule ext) (simp add: newOperation_def wp_def split: option.splits)

lemma wp_newReport [wp]:
  "wp (newReport r) Q E = (\<lambda>w.
     case r of None \<Rightarrow> Q None w
     | Some v \<Rightarrow> Q (Some (nextPtr w))
         (w\<lparr>reports := (reports w)(nextPtr w := v), nextPtr := Suc (nextPtr w),
            history := history w @ opened EvOpenReport (rep_handle v)\<rparr>))"
  by (rule ext) (simp add: newReport_def wp_def split: option.splits)

lemma wp_reservationDo [wp]:
  "wp (reservationDo x op p) Q E = (\<lambda>w.
     Q () (w\<lparr>reservations := (reservations w)(p := fst (Reservation_call op (reservations w p))),
       history := history w @ map EvNative (snd (Reservation_call op (reservations w p))),
       env := fold (nat_void x) (snd (Reservation_call op (reservations w p))) (env w)\<rparr>))"
  by (rule ext) (simp add: reservationDo_def natives_def modify_def wp_def split: prod.splits)

lemma wp_operationDo [wp]:
  "wp (operationDo x op p) Q E = (\<lambda>w.
     Q () (w\<lparr>operations := (operations w)(p := fst (DropCopyOperation_call op (operations w p))),
       history := history w @ map EvNative (snd (DropCopyOperation_call op (operations w p))),
       env := fold (nat_void x) (snd (DropCopyOperation_call op (operations w p))) (env w)\<rparr>))"
  by (rule ext) (simp add: operationDo_def natives_def modify_def wp_def split: prod.splits)

lemma wp_reportClose [wp]:
  "wp (reportClose x p) Q E = (\<lambda>w.
     Q () (w\<lparr>reports := (reports w)(p := fst (DryRunReport_Close (reports w p))),
       history := history w @ map EvNative (snd (DryRunReport_Close (reports w p))),
       env := fold (nat_void x) (snd (DryRunReport_Close (reports w p))) (env w)\<rparr>))"
  by (rule ext) (simp add: reportClose_def natives_def modify_def wp_def split: prod.splits)

text \<open>A call into unknown code can leave any environment and return or panic with anything.\<close>

lemma wp_onEnv:
  "(\<And>r e. Q r (w\<lparr>env := e\<rparr>)) \<Longrightarrow> (\<And>p e. E p (w\<lparr>env := e\<rparr>)) \<Longrightarrow> wp (onEnv m) Q E w"
  by (simp add: wp_def onEnv_def split: prod.splits res.splits)

lemma wp_callDriver:
  "(\<And>r e. Q r (w\<lparr>history := history w @ [EvDriver c], env := e\<rparr>)) \<Longrightarrow>
   (\<And>p e. E p (w\<lparr>history := history w @ [EvDriver c], env := e\<rparr>)) \<Longrightarrow>
   wp (callDriver c m) Q E w"
  by (simp add: callDriver_def wp wp_onEnv)

lemma wp_callHook:
  "(\<And>r e. Q r (w\<lparr>history := history w @ [EvHook h], env := e\<rparr>)) \<Longrightarrow>
   (\<And>p e. E p (w\<lparr>history := history w @ [EvHook h], env := e\<rparr>)) \<Longrightarrow>
   wp (callHook h m) Q E w"
  by (simp add: callHook_def wp wp_onEnv)

section \<open>Reads of a handle\<close>

definition Reservation_Lock :: "('e, 'x) boundary_scheme \<Rightarrow> reservation \<Rightarrow> 'e \<Rightarrow> go_error + lock" where
  "Reservation_Lock x r e =
     (case res_handle r of None \<Rightarrow> Inl (Sentinel ErrReservationClosed) | Some h \<Rightarrow> Inr (nat_Lock x h e))"

definition Reservation_AccountAdjustments ::
  "('e, 'x) boundary_scheme \<Rightarrow> reservation \<Rightarrow> 'e \<Rightarrow> go_error + adjustmentOutcome list" where
  "Reservation_AccountAdjustments x r e =
     (case res_handle r of None \<Rightarrow> Inl (Sentinel ErrReservationClosed)
      | Some h \<Rightarrow> Inr (nat_AccountAdjustments x h e))"

definition DropCopyOperation_Lock ::
  "('e, 'x) boundary_scheme \<Rightarrow> dropCopyOperation \<Rightarrow> 'e \<Rightarrow> go_error + lock" where
  "DropCopyOperation_Lock x r e =
     (case op_handle r of None \<Rightarrow> Inl (Sentinel ErrDropCopyOperationClosed)
      | Some h \<Rightarrow> Inr (nat_Lock x h e))"

definition DropCopyOperation_AccountAdjustments ::
  "('e, 'x) boundary_scheme \<Rightarrow> dropCopyOperation \<Rightarrow> 'e \<Rightarrow> go_error + adjustmentOutcome list" where
  "DropCopyOperation_AccountAdjustments x r e =
     (case op_handle r of None \<Rightarrow> Inl (Sentinel ErrDropCopyOperationClosed)
      | Some h \<Rightarrow> Inr (nat_AccountAdjustments x h e))"

definition firstBlock :: "accountBlock list \<Rightarrow> accountBlock option" where
  "firstBlock bs = (case bs of [] \<Rightarrow> None | b # _ \<Rightarrow> Some b)"

definition DropCopyOperation_AccountBlock ::
  "('e, 'x) boundary_scheme \<Rightarrow> dropCopyOperation \<Rightarrow> 'e \<Rightarrow> go_error + accountBlock option" where
  "DropCopyOperation_AccountBlock x r e =
     (case op_handle r of None \<Rightarrow> Inl (Sentinel ErrDropCopyOperationClosed)
      | Some h \<Rightarrow> Inr (firstBlock (nat_AccountBlocks x h e)))"

definition DropCopyOperation_IsAccountBlocked ::
  "('e, 'x) boundary_scheme \<Rightarrow> dropCopyOperation \<Rightarrow> 'e \<Rightarrow> go_error + bool" where
  "DropCopyOperation_IsAccountBlocked x r e =
     (case op_handle r of None \<Rightarrow> Inl (Sentinel ErrDropCopyOperationClosed)
      | Some h \<Rightarrow> Inr (nat_IsAccountBlocked x h e))"

definition DryRunReport_IsPass ::
  "('e, 'x) boundary_scheme \<Rightarrow> dryRunReport \<Rightarrow> 'e \<Rightarrow> go_error + bool" where
  "DryRunReport_IsPass x r e =
     (case rep_handle r of None \<Rightarrow> Inl (Sentinel ErrDryRunReportClosed)
      | Some h \<Rightarrow> Inr (nat_IsPass x h e))"

text \<open>An empty native list reads back as a nil slice, which the model writes as \<open>None\<close>.\<close>

definition DryRunReport_Rejects ::
  "('e, 'x) boundary_scheme \<Rightarrow> dryRunReport \<Rightarrow> 'e \<Rightarrow> go_error + reject list option" where
  "DryRunReport_Rejects x r e =
     (case rep_handle r of None \<Rightarrow> Inl (Sentinel ErrDryRunReportClosed)
      | Some h \<Rightarrow> Inr (case nat_Rejects x h e of [] \<Rightarrow> None | rs \<Rightarrow> Some rs))"

definition DryRunReport_Lock ::
  "('e, 'x) boundary_scheme \<Rightarrow> dryRunReport \<Rightarrow> 'e \<Rightarrow> go_error + lock" where
  "DryRunReport_Lock x r e =
     (case rep_handle r of None \<Rightarrow> Inl (Sentinel ErrDryRunReportClosed)
      | Some h \<Rightarrow> Inr (nat_Lock x h e))"

definition DryRunReport_AccountAdjustments ::
  "('e, 'x) boundary_scheme \<Rightarrow> dryRunReport \<Rightarrow> 'e \<Rightarrow> go_error + adjustmentOutcome list" where
  "DryRunReport_AccountAdjustments x r e =
     (case rep_handle r of None \<Rightarrow> Inl (Sentinel ErrDryRunReportClosed)
      | Some h \<Rightarrow> Inr (nat_AccountAdjustments x h e))"

definition DryRunReport_AccountBlock ::
  "('e, 'x) boundary_scheme \<Rightarrow> dryRunReport \<Rightarrow> 'e \<Rightarrow> go_error + accountBlock option" where
  "DryRunReport_AccountBlock x r e =
     (case rep_handle r of None \<Rightarrow> Inl (Sentinel ErrDryRunReportClosed)
      | Some h \<Rightarrow> Inr (firstBlock (nat_AccountBlocks x h e)))"

end
