(* ===== verification/Futures.thy ===== *)
theory Futures
  imports Go_Prelude
begin

text \<open>
  \<^verbatim>\<open>pkg/future\<close>: the single-assignment cell every queued operation returns.  \<open>fut_done\<close>
  is "the channel \<^verbatim>\<open>done\<close> is closed", and \<^verbatim>\<open>sync.Once\<close> around the three
  assignments of \<^verbatim>\<open>Resolve\<close> is the guard on it.
\<close>

record 'a future =
  fut_done :: bool
  fut_value :: 'a
  fut_err :: err

text \<open>The zero value of the carried type is a parameter: Go's \<^verbatim>\<open>var zero T\<close>.\<close>

definition New :: "'a \<Rightarrow> 'a future" where
  "New zero = \<lparr>fut_done = False, fut_value = zero, fut_err = None\<rparr>"

definition Resolve :: "'a \<Rightarrow> err \<Rightarrow> 'a future \<Rightarrow> 'a future" where
  "Resolve v e f =
     (if fut_done f then f else f\<lparr>fut_value := v, fut_err := e, fut_done := True\<rparr>)"

definition Done :: "'a future \<Rightarrow> bool" where
  "Done f = fut_done f"

definition TryGet :: "'a \<Rightarrow> 'a future \<Rightarrow> 'a \<times> bool \<times> err" where
  "TryGet zero f = (if fut_done f then (fut_value f, True, fut_err f) else (zero, False, None))"

text \<open>
  \<^verbatim>\<open>Await\<close> selects between a closed \<^verbatim>\<open>done\<close> and a cancelled context.  When both are
  ready Go picks either, so the model gives the list of possible returns; the empty list
  is "still blocked".
\<close>

definition Await :: "'a \<Rightarrow> go_context \<Rightarrow> 'a future \<Rightarrow> ('a \<times> err) list" where
  "Await zero ctx f =
     (if fut_done f then [(fut_value f, fut_err f)] else []) @
     (case ctx_Err ctx of None \<Rightarrow> [] | Some e \<Rightarrow> [(zero, Some e)])"

text \<open>\<^verbatim>\<open>Future2\<close> rides on a \<^verbatim>\<open>Future\<close> of a pair.\<close>

record ('a, 'b) future2 =
  inner :: "('a \<times> 'b) future"

definition New2 :: "'a \<Rightarrow> 'b \<Rightarrow> ('a, 'b) future2" where
  "New2 z1 z2 = \<lparr>inner = New (z1, z2)\<rparr>"

definition Resolve2 :: "'a \<Rightarrow> 'b \<Rightarrow> err \<Rightarrow> ('a, 'b) future2 \<Rightarrow> ('a, 'b) future2" where
  "Resolve2 a b e f = f\<lparr>inner := Resolve (a, b) e (inner f)\<rparr>"

definition Done2 :: "('a, 'b) future2 \<Rightarrow> bool" where
  "Done2 f = Done (inner f)"

definition TryGet2 :: "'a \<Rightarrow> 'b \<Rightarrow> ('a, 'b) future2 \<Rightarrow> 'a \<times> 'b \<times> bool \<times> err" where
  "TryGet2 z1 z2 f = (case TryGet (z1, z2) (inner f) of ((a, b), ok, e) \<Rightarrow> (a, b, ok, e))"

definition Await2 :: "'a \<Rightarrow> 'b \<Rightarrow> go_context \<Rightarrow> ('a, 'b) future2 \<Rightarrow> ('a \<times> 'b \<times> err) list" where
  "Await2 z1 z2 ctx f = map (\<lambda>((a, b), e). (a, b, e)) (Await (z1, z2) ctx (inner f))"

lemmas future_defs = New_def Resolve_def Done_def TryGet_def Await_def
  New2_def Resolve2_def Done2_def TryGet2_def Await2_def

section \<open>The single-assignment contract\<close>

text \<open>
  What a consumer of either future relies on: a fresh cell is not done, the first
  resolution fixes what every later read returns, and further resolutions change nothing.
\<close>

locale single_assignment =
  fixes fresh :: 'c
    and assign :: "'r \<Rightarrow> 'c \<Rightarrow> 'c"
    and isDone :: "'c \<Rightarrow> bool"
    and content :: "'c \<Rightarrow> 'r option"
  assumes fresh_open: "\<not> isDone fresh"
    and content_iff: "content c = None \<longleftrightarrow> \<not> isDone c"
    and assign_open: "\<not> isDone c \<Longrightarrow> content (assign r c) = Some r"
    and assign_done: "isDone c \<Longrightarrow> assign r c = c"
begin

lemma assign_isDone: "isDone (assign r c)"
proof (cases "isDone c")
  case True
  then show ?thesis by (simp add: assign_done)
next
  case False
  then show ?thesis using assign_open content_iff by (metis option.distinct(1))
qed

text \<open>Any sequence of resolutions of a fresh cell leaves the first one.\<close>

lemma first_assignment_wins:
  "content (fold assign (r # rs) fresh) = Some r"
proof -
  have keep: "fold assign rs c = c" if "isDone c" for c
    using that by (induction rs) (simp_all add: assign_done)
  have "content (assign r fresh) = Some r"
    by (simp add: assign_open fresh_open)
  then show ?thesis by (simp add: keep assign_isDone)
qed

lemma unassigned_open: "content (fold assign rs fresh) = None \<longleftrightarrow> rs = []"
proof (cases rs)
  case Nil
  then show ?thesis by (simp add: content_iff fresh_open)
next
  case (Cons r rs')
  then show ?thesis using first_assignment_wins [of r rs'] by simp
qed

end

definition content1 :: "'a future \<Rightarrow> ('a \<times> err) option" where
  "content1 f = (if fut_done f then Some (fut_value f, fut_err f) else None)"

definition content2 :: "('a, 'b) future2 \<Rightarrow> ('a \<times> 'b \<times> err) option" where
  "content2 f = map_option (\<lambda>((a, b), e). (a, b, e)) (content1 (inner f))"

interpretation fut: single_assignment "New zero" "\<lambda>(v, e). Resolve v e" Done content1
  for zero :: 'a
  by unfold_locales (auto simp: future_defs content1_def split: prod.splits)

interpretation fut2: single_assignment "New2 z1 z2" "\<lambda>(a, b, e). Resolve2 a b e" Done2 content2
  for z1 :: 'a and z2 :: 'b
  by unfold_locales (auto simp: future_defs content1_def content2_def split: prod.splits)

lemma TryGet_content:
  "TryGet zero f = (case content1 f of None \<Rightarrow> (zero, False, None) | Some (v, e) \<Rightarrow> (v, True, e))"
  by (simp add: TryGet_def content1_def)

lemma content1_Resolve [simp]:
  "content1 (Resolve v e f) = (case content1 f of None \<Rightarrow> Some (v, e) | Some r \<Rightarrow> Some r)"
  by (simp add: content1_def Resolve_def)

lemma content1_New [simp]: "content1 (New zero) = None"
  by (simp add: content1_def New_def)

text \<open>
  Of any sequence of resolutions of a fresh future only the first has an effect: every
  later \<^verbatim>\<open>TryGet\<close> returns its value and error, and every \<^verbatim>\<open>Await\<close> whose context is
  not cancelled returns exactly that pair, however many resolutions followed.
\<close>

lemma future_resolves_once:
  fixes zero v :: 'a
  assumes "ctx_Err ctx = None"
  shows "TryGet zero (fold (\<lambda>(v, e). Resolve v e) ((v, e) # rs) (New zero)) = (v, True, e)
    \<and> Await zero ctx (fold (\<lambda>(v, e). Resolve v e) ((v, e) # rs) (New zero)) = [(v, e)]"
proof -
  let ?f = "fold (\<lambda>(v, e). Resolve v e) ((v, e) # rs) (New zero)"
  have c: "content1 ?f = Some (v, e)"
    by (rule fut.first_assignment_wins)
  then have "fut_done ?f" "fut_value ?f = v" "fut_err ?f = e"
    by (auto simp: content1_def split: if_splits)
  with c assms show ?thesis by (simp add: TryGet_content Await_def)
qed

text \<open>
  \<^verbatim>\<open>Future2\<close> keeps the same contract on its two values, and a wait that ends because
  the context was cancelled leaves the future unresolved and yields the zero values with
  the context's error.
\<close>

lemma future2_resolves_once:
  "TryGet2 z1 z2 (fold (\<lambda>(a, b, e). Resolve2 a b e) ((a, b, e) # rs) (New2 z1 z2)) = (a, b, True, e)
   \<and> Await2 z1 z2 ctx (New2 z1 z2) =
       (case ctx_Err ctx of None \<Rightarrow> [] | Some ce \<Rightarrow> [(z1, z2, Some ce)])"
proof -
  let ?f = "fold (\<lambda>(a, b, e). Resolve2 a b e) ((a, b, e) # rs) (New2 z1 z2)"
  have "content2 ?f = Some (a, b, e)"
    by (rule fut2.first_assignment_wins)
  then have "content1 (inner ?f) = Some ((a, b), e)"
    by (auto simp: content2_def)
  then have "TryGet2 z1 z2 ?f = (a, b, True, e)"
    by (simp add: TryGet2_def TryGet_content)
  then show ?thesis
    by (simp add: Await2_def Await_def New2_def New_def split: option.splits)
qed

end
