(* ===== verification/Chain.thy ===== *)
theory Chain
  imports World Futures
begin

text \<open>
  Lane chains (\<^verbatim>\<open>asyncengine/scenario.go\<close>, \<^verbatim>\<open>scenario_admin.go\<close>): the builder, the
  snapshot it freezes into a plan, plan validation and routing, the thirteen kinds of
  steps, and the execution of a whole chain with its deferred clean-up.  A Go step is a
  pair of closures made by one builder method; here it is a constructor per builder method
  with the functions \<open>stepValidate\<close> and \<open>stepExecute\<close>.  A hook that may be nil is an
  \<open>option\<close>; calling nil panics.
\<close>

section \<open>Decisions, outcomes and operation results\<close>

type_synonym decision = "8 word"

definition decisionInvalid :: decision where "decisionInvalid = 0"
definition DecisionCommit :: decision where "DecisionCommit = 1"
definition DecisionRollback :: decision where "DecisionRollback = 2"

datatype chainOutcomeStatus =
  ChainOutcomeUnknown | ChainOutcomeCompleted | ChainOutcomeRejected | ChainOutcomeFailed

record chainOutcome =
  co_Err :: err
  co_Status :: chainOutcomeStatus
  co_RetryUnsafe :: bool

record reservationOperationResult =
  ror_reservation :: "reservation option"
  ror_available :: bool

record dropCopyOperationResult =
  dor_operation :: "dropCopyOperation option"
  dor_available :: bool

record dryRunOperationResult =
  drr_rejects :: "reject list"
  drr_report :: "dryRunReport option"
  drr_available :: bool
  drr_passed :: bool

definition guarded :: "bool \<Rightarrow> 'o option \<Rightarrow> ('o \<Rightarrow> go_error + 'a) \<Rightarrow> go_error + 'a" where
  "guarded available obj rd =
     (if available then (case obj of None \<Rightarrow> Inl (Sentinel ErrChainResultUnavailable) | Some v \<Rightarrow> rd v)
      else Inl (Sentinel ErrChainResultUnavailable))"

definition ror_invalidate :: "reservationOperationResult \<Rightarrow> reservationOperationResult" where
  "ror_invalidate r = r\<lparr>ror_available := False\<rparr>"

definition ror_Lock ::
  "('e, 'x) boundary_scheme \<Rightarrow> reservationOperationResult \<Rightarrow> 'e \<Rightarrow> go_error + lock" where
  "ror_Lock x r e = guarded (ror_available r) (ror_reservation r) (\<lambda>v. Reservation_Lock x v e)"

definition ror_AccountAdjustments ::
  "('e, 'x) boundary_scheme \<Rightarrow> reservationOperationResult \<Rightarrow> 'e \<Rightarrow> go_error + adjustmentOutcome list" where
  "ror_AccountAdjustments x r e =
     guarded (ror_available r) (ror_reservation r) (\<lambda>v. Reservation_AccountAdjustments x v e)"

definition dor_invalidate :: "dropCopyOperationResult \<Rightarrow> dropCopyOperationResult" where
  "dor_invalidate r = r\<lparr>dor_available := False\<rparr>"

definition dor_Lock ::
  "('e, 'x) boundary_scheme \<Rightarrow> dropCopyOperationResult \<Rightarrow> 'e \<Rightarrow> go_error + lock" where
  "dor_Lock x r e = guarded (dor_available r) (dor_operation r) (\<lambda>v. DropCopyOperation_Lock x v e)"

definition dor_AccountAdjustments ::
  "('e, 'x) boundary_scheme \<Rightarrow> dropCopyOperationResult \<Rightarrow> 'e \<Rightarrow> go_error + adjustmentOutcome list" where
  "dor_AccountAdjustments x r e =
     guarded (dor_available r) (dor_operation r) (\<lambda>v. DropCopyOperation_AccountAdjustments x v e)"

definition dor_AccountBlock ::
  "('e, 'x) boundary_scheme \<Rightarrow> dropCopyOperationResult \<Rightarrow> 'e \<Rightarrow> go_error + accountBlock option" where
  "dor_AccountBlock x r e =
     guarded (dor_available r) (dor_operation r) (\<lambda>v. DropCopyOperation_AccountBlock x v e)"

definition dor_IsAccountBlocked ::
  "('e, 'x) boundary_scheme \<Rightarrow> dropCopyOperationResult \<Rightarrow> 'e \<Rightarrow> go_error + bool" where
  "dor_IsAccountBlocked x r e =
     guarded (dor_available r) (dor_operation r) (\<lambda>v. DropCopyOperation_IsAccountBlocked x v e)"

definition drr_invalidate :: "dryRunOperationResult \<Rightarrow> dryRunOperationResult" where
  "drr_invalidate r = r\<lparr>drr_available := False\<rparr>"

definition drr_Passed :: "dryRunOperationResult \<Rightarrow> bool" where
  "drr_Passed r = drr_passed r"

definition drr_Rejects :: "dryRunOperationResult \<Rightarrow> reject list" where
  "drr_Rejects r = drr_rejects r"

definition drr_Lock ::
  "('e, 'x) boundary_scheme \<Rightarrow> dryRunOperationResult \<Rightarrow> 'e \<Rightarrow> go_error + lock" where
  "drr_Lock x r e = guarded (drr_available r) (drr_report r) (\<lambda>v. DryRunReport_Lock x v e)"

definition drr_AccountAdjustments ::
  "('e, 'x) boundary_scheme \<Rightarrow> dryRunOperationResult \<Rightarrow> 'e \<Rightarrow> go_error + adjustmentOutcome list" where
  "drr_AccountAdjustments x r e =
     guarded (drr_available r) (drr_report r) (\<lambda>v. DryRunReport_AccountAdjustments x v e)"

definition drr_AccountBlock ::
  "('e, 'x) boundary_scheme \<Rightarrow> dryRunOperationResult \<Rightarrow> 'e \<Rightarrow> go_error + accountBlock option" where
  "drr_AccountBlock x r e =
     guarded (drr_available r) (drr_report r) (\<lambda>v. DryRunReport_AccountBlock x v e)"

section \<open>Steps and plans\<close>

type_synonym ('e, 's, 'a) hookfn = "go_context \<Rightarrow> 's \<Rightarrow> ('e, 'a) go"

datatype ('e, 's) chainStep =
    CallerStep "('e, 's, err) hookfn option"
  | PreTradeStep
      "(go_context \<Rightarrow> 's \<Rightarrow> reject list \<Rightarrow> ('e, err) go) option"
      "(go_context \<Rightarrow> 's \<Rightarrow> reservationOperationResult \<Rightarrow> ('e, decision \<times> err) go) option"
  | DropCopyStep
      "(go_context \<Rightarrow> 's \<Rightarrow> reject list \<Rightarrow> ('e, err) go) option"
      "(go_context \<Rightarrow> 's \<Rightarrow> dropCopyOperationResult \<Rightarrow> ('e, decision \<times> err) go) option"
  | CheckOrderStep "(go_context \<Rightarrow> 's \<Rightarrow> dryRunOperationResult \<Rightarrow> ('e, err) go) option"
  | ExecutionReportStep
      "('e, 's, executionReport \<times> err) hookfn option"
      "(go_context \<Rightarrow> 's \<Rightarrow> postTradeResult \<Rightarrow> ('e, err) go) option"
  | AccountAdjustmentStep
      "('e, 's, adjustment list \<times> err) hookfn option"
      "(go_context \<Rightarrow> 's \<Rightarrow> batchResult \<Rightarrow> ('e, err) go) option"
  | BlockAccount "('e, 's, string \<times> err) hookfn option" "('e, 's, err) hookfn option"
  | UnblockAccount "('e, 's, err) hookfn option"
  | BlockAccountGroup "('e, 's, string \<times> err) hookfn option" "('e, 's, err) hookfn option"
  | UnblockAccountGroup "('e, 's, err) hookfn option"
  | SetAccountCurrency "('e, 's, asset \<times> err) hookfn option" "('e, 's, err) hookfn option"
  | ClearAccountCurrency "('e, 's, err) hookfn option"
  | SetSpotFundsAccountPnl
      "('e, 's, (string \<times> pnlState) \<times> err) hookfn option"
      "(go_context \<Rightarrow> 's \<Rightarrow> accountBlock list \<Rightarrow> ('e, err) go) option"

datatype chainSourceKind = chainSourceAccount | chainSourceOrder | chainSourceAccountGroup

datatype chainSource = OrderSource order | AccountSource accountID | GroupSource accountGroupID

record ('e, 's) chainBuilder =
  cb_steps :: "('e, 's) chainStep list"
  cb_begin :: "(go_context \<Rightarrow> ('e, 's \<times> err) go) option"
  cb_order :: "order option"
  cb_accountID :: accountID
  cb_groupID :: "accountGroupID option"
  cb_finallyRunnerReturned :: bool

record ('e, 's) chainPlan =
  cp_steps :: "('e, 's) chainStep list"
  cp_begin :: "(go_context \<Rightarrow> ('e, 's \<times> err) go) option"
  cp_finally :: "(go_context \<Rightarrow> 's \<Rightarrow> chainOutcome \<Rightarrow> ('e, err) go) option"
  cp_order :: "order option"
  cp_accountID :: accountID
  cp_groupID :: "accountGroupID option"

definition Chain ::
  "chainSource \<Rightarrow> (go_context \<Rightarrow> ('e, 's \<times> err) go) option \<Rightarrow> ('e, 's) chainBuilder" where
  "Chain source begin1 =
     (let chain = \<lparr>cb_steps = [], cb_begin = begin1, cb_order = None, cb_accountID = 0,
        cb_groupID = None, cb_finallyRunnerReturned = False\<rparr>
      in case source of
           OrderSource o1 \<Rightarrow> chain\<lparr>cb_order := Some o1\<rparr>
         | AccountSource a \<Rightarrow> chain\<lparr>cb_accountID := a\<rparr>
         | GroupSource g \<Rightarrow> chain\<lparr>cb_groupID := Some g\<rparr>)"

definition addStep :: "('e, 's) chainStep \<Rightarrow> ('e, 's) chainBuilder \<Rightarrow> ('e, 's) chainBuilder" where
  "addStep st c = c\<lparr>cb_steps := cb_steps c @ [st]\<rparr>"

text \<open>The builder methods that append a step.\<close>

definition ChainBuilder_Then where
  "ChainBuilder_Then fn = addStep (CallerStep fn)"

definition ChainBuilder_ExecutePreTrade where
  "ChainBuilder_ExecutePreTrade onRejected onReserved = addStep (PreTradeStep onRejected onReserved)"

definition ChainBuilder_ApplyDropCopy where
  "ChainBuilder_ApplyDropCopy onRejected onApplied = addStep (DropCopyStep onRejected onApplied)"

definition ChainBuilder_CheckOrder where
  "ChainBuilder_CheckOrder onChecked = addStep (CheckOrderStep onChecked)"

definition ChainBuilder_ApplyExecutionReport where
  "ChainBuilder_ApplyExecutionReport report onSettled = addStep (ExecutionReportStep report onSettled)"

definition ChainBuilder_ApplyAccountAdjustment where
  "ChainBuilder_ApplyAccountAdjustment adjustments onAdjusted = addStep (AccountAdjustmentStep adjustments onAdjusted)"

definition ChainBuilder_BlockAccount where
  "ChainBuilder_BlockAccount reason onBlocked = addStep (BlockAccount reason onBlocked)"

definition ChainBuilder_UnblockAccount where
  "ChainBuilder_UnblockAccount onUnblocked = addStep (UnblockAccount onUnblocked)"

definition ChainBuilder_BlockAccountGroup where
  "ChainBuilder_BlockAccountGroup reason onBlocked = addStep (BlockAccountGroup reason onBlocked)"

definition ChainBuilder_UnblockAccountGroup where
  "ChainBuilder_UnblockAccountGroup onUnblocked = addStep (UnblockAccountGroup onUnblocked)"

definition ChainBuilder_SetAccountCurrency where
  "ChainBuilder_SetAccountCurrency currency onSet = addStep (SetAccountCurrency currency onSet)"

definition ChainBuilder_ClearAccountCurrency where
  "ChainBuilder_ClearAccountCurrency onCleared = addStep (ClearAccountCurrency onCleared)"

definition ChainBuilder_SetSpotFundsAccountPnl where
  "ChainBuilder_SetSpotFundsAccountPnl assignment onSet = addStep (SetSpotFundsAccountPnl assignment onSet)"

definition snapshot ::
  "('e, 's) chainBuilder \<Rightarrow> (go_context \<Rightarrow> 's \<Rightarrow> chainOutcome \<Rightarrow> ('e, err) go) option \<Rightarrow>
   ('e, 's) chainPlan" where
  "snapshot c fin =
     \<lparr>cp_steps = cb_steps c, cp_begin = cb_begin c, cp_finally = fin, cp_order = cb_order c,
      cp_accountID = cb_accountID c, cp_groupID = cb_groupID c\<rparr>"

text \<open>\<^verbatim>\<open>Finally\<close> marks the builder and returns a runner that holds the frozen plan.\<close>

definition Finally ::
  "(go_context \<Rightarrow> 's \<Rightarrow> chainOutcome \<Rightarrow> ('e, err) go) option \<Rightarrow> ('e, 's) chainBuilder \<Rightarrow>
   ('e, 's) chainBuilder \<times> ('e, 's) chainPlan" where
  "Finally fin c = (c\<lparr>cb_finallyRunnerReturned := True\<rparr>, snapshot c fin)"

section \<open>Validation and routing\<close>

definition requireAccountSource :: "chainSourceKind \<Rightarrow> err" where
  "requireAccountSource k =
     (if k = chainSourceAccountGroup then Some (Sentinel ErrChainAccountRequired) else None)"

definition requireAccountGroupSource :: "chainSourceKind \<Rightarrow> err" where
  "requireAccountGroupSource k =
     (if k \<noteq> chainSourceAccountGroup then Some (Sentinel ErrChainAccountGroupRequired) else None)"

definition requireOrderSource :: "chainSourceKind \<Rightarrow> err" where
  "requireOrderSource k =
     (if k \<noteq> chainSourceOrder then Some (Sentinel ErrChainOrderRequired) else None)"

definition incomplete :: "string \<Rightarrow> err" where
  "incomplete name = sentinel_suffix ErrChainIncomplete ('': Chain.'' @ name)"

definition need :: "'f option \<Rightarrow> string \<Rightarrow> err" where
  "need h name = (case h of None \<Rightarrow> incomplete name | Some _ \<Rightarrow> None)"

text \<open>The first check that fails is the result, as a sequence of early returns.\<close>

fun firstErr :: "err list \<Rightarrow> err" where
  "firstErr [] = None"
| "firstErr (None # es) = firstErr es"
| "firstErr (Some e # es) = Some e"

fun stepValidate :: "chainSourceKind \<Rightarrow> ('e, 's) chainStep \<Rightarrow> err" where
  "stepValidate k (CallerStep fn) = need fn ''Then''"
| "stepValidate k (PreTradeStep onRejected onReserved) =
     firstErr [requireOrderSource k, need onRejected ''ExecutePreTrade.OnRejected'',
       need onReserved ''ExecutePreTrade.OnReserved'']"
| "stepValidate k (DropCopyStep onRejected onApplied) =
     firstErr [requireOrderSource k, need onRejected ''ApplyDropCopy.OnRejected'',
       need onApplied ''ApplyDropCopy.OnApplied'']"
| "stepValidate k (CheckOrderStep onChecked) =
     firstErr [requireOrderSource k, need onChecked ''CheckOrder'']"
| "stepValidate k (ExecutionReportStep report onSettled) =
     firstErr [requireAccountSource k, need report ''ApplyExecutionReport.Report'',
       need onSettled ''ApplyExecutionReport.OnSettled'']"
| "stepValidate k (AccountAdjustmentStep adjustments onAdjusted) =
     firstErr [requireAccountSource k, need adjustments ''ApplyAccountAdjustment.Adjustments'',
       need onAdjusted ''ApplyAccountAdjustment.OnAdjusted'']"
| "stepValidate k (BlockAccount reason onBlocked) =
     firstErr [requireAccountSource k, need reason ''BlockAccount.Reason'',
       need onBlocked ''BlockAccount.OnBlocked'']"
| "stepValidate k (UnblockAccount onUnblocked) =
     firstErr [requireAccountSource k, need onUnblocked ''UnblockAccount.OnUnblocked'']"
| "stepValidate k (BlockAccountGroup reason onBlocked) =
     firstErr [requireAccountGroupSource k, need reason ''BlockAccountGroup.Reason'',
       need onBlocked ''BlockAccountGroup.OnBlocked'']"
| "stepValidate k (UnblockAccountGroup onUnblocked) =
     firstErr [requireAccountGroupSource k, need onUnblocked ''UnblockAccountGroup.OnUnblocked'']"
| "stepValidate k (SetAccountCurrency currency onSet) =
     firstErr [requireAccountSource k, need currency ''SetAccountCurrency.Currency'',
       need onSet ''SetAccountCurrency.OnSet'']"
| "stepValidate k (ClearAccountCurrency onCleared) =
     firstErr [requireAccountSource k, need onCleared ''ClearAccountCurrency.OnCleared'']"
| "stepValidate k (SetSpotFundsAccountPnl assignment onSet) =
     firstErr [requireAccountSource k, need assignment ''SetSpotFundsAccountPnl.Assignment'',
       need onSet ''SetSpotFundsAccountPnl.OnSet'']"

definition planSource ::
  "('e, 's) chainPlan \<Rightarrow> go_error + (chainSourceKind \<times> routingKey \<times> accountID)" where
  "planSource p =
     (case cp_order p of
        Some o1 \<Rightarrow>
          (case extractOrderAccountID o1 of
             Inl e \<Rightarrow> Inl e
           | Inr a \<Rightarrow> Inr (chainSourceOrder, accountRoutingKey a, a))
      | None \<Rightarrow>
          (case cp_groupID p of
             Some g \<Rightarrow>
               (case validateAccountGroupID g of
                  Some e \<Rightarrow> Inl e
                | None \<Rightarrow> Inr (chainSourceAccountGroup, groupRoutingKey g, cp_accountID p))
           | None \<Rightarrow> Inr (chainSourceAccount, accountRoutingKey (cp_accountID p), cp_accountID p)))"

definition planValidate :: "('e, 's) chainPlan \<Rightarrow> go_error + (routingKey \<times> accountID)" where
  "planValidate p =
     (case need (cp_begin p) ''Begin'' of Some e \<Rightarrow> Inl e
      | None \<Rightarrow>
        case planSource p of
          Inl e \<Rightarrow> Inl e
        | Inr (kind, key, a) \<Rightarrow>
            (case firstErr (map (stepValidate kind) (cp_steps p)) of
               Some e \<Rightarrow> Inl e
             | None \<Rightarrow> Inr (key, a)))"

section \<open>Execution state\<close>

datatype pendingFinalizer = reservationFinalizer ptr | dropCopyFinalizer ptr

text \<open>A running chain adds its pending handle and its retry-unsafe mark to the world.\<close>

record 'e frame = "'e world" +
  pending :: "pendingFinalizer option"
  retryUnsafe :: bool

type_synonym ('e, 'a) run = "('e frame, 'a) go"

fun finalizerDo ::
  "('e, 'x) boundary_scheme \<Rightarrow> lifecycle_op \<Rightarrow> pendingFinalizer \<Rightarrow> ('e, unit) run" where
  "finalizerDo x op (reservationFinalizer p) = reservationDo x op p"
| "finalizerDo x op (dropCopyFinalizer p) = operationDo x op p"

definition finalizeDecision ::
  "('e, 'x) boundary_scheme \<Rightarrow> decision \<Rightarrow> pendingFinalizer option \<Rightarrow> ('e, err) run" where
  "finalizeDecision x d pend =
     (case pend of
        None \<Rightarrow> ret (Some (Sentinel ErrDriverResult))
      | Some f \<Rightarrow>
          if d = DecisionCommit then bind (finalizerDo x CommitAndClose f) (\<lambda>_. ret None)
          else if d = DecisionRollback then bind (finalizerDo x RollbackAndClose f) (\<lambda>_. ret None)
          else bind (finalizerDo x RollbackAndClose f)
                 (\<lambda>_. ret (Some (Sentinel ErrChainInvalidDecision))))"

definition chainPanicError :: "string \<Rightarrow> panic \<Rightarrow> go_error" where
  "chainPanicError msg p =
     (case p of PanicError e \<Rightarrow> Wrap (msg @ '': '') e [] | PanicValue v \<Rightarrow> Text (msg @ '': '' @ v))"

definition rollbackPending ::
  "('e, 'x) boundary_scheme \<Rightarrow> pendingFinalizer \<Rightarrow> ('e, err) run" where
  "rollbackPending x f =
     recovering (bind (finalizerDo x RollbackAndClose f) (\<lambda>_. ret None))
       (\<lambda>p. Some (chainPanicError ''async chain native cleanup panicked'' p))"

definition markRetryUnsafe :: "('e, unit) run" where
  "markRetryUnsafe = modify (\<lambda>w. w\<lparr>retryUnsafe := True\<rparr>)"

definition setPending :: "pendingFinalizer option \<Rightarrow> ('e, unit) run" where
  "setPending p = modify (\<lambda>w. w\<lparr>pending := p\<rparr>)"

text \<open>\<^verbatim>\<open>if err := hook(...); err != nil { return fmt.Errorf(prefix: %w) }\<close>, then go on.\<close>

definition orFail :: "string \<Rightarrow> err \<Rightarrow> ('e, err) run \<Rightarrow> ('e, err) run" where
  "orFail pre e k = (case e of Some er \<Rightarrow> ret (wrapf pre er) | None \<Rightarrow> k)"

section \<open>Steps\<close>

definition onRejectedEnd ::
  "(go_context \<Rightarrow> 's \<Rightarrow> reject list \<Rightarrow> ('e, err) go) option \<Rightarrow> go_context \<Rightarrow> 's \<Rightarrow>
   reject list \<Rightarrow> ('e, bool \<times> err) run" where
  "onRejectedEnd onRejected ctx s rejects =
     bind (nilable onRejected (\<lambda>f. callHook HOnRejected (f ctx s rejects))) (\<lambda>he.
       case he of
         Some er \<Rightarrow> ret (False, wrapf ''async chain reject hook: '' er)
       | None \<Rightarrow> ret (True, None))"

definition settleDecision ::
  "('e, 'x) boundary_scheme \<Rightarrow> string \<Rightarrow> decision \<times> err \<Rightarrow> ('e, bool \<times> err) run" where
  "settleDecision x pre answer =
     (case answer of (d, he) \<Rightarrow>
       (case he of
          Some er \<Rightarrow> ret (False, wrapf pre er)
        | None \<Rightarrow>
            bind (read pending) (\<lambda>pend.
            bind (finalizeDecision x d pend) (\<lambda>fe.
            bind (setPending None) (\<lambda>_.
              case fe of Some er \<Rightarrow> ret (False, Some er)
              | None \<Rightarrow> ret (d = DecisionRollback, None))))))"

text \<open>
  What \<^verbatim>\<open>executePreTrade\<close> and \<^verbatim>\<open>applyDropCopy\<close> do with the driver's triple once the
  handle is pending: the shape check, the error, the reject branch and the accepted branch.
\<close>

definition driverVerdict ::
  "('e, 'x) boundary_scheme \<Rightarrow> ('h \<Rightarrow> bool) \<Rightarrow> string \<Rightarrow> string \<Rightarrow> 'h option \<Rightarrow> reject list \<Rightarrow> err \<Rightarrow>
   ('e, bool \<times> err) run \<Rightarrow> ('h \<Rightarrow> ('e, decision \<times> err) run) \<Rightarrow> ('e, bool \<times> err) run" where
  "driverVerdict x isClosed pre hookPre r rejects e rejected accepted =
     (case validateDriverResult (r \<noteq> None) (case r of None \<Rightarrow> False | Some v \<Rightarrow> \<not> isClosed v) rejects e of
        Some se \<Rightarrow> ret (False, wrapf pre se)
      | None \<Rightarrow>
        (case e of
           Some er \<Rightarrow> ret (False, wrapf pre er)
         | None \<Rightarrow>
             if rejects \<noteq> [] then rejected
             else case r of
                    None \<Rightarrow> ret (False, Some (Sentinel ErrDriverResult))
                  | Some v \<Rightarrow> bind (accepted v) (settleDecision x hookPre)))"

definition executePreTrade where
  "executePreTrade x ord ctx s onRejected onReserved =
     bind markRetryUnsafe (\<lambda>_.
     bind (callDriver (DExecutePreTrade ord) (drv_ExecutePreTrade x ord)) (\<lambda>(r, rejects, e).
     bind (newReservation r) (\<lambda>p.
     bind (case p of None \<Rightarrow> ret () | Some q \<Rightarrow> setPending (Some (reservationFinalizer q))) (\<lambda>_.
       driverVerdict x Reservation_IsClosed ''async chain execute pre-trade: ''
         ''async chain reserved hook: '' r rejects e
         (onRejectedEnd onRejected ctx s rejects)
         (\<lambda>v. nilable onReserved (\<lambda>f. callHook HOnReserved
            (f ctx s \<lparr>ror_reservation = Some v, ror_available = True\<rparr>)))))))"

definition applyDropCopy where
  "applyDropCopy x ord ctx s onRejected onApplied =
     bind markRetryUnsafe (\<lambda>_.
     bind (callDriver (DApplyDropCopy ord) (drv_ApplyDropCopy x ord)) (\<lambda>(r, rejects, e).
     bind (newOperation r) (\<lambda>p.
     bind (case p of None \<Rightarrow> ret () | Some q \<Rightarrow> setPending (Some (dropCopyFinalizer q))) (\<lambda>_.
       driverVerdict x DropCopyOperation_IsClosed ''async chain apply drop copy: ''
         ''async chain applied hook: '' r rejects e
         (onRejectedEnd onRejected ctx s rejects)
         (\<lambda>v. nilable onApplied (\<lambda>f. callHook HOnApplied
            (f ctx s \<lparr>dor_operation = Some v, dor_available = True\<rparr>)))))))"

text \<open>
  \<^verbatim>\<open>checkOrder\<close> closes a returned report on every way out (\<^verbatim>\<open>defer report.Close()\<close>).
\<close>

definition checkOrderVerdict where
  "checkOrderVerdict x ctx s onChecked r e =
     (case validateDriverResult (r \<noteq> None) (case r of None \<Rightarrow> False | Some v \<Rightarrow> \<not> DryRunReport_IsClosed v)
            [] e of
        Some se \<Rightarrow> ret (wrapf ''async chain check order: '' se)
      | None \<Rightarrow>
        (case e of
           Some er \<Rightarrow> ret (wrapf ''async chain check order: '' er)
         | None \<Rightarrow>
           nilable r (\<lambda>v.
           bind (read env) (\<lambda>en.
             case DryRunReport_IsPass x v en of
               Inl er \<Rightarrow> ret (wrapf ''async chain check order verdict: '' er)
             | Inr passed \<Rightarrow>
               (case (if passed then Inr (Some []) else DryRunReport_Rejects x v en) of
                  Inl er \<Rightarrow> ret (wrapf ''async chain check order rejects: '' er)
                | Inr None \<Rightarrow> ret (Some (Sentinel ErrDriverResult))
                | Inr (Some rejects) \<Rightarrow>
                    bind (nilable onChecked (\<lambda>f. callHook HOnChecked
                            (f ctx s \<lparr>drr_rejects = rejects, drr_report = Some v,
                               drr_available = True, drr_passed = passed\<rparr>)))
                      (\<lambda>he. orFail ''async chain checked hook: '' he (ret None)))))))"

definition checkOrder where
  "checkOrder x ord ctx s onChecked =
     bind (callDriver (DExecutePreTradeDryRun ord) (drv_ExecutePreTradeDryRun x ord)) (\<lambda>(r, e).
     bind (newReport r) (\<lambda>p.
       case p of
         None \<Rightarrow> checkOrderVerdict x ctx s onChecked r e
       | Some q \<Rightarrow> deferring (checkOrderVerdict x ctx s onChecked r e) (reportClose x q)))"

definition applyExecutionReport where
  "applyExecutionReport x accountID ctx s report onSettled =
     bind (nilable report (\<lambda>f. callHook HReport (f ctx s))) (\<lambda>(rep, e).
     orFail ''async chain execution report input: '' e
       (case extractReportAccountID rep of
          Inl er \<Rightarrow> ret (Some er)
        | Inr a \<Rightarrow>
            if a \<noteq> accountID then ret (Some (Sentinel ErrChainAccountMismatch))
            else
              bind markRetryUnsafe (\<lambda>_.
              bind (callDriver (DApplyExecutionReport rep) (drv_ApplyExecutionReport x rep))
                (\<lambda>(result, de).
              orFail ''async chain apply execution report: '' de
                (bind (nilable onSettled (\<lambda>f. callHook HOnSettled (f ctx s result)))
                  (\<lambda>he. orFail ''async chain settled hook: '' he (ret None)))))))"

definition applyAccountAdjustment where
  "applyAccountAdjustment x accountID ctx s adjustments onAdjusted =
     bind (nilable adjustments (\<lambda>f. callHook HAdjustments (f ctx s))) (\<lambda>(adjs, e).
     orFail ''async chain account adjustment input: '' e
       (bind markRetryUnsafe (\<lambda>_.
        bind (callDriver (DApplyAccountAdjustment accountID adjs)
                (drv_ApplyAccountAdjustment x accountID adjs)) (\<lambda>(result, de).
        orFail ''async chain apply account adjustment: '' de
          (bind (nilable onAdjusted (\<lambda>f. callHook HOnAdjusted (f ctx s result)))
            (\<lambda>he. orFail ''async chain adjusted hook: '' he (ret None)))))))"

definition blockAccount where
  "blockAccount x accountID ctx s reason onBlocked =
     bind (nilable reason (\<lambda>f. callHook HReason (f ctx s))) (\<lambda>(rs, e).
     orFail ''async chain account block input: '' e
       (bind markRetryUnsafe (\<lambda>_.
        bind (callDriver (DBlock accountID rs) (drv_void x (DBlock accountID rs))) (\<lambda>_.
        bind (nilable onBlocked (\<lambda>f. callHook HOnBlocked (f ctx s)))
          (\<lambda>he. orFail ''async chain account blocked hook: '' he (ret None))))))"

definition unblockAccount where
  "unblockAccount x accountID ctx s onUnblocked =
     bind markRetryUnsafe (\<lambda>_.
     bind (callDriver (DUnblock accountID) (drv_void x (DUnblock accountID))) (\<lambda>_.
     bind (nilable onUnblocked (\<lambda>f. callHook HOnUnblocked (f ctx s)))
       (\<lambda>he. orFail ''async chain account unblocked hook: '' he (ret None))))"

definition blockAccountGroup where
  "blockAccountGroup x groupID ctx s reason onBlocked =
     bind (nilable reason (\<lambda>f. callHook HReason (f ctx s))) (\<lambda>(rs, e).
     orFail ''async chain account-group block input: '' e
       (bind markRetryUnsafe (\<lambda>_.
        nilable groupID (\<lambda>g.
        bind (callDriver (DBlockGroup g rs) (drv_fallible x (DBlockGroup g rs))) (\<lambda>de.
        orFail ''async chain block account group: '' de
          (bind (nilable onBlocked (\<lambda>f. callHook HOnBlocked (f ctx s)))
            (\<lambda>he. orFail ''async chain account group blocked hook: '' he (ret None))))))))"

definition unblockAccountGroup where
  "unblockAccountGroup x groupID ctx s onUnblocked =
     bind markRetryUnsafe (\<lambda>_.
     nilable groupID (\<lambda>g.
     bind (callDriver (DUnblockGroup g) (drv_fallible x (DUnblockGroup g))) (\<lambda>de.
     orFail ''async chain unblock account group: '' de
       (bind (nilable onUnblocked (\<lambda>f. callHook HOnUnblocked (f ctx s)))
         (\<lambda>he. orFail ''async chain account group unblocked hook: '' he (ret None))))))"

definition setAccountCurrency where
  "setAccountCurrency x accountID ctx s currency onSet =
     bind (nilable currency (\<lambda>f. callHook HCurrency (f ctx s))) (\<lambda>(c, e).
     orFail ''async chain account currency input: '' e
       (bind markRetryUnsafe (\<lambda>_.
        bind (callDriver (DSetCurrency accountID c) (drv_fallible x (DSetCurrency accountID c))) (\<lambda>de.
        orFail ''async chain set account currency: '' de
          (bind (nilable onSet (\<lambda>f. callHook HOnSet (f ctx s)))
            (\<lambda>he. orFail ''async chain account currency set hook: '' he (ret None)))))))"

definition clearAccountCurrency where
  "clearAccountCurrency x accountID ctx s onCleared =
     bind markRetryUnsafe (\<lambda>_.
     bind (callDriver (DClearCurrency accountID) (drv_void x (DClearCurrency accountID))) (\<lambda>_.
     bind (nilable onCleared (\<lambda>f. callHook HOnCleared (f ctx s)))
       (\<lambda>he. orFail ''async chain account currency cleared hook: '' he (ret None))))"

definition setSpotFundsAccountPnl where
  "setSpotFundsAccountPnl x accountID ctx s assignment onSet =
     bind (nilable assignment (\<lambda>f. callHook HAssignment (f ctx s))) (\<lambda>((policy, st), e).
     orFail ''async chain SpotFunds account P&L input: '' e
       (bind markRetryUnsafe (\<lambda>_.
        bind (callDriver (DSetSpotFundsAccountPnl policy accountID st)
                (drv_SetSpotFundsAccountPnl x policy accountID st)) (\<lambda>(result, de).
        orFail ''async chain set SpotFunds account P&L: '' de
          (bind (nilable onSet (\<lambda>f. callHook HOnSet (f ctx s result)))
            (\<lambda>he. orFail ''async chain SpotFunds account P&L set hook: '' he (ret None)))))))"

definition notEnded :: "('e, err) run \<Rightarrow> ('e, bool \<times> err) run" where
  "notEnded m = bind m (\<lambda>e. ret (False, e))"

fun stepExecute ::
  "('e, 'x) boundary_scheme \<Rightarrow> ('e, 's) chainPlan \<Rightarrow> go_context \<Rightarrow> 's \<Rightarrow> ('e, 's) chainStep \<Rightarrow>
   ('e, bool \<times> err) run" where
  "stepExecute x p ctx s (CallerStep fn) =
     notEnded (bind (nilable fn (\<lambda>f. callHook HThen (f ctx s)))
       (\<lambda>he. orFail ''async chain caller hook: '' he (ret None)))"
| "stepExecute x p ctx s (PreTradeStep onRejected onReserved) =
     nilable (cp_order p) (\<lambda>ord. executePreTrade x ord ctx s onRejected onReserved)"
| "stepExecute x p ctx s (DropCopyStep onRejected onApplied) =
     nilable (cp_order p) (\<lambda>ord. applyDropCopy x ord ctx s onRejected onApplied)"
| "stepExecute x p ctx s (CheckOrderStep onChecked) =
     notEnded (nilable (cp_order p) (\<lambda>ord. checkOrder x ord ctx s onChecked))"
| "stepExecute x p ctx s (ExecutionReportStep report onSettled) =
     notEnded (applyExecutionReport x (cp_accountID p) ctx s report onSettled)"
| "stepExecute x p ctx s (AccountAdjustmentStep adjustments onAdjusted) =
     notEnded (applyAccountAdjustment x (cp_accountID p) ctx s adjustments onAdjusted)"
| "stepExecute x p ctx s (BlockAccount reason onBlocked) =
     notEnded (blockAccount x (cp_accountID p) ctx s reason onBlocked)"
| "stepExecute x p ctx s (UnblockAccount onUnblocked) =
     notEnded (unblockAccount x (cp_accountID p) ctx s onUnblocked)"
| "stepExecute x p ctx s (BlockAccountGroup reason onBlocked) =
     notEnded (blockAccountGroup x (cp_groupID p) ctx s reason onBlocked)"
| "stepExecute x p ctx s (UnblockAccountGroup onUnblocked) =
     notEnded (unblockAccountGroup x (cp_groupID p) ctx s onUnblocked)"
| "stepExecute x p ctx s (SetAccountCurrency currency onSet) =
     notEnded (setAccountCurrency x (cp_accountID p) ctx s currency onSet)"
| "stepExecute x p ctx s (ClearAccountCurrency onCleared) =
     notEnded (clearAccountCurrency x (cp_accountID p) ctx s onCleared)"
| "stepExecute x p ctx s (SetSpotFundsAccountPnl assignment onSet) =
     notEnded (setSpotFundsAccountPnl x (cp_accountID p) ctx s assignment onSet)"

section \<open>The whole run\<close>

fun runSteps ::
  "('e, 'x) boundary_scheme \<Rightarrow> ('e, 's) chainPlan \<Rightarrow> go_context \<Rightarrow> 's \<Rightarrow> ('e, 's) chainStep list \<Rightarrow>
   ('e, chainOutcomeStatus \<times> err) run" where
  "runSteps x p ctx s [] = ret (ChainOutcomeCompleted, None)"
| "runSteps x p ctx s (st # sts) =
     bind (stepExecute x p ctx s st) (\<lambda>(ended, e).
       case e of
         Some er \<Rightarrow> ret (ChainOutcomeCompleted, Some er)
       | None \<Rightarrow> if ended then ret (ChainOutcomeRejected, None) else runSteps x p ctx s sts)"

definition resolvedOutcome :: "chainOutcomeStatus \<Rightarrow> err \<Rightarrow> bool \<Rightarrow> chainOutcome" where
  "resolvedOutcome status runErr unsafe =
     \<lparr>co_Err = runErr, co_Status = (if runErr \<noteq> None then ChainOutcomeFailed else status),
      co_RetryUnsafe = unsafe\<rparr>"

definition callFinally where
  "callFinally fin ctx s outcome =
     recovering
       (bind (callHook HFinally (fin ctx s outcome))
         (\<lambda>e. orFail ''async chain final hook: '' e (ret None)))
       (\<lambda>p. Some (chainPanicError ''async chain final hook panicked'' p))"

text \<open>
  The deferred function of \<^verbatim>\<open>execute\<close>: roll a pending handle back, mark a failure that
  followed a state-changing call, run the terminal hook, resolve.  \<open>st\<close> is the chain's
  state when \<^verbatim>\<open>begin\<close> succeeded (\<^verbatim>\<open>stateReady\<close>).
\<close>

definition finishRun ::
  "('e, 'x) boundary_scheme \<Rightarrow> ('e, 's) chainPlan \<Rightarrow> go_context \<Rightarrow> 's option \<Rightarrow>
   chainOutcomeStatus \<Rightarrow> err \<Rightarrow> ('e, chainOutcome \<times> err) run" where
  "finishRun x p ctx st status runErr0 =
     bind (read pending) (\<lambda>pend.
     bind (case pend of None \<Rightarrow> ret runErr0
           | Some f \<Rightarrow> bind (rollbackPending x f) (\<lambda>re. ret (errors_Join [runErr0, re]))) (\<lambda>runErr1.
     bind (read retryUnsafe) (\<lambda>unsafe.
       let runErr2 = (if runErr1 \<noteq> None \<and> unsafe
              then errors_Join [runErr1, Some (Sentinel ErrChainRetryUnsafe)] else runErr1);
           outcome = resolvedOutcome status runErr2 unsafe
       in case (st, cp_finally p) of
            (Some s, Some fin) \<Rightarrow>
              bind (callFinally fin ctx s outcome) (\<lambda>fe.
                let fe' = (if runErr2 = None \<and> fe \<noteq> None \<and> unsafe
                       then errors_Join [fe, Some (Sentinel ErrChainRetryUnsafe)] else fe);
                    runErr3 = errors_Join [runErr2, fe']
                in ret (resolvedOutcome status runErr3 unsafe, runErr3))
          | _ \<Rightarrow> ret (outcome, runErr2))))"

definition frameOf :: "'e world \<Rightarrow> 'e frame" where
  "frameOf w = world.extend w \<lparr>pending = None, retryUnsafe = False\<rparr>"

text \<open>
  \<^verbatim>\<open>chainTask.execute\<close>: the pair passed to the future's \<^verbatim>\<open>Resolve\<close>, and the frame it
  leaves.  A panic of \<^verbatim>\<open>begin\<close> or of a step is recovered by the deferred function, with
  \<^verbatim>\<open>status\<close> still completed.
\<close>

definition execute ::
  "('e, 'x) boundary_scheme \<Rightarrow> ('e, 's) chainPlan \<Rightarrow> go_context \<Rightarrow>
   ('e, chainOutcome \<times> err) run" where
  "execute x p ctx0 w =
     (let ctx = WithoutCancel ctx0;
          panicked = (\<lambda>q. Some (chainPanicError ''async chain execution panicked'' q))
      in case nilable (cp_begin p) (\<lambda>f. callHook HBegin (f ctx)) w of
           (Panic q, w1) \<Rightarrow> finishRun x p ctx None ChainOutcomeCompleted (panicked q) w1
         | (Ret (s, Some e), w1) \<Rightarrow>
             finishRun x p ctx None ChainOutcomeCompleted (wrapf ''async chain begin: '' e) w1
         | (Ret (s, None), w1) \<Rightarrow>
             (case runSteps x p ctx s (cp_steps p) w1 of
                (Panic q, w2) \<Rightarrow> finishRun x p ctx (Some s) ChainOutcomeCompleted (panicked q) w2
              | (Ret (status, e), w2) \<Rightarrow> finishRun x p ctx (Some s) status e w2))"

text \<open>\<^verbatim>\<open>chainTask.run\<close> and \<^verbatim>\<open>abort\<close> on the task's future.\<close>

definition chainTask_run ::
  "('e, 'x) boundary_scheme \<Rightarrow> ('e, 's) chainPlan \<Rightarrow> go_context \<Rightarrow> chainOutcome future \<Rightarrow>
   'e world \<Rightarrow> chainOutcome future \<times> 'e world" where
  "chainTask_run x p ctx f w =
     (case execute x p ctx (frameOf w) of
        (Ret (outcome, e), w') \<Rightarrow> (Resolve outcome e f, world.truncate w')
      | (Panic q, w') \<Rightarrow> (f, world.truncate w'))"

definition chainTask_abort :: "go_error \<Rightarrow> chainOutcome future \<Rightarrow> chainOutcome future" where
  "chainTask_abort e f =
     Resolve \<lparr>co_Err = Some e, co_Status = ChainOutcomeFailed, co_RetryUnsafe = False\<rparr> (Some e) f"

section \<open>Making and submitting the task\<close>

text \<open>
  A validated task is its plan, with the account the validation resolved, and its routing
  key.
\<close>

definition newChainTaskFromPlan ::
  "('e, 's) chainPlan \<Rightarrow> bool \<Rightarrow> go_error + (('e, 's) chainPlan \<times> routingKey)" where
  "newChainTaskFromPlan p finallyRequired =
     (if finallyRequired \<and> cp_finally p = None
      then Inl (Wrap [] (Sentinel ErrChainIncomplete) '': Chain.Finally'')
      else case planValidate p of
             Inl e \<Rightarrow> Inl e
           | Inr (key, a) \<Rightarrow> Inr (p\<lparr>cp_accountID := a\<rparr>, key))"

definition newChainTask ::
  "('e, 's) chainBuilder option \<Rightarrow> go_error + (('e, 's) chainPlan \<times> routingKey)" where
  "newChainTask c =
     (case c of
        None \<Rightarrow> Inl (Wrap [] (Sentinel ErrChainIncomplete) '': Chain'')
      | Some b \<Rightarrow> newChainTaskFromPlan (snapshot b None) False)"

definition ChainBuilder_newChainTask ::
  "('e, 's) chainBuilder option \<Rightarrow> go_error + (('e, 's) chainPlan \<times> routingKey)" where
  "ChainBuilder_newChainTask c =
     (if c \<noteq> None \<and> cb_finallyRunnerReturned (the c)
      then Inl (Wrap [] (Sentinel ErrChainIncomplete) '': discarded Chain.Finally result'')
      else newChainTask c)"

definition ChainRunner_newChainTask ::
  "('e, 's) chainPlan option \<Rightarrow> go_error + (('e, 's) chainPlan \<times> routingKey)" where
  "ChainRunner_newChainTask r =
     (case r of None \<Rightarrow> newChainTask None | Some p \<Rightarrow> newChainTaskFromPlan p True)"

definition zeroChainOutcome :: chainOutcome where
  "zeroChainOutcome = \<lparr>co_Err = None, co_Status = ChainOutcomeUnknown, co_RetryUnsafe = False\<rparr>"

text \<open>
  \<^verbatim>\<open>runChain\<close>: \<open>submit\<close> is the engine's \<^verbatim>\<open>submit\<close>, \<open>None\<close> a nil engine.  The
  result is the future and the task the queue accepted, if any.
\<close>

definition runChain ::
  "(routingKey \<Rightarrow> ('e, 's) chainPlan \<Rightarrow> err) option \<Rightarrow> go_error + (('e, 's) chainPlan \<times> routingKey) \<Rightarrow>
   chainOutcome future \<times> (('e, 's) chainPlan \<times> routingKey) option" where
  "runChain submit newTask =
     (let f = New zeroChainOutcome;
          failed = (\<lambda>e. Resolve \<lparr>co_Err = Some e, co_Status = ChainOutcomeFailed, co_RetryUnsafe = False\<rparr>
             (Some e) f)
      in case submit of
           None \<Rightarrow> (failed (Sentinel ErrChainEngineMissing), None)
         | Some sub \<Rightarrow>
             (case newTask of
                Inl e \<Rightarrow> (failed e, None)
              | Inr (p, key) \<Rightarrow>
                  (case sub key p of
                     Some e \<Rightarrow> (failed e, None)
                   | None \<Rightarrow> (f, Some (p, key)))))"

definition ChainBuilder_Run where
  "ChainBuilder_Run submit c = runChain submit (ChainBuilder_newChainTask c)"

definition ChainRunner_Run where
  "ChainRunner_Run submit r = runChain submit (ChainRunner_newChainTask r)"

end
