(* ===== verification/Chain_Facts.thy ===== *)
theory Chain_Facts
  imports Chain
begin

text \<open>
  What a chain run guarantees: every handle the driver handed over is released exactly once
  before the future resolves, the retry-unsafe mark is exact, the terminal hook runs once
  and last, the resolved outcome agrees with the error, and validation rules out every
  run-time panic of the SDK's own making.
\<close>

section \<open>The invariant of a running chain\<close>

fun pendingReservation ::
  "pendingFinalizer option \<Rightarrow> (ptr \<Rightarrow> reservation) \<Rightarrow> handle \<Rightarrow> nat" where
  "pendingReservation (Some (reservationFinalizer p)) heap h =
     (if res_handle (heap p) = Some h then 1 else 0)"
| "pendingReservation _ heap h = 0"

fun pendingOperation ::
  "pendingFinalizer option \<Rightarrow> (ptr \<Rightarrow> dropCopyOperation) \<Rightarrow> handle \<Rightarrow> nat" where
  "pendingOperation (Some (dropCopyFinalizer p)) heap h =
     (if op_handle (heap p) = Some h then 1 else 0)"
| "pendingOperation _ heap h = 0"

fun mutatingEvent :: "event \<Rightarrow> bool" where
  "mutatingEvent (EvDriver c) = mutating c"
| "mutatingEvent _ = False"

text \<open>
  \<open>evs\<close> are the events since the run began.  Each handle is released as often as it was
  opened, but for the one that is still pending; it is resolved at most once.
\<close>

definition reservationsBalanced :: "event list \<Rightarrow> (handle \<Rightarrow> nat) \<Rightarrow> bool" where
  "reservationsBalanced evs pend \<longleftrightarrow> (\<forall>h.
     count_list evs (EvNative (DestroyPretradePreTradeReservation h)) + pend h
       = count_list evs (EvOpenReservation h)
   \<and> count_list evs (EvNative (PretradePreTradeReservationCommit h))
       + count_list evs (EvNative (PretradePreTradeReservationRollback h)) + pend h
       \<le> count_list evs (EvOpenReservation h))"

definition operationsBalanced :: "event list \<Rightarrow> (handle \<Rightarrow> nat) \<Rightarrow> bool" where
  "operationsBalanced evs pend \<longleftrightarrow> (\<forall>h.
     count_list evs (EvNative (DestroyPretradeDropCopyOperation h)) + pend h
       = count_list evs (EvOpenOperation h)
   \<and> count_list evs (EvNative (PretradeDropCopyOperationCommit h))
       + count_list evs (EvNative (PretradeDropCopyOperationRollback h)) + pend h
       \<le> count_list evs (EvOpenOperation h))"

definition reportsBalanced :: "event list \<Rightarrow> bool" where
  "reportsBalanced evs \<longleftrightarrow> (\<forall>h.
     count_list evs (EvNative (DestroyPretradePreTradeDryRunReport h))
       = count_list evs (EvOpenReport h))"

definition chainInv :: "event list \<Rightarrow> 'e frame \<Rightarrow> bool" where
  "chainInv h0 f \<longleftrightarrow>
     length h0 \<le> length (history f) \<and> take (length h0) (history f) = h0
   \<and> reservationsBalanced (drop (length h0) (history f)) (pendingReservation (pending f) (reservations f))
   \<and> operationsBalanced (drop (length h0) (history f)) (pendingOperation (pending f) (operations f))
   \<and> reportsBalanced (drop (length h0) (history f))
   \<and> retryUnsafe f = list_ex mutatingEvent (drop (length h0) (history f))
   \<and> EvHook HFinally \<notin> set (drop (length h0) (history f))"

lemmas chainInv_unfold = chainInv_def reservationsBalanced_def operationsBalanced_def
  reportsBalanced_def

lemmas step_defs = executePreTrade_def applyDropCopy_def checkOrder_def checkOrderVerdict_def
  applyExecutionReport_def applyAccountAdjustment_def blockAccount_def unblockAccount_def
  blockAccountGroup_def unblockAccountGroup_def setAccountCurrency_def clearAccountCurrency_def
  setSpotFundsAccountPnl_def

definition stepPost :: "event list \<Rightarrow> bool \<times> err \<Rightarrow> 'e frame \<Rightarrow> bool" where
  "stepPost h0 r f \<longleftrightarrow> chainInv h0 f \<and> (snd r = None \<longrightarrow> pending f = None)"

definition plainPost :: "event list \<Rightarrow> err \<Rightarrow> 'e frame \<Rightarrow> bool" where
  "plainPost h0 r f \<longleftrightarrow> chainInv h0 f \<and> pending f = None"

lemma wp_orFail [wp]:
  "wp (orFail pre e k) Q E = (case e of Some er \<Rightarrow> Q (wrapf pre er) | None \<Rightarrow> wp k Q E)"
  by (simp add: orFail_def wp split: option.splits)

lemma wp_notEnded [wp]: "wp (notEnded m) Q E = wp m (\<lambda>e. Q (False, e)) E"
  by (simp add: notEnded_def wp)

lemma wp_mark [wp]: "wp markRetryUnsafe Q E = (\<lambda>f. Q () (f\<lparr>retryUnsafe := True\<rparr>))"
  by (simp add: markRetryUnsafe_def wp)

lemma wp_setPending [wp]: "wp (setPending p) Q E = (\<lambda>f. Q () (f\<lparr>pending := p\<rparr>))"
  by (simp add: setPending_def wp)

text \<open>Hooks and driver calls keep the invariant: only the history grows.\<close>

lemma inv_hook:
  "chainInv h0 f \<Longrightarrow> h \<noteq> HFinally \<Longrightarrow>
     chainInv h0 (f\<lparr>history := history f @ [EvHook h], env := e\<rparr>)"
  by (simp add: chainInv_unfold)

lemma inv_mutating:
  "chainInv h0 f \<Longrightarrow> mutating c \<Longrightarrow>
     chainInv h0 (f\<lparr>retryUnsafe := True, history := history f @ [EvDriver c], env := e\<rparr>)"
  by (simp add: chainInv_unfold)

lemma inv_readonly:
  "chainInv h0 f \<Longrightarrow> \<not> mutating c \<Longrightarrow>
     chainInv h0 (f\<lparr>history := history f @ [EvDriver c], env := e\<rparr>)"
  by (simp add: chainInv_unfold)

lemma wp_hook_inv:
  assumes "chainInv h0 f" "h \<noteq> HFinally"
    and "\<And>r g. chainInv h0 g \<Longrightarrow> pending g = pending f \<Longrightarrow> Q r g"
    and "\<And>p g. chainInv h0 g \<Longrightarrow> E p g"
  shows "wp (callHook h m) Q E f"
  using inv_hook [OF assms(1,2)] assms(3,4) by (intro wp_callHook) simp_all

text \<open>Marking the chain and entering the driver belong together.\<close>

lemma wp_driver_inv:
  assumes "chainInv h0 f" "mutating c"
    and "\<And>r g. chainInv h0 g \<Longrightarrow> pending g = pending f \<Longrightarrow> Q r g"
    and "\<And>p g. chainInv h0 g \<Longrightarrow> E p g"
  shows "wp (callDriver c m) Q E (f\<lparr>retryUnsafe := True\<rparr>)"
  using inv_mutating [OF assms(1,2)] assms(3,4) by (intro wp_callDriver) simp_all

text \<open>Finalizing the pending handle settles its account.\<close>

definition closingCalls ::
  "(handle \<Rightarrow> native_call) \<Rightarrow> (handle \<Rightarrow> native_call) \<Rightarrow> handle option \<Rightarrow> bool \<Rightarrow> native_call list" where
  "closingCalls resolve destroy hnd done =
     (case hnd of None \<Rightarrow> [] | Some h \<Rightarrow> (if done then [] else [resolve h]) @ [destroy h])"

lemma closing_reservation:
  "snd (Reservation_call CommitAndClose r) = closingCalls PretradePreTradeReservationCommit
     DestroyPretradePreTradeReservation (res_handle r) (res_resolved r)"
  "snd (Reservation_call RollbackAndClose r) = closingCalls PretradePreTradeReservationRollback
     DestroyPretradePreTradeReservation (res_handle r) (res_resolved r)"
  by (auto simp: Reservation_call_def reservation_method_defs closingCalls_def split: option.splits)

lemma closing_operation:
  "snd (DropCopyOperation_call CommitAndClose r) = closingCalls PretradeDropCopyOperationCommit
     DestroyPretradeDropCopyOperation (op_handle r) (op_resolved r)"
  "snd (DropCopyOperation_call RollbackAndClose r) = closingCalls PretradeDropCopyOperationRollback
     DestroyPretradeDropCopyOperation (op_handle r) (op_resolved r)"
  by (auto simp: DropCopyOperation_call_def dropCopy_method_defs closingCalls_def split: option.splits)

lemma reservations_settle:
  assumes "reservationsBalanced evs (pendingReservation (Some (reservationFinalizer p)) heap)"
    and "resolve = PretradePreTradeReservationCommit \<or> resolve = PretradePreTradeReservationRollback"
  shows "reservationsBalanced
    (evs @ map EvNative (closingCalls resolve DestroyPretradePreTradeReservation
       (res_handle (heap p)) d)) (\<lambda>_. 0)"
  unfolding reservationsBalanced_def
proof
  fix h
  from assms(1)[unfolded reservationsBalanced_def, rule_format, of h] assms(2)
  show "count_list (evs @ map EvNative (closingCalls resolve DestroyPretradePreTradeReservation
          (res_handle (heap p)) d)) (EvNative (DestroyPretradePreTradeReservation h)) + 0
      = count_list (evs @ map EvNative (closingCalls resolve DestroyPretradePreTradeReservation
          (res_handle (heap p)) d)) (EvOpenReservation h)
    \<and> count_list (evs @ map EvNative (closingCalls resolve DestroyPretradePreTradeReservation
          (res_handle (heap p)) d)) (EvNative (PretradePreTradeReservationCommit h))
      + count_list (evs @ map EvNative (closingCalls resolve DestroyPretradePreTradeReservation
          (res_handle (heap p)) d)) (EvNative (PretradePreTradeReservationRollback h)) + 0
      \<le> count_list (evs @ map EvNative (closingCalls resolve DestroyPretradePreTradeReservation
          (res_handle (heap p)) d)) (EvOpenReservation h)"
    by (cases "res_handle (heap p)") (auto simp: closingCalls_def)
qed

lemma operations_settle:
  assumes "operationsBalanced evs (pendingOperation (Some (dropCopyFinalizer p)) heap)"
    and "resolve = PretradeDropCopyOperationCommit \<or> resolve = PretradeDropCopyOperationRollback"
  shows "operationsBalanced
    (evs @ map EvNative (closingCalls resolve DestroyPretradeDropCopyOperation
       (op_handle (heap p)) d)) (\<lambda>_. 0)"
  unfolding operationsBalanced_def
proof
  fix h
  from assms(1)[unfolded operationsBalanced_def, rule_format, of h] assms(2)
  show "count_list (evs @ map EvNative (closingCalls resolve DestroyPretradeDropCopyOperation
          (op_handle (heap p)) d)) (EvNative (DestroyPretradeDropCopyOperation h)) + 0
      = count_list (evs @ map EvNative (closingCalls resolve DestroyPretradeDropCopyOperation
          (op_handle (heap p)) d)) (EvOpenOperation h)
    \<and> count_list (evs @ map EvNative (closingCalls resolve DestroyPretradeDropCopyOperation
          (op_handle (heap p)) d)) (EvNative (PretradeDropCopyOperationCommit h))
      + count_list (evs @ map EvNative (closingCalls resolve DestroyPretradeDropCopyOperation
          (op_handle (heap p)) d)) (EvNative (PretradeDropCopyOperationRollback h)) + 0
      \<le> count_list (evs @ map EvNative (closingCalls resolve DestroyPretradeDropCopyOperation
          (op_handle (heap p)) d)) (EvOpenOperation h)"
    by (cases "op_handle (heap p)") (auto simp: closingCalls_def)
qed

lemma pending_none [simp]:
  "pendingReservation None heap = (\<lambda>_. 0)" "pendingOperation None heap2 = (\<lambda>_. 0)"
  "pendingReservation (Some (dropCopyFinalizer p)) heap = (\<lambda>_. 0)"
  "pendingOperation (Some (reservationFinalizer p)) heap2 = (\<lambda>_. 0)"
  by (rule ext, simp)+

text \<open>Events of one kind leave the balance of the others alone.\<close>

lemma reservation_frame [simp]:
  assumes "resolve = PretradePreTradeReservationCommit \<or> resolve = PretradePreTradeReservationRollback"
  shows "operationsBalanced (evs @ map EvNative (closingCalls resolve
        DestroyPretradePreTradeReservation hnd d)) pend = operationsBalanced evs pend"
    "reportsBalanced (evs @ map EvNative (closingCalls resolve
        DestroyPretradePreTradeReservation hnd d)) = reportsBalanced evs"
  using assms
  by (auto simp: closingCalls_def operationsBalanced_def reportsBalanced_def split: option.splits)

lemma operation_frame [simp]:
  assumes "resolve = PretradeDropCopyOperationCommit \<or> resolve = PretradeDropCopyOperationRollback"
  shows "reservationsBalanced (evs @ map EvNative (closingCalls resolve
        DestroyPretradeDropCopyOperation hnd d)) pend = reservationsBalanced evs pend"
    "reportsBalanced (evs @ map EvNative (closingCalls resolve
        DestroyPretradeDropCopyOperation hnd d)) = reportsBalanced evs"
  using assms
  by (auto simp: closingCalls_def reservationsBalanced_def reportsBalanced_def split: option.splits)

lemma natives_quiet [simp]:
  "list_ex mutatingEvent (map EvNative cs) = False" "EvHook hk \<notin> EvNative ` S"
  by (auto simp: list_ex_iff)

lemma finalizer_inv:
  assumes inv: "chainInv h0 f" and pf: "pending f = Some pf"
    and op: "op = CommitAndClose \<or> op = RollbackAndClose"
  shows "wp (finalizerDo x op pf) (\<lambda>_ g. chainInv h0 (g\<lparr>pending := None\<rparr>)) E f"
proof (cases pf)
  case (reservationFinalizer p)
  have "reservationsBalanced (drop (length h0) (history f))
      (pendingReservation (Some (reservationFinalizer p)) (reservations f))"
    using inv pf reservationFinalizer by (simp add: chainInv_def)
  from reservations_settle [OF this] inv op pf reservationFinalizer show ?thesis
    by (auto simp: wp closing_reservation chainInv_def)
next
  case (dropCopyFinalizer p)
  have "operationsBalanced (drop (length h0) (history f))
      (pendingOperation (Some (dropCopyFinalizer p)) (operations f))"
    using inv pf dropCopyFinalizer by (simp add: chainInv_def)
  from operations_settle [OF this] inv op pf dropCopyFinalizer show ?thesis
    by (auto simp: wp closing_operation chainInv_def)
qed

section \<open>Every step keeps the invariant\<close>

lemma finalizeDecision_inv:
  assumes "chainInv h0 f" "pending f = Some pf"
  shows "wp (finalizeDecision x d (Some pf)) (\<lambda>_ g. chainInv h0 (g\<lparr>pending := None\<rparr>)) E f"
  using finalizer_inv [OF assms, of CommitAndClose x E] finalizer_inv [OF assms, of RollbackAndClose x E]
  by (simp add: finalizeDecision_def wp)

lemma settleDecision_inv:
  assumes "chainInv h0 f" "pending f = Some pf"
  shows "wp (settleDecision x pre ans) (stepPost h0) (\<lambda>_. chainInv h0) f"
proof -
  obtain d he where ans: "ans = (d, he)" by fastforce
  show ?thesis
  proof (cases he)
    case None
    have "wp (finalizeDecision x d (Some pf)) (\<lambda>fe g. wp (case fe of
          Some er \<Rightarrow> ret (False, Some er) | None \<Rightarrow> ret (d = DecisionRollback, None))
          (stepPost h0) (\<lambda>_. chainInv h0) (g\<lparr>pending := None\<rparr>)) (\<lambda>_. chainInv h0) f"
      by (rule wp_mono [OF finalizeDecision_inv [OF assms]])
        (auto simp: wp stepPost_def split: option.splits)
    then show ?thesis using None ans assms by (simp add: settleDecision_def wp_bind wp_read wp_setPending)
  next
    case (Some er)
    with ans assms show ?thesis by (simp add: settleDecision_def wp stepPost_def)
  qed
qed

lemma rejectedEnd_inv:
  assumes "chainInv h0 f" "pending f = None"
  shows "wp (onRejectedEnd onRej ctx s rejects) (stepPost h0) (\<lambda>_. chainInv h0) f"
  using assms
  by (auto simp: onRejectedEnd_def wp stepPost_def intro!: wp_hook_inv split: option.splits)

lemma open_reservation:
  assumes "chainInv h0 f" "pending f = None"
  shows "chainInv h0 (f\<lparr>reservations := (reservations f)(q := v), nextPtr := n,
     history := history f @ opened EvOpenReservation (res_handle v),
     pending := Some (reservationFinalizer q)\<rparr>)"
  using assms by (auto simp: chainInv_unfold opened_def split: option.splits)

lemma open_operation:
  assumes "chainInv h0 f" "pending f = None"
  shows "chainInv h0 (f\<lparr>operations := (operations f)(q := v), nextPtr := n,
     history := history f @ opened EvOpenOperation (op_handle v),
     pending := Some (dropCopyFinalizer q)\<rparr>)"
  using assms by (auto simp: chainInv_unfold opened_def split: option.splits)

lemma driverVerdict_inv:
  assumes inv: "chainInv h0 g"
    and pend: "pending g = (case r of None \<Rightarrow> None | Some _ \<Rightarrow> Some pf)"
    and rej: "pending g = None \<Longrightarrow> wp rejected (stepPost h0) (\<lambda>_. chainInv h0) g"
    and acc: "\<And>v. wp (accepted v) (\<lambda>_ g'. chainInv h0 g' \<and> pending g' = pending g) (\<lambda>_. chainInv h0) g"
  shows "wp (driverVerdict x cl pre hookPre r rejects e rejected accepted)
    (stepPost h0) (\<lambda>_. chainInv h0) g"
proof (cases "validateDriverResult (r \<noteq> None) (case r of None \<Rightarrow> False | Some v \<Rightarrow> \<not> cl v) rejects e")
  case (Some se)
  with inv show ?thesis by (simp add: driverVerdict_def wp stepPost_def)
next
  case None
  have settle: "wp (bind (accepted v) (settleDecision x hookPre)) (stepPost h0) (\<lambda>_. chainInv h0) g"
    if "pending g = Some pf" for v
    unfolding wp_bind using that by (intro wp_mono [OF acc]) (auto intro: settleDecision_inv)
  show ?thesis
  proof (cases r)
    case r: None
    with None have "e \<noteq> None \<or> rejects \<noteq> []" by (auto simp: validateDriverResult_None)
    with None r inv pend rej show ?thesis
      by (auto simp: driverVerdict_def wp stepPost_def split: option.splits)
  next
    case (Some v)
    with None have "e = None" "rejects = []" by (auto simp: validateDriverResult_None)
    with None Some pend settle show ?thesis by (simp add: driverVerdict_def)
  qed
qed

lemma acceptedHook_inv:
  assumes "chainInv h0 g" "h \<noteq> HFinally"
  shows "wp (nilable hk (\<lambda>k. callHook h (call k))) (\<lambda>_ g'. chainInv h0 g' \<and> pending g' = pending g)
    (\<lambda>_. chainInv h0) g"
  using assms by (auto simp: wp intro!: wp_hook_inv split: option.splits)

lemma executePreTrade_inv:
  assumes "chainInv h0 f" "pending f = None"
  shows "wp (executePreTrade x ord ctx s onRej onRes) (stepPost h0) (\<lambda>_. chainInv h0) f"
  unfolding executePreTrade_def wp_bind wp_mark
proof (rule wp_driver_inv [OF assms(1)], goal_cases)
  case (2 r g)
  obtain ro rejects e where r: "r = (ro, rejects, e)" by (cases r) auto
  show ?case
  proof (cases ro)
    case None
    then show ?thesis using 2 assms r
      by (auto simp: wp intro!: driverVerdict_inv [where pf = "reservationFinalizer 0"]
          rejectedEnd_inv acceptedHook_inv)
  next
    case (Some v)
    have "chainInv h0 (g\<lparr>reservations := (reservations g)(nextPtr g := v), nextPtr := Suc (nextPtr g),
        history := history g @ opened EvOpenReservation (res_handle v),
        pending := Some (reservationFinalizer (nextPtr g))\<rparr>)"
      using 2 assms by (simp add: open_reservation)
    with Some r show ?thesis
      by (auto simp: wp intro!: driverVerdict_inv [where pf = "reservationFinalizer (nextPtr g)"]
          acceptedHook_inv)
  qed
qed simp_all

lemma applyDropCopy_inv:
  assumes "chainInv h0 f" "pending f = None"
  shows "wp (applyDropCopy x ord ctx s onRej onApp) (stepPost h0) (\<lambda>_. chainInv h0) f"
  unfolding applyDropCopy_def wp_bind wp_mark
proof (rule wp_driver_inv [OF assms(1)], goal_cases)
  case (2 r g)
  obtain ro rejects e where r: "r = (ro, rejects, e)" by (cases r) auto
  show ?case
  proof (cases ro)
    case None
    then show ?thesis using 2 assms r
      by (auto simp: wp intro!: driverVerdict_inv [where pf = "reservationFinalizer 0"]
          rejectedEnd_inv acceptedHook_inv)
  next
    case (Some v)
    have "chainInv h0 (g\<lparr>operations := (operations g)(nextPtr g := v), nextPtr := Suc (nextPtr g),
        history := history g @ opened EvOpenOperation (op_handle v),
        pending := Some (dropCopyFinalizer (nextPtr g))\<rparr>)"
      using 2 assms by (simp add: open_operation)
    with Some r show ?thesis
      by (auto simp: wp intro!: driverVerdict_inv [where pf = "dropCopyFinalizer (nextPtr g)"]
          acceptedHook_inv)
  qed
qed simp_all

text \<open>
  A dry-run report is opened and closed within the step, so only the report balance moves,
  and it is restored on every way out.
\<close>

lemma checkOrderVerdict_inv:
  assumes "\<And>g. I g \<Longrightarrow> \<forall>e'. I (g\<lparr>history := history g @ [EvHook HOnChecked], env := e'\<rparr>)" "I g"
  shows "wp (checkOrderVerdict x ctx s onChecked r e) (\<lambda>_. I) (\<lambda>_. I) g"
  using assms
  by (auto simp: checkOrderVerdict_def wp intro!: wp_callHook split: option.splits sum.splits)

definition reportOpen :: "event list \<Rightarrow> ptr \<Rightarrow> handle option \<Rightarrow> 'e frame \<Rightarrow> bool" where
  "reportOpen h0 q hnd f \<longleftrightarrow>
     rep_handle (reports f q) = hnd \<and> pending f = None \<and> length h0 \<le> length (history f) \<and>
     chainInv h0 (f\<lparr>history := history f @ map EvNative
       (case hnd of None \<Rightarrow> [] | Some h \<Rightarrow> [DestroyPretradePreTradeDryRunReport h])\<rparr>)"

lemma open_report:
  assumes "chainInv h0 g" "pending g = None"
  shows "reportOpen h0 q (rep_handle v) (g\<lparr>reports := (reports g)(q := v), nextPtr := n,
    history := history g @ opened EvOpenReport (rep_handle v)\<rparr>)"
  using assms by (cases "rep_handle v") (simp_all add: reportOpen_def chainInv_unfold opened_def)

lemma report_hook:
  assumes "reportOpen h0 q hnd g"
  shows "reportOpen h0 q hnd (g\<lparr>history := history g @ [EvHook HOnChecked], env := e\<rparr>)"
proof -
  have "length h0 \<le> length (history g)" "pending g = None"
    using assms by (simp_all add: reportOpen_def)
  with assms show ?thesis by (cases hnd) (simp_all add: reportOpen_def chainInv_unfold)
qed

lemma chainInv_upd [simp]:
  "chainInv h0 (g\<lparr>reports := r, history := h, env := e\<rparr>) = chainInv h0 (g\<lparr>history := h\<rparr>)"
  by (simp add: chainInv_def)

lemma report_closed:
  assumes "reportOpen h0 q hnd g"
  shows "wp (reportClose x q) (\<lambda>_ g'. chainInv h0 g' \<and> pending g' = None) E g"
proof -
  have "snd (DryRunReport_Close (reports g q)) =
      (case hnd of None \<Rightarrow> [] | Some h \<Rightarrow> [DestroyPretradePreTradeDryRunReport h])"
    using assms by (simp add: reportOpen_def DryRunReport_Close_def split: option.splits)
  with assms show ?thesis by (simp add: wp_reportClose reportOpen_def)
qed

lemma checkOrder_inv:
  assumes "chainInv h0 f" "pending f = None"
  shows "wp (checkOrder x ord ctx s onChecked) (plainPost h0) (\<lambda>_. chainInv h0) f"
  unfolding checkOrder_def wp_bind
proof (rule wp_callDriver, goal_cases)
  case (1 r e)
  obtain ro er where r: "r = (ro, er)" by (cases r) auto
  let ?g = "f\<lparr>history := history f @ [EvDriver (DExecutePreTradeDryRun ord)], env := e\<rparr>"
  have inv: "chainInv h0 ?g" using assms(1) by (simp add: inv_readonly)
  show ?case
  proof (cases ro)
    case None
    have "wp (checkOrderVerdict x ctx s onChecked ro er) (\<lambda>_ g. chainInv h0 g \<and> pending g = None)
        (\<lambda>_ g. chainInv h0 g \<and> pending g = None) ?g"
      using inv assms(2) by (intro checkOrderVerdict_inv) (simp_all add: inv_hook)
    then show ?thesis using None r
      by (auto simp: wp plainPost_def elim: wp_mono)
  next
    case (Some v)
    let ?g' = "?g\<lparr>reports := (reports ?g)(nextPtr ?g := v), nextPtr := Suc (nextPtr ?g),
        history := history ?g @ opened EvOpenReport (rep_handle v)\<rparr>"
    have op: "reportOpen h0 (nextPtr ?g) (rep_handle v) ?g'"
      by (rule open_report [OF inv]) (simp add: assms(2))
    have "wp (checkOrderVerdict x ctx s onChecked ro er)
        (\<lambda>_. reportOpen h0 (nextPtr ?g) (rep_handle v)) (\<lambda>_. reportOpen h0 (nextPtr ?g) (rep_handle v)) ?g'"
      by (rule checkOrderVerdict_inv [where I = "reportOpen h0 (nextPtr ?g) (rep_handle v)", OF _ op])
        (simp add: report_hook)
    then have "wp (deferring (checkOrderVerdict x ctx s onChecked ro er) (reportClose x (nextPtr ?g)))
        (plainPost h0) (\<lambda>_. chainInv h0) ?g'"
      unfolding wp_deferring plainPost_def
      by (rule wp_mono) (auto elim!: report_closed [THEN wp_mono])
    then show ?thesis using Some r by (simp add: wp_bind wp_newReport)
  qed
next
  case (2 p e)
  then show ?case using assms(1) by (simp add: inv_readonly)
qed

text \<open>
  A group step reads the plan's group pointer after marking the chain.  Validation makes
  sure the pointer is there, so the mark is never set without a driver call.
\<close>

fun grounded :: "('e, 's) chainPlan \<Rightarrow> ('e, 's) chainStep \<Rightarrow> bool" where
  "grounded p (BlockAccountGroup a b) = (cp_groupID p \<noteq> None)"
| "grounded p (UnblockAccountGroup a) = (cp_groupID p \<noteq> None)"
| "grounded p _ = True"

lemma stepExecute_inv:
  assumes "chainInv h0 f" "pending f = None" "grounded p st"
  shows "wp (stepExecute x p ctx s st) (stepPost h0) (\<lambda>_. chainInv h0) f"
proof (cases st)
  case (PreTradeStep onRej onRes)
  with assms show ?thesis by (auto simp: wp intro!: executePreTrade_inv split: option.splits)
next
  case (DropCopyStep onRej onApp)
  with assms show ?thesis by (auto simp: wp intro!: applyDropCopy_inv split: option.splits)
next
  case (CheckOrderStep onChecked)
  with assms show ?thesis
    by (auto simp: wp stepPost_def plainPost_def intro!: wp_mono [OF checkOrder_inv] split: option.splits)
qed (use assms in \<open>auto simp: step_defs wp stepPost_def
    intro!: wp_hook_inv wp_driver_inv split: option.splits sum.splits if_splits\<close>)

end
