(* ===== verification/Chain_Runs.thy ===== *)
theory Chain_Runs
  imports Chain_Facts
begin

text \<open>
  Whole chain runs: what validation guarantees of an accepted task, the run of all steps,
  the deferred clean-up, and the properties of \<^verbatim>\<open>chainTask.run\<close>.
\<close>

section \<open>What validation establishes\<close>

lemma firstErr_None: "firstErr es = None \<longleftrightarrow> (\<forall>e \<in> set es. e = None)"
  by (induction es rule: firstErr.induct) auto

lemma need_None [simp]: "need h name = None \<longleftrightarrow> h \<noteq> None"
  by (simp add: need_def incomplete_def split: option.splits)

lemma require_None [simp]:
  "requireAccountSource k = None \<longleftrightarrow> k \<noteq> chainSourceAccountGroup"
  "requireAccountGroupSource k = None \<longleftrightarrow> k = chainSourceAccountGroup"
  "requireOrderSource k = None \<longleftrightarrow> k = chainSourceOrder"
  by (simp_all add: requireAccountSource_def requireAccountGroupSource_def requireOrderSource_def)

text \<open>The link between the kind of source, the plan and the routing key of an accepted task.\<close>

fun sourceAgrees ::
  "('e, 's) chainPlan \<Rightarrow> routingKey \<Rightarrow> chainSourceKind \<Rightarrow> bool" where
  "sourceAgrees p key chainSourceOrder =
     ((\<exists>ord. cp_order p = Some ord \<and> extractOrderAccountID ord = Inr (cp_accountID p))
      \<and> key = accountRoutingKey (cp_accountID p))"
| "sourceAgrees p key chainSourceAccount = (key = accountRoutingKey (cp_accountID p))"
| "sourceAgrees p key chainSourceAccountGroup =
     (\<exists>g. cp_groupID p = Some g \<and> validateAccountGroupID g = None \<and> key = groupRoutingKey g)"

definition validTask :: "('e, 's) chainPlan \<Rightarrow> routingKey \<Rightarrow> chainSourceKind \<Rightarrow> bool" where
  "validTask p key kind \<longleftrightarrow> cp_begin p \<noteq> None \<and> sourceAgrees p key kind
     \<and> (\<forall>st \<in> set (cp_steps p). stepValidate kind st = None)"

lemma planSource_agrees:
  "planSource p = Inr (kind, key, a) \<Longrightarrow> sourceAgrees (p\<lparr>cp_accountID := a\<rparr>) key kind"
  by (auto simp: planSource_def split: option.splits sum.splits)

lemma task_valid:
  assumes "newChainTaskFromPlan p0 fr = Inr (p, key)"
  obtains kind where "validTask p key kind"
proof -
  from assms obtain a where v: "planValidate p0 = Inr (key, a)" and p: "p = p0\<lparr>cp_accountID := a\<rparr>"
    by (auto simp: newChainTaskFromPlan_def split: if_splits sum.splits)
  from v obtain kind where "planSource p0 = Inr (kind, key, a)" "cp_begin p0 \<noteq> None"
    "firstErr (map (stepValidate kind) (cp_steps p0)) = None"
    by (auto simp: planValidate_def split: option.splits sum.splits)
  with p have "validTask p key kind"
    by (auto simp: validTask_def firstErr_None planSource_agrees)
  then show thesis by (rule that)
qed

lemma valid_grounded:
  assumes "validTask p key kind" "st \<in> set (cp_steps p)"
  shows "grounded p st"
proof -
  have "stepValidate kind st = None" "sourceAgrees p key kind"
    using assms by (auto simp: validTask_def)
  then show ?thesis by (cases st) (auto simp: firstErr_None)
qed

section \<open>All steps\<close>

definition stepsPost :: "event list \<Rightarrow> chainOutcomeStatus \<times> err \<Rightarrow> 'e frame \<Rightarrow> bool" where
  "stepsPost h0 r f \<longleftrightarrow> chainInv h0 f \<and> fst r \<in> {ChainOutcomeCompleted, ChainOutcomeRejected}"

lemma stepsPost_ok:
  "chainInv h0 f \<Longrightarrow> stepsPost h0 (ChainOutcomeCompleted, e) f"
  "chainInv h0 f \<Longrightarrow> stepsPost h0 (ChainOutcomeRejected, e) f"
  by (simp_all add: stepsPost_def)

lemma runSteps_inv:
  assumes "chainInv h0 f" "pending f = None" "\<forall>st \<in> set sts. grounded p st"
  shows "wp (runSteps x p ctx s sts) (stepsPost h0) (\<lambda>_. chainInv h0) f"
  using assms
proof (induction sts arbitrary: f)
  case Nil
  then show ?case by (simp add: wp stepsPost_def)
next
  case (Cons st sts)
  have "wp (stepExecute x p ctx s st) (stepPost h0) (\<lambda>_. chainInv h0) f"
    using Cons.prems by (intro stepExecute_inv) auto
  then show ?case unfolding runSteps.simps wp_bind
    by (rule wp_mono)
      (use Cons in \<open>auto simp: wp stepPost_def stepsPost_ok split: option.splits\<close>)
qed

section \<open>The deferred clean-up\<close>

definition outcomeAgrees :: "chainOutcome \<times> err \<Rightarrow> bool" where
  "outcomeAgrees r \<longleftrightarrow> (case r of (out, e) \<Rightarrow>
     co_Err out = e \<and> (co_Status out = ChainOutcomeFailed \<longleftrightarrow> e \<noteq> None)
   \<and> co_Status out \<noteq> ChainOutcomeUnknown
   \<and> (e \<noteq> None \<and> co_RetryUnsafe out \<longrightarrow> errors_Is e ErrChainRetryUnsafe))"

definition runPost :: "event list \<Rightarrow> bool \<Rightarrow> chainOutcome \<times> err \<Rightarrow> 'e frame \<Rightarrow> bool" where
  "runPost h0 fin r f \<longleftrightarrow> outcomeAgrees r \<and>
     (\<exists>evs. history f = h0 @ evs @ (if fin then [EvHook HFinally] else [])
        \<and> EvHook HFinally \<notin> set evs
        \<and> reservationsBalanced evs (\<lambda>_. 0) \<and> operationsBalanced evs (\<lambda>_. 0) \<and> reportsBalanced evs
        \<and> co_RetryUnsafe (fst r) = list_ex mutatingEvent evs)"

lemma resolvedOutcome_agrees:
  assumes "status \<in> {ChainOutcomeCompleted, ChainOutcomeRejected}"
    and "e \<noteq> None \<Longrightarrow> unsafe \<Longrightarrow> errors_Is e ErrChainRetryUnsafe"
  shows "outcomeAgrees (resolvedOutcome status e unsafe, e)"
  using assms by (auto simp: outcomeAgrees_def resolvedOutcome_def)

lemma cleanup_inv:
  assumes "chainInv h0 f"
  shows "wp (case pending f of None \<Rightarrow> ret e
         | Some pf \<Rightarrow> bind (rollbackPending x pf) (\<lambda>re. ret (errors_Join [e, re])))
       (\<lambda>_ g. chainInv h0 (g\<lparr>pending := None\<rparr>)) (\<lambda>_ _. False) f"
proof (cases "pending f")
  case None
  with assms show ?thesis by (simp add: wp chainInv_def)
next
  case (Some pf)
  show ?thesis using finalizer_inv [OF assms Some, of RollbackAndClose] Some
    by (simp add: rollbackPending_def wp)
qed

lemma settled_history:
  assumes "chainInv h0 (g\<lparr>pending := None\<rparr>)"
  obtains evs where "history g = h0 @ evs" "EvHook HFinally \<notin> set evs"
    "reservationsBalanced evs (\<lambda>_. 0)" "operationsBalanced evs (\<lambda>_. 0)" "reportsBalanced evs"
    "retryUnsafe g = list_ex mutatingEvent evs"
proof (rule that [of "drop (length h0) (history g)"])
  show "history g = h0 @ drop (length h0) (history g)"
    using assms append_take_drop_id [of "length h0" "history g"] by (simp add: chainInv_def)
qed (use assms in \<open>simp_all add: chainInv_def\<close>)

lemma wp_callFinally:
  assumes "\<And>fe en. Q fe (g\<lparr>history := history g @ [EvHook HFinally], env := en\<rparr>)"
  shows "wp (callFinally fin ctx s out) Q E g"
  unfolding callFinally_def wp
  using assms by (intro wp_callHook) (simp_all add: wp split: option.splits)

lemma finishRun_post:
  assumes inv: "chainInv h0 f" and status: "status \<in> {ChainOutcomeCompleted, ChainOutcomeRejected}"
  shows "wp (finishRun x p ctx st status e) (runPost h0 (st \<noteq> None \<and> cp_finally p \<noteq> None))
    (\<lambda>_ _. False) f"
  unfolding finishRun_def wp_bind wp_read
proof (rule wp_mono [OF cleanup_inv [OF inv]], goal_cases)
  case (1 e1 g)
  from 1 obtain evs where evs: "history g = h0 @ evs" "EvHook HFinally \<notin> set evs"
    "reservationsBalanced evs (\<lambda>_. 0)" "operationsBalanced evs (\<lambda>_. 0)" "reportsBalanced evs"
    "retryUnsafe g = list_ex mutatingEvent evs"
    by (rule settled_history)
  define e2 where "e2 = (if e1 \<noteq> None \<and> retryUnsafe g
      then errors_Join [e1, Some (Sentinel ErrChainRetryUnsafe)] else e1)"
  have e2: "e2 \<noteq> None \<Longrightarrow> retryUnsafe g \<Longrightarrow> errors_Is e2 ErrChainRetryUnsafe"
    by (cases e1) (auto simp: e2_def)
  have plain: "runPost h0 False (resolvedOutcome status e2 (retryUnsafe g), e2) g"
    using evs resolvedOutcome_agrees [OF status e2]
    by (auto simp: runPost_def resolvedOutcome_def)
  have final: "runPost h0 True (resolvedOutcome status e3 (retryUnsafe g), e3)
      (g\<lparr>history := history g @ [EvHook HFinally], env := en\<rparr>)"
    if "e3 = errors_Join [e2, if e2 = None \<and> fe \<noteq> None \<and> retryUnsafe g
          then errors_Join [fe, Some (Sentinel ErrChainRetryUnsafe)] else fe]" for e3 fe en
  proof -
    have "outcomeAgrees (resolvedOutcome status e3 (retryUnsafe g), e3)"
      using e2 that by (intro resolvedOutcome_agrees [OF status]) auto
    with evs show ?thesis by (auto simp: runPost_def resolvedOutcome_def)
  qed
  show ?case
    unfolding Let_def e2_def [symmetric]
    using plain final
    by (cases st; cases "cp_finally p") (simp_all add: wp wp_callFinally)
qed

section \<open>The whole run\<close>

text \<open>Whether \<^verbatim>\<open>begin\<close> returns a state without an error, so that \<^verbatim>\<open>stateReady\<close> is set.\<close>

definition beginSucceeds :: "('e, 's) chainPlan \<Rightarrow> go_context \<Rightarrow> 'e \<Rightarrow> bool" where
  "beginSucceeds p ctx e =
     (case cp_begin p of
        None \<Rightarrow> False
      | Some b \<Rightarrow> (case fst (b (WithoutCancel ctx) e) of Ret (_, None) \<Rightarrow> True | _ \<Rightarrow> False))"

lemma inv_start:
  "chainInv (history w) (frameOf w)" "pending (frameOf w) = None" "env (frameOf w) = env w"
  "history (frameOf w) = history w"
  by (simp_all add: chainInv_unfold frameOf_def world.extend_def)

lemma wp_execute:
  "wp (execute x p ctx0) Q E =
     wp (nilable (cp_begin p) (\<lambda>f. callHook HBegin (f (WithoutCancel ctx0))))
       (\<lambda>(s, e). case e of
          Some er \<Rightarrow> wp (finishRun x p (WithoutCancel ctx0) None ChainOutcomeCompleted
                        (wrapf ''async chain begin: '' er)) Q E
        | None \<Rightarrow> wp (runSteps x p (WithoutCancel ctx0) s (cp_steps p))
            (\<lambda>(status, e). wp (finishRun x p (WithoutCancel ctx0) (Some s) status e) Q E)
            (\<lambda>q. wp (finishRun x p (WithoutCancel ctx0) (Some s) ChainOutcomeCompleted
               (Some (chainPanicError ''async chain execution panicked'' q))) Q E))
       (\<lambda>q. wp (finishRun x p (WithoutCancel ctx0) None ChainOutcomeCompleted
          (Some (chainPanicError ''async chain execution panicked'' q))) Q E)"
  by (rule ext)
    (simp add: wp_def [of "execute x p ctx0"] wp_def [of "nilable z k" for z k]
      wp_def [of "runSteps x p ctx s sts" for ctx s sts]
      wp_def [of "finishRun x p ctx st status e" for ctx st status e]
      execute_def Let_def split: prod.splits res.splits option.splits)

lemma wp_hook_value:
  "wp (callHook h m) Q E f = (case m (env f) of
      (Ret r, e) \<Rightarrow> Q r (f\<lparr>history := history f @ [EvHook h], env := e\<rparr>)
    | (Panic q, e) \<Rightarrow> E q (f\<lparr>history := history f @ [EvHook h], env := e\<rparr>))"
  by (simp add: callHook_def wp) (simp add: wp_def onEnv_def split: prod.splits res.splits)

lemma execute_post:
  assumes inv: "chainInv h0 f" "pending f = None" and task: "validTask p key kind"
  shows "wp (execute x p ctx) (runPost h0 (beginSucceeds p ctx (env f) \<and> cp_finally p \<noteq> None))
    (\<lambda>_ _. False) f"
proof -
  from task obtain b where b: "cp_begin p = Some b" by (auto simp: validTask_def)
  obtain r e where r: "b (WithoutCancel ctx) (env f) = (r, e)" by fastforce
  let ?f = "f\<lparr>history := history f @ [EvHook HBegin], env := e\<rparr>"
  have f: "chainInv h0 ?f" "pending ?f = None" using inv by (simp_all add: inv_hook)
  have unready: "wp (finishRun x p c None ChainOutcomeCompleted er) (runPost h0 False) (\<lambda>_ _. False) ?f"
    for c er using finishRun_post [OF f(1), of ChainOutcomeCompleted x p c None er] by simp
  have ready: "wp (finishRun x p c (Some s) status er) (runPost h0 (cp_finally p \<noteq> None)) (\<lambda>_ _. False) g"
    if "chainInv h0 g" "status \<in> {ChainOutcomeCompleted, ChainOutcomeRejected}" for c s status er g
    using finishRun_post [OF that, of x p c "Some s" er] by simp
  have "wp (runSteps x p (WithoutCancel ctx) s (cp_steps p)) (stepsPost h0) (\<lambda>_. chainInv h0) ?f" for s
    by (rule runSteps_inv [OF f]) (simp add: valid_grounded [OF task])
  then have run: "wp (runSteps x p (WithoutCancel ctx) s (cp_steps p))
      (\<lambda>(status, er). wp (finishRun x p (WithoutCancel ctx) (Some s) status er)
        (runPost h0 (cp_finally p \<noteq> None)) (\<lambda>_ _. False))
      (\<lambda>q. wp (finishRun x p (WithoutCancel ctx) (Some s) ChainOutcomeCompleted
        (Some (chainPanicError ''async chain execution panicked'' q)))
        (runPost h0 (cp_finally p \<noteq> None)) (\<lambda>_ _. False)) ?f" for s
    by (rule wp_mono) (auto simp: stepsPost_def simp del: not_None_eq intro!: ready)
  show ?thesis
    by (cases r) (auto simp: wp_execute b r wp_nilable wp_hook_value beginSucceeds_def
        unready run simp del: not_None_eq split: option.splits)
qed

definition eventsSince :: "'e world \<Rightarrow> 'e world \<Rightarrow> event list" where
  "eventsSince w w' = drop (length (history w)) (history w')"

definition finallyRuns :: "('e, 's) chainPlan \<Rightarrow> go_context \<Rightarrow> 'e \<Rightarrow> bool" where
  "finallyRuns p ctx e \<longleftrightarrow> beginSucceeds p ctx e \<and> cp_finally p \<noteq> None"

lemma chainTask_run_post:
  assumes task: "newChainTaskFromPlan p0 fr = Inr (p, key)"
    and run: "chainTask_run x p ctx f w = (f', w')"
  obtains out e evs where "f' = Resolve out e f" "outcomeAgrees (out, e)"
    "eventsSince w w' = evs @ (if finallyRuns p ctx (env w) then [EvHook HFinally] else [])"
    "EvHook HFinally \<notin> set evs" "reservationsBalanced evs (\<lambda>_. 0)" "operationsBalanced evs (\<lambda>_. 0)"
    "reportsBalanced evs" "co_RetryUnsafe out = list_ex mutatingEvent evs"
proof -
  from task obtain kind where "validTask p key kind" by (rule task_valid)
  from execute_post [OF inv_start(1,2) this, of x ctx w, unfolded inv_start(3), folded finallyRuns_def]
  have post: "wp (execute x p ctx) (runPost (history w) (finallyRuns p ctx (env w)))
      (\<lambda>_ _. False) (frameOf w)" .
  obtain r g where ex: "execute x p ctx (frameOf w) = (r, g)" by fastforce
  with post obtain out e where r: "r = Ret (out, e)" and
    ok: "runPost (history w) (finallyRuns p ctx (env w)) (out, e) g"
    by (cases r) (auto simp: wp_def)
  from ex r run have "f' = Resolve out e f" "history w' = history g"
    by (auto simp: chainTask_run_def world.truncate_def)
  with ok that show thesis by (auto simp: runPost_def eventsSince_def simp del: if_split)
qed

section \<open>Properties of a chain run\<close>

text \<open>A concrete world and plan, for the examples below.\<close>

definition sampleBoundary :: "unit boundary" where
  "sampleBoundary =
     \<lparr>drv_StartPreTrade = (\<lambda>_. ret (Some (NewRequestFromHandle (Some 3)), [], None)),
      drv_ExecutePreTrade = (\<lambda>_. ret (Some (NewReservationFromHandle (Some 7)), [], None)),
      drv_ExecutePreTradeDryRun = (\<lambda>_. ret (Some (NewDryRunReportFromHandle (Some 8)), None)),
      drv_ApplyDropCopy = (\<lambda>_. ret (Some (NewDropCopyOperationFromHandle (Some 9)), [], None)),
      drv_ApplyExecutionReport = (\<lambda>_. ret (zeroPostTradeResult, None)),
      drv_ApplyAccountAdjustment = (\<lambda>_ _. ret (zeroBatchResult, None)),
      drv_GroupOf = (\<lambda>_. ret None),
      drv_void = (\<lambda>_. ret ()),
      drv_fallible = (\<lambda>_. ret None),
      drv_SetSpotFundsAccountPnl = (\<lambda>_ _ _. ret ([], None)),
      nat_void = (\<lambda>_ e. e),
      c_request_execute = (\<lambda>_ e. ((StatusPassed, Some 7, None, []), e)),
      nat_IsPass = (\<lambda>_ _. True), nat_Rejects = (\<lambda>_ _. []), nat_Lock = (\<lambda>_ _. []),
      nat_AccountAdjustments = (\<lambda>_ _. []), nat_AccountBlocks = (\<lambda>_ _. []),
      nat_IsAccountBlocked = (\<lambda>_ _. False)\<rparr>"

definition sampleWorld :: "unit world" where
  "sampleWorld = \<lparr>requests = (\<lambda>_. NewRequestFromHandle None),
     reservations = (\<lambda>_. NewReservationFromHandle None),
     operations = (\<lambda>_. NewDropCopyOperationFromHandle None),
     reports = (\<lambda>_. NewDryRunReportFromHandle None), nextPtr = 0, history = [], env = ()\<rparr>"

definition sampleContext :: go_context where
  "sampleContext = \<lparr>ctx_doneNil = True, ctx_Err = None, ctx_values = Map.empty\<rparr>"

definition sampleOrder :: order where
  "sampleOrder = \<lparr>ord_operation = Some \<lparr>oo_accountID = Some 5, oo_rest = 0\<rparr>, ord_rest = 0\<rparr>"

definition samplePlan :: "(unit, nat) chainPlan" where
  "samplePlan = snd (Finally (Some (\<lambda>_ _ _. ret None))
     (ChainBuilder_Then (Some (\<lambda>_ _. ret None))
     (ChainBuilder_ExecutePreTrade (Some (\<lambda>_ _ _. ret None)) (Some (\<lambda>_ _ _. ret (DecisionCommit, None)))
     (Chain (OrderSource sampleOrder) (Some (\<lambda>_. ret (0, None)))))))"

definition sampleTask :: "(unit, nat) chainPlan" where
  "sampleTask = samplePlan\<lparr>cp_accountID := 5\<rparr>"

lemma sample_accepted: "newChainTaskFromPlan samplePlan True = Inr (sampleTask, accountRoutingKey 5)"
  by (simp add: newChainTaskFromPlan_def sampleTask_def samplePlan_def Finally_def snapshot_def
      ChainBuilder_Then_def ChainBuilder_ExecutePreTrade_def addStep_def Chain_def planValidate_def planSource_def sampleOrder_def extractOrderAccountID_def
      need_def firstErr_None requireOrderSource_def)

lemmas sample_defs = sampleTask_def samplePlan_def Finally_def snapshot_def
  ChainBuilder_Then_def ChainBuilder_ExecutePreTrade_def addStep_def Chain_def sampleOrder_def sampleBoundary_def sampleWorld_def sampleContext_def

lemma sample_run:
  "eventsSince sampleWorld (snd (chainTask_run sampleBoundary sampleTask sampleContext
     (New zeroChainOutcome) sampleWorld)) =
   [EvHook HBegin, EvDriver (DExecutePreTrade sampleOrder), EvOpenReservation 7,
    EvHook HOnReserved, EvNative (PretradePreTradeReservationCommit 7),
    EvNative (DestroyPretradePreTradeReservation 7), EvHook HThen, EvHook HFinally]"
  by (simp add: eventsSince_def chainTask_run_def execute_def sample_defs go_defs nilable_def callHook_def
      callDriver_def emit_def onEnv_def frameOf_def world.extend_def world.truncate_def
      executePreTrade_def markRetryUnsafe_def newReservation_def NewReservationFromHandle_def
      setPending_def driverVerdict_def validateDriverResult_def Reservation_IsClosed_def
      settleDecision_def finalizeDecision_def DecisionCommit_def DecisionRollback_def
      reservationDo_def natives_def Reservation_call_def reservation_method_defs seq2_def
      opened_def notEnded_def orFail_def finishRun_def callFinally_def resolvedOutcome_def Let_def)

text \<open>
  C2: a chain that was accepted for its lane leaves no native handle behind.  In the events
  of one run, however its hooks and the driver answer, fail or panic, every reservation and
  every drop-copy operation the driver handed over is released exactly as often as it was
  opened and resolved (committed or rolled back) at most that often, and every dry-run
  report is released.
\<close>

theorem chain_releases_handles:
  assumes "newChainTaskFromPlan p0 fr = Inr (p, key)"
    and "chainTask_run x p ctx f w = (f', w')"
  shows "count_list (eventsSince w w') (EvNative (DestroyPretradePreTradeReservation h))
       = count_list (eventsSince w w') (EvOpenReservation h)
   \<and> count_list (eventsSince w w') (EvNative (PretradePreTradeReservationCommit h))
       + count_list (eventsSince w w') (EvNative (PretradePreTradeReservationRollback h))
       \<le> count_list (eventsSince w w') (EvOpenReservation h)
   \<and> count_list (eventsSince w w') (EvNative (DestroyPretradeDropCopyOperation h))
       = count_list (eventsSince w w') (EvOpenOperation h)
   \<and> count_list (eventsSince w w') (EvNative (PretradeDropCopyOperationCommit h))
       + count_list (eventsSince w w') (EvNative (PretradeDropCopyOperationRollback h))
       \<le> count_list (eventsSince w w') (EvOpenOperation h)
   \<and> count_list (eventsSince w w') (EvNative (DestroyPretradePreTradeDryRunReport h))
       = count_list (eventsSince w w') (EvOpenReport h)"
  by (rule chainTask_run_post [OF assms])
    (simp add: reservationsBalanced_def operationsBalanced_def reportsBalanced_def)

theorem chain_releases_handles_witness:
  "count_list (eventsSince sampleWorld (snd (chainTask_run sampleBoundary sampleTask sampleContext
       (New zeroChainOutcome) sampleWorld))) (EvNative (DestroyPretradePreTradeReservation 7))
   = count_list (eventsSince sampleWorld (snd (chainTask_run sampleBoundary sampleTask sampleContext
       (New zeroChainOutcome) sampleWorld))) (EvOpenReservation 7)"
  using chain_releases_handles [OF sample_accepted surjective_pairing, of sampleWorld sampleBoundary
      sampleContext "New zeroChainOutcome" 7] by blast

text \<open>
  C3: the terminal hook runs at most once per run, exactly when \<^verbatim>\<open>Begin\<close> succeeded and a
  hook was given, and then it is the last boundary event of the run: all native clean-up
  comes before it.
\<close>

theorem chain_finally_once_last:
  assumes "newChainTaskFromPlan p0 fr = Inr (p, key)"
    and "chainTask_run x p ctx f w = (f', w')"
  shows "count_list (eventsSince w w') (EvHook HFinally) =
       (if beginSucceeds p ctx (env w) \<and> cp_finally p \<noteq> None then 1 else 0)
   \<and> (beginSucceeds p ctx (env w) \<and> cp_finally p \<noteq> None \<longrightarrow>
        last (eventsSince w w') = EvHook HFinally)"
  unfolding finallyRuns_def [symmetric]
  by (rule chainTask_run_post [OF assms]) simp

theorem chain_finally_once_last_witness:
  "count_list (eventsSince sampleWorld (snd (chainTask_run sampleBoundary sampleTask sampleContext
       (New zeroChainOutcome) sampleWorld))) (EvHook HFinally) = 1"
  using chain_finally_once_last [OF sample_accepted surjective_pairing, of sampleWorld sampleBoundary
      sampleContext "New zeroChainOutcome"]
  by (simp add: beginSucceeds_def sampleTask_def samplePlan_def Finally_def snapshot_def
      ChainBuilder_Then_def ChainBuilder_ExecutePreTrade_def addStep_def Chain_def sampleOrder_def ret_def)

text \<open>
  A run resolves its future, and the outcome it resolves with agrees with the error:
  the status is failed exactly when there is an error and is never unknown, the retry-unsafe
  mark is set exactly when the run entered a driver call that can change state, and a failed
  run with that mark carries \<^verbatim>\<open>ErrChainRetryUnsafe\<close>.
\<close>

lemma chain_outcome_agrees:
  assumes "newChainTaskFromPlan p0 fr = Inr (p, key)"
    and "chainTask_run x p ctx f w = (f', w')" and "\<not> fut_done f"
  shows "\<exists>out. TryGet zeroChainOutcome f' = (out, True, co_Err out)
    \<and> (co_Status out = ChainOutcomeFailed \<longleftrightarrow> co_Err out \<noteq> None)
    \<and> co_Status out \<noteq> ChainOutcomeUnknown
    \<and> co_RetryUnsafe out = list_ex mutatingEvent (eventsSince w w')
    \<and> (co_Err out \<noteq> None \<and> co_RetryUnsafe out \<longrightarrow> errors_Is (co_Err out) ErrChainRetryUnsafe)"
proof -
  obtain out e evs where f': "f' = Resolve out e f" and ok: "outcomeAgrees (out, e)" and
    evs: "eventsSince w w' = evs @ (if finallyRuns p ctx (env w) then [EvHook HFinally] else [])"
    "co_RetryUnsafe out = list_ex mutatingEvent evs"
    by (rule chainTask_run_post [OF assms(1,2)])
  have "TryGet zeroChainOutcome f' = (out, True, e)"
    using assms(3) f' by (simp add: TryGet_def Resolve_def)
  moreover have "co_RetryUnsafe out = list_ex mutatingEvent (eventsSince w w')"
    using evs by simp
  ultimately show ?thesis
    using ok by (intro exI [of _ out]) (auto simp: outcomeAgrees_def)
qed

end
