(* ===== verification/Chain_Lanes.thy ===== *)
theory Chain_Lanes
  imports Chain_Runs
begin

text \<open>
  A chain runs as one task of one lane.  This theory shows that a validated chain only
  addresses the account or group its routing key stands for, that validation leaves no nil
  hook or source to trip over, and how the steps of a chain compose.
\<close>

section \<open>Driver calls stay in the lane\<close>

text \<open>Which lane a driver call belongs to.\<close>

fun addressed :: "routingKey \<Rightarrow> driver_call \<Rightarrow> bool" where
  "addressed key (DStartPreTrade ord) = (\<exists>a. extractOrderAccountID ord = Inr a \<and> key = accountRoutingKey a)"
| "addressed key (DExecutePreTrade ord) = (\<exists>a. extractOrderAccountID ord = Inr a \<and> key = accountRoutingKey a)"
| "addressed key (DExecutePreTradeDryRun ord) =
     (\<exists>a. extractOrderAccountID ord = Inr a \<and> key = accountRoutingKey a)"
| "addressed key (DApplyDropCopy ord) = (\<exists>a. extractOrderAccountID ord = Inr a \<and> key = accountRoutingKey a)"
| "addressed key (DApplyExecutionReport rep) =
     (\<exists>a. extractReportAccountID rep = Inr a \<and> key = accountRoutingKey a)"
| "addressed key (DApplyAccountAdjustment a adjs) = (key = accountRoutingKey a)"
| "addressed key (DRetireAccount a) = False"
| "addressed key (DGroupOf a) = (key = accountRoutingKey a)"
| "addressed key (DBlock a r) = (key = accountRoutingKey a)"
| "addressed key (DBlockWithCause a c) = (key = accountRoutingKey a)"
| "addressed key (DUnblock a) = (key = accountRoutingKey a)"
| "addressed key DUnblockAll = (key = engineWideRoutingKey)"
| "addressed key (DReplaceBlockReason a r) = (key = accountRoutingKey a)"
| "addressed key (DBlockGroup g r) = (key = groupRoutingKey g)"
| "addressed key (DUnblockGroup g) = (key = groupRoutingKey g)"
| "addressed key (DReplaceGroupBlockReason g r) = (key = groupRoutingKey g)"
| "addressed key (DSetCurrency a c) = (key = accountRoutingKey a)"
| "addressed key (DClearCurrency a) = (key = accountRoutingKey a)"
| "addressed key (DSetSpotFundsAccountPnl pol a st) = (key = accountRoutingKey a)"

fun laneEvent :: "routingKey \<Rightarrow> event \<Rightarrow> bool" where
  "laneEvent key (EvDriver c) = addressed key c"
| "laneEvent key _ = True"

definition inLane :: "event list \<Rightarrow> routingKey \<Rightarrow> ('e, 'z) world_scheme \<Rightarrow> bool" where
  "inLane h0 key f \<longleftrightarrow>
     length h0 \<le> length (history f) \<and> list_all (laneEvent key) (drop (length h0) (history f))"

lemma lane_natives [simp]: "list_all (laneEvent key) (map EvNative cs)"
  by (simp add: list_all_length)

lemma lane_opened [simp]:
  "list_all (laneEvent key) (opened EvOpenReservation h)"
  "list_all (laneEvent key) (opened EvOpenOperation h)"
  "list_all (laneEvent key) (opened EvOpenReport h)"
  by (simp_all add: opened_def split: option.splits)

lemma lane_open:
  assumes "inLane h0 key g"
  shows "inLane h0 key (g\<lparr>reservations := rs, nextPtr := n,
      history := history g @ opened EvOpenReservation h\<rparr>)"
    "inLane h0 key (g\<lparr>operations := os, nextPtr := n,
      history := history g @ opened EvOpenOperation h\<rparr>)"
    "inLane h0 key (g\<lparr>reports := ps, nextPtr := n,
      history := history g @ opened EvOpenReport h\<rparr>)"
  using assms by (simp_all add: inLane_def)

lemma lane_event_hook:
  "inLane h0 key f \<Longrightarrow> inLane h0 key (f\<lparr>history := history f @ [EvHook h], env := e\<rparr>)"
  by (simp add: inLane_def)

lemma lane_hook:
  assumes "inLane h0 key f" "\<And>r g. inLane h0 key g \<Longrightarrow> Q r g" "\<And>p g. inLane h0 key g \<Longrightarrow> E p g"
  shows "wp (callHook h m) Q E f"
  using assms by (intro wp_callHook) (auto simp: inLane_def)

lemma lane_driver:
  assumes "inLane h0 key f" "addressed key c"
    and "\<And>r g. inLane h0 key g \<Longrightarrow> Q r g" "\<And>p g. inLane h0 key g \<Longrightarrow> E p g"
  shows "wp (callDriver c m) Q E f"
  using assms by (intro wp_callDriver) (auto simp: inLane_def)

lemma lane_mark [simp]:
  "inLane h0 key (f\<lparr>retryUnsafe := b\<rparr>) = inLane h0 key f"
  "inLane h0 key (f\<lparr>pending := pf\<rparr>) = inLane h0 key f"
  by (simp_all add: inLane_def)

lemma lane_finalizer:
  assumes "inLane h0 key f" "\<And>g. inLane h0 key g \<Longrightarrow> Q () g"
  shows "wp (finalizerDo x op pf) Q E f"
  using assms by (cases pf) (auto simp: wp inLane_def)

lemma lane_settle:
  assumes "inLane h0 key f"
  shows "wp (settleDecision x pre ans) (\<lambda>_. inLane h0 key) (\<lambda>_. inLane h0 key) f"
  using assms
  by (auto simp: settleDecision_def finalizeDecision_def wp intro!: lane_finalizer
      split: option.splits prod.splits)

lemma lane_verdict:
  assumes "inLane h0 key f"
    and "wp rejected (\<lambda>_. inLane h0 key) (\<lambda>_. inLane h0 key) f"
    and "\<And>v. wp (accepted v) (\<lambda>_. inLane h0 key) (\<lambda>_. inLane h0 key) f"
  shows "wp (driverVerdict x cl pre hookPre r rejects e rejected accepted)
    (\<lambda>_. inLane h0 key) (\<lambda>_. inLane h0 key) f"
proof -
  have "wp (bind (accepted v) (settleDecision x hookPre)) (\<lambda>_. inLane h0 key) (\<lambda>_. inLane h0 key) f" for v
    unfolding wp_bind by (rule wp_mono [OF assms(3)]) (auto intro: lane_settle)
  with assms(1,2) show ?thesis
    by (auto simp: driverVerdict_def wp_ret split: option.splits)
qed

lemma lane_checked:
  assumes "inLane h0 key f"
  shows "wp (checkOrderVerdict x ctx s onChecked r e) (\<lambda>_. inLane h0 key) (\<lambda>_. inLane h0 key) f"
  using assms
  by (intro checkOrderVerdict_inv) (auto simp: inLane_def)

lemma lane_closed:
  "inLane h0 key f \<Longrightarrow> (\<And>g. inLane h0 key g \<Longrightarrow> Q () g) \<Longrightarrow> wp (reportClose x q) Q E f"
  by (auto simp: wp inLane_def)

lemma lane_checkOrder:
  assumes "inLane h0 key f" "addressed key (DExecutePreTradeDryRun ord)"
  shows "wp (checkOrder x ord ctx s onChecked) (\<lambda>_. inLane h0 key) (\<lambda>_. inLane h0 key) f"
  unfolding checkOrder_def wp_bind
proof (rule lane_driver [OF assms], goal_cases)
  case (1 r g)
  obtain ro er where r: "r = (ro, er)" by (cases r) auto
  have "wp (deferring (checkOrderVerdict x ctx s onChecked ro er) (reportClose x q))
      (\<lambda>_. inLane h0 key) (\<lambda>_. inLane h0 key) g'" if "inLane h0 key g'" for q g'
    unfolding wp_deferring
    by (rule wp_mono [OF lane_checked [OF that]]) (auto intro: lane_closed)
  with 1 r show ?case by (auto simp: wp_bind wp_newReport lane_checked lane_open split: option.splits)
qed

lemma stepExecute_lane:
  assumes "inLane h0 key f" "validTask p key kind" "st \<in> set (cp_steps p)"
  shows "wp (stepExecute x p ctx s st) (\<lambda>_. inLane h0 key) (\<lambda>_. inLane h0 key) f"
proof -
  have st: "stepValidate kind st = None" "sourceAgrees p key kind"
    using assms(2,3) by (auto simp: validTask_def)
  have acct: "kind \<noteq> chainSourceAccountGroup \<Longrightarrow> key = accountRoutingKey (cp_accountID p)"
    using st(2) by (cases kind) auto
  show ?thesis
  proof (cases st)
    case (PreTradeStep onRej onRes)
    with st assms(1) show ?thesis
      by (auto simp: firstErr_None executePreTrade_def onRejectedEnd_def wp
          intro!: lane_driver [of h0 key] lane_verdict lane_hook [of h0 key] lane_open split: option.splits)
  next
    case (DropCopyStep onRej onApp)
    with st assms(1) show ?thesis
      by (auto simp: firstErr_None applyDropCopy_def onRejectedEnd_def wp
          intro!: lane_driver [of h0 key] lane_verdict lane_hook [of h0 key] lane_open split: option.splits)
  next
    case (CheckOrderStep onChecked)
    with st assms(1) show ?thesis
      by (auto simp: firstErr_None wp intro!: lane_checkOrder split: option.splits)
  qed (use st acct assms(1) in \<open>auto simp: firstErr_None step_defs wp
      intro!: lane_hook [of h0 key] lane_driver [of h0 key] split: option.splits sum.splits if_splits\<close>)
qed

lemma runSteps_lane:
  assumes "inLane h0 key f" "validTask p key kind" "set sts \<subseteq> set (cp_steps p)"
  shows "wp (runSteps x p ctx s sts) (\<lambda>_. inLane h0 key) (\<lambda>_. inLane h0 key) f"
  using assms
proof (induction sts arbitrary: f)
  case Nil
  then show ?case by (simp add: wp)
next
  case (Cons st sts)
  have "wp (stepExecute x p ctx s st) (\<lambda>_. inLane h0 key) (\<lambda>_. inLane h0 key) f"
    using Cons.prems by (intro stepExecute_lane) auto
  then show ?case unfolding runSteps.simps wp_bind
    by (rule wp_mono) (use Cons in \<open>auto simp: wp split: option.splits\<close>)
qed

lemma lane_finally:
  "inLane h0 key g \<Longrightarrow> (\<And>fe g'. inLane h0 key g' \<Longrightarrow> Q fe g') \<Longrightarrow> wp (callFinally fn ctx s out) Q E g"
  by (rule wp_callFinally) (simp add: lane_event_hook)

lemma finishRun_lane:
  assumes "inLane h0 key f"
  shows "wp (finishRun x p ctx st status e) (\<lambda>_. inLane h0 key) (\<lambda>_. inLane h0 key) f"
  using assms
  by (auto simp: finishRun_def rollbackPending_def wp Let_def
      intro!: lane_finalizer [of h0 key] lane_finally [of h0 key] split: option.splits)

lemma execute_lane:
  assumes "inLane h0 key f" "validTask p key kind"
  shows "wp (execute x p ctx) (\<lambda>_. inLane h0 key) (\<lambda>_. inLane h0 key) f"
proof -
  have "wp (runSteps x p c s (cp_steps p)) (\<lambda>(status, e). wp (finishRun x p c (Some s) status e)
        (\<lambda>_. inLane h0 key) (\<lambda>_. inLane h0 key))
      (\<lambda>q. wp (finishRun x p c (Some s) ChainOutcomeCompleted (er q))
        (\<lambda>_. inLane h0 key) (\<lambda>_. inLane h0 key)) g" if "inLane h0 key g" for c s er g
    using runSteps_lane [OF that assms(2) subset_refl, of x c s]
    by (rule wp_mono) (auto intro: finishRun_lane)
  then show ?thesis using assms
    by (auto simp: wp_execute wp_nilable validTask_def
        intro!: lane_hook [of h0 key] finishRun_lane split: option.splits)
qed

text \<open>
  C4: an accepted chain addresses only its own lane.  Every driver call of a run, whatever
  the hooks return, concerns the account or the group that the task's routing key stands
  for; in particular an execution report a hook prepared for another account never reaches
  the driver.
\<close>

theorem chain_stays_in_lane:
  assumes "newChainTaskFromPlan p0 fr = Inr (p, key)"
    and "chainTask_run x p ctx f w = (f', w')"
    and "EvDriver c \<in> set (eventsSince w w')"
  shows "addressed key c"
proof -
  from assms(1) obtain kind where "validTask p key kind" by (rule task_valid)
  then have "wp (execute x p ctx) (\<lambda>_. inLane (history w) key) (\<lambda>_. inLane (history w) key) (frameOf w)"
    by (intro execute_lane) (simp_all add: inLane_def inv_start)
  then have "list_all (laneEvent key) (eventsSince w w')"
    using assms(2)
    by (auto simp: chainTask_run_def wp_def inLane_def eventsSince_def world.truncate_def
        split: prod.splits res.splits)
  with assms(3) show ?thesis by (auto simp: list_all_iff)
qed

theorem chain_stays_in_lane_witness:
  "addressed (accountRoutingKey 5) (DExecutePreTrade sampleOrder)"
proof (rule chain_stays_in_lane [OF sample_accepted surjective_pairing,
      of "DExecutePreTrade sampleOrder" sampleWorld sampleBoundary sampleContext "New zeroChainOutcome"])
  show "EvDriver (DExecutePreTrade sampleOrder) \<in> set (eventsSince sampleWorld
      (snd (chainTask_run sampleBoundary sampleTask sampleContext (New zeroChainOutcome) sampleWorld)))"
    by (simp add: sample_run)
qed

section \<open>What one pre-trade step does\<close>

text \<open>
  When the driver accepts the order with a live reservation, the answer of the reserved
  hook decides: commit continues the chain, rollback ends it, anything else fails it with
  \<^verbatim>\<open>ErrChainInvalidDecision\<close>; in each case the reservation is resolved accordingly
  (rolled back unless committed) and released before the step returns.
\<close>

lemma preTrade_step_decides:
  assumes "cp_order p = Some ord"
    and "drv_ExecutePreTrade x ord (env f) = (Ret (Some (NewReservationFromHandle (Some h)), [], None), e1)"
    and "onReserved ctx s \<lparr>ror_reservation = Some (NewReservationFromHandle (Some h)),
           ror_available = True\<rparr> e1 = (Ret (d, None), e2)"
  shows "\<exists>g. stepExecute x p ctx s (PreTradeStep onRejected (Some onReserved)) f =
      (Ret (if d = DecisionCommit then (False, None)
            else if d = DecisionRollback then (True, None)
            else (False, Some (Sentinel ErrChainInvalidDecision))), g)
    \<and> pending g = None
    \<and> history g = history f @ [EvDriver (DExecutePreTrade ord), EvOpenReservation h, EvHook HOnReserved,
        EvNative (if d = DecisionCommit then PretradePreTradeReservationCommit h
                  else PretradePreTradeReservationRollback h),
        EvNative (DestroyPretradePreTradeReservation h)]"
  using assms
  by (simp add: executePreTrade_def nilable_def callHook_def callDriver_def emit_def onEnv_def go_defs
      markRetryUnsafe_def newReservation_def NewReservationFromHandle_def setPending_def
      driverVerdict_def validateDriverResult_def Reservation_IsClosed_def settleDecision_def
      finalizeDecision_def DecisionCommit_def DecisionRollback_def reservationDo_def natives_def
      Reservation_call_def reservation_method_defs seq2_def opened_def)

text \<open>
  When the driver rejects the order and the rejection hook accepts that, the chain ends
  there with the status rejected: the hook sees exactly the driver's rejects, no later step
  runs, and the run makes no further call.
\<close>

lemma preTrade_rejection_ends_chain:
  assumes "cp_order p = Some ord" and "rejects \<noteq> []"
    and "drv_ExecutePreTrade x ord (env f) = (Ret (None, rejects, None), e1)"
    and "onRejected ctx s rejects e1 = (Ret None, e2)"
  shows "\<exists>g. runSteps x p ctx s (PreTradeStep (Some onRejected) onReserved # sts) f =
      (Ret (ChainOutcomeRejected, None), g)
    \<and> pending g = pending f
    \<and> history g = history f @ [EvDriver (DExecutePreTrade ord), EvHook HOnRejected]"
  using assms
  by (simp add: executePreTrade_def nilable_def callHook_def callDriver_def emit_def onEnv_def go_defs
      markRetryUnsafe_def newReservation_def driverVerdict_def validateDriverResult_def onRejectedEnd_def)

section \<open>Validation leaves nothing to trip over\<close>

text \<open>A callback is calm when it returns on every environment.\<close>

definition calm :: "('e, 'a) go \<Rightarrow> bool" where
  "calm m \<longleftrightarrow> (\<forall>e. \<exists>r e'. m e = (Ret r, e'))"

fun calmStep :: "('e, 's) chainStep \<Rightarrow> bool" where
  "calmStep (CallerStep fn) = pred_option (\<lambda>f. \<forall>c s. calm (f c s)) fn"
| "calmStep (PreTradeStep a b) =
     (pred_option (\<lambda>f. \<forall>c s r. calm (f c s r)) a \<and> pred_option (\<lambda>f. \<forall>c s r. calm (f c s r)) b)"
| "calmStep (DropCopyStep a b) =
     (pred_option (\<lambda>f. \<forall>c s r. calm (f c s r)) a \<and> pred_option (\<lambda>f. \<forall>c s r. calm (f c s r)) b)"
| "calmStep (CheckOrderStep a) = pred_option (\<lambda>f. \<forall>c s r. calm (f c s r)) a"
| "calmStep (ExecutionReportStep a b) =
     (pred_option (\<lambda>f. \<forall>c s. calm (f c s)) a \<and> pred_option (\<lambda>f. \<forall>c s r. calm (f c s r)) b)"
| "calmStep (AccountAdjustmentStep a b) =
     (pred_option (\<lambda>f. \<forall>c s. calm (f c s)) a \<and> pred_option (\<lambda>f. \<forall>c s r. calm (f c s r)) b)"
| "calmStep (BlockAccount a b) =
     (pred_option (\<lambda>f. \<forall>c s. calm (f c s)) a \<and> pred_option (\<lambda>f. \<forall>c s. calm (f c s)) b)"
| "calmStep (UnblockAccount a) = pred_option (\<lambda>f. \<forall>c s. calm (f c s)) a"
| "calmStep (BlockAccountGroup a b) =
     (pred_option (\<lambda>f. \<forall>c s. calm (f c s)) a \<and> pred_option (\<lambda>f. \<forall>c s. calm (f c s)) b)"
| "calmStep (UnblockAccountGroup a) = pred_option (\<lambda>f. \<forall>c s. calm (f c s)) a"
| "calmStep (SetAccountCurrency a b) =
     (pred_option (\<lambda>f. \<forall>c s. calm (f c s)) a \<and> pred_option (\<lambda>f. \<forall>c s. calm (f c s)) b)"
| "calmStep (ClearAccountCurrency a) = pred_option (\<lambda>f. \<forall>c s. calm (f c s)) a"
| "calmStep (SetSpotFundsAccountPnl a b) =
     (pred_option (\<lambda>f. \<forall>c s. calm (f c s)) a \<and> pred_option (\<lambda>f. \<forall>c s r. calm (f c s r)) b)"

definition calmDriver :: "'e boundary \<Rightarrow> bool" where
  "calmDriver x \<longleftrightarrow> (\<forall>ord. calm (drv_ExecutePreTrade x ord)) \<and> (\<forall>ord. calm (drv_ExecutePreTradeDryRun x ord))
     \<and> (\<forall>ord. calm (drv_ApplyDropCopy x ord)) \<and> (\<forall>rep. calm (drv_ApplyExecutionReport x rep))
     \<and> (\<forall>a adjs. calm (drv_ApplyAccountAdjustment x a adjs)) \<and> (\<forall>c. calm (drv_void x c))
     \<and> (\<forall>c. calm (drv_fallible x c)) \<and> (\<forall>pol a st. calm (drv_SetSpotFundsAccountPnl x pol a st))"

definition noPanic :: "('s, 'a) go \<Rightarrow> bool" where
  "noPanic m \<longleftrightarrow> (\<forall>f. wp m (\<lambda>_ _. True) (\<lambda>_ _. False) f)"

lemma noPanic_bind: "noPanic m \<Longrightarrow> (\<And>r. noPanic (k r)) \<Longrightarrow> noPanic (bind m k)"
  unfolding noPanic_def wp_bind by (blast intro: wp_mono)

lemma noPanic_call:
  "calm m \<Longrightarrow> noPanic (callHook h m)" "calm m \<Longrightarrow> noPanic (callDriver c m)"
  by (auto simp: noPanic_def calm_def callHook_def callDriver_def wp)
    (auto simp: wp_def onEnv_def split: prod.splits res.splits, (metis prod.inject res.distinct(1))+)

lemma noPanic_basic [simp]:
  "noPanic (ret v)" "noPanic (read r)" "noPanic (modify u)" "noPanic markRetryUnsafe"
  "noPanic (setPending pf)" "noPanic (newReservation ro)" "noPanic (newOperation oo)"
  "noPanic (newReport po)" "noPanic (finalizerDo x op pf')" "noPanic (reportClose x q)"
  by (cases pf'; auto simp: noPanic_def wp split: option.splits)+

lemma noPanic_cases:
  "(z = None \<Longrightarrow> noPanic m) \<Longrightarrow> (\<And>a. z = Some a \<Longrightarrow> noPanic (k a)) \<Longrightarrow>
     noPanic (case z of None \<Rightarrow> m | Some a \<Rightarrow> k a)"
  "(\<And>a. zs = Inl a \<Longrightarrow> noPanic (m1 a)) \<Longrightarrow> (\<And>b. zs = Inr b \<Longrightarrow> noPanic (k1 b)) \<Longrightarrow>
     noPanic (case zs of Inl a \<Rightarrow> m1 a | Inr b \<Rightarrow> k1 b)"
  "(\<And>a b. zp = (a, b) \<Longrightarrow> noPanic (k2 a b)) \<Longrightarrow> noPanic (case zp of (a, b) \<Rightarrow> k2 a b)"
  "(c \<Longrightarrow> noPanic m3) \<Longrightarrow> (\<not> c \<Longrightarrow> noPanic m4) \<Longrightarrow> noPanic (if c then m3 else m4)"
  "(\<And>f. h = Some f \<Longrightarrow> noPanic (k5 f)) \<Longrightarrow> h \<noteq> None \<Longrightarrow> noPanic (nilable h k5)"
  by (auto simp: nilable_def split: option.splits sum.splits prod.splits)

lemma noPanic_derived:
  "noPanic k \<Longrightarrow> noPanic (orFail pre e k)" "noPanic m \<Longrightarrow> noPanic (notEnded m)"
  by (auto simp: orFail_def notEnded_def split: option.splits intro: noPanic_bind)

lemma noPanic_deferring: "noPanic m \<Longrightarrow> noPanic d \<Longrightarrow> noPanic (deferring m d)"
  unfolding noPanic_def wp_deferring by (blast intro: wp_mono)

lemmas noPanic_intros = noPanic_bind noPanic_call noPanic_cases noPanic_derived noPanic_deferring

lemma noPanic_settle: "noPanic (settleDecision x pre ans)"
  by (auto simp: settleDecision_def finalizeDecision_def intro!: noPanic_intros)

lemma noPanic_verdict:
  "noPanic rejected \<Longrightarrow> (\<And>v. noPanic (accepted v)) \<Longrightarrow>
     noPanic (driverVerdict x cl pre hookPre r rejects e rejected accepted)"
  by (auto simp: driverVerdict_def intro!: noPanic_intros noPanic_settle)

lemma noPanic_check:
  assumes "pred_option (\<lambda>f. \<forall>c s r. calm (f c s r)) onChecked" "onChecked \<noteq> None"
  shows "noPanic (checkOrderVerdict x ctx s onChecked r e)"
proof (cases "validateDriverResult (r \<noteq> None)
    (case r of None \<Rightarrow> False | Some v \<Rightarrow> \<not> DryRunReport_IsClosed v) [] e")
  case (Some se)
  then show ?thesis by (simp add: checkOrderVerdict_def)
next
  case None
  then have "e \<noteq> None \<or> r \<noteq> None" by (auto simp: validateDriverResult_None)
  with None assms show ?thesis
    by (auto simp: checkOrderVerdict_def intro!: noPanic_intros)
qed

lemma stepExecute_noPanic:
  assumes "validTask p key kind" "st \<in> set (cp_steps p)" "calmStep st" "calmDriver x"
  shows "noPanic (stepExecute x p ctx s st)"
proof -
  have st: "stepValidate kind st = None" "sourceAgrees p key kind"
    using assms(1,2) by (auto simp: validTask_def)
  have dry: "noPanic (checkOrder x ord ctx s oc)"
    if "pred_option (\<lambda>f. \<forall>c s r. calm (f c s r)) oc" "oc \<noteq> None" for ord oc
    using assms(4) noPanic_check [OF that]
    by (auto simp: checkOrder_def calmDriver_def intro!: noPanic_intros)
  show ?thesis
    using assms(3,4) st
    by (cases st) (auto simp: firstErr_None step_defs(1,2,5-13) onRejectedEnd_def calmDriver_def
        intro!: noPanic_intros noPanic_verdict dry)
qed

lemma runSteps_noPanic:
  assumes "validTask p key kind" "set sts \<subseteq> set (cp_steps p)" "\<forall>st \<in> set sts. calmStep st" "calmDriver x"
  shows "noPanic (runSteps x p ctx s sts)"
  using assms
  by (induction sts) (auto intro!: noPanic_intros stepExecute_noPanic)

text \<open>
  Validation is complete.  When the caller's hooks and the driver return normally, the
  steps of an accepted chain never panic: every hook, order, account and group a step
  dereferences is there, whatever kind of source the chain has.
\<close>

lemma accepted_chain_never_nil:
  assumes "newChainTaskFromPlan p0 fr = Inr (p, key)"
    and "\<forall>st \<in> set (cp_steps p). calmStep st" and "calmDriver x"
  shows "\<exists>status e g. runSteps x p ctx s (cp_steps p) f = (Ret (status, e), g)"
proof -
  from assms(1) obtain kind where "validTask p key kind" by (rule task_valid)
  from runSteps_noPanic [OF this subset_refl assms(2,3), of ctx s]
  have "wp (runSteps x p ctx s (cp_steps p)) (\<lambda>_ _. True) (\<lambda>_ _. False) f"
    by (simp add: noPanic_def)
  moreover obtain r g where "runSteps x p ctx s (cp_steps p) f = (r, g)" by fastforce
  ultimately show ?thesis by (cases r) (auto simp: wp_def)
qed

section \<open>Refused chains\<close>

text \<open>
  A chain the engine does not accept resolves at once as failed with the reason and
  without the retry-unsafe mark, and no task is queued, so no callback of it can ever run; a
  chain it accepts stays unresolved, and what is queued is the validated task under its own
  routing key.  A builder whose \<^verbatim>\<open>Finally\<close> runner was taken cannot be run any more.
\<close>

lemma refused_chain_resolves_failed:
  "(case runChain submit newTask of
      (f, None) \<Rightarrow> \<exists>e. TryGet zeroChainOutcome f =
          (\<lparr>co_Err = Some e, co_Status = ChainOutcomeFailed, co_RetryUnsafe = False\<rparr>, True, Some e)
    | (f, Some (p, key)) \<Rightarrow> newTask = Inr (p, key) \<and> \<not> Done f
        \<and> (\<exists>sub. submit = Some sub \<and> sub key p = None))
   \<and> (\<exists>e. ChainBuilder_newChainTask (Some (fst (Finally fin c))) = Inl e
        \<and> errors_Is (Some e) ErrChainIncomplete)"
  by (auto simp: runChain_def TryGet_def Resolve_def New_def Done_def Let_def Finally_def
      ChainBuilder_newChainTask_def split: option.splits sum.splits)

end
