(* ===== verification/Engine.thy ===== *)
theory Engine
  imports Chain_Lanes
begin

text \<open>
  The operations of \<^verbatim>\<open>AsyncEngine\<close>, \<^verbatim>\<open>AsyncAccounts\<close> and \<^verbatim>\<open>AsyncRequest\<close>
  (\<^verbatim>\<open>asyncengine/engine.go\<close>, \<^verbatim>\<open>request.go\<close>): each makes a future and a task, submits
  the task under its routing key, and resolves the future at once when the submit fails.  A
  task is a constructor per Go task type with the functions \<open>task_run\<close> and \<open>task_abort\<close>;
  a mandatory cleanup closure is the constructor \<open>RequestCleanup\<close>.
\<close>

section \<open>Futures\<close>

text \<open>The values the facade's futures carry; an \<open>AsyncRequest\<close> or \<open>AsyncReservation\<close> is its
  inner handle object with the account it is pinned to.\<close>

datatype asyncValue =
    VRequest "(ptr \<times> accountID) option" "reject list"
  | VReservation "(ptr \<times> accountID) option" "reject list"
  | VOperation "(ptr \<times> accountID) option" "reject list"
  | VPostTrade postTradeResult
  | VBatch batchResult
  | VGroup "accountGroupID option"
  | VChain chainOutcome
  | VUnit

record 'e facade = "'e world" +
  futures :: "nat \<Rightarrow> asyncValue future"
  nextFuture :: nat

type_synonym ('e, 'a) fac = "('e facade, 'a) go"

definition newFuture :: "asyncValue \<Rightarrow> ('e, nat) fac" where
  "newFuture zero w =
     (Ret (nextFuture w),
      w\<lparr>futures := (futures w)(nextFuture w := New zero), nextFuture := Suc (nextFuture w)\<rparr>)"

definition resolve :: "nat \<Rightarrow> asyncValue \<Rightarrow> err \<Rightarrow> ('e, unit) fac" where
  "resolve f v e =
     bind (emit (EvResolve f)) (\<lambda>_. modify (\<lambda>w. w\<lparr>futures := (futures w)(f := Resolve v e (futures w f))\<rparr>))"

section \<open>Tasks\<close>

text \<open>
  All that a lane's channel and backlog carry.  A chain's task holds its validated plan (\<open>'s\<close>
  is the union of the \<^verbatim>\<open>State\<close> types of the engine's chains) and the context of its
  \<^verbatim>\<open>Run\<close>; a barrier names its section by number and reaches a lane through the backlog only.
\<close>

datatype ('e, 's) pendingTask =
    startPreTradeTask nat order accountID
  | executePreTradeTask nat order accountID
  | applyDropCopyTask nat order accountID
  | applyReportTask nat executionReport
  | applyAdjustmentTask nat "adjustment list" accountID
  | submitTask nat "('e, err) go"
  | groupOfTask nat accountID
  | blockTask nat accountID string
  | blockWithCauseTask nat accountID accountBlock
  | unblockTask nat accountID
  | unblockAllTask nat
  | replaceBlockReasonTask nat accountID string
  | blockGroupTask nat accountGroupID string
  | unblockGroupTask nat accountGroupID
  | replaceGroupBlockReasonTask nat accountGroupID string
  | executeRequestTask nat ptr accountID
  | closeRequestTask nat ptr accountID
  | reservationTask nat ptr accountID lifecycle_op bool
  | dropCopyOperationTask nat ptr accountID lifecycle_op bool
  | RequestCleanup nat ptr accountID asyncValue go_error
  | ReservationCleanup nat ptr accountID go_error
  | OperationCleanup nat ptr accountID go_error
  | chainTask nat "('e, 's) chainPlan" go_context
  | exclusiveBarrierTask nat

text \<open>
  The future a task resolves (a barrier has none), and the zero value \<^verbatim>\<open>abort\<close> resolves it
  with.
\<close>

fun taskFuture :: "('e, 's) pendingTask \<Rightarrow> nat option" where
  "taskFuture (startPreTradeTask f ord a) = Some f"
| "taskFuture (executePreTradeTask f ord a) = Some f"
| "taskFuture (applyDropCopyTask f ord a) = Some f"
| "taskFuture (applyReportTask f rep) = Some f"
| "taskFuture (applyAdjustmentTask f adjs a) = Some f"
| "taskFuture (submitTask f fn) = Some f"
| "taskFuture (groupOfTask f a) = Some f"
| "taskFuture (blockTask f a r) = Some f"
| "taskFuture (blockWithCauseTask f a c) = Some f"
| "taskFuture (unblockTask f a) = Some f"
| "taskFuture (unblockAllTask f) = Some f"
| "taskFuture (replaceBlockReasonTask f a r) = Some f"
| "taskFuture (blockGroupTask f g r) = Some f"
| "taskFuture (unblockGroupTask f g) = Some f"
| "taskFuture (replaceGroupBlockReasonTask f g r) = Some f"
| "taskFuture (executeRequestTask f q a) = Some f"
| "taskFuture (closeRequestTask f q a) = Some f"
| "taskFuture (reservationTask f p a op ac) = Some f"
| "taskFuture (dropCopyOperationTask f p a op ac) = Some f"
| "taskFuture (RequestCleanup f q a v e) = Some f"
| "taskFuture (ReservationCleanup f p a e) = Some f"
| "taskFuture (OperationCleanup f p a e) = Some f"
| "taskFuture (chainTask f p ctx) = Some f"
| "taskFuture (exclusiveBarrierTask n) = None"

fun zeroValue :: "('e, 's) pendingTask \<Rightarrow> asyncValue" where
  "zeroValue (startPreTradeTask f ord a) = VRequest None []"
| "zeroValue (executePreTradeTask f ord a) = VReservation None []"
| "zeroValue (applyDropCopyTask f ord a) = VOperation None []"
| "zeroValue (applyReportTask f rep) = VPostTrade zeroPostTradeResult"
| "zeroValue (applyAdjustmentTask f adjs a) = VBatch zeroBatchResult"
| "zeroValue (groupOfTask f a) = VGroup None"
| "zeroValue (executeRequestTask f q a) = VReservation None []"
| "zeroValue (RequestCleanup f q a v e) = v"
| "zeroValue (chainTask f p ctx) = VChain zeroChainOutcome"
| "zeroValue _ = VUnit"

text \<open>
  What \<^verbatim>\<open>startPreTradeTask\<close>, \<^verbatim>\<open>resolveReservationDriverResult\<close> and
  \<^verbatim>\<open>applyDropCopyTask\<close> do with the driver's triple: a result of the wrong shape releases
  its handle.  \<open>live\<close> reads \<^verbatim>\<open>IsClosed\<close> of the object \<open>p\<close>.
\<close>

definition resolveDriverResult ::
  "('e facade \<Rightarrow> ptr \<Rightarrow> bool) \<Rightarrow> (ptr \<Rightarrow> ('e, unit) fac) \<Rightarrow>
   ((ptr \<times> accountID) option \<Rightarrow> reject list \<Rightarrow> asyncValue) \<Rightarrow>
   nat \<Rightarrow> ptr option \<Rightarrow> reject list \<Rightarrow> err \<Rightarrow> accountID \<Rightarrow> ('e, unit) fac" where
  "resolveDriverResult live close value f p rejects e a =
     bind (read (\<lambda>w. case p of None \<Rightarrow> False | Some q \<Rightarrow> live w q)) (\<lambda>isLive.
     case validateDriverResult (p \<noteq> None) isLive rejects e of
       Some se \<Rightarrow>
         bind (case p of None \<Rightarrow> ret () | Some q \<Rightarrow> close q) (\<lambda>_. resolve f (value None []) (Some se))
     | None \<Rightarrow>
         (case e of
            Some er \<Rightarrow> resolve f (value None []) (Some er)
          | None \<Rightarrow>
              if rejects \<noteq> [] then resolve f (value None rejects) None
              else resolve f (value (map_option (\<lambda>q. (q, a)) p) []) None))"

definition resolveRequestDriverResult where
  "resolveRequestDriverResult x =
     resolveDriverResult (\<lambda>w q. \<not> Request_IsClosed (requests w q)) (requestClose x) VRequest"

definition resolveReservationDriverResult where
  "resolveReservationDriverResult x =
     resolveDriverResult (\<lambda>w q. \<not> Reservation_IsClosed (reservations w q)) (reservationDo x Close)
       VReservation"

definition resolveOperationDriverResult where
  "resolveOperationDriverResult x =
     resolveDriverResult (\<lambda>w q. \<not> DropCopyOperation_IsClosed (operations w q)) (operationDo x Close)
       VOperation"

definition executeInner ::
  "('e, 'x) boundary_scheme \<Rightarrow> ptr \<Rightarrow> ('e, reservation option \<times> reject list \<times> err) fac" where
  "executeInner x q = deferring (Request_Execute x q) (requestClose x q)"

definition voidTask :: "('e, 'x) boundary_scheme \<Rightarrow> nat \<Rightarrow> driver_call \<Rightarrow> ('e, unit) fac" where
  "voidTask x f c = bind (callDriver c (drv_void x c)) (\<lambda>_. resolve f VUnit None)"

definition fallibleTask :: "('e, 'x) boundary_scheme \<Rightarrow> nat \<Rightarrow> driver_call \<Rightarrow> ('e, unit) fac" where
  "fallibleTask x f c = bind (callDriver c (drv_fallible x c)) (\<lambda>e. resolve f VUnit e)"

text \<open>The \<^verbatim>\<open>run\<close> method of each task type.\<close>

definition startPreTradeTask_run where
  "startPreTradeTask_run x f ord a =
     bind (callDriver (DStartPreTrade ord) (drv_StartPreTrade x ord)) (\<lambda>(r, rejects, e).
     bind (newRequest r) (\<lambda>p. resolveRequestDriverResult x f p rejects e a))"

definition executePreTradeTask_run where
  "executePreTradeTask_run x f ord a =
     bind (callDriver (DExecutePreTrade ord) (drv_ExecutePreTrade x ord)) (\<lambda>(r, rejects, e).
     bind (newReservation r) (\<lambda>p. resolveReservationDriverResult x f p rejects e a))"

definition applyDropCopyTask_run where
  "applyDropCopyTask_run x f ord a =
     bind (callDriver (DApplyDropCopy ord) (drv_ApplyDropCopy x ord)) (\<lambda>(r, rejects, e).
     bind (newOperation r) (\<lambda>p. resolveOperationDriverResult x f p rejects e a))"

definition applyReportTask_run where
  "applyReportTask_run x f rep =
     bind (callDriver (DApplyExecutionReport rep) (drv_ApplyExecutionReport x rep)) (\<lambda>(result, e).
     resolve f (VPostTrade result) e)"

definition applyAdjustmentTask_run where
  "applyAdjustmentTask_run x f adjs a =
     bind (callDriver (DApplyAccountAdjustment a adjs) (drv_ApplyAccountAdjustment x a adjs))
       (\<lambda>(result, e). resolve f (VBatch result) e)"

definition submitTask_run :: "nat \<Rightarrow> ('e, err) go \<Rightarrow> ('e, unit) fac" where
  "submitTask_run f fn = bind (callHook HSubmitted fn) (\<lambda>e. resolve f VUnit e)"

definition groupOfTask_run where
  "groupOfTask_run x f a =
     bind (callDriver (DGroupOf a) (drv_GroupOf x a)) (\<lambda>g. resolve f (VGroup g) None)"

definition blockTask_run where "blockTask_run x f a r = voidTask x f (DBlock a r)"
definition blockWithCauseTask_run where
  "blockWithCauseTask_run x f a c = fallibleTask x f (DBlockWithCause a c)"
definition unblockTask_run where "unblockTask_run x f a = voidTask x f (DUnblock a)"
definition unblockAllTask_run where "unblockAllTask_run x f = voidTask x f DUnblockAll"
definition replaceBlockReasonTask_run where
  "replaceBlockReasonTask_run x f a r = fallibleTask x f (DReplaceBlockReason a r)"
definition blockGroupTask_run where
  "blockGroupTask_run x f g r = fallibleTask x f (DBlockGroup g r)"
definition unblockGroupTask_run where
  "unblockGroupTask_run x f g = fallibleTask x f (DUnblockGroup g)"
definition replaceGroupBlockReasonTask_run where
  "replaceGroupBlockReasonTask_run x f g r = fallibleTask x f (DReplaceGroupBlockReason g r)"

definition executeRequestTask_run where
  "executeRequestTask_run x f q a =
     bind (executeInner x q) (\<lambda>(r, rejects, e).
     bind (newReservation r) (\<lambda>p. resolveReservationDriverResult x f p rejects e a))"

definition closeRequestTask_run where
  "closeRequestTask_run x f q = bind (requestClose x q) (\<lambda>_. resolve f VUnit None)"

text \<open>
  The tasks of the asynchronous handles; the gate \<^verbatim>\<open>runInner\<close> puts around the call, which
  holds snapshot readers back, is the subject of \<open>Async_Handles\<close>.
\<close>

definition reservationTask_run where
  "reservationTask_run x f p op = bind (reservationDo x op p) (\<lambda>_. resolve f VUnit None)"

definition reservationTask_abort where
  "reservationTask_abort x e f p abortCloses =
     bind (if abortCloses then reservationDo x Close p else ret ()) (\<lambda>_. resolve f VUnit (Some e))"

definition dropCopyOperationTask_run where
  "dropCopyOperationTask_run x f p op = bind (operationDo x op p) (\<lambda>_. resolve f VUnit None)"

definition dropCopyOperationTask_abort where
  "dropCopyOperationTask_abort x e f p abortCloses =
     bind (if abortCloses then operationDo x Close p else ret ()) (\<lambda>_. resolve f VUnit (Some e))"

text \<open>
  A chain runs on the facade's world with a frame of its own (\<^verbatim>\<open>pending\<close> and
  \<^verbatim>\<open>retryUnsafe\<close> are locals of the run); whatever happened in it, the deferred function
  resolves the future.
\<close>

definition inFrame :: "('e, 'a) run \<Rightarrow> ('e, 'a) fac" where
  "inFrame m w =
     (case m (frameOf (world.truncate w)) of
        (r, g) \<Rightarrow> (r, world.extend (world.truncate g) (world.more w)))"

definition laneChain_run ::
  "('e, 'x) boundary_scheme \<Rightarrow> nat \<Rightarrow> ('e, 's) chainPlan \<Rightarrow> go_context \<Rightarrow> ('e, unit) fac" where
  "laneChain_run x f p ctx =
     bind (inFrame (execute x p ctx)) (\<lambda>(outcome, e). resolve f (VChain outcome) e)"

definition laneChain_abort :: "nat \<Rightarrow> go_error \<Rightarrow> ('e, unit) fac" where
  "laneChain_abort f e =
     resolve f (VChain \<lparr>co_Err = Some e, co_Status = ChainOutcomeFailed, co_RetryUnsafe = False\<rparr>) (Some e)"

lemmas task_run_defs = startPreTradeTask_run_def executePreTradeTask_run_def applyDropCopyTask_run_def
  applyReportTask_run_def applyAdjustmentTask_run_def submitTask_run_def groupOfTask_run_def
  blockTask_run_def blockWithCauseTask_run_def unblockTask_run_def unblockAllTask_run_def
  replaceBlockReasonTask_run_def blockGroupTask_run_def unblockGroupTask_run_def
  replaceGroupBlockReasonTask_run_def executeRequestTask_run_def closeRequestTask_run_def
  reservationTask_run_def reservationTask_abort_def dropCopyOperationTask_run_def
  dropCopyOperationTask_abort_def voidTask_def fallibleTask_def

fun task_run :: "('e, 'x) boundary_scheme \<Rightarrow> ('e, 's) pendingTask \<Rightarrow> ('e, unit) fac" where
  "task_run x (startPreTradeTask f ord a) = startPreTradeTask_run x f ord a"
| "task_run x (executePreTradeTask f ord a) = executePreTradeTask_run x f ord a"
| "task_run x (applyDropCopyTask f ord a) = applyDropCopyTask_run x f ord a"
| "task_run x (applyReportTask f rep) = applyReportTask_run x f rep"
| "task_run x (applyAdjustmentTask f adjs a) = applyAdjustmentTask_run x f adjs a"
| "task_run x (submitTask f fn) = submitTask_run f fn"
| "task_run x (groupOfTask f a) = groupOfTask_run x f a"
| "task_run x (blockTask f a r) = blockTask_run x f a r"
| "task_run x (blockWithCauseTask f a c) = blockWithCauseTask_run x f a c"
| "task_run x (unblockTask f a) = unblockTask_run x f a"
| "task_run x (unblockAllTask f) = unblockAllTask_run x f"
| "task_run x (replaceBlockReasonTask f a r) = replaceBlockReasonTask_run x f a r"
| "task_run x (blockGroupTask f g r) = blockGroupTask_run x f g r"
| "task_run x (unblockGroupTask f g) = unblockGroupTask_run x f g"
| "task_run x (replaceGroupBlockReasonTask f g r) = replaceGroupBlockReasonTask_run x f g r"
| "task_run x (executeRequestTask f q a) = executeRequestTask_run x f q a"
| "task_run x (closeRequestTask f q a) = closeRequestTask_run x f q"
| "task_run x (reservationTask f p a op ac) = reservationTask_run x f p op"
| "task_run x (dropCopyOperationTask f p a op ac) = dropCopyOperationTask_run x f p op"
| "task_run x (RequestCleanup f q a v e) = bind (requestClose x q) (\<lambda>_. resolve f v (Some e))"
| "task_run x (ReservationCleanup f p a e) = bind (reservationDo x Close p) (\<lambda>_. resolve f VUnit (Some e))"
| "task_run x (OperationCleanup f p a e) = bind (operationDo x Close p) (\<lambda>_. resolve f VUnit (Some e))"
| "task_run x (chainTask f p ctx) = laneChain_run x f p ctx"
| "task_run x (exclusiveBarrierTask n) = ret ()"

text \<open>
  A barrier only waits: for the section to take it and then for the release, under a hard stop
  (after marking the section aborted) for the release alone.  That waiting is the state
  \<open>el_at\<close> of \<open>Exclusive\<close>; of the facade's world it changes nothing.
\<close>

fun task_abort :: "('e, 'x) boundary_scheme \<Rightarrow> go_error \<Rightarrow> ('e, 's) pendingTask \<Rightarrow> ('e, unit) fac" where
  "task_abort x e (executeRequestTask f q a) =
     bind (requestClose x q) (\<lambda>_. resolve f (VReservation None []) (Some e))"
| "task_abort x e (closeRequestTask f q a) = bind (requestClose x q) (\<lambda>_. resolve f VUnit (Some e))"
| "task_abort x e (reservationTask f p a op ac) = reservationTask_abort x e f p ac"
| "task_abort x e (dropCopyOperationTask f p a op ac) = dropCopyOperationTask_abort x e f p ac"
| "task_abort x e (RequestCleanup f q a v er) = bind (requestClose x q) (\<lambda>_. resolve f v (Some er))"
| "task_abort x e (ReservationCleanup f p a er) =
     bind (reservationDo x Close p) (\<lambda>_. resolve f VUnit (Some er))"
| "task_abort x e (OperationCleanup f p a er) =
     bind (operationDo x Close p) (\<lambda>_. resolve f VUnit (Some er))"
| "task_abort x e (chainTask f p ctx) = laneChain_abort f e"
| "task_abort x e (exclusiveBarrierTask n) = ret ()"
| "task_abort x e t = resolve (the (taskFuture t)) (zeroValue t) (Some e)"

section \<open>Public operations\<close>

text \<open>
  What the facade uses of the strategy: \<^verbatim>\<open>submit\<close> returns nil when the lane took the
  task and an error otherwise; \<^verbatim>\<open>scheduleSubmitFailureCleanup\<close> hands mandatory cleanup to
  the lane.  \<^verbatim>\<open>submitWithFailureHandoff\<close> is \<^verbatim>\<open>submit\<close> followed by the handoff on an
  error.
\<close>

record ('e, 's) strategy =
  st_submit :: "go_context \<Rightarrow> routingKey \<Rightarrow> ('e, 's) pendingTask \<Rightarrow> ('e, err) fac"
  st_schedule :: "routingKey \<Rightarrow> ('e, 's) pendingTask \<Rightarrow> ('e, unit) fac"

definition submitWithFailureHandoff ::
  "('e, 's) strategy \<Rightarrow> go_context \<Rightarrow> routingKey \<Rightarrow> ('e, 's) pendingTask \<Rightarrow> (go_error \<Rightarrow> ('e, unit) fac) \<Rightarrow>
   ('e, err) fac" where
  "submitWithFailureHandoff st ctx key t onFailure =
     bind (st_submit st ctx key t) (\<lambda>e.
       case e of None \<Rightarrow> ret None | Some er \<Rightarrow> bind (onFailure er) (\<lambda>_. ret (Some er)))"

text \<open>The shape every operation shares; \<open>prep\<close> is an early error or the key and the task.\<close>

type_synonym ('e, 's) preparation = "go_error + (routingKey \<times> (nat \<Rightarrow> ('e, 's) pendingTask))"

definition asyncCall ::
  "('e, 's) strategy \<Rightarrow> go_context \<Rightarrow> asyncValue \<Rightarrow> ('e, 's) preparation \<Rightarrow> ('e, nat) fac" where
  "asyncCall st ctx zero prep =
     bind (newFuture zero) (\<lambda>f.
       case prep of
         Inl e \<Rightarrow> bind (resolve f zero (Some e)) (\<lambda>_. ret f)
       | Inr (key, task) \<Rightarrow>
           bind (st_submit st ctx key (task f)) (\<lambda>e.
             case e of
               None \<Rightarrow> ret f
             | Some er \<Rightarrow> bind (resolve f zero (Some er)) (\<lambda>_. ret f)))"

definition onAccount :: "go_error + accountID \<Rightarrow> (accountID \<Rightarrow> nat \<Rightarrow> ('e, 's) pendingTask) \<Rightarrow> ('e, 's) preparation" where
  "onAccount r task =
     (case r of Inl e \<Rightarrow> Inl e | Inr a \<Rightarrow> Inr (accountRoutingKey a, task a))"

definition onGroup :: "accountGroupID \<Rightarrow> (nat \<Rightarrow> ('e, 's) pendingTask) \<Rightarrow> ('e, 's) preparation" where
  "onGroup g task =
     (case validateAccountGroupID g of Some e \<Rightarrow> Inl e | None \<Rightarrow> Inr (groupRoutingKey g, task))"

definition AsyncEngine_StartPreTrade where
  "AsyncEngine_StartPreTrade st ctx ord =
     asyncCall st ctx (VRequest None []) (onAccount (extractOrderAccountID ord) (\<lambda>a f. startPreTradeTask f ord a))"

definition AsyncEngine_ExecutePreTrade where
  "AsyncEngine_ExecutePreTrade st ctx ord =
     asyncCall st ctx (VReservation None []) (onAccount (extractOrderAccountID ord) (\<lambda>a f. executePreTradeTask f ord a))"

definition AsyncEngine_ApplyDropCopy where
  "AsyncEngine_ApplyDropCopy st ctx ord =
     asyncCall st ctx (VOperation None []) (onAccount (extractOrderAccountID ord) (\<lambda>a f. applyDropCopyTask f ord a))"

definition AsyncEngine_ApplyExecutionReport where
  "AsyncEngine_ApplyExecutionReport st ctx rep =
     asyncCall st ctx (VPostTrade zeroPostTradeResult) (onAccount (extractReportAccountID rep) (\<lambda>_ f. applyReportTask f rep))"

definition AsyncEngine_ApplyAccountAdjustment where
  "AsyncEngine_ApplyAccountAdjustment st ctx a adjs =
     asyncCall st ctx (VBatch zeroBatchResult) (Inr (accountRoutingKey a, \<lambda>f. applyAdjustmentTask f adjs a))"

definition AsyncEngine_Submit where
  "AsyncEngine_Submit st ctx a fn =
     asyncCall st ctx VUnit (Inr (accountRoutingKey a, \<lambda>f. submitTask f fn))"

definition AsyncAccounts_GroupOf where
  "AsyncAccounts_GroupOf st ctx a =
     asyncCall st ctx (VGroup None) (Inr (accountRoutingKey a, \<lambda>f. groupOfTask f a))"

definition AsyncAccounts_Block where
  "AsyncAccounts_Block st ctx a r =
     asyncCall st ctx VUnit (Inr (accountRoutingKey a, \<lambda>f. blockTask f a r))"

definition AsyncAccounts_BlockWithCause where
  "AsyncAccounts_BlockWithCause st ctx a c =
     asyncCall st ctx VUnit (Inr (accountRoutingKey a, \<lambda>f. blockWithCauseTask f a c))"

definition AsyncAccounts_Unblock where
  "AsyncAccounts_Unblock st ctx a =
     asyncCall st ctx VUnit (Inr (accountRoutingKey a, \<lambda>f. unblockTask f a))"

definition AsyncAccounts_UnblockAll where
  "AsyncAccounts_UnblockAll st ctx =
     asyncCall st ctx VUnit (Inr (engineWideRoutingKey, \<lambda>f. unblockAllTask f))"

definition AsyncAccounts_ReplaceBlockReason where
  "AsyncAccounts_ReplaceBlockReason st ctx a r =
     asyncCall st ctx VUnit (Inr (accountRoutingKey a, \<lambda>f. replaceBlockReasonTask f a r))"

definition AsyncAccounts_BlockGroup where
  "AsyncAccounts_BlockGroup st ctx g r =
     asyncCall st ctx VUnit (onGroup g (\<lambda>f. blockGroupTask f g r))"

definition AsyncAccounts_UnblockGroup where
  "AsyncAccounts_UnblockGroup st ctx g =
     asyncCall st ctx VUnit (onGroup g (\<lambda>f. unblockGroupTask f g))"

definition AsyncAccounts_ReplaceGroupBlockReason where
  "AsyncAccounts_ReplaceGroupBlockReason st ctx g r =
     asyncCall st ctx VUnit (onGroup g (\<lambda>f. replaceGroupBlockReasonTask f g r))"

text \<open>
  \<^verbatim>\<open>AsyncRequest.Execute\<close> and \<^verbatim>\<open>Close\<close>: on a failed submit the release of the request
  and the resolution of the future become mandatory cleanup of the same lane.
\<close>

definition asyncRequestCall ::
  "('e, 's) strategy \<Rightarrow> go_context \<Rightarrow> ptr \<times> accountID \<Rightarrow> asyncValue \<Rightarrow> (nat \<Rightarrow> ('e, 's) pendingTask) \<Rightarrow> ('e, nat) fac" where
  "asyncRequestCall st ctx r zero task =
     (case r of (q, a) \<Rightarrow>
       bind (newFuture zero) (\<lambda>f.
       bind (submitWithFailureHandoff st ctx (accountRoutingKey a) (task f)
               (\<lambda>e. st_schedule st (accountRoutingKey a) (RequestCleanup f q a zero e)))
         (\<lambda>_. ret f)))"

definition AsyncRequest_Execute where
  "AsyncRequest_Execute st ctx r =
     asyncRequestCall st ctx r (VReservation None []) (\<lambda>f. executeRequestTask f (fst r) (snd r))"

definition AsyncRequest_Close where
  "AsyncRequest_Close st ctx r =
     asyncRequestCall st ctx r VUnit (\<lambda>f. closeRequestTask f (fst r) (snd r))"

text \<open>
  The lifecycle methods of \<^verbatim>\<open>AsyncReservation\<close> and \<^verbatim>\<open>AsyncDropCopyOperation\<close>: a method
  that closes leaves the close to the lane when its submit fails.
\<close>

definition asyncHandleRunVoid ::
  "('e, 's) strategy \<Rightarrow> go_context \<Rightarrow> accountID \<Rightarrow> bool \<Rightarrow> (nat \<Rightarrow> ('e, 's) pendingTask) \<Rightarrow>
   (nat \<Rightarrow> go_error \<Rightarrow> ('e, 's) pendingTask) \<Rightarrow> ('e, nat) fac" where
  "asyncHandleRunVoid st ctx a abortCloses task cleanup =
     bind (newFuture VUnit) (\<lambda>f.
       if abortCloses then
         bind (submitWithFailureHandoff st ctx (accountRoutingKey a) (task f)
                 (\<lambda>e. st_schedule st (accountRoutingKey a) (cleanup f e)))
           (\<lambda>_. ret f)
       else
         bind (st_submit st ctx (accountRoutingKey a) (task f)) (\<lambda>e.
           case e of
             None \<Rightarrow> ret f
           | Some er \<Rightarrow> bind (resolve f VUnit (Some er)) (\<lambda>_. ret f)))"

definition AsyncReservation_runVoid where
  "AsyncReservation_runVoid st ctx r op abortCloses =
     asyncHandleRunVoid st ctx (snd r) abortCloses (\<lambda>f. reservationTask f (fst r) (snd r) op abortCloses)
       (\<lambda>f e. ReservationCleanup f (fst r) (snd r) e)"

definition AsyncReservation_call where
  "AsyncReservation_call op st ctx r = AsyncReservation_runVoid st ctx r op (closing op)"

definition AsyncDropCopyOperation_runVoid where
  "AsyncDropCopyOperation_runVoid st ctx r op abortCloses =
     asyncHandleRunVoid st ctx (snd r) abortCloses
       (\<lambda>f. dropCopyOperationTask f (fst r) (snd r) op abortCloses)
       (\<lambda>f e. OperationCleanup f (fst r) (snd r) e)"

definition AsyncDropCopyOperation_call where
  "AsyncDropCopyOperation_call op st ctx r = AsyncDropCopyOperation_runVoid st ctx r op (closing op)"

section \<open>Stopping the facade\<close>

text \<open>
  \<^verbatim>\<open>stopUnderlying\<close> is optional and runs under a \<^verbatim>\<open>sync.Once\<close>; \<open>ae_calls\<close> counts its
  calls.  The argument of the stop calls is what the strategy's stop returned.
\<close>

record asyncEngine =
  ae_hasStopUnderlying :: bool
  ae_stopOnce :: bool
  ae_calls :: nat

definition newAsyncEngine :: "bool \<Rightarrow> asyncEngine" where
  "newAsyncEngine wired = \<lparr>ae_hasStopUnderlying = wired, ae_stopOnce = False, ae_calls = 0\<rparr>"

definition releaseUnderlying :: "asyncEngine \<Rightarrow> asyncEngine" where
  "releaseUnderlying en =
     (if ae_stopOnce en then en
      else en\<lparr>ae_stopOnce := True,
              ae_calls := (if ae_hasStopUnderlying en then Suc (ae_calls en) else ae_calls en)\<rparr>)"

definition StopGraceful :: "err \<Rightarrow> asyncEngine \<Rightarrow> err \<times> asyncEngine" where
  "StopGraceful result en = (result, if result = None then releaseUnderlying en else en)"

definition StopHard :: "err \<Rightarrow> asyncEngine \<Rightarrow> err \<times> asyncEngine" where
  "StopHard result en = (result, if result = None then releaseUnderlying en else en)"

end
