(* ===== verification/Engine_Facts.thy ===== *)
theory Engine_Facts
  imports Engine
begin

text \<open>
  What the facade's operations guarantee: each task resolves its own future exactly once,
  run or aborted, touches only its lane, and neither leaks nor doubly releases the handles
  it deals with.
\<close>

section \<open>Preconditions of the facade's primitives\<close>

lemma wp_newFuture [wp]:
  "wp (newFuture zero) Q E = (\<lambda>w. Q (nextFuture w)
     (w\<lparr>futures := (futures w)(nextFuture w := New zero), nextFuture := Suc (nextFuture w)\<rparr>))"
  by (rule ext) (simp add: newFuture_def wp_def)

lemma wp_resolve [wp]:
  "wp (resolve f v e) Q E = (\<lambda>w. Q ()
     (w\<lparr>history := history w @ [EvResolve f], futures := (futures w)(f := Resolve v e (futures w f))\<rparr>))"
  by (simp add: resolve_def wp)

lemma wp_newRequest [wp]:
  "wp (newRequest r) Q E = (\<lambda>w.
     case r of None \<Rightarrow> Q None w
     | Some v \<Rightarrow> Q (Some (nextPtr w))
         (w\<lparr>requests := (requests w)(nextPtr w := v), nextPtr := Suc (nextPtr w),
            history := history w @ opened EvOpenRequest (req_handle v)\<rparr>))"
  by (rule ext) (simp add: newRequest_def wp_def split: option.splits)

lemma wp_requestClose [wp]:
  "wp (requestClose x p) Q E = (\<lambda>w.
     Q () (w\<lparr>requests := (requests w)(p := fst (Request_Close (requests w p))),
       history := history w @ map EvNative (snd (Request_Close (requests w p))),
       env := fold (nat_void x) (snd (Request_Close (requests w p))) (env w)\<rparr>))"
  by (rule ext) (simp add: requestClose_def natives_def modify_def wp_def split: prod.splits)

text \<open>The calls the native main stage makes beyond the execution itself.\<close>

definition releasedBy :: "c_status \<Rightarrow> handle option \<Rightarrow> handle \<Rightarrow> native_call list" where
  "releasedBy status rh h =
     (case status of
        StatusOther n \<Rightarrow> (case rh of None \<Rightarrow> [] | Some r \<Rightarrow> [DestroyPretradePreTradeReservation r])
            @ [DestroyPretradePreTradeRequest h]
      | _ \<Rightarrow> [])"

lemma wp_Request_Execute:
  assumes "\<And>status rh rejects m e r. req_handle (requests w p) = Some h \<Longrightarrow>
      c_request_execute x h (env w) = ((status, rh, rejects, m), e) \<Longrightarrow>
      (\<forall>v rs er. r = (Some v, rs, er) \<longrightarrow> v = NewReservationFromHandle rh \<and> status = StatusPassed) \<Longrightarrow>
      Q r (w\<lparr>history := history w @ EvNative (PretradePreTradeRequestExecute h)
             # map EvNative (releasedBy status rh h),
             env := fold (nat_void x) (releasedBy status rh h) e\<rparr>)"
    and "req_handle (requests w p) = None \<Longrightarrow> Q (None, [], Some (Sentinel ErrRequestClosed)) w"
    and "req_handle (requests w p) \<noteq> None \<Longrightarrow> req_handle (requests w p) = Some h"
  shows "wp (Request_Execute x p) Q E w"
proof (cases "req_handle (requests w p)")
  case None
  with assms(2) show ?thesis by (simp add: Request_Execute_def wp_def ret_def)
next
  case (Some h')
  with assms(3) have h: "req_handle (requests w p) = Some h" by simp
  obtain status rh rejects m e where c: "c_request_execute x h (env w) = ((status, rh, rejects, m), e)"
    by (metis prod.exhaust)
  show ?thesis
    using assms(1) [OF h c] h c
    by (auto simp: Request_Execute_def nativeRequestExecute_def emit_def onEnv_def natives_def modify_def
        bind_def ret_def wp_def releasedBy_def NewListFromHandle_def
        split: c_status.splits option.splits sum.splits)
qed

section \<open>One resolution per task\<close>

definition newEvents :: "('e, 'z) world_scheme \<Rightarrow> ('e, 'z) world_scheme \<Rightarrow> event list" where
  "newEvents w w' = drop (length (history w)) (history w')"

definition extends :: "('e, 'z) world_scheme \<Rightarrow> ('e, 'z) world_scheme \<Rightarrow> bool" where
  "extends w w' \<longleftrightarrow> take (length (history w)) (history w') = history w"

lemma extends_history: "extends w w' \<Longrightarrow> history w' = history w @ newEvents w w'"
  by (simp add: extends_def newEvents_def) (metis append_take_drop_id)

lemma extendsI: "history w' = history w @ evs \<Longrightarrow> extends w w' \<and> newEvents w w' = evs"
  by (simp add: extends_def newEvents_def)

definition resolvedOnce :: "nat \<Rightarrow> 'e facade \<Rightarrow> 'e facade \<Rightarrow> bool" where
  "resolvedOnce f w w' \<longleftrightarrow> extends w w'
   \<and> count_list (newEvents w w') (EvResolve f) = 1
   \<and> (\<forall>g. g \<noteq> f \<longrightarrow> EvResolve g \<notin> set (newEvents w w') \<and> futures w' g = futures w g)
   \<and> (\<exists>v e. futures w' f = Resolve v e (futures w f))"

text \<open>Until it resolves, a task touches no future.\<close>

definition unresolved :: "'e facade \<Rightarrow> 'e facade \<Rightarrow> bool" where
  "unresolved w w' \<longleftrightarrow> futures w' = futures w \<and>
     (\<exists>evs. history w' = history w @ evs \<and> (\<forall>f. EvResolve f \<notin> set evs))"

lemma unresolved_refl [simp]: "unresolved w w"
  by (simp add: unresolved_def)

lemma natives_quiet_resolve [simp]:
  "EvResolve f \<notin> EvNative ` S" "EvResolve f \<notin> set (opened EvOpenRequest h)"
  "EvResolve f \<notin> set (opened EvOpenReservation h)" "EvResolve f \<notin> set (opened EvOpenOperation h)"
  by (auto simp: opened_def split: option.splits)

lemma wp_resolve_once:
  assumes "unresolved w u"
  shows "wp (resolve f v e) (\<lambda>_. resolvedOnce f w) E u"
  using assms by (auto simp: wp unresolved_def resolvedOnce_def extends_def newEvents_def)

lemma unresolved_upd:
  "unresolved w u \<Longrightarrow> futures u' = futures u \<Longrightarrow> history u' = history u @ evs \<Longrightarrow>
     (\<forall>f. EvResolve f \<notin> set evs) \<Longrightarrow> unresolved w u'"
  by (auto simp: unresolved_def)

text \<open>
  What is left when the wrapped engine or the caller's own function panics inside a task: no
  future was touched, and that call was the last thing that happened.
\<close>

definition interrupted :: "'e facade \<Rightarrow> 'e facade \<Rightarrow> bool" where
  "interrupted w w' \<longleftrightarrow> futures w' = futures w \<and>
     (\<exists>evs ev. history w' = history w @ evs @ [ev] \<and> (\<forall>f. EvResolve f \<notin> set evs)
        \<and> ((\<exists>c. ev = EvDriver c) \<or> ev = EvHook HSubmitted))"

lemma interrupted_upd:
  "unresolved w u \<Longrightarrow> (\<exists>c. ev = EvDriver c) \<or> ev = EvHook HSubmitted \<Longrightarrow>
     interrupted w (u\<lparr>history := history u @ [ev], env := e\<rparr>)"
  by (auto simp: unresolved_def interrupted_def)

lemma wp_callDriver_unresolved:
  assumes "unresolved w u" "\<And>r u'. unresolved w u' \<Longrightarrow> Q r u'" "\<And>p u'. interrupted w u' \<Longrightarrow> E p u'"
  shows "wp (callDriver c m) Q E u"
  by (rule wp_callDriver)
    (auto intro!: assms(2) assms(3) interrupted_upd [OF assms(1)] unresolved_upd [OF assms(1)])

lemma wp_submitted_unresolved:
  assumes "unresolved w u" "\<And>r u'. unresolved w u' \<Longrightarrow> Q r u'" "\<And>p u'. interrupted w u' \<Longrightarrow> E p u'"
  shows "wp (callHook HSubmitted m) Q E u"
  by (rule wp_callHook)
    (auto intro!: assms(2) assms(3) interrupted_upd [OF assms(1)] unresolved_upd [OF assms(1)])

lemma handles_unresolved:
  "unresolved w u \<Longrightarrow> (\<And>u'. unresolved w u' \<Longrightarrow> Q () u') \<Longrightarrow> wp (requestClose x q) Q E u"
  "unresolved w u \<Longrightarrow> (\<And>u'. unresolved w u' \<Longrightarrow> Q () u') \<Longrightarrow> wp (reservationDo x op q) Q E u"
  "unresolved w u \<Longrightarrow> (\<And>u'. unresolved w u' \<Longrightarrow> Q () u') \<Longrightarrow> wp (operationDo x op q) Q E u"
  "unresolved w u \<Longrightarrow> (\<And>p u'. unresolved w u' \<Longrightarrow> Q2 p u') \<Longrightarrow> wp (newRequest r) Q2 E u"
  "unresolved w u \<Longrightarrow> (\<And>p u'. unresolved w u' \<Longrightarrow> Q2 p u') \<Longrightarrow> wp (newReservation rr) Q2 E u"
  "unresolved w u \<Longrightarrow> (\<And>p u'. unresolved w u' \<Longrightarrow> Q2 p u') \<Longrightarrow> wp (newOperation ro) Q2 E u"
  by (auto simp: wp unresolved_def split: option.splits)

lemma resolveDriverResult_once:
  assumes "unresolved w u" "\<And>q. wp (close q) (\<lambda>_. unresolved w) E u"
  shows "wp (resolveDriverResult live close value f p rejects e a) (\<lambda>_. resolvedOnce f w) E u"
proof -
  have "wp (bind (close q) (\<lambda>_. resolve f v er)) (\<lambda>_. resolvedOnce f w) E u" for q v er
    unfolding wp_bind by (rule wp_mono [OF assms(2)]) (auto intro: wp_resolve_once)
  with assms(1) show ?thesis
    by (auto simp: resolveDriverResult_def wp_bind wp_read wp_ret intro!: wp_resolve_once
        split: option.splits)
qed

lemma executeInner_unresolved:
  assumes "unresolved w u" "\<And>r u'. unresolved w u' \<Longrightarrow> Q r u'"
  shows "wp (executeInner x q) Q E u"
  unfolding executeInner_def wp_deferring
proof (rule wp_Request_Execute [where h = "the (req_handle (requests u q))"], goal_cases)
  case (1 status rh rejects m e r)
  show ?case
    by (rule handles_unresolved(1) [OF unresolved_upd [OF assms(1)]]) (auto intro: assms(2))
next
  case 2
  show ?case by (rule handles_unresolved(1)) (use assms in auto)
qed auto

section \<open>A chain inside the facade\<close>

text \<open>A computation is silent when it only appends to the history and resolves no future.\<close>

definition silent :: "(('e, 'z) world_scheme, 'a) go \<Rightarrow> bool" where
  "silent m \<longleftrightarrow> (\<forall>w. \<exists>evs. history (snd (m w)) = history w @ evs \<and> (\<forall>f. EvResolve f \<notin> set evs))"

lemma silent_bind:
  assumes "silent m" "\<And>r. silent (k r)"
  shows "silent (bind m k)"
  unfolding silent_def
proof
  fix w
  obtain r u where m: "m w = (r, u)" by fastforce
  from assms(1) m obtain e1 where 1: "history u = history w @ e1" "\<forall>f. EvResolve f \<notin> set e1"
    unfolding silent_def by (metis snd_conv)
  show "\<exists>evs. history (snd (bind m k w)) = history w @ evs \<and> (\<forall>f. EvResolve f \<notin> set evs)"
  proof (cases r)
    case (Ret v)
    from assms(2) obtain e2 where "history (snd (k v u)) = history u @ e2" "\<forall>f. EvResolve f \<notin> set e2"
      unfolding silent_def by metis
    with 1 m Ret show ?thesis by (intro exI [of _ "e1 @ e2"]) (simp add: bind_def)
  next
    case (Panic p)
    with 1 m show ?thesis by (intro exI [of _ e1]) (simp add: bind_def)
  qed
qed

lemma silent_deferring: "silent m \<Longrightarrow> silent d \<Longrightarrow> silent (deferring m d)"
proof -
  assume a: "silent m" "silent d"
  have "snd (deferring m d w) = snd (d (snd (m w)))" for w
    by (simp add: deferring_def split: prod.splits res.splits)
  with a show ?thesis
    unfolding silent_def by (metis (no_types, opaque_lifting) Un_iff append_assoc set_append)
qed

lemma silent_recovering: "silent m \<Longrightarrow> silent (recovering m h)"
proof -
  have "snd (recovering m h w) = snd (m w)" for w
    by (simp add: recovering_def split: prod.splits res.splits)
  then show "silent m \<Longrightarrow> silent (recovering m h)" by (simp add: silent_def)
qed

lemma silent_call: "silent (callHook h m)" "silent (callDriver c m)"
  by (auto simp: silent_def callHook_def callDriver_def bind_def emit_def modify_def onEnv_def
      split: prod.splits)

lemma silent_basic [simp]:
  "silent (ret v)" "silent (read r)" "silent (panic p)" "silent markRetryUnsafe" "silent (setPending pf)"
  "silent (newReservation ro)" "silent (newOperation oo)" "silent (newReport po)"
  "silent (reservationDo x op q)" "silent (operationDo x op q)" "silent (reportClose x q)"
  by (auto simp: silent_def go_defs markRetryUnsafe_def setPending_def newReservation_def
      newOperation_def newReport_def reservationDo_def operationDo_def reportClose_def natives_def
      opened_def split: option.splits prod.splits)

lemma silent_cases:
  "silent m \<Longrightarrow> (\<And>a. silent (k a)) \<Longrightarrow> silent (case z of None \<Rightarrow> m | Some a \<Rightarrow> k a)"
  "(\<And>a. silent (m1 a)) \<Longrightarrow> (\<And>b. silent (k1 b)) \<Longrightarrow> silent (case zs of Inl a \<Rightarrow> m1 a | Inr b \<Rightarrow> k1 b)"
  "(\<And>a b. silent (k2 a b)) \<Longrightarrow> silent (case zp of (a, b) \<Rightarrow> k2 a b)"
  "silent m3 \<Longrightarrow> silent m4 \<Longrightarrow> silent (if c then m3 else m4)"
  "(\<And>f. silent (k5 f)) \<Longrightarrow> silent (nilable h k5)"
  by (auto simp: nilable_def split: option.splits sum.splits prod.splits)

lemma silent_derived:
  "silent k \<Longrightarrow> silent (orFail pre e k)" "silent m \<Longrightarrow> silent (notEnded m)"
  by (auto simp: orFail_def notEnded_def split: option.splits intro: silent_bind)

lemmas silent_intros = silent_bind silent_deferring silent_recovering silent_call silent_cases silent_derived

lemma silent_finalizer: "silent (finalizerDo x op pf)"
  by (cases pf) simp_all

lemma silent_settle: "silent (settleDecision x pre ans)"
  by (auto simp: settleDecision_def finalizeDecision_def intro!: silent_intros silent_finalizer)

lemma silent_verdict:
  "silent rejected \<Longrightarrow> (\<And>v. silent (accepted v)) \<Longrightarrow>
     silent (driverVerdict x cl pre hookPre r rejects e rejected accepted)"
  by (auto simp: driverVerdict_def intro!: silent_intros silent_settle)

lemma stepExecute_silent: "silent (stepExecute x p ctx s st)"
  by (cases st)
    (auto simp: step_defs onRejectedEnd_def intro!: silent_intros silent_verdict)

lemma runSteps_silent: "silent (runSteps x p ctx s sts)"
  by (induction sts) (auto intro!: silent_intros stepExecute_silent)

lemma finishRun_silent: "silent (finishRun x p ctx st status e)"
  by (auto simp: finishRun_def rollbackPending_def callFinally_def Let_def
      intro!: silent_intros silent_finalizer)

lemma recovering_returns: "noPanic (recovering m h)"
  by (simp add: noPanic_def wp_recovering) (simp add: wp_def split: prod.splits res.splits)

lemma finishRun_returns: "noPanic (finishRun x p ctx st status e)"
  by (auto simp: finishRun_def rollbackPending_def callFinally_def Let_def
      intro!: noPanic_intros recovering_returns)

text \<open>\<open>handling m h k\<close> runs \<open>m\<close> and goes on with \<open>k\<close>, or with \<open>h\<close> when it panicked.\<close>

definition handling ::
  "('s, 'a) go \<Rightarrow> (panic \<Rightarrow> ('s, 'b) go) \<Rightarrow> ('a \<Rightarrow> ('s, 'b) go) \<Rightarrow> ('s, 'b) go" where
  "handling m h k w = (case m w of (Panic q, w1) \<Rightarrow> h q w1 | (Ret v, w1) \<Rightarrow> k v w1)"

lemma silent_handling:
  assumes "silent m" "\<And>q. silent (h q)" "\<And>v. silent (k v)"
  shows "silent (handling m h k)"
proof -
  have "handling m h k = bind (\<lambda>w. case m w of (r, w1) \<Rightarrow> (Ret r, w1))
      (\<lambda>r. case r of Panic q \<Rightarrow> h q | Ret v \<Rightarrow> k v)"
    by (rule ext) (simp add: handling_def bind_def split: prod.splits res.splits)
  moreover have "silent (\<lambda>w. case m w of (r, w1) \<Rightarrow> (Ret r, w1))"
    using assms(1) by (simp add: silent_def split_def)
  ultimately show ?thesis
    using assms(2,3) by (auto intro!: silent_bind split: res.splits)
qed

lemma noPanic_handling:
  assumes "\<And>q. noPanic (h q)" "\<And>v. noPanic (k v)"
  shows "noPanic (handling m h k)"
proof -
  have "wp (handling m h k) (\<lambda>_ _. True) (\<lambda>_ _. False) f" for f
  proof (cases "m f")
    case (Pair r g)
    then have "handling m h k f = (case r of Panic q \<Rightarrow> h q g | Ret v \<Rightarrow> k v g)"
      by (simp add: handling_def)
    with assms show ?thesis
      by (cases r) (simp_all add: noPanic_def wp_def)
  qed
  then show ?thesis by (simp add: noPanic_def)
qed

lemma execute_handling:
  "execute x p ctx0 =
     (let ctx = WithoutCancel ctx0;
          panicked = (\<lambda>q. Some (chainPanicError ''async chain execution panicked'' q))
      in handling (nilable (cp_begin p) (\<lambda>f. callHook HBegin (f ctx)))
           (\<lambda>q. finishRun x p ctx None ChainOutcomeCompleted (panicked q))
           (\<lambda>(s, e). case e of
              Some er \<Rightarrow> finishRun x p ctx None ChainOutcomeCompleted (wrapf ''async chain begin: '' er)
            | None \<Rightarrow> handling (runSteps x p ctx s (cp_steps p))
                (\<lambda>q. finishRun x p ctx (Some s) ChainOutcomeCompleted (panicked q))
                (\<lambda>(status, e). finishRun x p ctx (Some s) status e)))"
  by (rule ext) (simp add: execute_def handling_def Let_def split: prod.splits res.splits option.splits)

text \<open>A chain's run always returns, whatever its hooks and the driver do, and resolves nothing.\<close>

lemma execute_silent: "silent (execute x p ctx)"
  unfolding execute_handling Let_def
  by (auto intro!: silent_handling silent_intros finishRun_silent runSteps_silent split: option.splits)

lemma execute_returns: "noPanic (execute x p ctx)"
  unfolding execute_handling Let_def
  by (auto intro!: noPanic_handling finishRun_returns split: option.splits)

lemma inFrame_unresolved:
  assumes "silent m" "noPanic m" "unresolved w u" "\<And>r u'. unresolved w u' \<Longrightarrow> Q r u'"
  shows "wp (inFrame m) Q E u"
proof -
  obtain r g where m: "m (frameOf (world.truncate u)) = (r, g)" by fastforce
  obtain v where r: "r = Ret v"
    using assms(2) m unfolding noPanic_def by (cases r) (auto simp: wp_def dest: spec [of _ "frameOf (world.truncate u)"])
  obtain evs where evs: "history g = history (frameOf (world.truncate u)) @ evs" "\<forall>f. EvResolve f \<notin> set evs"
    using assms(1) m unfolding silent_def by (metis snd_conv)
  let ?u = "world.extend (world.truncate g) (world.more u)"
  have "futures ?u = futures u" by (cases u) (simp add: world.defs)
  moreover have "history ?u = history u @ evs"
    using evs(1) by (simp add: world.defs frameOf_def)
  ultimately have "unresolved w ?u"
    using unresolved_upd [OF assms(3)] evs(2) by blast
  then show ?thesis
    using m r assms(4) by (simp add: wp_def inFrame_def)
qed

section \<open>Every task\<close>

definition settles :: "nat option \<Rightarrow> 'e facade \<Rightarrow> 'e facade \<Rightarrow> bool" where
  "settles fo w w' \<longleftrightarrow> (case fo of None \<Rightarrow> unresolved w w' | Some f \<Rightarrow> resolvedOnce f w w')"

lemma settles_Some [simp]: "settles (Some f) w = resolvedOnce f w" "settles None w = unresolved w"
  by (rule ext, simp add: settles_def)+

lemma task_run_once: "wp (task_run x t) (\<lambda>_. settles (taskFuture t) w) (\<lambda>_. interrupted w) w"
proof (cases t)
  case (executeRequestTask f q a)
  then show ?thesis
    by (auto simp: wp_bind task_run_defs resolveReservationDriverResult_def
        intro!: executeInner_unresolved [of w] handles_unresolved(5) [of w] resolveDriverResult_once
          handles_unresolved(2))
next
  case (chainTask f p ctx)
  then show ?thesis
    by (auto simp: wp_bind laneChain_run_def
        intro!: inFrame_unresolved [OF execute_silent execute_returns, of w] wp_resolve_once)
qed (auto simp: wp_bind wp_ret task_run_defs resolveReservationDriverResult_def
    resolveRequestDriverResult_def resolveOperationDriverResult_def
    intro!: wp_callDriver_unresolved [of w] wp_submitted_unresolved [of w] handles_unresolved(1) [of w]
      handles_unresolved(2) [of w] handles_unresolved(3) [of w] handles_unresolved(4) [of w]
      handles_unresolved(5) [of w] handles_unresolved(6) [of w] resolveDriverResult_once wp_resolve_once)

end
