(* ===== verification/Lane.thy ===== *)
theory Lane
  imports Routing "HOL-Library.Multiset"
begin

text \<open>
  One lane of the dispatcher (\<^verbatim>\<open>asyncengine/strategy.go\<close>): the \<^verbatim>\<open>keyQueue\<close> with its
  bounded channel and its unbounded backlog of mandatory cleanup, and the stop and fence
  state of \<^verbatim>\<open>base\<close>.  Every definition here is one critical section, one atomic
  operation or one channel operation of the code; \<open>Lane_Machine\<close> interleaves them.
  The counters are \<^verbatim>\<open>int64\<close> and count tasks, so they are modelled as unbounded
  integers.  \<open>tracksIdle\<close> is the field of \<^verbatim>\<open>base\<close> that turns idle tracking on; times
  are integers (nanoseconds) supplied by the caller.
\<close>

record 't queuedTask =
  qt_task :: 't
  qt_key :: routingKey

record 't cleanupEntry =
  en_task :: "'t queuedTask"
  admittedCutoff :: int
  settleTarget :: int
  waitSubmitFence :: bool

text \<open>
  \<open>kq_mandatoryWake\<close> is the one-slot channel holding a token or not.  A progress channel is
  named by the number of such channels closed before it was made, so \<open>kq_progressClosed\<close>
  says which are closed.
\<close>

record 't keyQueue =
  kq_ch :: "'t queuedTask list"
  kq_capacity :: nat
  kq_chClosed :: bool
  kq_quit :: bool
  kq_mandatoryWake :: bool
  kq_mandatory :: "'t cleanupEntry list"
  kq_mandatoryProgress :: "nat option"
  kq_progressClosed :: nat
  kq_mandatoryQueued :: bool
  kq_retired :: bool
  kq_workerExited :: bool
  kq_closed :: bool
  kq_lastActive :: int
  kq_pending :: int
  kq_admitted :: int
  kq_settled :: int

definition newKeyQueue :: "nat \<Rightarrow> int \<Rightarrow> 't keyQueue" where
  "newKeyQueue capacity now =
     \<lparr>kq_ch = [], kq_capacity = capacity, kq_chClosed = False, kq_quit = False,
      kq_mandatoryWake = False, kq_mandatory = [], kq_mandatoryProgress = None,
      kq_progressClosed = 0, kq_mandatoryQueued = False, kq_retired = False,
      kq_workerExited = False, kq_closed = False, kq_lastActive = now, kq_pending = 0,
      kq_admitted = 0, kq_settled = 0\<rparr>"

section \<open>Producers\<close>

definition admitTask :: "bool \<Rightarrow> 't keyQueue \<Rightarrow> int \<times> 't keyQueue" where
  "admitTask tracksIdle q =
     (kq_admitted q + 1,
      q\<lparr>kq_admitted := kq_admitted q + 1,
        kq_pending := (if tracksIdle then kq_pending q + 1 else kq_pending q)\<rparr>)"

definition markSent :: "bool \<Rightarrow> int \<Rightarrow> 't keyQueue \<Rightarrow> 't keyQueue" where
  "markSent tracksIdle now q = (if tracksIdle then q\<lparr>kq_lastActive := now\<rparr> else q)"

text \<open>The channel send itself: \<open>None\<close> when the buffer is full.\<close>

definition sendCh :: "'t queuedTask \<Rightarrow> 't keyQueue \<Rightarrow> 't keyQueue option" where
  "sendCh qt q =
     (if length (kq_ch q) < kq_capacity q then Some (q\<lparr>kq_ch := kq_ch q @ [qt]\<rparr>) else None)"

definition raiseTarget :: "int \<Rightarrow> 't cleanupEntry \<Rightarrow> 't cleanupEntry" where
  "raiseTarget ticket en =
     (if admittedCutoff en < ticket then en\<lparr>settleTarget := settleTarget en + 1\<rparr> else en)"

text \<open>
  \<^verbatim>\<open>unmarkSent\<close> in three steps: the section under \<^verbatim>\<open>mandatoryMu\<close>, which also computes the
  local \<^verbatim>\<open>wake\<close>, the decrement of \<^verbatim>\<open>pending\<close> after the unlock, and the wake send that comes
  last and only if \<^verbatim>\<open>wake\<close> is set.
\<close>

definition unmarkSent :: "int \<Rightarrow> 't keyQueue \<Rightarrow> bool \<times> 't keyQueue" where
  "unmarkSent ticket q =
     (kq_mandatory q \<noteq> [],
      q\<lparr>kq_settled := kq_settled q + 1,
        kq_mandatory := map (raiseTarget ticket) (kq_mandatory q)\<rparr>)"

definition unmarkPending :: "bool \<Rightarrow> 't keyQueue \<Rightarrow> 't keyQueue" where
  "unmarkPending tracksIdle q = (if tracksIdle then q\<lparr>kq_pending := kq_pending q - 1\<rparr> else q)"

text \<open>
  The non-blocking send on the one-slot wake channel: it leaves a token there, whether or not
  one was there before.
\<close>

definition sendWake :: "'t keyQueue \<Rightarrow> 't keyQueue" where
  "sendWake q = q\<lparr>kq_mandatoryWake := True\<rparr>"

definition pendingCleanupForLocked :: "routingKey \<Rightarrow> 't keyQueue \<Rightarrow> 't cleanupEntry option" where
  "pendingCleanupForLocked key q = List.find (\<lambda>en. qt_key (en_task en) = key) (kq_mandatory q)"

text \<open>
  One pass of the loop of \<^verbatim>\<open>waitForMandatoryCleanup\<close>: go on, or wait for the named
  progress channel.
\<close>

datatype fenceCheck = FenceOpen | FenceWait nat

definition checkFence :: "bool \<Rightarrow> routingKey \<Rightarrow> 't keyQueue \<Rightarrow> fenceCheck" where
  "checkFence stopped key q =
     (if \<not> kq_mandatoryQueued q then FenceOpen
      else case pendingCleanupForLocked key q of
             None \<Rightarrow> FenceOpen
           | Some en \<Rightarrow>
               if waitSubmitFence en \<and> stopped then FenceOpen
               else FenceWait (the (kq_mandatoryProgress q)))"

section \<open>The mandatory backlog\<close>

text \<open>
  The section of \<^verbatim>\<open>enqueueMandatory\<close> under \<^verbatim>\<open>mandatoryMu\<close>.  The caller goes on, after the
  unlock, with \<open>markSent\<close> and then \<open>sendWake\<close>.
\<close>

definition enqueueMandatory ::
  "bool \<Rightarrow> bool \<Rightarrow> 't queuedTask \<Rightarrow> 't keyQueue \<Rightarrow> bool \<times> 't keyQueue" where
  "enqueueMandatory tracksIdle wait qt q =
     (if kq_retired q \<or> kq_workerExited q then (False, q)
      else
        let cutoff = kq_admitted q in
        (True,
          (q\<lparr>kq_pending := (if tracksIdle then kq_pending q + 1 else kq_pending q),
             kq_mandatoryProgress :=
               (case kq_mandatoryProgress q of None \<Rightarrow> Some (kq_progressClosed q) | Some g \<Rightarrow> Some g),
             kq_mandatory := kq_mandatory q @
               [\<lparr>en_task = qt, admittedCutoff = cutoff, settleTarget = cutoff, waitSubmitFence = wait\<rparr>],
             kq_mandatoryQueued := True\<rparr>)))"

definition noteMandatoryProgressLocked :: "'t keyQueue \<Rightarrow> 't keyQueue" where
  "noteMandatoryProgressLocked q =
     q\<lparr>kq_progressClosed := kq_progressClosed q + 1,
       kq_mandatoryProgress :=
         (if kq_mandatory q = [] then None else Some (kq_progressClosed q + 1))\<rparr>"

datatype 't takeResult = NotReady bool | Ready "'t queuedTask"

definition refreshFence :: "int \<Rightarrow> 't cleanupEntry \<Rightarrow> 't cleanupEntry" where
  "refreshFence admitted en =
     (if waitSubmitFence en
      then en\<lparr>waitSubmitFence := False, admittedCutoff := admitted, settleTarget := admitted\<rparr>
      else en)"

definition takeMandatoryCleanup :: "bool \<Rightarrow> 't keyQueue \<Rightarrow> 't takeResult \<times> 't keyQueue" where
  "takeMandatoryCleanup fenceClosed q =
     (if \<not> kq_mandatoryQueued q then (NotReady False, q)
      else case kq_mandatory q of
             [] \<Rightarrow> (NotReady False, q)
           | en0 # rest \<Rightarrow>
               if waitSubmitFence en0 \<and> \<not> fenceClosed then (NotReady True, q)
               else
                 let en = refreshFence (kq_admitted q) en0; q1 = q\<lparr>kq_mandatory := en # rest\<rparr> in
                 if kq_settled q1 < settleTarget en then (NotReady False, q1)
                 else (Ready (en_task en),
                   noteMandatoryProgressLocked
                     (q1\<lparr>kq_mandatory := rest, kq_mandatoryQueued := rest \<noteq> []\<rparr>)))"

definition markRetired :: "'t keyQueue \<Rightarrow> bool \<times> 't keyQueue" where
  "markRetired q = (if kq_mandatory q \<noteq> [] then (False, q) else (True, q\<lparr>kq_retired := True\<rparr>))"

definition finishWorker :: "'t keyQueue \<Rightarrow> bool \<times> 't keyQueue" where
  "finishWorker q =
     (if kq_mandatory q \<noteq> [] then (False, q) else (True, q\<lparr>kq_workerExited := True\<rparr>))"

definition settle :: "'t keyQueue \<Rightarrow> 't keyQueue" where
  "settle q = q\<lparr>kq_settled := kq_settled q + 1\<rparr>"

text \<open>
  The bookkeeping at the end of \<^verbatim>\<open>handleTask\<close> and \<^verbatim>\<open>handleBarrier\<close>: a task that ran
  refreshes the activity time, and every handled task leaves \<^verbatim>\<open>pending\<close>.
\<close>

definition handled :: "bool \<Rightarrow> int \<Rightarrow> bool \<Rightarrow> 't keyQueue \<Rightarrow> 't keyQueue" where
  "handled tracksIdle now didRun q =
     (if tracksIdle
      then q\<lparr>kq_pending := kq_pending q - 1,
             kq_lastActive := (if didRun then now else kq_lastActive q)\<rparr>
      else q)"

definition closeQueueChannel :: "'t keyQueue \<Rightarrow> 't keyQueue" where
  "closeQueueChannel q =
     (if kq_closed q then q else q\<lparr>kq_closed := True, kq_chClosed := True\<rparr>)"

text \<open>The two halves of \<^verbatim>\<open>retireIfIdle\<close> around \<^verbatim>\<open>markRetired\<close>, the gate held.\<close>

definition isIdle :: "int \<Rightarrow> 't keyQueue \<Rightarrow> bool" where
  "isIdle cutoff q \<longleftrightarrow> kq_pending q = 0 \<and> kq_ch q = [] \<and> kq_lastActive q \<le> cutoff"

definition retireQueue :: "'t keyQueue \<Rightarrow> bool \<times> 't keyQueue" where
  "retireQueue q =
     (case markRetired q of
        (False, q') \<Rightarrow> (False, q')
      | (True, q') \<Rightarrow> (True, q'\<lparr>kq_closed := True, kq_quit := True\<rparr>))"

section \<open>Stop and the submit fence\<close>

record base =
  bs_stopped :: bool
  bs_hardStopped :: bool
  bs_inFlight :: int
  bs_submitFence :: bool

definition newBase :: base where
  "newBase = \<lparr>bs_stopped = False, bs_hardStopped = False, bs_inFlight = 0, bs_submitFence = False\<rparr>"

definition beginSubmit :: "base \<Rightarrow> bool \<times> base" where
  "beginSubmit b =
     (if bs_stopped b then (False, b) else (True, b\<lparr>bs_inFlight := bs_inFlight b + 1\<rparr>))"

text \<open>\<^verbatim>\<open>endSubmit\<close> decrements atomically, then, on zero, looks at the stop signal.\<close>

definition endSubmitAdd :: "base \<Rightarrow> bool \<times> base" where
  "endSubmitAdd b = (bs_inFlight b - 1 = 0, b\<lparr>bs_inFlight := bs_inFlight b - 1\<rparr>)"

definition endSubmitCheck :: "base \<Rightarrow> base" where
  "endSubmitCheck b = (if bs_stopped b then b\<lparr>bs_submitFence := True\<rparr> else b)"

definition signalStopOnce :: "base \<Rightarrow> base" where
  "signalStopOnce b =
     (if bs_stopped b then b
      else b\<lparr>bs_stopped := True, bs_submitFence := (bs_submitFence b \<or> bs_inFlight b = 0)\<rparr>)"

definition signalHardStopOnce :: "base \<Rightarrow> base" where
  "signalHardStopOnce b = b\<lparr>bs_hardStopped := True\<rparr>"

lemmas lane_defs = admitTask_def markSent_def sendCh_def raiseTarget_def unmarkSent_def
  unmarkPending_def sendWake_def
  enqueueMandatory_def noteMandatoryProgressLocked_def refreshFence_def takeMandatoryCleanup_def
  markRetired_def finishWorker_def settle_def handled_def closeQueueChannel_def retireQueue_def

lemmas base_defs = beginSubmit_def endSubmitAdd_def endSubmitCheck_def signalStopOnce_def
  signalHardStopOnce_def

end
