(* ===== verification/Lane_Machine.thy ===== *)
theory Lane_Machine
  imports Lane
begin

text \<open>
  The interleavings of one lane: any number of producers between \<^verbatim>\<open>beginSubmit\<close> and
  \<^verbatim>\<open>endSubmit\<close>, callers of the mandatory backlog, the stop calls, idle retirement, and the
  lane's single worker.  Producers are interchangeable, so the machine keeps, per program
  point, the multiset of tasks whose producer stands there.
\<close>

section \<open>States\<close>

datatype source = FromChannel | FromBacklog

text \<open>
  The program points of \<^verbatim>\<open>worker\<close>.  The two flags are the locals \<^verbatim>\<open>channelClosed\<close> and
  \<^verbatim>\<open>laneRetired\<close>, the flag of \<open>WSelect\<close>, \<open>WFinish\<close> and \<open>WParked\<close> is
  \<^verbatim>\<open>waitSubmitFence\<close>, that of \<open>WBusy\<close> says that the task runs rather than aborts.
\<close>

datatype 't worker =
    WLoop bool bool
  | WTask source "'t queuedTask" bool bool
  | WBusy source "'t queuedTask" bool bool bool
  | WSettle bool bool
  | WSelect bool
  | WFinish bool bool bool
  | WParked bool bool bool
  | WDrain
  | WDrainSettle
  | WExited

datatype gateState = GateFree | GateHeld | GateIdle

text \<open>
  \<open>sys_accepted\<close> and \<open>sys_backlogged\<close> list what the channel and the backlog took, in order;
  \<open>sys_log\<close> lists what the worker handled (\<open>True\<close>: run, \<open>False\<close>: aborted).  \<open>sys_afters\<close>
  pairs each backlog entry with the number of tasks the channel had taken when the entry's
  ordering was fixed.

  What follows the unlock of \<^verbatim>\<open>mandatoryMu\<close> is a program point of its own.  \<open>sys_unwinding\<close>
  holds the abandoning producers that have still to decrement \<^verbatim>\<open>pending\<close>, each with its local
  \<^verbatim>\<open>wake\<close>, and \<open>sys_rousing\<close> those that have still to send the wake; \<open>sys_touching\<close> counts
  the callers of \<^verbatim>\<open>enqueueMandatory\<close> before \<^verbatim>\<open>markSent\<close>, \<open>sys_waking\<close> those before the wake
  send.
\<close>

record 't system =
  sys_q :: "'t keyQueue"
  sys_base :: base
  sys_arriving :: "'t queuedTask multiset"
  sys_entered :: "'t queuedTask multiset"
  sys_waiting :: "(nat \<times> 't queuedTask) multiset"
  sys_passed :: "'t queuedTask multiset"
  sys_inflight :: "(int \<times> 't queuedTask) multiset"
  sys_unwinding :: "bool multiset"
  sys_rousing :: nat
  sys_touching :: nat
  sys_waking :: nat
  sys_leaving :: nat
  sys_checking :: nat
  sys_gate :: gateState
  sys_worker :: "'t worker"
  sys_accepted :: "'t queuedTask list"
  sys_backlogged :: "'t queuedTask list"
  sys_afters :: "nat list"
  sys_log :: "(source \<times> 't queuedTask \<times> bool) list"
  sys_crashed :: bool

definition initial :: "nat \<Rightarrow> int \<Rightarrow> 't system" where
  "initial capacity now =
     \<lparr>sys_q = newKeyQueue capacity now, sys_base = newBase, sys_arriving = {#}, sys_entered = {#},
      sys_waiting = {#}, sys_passed = {#}, sys_inflight = {#}, sys_unwinding = {#},
      sys_rousing = 0, sys_touching = 0, sys_waking = 0, sys_leaving = 0, sys_checking = 0,
      sys_gate = GateFree, sys_worker = WLoop False False, sys_accepted = [], sys_backlogged = [],
      sys_afters = [], sys_log = [], sys_crashed = False\<rparr>"

section \<open>Producers, stop and retirement\<close>

text \<open>
  \<open>gated\<close> says that producers hold the gate (Dynamic) and \<open>tracksIdle\<close> that idle queues are
  retired.  \<open>careful\<close> restricts when the stop signal may fall: not while a producer that
  brought the in-flight count to zero has yet to look at the stop signal and another has
  registered since.  A context may be cancelled at any moment, so a waiting producer may
  always give up.
\<close>

text \<open>
  What is left to do after a section under \<^verbatim>\<open>mandatoryMu\<close>; any other step may come between
  such a step and the unlock.
\<close>

inductive late_step :: "bool \<Rightarrow> 't system \<Rightarrow> 't system \<Rightarrow> bool" for tracksIdle :: bool where
  Unpend: "sys_unwinding s = add_mset wake W \<Longrightarrow>
    late_step tracksIdle s
      (s\<lparr>sys_unwinding := W, sys_q := unmarkPending tracksIdle (sys_q s),
         sys_rousing := (if wake then sys_rousing s + 1 else sys_rousing s),
         sys_leaving := (if wake then sys_leaving s else sys_leaving s + 1)\<rparr>)"
| Rouse: "sys_rousing s = Suc n \<Longrightarrow>
    late_step tracksIdle s
      (s\<lparr>sys_rousing := n, sys_q := sendWake (sys_q s), sys_leaving := sys_leaving s + 1\<rparr>)"
| Touch: "sys_touching s = Suc n \<Longrightarrow>
    late_step tracksIdle s
      (s\<lparr>sys_touching := n, sys_q := markSent tracksIdle now (sys_q s), sys_waking := sys_waking s + 1\<rparr>)"
| WakeSend: "sys_waking s = Suc n \<Longrightarrow>
    late_step tracksIdle s (s\<lparr>sys_waking := n, sys_q := sendWake (sys_q s)\<rparr>)"

text \<open>The callers that are still to send a wake.\<close>

definition wakesDue :: "'t system \<Rightarrow> nat" where
  "wakesDue s = count (sys_unwinding s) True + sys_rousing s + sys_touching s + sys_waking s"

text \<open>No producer holds the gate of the lane.\<close>

definition outside :: "'t system \<Rightarrow> bool" where
  "outside s \<longleftrightarrow> sys_entered s = {#} \<and> sys_waiting s = {#} \<and> sys_passed s = {#} \<and> sys_inflight s = {#}
     \<and> sys_unwinding s = {#} \<and> sys_rousing s = 0"

inductive client_step :: "bool \<Rightarrow> bool \<Rightarrow> bool \<Rightarrow> 't system \<Rightarrow> 't system \<Rightarrow> bool"
  for careful gated tracksIdle :: bool where
  Begin: "beginSubmit (sys_base s) = (True, b) \<Longrightarrow>
    client_step careful gated tracksIdle s
      (s\<lparr>sys_base := b, sys_arriving := add_mset qt (sys_arriving s)\<rparr>)"
| Elsewhere: "sys_arriving s = add_mset qt M \<Longrightarrow>
    client_step careful gated tracksIdle s
      (s\<lparr>sys_arriving := M, sys_leaving := sys_leaving s + 1\<rparr>)"
| Enter: "sys_arriving s = add_mset qt M \<Longrightarrow> sys_gate s = GateFree \<Longrightarrow>
    (gated \<longrightarrow> \<not> kq_closed (sys_q s)) \<Longrightarrow>
    client_step careful gated tracksIdle s
      (s\<lparr>sys_arriving := M, sys_entered := add_mset qt (sys_entered s)\<rparr>)"
| FencePass: "sys_entered s = add_mset qt M \<Longrightarrow>
    checkFence (bs_stopped (sys_base s)) (qt_key qt) (sys_q s) = FenceOpen \<Longrightarrow>
    client_step careful gated tracksIdle s
      (s\<lparr>sys_entered := M, sys_passed := add_mset qt (sys_passed s)\<rparr>)"
| FenceBlock: "sys_entered s = add_mset qt M \<Longrightarrow>
    checkFence (bs_stopped (sys_base s)) (qt_key qt) (sys_q s) = FenceWait g \<Longrightarrow>
    client_step careful gated tracksIdle s
      (s\<lparr>sys_entered := M, sys_waiting := add_mset (g, qt) (sys_waiting s)\<rparr>)"
| Resume: "sys_waiting s = add_mset (g, qt) W \<Longrightarrow> g < kq_progressClosed (sys_q s) \<Longrightarrow>
    client_step careful gated tracksIdle s
      (s\<lparr>sys_waiting := W, sys_entered := add_mset qt (sys_entered s)\<rparr>)"
| GiveUp: "sys_waiting s = add_mset (g, qt) W \<Longrightarrow>
    client_step careful gated tracksIdle s
      (s\<lparr>sys_waiting := W, sys_leaving := sys_leaving s + 1\<rparr>)"
| Cancelled: "sys_passed s = add_mset qt M \<Longrightarrow>
    client_step careful gated tracksIdle s
      (s\<lparr>sys_passed := M, sys_leaving := sys_leaving s + 1\<rparr>)"
| Admit: "sys_passed s = add_mset qt M \<Longrightarrow> admitTask tracksIdle (sys_q s) = (ticket, q) \<Longrightarrow>
    client_step careful gated tracksIdle s
      (s\<lparr>sys_passed := M, sys_q := q, sys_inflight := add_mset (ticket, qt) (sys_inflight s)\<rparr>)"
| Send: "sys_inflight s = add_mset (ticket, qt) I \<Longrightarrow> \<not> kq_chClosed (sys_q s) \<Longrightarrow>
    sendCh qt (sys_q s) = Some q \<Longrightarrow>
    client_step careful gated tracksIdle s
      (s\<lparr>sys_inflight := I, sys_q := markSent tracksIdle now q,
         sys_accepted := sys_accepted s @ [qt], sys_leaving := sys_leaving s + 1\<rparr>)"
| SendOnClosed: "sys_inflight s = add_mset (ticket, qt) I \<Longrightarrow> kq_chClosed (sys_q s) \<Longrightarrow>
    client_step careful gated tracksIdle s (s\<lparr>sys_crashed := True\<rparr>)"
| Abandon: "sys_inflight s = add_mset (ticket, qt) I \<Longrightarrow>
    unmarkSent ticket (sys_q s) = (wake, q) \<Longrightarrow>
    client_step careful gated tracksIdle s
      (s\<lparr>sys_inflight := I, sys_q := q, sys_unwinding := add_mset wake (sys_unwinding s)\<rparr>)"
| Late: "late_step tracksIdle s s' \<Longrightarrow> client_step careful gated tracksIdle s s'"
| Leave: "sys_leaving s = Suc n \<Longrightarrow> endSubmitAdd (sys_base s) = (zero, b) \<Longrightarrow>
    client_step careful gated tracksIdle s
      (s\<lparr>sys_leaving := n, sys_base := b,
         sys_checking := (if zero then sys_checking s + 1 else sys_checking s)\<rparr>)"
| Check: "sys_checking s = Suc n \<Longrightarrow>
    client_step careful gated tracksIdle s
      (s\<lparr>sys_checking := n, sys_base := endSubmitCheck (sys_base s)\<rparr>)"
| Mandatory: "enqueueMandatory tracksIdle wait qt (sys_q s) = (True, q) \<Longrightarrow>
    client_step careful gated tracksIdle s
      (s\<lparr>sys_q := q, sys_backlogged := sys_backlogged s @ [qt],
         sys_afters := sys_afters s @ [length (sys_accepted s)], sys_touching := sys_touching s + 1\<rparr>)"
| Stop: "(careful \<longrightarrow> sys_checking s = 0 \<or> bs_inFlight (sys_base s) = 0) \<Longrightarrow>
    client_step careful gated tracksIdle s (s\<lparr>sys_base := signalStopOnce (sys_base s)\<rparr>)"
| HardStop: "client_step careful gated tracksIdle s (s\<lparr>sys_base := signalHardStopOnce (sys_base s)\<rparr>)"
| CloseChannels: "bs_submitFence (sys_base s) \<Longrightarrow> sys_gate s = GateFree \<Longrightarrow>
    (gated \<longrightarrow> outside s) \<Longrightarrow>
    client_step careful gated tracksIdle s (s\<lparr>sys_q := closeQueueChannel (sys_q s)\<rparr>)"
| TryLock: "gated \<Longrightarrow> tracksIdle \<Longrightarrow> sys_gate s = GateFree \<Longrightarrow> outside s \<Longrightarrow>
    \<not> kq_closed (sys_q s) \<Longrightarrow>
    client_step careful gated tracksIdle s (s\<lparr>sys_gate := GateHeld\<rparr>)"
| IdleConfirmed: "sys_gate s = GateHeld \<Longrightarrow> isIdle cutoff (sys_q s) \<Longrightarrow>
    client_step careful gated tracksIdle s (s\<lparr>sys_gate := GateIdle\<rparr>)"
| Unlock: "sys_gate s = GateHeld \<Longrightarrow>
    client_step careful gated tracksIdle s (s\<lparr>sys_gate := GateFree\<rparr>)"
| Retire: "sys_gate s = GateIdle \<Longrightarrow> retireQueue (sys_q s) = (done, q) \<Longrightarrow>
    client_step careful gated tracksIdle s (s\<lparr>sys_gate := GateFree, sys_q := q\<rparr>)"

section \<open>The worker\<close>

definition afterTask :: "source \<Rightarrow> bool \<Rightarrow> bool \<Rightarrow> 't worker" where
  "afterTask src cc lr = (case src of FromChannel \<Rightarrow> WSettle cc lr | FromBacklog \<Rightarrow> WLoop cc lr)"

text \<open>
  When a fenced entry at the head is refreshed, its ordering is fixed anew: the entry then
  follows all the channel has taken by that moment.
\<close>

definition refreshAfters :: "'t system \<Rightarrow> nat list" where
  "refreshAfters s =
     (case kq_mandatory (sys_q s) of
        [] \<Rightarrow> sys_afters s
      | en # _ \<Rightarrow>
          if waitSubmitFence en \<and> bs_submitFence (sys_base s)
          then length (sys_accepted s) # tl (sys_afters s) else sys_afters s)"

inductive worker_step :: "bool \<Rightarrow> 't system \<Rightarrow> 't system \<Rightarrow> bool" for tracksIdle :: bool where
  TakeReady: "sys_worker s = WLoop cc lr \<Longrightarrow>
    takeMandatoryCleanup (bs_submitFence (sys_base s)) (sys_q s) = (Ready qt, q) \<Longrightarrow>
    worker_step tracksIdle s
      (s\<lparr>sys_q := q, sys_afters := tl (refreshAfters s), sys_worker := WTask FromBacklog qt cc lr\<rparr>)"
| TakeNone: "sys_worker s = WLoop cc lr \<Longrightarrow>
    takeMandatoryCleanup (bs_submitFence (sys_base s)) (sys_q s) = (NotReady w, q) \<Longrightarrow>
    worker_step tracksIdle s
      (s\<lparr>sys_q := q, sys_afters := refreshAfters s,
         sys_worker := (if cc \<or> lr then WFinish w cc lr else WSelect w)\<rparr>)"
| Finish: "sys_worker s = WFinish w cc lr \<Longrightarrow> finishWorker (sys_q s) = (exited, q) \<Longrightarrow>
    worker_step tracksIdle s
      (s\<lparr>sys_q := q, sys_worker := (if exited then WExited else WParked w cc lr)\<rparr>)"
| Recv: "sys_worker s = WSelect w \<Longrightarrow> kq_ch (sys_q s) = qt # rest \<Longrightarrow>
    worker_step tracksIdle s
      (s\<lparr>sys_q := (sys_q s)\<lparr>kq_ch := rest\<rparr>, sys_worker := WTask FromChannel qt False False\<rparr>)"
| RecvClosed: "sys_worker s = WSelect w \<Longrightarrow> kq_ch (sys_q s) = [] \<Longrightarrow> kq_chClosed (sys_q s) \<Longrightarrow>
    worker_step tracksIdle s (s\<lparr>sys_worker := WLoop True False\<rparr>)"
| Wake: "sys_worker s = WSelect w \<Longrightarrow> kq_mandatoryWake (sys_q s) \<Longrightarrow>
    worker_step tracksIdle s
      (s\<lparr>sys_q := (sys_q s)\<lparr>kq_mandatoryWake := False\<rparr>, sys_worker := WLoop False False\<rparr>)"
| FenceClosed: "sys_worker s = WSelect True \<Longrightarrow> bs_submitFence (sys_base s) \<Longrightarrow>
    worker_step tracksIdle s (s\<lparr>sys_worker := WLoop False False\<rparr>)"
| Quit: "sys_worker s = WSelect w \<Longrightarrow> kq_quit (sys_q s) \<Longrightarrow>
    worker_step tracksIdle s (s\<lparr>sys_worker := WDrain\<rparr>)"
| ParkWake: "sys_worker s = WParked w cc lr \<Longrightarrow> kq_mandatoryWake (sys_q s) \<Longrightarrow>
    worker_step tracksIdle s
      (s\<lparr>sys_q := (sys_q s)\<lparr>kq_mandatoryWake := False\<rparr>, sys_worker := WLoop cc lr\<rparr>)"
| ParkFence: "sys_worker s = WParked True cc lr \<Longrightarrow> bs_submitFence (sys_base s) \<Longrightarrow>
    worker_step tracksIdle s (s\<lparr>sys_worker := WLoop cc lr\<rparr>)"
| Start: "sys_worker s = WTask src qt cc lr \<Longrightarrow>
    worker_step tracksIdle s
      (s\<lparr>sys_log := sys_log s @ [(src, qt, \<not> bs_hardStopped (sys_base s))],
         sys_worker := WBusy src qt (\<not> bs_hardStopped (sys_base s)) cc lr\<rparr>)"
| Complete: "sys_worker s = WBusy src qt didRun cc lr \<Longrightarrow>
    worker_step tracksIdle s
      (s\<lparr>sys_q := handled tracksIdle now didRun (sys_q s), sys_worker := afterTask src cc lr\<rparr>)"
| Settle: "sys_worker s = WSettle cc lr \<Longrightarrow>
    worker_step tracksIdle s (s\<lparr>sys_q := settle (sys_q s), sys_worker := WLoop cc lr\<rparr>)"
| DrainAbort: "sys_worker s = WDrain \<Longrightarrow> kq_ch (sys_q s) = qt # rest \<Longrightarrow>
    worker_step tracksIdle s
      (s\<lparr>sys_q := handled tracksIdle now False ((sys_q s)\<lparr>kq_ch := rest\<rparr>),
         sys_log := sys_log s @ [(FromChannel, qt, False)], sys_worker := WDrainSettle\<rparr>)"
| DrainSettled: "sys_worker s = WDrainSettle \<Longrightarrow>
    worker_step tracksIdle s (s\<lparr>sys_q := settle (sys_q s), sys_worker := WDrain\<rparr>)"
| DrainDone: "sys_worker s = WDrain \<Longrightarrow> kq_ch (sys_q s) = [] \<Longrightarrow>
    worker_step tracksIdle s (s\<lparr>sys_worker := WLoop False True\<rparr>)"

inductive reachable :: "bool \<Rightarrow> bool \<Rightarrow> bool \<Rightarrow> 't system \<Rightarrow> bool"
  for careful gated tracksIdle :: bool where
  Init: "0 < capacity \<Longrightarrow> reachable careful gated tracksIdle (initial capacity now)"
| Client: "reachable careful gated tracksIdle s \<Longrightarrow> client_step careful gated tracksIdle s s' \<Longrightarrow>
    reachable careful gated tracksIdle s'"
| Worker: "reachable careful gated tracksIdle s \<Longrightarrow> worker_step tracksIdle s s' \<Longrightarrow>
    reachable careful gated tracksIdle s'"

end
