(* ===== verification/Lane_Facts.thy ===== *)
theory Lane_Facts
  imports Lane_Machine
begin

text \<open>
  Invariants of a lane under every interleaving: the counters are exact, the channel and the
  backlog are first-in first-out and lose nothing, mandatory cleanup stays behind the work
  accepted before it and is never stranded, and no wake-up is lost.
\<close>

section \<open>Counting\<close>

fun channelBusy :: "'t worker \<Rightarrow> nat" where
  "channelBusy (WTask src qt cc lr) = (if src = FromChannel then 1 else 0)"
| "channelBusy (WBusy src qt r cc lr) = (if src = FromChannel then 1 else 0)"
| "channelBusy (WSettle cc lr) = 1"
| "channelBusy WDrainSettle = 1"
| "channelBusy _ = 0"

fun holding :: "'t worker \<Rightarrow> nat" where
  "holding (WTask src qt cc lr) = 1"
| "holding (WBusy src qt r cc lr) = 1"
| "holding _ = 0"

lemma channelBusy_afterTask [simp]:
  "channelBusy (afterTask src cc lr) = (case src of FromChannel \<Rightarrow> 1 | FromBacklog \<Rightarrow> 0)"
  "holding (afterTask src cc lr) = 0"
  by (simp_all add: afterTask_def split: source.splits)

lemma take_simps:
  assumes "takeMandatoryCleanup fence q = (r, q')"
  shows "kq_admitted q' = kq_admitted q" "kq_settled q' = kq_settled q" "kq_ch q' = kq_ch q"
    "kq_pending q' = kq_pending q" "kq_capacity q' = kq_capacity q" "kq_chClosed q' = kq_chClosed q"
    "kq_quit q' = kq_quit q" "kq_closed q' = kq_closed q" "kq_retired q' = kq_retired q"
    "kq_workerExited q' = kq_workerExited q" "kq_mandatoryWake q' = kq_mandatoryWake q"
  using assms
  by (auto simp: takeMandatoryCleanup_def noteMandatoryProgressLocked_def Let_def
      split: if_splits list.splits)

lemma finish_simps:
  assumes "finishWorker q = (r, q')"
  shows "kq_admitted q' = kq_admitted q" "kq_settled q' = kq_settled q" "kq_ch q' = kq_ch q"
    "kq_pending q' = kq_pending q" "kq_capacity q' = kq_capacity q" "kq_chClosed q' = kq_chClosed q"
    "kq_quit q' = kq_quit q" "kq_closed q' = kq_closed q" "kq_retired q' = kq_retired q"
    "kq_mandatory q' = kq_mandatory q" "kq_mandatoryWake q' = kq_mandatoryWake q"
    "kq_mandatoryQueued q' = kq_mandatoryQueued q" "kq_mandatoryProgress q' = kq_mandatoryProgress q"
    "kq_progressClosed q' = kq_progressClosed q"
  using assms by (auto simp: finishWorker_def split: if_splits)

lemma retire_simps:
  assumes "retireQueue q = (r, q')"
  shows "kq_admitted q' = kq_admitted q" "kq_settled q' = kq_settled q" "kq_ch q' = kq_ch q"
    "kq_pending q' = kq_pending q" "kq_capacity q' = kq_capacity q" "kq_chClosed q' = kq_chClosed q"
    "kq_mandatory q' = kq_mandatory q" "kq_mandatoryWake q' = kq_mandatoryWake q"
    "kq_mandatoryQueued q' = kq_mandatoryQueued q" "kq_mandatoryProgress q' = kq_mandatoryProgress q"
    "kq_progressClosed q' = kq_progressClosed q" "kq_workerExited q' = kq_workerExited q"
  using assms by (auto simp: retireQueue_def markRetired_def split: if_splits)

definition countInv :: "'t system \<Rightarrow> bool" where
  "countInv s \<longleftrightarrow>
     kq_admitted (sys_q s) = kq_settled (sys_q s) + int (size (sys_inflight s))
       + int (length (kq_ch (sys_q s))) + int (channelBusy (sys_worker s))"

definition ticketInv :: "'t system \<Rightarrow> bool" where
  "ticketInv s \<longleftrightarrow> (\<forall>tk \<in># sys_inflight s. fst tk \<le> kq_admitted (sys_q s))"

lemmas client_op_defs = admitTask_def sendCh_def markSent_def unmarkSent_def enqueueMandatory_def
  unmarkPending_def sendWake_def closeQueueChannel_def retireQueue_def markRetired_def

lemmas worker_op_defs = takeMandatoryCleanup_def noteMandatoryProgressLocked_def refreshAfters_def
  handled_def settle_def finishWorker_def

text \<open>What the steps after an unlock leave alone.\<close>

lemma late_same:
  assumes "late_step ti s s'"
  shows "kq_admitted (sys_q s') = kq_admitted (sys_q s)" "kq_settled (sys_q s') = kq_settled (sys_q s)"
    "kq_ch (sys_q s') = kq_ch (sys_q s)" "kq_chClosed (sys_q s') = kq_chClosed (sys_q s)"
    "kq_quit (sys_q s') = kq_quit (sys_q s)" "kq_closed (sys_q s') = kq_closed (sys_q s)"
    "kq_retired (sys_q s') = kq_retired (sys_q s)" "kq_workerExited (sys_q s') = kq_workerExited (sys_q s)"
    "kq_mandatory (sys_q s') = kq_mandatory (sys_q s)"
    "kq_mandatoryQueued (sys_q s') = kq_mandatoryQueued (sys_q s)"
    "kq_mandatoryProgress (sys_q s') = kq_mandatoryProgress (sys_q s)"
    "kq_progressClosed (sys_q s') = kq_progressClosed (sys_q s)"
    "sys_base s' = sys_base s" "sys_entered s' = sys_entered s" "sys_waiting s' = sys_waiting s"
    "sys_passed s' = sys_passed s" "sys_inflight s' = sys_inflight s" "sys_arriving s' = sys_arriving s"
    "sys_gate s' = sys_gate s" "sys_worker s' = sys_worker s" "sys_accepted s' = sys_accepted s"
    "sys_backlogged s' = sys_backlogged s" "sys_afters s' = sys_afters s" "sys_log s' = sys_log s"
    "sys_checking s' = sys_checking s" "sys_crashed s' = sys_crashed s"
  using assms by (cases; simp add: unmarkPending_def sendWake_def markSent_def)+

lemma client_count: "client_step careful gated ti s s' \<Longrightarrow> countInv s \<Longrightarrow> countInv s'"
  by (induction rule: client_step.induct)
    (auto simp: countInv_def client_op_defs Let_def late_same split: if_splits)

lemma worker_count: "worker_step ti s s' \<Longrightarrow> countInv s \<Longrightarrow> countInv s'"
  by (induction rule: worker_step.induct)
    (auto simp: countInv_def worker_op_defs Let_def split: source.splits if_splits list.splits)

lemma client_ticket: "client_step careful gated ti s s' \<Longrightarrow> ticketInv s \<Longrightarrow> ticketInv s'"
  by (induction rule: client_step.induct)
    (auto simp: ticketInv_def client_op_defs Let_def late_same split: if_splits)

lemma worker_ticket: "worker_step ti s s' \<Longrightarrow> ticketInv s \<Longrightarrow> ticketInv s'"
  by (induction rule: worker_step.induct)
    (auto simp: ticketInv_def worker_op_defs Let_def split: if_splits list.splits)

section \<open>First in, first out\<close>

fun current :: "source \<Rightarrow> 't worker \<Rightarrow> 't queuedTask list" where
  "current src (WTask src' qt cc lr) = (if src = src' then [qt] else [])"
| "current src _ = []"

definition loggedFrom :: "source \<Rightarrow> (source \<times> 't queuedTask \<times> bool) list \<Rightarrow> 't queuedTask list" where
  "loggedFrom src log = map (\<lambda>(_, qt, _). qt) (filter (\<lambda>(s, _). s = src) log)"

lemma loggedFrom_simps [simp]:
  "loggedFrom src [] = []"
  "loggedFrom src (log @ [(s, qt, r)]) = loggedFrom src log @ (if s = src then [qt] else [])"
  by (simp_all add: loggedFrom_def)

lemma current_afterTask [simp]: "current src (afterTask src' cc lr) = []"
  by (simp add: afterTask_def split: source.splits)

definition fifoInv :: "'t system \<Rightarrow> bool" where
  "fifoInv s \<longleftrightarrow> sys_accepted s =
     loggedFrom FromChannel (sys_log s) @ current FromChannel (sys_worker s) @ kq_ch (sys_q s)"

definition backlogInv :: "'t system \<Rightarrow> bool" where
  "backlogInv s \<longleftrightarrow> sys_backlogged s =
     loggedFrom FromBacklog (sys_log s) @ current FromBacklog (sys_worker s)
       @ map en_task (kq_mandatory (sys_q s))"

definition flagInv :: "'t system \<Rightarrow> bool" where
  "flagInv s \<longleftrightarrow> kq_mandatoryQueued (sys_q s) = (kq_mandatory (sys_q s) \<noteq> [])
     \<and> kq_mandatoryProgress (sys_q s) =
         (if kq_mandatory (sys_q s) = [] then None else Some (kq_progressClosed (sys_q s)))"

lemma client_fifo: "client_step careful gated ti s s' \<Longrightarrow> fifoInv s \<Longrightarrow> fifoInv s'"
  by (induction rule: client_step.induct)
    (auto simp: fifoInv_def client_op_defs Let_def late_same split: if_splits)

lemma worker_fifo: "worker_step ti s s' \<Longrightarrow> fifoInv s \<Longrightarrow> fifoInv s'"
  by (induction rule: worker_step.induct)
    (auto simp: fifoInv_def worker_op_defs Let_def split: if_splits list.splits)

lemma raiseTarget_task [simp]: "en_task (raiseTarget t en) = en_task en"
  by (simp add: raiseTarget_def)

lemma refreshFence_task [simp]: "en_task (refreshFence a en) = en_task en"
  by (simp add: refreshFence_def)

lemma client_backlog: "client_step careful gated ti s s' \<Longrightarrow> backlogInv s \<Longrightarrow> backlogInv s'"
  by (induction rule: client_step.induct)
    (auto simp: backlogInv_def client_op_defs Let_def late_same comp_def split: if_splits)

lemma worker_backlog: "worker_step ti s s' \<Longrightarrow> backlogInv s \<Longrightarrow> backlogInv s'"
  by (induction rule: worker_step.induct)
    (auto simp: backlogInv_def worker_op_defs Let_def split: if_splits list.splits)

lemma client_flag: "client_step careful gated ti s s' \<Longrightarrow> flagInv s \<Longrightarrow> flagInv s'"
  by (induction rule: client_step.induct)
    (auto simp: flagInv_def client_op_defs Let_def late_same split: if_splits option.splits)

lemma worker_flag: "worker_step ti s s' \<Longrightarrow> flagInv s \<Longrightarrow> flagInv s'"
  by (induction rule: worker_step.induct)
    (auto simp: flagInv_def worker_op_defs Let_def split: if_splits list.splits)

section \<open>The order of mandatory cleanup\<close>

definition behind :: "int \<Rightarrow> (int \<times> 't queuedTask) multiset \<Rightarrow> nat" where
  "behind c I = size (filter_mset (\<lambda>tk. fst tk \<le> c) I)"

definition beyond :: "int \<Rightarrow> (int \<times> 't queuedTask) multiset \<Rightarrow> nat" where
  "beyond c I = size (filter_mset (\<lambda>tk. c < fst tk) I)"

lemma behind_simps [simp]:
  "behind c (add_mset tk I) = (if fst tk \<le> c then Suc (behind c I) else behind c I)"
  "beyond c (add_mset tk I) = (if fst tk \<le> c then beyond c I else Suc (beyond c I))"
  by (simp_all add: behind_def beyond_def)

text \<open>
  An entry with \<open>n\<close> channel tasks accepted before it, while some of these are not settled,
  still lacks at least as many settlements as there are such tasks and older producers in
  flight; and settling everything admitted is enough to release it.
\<close>

definition ordered ::
  "int \<Rightarrow> int \<Rightarrow> (int \<times> 't queuedTask) multiset \<Rightarrow> nat \<Rightarrow> int \<Rightarrow> 't cleanupEntry \<Rightarrow> nat \<Rightarrow> bool" where
  "ordered adm stl I acc dn en n \<longleftrightarrow>
     settleTarget en + int (beyond (admittedCutoff en) I) \<le> adm
   \<and> admittedCutoff en \<le> adm \<and> n \<le> acc
   \<and> (dn < int n \<longrightarrow> int n - dn + int (behind (admittedCutoff en) I) \<le> settleTarget en - stl)"

definition doneCount :: "'t system \<Rightarrow> int" where
  "doneCount s = int (length (sys_accepted s)) - int (length (kq_ch (sys_q s)))
     - int (channelBusy (sys_worker s))"

definition orderInv :: "'t system \<Rightarrow> bool" where
  "orderInv s \<longleftrightarrow> list_all2
     (ordered (kq_admitted (sys_q s)) (kq_settled (sys_q s)) (sys_inflight s)
        (length (sys_accepted s)) (doneCount s))
     (kq_mandatory (sys_q s)) (sys_afters s)"

lemma ordered_admit:
  "ordered adm stl I acc dn en n \<Longrightarrow> ordered (adm + 1) stl (add_mset (adm + 1, qt) I) acc dn en n"
  by (auto simp: ordered_def)

lemma ordered_send:
  "ordered adm stl (add_mset tk I) acc dn en n \<Longrightarrow> ordered adm stl I (Suc acc) dn en n"
  by (auto simp: ordered_def split: if_splits)

lemma ordered_abandon:
  "ordered adm stl (add_mset (t, qt) I) acc dn en n \<Longrightarrow>
     ordered adm (stl + 1) I acc dn (raiseTarget t en) n"
  by (auto simp: ordered_def raiseTarget_def split: if_splits)

lemma ordered_settle:
  "ordered adm stl I acc dn en n \<Longrightarrow> ordered adm (stl + 1) I acc (dn + 1) en n"
  by (auto simp: ordered_def)

text \<open>A fresh entry, and a head entry that is refreshed, follow all that was accepted.\<close>

lemma ordered_fresh:
  assumes "countInv s" "ticketInv s"
    and "settleTarget en = kq_admitted (sys_q s)" "admittedCutoff en = kq_admitted (sys_q s)"
  shows "ordered (kq_admitted (sys_q s)) (kq_settled (sys_q s)) (sys_inflight s)
    (length (sys_accepted s)) (doneCount s) en (length (sys_accepted s))"
proof -
  have "filter_mset (\<lambda>tk. kq_admitted (sys_q s) < fst tk) (sys_inflight s) = {#}"
    "filter_mset (\<lambda>tk. fst tk \<le> kq_admitted (sys_q s)) (sys_inflight s) = sys_inflight s"
    using assms(2) by (auto simp: ticketInv_def filter_mset_eq_conv)
  with assms(1,3,4) show ?thesis
    by (simp add: ordered_def behind_def beyond_def countInv_def doneCount_def)
qed

lemma list_all2_upd:
  "list_all2 P xs ys \<Longrightarrow> (\<And>x y. P x y \<Longrightarrow> Q (f x) y) \<Longrightarrow> list_all2 Q (map f xs) ys"
  by (auto simp: list_all2_map1 elim: list_all2_mono)

lemma client_order:
  assumes "client_step careful gated ti s s'" "orderInv s" "countInv s" "ticketInv s"
  shows "orderInv s'"
  using assms
proof (induction rule: client_step.induct)
  case (Admit s qt M ticket q)
  then show ?case
    by (auto simp: orderInv_def doneCount_def admitTask_def elim!: list_all2_mono intro: ordered_admit)
next
  case (Send s ticket qt I q now)
  then have "doneCount (s\<lparr>sys_inflight := I, sys_q := markSent ti now q,
      sys_accepted := sys_accepted s @ [qt], sys_leaving := sys_leaving s + 1\<rparr>) = doneCount s"
    by (auto simp: doneCount_def sendCh_def markSent_def split: if_splits)
  with Send show ?case
    by (auto simp: orderInv_def sendCh_def markSent_def split: if_splits
        elim!: list_all2_mono intro: ordered_send)
next
  case (Abandon s ticket qt I wake q)
  then show ?case
    by (auto simp: orderInv_def doneCount_def unmarkSent_def elim!: list_all2_upd intro: ordered_abandon)
next
  case (Mandatory wait qt s q)
  have "ordered (kq_admitted (sys_q s)) (kq_settled (sys_q s)) (sys_inflight s)
      (length (sys_accepted s)) (doneCount s)
      \<lparr>en_task = qt, admittedCutoff = kq_admitted (sys_q s), settleTarget = kq_admitted (sys_q s),
        waitSubmitFence = wait\<rparr> (length (sys_accepted s))"
    using Mandatory by (intro ordered_fresh) auto
  with Mandatory show ?case
    by (auto simp: orderInv_def doneCount_def enqueueMandatory_def markSent_def Let_def
        split: if_splits intro!: list_all2_appendI)
qed (auto simp: orderInv_def doneCount_def client_op_defs late_same split: if_splits)

text \<open>What the backlog looks like once a fenced head has been refreshed.\<close>

definition refreshed :: "bool \<Rightarrow> 't keyQueue \<Rightarrow> 't cleanupEntry list" where
  "refreshed fence q =
     (case kq_mandatory q of
        [] \<Rightarrow> []
      | en # rest \<Rightarrow> (if waitSubmitFence en \<and> \<not> fence then en else refreshFence (kq_admitted q) en) # rest)"

lemma refreshed_order:
  assumes "orderInv s" "countInv s" "ticketInv s"
  shows "list_all2
     (ordered (kq_admitted (sys_q s)) (kq_settled (sys_q s)) (sys_inflight s)
        (length (sys_accepted s)) (doneCount s))
     (refreshed (bs_submitFence (sys_base s)) (sys_q s)) (refreshAfters s)"
proof (cases "kq_mandatory (sys_q s)")
  case Nil
  with assms(1) show ?thesis by (simp add: orderInv_def refreshed_def refreshAfters_def)
next
  case (Cons en rest)
  with assms(1) obtain n ns where ns: "sys_afters s = n # ns"
    by (auto simp: orderInv_def list_all2_Cons1)
  show ?thesis
  proof (cases "waitSubmitFence en \<and> bs_submitFence (sys_base s)")
    case True
    have "ordered (kq_admitted (sys_q s)) (kq_settled (sys_q s)) (sys_inflight s)
      (length (sys_accepted s)) (doneCount s) (refreshFence (kq_admitted (sys_q s)) en)
      (length (sys_accepted s))"
      using assms True by (intro ordered_fresh) (auto simp: refreshFence_def)
    with True Cons ns assms(1) show ?thesis
      by (simp add: orderInv_def refreshed_def refreshAfters_def)
  next
    case False
    with Cons ns assms(1) show ?thesis
      by (auto simp: orderInv_def refreshed_def refreshAfters_def refreshFence_def)
  qed
qed

lemma take_mandatory:
  assumes "flagInv s" "takeMandatoryCleanup fence (sys_q s) = (r, q)"
  shows "r = NotReady w \<Longrightarrow> kq_mandatory q = refreshed fence (sys_q s)"
    "r = Ready qt \<Longrightarrow> \<exists>en. refreshed fence (sys_q s) = en # kq_mandatory q \<and> en_task en = qt
        \<and> settleTarget en \<le> kq_settled (sys_q s) \<and> (waitSubmitFence en \<longrightarrow> fence)"
  using assms
  by (auto simp: flagInv_def takeMandatoryCleanup_def refreshed_def noteMandatoryProgressLocked_def Let_def
      split: list.splits if_splits) (auto simp: refreshFence_def split: if_splits)

lemma worker_order:
  assumes "worker_step ti s s'" "orderInv s" "countInv s" "ticketInv s" "flagInv s"
  shows "orderInv s'"
  using assms
proof (induction rule: worker_step.induct)
  case (TakeReady s cc lr qt q)
  note same = take_simps [OF TakeReady(2)]
  obtain en where "refreshed (bs_submitFence (sys_base s)) (sys_q s) = en # kq_mandatory q"
    using take_mandatory(2) [OF TakeReady(6,2)] by blast
  with refreshed_order [OF TakeReady(3-5)] TakeReady(1) same show ?case
    by (auto simp: orderInv_def doneCount_def list_all2_Cons1)
next
  case (TakeNone s cc lr w q)
  note same = take_simps [OF TakeNone(2)]
  have "kq_mandatory q = refreshed (bs_submitFence (sys_base s)) (sys_q s)"
    using take_mandatory(1) [OF TakeNone(6,2)] by blast
  with refreshed_order [OF TakeNone(3-5)] TakeNone(1) same show ?case
    by (simp add: orderInv_def doneCount_def)
next
  case (Finish s w cc lr exited q)
  with finish_simps [OF Finish(2)] show ?case
    by (simp add: orderInv_def doneCount_def)
next
  case (Complete s src qt didRun cc lr now)
  then show ?case
    by (cases src) (simp_all add: orderInv_def doneCount_def handled_def)
next
  case (Settle s cc lr)
  then show ?case
    by (auto simp: orderInv_def doneCount_def settle_def elim!: list_all2_mono dest: ordered_settle)
next
  case (DrainSettled s)
  then show ?case
    by (auto simp: orderInv_def doneCount_def settle_def elim!: list_all2_mono dest: ordered_settle)
next
  case (DrainAbort s qt rest now)
  then show ?case by (simp add: orderInv_def doneCount_def handled_def algebra_simps)
qed (simp_all add: orderInv_def doneCount_def algebra_simps)

section \<open>Reachable states\<close>

definition laneInv :: "'t system \<Rightarrow> bool" where
  "laneInv s \<longleftrightarrow> countInv s \<and> ticketInv s \<and> fifoInv s \<and> backlogInv s \<and> flagInv s \<and> orderInv s"

lemma reachable_inv: "reachable careful gated ti s \<Longrightarrow> laneInv s"
proof (induction rule: reachable.induct)
  case (Init capacity now)
  then show ?case
    by (simp add: laneInv_def initial_def newKeyQueue_def countInv_def ticketInv_def fifoInv_def
        backlogInv_def flagInv_def orderInv_def)
next
  case (Client s s')
  then show ?case unfolding laneInv_def
    by (metis client_count client_ticket client_fifo client_backlog client_flag client_order)
next
  case (Worker s s')
  then show ?case unfolding laneInv_def
    by (metis worker_count worker_ticket worker_fifo worker_backlog worker_flag worker_order)
qed

end
