(* ===== verification/Lane_Safety.thy ===== *)
theory Lane_Safety
  imports Lane_Facts
begin

text \<open>
  What a lane guarantees: order and exactly-once handling, the place of mandatory cleanup,
  the submit fence, retirement, wake-ups, and the exit of the worker.
\<close>

section \<open>Closing, retirement and exit\<close>

text \<open>While the gate is write-held, and on a retired lane, no producer is inside.\<close>

definition gateInv :: "bool \<Rightarrow> 't system \<Rightarrow> bool" where
  "gateInv gated s \<longleftrightarrow>
     (sys_gate s \<noteq> GateFree \<longrightarrow> gated \<and> outside s \<and> \<not> kq_closed (sys_q s))
   \<and> (kq_quit (sys_q s) \<longrightarrow> gated \<and> outside s)
   \<and> (kq_quit (sys_q s) \<or> kq_chClosed (sys_q s) \<longrightarrow> kq_closed (sys_q s))
   \<and> (gated \<and> kq_closed (sys_q s) \<longrightarrow> outside s)
   \<and> (kq_quit (sys_q s) = kq_retired (sys_q s))"

lemma late_outside: "late_step ti s s' \<Longrightarrow> outside s \<Longrightarrow> outside s'"
  by (cases rule: late_step.cases) (auto simp: outside_def)

lemma client_gate: "client_step careful gated ti s s' \<Longrightarrow> gateInv gated s \<Longrightarrow> gateInv gated s'"
proof (induction rule: client_step.induct)
  case (Late s s')
  then show ?case using late_outside [OF Late(1)] late_same [OF Late(1)]
    by (simp add: gateInv_def)
qed (auto simp: gateInv_def outside_def client_op_defs Let_def split: if_splits)

lemma worker_gate: "worker_step ti s s' \<Longrightarrow> gateInv gated s \<Longrightarrow> gateInv gated s'"
  by (induction rule: worker_step.induct)
    (auto simp: gateInv_def outside_def worker_op_defs Let_def split: if_splits list.splits)

text \<open>What the two flags of the worker stand for, and what has ended when it exits.\<close>

fun workerFlags :: "'t worker \<Rightarrow> bool \<times> bool" where
  "workerFlags (WLoop cc lr) = (cc, lr)"
| "workerFlags (WTask src qt cc lr) = (cc, lr)"
| "workerFlags (WBusy src qt r cc lr) = (cc, lr)"
| "workerFlags (WSettle cc lr) = (cc, lr)"
| "workerFlags (WFinish w cc lr) = (cc, lr)"
| "workerFlags (WParked w cc lr) = (cc, lr)"
| "workerFlags _ = (False, False)"

lemma workerFlags_afterTask [simp]: "workerFlags (afterTask src cc lr) = (cc, lr)"
  by (simp add: afterTask_def split: source.splits)

definition ended :: "'t keyQueue \<Rightarrow> bool" where
  "ended q \<longleftrightarrow> kq_ch q = [] \<and> (kq_chClosed q \<or> kq_quit q)"

definition exitInv :: "'t system \<Rightarrow> bool" where
  "exitInv s \<longleftrightarrow>
     (fst (workerFlags (sys_worker s)) \<or> snd (workerFlags (sys_worker s)) \<longrightarrow> ended (sys_q s))
   \<and> (sys_worker s = WDrain \<or> sys_worker s = WDrainSettle \<longrightarrow> kq_quit (sys_q s))
   \<and> (sys_worker s = WExited \<longrightarrow> ended (sys_q s) \<and> kq_mandatory (sys_q s) = [] \<and> kq_workerExited (sys_q s))
   \<and> (\<forall>w cc lr. sys_worker s = WFinish w cc lr \<or> sys_worker s = WParked w cc lr \<longrightarrow> cc \<or> lr)
   \<and> (\<forall>w cc lr. sys_worker s = WParked w cc lr \<longrightarrow> kq_mandatory (sys_q s) \<noteq> [])"

lemma client_exit: "client_step careful gated ti s s' \<Longrightarrow> gateInv gated s \<Longrightarrow> exitInv s \<Longrightarrow> exitInv s'"
proof (induction rule: client_step.induct)
  case (Late s s')
  then show ?case using late_same [OF Late(1)] by (simp add: exitInv_def ended_def)
qed (auto simp: exitInv_def ended_def gateInv_def outside_def client_op_defs Let_def split: if_splits)

lemma worker_exit: "worker_step ti s s' \<Longrightarrow> flagInv s \<Longrightarrow> exitInv s \<Longrightarrow> exitInv s'"
proof (induction rule: worker_step.induct)
  case (Complete s src qt didRun cc lr now)
  then show ?case by (cases src) (auto simp: exitInv_def ended_def handled_def afterTask_def)
next
  case (TakeReady s cc lr qt q)
  with take_simps [OF TakeReady(2)] show ?case by (auto simp: exitInv_def ended_def)
next
  case (TakeNone s cc lr w q)
  with take_simps [OF TakeNone(2)] show ?case by (auto simp: exitInv_def ended_def)
next
  case (Finish s w cc lr exited q)
  then show ?case by (auto simp: exitInv_def ended_def finishWorker_def split: if_splits)
qed (auto simp: exitInv_def ended_def handled_def settle_def)

section \<open>Pending work and retirement\<close>

definition pendingInv :: "bool \<Rightarrow> 't system \<Rightarrow> bool" where
  "pendingInv ti s \<longleftrightarrow> (ti \<longrightarrow>
     kq_pending (sys_q s) = int (size (sys_inflight s)) + int (length (kq_ch (sys_q s)))
       + int (size (sys_unwinding s)) + int (length (kq_mandatory (sys_q s)))
       + int (holding (sys_worker s)))"

lemma client_pending: "client_step careful gated ti s s' \<Longrightarrow> pendingInv ti s \<Longrightarrow> pendingInv ti s'"
  by (induction rule: client_step.induct)
    (auto simp: pendingInv_def client_op_defs Let_def split: if_splits elim!: late_step.cases)

lemma worker_pending: "worker_step ti s s' \<Longrightarrow> pendingInv ti s \<Longrightarrow> pendingInv ti s'"
  by (induction rule: worker_step.induct)
    (auto simp: pendingInv_def worker_op_defs Let_def split: if_splits list.splits)

text \<open>Between the idle check and the seal only the backlog can gain work.\<close>

definition idleInv :: "bool \<Rightarrow> 't system \<Rightarrow> bool" where
  "idleInv ti s \<longleftrightarrow> (sys_gate s \<noteq> GateFree \<longrightarrow> ti)
   \<and> (sys_gate s = GateIdle \<longrightarrow> kq_ch (sys_q s) = []
        \<and> (\<forall>qt cc lr. sys_worker s \<noteq> WTask FromChannel qt cc lr)
        \<and> (\<forall>qt r cc lr. sys_worker s \<noteq> WBusy FromChannel qt r cc lr))"

lemma client_idle:
  "client_step careful gated ti s s' \<Longrightarrow> gateInv gated s \<Longrightarrow> pendingInv ti s \<Longrightarrow> idleInv ti s \<Longrightarrow> idleInv ti s'"
proof (induction rule: client_step.induct)
  case (Late s s')
  then show ?case using late_same [OF Late(1)] by (simp add: idleInv_def)
qed (auto simp: idleInv_def isIdle_def pendingInv_def gateInv_def outside_def client_op_defs Let_def
      split: if_splits)

lemma worker_idle: "worker_step ti s s' \<Longrightarrow> idleInv ti s \<Longrightarrow> idleInv ti s'"
  by (induction rule: worker_step.induct)
    (auto simp: idleInv_def worker_op_defs afterTask_def Let_def split: if_splits list.splits source.splits)

section \<open>Wake-ups\<close>

text \<open>
  A worker that found nothing to do either has a wake-up token waiting, or has a caller that
  is still to send one, or waits for the submit fence behind a fenced entry, or has a backlog whose head is not released yet.
\<close>

definition quiet :: "'t system \<Rightarrow> bool \<Rightarrow> bool" where
  "quiet s w \<longleftrightarrow> kq_mandatoryWake (sys_q s) \<or> wakesDue s \<noteq> 0 \<or>
     (case kq_mandatory (sys_q s) of
        [] \<Rightarrow> \<not> w
      | en # _ \<Rightarrow> if w then waitSubmitFence en
                 else \<not> waitSubmitFence en \<and> kq_settled (sys_q s) < settleTarget en)"

definition wakeInv :: "'t system \<Rightarrow> bool" where
  "wakeInv s \<longleftrightarrow> (\<forall>w. sys_worker s = WSelect w \<longrightarrow> quiet s w)
     \<and> (\<forall>w cc lr. sys_worker s = WFinish w cc lr \<or> sys_worker s = WParked w cc lr \<longrightarrow> quiet s w)"

text \<open>A producer waiting at the fence waits for a channel that will be closed.\<close>

definition fencedInv :: "'t system \<Rightarrow> bool" where
  "fencedInv s \<longleftrightarrow> (\<forall>x \<in># sys_waiting s. fst x < kq_progressClosed (sys_q s)
     \<or> fst x = kq_progressClosed (sys_q s) \<and> pendingCleanupForLocked (qt_key (snd x)) (sys_q s) \<noteq> None)"

lemma client_wake: "client_step careful gated ti s s' \<Longrightarrow> wakeInv s \<Longrightarrow> wakeInv s'"
  by (induction rule: client_step.induct)
    (auto simp: wakeInv_def quiet_def wakesDue_def client_op_defs Let_def split: if_splits list.splits
      elim!: late_step.cases)

lemma take_quiet:
  assumes "takeMandatoryCleanup fence q = (NotReady w, q')" "flagInv s" "sys_q s = q"
  shows "case kq_mandatory q' of
        [] \<Rightarrow> \<not> w
      | en # _ \<Rightarrow> if w then waitSubmitFence en
                 else \<not> waitSubmitFence en \<and> kq_settled q' < settleTarget en"
  using assms
  by (auto simp: takeMandatoryCleanup_def flagInv_def refreshFence_def Let_def split: if_splits list.splits)

lemma worker_wake: "worker_step ti s s' \<Longrightarrow> flagInv s \<Longrightarrow> wakeInv s \<Longrightarrow> wakeInv s'"
proof (induction rule: worker_step.induct)
  case (TakeNone s cc lr w q)
  from take_quiet [OF TakeNone(2,3) refl] show ?case
    by (auto simp: wakeInv_def quiet_def wakesDue_def split: list.splits)
next
  case (Complete s src qt didRun cc lr now)
  then show ?case by (cases src) (auto simp: wakeInv_def afterTask_def)
next
  case (Finish s w cc lr exited q)
  then show ?case by (auto simp: wakeInv_def quiet_def wakesDue_def finishWorker_def split: if_splits list.splits)
qed (auto simp: wakeInv_def)

lemma find_append [simp]:
  "List.find P (xs @ ys) = (case List.find P xs of None \<Rightarrow> List.find P ys | Some x \<Rightarrow> Some x)"
  by (induction xs) auto

lemma find_map_task:
  "(List.find (\<lambda>en. qt_key (en_task en) = key) (map (raiseTarget t) es) = None) =
   (List.find (\<lambda>en. qt_key (en_task en) = key) es = None)"
  by (induction es) auto

lemma client_fenced: "client_step careful gated ti s s' \<Longrightarrow> flagInv s \<Longrightarrow> fencedInv s \<Longrightarrow> fencedInv s'"
proof (induction rule: client_step.induct)
  case (FenceBlock s qt M g)
  then show ?case
    by (auto simp: fencedInv_def checkFence_def flagInv_def pendingCleanupForLocked_def
        split: if_splits option.splits)
next
  case (Abandon s ticket qt I wake q)
  have "(pendingCleanupForLocked key q = None) = (pendingCleanupForLocked key (sys_q s) = None)" for key
    using Abandon(2) find_map_task [of key ticket "kq_mandatory (sys_q s)"]
    unfolding unmarkSent_def pendingCleanupForLocked_def by clarsimp
  with Abandon show ?case by (auto simp: fencedInv_def unmarkSent_def)
next
  case (Mandatory wait qt s q)
  then show ?case
    by (fastforce simp: fencedInv_def enqueueMandatory_def markSent_def pendingCleanupForLocked_def Let_def
        split: if_splits option.splits)
qed (auto simp: fencedInv_def pendingCleanupForLocked_def client_op_defs late_same split: if_splits)

lemma worker_fenced: "worker_step ti s s' \<Longrightarrow> flagInv s \<Longrightarrow> fencedInv s \<Longrightarrow> fencedInv s'"
proof (induction rule: worker_step.induct)
  case (TakeReady s cc lr qt q)
  then have "kq_progressClosed q = Suc (kq_progressClosed (sys_q s))"
    by (auto simp: takeMandatoryCleanup_def noteMandatoryProgressLocked_def Let_def split: if_splits list.splits)
  with TakeReady show ?case by (auto simp: fencedInv_def)
next
  case (TakeNone s cc lr w q)
  then have "kq_progressClosed q = kq_progressClosed (sys_q s)"
    "\<And>key. pendingCleanupForLocked key q = None \<longleftrightarrow> pendingCleanupForLocked key (sys_q s) = None"
    by (auto simp: takeMandatoryCleanup_def pendingCleanupForLocked_def Let_def split: if_splits list.splits)
  with TakeNone show ?case by (auto simp: fencedInv_def)
next
  case (Finish s w cc lr exited q)
  then show ?case
    by (auto simp: fencedInv_def finishWorker_def pendingCleanupForLocked_def split: if_splits)
qed (auto simp: fencedInv_def pendingCleanupForLocked_def handled_def settle_def)

section \<open>The submit fence\<close>

definition producers :: "'t system \<Rightarrow> nat" where
  "producers s = size (sys_arriving s) + size (sys_entered s) + size (sys_waiting s)
     + size (sys_passed s) + size (sys_inflight s) + size (sys_unwinding s) + sys_rousing s
     + sys_leaving s"

text \<open>A client step moves a producer or acts on the stop state in one of five ways.\<close>

lemma client_producers:
  assumes "client_step careful gated ti s s'"
  obtains
    (Same) "sys_base s' = sys_base s" "producers s' = producers s" "sys_checking s' = sys_checking s"
  | (Begin) "beginSubmit (sys_base s) = (True, sys_base s')" "producers s' = Suc (producers s)"
      "sys_checking s' = sys_checking s"
  | (Leave) zero where "endSubmitAdd (sys_base s) = (zero, sys_base s')" "producers s = Suc (producers s')"
      "sys_checking s' = (if zero then sys_checking s + 1 else sys_checking s)"
  | (Check) "sys_base s' = endSubmitCheck (sys_base s)" "producers s' = producers s"
      "sys_checking s = Suc (sys_checking s')"
  | (Stop) "careful \<longrightarrow> sys_checking s = 0 \<or> bs_inFlight (sys_base s) = 0"
      "sys_base s' = signalStopOnce (sys_base s)" "producers s' = producers s"
      "sys_checking s' = sys_checking s"
  | (Hard) "sys_base s' = signalHardStopOnce (sys_base s)" "producers s' = producers s"
      "sys_checking s' = sys_checking s"
  using assms
proof (cases rule: client_step.cases)
  case (Begin b qt)
  then show thesis by (intro that(2)) (simp_all add: producers_def)
next
  case (Leave n zero b)
  then show thesis by (intro that(3)) (simp_all add: producers_def)
next
  case (Check n)
  then show thesis by (intro that(4)) (simp_all add: producers_def)
next
  case Stop
  then show thesis by (intro that(5)) (simp_all add: producers_def)
next
  case HardStop
  then show thesis by (intro that(6)) (simp_all add: producers_def)
next
  case Late
  then show thesis
    by (intro that(1)) (auto simp: late_same producers_def elim!: late_step.cases)
qed ((rule that(1), simp_all add: producers_def)[1])+

lemma worker_producers:
  assumes "worker_step ti s s'"
  shows "sys_base s' = sys_base s \<and> producers s' = producers s \<and> sys_checking s' = sys_checking s
    \<and> sys_crashed s' = sys_crashed s \<and> kq_chClosed (sys_q s') = kq_chClosed (sys_q s)"
  using assms
proof (cases rule: worker_step.cases)
  case (TakeReady cc lr qt q)
  with take_simps(6) [OF TakeReady(3)] show ?thesis by (simp add: producers_def)
next
  case (TakeNone cc lr w q)
  with take_simps(6) [OF TakeNone(3)] show ?thesis by (simp add: producers_def)
next
  case (Finish w cc lr exited q)
  with finish_simps(6) [OF Finish(3)] show ?thesis by (simp add: producers_def)
qed (simp_all add: producers_def handled_def settle_def)

definition fenceOK :: "bool \<Rightarrow> base \<Rightarrow> nat \<Rightarrow> nat \<Rightarrow> bool" where
  "fenceOK careful b n c \<longleftrightarrow>
     bs_inFlight b = int n
   \<and> (bs_submitFence b \<longrightarrow> bs_stopped b)
   \<and> \<not> (careful \<and> bs_stopped b \<and> c \<noteq> 0 \<and> n \<noteq> 0)
   \<and> \<not> (careful \<and> bs_submitFence b \<and> n \<noteq> 0)
   \<and> \<not> (bs_stopped b \<and> n = 0 \<and> c = 0 \<and> \<not> bs_submitFence b)"

definition fenceInv :: "bool \<Rightarrow> 't system \<Rightarrow> bool" where
  "fenceInv careful s \<longleftrightarrow> fenceOK careful (sys_base s) (producers s) (sys_checking s)"

lemma fenceOK_steps:
  "fenceOK careful b n c \<Longrightarrow> beginSubmit b = (True, b') \<Longrightarrow> fenceOK careful b' (Suc n) c"
  "fenceOK careful b (Suc n) c \<Longrightarrow> endSubmitAdd b = (zero, b') \<Longrightarrow>
     fenceOK careful b' n (if zero then c + 1 else c)"
  "fenceOK careful b n (Suc c) \<Longrightarrow> fenceOK careful (endSubmitCheck b) n c"
  "fenceOK careful b n c \<Longrightarrow> careful \<longrightarrow> c = 0 \<or> bs_inFlight b = 0 \<Longrightarrow>
     fenceOK careful (signalStopOnce b) n c"
  "fenceOK careful b n c \<Longrightarrow> fenceOK careful (signalHardStopOnce b) n c"
  by (auto simp: fenceOK_def base_defs split: if_splits)

lemma client_fence:
  assumes "client_step careful gated ti s s'" "fenceInv careful s"
  shows "fenceInv careful s'"
  using assms(1)
proof (cases rule: client_producers)
  case Begin
  with fenceOK_steps(1) assms(2) show ?thesis by (metis fenceInv_def)
next
  case (Leave zero)
  from assms(2) Leave(2) have "fenceOK careful (sys_base s) (Suc (producers s')) (sys_checking s)"
    by (simp add: fenceInv_def)
  from fenceOK_steps(2) [OF this Leave(1)] show ?thesis
    by (simp only: fenceInv_def Leave(3))
next
  case Check
  with fenceOK_steps(3) assms(2) show ?thesis by (metis fenceInv_def)
next
  case Stop
  with fenceOK_steps(4) assms(2) show ?thesis by (metis fenceInv_def)
next
  case Hard
  with fenceOK_steps(5) assms(2) show ?thesis by (metis fenceInv_def)
qed (use assms(2) in \<open>simp add: fenceInv_def\<close>)

lemma worker_fence: "worker_step ti s s' \<Longrightarrow> fenceInv careful s \<Longrightarrow> fenceInv careful s'"
  by (drule worker_producers) (simp add: fenceInv_def)

definition crashInv :: "bool \<Rightarrow> bool \<Rightarrow> 't system \<Rightarrow> bool" where
  "crashInv careful gated s \<longleftrightarrow> (kq_chClosed (sys_q s) \<longrightarrow> bs_submitFence (sys_base s))
     \<and> (careful \<or> gated \<longrightarrow> \<not> sys_crashed s)"

lemma client_crash:
  "client_step careful gated ti s s' \<Longrightarrow> gateInv gated s \<Longrightarrow> fenceInv careful s \<Longrightarrow>
     crashInv careful gated s \<Longrightarrow> crashInv careful gated s'"
proof (induction rule: client_step.induct)
  case (SendOnClosed s ticket qt I)
  then show ?case
    by (auto simp: crashInv_def fenceInv_def fenceOK_def producers_def gateInv_def outside_def)
qed (auto simp: crashInv_def base_defs client_op_defs Let_def late_same split: if_splits)

lemma worker_crash: "worker_step ti s s' \<Longrightarrow> crashInv careful gated s \<Longrightarrow> crashInv careful gated s'"
  by (drule worker_producers) (simp add: crashInv_def)

section \<open>All invariants of a reachable lane\<close>

definition safeInv :: "bool \<Rightarrow> bool \<Rightarrow> bool \<Rightarrow> 't system \<Rightarrow> bool" where
  "safeInv careful gated ti s \<longleftrightarrow> laneInv s \<and> gateInv gated s \<and> exitInv s \<and> pendingInv ti s
     \<and> idleInv ti s \<and> wakeInv s \<and> fencedInv s \<and> fenceInv careful s
     \<and> crashInv careful gated s"

lemma reachable_safe: "reachable careful gated ti s \<Longrightarrow> safeInv careful gated ti s"
proof (induction rule: reachable.induct)
  case (Init capacity now)
  have "laneInv (initial capacity now)" using reachable_inv [OF reachable.Init [OF Init]] .
  then show ?case
    by (simp add: safeInv_def initial_def newKeyQueue_def gateInv_def exitInv_def pendingInv_def
        idleInv_def wakeInv_def fencedInv_def fenceInv_def fenceOK_def producers_def newBase_def crashInv_def)
next
  case (Client s s')
  have "laneInv s'" using Client.hyps by (blast intro: reachable.Client reachable_inv)
  moreover have "flagInv s" using Client.hyps(1) by (auto dest: reachable_inv simp: laneInv_def)
  ultimately show ?case using Client(2,3) unfolding safeInv_def
    by (metis client_gate client_exit client_pending client_idle client_wake client_fenced client_fence
        client_crash)
next
  case (Worker s s')
  have "laneInv s'" using Worker.hyps by (blast intro: reachable.Worker reachable_inv)
  moreover have "flagInv s" using Worker.hyps(1) by (auto dest: reachable_inv simp: laneInv_def)
  ultimately show ?case using Worker(2,3) unfolding safeInv_def
    by (metis worker_gate worker_exit worker_pending worker_idle worker_wake worker_fenced worker_fence
        worker_crash)
qed

end
