(* ===== verification/Lane_Props.thy ===== *)
theory Lane_Props
  imports Lane_Safety
begin

text \<open>The properties of a lane, stated over every reachable state of \<open>Lane_Machine\<close>.\<close>

section \<open>Aborts\<close>

text \<open>Only a hard stop aborts: a retired lane has an empty channel, so its drain finds nothing.\<close>

definition abortInv :: "'t system \<Rightarrow> bool" where
  "abortInv s \<longleftrightarrow> (kq_quit (sys_q s) \<longrightarrow> kq_ch (sys_q s) = [])
     \<and> ((\<exists>src qt. (src, qt, False) \<in> set (sys_log s)) \<longrightarrow> bs_hardStopped (sys_base s))
     \<and> (\<forall>src qt cc lr. sys_worker s = WBusy src qt False cc lr \<longrightarrow> bs_hardStopped (sys_base s))"

lemma client_abort:
  "client_step careful gated ti s s' \<Longrightarrow> gateInv gated s \<Longrightarrow> idleInv ti s \<Longrightarrow> abortInv s \<Longrightarrow> abortInv s'"
proof (induction rule: client_step.induct)
  case (Send s ticket qt I q now)
  then show ?case
    by (auto simp: abortInv_def gateInv_def outside_def sendCh_def markSent_def split: if_splits)
next
  case (Retire s r q)
  then show ?case
    by (auto simp: abortInv_def idleInv_def retireQueue_def markRetired_def split: if_splits)
next
  case (Late s s')
  then show ?case using late_same [OF Late(1)] by (simp add: abortInv_def)
qed (auto simp: abortInv_def base_defs client_op_defs Let_def split: if_splits)

lemma worker_abort: "worker_step ti s s' \<Longrightarrow> exitInv s \<Longrightarrow> abortInv s \<Longrightarrow> abortInv s'"
proof (induction rule: worker_step.induct)
  case (TakeReady s cc lr qt q)
  with take_simps [OF TakeReady(2)] show ?case by (auto simp: abortInv_def)
next
  case (TakeNone s cc lr w q)
  with take_simps [OF TakeNone(2)] show ?case by (auto simp: abortInv_def)
next
  case (Finish s w cc lr exited q)
  with finish_simps [OF Finish(2)] show ?case by (auto simp: abortInv_def)
next
  case (Complete s src qt didRun cc lr now)
  then show ?case by (cases src) (auto simp: abortInv_def handled_def afterTask_def)
qed (auto simp: abortInv_def exitInv_def handled_def settle_def)

lemma reachable_abort: "reachable careful gated ti s \<Longrightarrow> abortInv s"
proof (induction rule: reachable.induct)
  case (Init capacity now)
  then show ?case by (simp add: abortInv_def initial_def newKeyQueue_def)
next
  case (Client s s')
  then show ?case using reachable_safe [OF Client(1)] by (auto simp: safeInv_def intro: client_abort)
next
  case (Worker s s')
  then show ?case using reachable_safe [OF Worker(1)] by (auto simp: safeInv_def intro: worker_abort)
qed

section \<open>Order, completeness and progress\<close>

definition sampleTasks :: "nat queuedTask" where
  "sampleTasks = \<lparr>qt_task = 1, qt_key = accountRoutingKey 5\<rparr>"

text \<open>
  C5: under every interleaving of producers, cancellations, cleanup, stops and retirement,
  the lane handles exactly the tasks its channel took, each once and in that order, and
  exactly the backlog entries, each once and in that order; what is not handled yet is in
  the worker's hands or still queued.
\<close>

theorem lane_fifo_exactly_once:
  assumes "reachable careful gated tracksIdle s"
  shows "sys_accepted s = loggedFrom FromChannel (sys_log s)
        @ current FromChannel (sys_worker s) @ kq_ch (sys_q s)
    \<and> sys_backlogged s = loggedFrom FromBacklog (sys_log s)
        @ current FromBacklog (sys_worker s) @ map en_task (kq_mandatory (sys_q s))"
  using reachable_inv [OF assms] by (simp add: laneInv_def fifoInv_def backlogInv_def)

lemma sample_backlog:
  "reachable careful gated ti
     ((initial 1 0)\<lparr>sys_q := snd (enqueueMandatory ti False sampleTasks (sys_q (initial 1 0))),
        sys_backlogged := [sampleTasks], sys_afters := [0], sys_touching := 1\<rparr>)"
proof -
  have "reachable careful gated ti (initial 1 0 :: nat system)" by (rule reachable.Init) simp
  from reachable.Client [OF this client_step.Mandatory [of ti False sampleTasks _
        "snd (enqueueMandatory ti False sampleTasks (sys_q (initial 1 0)))"]]
  show ?thesis
    by (simp add: initial_def newKeyQueue_def enqueueMandatory_def Let_def)
qed

theorem lane_fifo_exactly_once_witness:
  "sys_backlogged ((initial 1 0)\<lparr>sys_q := snd (enqueueMandatory True False sampleTasks
       (sys_q (initial 1 0))), sys_backlogged := [sampleTasks], sys_afters := [0], sys_touching := 1\<rparr>) = [sampleTasks]"
  using lane_fifo_exactly_once [OF sample_backlog [of True True True]]
  by (simp add: initial_def newKeyQueue_def enqueueMandatory_def markSent_def loggedFrom_def Let_def)

lemma taken_cleanup_ordered:
  assumes "reachable careful gated tracksIdle s" and "sys_worker s = WLoop cc lr"
    and "takeMandatoryCleanup (bs_submitFence (sys_base s)) (sys_q s) = (Ready qt, q')"
  shows "refreshAfters s \<noteq> []
    \<and> hd (refreshAfters s) \<le> length (loggedFrom FromChannel (sys_log s))
    \<and> take (hd (refreshAfters s)) (sys_accepted s)
        = take (hd (refreshAfters s)) (loggedFrom FromChannel (sys_log s))"
proof -
  have inv: "laneInv s" by (rule reachable_inv [OF assms(1)])
  then obtain en where en: "refreshed (bs_submitFence (sys_base s)) (sys_q s) = en # kq_mandatory q'"
    "settleTarget en \<le> kq_settled (sys_q s)"
    using take_mandatory(2) [OF _ assms(3)] by (auto simp: laneInv_def)
  with inv refreshed_order [of s] obtain n ns where n: "refreshAfters s = n # ns"
    "ordered (kq_admitted (sys_q s)) (kq_settled (sys_q s)) (sys_inflight s)
       (length (sys_accepted s)) (doneCount s) en n"
    by (auto simp: laneInv_def list_all2_Cons1)
  have acc: "sys_accepted s = loggedFrom FromChannel (sys_log s) @ kq_ch (sys_q s)"
    using inv assms(2) by (simp add: laneInv_def fifoInv_def)
  then have "doneCount s = int (length (loggedFrom FromChannel (sys_log s)))"
    using assms(2) by (simp add: doneCount_def)
  with n(2) en(2) have "n \<le> length (loggedFrom FromChannel (sys_log s))"
    by (auto simp: ordered_def)
  with n(1) acc show ?thesis by simp
qed

text \<open>
  C6: mandatory cleanup never overtakes accepted work.  When the worker takes a backlog
  entry, every task the channel had taken when the entry was queued (for cleanup registered
  after stop: when the submit fence closed) has been handled already.
\<close>

theorem cleanup_follows_accepted_work:
  assumes "reachable careful gated tracksIdle s" and "sys_worker s = WLoop cc lr"
    and "takeMandatoryCleanup (bs_submitFence (sys_base s)) (sys_q s) = (Ready qt, q')"
  shows "refreshAfters s \<noteq> []
    \<and> hd (refreshAfters s) \<le> length (loggedFrom FromChannel (sys_log s))
    \<and> take (hd (refreshAfters s)) (sys_accepted s)
        = take (hd (refreshAfters s)) (loggedFrom FromChannel (sys_log s))"
  using taken_cleanup_ordered [OF assms] by blast

theorem cleanup_follows_accepted_work_witness:
  "hd (refreshAfters ((initial 1 0)\<lparr>sys_q := snd (enqueueMandatory True False sampleTasks
       (sys_q (initial 1 0))), sys_backlogged := [sampleTasks], sys_afters := [0], sys_touching := 1\<rparr>)) \<le> 0"
proof -
  let ?s = "(initial 1 0)\<lparr>sys_q := snd (enqueueMandatory True False sampleTasks
       (sys_q (initial 1 0))), sys_backlogged := [sampleTasks], sys_afters := [0], sys_touching := 1\<rparr>"
  obtain q' where "takeMandatoryCleanup (bs_submitFence (sys_base ?s)) (sys_q ?s) = (Ready sampleTasks, q')"
    by (simp add: initial_def newKeyQueue_def newBase_def enqueueMandatory_def markSent_def
        takeMandatoryCleanup_def refreshFence_def Let_def)
  from cleanup_follows_accepted_work [OF sample_backlog [of True True True] _ this, of False False]
  show ?thesis by (simp add: initial_def loggedFrom_def)
qed

text \<open>
  C7: cleanup is never stranded.  Once no producer is between admission and send and the
  channel is drained, the head of a non-empty backlog is ready, however many admissions were
  abandoned, unless it was registered after stop and the submit fence is still open.
\<close>

theorem cleanup_never_stranded:
  assumes "reachable careful gated tracksIdle s" and "sys_worker s = WLoop cc lr"
    and "sys_inflight s = {#}" and "kq_ch (sys_q s) = []" and "kq_mandatory (sys_q s) = en # rest"
    and "bs_submitFence (sys_base s) \<or> \<not> waitSubmitFence en"
  shows "\<exists>q'. takeMandatoryCleanup (bs_submitFence (sys_base s)) (sys_q s) = (Ready (en_task en), q')"
proof -
  have inv: "countInv s" "flagInv s" "orderInv s"
    using reachable_inv [OF assms(1)] by (simp_all add: laneInv_def)
  have "kq_admitted (sys_q s) = kq_settled (sys_q s)"
    using inv(1) assms(2-4) by (simp add: countInv_def)
  moreover have "settleTarget en \<le> kq_admitted (sys_q s)"
    using inv(3) assms(5) by (auto simp: orderInv_def list_all2_Cons1 ordered_def)
  ultimately have "settleTarget (refreshFence (kq_admitted (sys_q s)) en) \<le> kq_settled (sys_q s)"
    by (simp add: refreshFence_def)
  with inv(2) assms(5,6) show ?thesis
    by (auto simp: takeMandatoryCleanup_def flagInv_def Let_def)
qed

theorem cleanup_never_stranded_witness:
  "\<exists>q'. takeMandatoryCleanup False (snd (enqueueMandatory True False sampleTasks
       (sys_q (initial 1 0)))) = (Ready sampleTasks, q')"
  using cleanup_never_stranded [OF sample_backlog [of True True True], of False False
      "\<lparr>en_task = sampleTasks, admittedCutoff = 0, settleTarget = 0, waitSubmitFence = False\<rparr>" "[]"]
  by (simp add: initial_def newKeyQueue_def newBase_def enqueueMandatory_def markSent_def Let_def)

lemma exited_lane_complete:
  assumes "reachable careful gated tracksIdle s" and "sys_worker s = WExited"
  shows "loggedFrom FromChannel (sys_log s) = sys_accepted s
    \<and> loggedFrom FromBacklog (sys_log s) = sys_backlogged s
    \<and> enqueueMandatory tracksIdle wait qt (sys_q s) = (False, sys_q s)
    \<and> (\<not> bs_hardStopped (sys_base s) \<longrightarrow> list_all (\<lambda>(src, qt, didRun). didRun) (sys_log s))"
proof -
  have inv: "laneInv s" "exitInv s" "abortInv s"
    using reachable_safe [OF assms(1)] reachable_abort [OF assms(1)] by (simp_all add: safeInv_def)
  then have "kq_ch (sys_q s) = []" "kq_mandatory (sys_q s) = []" "kq_workerExited (sys_q s)"
    using assms(2) by (auto simp: exitInv_def ended_def)
  with inv assms(2) show ?thesis
    by (auto simp: laneInv_def fifoInv_def backlogInv_def enqueueMandatory_def abortInv_def
        list_all_iff) (metis (full_types))+
qed

text \<open>
  C8: a worker leaves nothing behind.  When it has exited, every task the channel took and
  every backlog entry has been handled, and further cleanup is refused, so that its caller
  keeps the release; without a hard stop all of them were run, none aborted.
\<close>

theorem worker_exit_complete:
  assumes "reachable careful gated tracksIdle s" and "sys_worker s = WExited"
  shows "loggedFrom FromChannel (sys_log s) = sys_accepted s
    \<and> loggedFrom FromBacklog (sys_log s) = sys_backlogged s
    \<and> enqueueMandatory tracksIdle wait qt (sys_q s) = (False, sys_q s)
    \<and> (\<not> bs_hardStopped (sys_base s) \<longrightarrow> list_all (\<lambda>(src, qt, didRun). didRun) (sys_log s))"
  using exited_lane_complete [OF assms] by blast

text \<open>A lane that is stopped at once: its worker exits.\<close>

lemma sample_exit:
  "\<exists>s. reachable True False False (s :: nat system) \<and> sys_worker s = WExited \<and> \<not> bs_hardStopped (sys_base s)"
proof -
  note cl = reachable.Client [of True False False]
  note wk = reachable.Worker [of True False False]
  let ?s0 = "initial 1 0 :: nat system"
  have s0: "reachable True False False ?s0" by (rule reachable.Init) simp
  let ?s1 = "?s0\<lparr>sys_base := signalStopOnce (sys_base ?s0)\<rparr>"
  have s1: "reachable True False False ?s1"
    by (rule cl [OF s0 client_step.Stop]) (simp add: initial_def)
  let ?s2 = "?s1\<lparr>sys_q := closeQueueChannel (sys_q ?s1)\<rparr>"
  have s2: "reachable True False False ?s2"
    by (rule cl [OF s1 client_step.CloseChannels])
      (simp_all add: initial_def signalStopOnce_def newBase_def)
  let ?s3 = "?s2\<lparr>sys_q := sys_q ?s2, sys_afters := refreshAfters ?s2, sys_worker := WSelect False\<rparr>"
  have s3: "reachable True False False ?s3"
    using wk [OF s2 worker_step.TakeNone [where cc = False and lr = False and w = False and q = "sys_q ?s2"]]
    by (simp add: initial_def newKeyQueue_def closeQueueChannel_def takeMandatoryCleanup_def)
  let ?s4 = "?s3\<lparr>sys_worker := WLoop True False\<rparr>"
  have s4: "reachable True False False ?s4"
    by (rule wk [OF s3 worker_step.RecvClosed [where w = False]])
      (simp_all add: initial_def newKeyQueue_def closeQueueChannel_def)
  let ?s5 = "?s4\<lparr>sys_q := sys_q ?s4, sys_afters := refreshAfters ?s4, sys_worker := WFinish False True False\<rparr>"
  have s5: "reachable True False False ?s5"
    using wk [OF s4 worker_step.TakeNone [where cc = True and lr = False and w = False and q = "sys_q ?s4"]]
    by (simp add: initial_def newKeyQueue_def closeQueueChannel_def takeMandatoryCleanup_def)
  have "reachable True False False (?s5\<lparr>sys_q := (sys_q ?s5)\<lparr>kq_workerExited := True\<rparr>, sys_worker := WExited\<rparr>)"
    using wk [OF s5 worker_step.Finish [where w = False and cc = True and lr = False and exited = True
        and q = "(sys_q ?s5)\<lparr>kq_workerExited := True\<rparr>"]]
    by (simp add: initial_def newKeyQueue_def closeQueueChannel_def finishWorker_def)
  then show ?thesis
    by (intro exI conjI) (assumption, simp_all add: initial_def newBase_def signalStopOnce_def)
qed

theorem worker_exit_complete_witness:
  "\<exists>s :: nat system. sys_worker s = WExited \<and> loggedFrom FromChannel (sys_log s) = sys_accepted s"
  using worker_exit_complete [where s = s for s :: "nat system"] sample_exit by blast

lemma stopped_worker_step:
  assumes "reachable careful gated tracksIdle s" and "kq_chClosed (sys_q s)"
    and "bs_submitFence (sys_base s)" and "sys_inflight s = {#}" and "sys_worker s \<noteq> WExited"
  shows "wakesDue s \<noteq> 0 \<or> (\<exists>s'. worker_step tracksIdle s s')"
proof (cases "sys_worker s")
  case (WLoop cc lr)
  obtain r q where "takeMandatoryCleanup (bs_submitFence (sys_base s)) (sys_q s) = (r, q)"
    by fastforce
  with WLoop show ?thesis by (cases r) (auto intro: worker_step.TakeReady worker_step.TakeNone)
next
  case (WSelect w)
  with assms(2) show ?thesis
    by (cases "kq_ch (sys_q s)") (auto intro: worker_step.Recv worker_step.RecvClosed)
next
  case (WFinish w cc lr)
  obtain r q where "finishWorker (sys_q s) = (r, q)" by fastforce
  with WFinish show ?thesis by (auto intro: worker_step.Finish)
next
  case (WParked w cc lr)
  have inv: "countInv s" "orderInv s" "exitInv s" "wakeInv s"
    using reachable_safe [OF assms(1)] by (simp_all add: safeInv_def laneInv_def)
  then have q: "ended (sys_q s)" "kq_mandatory (sys_q s) \<noteq> []" "quiet s w"
    using WParked by (auto simp: exitInv_def wakeInv_def)
  then obtain en rest where en: "kq_mandatory (sys_q s) = en # rest" by (auto simp: neq_Nil_conv)
  have "kq_admitted (sys_q s) = kq_settled (sys_q s)"
    using inv(1) q(1) WParked assms(4) by (simp add: countInv_def ended_def)
  moreover have "settleTarget en \<le> kq_admitted (sys_q s)"
    using inv(2) en by (auto simp: orderInv_def list_all2_Cons1 ordered_def)
  ultimately have "kq_mandatoryWake (sys_q s) \<or> wakesDue s \<noteq> 0 \<or> w"
    using q(3) en by (auto simp: quiet_def split: if_splits)
  with WParked assms(3) show ?thesis
    by (cases w) (auto intro: worker_step.ParkWake worker_step.ParkFence)
next
  case WDrain
  then show ?thesis
    by (cases "kq_ch (sys_q s)") (auto intro: worker_step.DrainAbort worker_step.DrainDone)
qed (use assms(5) in \<open>auto intro: worker_step.intros\<close>)

lemma sample_closed:
  "reachable True False False ((initial 1 0 :: nat system)\<lparr>sys_base := signalStopOnce newBase,
     sys_q := closeQueueChannel (newKeyQueue 1 0)\<rparr>)"
proof -
  have "reachable True False False (initial 1 0 :: nat system)" by (rule reachable.Init) simp
  from reachable.Client [OF this client_step.Stop]
  have "reachable True False False ((initial 1 0 :: nat system)\<lparr>sys_base := signalStopOnce newBase\<rparr>)"
    by (simp add: initial_def)
  from reachable.Client [OF this client_step.CloseChannels] show ?thesis
    by (simp add: initial_def signalStopOnce_def newBase_def)
qed

text \<open>A wake that is due is sent: its caller has only to go on.\<close>

lemma due_wake_arrives:
  assumes "wakesDue s \<noteq> 0"
  shows "\<exists>s'. (late_step tracksIdle)\<^sup>*\<^sup>* s s' \<and> kq_mandatoryWake (sys_q s')"
proof -
  have rouse: "\<exists>s'. (late_step tracksIdle)\<^sup>*\<^sup>* s s' \<and> kq_mandatoryWake (sys_q s')"
    if "sys_rousing s \<noteq> 0" for s :: "'a system"
  proof -
    from that obtain n where "sys_rousing s = Suc n" by (cases "sys_rousing s") auto
    from r_into_rtranclp [of "late_step tracksIdle", OF late_step.Rouse [OF this]] show ?thesis
      by (intro exI conjI) (assumption, simp add: sendWake_def)
  qed
  have wake: "\<exists>s'. (late_step tracksIdle)\<^sup>*\<^sup>* s s' \<and> kq_mandatoryWake (sys_q s')"
    if "sys_waking s \<noteq> 0" for s :: "'a system"
  proof -
    from that obtain n where "sys_waking s = Suc n" by (cases "sys_waking s") auto
    from r_into_rtranclp [of "late_step tracksIdle", OF late_step.WakeSend [OF this]] show ?thesis
      by (intro exI conjI) (assumption, simp add: sendWake_def)
  qed
  have on: "\<exists>s'. (late_step tracksIdle)\<^sup>*\<^sup>* s s' \<and> kq_mandatoryWake (sys_q s')"
    if "late_step tracksIdle s u" "\<exists>s'. (late_step tracksIdle)\<^sup>*\<^sup>* u s' \<and> kq_mandatoryWake (sys_q s')"
    for u
    using that by (blast intro: converse_rtranclp_into_rtranclp)
  consider "count (sys_unwinding s) True \<noteq> 0" | "sys_rousing s \<noteq> 0" | "sys_touching s \<noteq> 0"
    | "sys_waking s \<noteq> 0"
    using assms by (auto simp: wakesDue_def)
  then show ?thesis
  proof cases
    case 1
    then obtain W where W: "sys_unwinding s = add_mset True W"
      by (metis count_eq_zero_iff mset_add)
    show ?thesis by (rule on [OF late_step.Unpend [OF W] rouse]) simp
  next
    case 3
    then obtain n where "sys_touching s = Suc n" by (cases "sys_touching s") auto
    show ?thesis by (rule on [OF late_step.Touch [OF \<open>sys_touching s = Suc n\<close>] wake]) simp
  qed (use rouse wake in auto)
qed


lemma sample_parked:
  "reachable True True True ((initial 1 0)\<lparr>sys_worker := WSelect False,
     sys_q := snd (enqueueMandatory True False sampleTasks (sys_q (initial 1 0))),
     sys_backlogged := [sampleTasks], sys_afters := [0], sys_touching := 1\<rparr>)"
proof -
  have "reachable True True True (initial 1 0 :: nat system)" by (rule reachable.Init) simp
  from reachable.Worker [OF this worker_step.TakeNone [where cc = False and lr = False and w = False
        and q = "sys_q (initial 1 0)"]]
  have "reachable True True True ((initial 1 0 :: nat system)\<lparr>sys_worker := WSelect False\<rparr>)"
    by (simp add: initial_def newKeyQueue_def takeMandatoryCleanup_def refreshAfters_def)
  from reachable.Client [OF this client_step.Mandatory [of True False sampleTasks _
        "snd (enqueueMandatory True False sampleTasks (sys_q (initial 1 0)))"]]
  show ?thesis by (simp add: initial_def newKeyQueue_def enqueueMandatory_def Let_def)
qed


section \<open>Stop, the submit fence and retirement\<close>



text \<open>
  Without that restriction a shard can crash.  A producer brings the in-flight count to
  zero, a second one registers, the stop signal finds it in flight and leaves the fence open,
  then the first producer, looking at the stop signal only now, closes the fence; the
  channel is closed under the second producer, whose send panics.
\<close>

lemma shard_send_can_hit_closed_channel:
  "\<exists>s :: nat system. reachable False False False s \<and> sys_crashed s"
proof -
  note cl = reachable.Client [of False False False]
  let ?s0 = "initial 1 0 :: nat system"
  have s0: "reachable False False False ?s0" by (rule reachable.Init) simp
  have s1: "reachable False False False (?s0\<lparr>sys_base := newBase\<lparr>bs_inFlight := 1\<rparr>, sys_arriving := {#sampleTasks#}\<rparr>)"
    using cl [OF s0 client_step.Begin [of ?s0 "newBase\<lparr>bs_inFlight := 1\<rparr>" False False False sampleTasks]]
    by (simp add: initial_def newBase_def beginSubmit_def)
  have s2: "reachable False False False (?s0\<lparr>sys_base := newBase\<lparr>bs_inFlight := 1\<rparr>, sys_leaving := 1\<rparr>)"
    using cl [OF s1 client_step.Elsewhere [where qt = sampleTasks and M = "{#}"]]
    by (simp add: initial_def)
  have s3: "reachable False False False (?s0\<lparr>sys_checking := 1\<rparr>)"
    using cl [OF s2 client_step.Leave [where n = 0 and zero = True and b = newBase]]
    by (simp add: initial_def newBase_def endSubmitAdd_def)
  have s4: "reachable False False False (?s0\<lparr>sys_base := newBase\<lparr>bs_inFlight := 1\<rparr>, sys_checking := 1,
      sys_arriving := {#sampleTasks#}\<rparr>)"
    using cl [OF s3 client_step.Begin [where b = "newBase\<lparr>bs_inFlight := 1\<rparr>" and qt = sampleTasks]]
    by (simp add: initial_def newBase_def beginSubmit_def)
  have s5: "reachable False False False (?s0\<lparr>sys_base := newBase\<lparr>bs_inFlight := 1\<rparr>, sys_checking := 1,
      sys_entered := {#sampleTasks#}\<rparr>)"
    using cl [OF s4 client_step.Enter [where qt = sampleTasks and M = "{#}"]]
    by (simp add: initial_def newKeyQueue_def)
  have s6: "reachable False False False (?s0\<lparr>sys_base := newBase\<lparr>bs_inFlight := 1\<rparr>, sys_checking := 1,
      sys_passed := {#sampleTasks#}\<rparr>)"
    using cl [OF s5 client_step.FencePass [where qt = sampleTasks and M = "{#}"]]
    by (simp add: initial_def newKeyQueue_def checkFence_def)
  let ?q = "(newKeyQueue 1 0)\<lparr>kq_admitted := 1\<rparr>"
  let ?i = "?s0\<lparr>sys_checking := 1, sys_q := ?q, sys_inflight := {#(1, sampleTasks)#}\<rparr>"
  have s7: "reachable False False False (?i\<lparr>sys_base := newBase\<lparr>bs_inFlight := 1\<rparr>\<rparr>)"
    using cl [OF s6 client_step.Admit [where qt = sampleTasks and M = "{#}" and ticket = 1 and q = ?q]]
    by (simp add: initial_def newKeyQueue_def admitTask_def)
  have s8: "reachable False False False (?i\<lparr>sys_base := newBase\<lparr>bs_inFlight := 1, bs_stopped := True\<rparr>\<rparr>)"
    using cl [OF s7 client_step.Stop] by (simp add: initial_def newBase_def signalStopOnce_def)
  have s9: "reachable False False False (?i\<lparr>sys_checking := 0,
      sys_base := newBase\<lparr>bs_inFlight := 1, bs_stopped := True, bs_submitFence := True\<rparr>\<rparr>)"
    using cl [OF s8 client_step.Check [where n = 0]]
    by (simp add: initial_def newBase_def endSubmitCheck_def)
  have s10: "reachable False False False (?i\<lparr>sys_checking := 0, sys_q := closeQueueChannel ?q,
      sys_base := newBase\<lparr>bs_inFlight := 1, bs_stopped := True, bs_submitFence := True\<rparr>\<rparr>)"
    using cl [OF s9 client_step.CloseChannels] by (simp add: initial_def newBase_def)
  have "reachable False False False (?i\<lparr>sys_checking := 0, sys_q := closeQueueChannel ?q, sys_crashed := True,
      sys_base := newBase\<lparr>bs_inFlight := 1, bs_stopped := True, bs_submitFence := True\<rparr>\<rparr>)"
    using cl [OF s10 client_step.SendOnClosed [where ticket = 1 and qt = sampleTasks and I = "{#}"]]
    by (simp add: initial_def newKeyQueue_def closeQueueChannel_def)
  then show ?thesis by (intro exI conjI) (assumption, simp)
qed

text \<open>
  Retirement loses no queued work.  When a lane is sealed by idle retirement its channel
  and its backlog are empty, no producer is in flight on it, and the worker holds no task
  from the channel.
\<close>

lemma retirement_is_idle:
  assumes "reachable careful gated tracksIdle s" and "sys_gate s = GateIdle"
    and "retireQueue (sys_q s) = (True, q)"
  shows "kq_ch q = [] \<and> kq_mandatory q = [] \<and> sys_inflight s = {#}
    \<and> (\<forall>qt cc lr. sys_worker s \<noteq> WTask FromChannel qt cc lr)
    \<and> (\<forall>qt r cc lr. sys_worker s \<noteq> WBusy FromChannel qt r cc lr) \<and> kq_closed q \<and> kq_quit q \<and> kq_retired q"
proof -
  have inv: "gateInv gated s" "idleInv tracksIdle s"
    using reachable_safe [OF assms(1)] by (simp_all add: safeInv_def)
  with assms(2,3) show ?thesis
    by (auto simp: gateInv_def idleInv_def outside_def retireQueue_def markRetired_def split: if_splits)
qed

lemma sample_idle: "reachable True True True ((initial 1 0 :: nat system)\<lparr>sys_gate := GateIdle\<rparr>)"
proof -
  have s0: "reachable True True True (initial 1 0 :: nat system)" by (rule reachable.Init) simp
  have s1: "reachable True True True ((initial 1 0 :: nat system)\<lparr>sys_gate := GateHeld\<rparr>)"
    by (rule reachable.Client [OF s0 client_step.TryLock]) (simp_all add: initial_def newKeyQueue_def outside_def)
  show ?thesis
    using reachable.Client [OF s1 client_step.IdleConfirmed [where cutoff = 0]]
    by (simp add: initial_def newKeyQueue_def isIdle_def)
qed

text \<open>
  Retirement can still seal a lane whose worker is running cleanup.  The idle check and
  the seal are separate reads: a cleanup queued between them, and already taken by the
  worker, leaves the backlog empty again, so the lane is retired (and its key free for a new
  lane) while the cleanup runs.
\<close>

lemma retirement_races_cleanup:
  "\<exists>(s :: nat system) qt. reachable True True True s \<and> kq_retired (sys_q s)
     \<and> sys_worker s = WBusy FromBacklog qt True False False"
proof -
  let ?s0 = "(initial 1 0 :: nat system)\<lparr>sys_gate := GateIdle\<rparr>"
  let ?q1 = "snd (enqueueMandatory True False sampleTasks (newKeyQueue 1 0))"
  let ?s1 = "?s0\<lparr>sys_q := ?q1, sys_backlogged := [sampleTasks], sys_afters := [0], sys_touching := 1\<rparr>"
  have s1: "reachable True True True ?s1"
    using reachable.Client [OF sample_idle client_step.Mandatory [of True False sampleTasks _ ?q1]]
    by (simp add: initial_def newKeyQueue_def enqueueMandatory_def Let_def)
  let ?q2 = "snd (takeMandatoryCleanup False ?q1)"
  let ?s2 = "?s1\<lparr>sys_q := ?q2, sys_afters := [], sys_worker := WTask FromBacklog sampleTasks False False\<rparr>"
  have s2: "reachable True True True ?s2"
    using reachable.Worker [OF s1 worker_step.TakeReady [where cc = False and lr = False
          and qt = sampleTasks and q = ?q2]]
    by (simp add: initial_def newKeyQueue_def newBase_def enqueueMandatory_def markSent_def
        takeMandatoryCleanup_def refreshFence_def refreshAfters_def Let_def)
  let ?s3 = "?s2\<lparr>sys_log := [(FromBacklog, sampleTasks, True)],
      sys_worker := WBusy FromBacklog sampleTasks True False False\<rparr>"
  have s3: "reachable True True True ?s3"
    using reachable.Worker [OF s2 worker_step.Start [where src = FromBacklog and qt = sampleTasks
          and cc = False and lr = False]]
    by (simp add: initial_def newBase_def)
  have "fst (retireQueue ?q2)" "kq_retired (snd (retireQueue ?q2))"
    by (simp_all add: newKeyQueue_def enqueueMandatory_def markSent_def takeMandatoryCleanup_def
        refreshFence_def noteMandatoryProgressLocked_def retireQueue_def markRetired_def Let_def)
  moreover have "reachable True True True (?s3\<lparr>sys_gate := GateFree, sys_q := snd (retireQueue ?q2)\<rparr>)"
    using reachable.Client [OF s3 client_step.Retire [of _ "fst (retireQueue ?q2)" "snd (retireQueue ?q2)"]]
    by (simp add: initial_def)
  ultimately show ?thesis by (intro exI conjI) (assumption, simp_all)
qed

end
