(* ===== verification/Engine_Props.thy ===== *)
theory Engine_Props
  imports Engine_Facts Lane_Props
begin

text \<open>
  The properties of the facade: how a task settles its future, how a lane settles the
  futures of all it accepted, and what becomes of a request's native handle.
\<close>

section \<open>Handled tasks\<close>

text \<open>
  What \<^verbatim>\<open>handleTask\<close> does with a task the lane's worker logged: it runs, or under a hard
  stop aborts with \<^verbatim>\<open>ErrStopped\<close>.
\<close>

definition handleTask :: "('e, 'x) boundary_scheme \<Rightarrow> bool \<Rightarrow> ('e, 's) pendingTask \<Rightarrow> ('e, unit) fac" where
  "handleTask x didRun t = (if didRun then task_run x t else task_abort x (Sentinel ErrStopped) t)"

fun handleAll :: "('e, 'x) boundary_scheme \<Rightarrow> (('e, 's) pendingTask \<times> bool) list \<Rightarrow> ('e, unit) fac" where
  "handleAll x [] = ret ()"
| "handleAll x ((t, didRun) # ts) = bind (handleTask x didRun t) (\<lambda>_. handleAll x ts)"

text \<open>The error an aborted task reports: cleanup keeps the error of the failed submit.\<close>

fun abortError :: "go_error \<Rightarrow> ('e, 's) pendingTask \<Rightarrow> go_error" where
  "abortError e (RequestCleanup f q a v er) = er"
| "abortError e (ReservationCleanup f p a er) = er"
| "abortError e (OperationCleanup f p a er) = er"
| "abortError e t = e"

text \<open>The value it reports: the zero value of the operation, for a chain a failed outcome.\<close>

fun abortValue :: "go_error \<Rightarrow> ('e, 's) pendingTask \<Rightarrow> asyncValue" where
  "abortValue e (chainTask f p ctx) =
     VChain \<lparr>co_Err = Some e, co_Status = ChainOutcomeFailed, co_RetryUnsafe = False\<rparr>"
| "abortValue e t = zeroValue t"

definition driverFree :: "event list \<Rightarrow> bool" where
  "driverFree evs \<longleftrightarrow> (\<forall>ev\<in>set evs. case ev of EvDriver c \<Rightarrow> False | EvHook h \<Rightarrow> False | _ \<Rightarrow> True)"

lemma driverFree_simps [simp]:
  "driverFree []" "driverFree (xs @ ys) \<longleftrightarrow> driverFree xs \<and> driverFree ys"
  "driverFree (map EvNative cs)" "driverFree (EvResolve f # xs) \<longleftrightarrow> driverFree xs"
  by (auto simp: driverFree_def)

definition aborted :: "go_error \<Rightarrow> ('e, 's) pendingTask \<Rightarrow> 'e facade \<Rightarrow> 'e facade \<Rightarrow> bool" where
  "aborted e t w w' \<longleftrightarrow> settles (taskFuture t) w w' \<and> driverFree (newEvents w w')
     \<and> (\<forall>f. taskFuture t = Some f \<longrightarrow>
          futures w' f = Resolve (abortValue e t) (Some (abortError e t)) (futures w f))"

lemma count_natives [simp]: "count_list (map EvNative cs) (EvResolve f) = 0"
  by (induction cs) auto

lemma task_abort_resolves: "wp (task_abort x e t) (\<lambda>_. aborted e t w) (\<lambda>_ _. False) w"
  by (cases t) (auto simp: wp task_run_defs aborted_def resolvedOnce_def extends_def newEvents_def
      laneChain_abort_def)

lemma handleTask_once:
  "wp (handleTask x didRun t) (\<lambda>_. settles (taskFuture t) w) (\<lambda>_ _. True) w"
  by (auto simp: handleTask_def aborted_def intro: wp_mono [OF task_abort_resolves] wp_mono [OF task_run_once])


section \<open>A lane settles what it accepted\<close>

definition settledAll :: "nat list \<Rightarrow> 'e facade \<Rightarrow> 'e facade \<Rightarrow> bool" where
  "settledAll fs w w' \<longleftrightarrow> extends w w'
     \<and> (\<forall>f. count_list (newEvents w w') (EvResolve f) = count_list fs f)
     \<and> (\<forall>f. f \<notin> set fs \<longrightarrow> futures w' f = futures w f)
     \<and> (\<forall>f\<in>set fs. count_list fs f = 1 \<longrightarrow> (\<exists>v e. futures w' f = Resolve v e (futures w f)))"

text \<open>The futures of a list of tasks.\<close>

definition futuresOf :: "('e, 's) pendingTask list \<Rightarrow> nat list" where
  "futuresOf ts = List.map_filter taskFuture ts"

lemma futuresOf_simps [simp]:
  "futuresOf [] = []"
  "futuresOf (t # ts) = (case taskFuture t of None \<Rightarrow> futuresOf ts | Some f \<Rightarrow> f # futuresOf ts)"
  by (simp_all add: futuresOf_def List.map_filter_simps split: option.splits)

lemma mset_futuresOf: "mset ts = mset us \<Longrightarrow> mset (futuresOf ts) = mset (futuresOf us)"
  by (simp add: futuresOf_def List.map_filter_def)

lemma settledAll_quiet: "unresolved w u \<Longrightarrow> settledAll fs u w' \<Longrightarrow> settledAll fs w w'"
proof -
  assume a: "unresolved w u" "settledAll fs u w'"
  then obtain evs where u: "futures u = futures w" "history u = history w @ evs"
    "\<forall>f. EvResolve f \<notin> set evs" by (auto simp: unresolved_def)
  have "history w' = history w @ evs @ newEvents u w'"
    using a(2) u(2) extends_history [of u w'] by (simp add: settledAll_def)
  from extendsI [OF this] a(2) u show "settledAll fs w w'"
    by (simp add: settledAll_def count_list_0_iff)
qed

lemma settledAll_Cons:
  assumes one: "resolvedOnce f w u" and rest: "settledAll fs u w'"
  shows "settledAll (f # fs) w w'"
proof -
  have h: "history w' = history w @ newEvents w u @ newEvents u w'"
    using assms extends_history [of w u] extends_history [of u w']
    by (simp add: resolvedOnce_def settledAll_def)
  have c: "count_list (newEvents w u) (EvResolve g) = (if g = f then 1 else 0)" for g
    using one by (auto simp: resolvedOnce_def count_list_0_iff)
  show ?thesis
    using one rest extendsI [OF h] unfolding settledAll_def resolvedOnce_def
    by (auto simp: c count_list_0_iff) metis
qed

lemma settledAll_Done: "settledAll fs w w' \<Longrightarrow> count_list fs f = 1 \<Longrightarrow> Done (futures w' f)"
proof -
  assume a: "settledAll fs w w'" "count_list fs f = 1"
  then have "f \<in> set fs" by (metis count_notin zero_neq_one)
  with a obtain v e where "futures w' f = Resolve v e (futures w f)"
    unfolding settledAll_def by blast
  then show "Done (futures w' f)" by (simp add: Done_def Resolve_def)
qed

lemma handleAll_settles:
  "wp (handleAll x ts) (\<lambda>_. settledAll (futuresOf (map fst ts)) w) (\<lambda>_ _. True) w"
proof (induction ts arbitrary: w)
  case Nil
  show ?case by (simp add: wp settledAll_def extends_def newEvents_def)
next
  case (Cons l ts)
  obtain t b where "l = (t, b)" by fastforce
  then show ?case
    by (auto simp: wp_bind settles_def intro!: wp_mono [OF handleTask_once] wp_mono [OF Cons.IH]
        intro: settledAll_Cons settledAll_quiet split: option.splits)
qed

definition handledTasks :: "('e, 's) pendingTask system \<Rightarrow> (('e, 's) pendingTask \<times> bool) list" where
  "handledTasks s = map (\<lambda>(src, qt, didRun). (qt_task qt, didRun)) (sys_log s)"

definition ownedFutures :: "('e, 's) pendingTask system \<Rightarrow> nat list" where
  "ownedFutures s = futuresOf (map qt_task (sys_accepted s @ sys_backlogged s))"

lemma mset_log:
  "mset (map (\<lambda>(src, qt, didRun). f qt) log)
     = mset (map f (loggedFrom FromChannel log)) + mset (map f (loggedFrom FromBacklog log))"
proof (induction log)
  case (Cons l log)
  obtain src qt b where "l = (src, qt, b)" by (rule prod_cases3)
  with Cons show ?case by (cases src) (simp_all add: loggedFrom_def)
qed (simp add: loggedFrom_simps)


text \<open>A lane that accepts one task, is stopped, runs the task and ends.\<close>

lemma sample_served:
  fixes t :: 't
  defines "qt \<equiv> \<lparr>qt_task = t, qt_key = accountRoutingKey 1\<rparr>"
  shows "\<exists>s. reachable True False False s \<and> sys_worker s = WExited
    \<and> sys_accepted s = [qt] \<and> sys_backlogged s = [] \<and> sys_log s = [(FromChannel, qt, True)]"
proof -
  note cl = reachable.Client [of True False False]
  note wk = reachable.Worker [of True False False]
  note defs = initial_def newKeyQueue_def newBase_def takeMandatoryCleanup_def refreshAfters_def
    beginSubmit_def endSubmitAdd_def endSubmitCheck_def signalStopOnce_def checkFence_def
    admitTask_def sendCh_def markSent_def closeQueueChannel_def handled_def afterTask_def settle_def
    finishWorker_def
  let ?s0 = "initial 1 0 :: 't system"
  let ?s1 = "?s0\<lparr>sys_base := newBase\<lparr>bs_inFlight := 1\<rparr>, sys_arriving := {#qt#}\<rparr>"
  let ?s2 = "?s1\<lparr>sys_arriving := {#}, sys_entered := {#qt#}\<rparr>"
  let ?s3 = "?s2\<lparr>sys_entered := {#}, sys_passed := {#qt#}\<rparr>"
  let ?q4 = "(newKeyQueue 1 0)\<lparr>kq_admitted := 1\<rparr>"
  let ?s4 = "?s3\<lparr>sys_passed := {#}, sys_q := ?q4, sys_inflight := {#(1, qt)#}\<rparr>"
  let ?q5 = "?q4\<lparr>kq_ch := [qt]\<rparr>"
  let ?s5 = "?s4\<lparr>sys_inflight := {#}, sys_q := ?q5, sys_accepted := [qt], sys_leaving := 1\<rparr>"
  let ?s6 = "?s5\<lparr>sys_leaving := 0, sys_base := newBase, sys_checking := 1\<rparr>"
  let ?s7 = "?s6\<lparr>sys_checking := 0\<rparr>"
  let ?s8 = "?s7\<lparr>sys_base := signalStopOnce newBase\<rparr>"
  let ?q9 = "?q5\<lparr>kq_closed := True, kq_chClosed := True\<rparr>"
  let ?s9 = "?s8\<lparr>sys_q := ?q9\<rparr>"
  let ?s10 = "?s9\<lparr>sys_worker := WSelect False\<rparr>"
  let ?q11 = "?q9\<lparr>kq_ch := []\<rparr>"
  let ?s11 = "?s10\<lparr>sys_q := ?q11, sys_worker := WTask FromChannel qt False False\<rparr>"
  let ?s12 = "?s11\<lparr>sys_log := [(FromChannel, qt, True)], sys_worker := WBusy FromChannel qt True False False\<rparr>"
  let ?s13 = "?s12\<lparr>sys_worker := WSettle False False\<rparr>"
  let ?q14 = "?q11\<lparr>kq_settled := 1\<rparr>"
  let ?s14 = "?s13\<lparr>sys_q := ?q14, sys_worker := WLoop False False\<rparr>"
  let ?s15 = "?s14\<lparr>sys_worker := WSelect False\<rparr>"
  let ?s16 = "?s15\<lparr>sys_worker := WLoop True False\<rparr>"
  let ?s17 = "?s16\<lparr>sys_worker := WFinish False True False\<rparr>"
  let ?s18 = "?s17\<lparr>sys_q := ?q14\<lparr>kq_workerExited := True\<rparr>, sys_worker := WExited\<rparr>"
  have "reachable True False False ?s0" by (rule reachable.Init) simp
  from cl [OF this client_step.Begin [where qt = qt]] have "reachable True False False ?s1"
    by (simp add: defs)
  from cl [OF this client_step.Enter [where qt = qt and M = "{#}"]] have "reachable True False False ?s2"
    by (simp add: defs)
  from cl [OF this client_step.FencePass [where qt = qt and M = "{#}"]] have "reachable True False False ?s3"
    by (simp add: defs)
  from cl [OF this client_step.Admit [where qt = qt and M = "{#}" and ticket = 1 and q = ?q4]]
  have "reachable True False False ?s4" by (simp add: defs)
  from cl [OF this client_step.Send [where qt = qt and I = "{#}" and ticket = 1 and q = ?q5]]
  have "reachable True False False ?s5" by (simp add: defs)
  from cl [OF this client_step.Leave [where n = 0 and zero = True and b = newBase]]
  have "reachable True False False ?s6" by (simp add: defs)
  from cl [OF this client_step.Check [where n = 0]] have "reachable True False False ?s7"
    by (simp add: defs)
  from cl [OF this client_step.Stop] have "reachable True False False ?s8" by (simp add: defs)
  from cl [OF this client_step.CloseChannels] have "reachable True False False ?s9" by (simp add: defs)
  from wk [OF this worker_step.TakeNone [where w = False and q = ?q9 and cc = False and lr = False]]
  have "reachable True False False ?s10" by (simp add: defs)
  from wk [OF this worker_step.Recv [where w = False and qt = qt and rest = "[]"]]
  have "reachable True False False ?s11" by (simp add: defs)
  from wk [OF this worker_step.Start [where src = FromChannel and qt = qt and cc = False and lr = False]]
  have "reachable True False False ?s12" by (simp add: defs)
  from wk [OF this worker_step.Complete [where src = FromChannel and qt = qt and didRun = True
      and cc = False and lr = False and now = 0]]
  have "reachable True False False ?s13" by (simp add: defs)
  from wk [OF this worker_step.Settle [where cc = False and lr = False]]
  have "reachable True False False ?s14" by (simp add: defs)
  from wk [OF this worker_step.TakeNone [where w = False and q = ?q14 and cc = False and lr = False]]
  have "reachable True False False ?s15" by (simp add: defs)
  from wk [OF this worker_step.RecvClosed [where w = False]]
  have "reachable True False False ?s16" by (simp add: defs)
  from wk [OF this worker_step.TakeNone [where w = False and q = ?q14 and cc = True and lr = False]]
  have "reachable True False False ?s17" by (simp add: defs)
  from wk [OF this worker_step.Finish [where exited = True and w = False and cc = True and lr = False
      and q = "?q14\<lparr>kq_workerExited := True\<rparr>"]]
  have "reachable True False False ?s18" by (simp add: defs)
  then show ?thesis by (intro exI conjI) (assumption, simp_all add: defs)
qed

definition sampleFacade :: "unit facade" where
  "sampleFacade = \<lparr>requests = (\<lambda>_. NewRequestFromHandle None),
     reservations = (\<lambda>_. NewReservationFromHandle None),
     operations = (\<lambda>_. NewDropCopyOperationFromHandle None),
     reports = (\<lambda>_. NewDryRunReportFromHandle None), nextPtr = 0, history = [], env = (),
     futures = (\<lambda>_. New VUnit), nextFuture = 1\<rparr>"

text \<open>
  C12: by the time its worker has exited, a lane has settled the future of every task its
  channel took, chains included, and of every cleanup its backlog took: when handling the
  logged tasks in order returns (a task that panics ends the process), it has resolved each
  of those futures exactly once, whether the tasks ran or a hard stop aborted them.
\<close>

theorem exited_lane_settles_futures:
  assumes "reachable careful gated tracksIdle s" and "sys_worker s = WExited"
    and "distinct (ownedFutures s)" and "handleAll x (handledTasks s) w = (Ret (), w')"
    and "f \<in> set (ownedFutures s)"
  shows "count_list (newEvents w w') (EvResolve f) = 1 \<and> Done (futures w' f)"
proof -
  have "mset (map fst (handledTasks s)) = mset (map qt_task (sys_accepted s @ sys_backlogged s))"
    using exited_lane_complete [OF assms(1,2)] mset_log [of qt_task "sys_log s"]
    by (simp add: handledTasks_def comp_def split_def)
  from mset_futuresOf [OF this] have one: "count_list (futuresOf (map fst (handledTasks s))) f = 1"
    using assms(3,5) by (metis ownedFutures_def count_mset distinct_count_atmost_1)
  have "settledAll (futuresOf (map fst (handledTasks s))) w w'"
    using handleAll_settles [of x "handledTasks s" w] assms(4) by (simp add: wp_def)
  with one show ?thesis
    by (simp add: settledAll_Done) (simp add: settledAll_def)
qed

theorem exited_lane_settles_futures_witness:
  "\<exists>(s :: (unit, unit) pendingTask system) w'. sys_worker s = WExited \<and> 0 \<in> set (ownedFutures s)
    \<and> count_list (newEvents (sampleFacade) w') (EvResolve 0) = 1 \<and> Done (futures w' 0)"
proof -
  obtain s where s: "reachable True False False (s :: (unit, unit) pendingTask system)" "sys_worker s = WExited"
    "sys_accepted s = [\<lparr>qt_task = submitTask 0 (ret None), qt_key = accountRoutingKey 1\<rparr>]"
    "sys_backlogged s = []"
    "sys_log s = [(FromChannel, \<lparr>qt_task = submitTask 0 (ret None), qt_key = accountRoutingKey 1\<rparr>, True)]"
    using sample_served [of "submitTask 0 (ret None) :: (unit, unit) pendingTask"] by blast
  have run: "handleAll sampleBoundary (handledTasks s) sampleFacade = (Ret (), snd (task_run sampleBoundary (submitTask 0 (ret None)) sampleFacade))"
    by (simp add: handledTasks_def s handleTask_def submitTask_run_def callHook_def emit_def onEnv_def
        modify_def bind_def ret_def resolve_def)
  have "0 \<in> set (ownedFutures s)" "distinct (ownedFutures s)"
    by (simp_all add: ownedFutures_def s)
  with exited_lane_settles_futures [OF s(1,2) _ run] s(2) show ?thesis by blast
qed

section \<open>The handle of a request\<close>

fun onRequest :: "ptr \<Rightarrow> ('e, 's) pendingTask \<Rightarrow> bool" where
  "onRequest q (executeRequestTask f p a) = (p = q)"
| "onRequest q (closeRequestTask f p a) = (p = q)"
| "onRequest q (RequestCleanup f p a v e) = (p = q)"
| "onRequest q t = False"

text \<open>
  \<open>orderly h evs\<close>: no native call reaches the request \<open>h\<close> after it was destroyed.
  \<open>released h d n u u'\<close>: going from \<open>u\<close> to \<open>u'\<close> destroys the request \<open>h\<close> \<open>d\<close> times, executes
  it at most \<open>n\<close> times, and is orderly.
\<close>

primrec orderly :: "handle \<Rightarrow> event list \<Rightarrow> bool" where
  "orderly h [] = True"
| "orderly h (ev # evs) =
     (if ev = EvNative (DestroyPretradePreTradeRequest h)
      then EvNative (PretradePreTradeRequestExecute h) \<notin> set evs
        \<and> EvNative (DestroyPretradePreTradeRequest h) \<notin> set evs
      else orderly h evs)"

definition released :: "handle \<Rightarrow> nat \<Rightarrow> nat \<Rightarrow> 'e facade \<Rightarrow> 'e facade \<Rightarrow> bool" where
  "released h d n u u' \<longleftrightarrow> extends u u'
     \<and> count_list (newEvents u u') (EvNative (DestroyPretradePreTradeRequest h)) = d
     \<and> count_list (newEvents u u') (EvNative (PretradePreTradeRequestExecute h)) \<le> n
     \<and> orderly h (newEvents u u')"

lemma orderly_untouched:
  "EvNative (DestroyPretradePreTradeRequest h) \<notin> set evs \<Longrightarrow> orderly h evs"
  by (induction evs) auto

lemma orderly_append:
  assumes "orderly h xs" "orderly h ys"
    and "EvNative (DestroyPretradePreTradeRequest h) \<in> set xs \<Longrightarrow>
      EvNative (PretradePreTradeRequestExecute h) \<notin> set ys
      \<and> EvNative (DestroyPretradePreTradeRequest h) \<notin> set ys"
  shows "orderly h (xs @ ys)"
  using assms by (induction xs) (auto split: if_splits)

lemma released_refl [simp]: "released h 0 n u u"
  by (simp add: released_def extends_def newEvents_def)

lemma released_trans:
  assumes "released h d n u v" "released h d' n' v w" "d = 0 \<or> d' = 0 \<and> n' = 0"
  shows "released h (d + d') (n + n') u w"
proof -
  have "history w = history u @ newEvents u v @ newEvents v w"
    using assms extends_history [of u v] extends_history [of v w] by (simp add: released_def)
  moreover have "orderly h (newEvents u v @ newEvents v w)"
    using assms by (intro orderly_append) (auto simp: released_def count_list_0_iff)
  ultimately show ?thesis
    using extendsI [of w u "newEvents u v @ newEvents v w"] assms by (auto simp: released_def)
qed

lemma released_step:
  "history u' = history u @ evs \<Longrightarrow>
     count_list evs (EvNative (DestroyPretradePreTradeRequest h)) = d \<Longrightarrow>
     count_list evs (EvNative (PretradePreTradeRequestExecute h)) \<le> n \<Longrightarrow> orderly h evs \<Longrightarrow>
     released h d n u u'"
  using extendsI [of u' u evs] by (simp add: released_def)

lemma reservation_natives [simp]:
  "EvNative (DestroyPretradePreTradeRequest h) \<notin> EvNative ` set (snd (Reservation_call op r))"
  "EvNative (PretradePreTradeRequestExecute h) \<notin> EvNative ` set (snd (Reservation_call op r))"
  by (cases op; auto simp: Reservation_call_def reservation_method_defs split: option.splits if_splits)+

lemma quiet_request:
  "wp (resolve f v e) (\<lambda>_ u'. requests u' = requests u \<and> released h 0 0 u u') (\<lambda>_ _. False) u"
  "wp (reservationDo x op p) (\<lambda>_ u'. requests u' = requests u \<and> released h 0 0 u u') (\<lambda>_ _. False) u"
  "wp (newReservation r) (\<lambda>_ u'. requests u' = requests u \<and> released h 0 0 u u') (\<lambda>_ _. False) u"
  by (auto simp: wp count_list_0_iff opened_def intro!: released_step orderly_untouched split: option.splits)

lemma quiet_bind:
  assumes "wp m (\<lambda>_ u'. requests u' = requests u \<and> released h 0 0 u u') (\<lambda>_ _. False) u"
    and "\<And>r v. wp (k r) (\<lambda>_ u'. requests u' = requests v \<and> released h 0 0 v u') (\<lambda>_ _. False) v"
  shows "wp (bind m k) (\<lambda>_ u'. requests u' = requests u \<and> released h 0 0 u u') (\<lambda>_ _. False) u"
  unfolding wp_bind
proof (rule wp_mono [OF assms(1)])
  fix r u' assume "requests u' = requests u \<and> released h 0 0 u u'"
  then show "wp (k r) (\<lambda>_ v. requests v = requests u \<and> released h 0 0 u v) (\<lambda>_ _. False) u'"
    by (intro wp_mono [OF assms(2)]) (auto dest: released_trans)
qed auto

lemma quiet_resolution:
  "wp (resolveReservationDriverResult x f p rejects e a)
     (\<lambda>_ u'. requests u' = requests u \<and> released h 0 0 u u') (\<lambda>_ _. False) u"
  by (auto simp: resolveReservationDriverResult_def resolveDriverResult_def wp_bind [of "read _"] wp_read
      wp_ret wp_bind [of "ret _"] split: option.splits intro!: quiet_request quiet_bind)

definition statusKnown :: "('e, 'x) boundary_scheme \<Rightarrow> bool" where
  "statusKnown x \<longleftrightarrow> (\<forall>h e n. fst (fst (c_request_execute x h e)) \<noteq> StatusOther n)"

definition liveReq :: "ptr \<Rightarrow> handle \<Rightarrow> 'e facade \<Rightarrow> bool" where
  "liveReq q h u \<longleftrightarrow> req_handle (requests u q) = Some h"

definition releasedTo :: "ptr \<Rightarrow> handle \<Rightarrow> 'e facade \<Rightarrow> 'e facade \<Rightarrow> bool" where
  "releasedTo q h u u' \<longleftrightarrow> Request_IsClosed (requests u' q)
     \<and> released h (if liveReq q h u then 1 else 0) (if liveReq q h u then 1 else 0) u u'"

lemma close_releases:
  assumes "liveReq q h u \<or> Request_IsClosed (requests u q)"
  shows "wp (requestClose x q) (\<lambda>_. releasedTo q h u) (\<lambda>_ _. False) u"
  using assms
  by (auto simp: wp releasedTo_def liveReq_def Request_IsClosed_def Request_Close_def
      intro!: released_step split: option.splits)

lemma execute_releases:
  assumes "liveReq q h u \<or> Request_IsClosed (requests u q)" "statusKnown x"
  shows "wp (executeInner x q) (\<lambda>_. releasedTo q h u) (\<lambda>_ _. False) u"
  unfolding executeInner_def wp_deferring
proof (rule wp_Request_Execute [where h = h], goal_cases)
  case (1 status rh rejects m e r)
  then have "releasedBy status rh h = []"
    using assms(2) by (cases status) (simp_all add: releasedBy_def, metis statusKnown_def fst_conv)
  with 1(1) show ?case
    by (auto simp: wp releasedTo_def liveReq_def Request_IsClosed_def Request_Close_def
        intro!: released_step)
next
  case 2
  then show ?case
    by (auto simp: wp releasedTo_def liveReq_def Request_IsClosed_def Request_Close_def
        intro!: released_step)
next
  case 3
  with assms(1) show ?case by (auto simp: liveReq_def Request_IsClosed_def)
qed

lemma releasedTo_quiet:
  "releasedTo q h u v \<Longrightarrow> requests w = requests v \<Longrightarrow> released h 0 0 v w \<Longrightarrow> releasedTo q h u w"
  by (auto simp: releasedTo_def dest: released_trans)

lemma releases_bind:
  assumes "wp m (\<lambda>_. releasedTo q h u) (\<lambda>_ _. False) u"
    and "\<And>r v. wp (k r) (\<lambda>_ u'. requests u' = requests v \<and> released h 0 0 v u') (\<lambda>_ _. False) v"
  shows "wp (bind m k) (\<lambda>_. releasedTo q h u) (\<lambda>_ _. False) u"
  unfolding wp_bind
proof (rule wp_mono [OF assms(1)])
  fix r v assume "releasedTo q h u v"
  then show "wp (k r) (\<lambda>_. releasedTo q h u) (\<lambda>_ _. False) v"
    by (intro wp_mono [OF assms(2)]) (auto intro: releasedTo_quiet)
qed auto

lemma handleTask_releases:
  assumes "liveReq q h u \<or> Request_IsClosed (requests u q)" "statusKnown x" "onRequest q t"
  shows "wp (handleTask x b t) (\<lambda>_. releasedTo q h u) (\<lambda>_ _. False) u"
  using assms(3)
  by (cases t) (auto simp: handleTask_def task_run_defs intro!: releases_bind close_releases
      execute_releases assms(1,2) quiet_request quiet_bind quiet_resolution split: prod.splits)

lemma handleAll_releases:
  assumes "statusKnown x" "list_all (\<lambda>(t, b). onRequest q t) ts"
    "liveReq q h u \<and> ts \<noteq> [] \<or> Request_IsClosed (requests u q)"
  shows "wp (handleAll x ts) (\<lambda>_. releasedTo q h u) (\<lambda>_ _. False) u"
  using assms(2,3)
proof (induction ts arbitrary: u)
  case Nil
  then show ?case by (auto simp: wp releasedTo_def liveReq_def Request_IsClosed_def)
next
  case (Cons l ts)
  obtain t b where l: "l = (t, b)" by fastforce
  have "wp (handleTask x b t) (\<lambda>_. releasedTo q h u) (\<lambda>_ _. False) u"
    using Cons.prems l by (intro handleTask_releases assms(1)) auto
  then show ?case unfolding l handleAll.simps wp_bind
  proof (rule wp_mono)
    fix r v assume v: "releasedTo q h u v"
    have "wp (handleAll x ts) (\<lambda>_. releasedTo q h v) (\<lambda>_ _. False) v"
      using Cons.prems v by (intro Cons.IH) (auto simp: releasedTo_def)
    then show "wp (handleAll x ts) (\<lambda>_. releasedTo q h u) (\<lambda>_ _. False) v"
    proof (rule wp_mono)
      fix r' w assume "releasedTo q h v w"
      with v show "releasedTo q h u w"
        by (auto simp: releasedTo_def liveReq_def Request_IsClosed_def dest: released_trans)
    qed auto
  qed auto
qed

text \<open>
  C13: whatever mix of \<^verbatim>\<open>Execute\<close> and \<^verbatim>\<open>Close\<close> tasks and failed-submit cleanups a
  lane handles for one accepted request, run or aborted, in any order: its native handle is
  destroyed exactly once and executed at most once, no native call reaches it after it was
  destroyed, the request ends closed, and nothing panics.  This is so as long as the native
  execution reports one of the statuses its header lists (\<open>statusKnown\<close>); the lemma after the
  next shows a second destruction without that.
\<close>

theorem request_handle_released_once:
  assumes "statusKnown x" and "list_all (\<lambda>(t, b). onRequest q t) ts" and "ts \<noteq> []"
    and "req_handle (requests w q) = Some h"
  shows "\<exists>w'. handleAll x ts w = (Ret (), w') \<and> Request_IsClosed (requests w' q)
    \<and> count_list (newEvents w w') (EvNative (DestroyPretradePreTradeRequest h)) = 1
    \<and> count_list (newEvents w w') (EvNative (PretradePreTradeRequestExecute h)) \<le> 1
    \<and> orderly h (newEvents w w')"
  using handleAll_releases [OF assms(1,2), of h w] assms(3,4)
  by (auto simp: wp_def releasedTo_def released_def liveReq_def split: prod.splits res.splits)

definition sampleRequest :: "unit facade" where
  "sampleRequest = sampleFacade\<lparr>requests := (\<lambda>_. NewRequestFromHandle (Some 3)), nextPtr := 1\<rparr>"

theorem request_handle_released_once_witness:
  "\<exists>w'. handleAll sampleBoundary
      [(executeRequestTask 0 0 5 :: (unit, unit) pendingTask, True), (closeRequestTask 1 0 5, False)]
      sampleRequest = (Ret (), w')
    \<and> count_list (newEvents sampleRequest w') (EvNative (DestroyPretradePreTradeRequest 3)) = 1"
  using request_handle_released_once [of sampleBoundary 0
      "[(executeRequestTask 0 0 5 :: (unit, unit) pendingTask, True), (closeRequestTask 1 0 5, False)]"
      sampleRequest 3]
  by (auto simp: statusKnown_def sampleBoundary_def sampleRequest_def sampleFacade_def
      NewRequestFromHandle_def)

text \<open>
  The proviso is needed.  On a status the binding does not know, the cgo wrapper destroys
  the request it was lent, and \<^verbatim>\<open>executeInner\<close> destroys it again when it closes it.
\<close>

lemma unknown_status_destroys_request_twice:
  "\<exists>(x :: unit boundary) w w'. req_handle (requests w 0) = Some 3
    \<and> task_run x (executeRequestTask 0 0 5 :: (unit, unit) pendingTask) w = (Ret (), w')
    \<and> count_list (newEvents w w') (EvNative (DestroyPretradePreTradeRequest 3)) = 2"
proof -
  let ?x = "sampleBoundary\<lparr>c_request_execute := (\<lambda>h e. ((StatusOther 9, None, None, []), e))\<rparr>"
  let ?run = "task_run ?x (executeRequestTask 0 0 5 :: (unit, unit) pendingTask) sampleRequest"
  have "req_handle (requests sampleRequest 0) = Some 3 \<and> fst ?run = Ret ()
      \<and> count_list (newEvents sampleRequest (snd ?run)) (EvNative (DestroyPretradePreTradeRequest 3)) = 2"
    by (simp add: sampleRequest_def sampleFacade_def NewRequestFromHandle_def executeRequestTask_run_def
        executeInner_def deferring_def Request_Execute_def nativeRequestExecute_def emit_def onEnv_def
        natives_def modify_def bind_def ret_def newReservation_def resolveReservationDriverResult_def
        resolveDriverResult_def read_def validateDriverResult_def resolve_def requestClose_def
        Request_Close_def newEvents_def)
  then show ?thesis by (metis prod.collapse)
qed

end
