(* ===== verification/Engine_Lanes.thy ===== *)
theory Engine_Lanes
  imports Engine_Props
begin

text \<open>
  The public calls of the facade as one datatype: how each is routed, that its task stays in
  the lane it was routed to, and what the caller's future shows when the call returns.
\<close>

section \<open>Public calls\<close>

datatype 'e facade_call =
    CStartPreTrade order
  | CExecutePreTrade order
  | CApplyDropCopy order
  | CApplyExecutionReport executionReport
  | CApplyAccountAdjustment accountID "adjustment list"
  | CSubmit accountID "('e, err) go"
  | CGroupOf accountID
  | CBlock accountID string
  | CBlockWithCause accountID accountBlock
  | CUnblock accountID
  | CUnblockAll
  | CReplaceBlockReason accountID string
  | CBlockGroup accountGroupID string
  | CUnblockGroup accountGroupID
  | CReplaceGroupBlockReason accountGroupID string

fun facadeCall :: "('e, 's) strategy \<Rightarrow> go_context \<Rightarrow> 'e facade_call \<Rightarrow> ('e, nat) fac" where
  "facadeCall st ctx (CStartPreTrade ord) = AsyncEngine_StartPreTrade st ctx ord"
| "facadeCall st ctx (CExecutePreTrade ord) = AsyncEngine_ExecutePreTrade st ctx ord"
| "facadeCall st ctx (CApplyDropCopy ord) = AsyncEngine_ApplyDropCopy st ctx ord"
| "facadeCall st ctx (CApplyExecutionReport rep) = AsyncEngine_ApplyExecutionReport st ctx rep"
| "facadeCall st ctx (CApplyAccountAdjustment a adjs) = AsyncEngine_ApplyAccountAdjustment st ctx a adjs"
| "facadeCall st ctx (CSubmit a fn) = AsyncEngine_Submit st ctx a fn"
| "facadeCall st ctx (CGroupOf a) = AsyncAccounts_GroupOf st ctx a"
| "facadeCall st ctx (CBlock a r) = AsyncAccounts_Block st ctx a r"
| "facadeCall st ctx (CBlockWithCause a c) = AsyncAccounts_BlockWithCause st ctx a c"
| "facadeCall st ctx (CUnblock a) = AsyncAccounts_Unblock st ctx a"
| "facadeCall st ctx CUnblockAll = AsyncAccounts_UnblockAll st ctx"
| "facadeCall st ctx (CReplaceBlockReason a r) = AsyncAccounts_ReplaceBlockReason st ctx a r"
| "facadeCall st ctx (CBlockGroup g r) = AsyncAccounts_BlockGroup st ctx g r"
| "facadeCall st ctx (CUnblockGroup g) = AsyncAccounts_UnblockGroup st ctx g"
| "facadeCall st ctx (CReplaceGroupBlockReason g r) = AsyncAccounts_ReplaceGroupBlockReason st ctx g r"

text \<open>The early error of a call, or the key it is routed by and its task.\<close>

fun prepare :: "'e facade_call \<Rightarrow> ('e, 's) preparation" where
  "prepare (CStartPreTrade ord) = onAccount (extractOrderAccountID ord) (\<lambda>a f. startPreTradeTask f ord a)"
| "prepare (CExecutePreTrade ord) = onAccount (extractOrderAccountID ord) (\<lambda>a f. executePreTradeTask f ord a)"
| "prepare (CApplyDropCopy ord) = onAccount (extractOrderAccountID ord) (\<lambda>a f. applyDropCopyTask f ord a)"
| "prepare (CApplyExecutionReport rep) = onAccount (extractReportAccountID rep) (\<lambda>_ f. applyReportTask f rep)"
| "prepare (CApplyAccountAdjustment a adjs) = Inr (accountRoutingKey a, \<lambda>f. applyAdjustmentTask f adjs a)"
| "prepare (CSubmit a fn) = Inr (accountRoutingKey a, \<lambda>f. submitTask f fn)"
| "prepare (CGroupOf a) = Inr (accountRoutingKey a, \<lambda>f. groupOfTask f a)"
| "prepare (CBlock a r) = Inr (accountRoutingKey a, \<lambda>f. blockTask f a r)"
| "prepare (CBlockWithCause a c) = Inr (accountRoutingKey a, \<lambda>f. blockWithCauseTask f a c)"
| "prepare (CUnblock a) = Inr (accountRoutingKey a, \<lambda>f. unblockTask f a)"
| "prepare CUnblockAll = Inr (engineWideRoutingKey, \<lambda>f. unblockAllTask f)"
| "prepare (CReplaceBlockReason a r) = Inr (accountRoutingKey a, \<lambda>f. replaceBlockReasonTask f a r)"
| "prepare (CBlockGroup g r) = onGroup g (\<lambda>f. blockGroupTask f g r)"
| "prepare (CUnblockGroup g) = onGroup g (\<lambda>f. unblockGroupTask f g)"
| "prepare (CReplaceGroupBlockReason g r) = onGroup g (\<lambda>f. replaceGroupBlockReasonTask f g r)"

fun zeroOf :: "'e facade_call \<Rightarrow> asyncValue" where
  "zeroOf (CStartPreTrade ord) = VRequest None []"
| "zeroOf (CExecutePreTrade ord) = VReservation None []"
| "zeroOf (CApplyDropCopy ord) = VOperation None []"
| "zeroOf (CApplyExecutionReport rep) = VPostTrade zeroPostTradeResult"
| "zeroOf (CApplyAccountAdjustment a adjs) = VBatch zeroBatchResult"
| "zeroOf (CGroupOf a) = VGroup None"
| "zeroOf _ = VUnit"

lemmas facade_op_defs = AsyncEngine_StartPreTrade_def AsyncEngine_ExecutePreTrade_def
  AsyncEngine_ApplyDropCopy_def AsyncEngine_ApplyExecutionReport_def
  AsyncEngine_ApplyAccountAdjustment_def AsyncEngine_Submit_def AsyncAccounts_GroupOf_def
  AsyncAccounts_Block_def AsyncAccounts_BlockWithCause_def AsyncAccounts_Unblock_def
  AsyncAccounts_UnblockAll_def AsyncAccounts_ReplaceBlockReason_def AsyncAccounts_BlockGroup_def
  AsyncAccounts_UnblockGroup_def AsyncAccounts_ReplaceGroupBlockReason_def

lemma facadeCall_prepared: "facadeCall st ctx c = asyncCall st ctx (zeroOf c) (prepare c)"
  by (cases c) (simp_all add: facade_op_defs)

lemmas prepare_cases = onAccount_def onGroup_def

lemma prepared_task:
  "prepare c = Inr (key, task) \<Longrightarrow> taskFuture (task f) = Some f \<and> zeroValue (task f) = zeroOf c"
  by (cases c) (auto simp: prepare_cases split: sum.splits option.splits)

section \<open>A task stays in its lane\<close>

lemma inLane_upd:
  "inLane h0 key f \<Longrightarrow> history g = history f @ evs \<Longrightarrow> list_all (laneEvent key) evs \<Longrightarrow> inLane h0 key g"
  by (auto simp: inLane_def)

lemma lane_resolve:
  assumes "inLane h0 key u" "\<And>g. inLane h0 key g \<Longrightarrow> Q () g"
  shows "wp (resolve f v e) Q E u"
  by (auto simp: wp intro!: assms(2) inLane_upd [OF assms(1)])

lemma lane_handle:
  assumes "inLane h0 key u"
  shows "(\<And>p g. inLane h0 key g \<Longrightarrow> Q1 p g) \<Longrightarrow> wp (newRequest r) Q1 E u"
    "(\<And>p g. inLane h0 key g \<Longrightarrow> Q1 p g) \<Longrightarrow> wp (newReservation rr) Q1 E u"
    "(\<And>p g. inLane h0 key g \<Longrightarrow> Q1 p g) \<Longrightarrow> wp (newOperation ro) Q1 E u"
    "(\<And>g. inLane h0 key g \<Longrightarrow> Q () g) \<Longrightarrow> wp (requestClose x q) Q E u"
    "(\<And>g. inLane h0 key g \<Longrightarrow> Q () g) \<Longrightarrow> wp (reservationDo x op q) Q E u"
    "(\<And>g. inLane h0 key g \<Longrightarrow> Q () g) \<Longrightarrow> wp (operationDo x op q) Q E u"
  using assms by (auto simp: wp opened_def inLane_def split: option.splits)

lemma lane_resolution:
  assumes "inLane h0 key u" "\<And>v q. inLane h0 key v \<Longrightarrow> wp (close q) (\<lambda>_. inLane h0 key) (\<lambda>_ _. True) v"
  shows "wp (resolveDriverResult live close value f p rejects e a) (\<lambda>_. inLane h0 key) (\<lambda>_ _. True) u"
proof -
  have "wp (bind (close q) (\<lambda>_. resolve f v er)) (\<lambda>_. inLane h0 key) (\<lambda>_ _. True) u" for q v er
    unfolding wp_bind by (rule wp_mono [OF assms(2) [OF assms(1)]]) (auto intro: lane_resolve)
  with assms(1) show ?thesis
    by (auto simp: resolveDriverResult_def wp_bind [of "read _"] wp_bind [of "ret _"] wp_read wp_ret
        intro!: lane_resolve split: option.splits)
qed

lemma prepared_in_lane:
  assumes "prepare c = Inr (key, task)" "inLane h0 key u"
  shows "wp (task_run x (task f)) (\<lambda>_. inLane h0 key) (\<lambda>_ _. True) u"
  using assms(1)
  by (cases c)
    (auto simp: prepare_cases task_run_defs wp_bind resolveRequestDriverResult_def
       resolveReservationDriverResult_def resolveOperationDriverResult_def
       intro!: lane_driver [of h0 key] lane_hook [of h0 key] lane_resolve [of h0 key]
         lane_resolution lane_handle [of h0 key] assms(2)
       split: sum.splits option.splits if_splits)

text \<open>
  A public call is queued under the key of the account or group it concerns (the
  engine-wide key for \<^verbatim>\<open>UnblockAll\<close>), its task resolves the call's own future, and every
  driver call the task makes concerns that account or group.
\<close>

lemma facade_task_stays_in_lane:
  assumes "prepare c = Inr (key, task)" and "task_run x (task f) w = (Ret (), w')"
  shows "inLane (history w) key w' \<and> taskFuture (task f) = Some f \<and> zeroValue (task f) = zeroOf c"
proof -
  have "inLane (history w) key w" by (simp add: inLane_def)
  from prepared_in_lane [OF assms(1) this, of x f] assms show ?thesis
    by (simp add: wp_def prepared_task)
qed

text \<open>
  A refused call is reported at once: when the arguments carry no usable account or
  group, or the strategy refuses the task, the returned future already holds the zero value
  and that error.
\<close>

lemma refused_call_resolves_zero:
  fixes st :: "('e, 's) strategy"
  assumes "(prepare c :: ('e, 's) preparation) = Inl e \<or>
      prepare c = Inr (key, task)
        \<and> st_submit st ctx key (task (nextFuture w)) (snd (newFuture (zeroOf c) w)) = (Ret (Some e), w2)
        \<and> \<not> Done (futures w2 (nextFuture w))"
  shows "\<exists>w'. facadeCall st ctx c w = (Ret (nextFuture w), w')
    \<and> TryGet (zeroOf c) (futures w' (nextFuture w)) = (zeroOf c, True, Some e)"
  using assms
  by (auto simp: facadeCall_prepared asyncCall_def newFuture_def resolve_def emit_def modify_def
      bind_def ret_def TryGet_def Resolve_def New_def Done_def)

definition sampleRefusing :: "(unit, unit) strategy" where
  "sampleRefusing = \<lparr>st_submit = (\<lambda>_ _ _. ret (Some (Sentinel ErrStopped))), st_schedule = (\<lambda>_ _. ret ())\<rparr>"

section \<open>Stopping the facade\<close>

fun stopCalls :: "(bool \<times> err) list \<Rightarrow> asyncEngine \<Rightarrow> asyncEngine" where
  "stopCalls [] en = en"
| "stopCalls ((hard, result) # rs) en =
     stopCalls rs (snd (if hard then StopHard result en else StopGraceful result en))"

lemma stop_result [simp]:
  "(if hard then StopHard r en else StopGraceful r en) = (r, if r = None then releaseUnderlying en else en)"
  by (simp add: StopHard_def StopGraceful_def)

lemma stopCalls_done:
  "ae_stopOnce en \<Longrightarrow> ae_calls (stopCalls rs en) = ae_calls en"
  by (induction rs en rule: stopCalls.induct)
    (auto simp: releaseUnderlying_def split: if_splits)

text \<open>
  However \<^verbatim>\<open>StopGraceful\<close> and \<^verbatim>\<open>StopHard\<close> are mixed and repeated, the wrapped
  engine is released exactly once when one of them succeeds and a release was wired, and
  never otherwise.
\<close>

lemma underlying_released_once:
  "ae_calls (stopCalls rs (newAsyncEngine wired)) =
     (if wired \<and> list_ex (\<lambda>(hard, result). result = None) rs then 1 else 0)"
proof -
  have "\<not> ae_stopOnce en \<Longrightarrow> ae_calls (stopCalls rs en) = ae_calls en
      + (if ae_hasStopUnderlying en \<and> list_ex (\<lambda>(hard, result). result = None) rs then 1 else 0)" for en
    by (induction rs en rule: stopCalls.induct)
      (auto simp: releaseUnderlying_def stopCalls_done)
  from this [of "newAsyncEngine wired"] show ?thesis by (simp add: newAsyncEngine_def)
qed

end
