(* ===== verification/Lane_Refine.thy ===== *)
theory Lane_Refine
  imports Lane_Props
begin

text \<open>
  Two views of a lane as a whole: it refines an abstract queue with ordered cleanup, and
  once it is stopped its worker ends after a bounded number of steps.
\<close>

section \<open>The abstract lane\<close>

text \<open>
  A lane promises to serve accepted tasks first in, first out, and cleanup in order of
  registration, each entry only once the tasks accepted before it (\<open>snd\<close> of the entry
  counts them) have been served.  \<open>Renew\<close> is the later ordering a cleanup registered after
  stop gets when the submit fence closes.
\<close>

record 't laneSpec =
  ls_pending :: "'t queuedTask list"
  ls_cleanup :: "('t queuedTask \<times> nat) list"
  ls_served :: "(source \<times> 't queuedTask) list"

definition servedTasks :: "'t laneSpec \<Rightarrow> nat" where
  "servedTasks l = length (filter (\<lambda>(src, qt). src = FromChannel) (ls_served l))"

definition acceptedTasks :: "'t laneSpec \<Rightarrow> nat" where
  "acceptedTasks l = servedTasks l + length (ls_pending l)"

inductive spec_step :: "'t laneSpec \<Rightarrow> 't laneSpec \<Rightarrow> bool" where
  Accept: "spec_step l (l\<lparr>ls_pending := ls_pending l @ [qt]\<rparr>)"
| Register: "spec_step l (l\<lparr>ls_cleanup := ls_cleanup l @ [(qt, acceptedTasks l)]\<rparr>)"
| Renew: "ls_cleanup l = (qt, n) # rest \<Longrightarrow>
    spec_step l (l\<lparr>ls_cleanup := (qt, acceptedTasks l) # rest\<rparr>)"
| Serve: "ls_pending l = qt # rest \<Longrightarrow>
    spec_step l (l\<lparr>ls_pending := rest, ls_served := ls_served l @ [(FromChannel, qt)]\<rparr>)"
| Release: "ls_cleanup l = (qt, n) # rest \<Longrightarrow> n \<le> servedTasks l \<Longrightarrow>
    spec_step l (l\<lparr>ls_cleanup := rest, ls_served := ls_served l @ [(FromBacklog, qt)]\<rparr>)"

text \<open>
  The abstraction: a task the worker has in hand counts as served; an entry carries the
  count the machine recorded for it.
\<close>

fun inHand :: "'t worker \<Rightarrow> (source \<times> 't queuedTask) list" where
  "inHand (WTask src qt cc lr) = [(src, qt)]"
| "inHand _ = []"

definition laneAbs :: "'t system \<Rightarrow> 't laneSpec" where
  "laneAbs s =
     \<lparr>ls_pending = kq_ch (sys_q s),
      ls_cleanup = zip (map en_task (kq_mandatory (sys_q s))) (sys_afters s),
      ls_served = map (\<lambda>(src, qt, didRun). (src, qt)) (sys_log s) @ inHand (sys_worker s)\<rparr>"

lemma inHand_afterTask [simp]: "inHand (afterTask src cc lr) = []"
  by (simp add: afterTask_def split: source.splits)

lemma served_laneAbs:
  "servedTasks (laneAbs s)
     = length (loggedFrom FromChannel (sys_log s)) + length (current FromChannel (sys_worker s))"
proof -
  have "length (filter (\<lambda>(src, qt). src = FromChannel) (map (\<lambda>(src, qt, didRun). (src, qt)) log))
      = length (loggedFrom FromChannel log)" for log :: "(source \<times> 'a queuedTask \<times> bool) list"
    by (induction log) (auto simp: loggedFrom_def)
  then show ?thesis
    by (cases "sys_worker s") (auto simp: servedTasks_def laneAbs_def)
qed

lemma accepted_laneAbs: "fifoInv s \<Longrightarrow> acceptedTasks (laneAbs s) = length (sys_accepted s)"
  by (simp add: acceptedTasks_def served_laneAbs fifoInv_def) (simp add: laneAbs_def)

lemma afters_length: "orderInv s \<Longrightarrow> length (sys_afters s) = length (kq_mandatory (sys_q s))"
  by (auto simp: orderInv_def dest: list_all2_lengthD)

section \<open>Client steps\<close>

lemma client_refines:
  assumes "client_step careful gated ti s s'" "laneInv s"
  shows "laneAbs s' = laneAbs s \<or> spec_step (laneAbs s) (laneAbs s')"
  using assms
proof (induction rule: client_step.induct)
  case (Send s ticket qt I q now)
  then have "laneAbs (s\<lparr>sys_inflight := I, sys_q := markSent ti now q,
      sys_accepted := sys_accepted s @ [qt], sys_leaving := sys_leaving s + 1\<rparr>)
    = (laneAbs s)\<lparr>ls_pending := ls_pending (laneAbs s) @ [qt]\<rparr>"
    by (auto simp: laneAbs_def sendCh_def markSent_def split: if_splits)
  then show ?case by (simp add: spec_step.Accept)
next
  case (Mandatory wait qt s q)
  then have "length (sys_afters s) = length (kq_mandatory (sys_q s))"
    by (simp add: laneInv_def afters_length)
  with Mandatory have "laneAbs (s\<lparr>sys_q := q, sys_backlogged := sys_backlogged s @ [qt],
      sys_afters := sys_afters s @ [length (sys_accepted s)], sys_touching := sys_touching s + 1\<rparr>)
    = (laneAbs s)\<lparr>ls_cleanup := ls_cleanup (laneAbs s) @ [(qt, length (sys_accepted s))]\<rparr>"
    by (auto simp: laneAbs_def enqueueMandatory_def markSent_def Let_def split: if_splits)
  moreover have "acceptedTasks (laneAbs s) = length (sys_accepted s)"
    using Mandatory by (simp add: accepted_laneAbs laneInv_def)
  ultimately show ?case by (metis spec_step.Register)
next
  case (Late s s')
  then show ?case using late_same [OF Late(1)] by (simp add: laneAbs_def)
qed (auto simp: laneAbs_def admitTask_def unmarkSent_def closeQueueChannel_def retireQueue_def
    markRetired_def comp_def split: if_splits)

section \<open>Worker steps\<close>

text \<open>The fence refresh at the head of the backlog, on its own.\<close>

definition refreshAbs :: "'t system \<Rightarrow> 't laneSpec" where
  "refreshAbs s = (laneAbs s)\<lparr>ls_cleanup := zip (map en_task (kq_mandatory (sys_q s))) (refreshAfters s)\<rparr>"

lemma refresh_refines:
  assumes "laneInv s"
  shows "refreshAbs s = laneAbs s \<or> spec_step (laneAbs s) (refreshAbs s)"
proof (cases "kq_mandatory (sys_q s)")
  case (Cons en rest)
  with assms obtain n ns where ns: "sys_afters s = n # ns"
    using afters_length [of s] by (cases "sys_afters s") (auto simp: laneInv_def)
  have "acceptedTasks (laneAbs s) = length (sys_accepted s)"
    using assms by (simp add: accepted_laneAbs laneInv_def)
  with spec_step.Renew [of "laneAbs s" "en_task en" n "zip (map en_task rest) ns"] Cons ns
  show ?thesis by (auto simp: refreshAbs_def refreshAfters_def laneAbs_def)
qed (simp add: refreshAbs_def laneAbs_def)

lemma tasks_refreshed [simp]:
  "map en_task (refreshed fence q) = map en_task (kq_mandatory q)"
  by (simp add: refreshed_def split: list.splits)

lemma take_refines:
  assumes "reachable careful gated ti s" "sys_worker s = WLoop cc lr"
    "takeMandatoryCleanup (bs_submitFence (sys_base s)) (sys_q s) = (Ready qt, q)"
  shows "spec_step (refreshAbs s)
    (laneAbs (s\<lparr>sys_q := q, sys_afters := tl (refreshAfters s), sys_worker := WTask FromBacklog qt cc lr\<rparr>))"
proof -
  have "flagInv s" using reachable_inv [OF assms(1)] by (simp add: laneInv_def)
  from take_mandatory(2) [OF this assms(3)] obtain en where
    en: "refreshed (bs_submitFence (sys_base s)) (sys_q s) = en # kq_mandatory q" "en_task en = qt"
    by blast
  have tasks: "map en_task (kq_mandatory (sys_q s)) = qt # map en_task (kq_mandatory q)"
    using arg_cong [OF en(1), of "map en_task"] en(2) by simp
  obtain n ns where ns: "refreshAfters s = n # ns" "n \<le> length (loggedFrom FromChannel (sys_log s))"
    using taken_cleanup_ordered [OF assms] by (cases "refreshAfters s") auto
  have "servedTasks (refreshAbs s) = servedTasks (laneAbs s)"
    by (simp add: refreshAbs_def servedTasks_def)
  with ns(2) have "n \<le> servedTasks (refreshAbs s)"
    using assms(2) by (simp add: served_laneAbs)
  from spec_step.Release [OF _ this, of qt "zip (map en_task (kq_mandatory q)) ns"] show ?thesis
    using tasks ns(1) take_simps [OF assms(3)] assms(2)
    by (simp add: refreshAbs_def laneAbs_def)
qed

lemma worker_refines:
  assumes "worker_step ti s s'" "reachable careful gated ti s"
  shows "laneAbs s' = laneAbs s \<or> spec_step\<^sup>*\<^sup>* (laneAbs s) (laneAbs s')"
  using assms
proof (induction rule: worker_step.induct)
  case (TakeReady s cc lr qt q)
  have "spec_step\<^sup>*\<^sup>* (laneAbs s) (refreshAbs s)"
    using refresh_refines [OF reachable_inv [OF TakeReady(3)]] by auto
  moreover note take_refines [OF TakeReady(3,1,2)]
  ultimately show ?case by (metis rtranclp.rtrancl_into_rtrancl)
next
  case (TakeNone s cc lr w q)
  have inv: "laneInv s" by (rule reachable_inv [OF TakeNone(3)])
  then have "kq_mandatory q = refreshed (bs_submitFence (sys_base s)) (sys_q s)"
    using take_mandatory(1) [OF _ TakeNone(2)] by (simp add: laneInv_def)
  then have "laneAbs (s\<lparr>sys_q := q, sys_afters := refreshAfters s,
      sys_worker := (if cc \<or> lr then WFinish w cc lr else WSelect w)\<rparr>) = refreshAbs s"
    using take_simps [OF TakeNone(2)] TakeNone(1) by (simp add: laneAbs_def refreshAbs_def)
  with refresh_refines [OF inv] show ?case by auto
next
  case (Recv s w qt rest)
  then have "spec_step (laneAbs s) (laneAbs (s\<lparr>sys_q := (sys_q s)\<lparr>kq_ch := rest\<rparr>,
      sys_worker := WTask FromChannel qt False False\<rparr>))"
    using spec_step.Serve [of "laneAbs s" qt rest] by (simp add: laneAbs_def)
  then show ?case by blast
next
  case (DrainAbort s qt rest now)
  then have "spec_step (laneAbs s) (laneAbs (s\<lparr>sys_q := handled ti now False ((sys_q s)\<lparr>kq_ch := rest\<rparr>),
      sys_log := sys_log s @ [(FromChannel, qt, False)], sys_worker := WDrainSettle\<rparr>))"
    using spec_step.Serve [of "laneAbs s" qt rest] by (simp add: laneAbs_def handled_def)
  then show ?case by blast
next
  case (Finish s w cc lr exited q)
  with finish_simps [OF Finish(2)] show ?case by (simp add: laneAbs_def)
qed (simp_all add: laneAbs_def handled_def settle_def)

text \<open>
  C14: the lane refines its specification.  Every step of a producer, of the stop and cleanup
  callers, of idle retirement or of the worker, from any reachable state, leaves the abstract
  lane as it is or moves it by abstract steps: tasks are served first in, first out, and
  cleanup is released in order and never before the work accepted ahead of it.
\<close>

theorem lane_refines_spec:
  assumes "reachable careful gated tracksIdle s"
    and "client_step careful gated tracksIdle s s' \<or> worker_step tracksIdle s s'"
  shows "spec_step\<^sup>*\<^sup>* (laneAbs s) (laneAbs s')"
  using assms(2)
proof
  assume "client_step careful gated tracksIdle s s'"
  from client_refines [OF this reachable_inv [OF assms(1)]] show ?thesis by auto
next
  assume "worker_step tracksIdle s s'"
  from worker_refines [OF this assms(1)] show ?thesis by auto
qed

theorem lane_refines_spec_witness:
  "\<exists>l. spec_step\<^sup>*\<^sup>* (laneAbs (initial 1 0)) l \<and> ls_cleanup l = [(sampleTasks, 0)]"
proof -
  let ?q = "snd (enqueueMandatory False False sampleTasks (newKeyQueue 1 0))"
  let ?s = "(initial 1 0)\<lparr>sys_q := ?q, sys_backlogged := [sampleTasks], sys_afters := [0], sys_touching := 1\<rparr>"
  have "client_step True False False (initial 1 0) ?s"
    using client_step.Mandatory [of False False sampleTasks "initial 1 0" ?q True False]
    by (simp add: initial_def newKeyQueue_def enqueueMandatory_def Let_def)
  moreover have "reachable True False False (initial 1 0 :: nat system)" by (rule reachable.Init) simp
  ultimately have "spec_step\<^sup>*\<^sup>* (laneAbs (initial 1 0)) (laneAbs ?s)"
    using lane_refines_spec by blast
  moreover have "ls_cleanup (laneAbs ?s) = [(sampleTasks, 0)]"
    by (simp add: laneAbs_def initial_def newKeyQueue_def enqueueMandatory_def markSent_def Let_def)
  ultimately show ?thesis by blast
qed

section \<open>The end of a stopped lane\<close>

fun workerRank :: "'t worker \<Rightarrow> nat" where
  "workerRank (WLoop cc lr) = (if cc \<or> lr then 3 else 7)"
| "workerRank (WTask src qt cc lr) = 10"
| "workerRank (WBusy src qt r cc lr) = 9"
| "workerRank (WSettle cc lr) = 8"
| "workerRank (WSelect w) = (if w then 8 else 6)"
| "workerRank (WFinish w cc lr) = (if w then 5 else 2)"
| "workerRank (WParked w cc lr) = (if w then 4 else 1)"
| "workerRank WDrain = 4"
| "workerRank WDrainSettle = 5"
| "workerRank WExited = 0"

text \<open>
  Each task the lane still owes costs the worker at most ten steps; a wake that is still to
  be sent costs its caller two steps and the worker one more round.
\<close>

definition lateRank :: "'t system \<Rightarrow> nat" where
  "lateRank s = 6 * (size (sys_unwinding s) + sys_touching s) + 5 * (sys_rousing s + sys_waking s)"

definition laneRank :: "'t system \<Rightarrow> nat" where
  "laneRank s = 10 * (length (kq_ch (sys_q s)) + length (kq_mandatory (sys_q s)))
     + (if kq_mandatoryWake (sys_q s) then 4 else 0) + workerRank (sys_worker s) + lateRank s"

text \<open>A step of the worker or of a caller that has left its section under \<^verbatim>\<open>mandatoryMu\<close>.\<close>

definition endStep :: "bool \<Rightarrow> 't system \<Rightarrow> 't system \<Rightarrow> bool" where
  "endStep tracksIdle s s' \<longleftrightarrow> worker_step tracksIdle s s' \<or> late_step tracksIdle s s'"

definition latched :: "'t worker \<Rightarrow> bool" where
  "latched wk \<longleftrightarrow> (\<forall>w cc lr. wk = WFinish w cc lr \<or> wk = WParked w cc lr \<longrightarrow> cc \<or> lr)"

lemma take_rank:
  assumes "takeMandatoryCleanup fence q = (r, q')"
  shows "r = Ready qt \<Longrightarrow> length (kq_mandatory q) = Suc (length (kq_mandatory q'))"
    "r = NotReady w \<Longrightarrow> length (kq_mandatory q) = length (kq_mandatory q')"
    "r = NotReady w \<Longrightarrow> fence \<Longrightarrow> \<not> w"
  using assms
  by (auto simp: takeMandatoryCleanup_def noteMandatoryProgressLocked_def Let_def
      split: if_splits list.splits)

lemma worker_rank:
  assumes "worker_step ti s s'" "bs_submitFence (sys_base s)" "latched (sys_worker s)"
  shows "laneRank s' < laneRank s \<and> bs_submitFence (sys_base s') \<and> latched (sys_worker s')"
  using assms
proof (induction rule: worker_step.induct)
  case (TakeReady s cc lr qt q)
  with take_rank [OF TakeReady(2)] take_simps [OF TakeReady(2)] show ?case
    by (simp add: laneRank_def lateRank_def latched_def)
next
  case (TakeNone s cc lr w q)
  with take_rank [OF TakeNone(2)] take_simps [OF TakeNone(2)] show ?case
    by (simp add: laneRank_def lateRank_def latched_def)
next
  case (Finish s w cc lr exited q)
  with finish_simps [OF Finish(2)] show ?case
    by (auto simp: laneRank_def lateRank_def latched_def)
qed (auto simp: laneRank_def lateRank_def latched_def handled_def settle_def afterTask_def
    split: source.splits)

lemma late_rank: "late_step ti s s' \<Longrightarrow> laneRank s' < laneRank s"
  by (induction rule: late_step.induct)
    (auto simp: laneRank_def lateRank_def unmarkPending_def markSent_def sendWake_def)

lemma end_rank:
  assumes "endStep ti s s'" "bs_submitFence (sys_base s)" "latched (sys_worker s)"
  shows "laneRank s' < laneRank s \<and> bs_submitFence (sys_base s') \<and> latched (sys_worker s')"
  using assms worker_rank late_rank late_same by (fastforce simp: endStep_def)

lemma worker_keeps:
  "worker_step ti s s' \<Longrightarrow> kq_chClosed (sys_q s') = kq_chClosed (sys_q s) \<and> sys_inflight s' = sys_inflight s"
  by (induction rule: worker_step.induct)
    (auto simp: handled_def settle_def dest: take_simps finish_simps)

lemma end_keeps:
  "endStep ti s s' \<Longrightarrow> kq_chClosed (sys_q s') = kq_chClosed (sys_q s) \<and> sys_inflight s' = sys_inflight s"
  using worker_keeps late_same by (fastforce simp: endStep_def)

lemma end_reachable:
  "reachable careful gated ti s \<Longrightarrow> endStep ti s s' \<Longrightarrow> reachable careful gated ti s'"
  by (auto simp: endStep_def intro: reachable.Worker reachable.Client client_step.Late)

lemma late_progress:
  assumes "wakesDue s \<noteq> 0"
  shows "\<exists>s'. late_step ti s s'"
proof -
  consider "True \<in># sys_unwinding s" | "sys_rousing s \<noteq> 0" | "sys_touching s \<noteq> 0" | "sys_waking s \<noteq> 0"
    using assms by (force simp: wakesDue_def)
  then show ?thesis
    by cases (auto dest!: multi_member_split simp: gr0_conv_Suc intro: late_step.intros)
qed

lemma end_progress:
  assumes "reachable careful gated ti s" "kq_chClosed (sys_q s)" "bs_submitFence (sys_base s)"
    "sys_inflight s = {#}" "sys_worker s \<noteq> WExited"
  shows "\<exists>s'. endStep ti s s'"
  using stopped_worker_step [OF assms] late_progress by (auto simp: endStep_def)

lemma worker_ends:
  assumes "reachable careful gated ti s" "kq_chClosed (sys_q s)" "bs_submitFence (sys_base s)"
    "sys_inflight s = {#}" "latched (sys_worker s)"
  shows "\<exists>s'. (endStep ti)\<^sup>*\<^sup>* s s' \<and> sys_worker s' = WExited"
  using assms
proof (induction "laneRank s" arbitrary: s rule: less_induct)
  case less
  show ?case
  proof (cases "sys_worker s = WExited")
    case False
    from end_progress [OF less.prems(1-4) False] obtain u where u: "endStep ti s u" by blast
    have "\<exists>s'. (endStep ti)\<^sup>*\<^sup>* u s' \<and> sys_worker s' = WExited"
      using end_rank [OF u less.prems(3,5)] end_keeps [OF u] less.prems(2,4)
        end_reachable [OF less.prems(1) u]
      by (intro less.hyps) simp_all
    with u show ?thesis by (metis converse_rtranclp_into_rtranclp)
  qed auto
qed

text \<open>A run from a stopped lane: it is bounded, and where it can go no further the worker is out.\<close>

lemma end_run:
  "(endStep ti ^^ n) s s' \<Longrightarrow> reachable careful gated ti s \<Longrightarrow> kq_chClosed (sys_q s) \<Longrightarrow>
     bs_submitFence (sys_base s) \<Longrightarrow> sys_inflight s = {#} \<Longrightarrow> latched (sys_worker s) \<Longrightarrow>
     n \<le> laneRank s \<and> (sys_worker s' \<noteq> WExited \<longrightarrow> (\<exists>u. endStep ti s' u))"
proof (induction n arbitrary: s)
  case (Suc n)
  then obtain u where u: "endStep ti s u" "(endStep ti ^^ n) u s'" by (metis relpowp_Suc_D2)
  from Suc.IH [OF u(2) end_reachable [OF Suc.prems(2) u(1)]]
    end_rank [OF u(1) Suc.prems(4,6)] end_keeps [OF u(1)] Suc.prems(3,5)
  show ?case by fastforce
qed (use end_progress in auto)

lemma workerRank_le: "workerRank wk \<le> 10"
  by (cases wk) auto

text \<open>
  C15: a stopped lane ends.  Once its channel and the submit fence are closed and no producer
  is in flight, and no further cleanup is registered, the worker and the callers that have
  still to send a wake take together at most ten steps per task the lane still owes, six per
  such caller and fourteen more, in whatever order they move; as long as the worker has not
  exited one of them can move, and it can always reach its exit.
\<close>

theorem stopped_worker_ends:
  assumes "reachable careful gated tracksIdle s" and "kq_chClosed (sys_q s)"
    and "bs_submitFence (sys_base s)" and "sys_inflight s = {#}"
  shows "((endStep tracksIdle ^^ n) s s' \<longrightarrow>
      n \<le> 10 * (length (kq_ch (sys_q s)) + length (kq_mandatory (sys_q s)))
        + 6 * (size (sys_unwinding s) + sys_rousing s + sys_touching s + sys_waking s) + 14
      \<and> (sys_worker s' \<noteq> WExited \<longrightarrow> (\<exists>u. endStep tracksIdle s' u)))
    \<and> (\<exists>s''. (endStep tracksIdle)\<^sup>*\<^sup>* s s'' \<and> sys_worker s'' = WExited)"
proof -
  have l: "latched (sys_worker s)"
    using reachable_safe [OF assms(1)] by (auto simp: safeInv_def exitInv_def latched_def)
  have "laneRank s \<le> 10 * (length (kq_ch (sys_q s)) + length (kq_mandatory (sys_q s)))
        + 6 * (size (sys_unwinding s) + sys_rousing s + sys_touching s + sys_waking s) + 14"
    using workerRank_le [of "sys_worker s"] by (simp add: laneRank_def lateRank_def)
  with end_run [OF _ assms l] worker_ends [OF assms l] show ?thesis
    by (meson le_trans)
qed

theorem stopped_worker_ends_witness:
  "\<exists>s''. (endStep False)\<^sup>*\<^sup>* ((initial 1 0 :: nat system)\<lparr>sys_base := signalStopOnce newBase,
     sys_q := closeQueueChannel (newKeyQueue 1 0)\<rparr>) s'' \<and> sys_worker s'' = WExited"
  using stopped_worker_ends [OF sample_closed]
  by (simp add: closeQueueChannel_def newKeyQueue_def signalStopOnce_def newBase_def initial_def)

end
