(* ===== verification/Async_Handles.thy ===== *)
theory Async_Handles
  imports World
begin

text \<open>
  The gate that \<^verbatim>\<open>AsyncReservation\<close> and \<^verbatim>\<open>AsyncDropCopyOperation\<close>
  (\<^verbatim>\<open>asyncengine/reservation.go\<close>, \<^verbatim>\<open>drop_copy_operation.go\<close>) put between synchronous
  snapshot reads, made by any goroutine, and the lifecycle call a lane's worker makes.  Both
  Go types have the same fields and the same code, so the gate is one record over the inner
  handle; the locale \<open>gated\<close> states what it needs of that handle.
\<close>

section \<open>The wrapper\<close>

datatype handleState = HandleOpen | HandleFinalizing | HandleClosed

text \<open>
  \<open>ah_readersDone\<close> says that the channel of that name exists: the last reader closes it and
  sets the field back to nil, which is when the lifecycle call waiting on it goes on.
\<close>

record 'h asyncHandle =
  ah_inner :: 'h
  ah_readers :: int
  ah_readersDone :: bool
  ah_state :: handleState
  ah_closed :: bool

definition newAsyncHandle :: "'h \<Rightarrow> 'h asyncHandle" where
  "newAsyncHandle h =
     \<lparr>ah_inner = h, ah_readers = 0, ah_readersDone = False, ah_state = HandleOpen, ah_closed = False\<rparr>"

text \<open>The first critical section of \<^verbatim>\<open>runInner\<close>; the result says whether it waits.\<close>

definition beginFinalize :: "'h asyncHandle \<Rightarrow> bool \<times> 'h asyncHandle" where
  "beginFinalize r =
     (if ah_readers r \<noteq> 0
      then (True, r\<lparr>ah_state := HandleFinalizing, ah_readersDone := True\<rparr>)
      else (False, r\<lparr>ah_state := HandleFinalizing\<rparr>))"

text \<open>Its deferred function.\<close>

definition endFinalize :: "bool \<Rightarrow> 'h asyncHandle \<Rightarrow> 'h asyncHandle" where
  "endFinalize closes r =
     (let c = ah_closed r \<or> closes in
      r\<lparr>ah_closed := c, ah_state := (if c then HandleClosed else HandleOpen)\<rparr>)"

definition beginRead :: "sentinel \<Rightarrow> 'h asyncHandle \<Rightarrow> err \<times> 'h asyncHandle" where
  "beginRead closedError r =
     (if ah_closed r then (Some (Sentinel closedError), r)
      else case ah_state r of
             HandleOpen \<Rightarrow> (None, r\<lparr>ah_readers := ah_readers r + 1\<rparr>)
           | HandleFinalizing \<Rightarrow> (Some (Sentinel ErrFinalizationInProgress), r)
           | HandleClosed \<Rightarrow> (Some (Sentinel closedError), r))"

definition endRead :: "'h asyncHandle \<Rightarrow> 'h asyncHandle" where
  "endRead r =
     (let r' = r\<lparr>ah_readers := ah_readers r - 1\<rparr> in
      if ah_readers r' = 0 \<and> ah_readersDone r' then r'\<lparr>ah_readersDone := False\<rparr> else r')"

definition AsyncReservation_beginRead :: "reservation asyncHandle \<Rightarrow> err \<times> reservation asyncHandle" where
  "AsyncReservation_beginRead = beginRead ErrReservationClosed"

definition AsyncDropCopyOperation_beginRead ::
  "dropCopyOperation asyncHandle \<Rightarrow> err \<times> dropCopyOperation asyncHandle" where
  "AsyncDropCopyOperation_beginRead = beginRead ErrDropCopyOperationClosed"

text \<open>
  A snapshot method: admission, the inner read, and \<^verbatim>\<open>endRead\<close>.  The inner read is one of
  the accessors of the wrapped handle.
\<close>

definition snapshotRead ::
  "sentinel \<Rightarrow> 'a \<Rightarrow> ('h \<Rightarrow> go_error + 'a) \<Rightarrow> 'h asyncHandle \<Rightarrow> ('a \<times> err) \<times> 'h asyncHandle" where
  "snapshotRead closedError zero accessor r =
     (case beginRead closedError r of
        (Some e, r') \<Rightarrow> ((zero, Some e), r')
      | (None, r') \<Rightarrow>
          ((case accessor (ah_inner r') of Inl e \<Rightarrow> (zero, Some e) | Inr v \<Rightarrow> (v, None)), endRead r'))"

text \<open>\<^verbatim>\<open>runInner\<close> when no reader is admitted.\<close>

definition runInner ::
  "(lifecycle_op \<Rightarrow> 'h \<Rightarrow> 'h \<times> native_call list) \<Rightarrow> lifecycle_op \<Rightarrow> 'h asyncHandle \<Rightarrow>
   'h asyncHandle \<times> native_call list" where
  "runInner call op r =
     (case beginFinalize r of (_, r1) \<Rightarrow>
      case call op (ah_inner r1) of (h, cs) \<Rightarrow>
        (endFinalize (closing op) (r1\<lparr>ah_inner := h\<rparr>), cs))"

section \<open>Readers and lifecycle calls interleaved\<close>

text \<open>
  Where the lifecycle call holding \<^verbatim>\<open>lifecycleMu\<close> stands: none, waiting for the readers,
  about to make the native call, or about to leave.
\<close>

datatype phase = Idle | Waiting lifecycle_op | Ready lifecycle_op | Called lifecycle_op

text \<open>
  \<open>g_active\<close> readers are admitted; one of them may be inside the inner read, which holds
  \<^verbatim>\<open>methodMu\<close>.  \<open>g_calls\<close> logs the lifecycle calls made on the inner handle,
  \<open>g_refused\<close> the errors of refused reads.
\<close>

record 'h gate =
  g_handle :: "'h asyncHandle"
  g_phase :: phase
  g_active :: nat
  g_reading :: bool
  g_calls :: "lifecycle_op list"
  g_natives :: "native_call list"
  g_refused :: "err list"

definition openGate :: "'h \<Rightarrow> 'h gate" where
  "openGate h =
     \<lparr>g_handle = newAsyncHandle h, g_phase = Idle, g_active = 0, g_reading = False, g_calls = [],
      g_natives = [], g_refused = []\<rparr>"

inductive reader_step :: "sentinel \<Rightarrow> 'h gate \<Rightarrow> 'h gate \<Rightarrow> bool" for closedError :: sentinel where
  Admit: "beginRead closedError (g_handle g) = (None, r) \<Longrightarrow>
    reader_step closedError g (g\<lparr>g_handle := r, g_active := g_active g + 1\<rparr>)"
| Refuse: "beginRead closedError (g_handle g) = (Some e, r) \<Longrightarrow>
    reader_step closedError g (g\<lparr>g_handle := r, g_refused := g_refused g @ [Some e]\<rparr>)"
| StartRead: "0 < g_active g \<Longrightarrow> \<not> g_reading g \<Longrightarrow> reader_step closedError g (g\<lparr>g_reading := True\<rparr>)"
| StopRead: "g_reading g \<Longrightarrow>
    reader_step closedError g (g\<lparr>g_reading := False, g_handle := endRead (g_handle g), g_active := g_active g - 1\<rparr>)"

inductive final_step ::
  "(lifecycle_op \<Rightarrow> 'h \<Rightarrow> 'h \<times> native_call list) \<Rightarrow> 'h gate \<Rightarrow> 'h gate \<Rightarrow> bool"
  for call :: "lifecycle_op \<Rightarrow> 'h \<Rightarrow> 'h \<times> native_call list" where
  Begin: "g_phase g = Idle \<Longrightarrow> beginFinalize (g_handle g) = (waits, r) \<Longrightarrow>
    final_step call g (g\<lparr>g_handle := r, g_phase := (if waits then Waiting op else Ready op)\<rparr>)"
| Drained: "g_phase g = Waiting op \<Longrightarrow> \<not> ah_readersDone (g_handle g) \<Longrightarrow>
    final_step call g (g\<lparr>g_phase := Ready op\<rparr>)"
| Call: "g_phase g = Ready op \<Longrightarrow> call op (ah_inner (g_handle g)) = (h, cs) \<Longrightarrow>
    final_step call g (g\<lparr>g_handle := (g_handle g)\<lparr>ah_inner := h\<rparr>, g_phase := Called op,
      g_calls := g_calls g @ [op], g_natives := g_natives g @ cs\<rparr>)"
| Leave: "g_phase g = Called op \<Longrightarrow>
    final_step call g (g\<lparr>g_handle := endFinalize (closing op) (g_handle g), g_phase := Idle\<rparr>)"

inductive gate_reachable ::
  "(lifecycle_op \<Rightarrow> 'h \<Rightarrow> 'h \<times> native_call list) \<Rightarrow> sentinel \<Rightarrow> 'h \<Rightarrow> 'h gate \<Rightarrow> bool"
  for call :: "lifecycle_op \<Rightarrow> 'h \<Rightarrow> 'h \<times> native_call list" and closedError :: sentinel and h :: 'h where
  Start: "gate_reachable call closedError h (openGate h)"
| Reader: "gate_reachable call closedError h g \<Longrightarrow> reader_step closedError g g' \<Longrightarrow>
    gate_reachable call closedError h g'"
| Final: "gate_reachable call closedError h g \<Longrightarrow> final_step call g g' \<Longrightarrow>
    gate_reachable call closedError h g'"

section \<open>The contract of the wrapped handle\<close>

locale gated =
  fixes call :: "lifecycle_op \<Rightarrow> 'h \<Rightarrow> 'h \<times> native_call list"
    and live :: "'h \<Rightarrow> bool"
    and closedError :: sentinel
  assumes closes: "closing op \<Longrightarrow> \<not> live (fst (call op h))"
    and keeps: "\<not> closing op \<Longrightarrow> live (fst (call op h)) = live h"
    and dead: "\<not> live h \<Longrightarrow> call op h = (h, [])"
    and distinct_errors: "closedError \<noteq> ErrFinalizationInProgress"
begin

definition gateInv :: "'h gate \<Rightarrow> bool" where
  "gateInv g \<longleftrightarrow>
     ah_readers (g_handle g) = int (g_active g)
   \<and> (g_reading g \<longrightarrow> 0 < g_active g)
   \<and> (case g_phase g of
        Idle \<Rightarrow> \<not> ah_readersDone (g_handle g)
          \<and> ah_state (g_handle g) = (if ah_closed (g_handle g) then HandleClosed else HandleOpen)
      | Waiting op \<Rightarrow> ah_state (g_handle g) = HandleFinalizing
          \<and> ah_readersDone (g_handle g) = (0 < g_active g)
      | _ \<Rightarrow> ah_state (g_handle g) = HandleFinalizing \<and> g_active g = 0 \<and> \<not> ah_readersDone (g_handle g))
   \<and> (ah_closed (g_handle g) \<longrightarrow> g_active g = 0)
   \<and> live (ah_inner (g_handle g)) =
       (\<not> ah_closed (g_handle g) \<and> (\<forall>op. g_phase g = Called op \<longrightarrow> \<not> closing op))"

lemma reader_inv: "reader_step closedError g g' \<Longrightarrow> gateInv g \<Longrightarrow> gateInv g'"
  by (induction rule: reader_step.induct)
    (auto simp: gateInv_def beginRead_def endRead_def Let_def of_nat_diff
      split: if_splits handleState.splits phase.splits)

lemma final_inv: "final_step call g g' \<Longrightarrow> gateInv g \<Longrightarrow> gateInv g'"
proof (induction rule: final_step.induct)
  case (Call g op h cs)
  then have "fst (call op (ah_inner (g_handle g))) = h" by simp
  with Call closes [of op] keeps [of op] dead [of "ah_inner (g_handle g)" op] show ?case
    by (cases "closing op") (force simp: gateInv_def)+
qed (auto simp: gateInv_def beginFinalize_def endFinalize_def Let_def split: if_splits)

lemma gate_inv: "gate_reachable call closedError h g \<Longrightarrow> live h \<Longrightarrow> gateInv g"
proof (induction rule: gate_reachable.induct)
  case Start
  then show ?case by (simp add: gateInv_def openGate_def newAsyncHandle_def)
qed (auto intro: reader_inv final_inv)

lemma reading_live:
  assumes "gate_reachable call closedError h g" "live h" "g_reading g"
  shows "live (ah_inner (g_handle g)) \<and> g_phase g \<noteq> Ready op \<and> g_phase g \<noteq> Called op"
  using gate_inv [OF assms(1,2)] assms(3)
  by (cases "g_phase g") (auto simp: gateInv_def)

lemma admission:
  assumes "gate_reachable call closedError h g" "live h"
  shows "fst (beginRead closedError (g_handle g)) =
     (if ah_closed (g_handle g) then Some (Sentinel closedError)
      else if g_phase g = Idle then None else Some (Sentinel ErrFinalizationInProgress))"
  using gate_inv [OF assms] by (cases "g_phase g") (auto simp: gateInv_def beginRead_def)

lemma closed_forever:
  "reader_step closedError g g' \<or> final_step call g g' \<Longrightarrow> ah_closed (g_handle g) \<Longrightarrow> ah_closed (g_handle g')"
  by (auto elim!: reader_step.cases final_step.cases
      simp: beginRead_def endRead_def beginFinalize_def endFinalize_def Let_def split: if_splits)

lemma natives_log:
  assumes "gate_reachable call closedError h g"
  shows "lifecycles call (g_calls g) h = (ah_inner (g_handle g), g_natives g)"
  using assms
proof (induction rule: gate_reachable.induct)
  case (Reader g g')
  then show ?case
    by (auto elim!: reader_step.cases simp: beginRead_def endRead_def Let_def
        split: if_splits handleState.splits)
next
  case (Final g g')
  have "lifecycles call (ops @ [op]) x
      = (fst (call op (fst (lifecycles call ops x))),
         snd (lifecycles call ops x) @ snd (call op (fst (lifecycles call ops x))))" for ops op x
    by (induction ops arbitrary: x) (simp_all add: seq2_def split: prod.splits)
  with Final show ?case
    by (auto elim!: final_step.cases
        simp: beginFinalize_def endFinalize_def Let_def split: if_splits)
qed (simp add: openGate_def newAsyncHandle_def)

text \<open>A waiting lifecycle call: no reader is let in, and those inside can all leave.\<close>

lemma waiting_shrinks:
  "reader_step closedError g g' \<Longrightarrow> g_phase g = Waiting op \<Longrightarrow> gateInv g \<Longrightarrow>
     g_active g' \<le> g_active g \<and> g_phase g' = Waiting op"
  by (auto elim!: reader_step.cases simp: beginRead_def gateInv_def split: if_splits)

lemma waiting_drains:
  assumes "gateInv g" "g_phase g = Waiting op"
  shows "\<exists>g'. (reader_step closedError)\<^sup>*\<^sup>* g g' \<and> g_phase g' = Waiting op
    \<and> \<not> ah_readersDone (g_handle g')"
  using assms
proof (induction "g_active g" arbitrary: g)
  case 0
  then show ?case by (intro exI [of _ g]) (simp add: gateInv_def)
next
  case (Suc n)
  obtain u where u: "(reader_step closedError)\<^sup>*\<^sup>* g u" "g_reading u" "gateInv u"
    "g_phase u = Waiting op" "g_active u = Suc n"
  proof (cases "g_reading g")
    case False
    then have step: "reader_step closedError g (g\<lparr>g_reading := True\<rparr>)"
      using Suc.hyps(2) by (intro reader_step.StartRead) simp_all
    show thesis
      by (rule that [of "g\<lparr>g_reading := True\<rparr>"])
        (use step reader_inv [OF step] Suc in auto)
  qed (use that Suc in auto)
  let ?v = "u\<lparr>g_reading := False, g_handle := endRead (g_handle u), g_active := g_active u - 1\<rparr>"
  have step: "reader_step closedError u ?v" by (rule reader_step.StopRead [OF u(2)])
  have "\<exists>g'. (reader_step closedError)\<^sup>*\<^sup>* ?v g' \<and> g_phase g' = Waiting op \<and> \<not> ah_readersDone (g_handle g')"
    using u reader_inv [OF step] by (intro Suc.hyps(1)) simp_all
  with u(1) step show ?case by (meson rtranclp.rtrancl_into_rtrancl rtranclp_trans)
qed

end

definition liveReservation :: "reservation \<Rightarrow> bool" where
  "liveReservation r = (\<not> Reservation_IsClosed r)"

definition liveOperation :: "dropCopyOperation \<Rightarrow> bool" where
  "liveOperation o1 = (\<not> DropCopyOperation_IsClosed o1)"

interpretation ares: gated Reservation_call liveReservation ErrReservationClosed
proof unfold_locales
  fix op h
  show "closing op \<Longrightarrow> \<not> liveReservation (fst (Reservation_call op h))"
    by (cases op) (auto simp: liveReservation_def Reservation_IsClosed_def Reservation_call_def
        reservation_method_defs split: option.splits)
  show "\<not> closing op \<Longrightarrow> liveReservation (fst (Reservation_call op h)) = liveReservation h"
    by (cases op) (auto simp: liveReservation_def Reservation_IsClosed_def Reservation_call_def
        reservation_method_defs split: option.splits)
  show "\<not> liveReservation h \<Longrightarrow> Reservation_call op h = (h, [])"
    by (cases op) (auto simp: liveReservation_def Reservation_IsClosed_def Reservation_call_def seq2_def
        reservation_method_defs)
qed simp

interpretation aop: gated DropCopyOperation_call liveOperation ErrDropCopyOperationClosed
proof unfold_locales
  fix op h
  show "closing op \<Longrightarrow> \<not> liveOperation (fst (DropCopyOperation_call op h))"
    by (cases op) (auto simp: liveOperation_def DropCopyOperation_IsClosed_def DropCopyOperation_call_def
        dropCopy_method_defs split: option.splits)
  show "\<not> closing op \<Longrightarrow> liveOperation (fst (DropCopyOperation_call op h)) = liveOperation h"
    by (cases op) (auto simp: liveOperation_def DropCopyOperation_IsClosed_def DropCopyOperation_call_def
        dropCopy_method_defs split: option.splits)
  show "\<not> liveOperation h \<Longrightarrow> DropCopyOperation_call op h = (h, [])"
    by (cases op) (auto simp: liveOperation_def DropCopyOperation_IsClosed_def DropCopyOperation_call_def
        seq2_def dropCopy_method_defs)
qed simp

section \<open>Properties\<close>

lemma sample_reading:
  assumes "call Close h = (h', cs)" "beginRead closedError (newAsyncHandle h) = (None, (newAsyncHandle h)\<lparr>ah_readers := 1\<rparr>)"
  shows "\<exists>g. gate_reachable call closedError h g \<and> g_reading g \<and> g_phase g = Waiting Close \<and> g_active g = 1"
proof -
  let ?r1 = "(newAsyncHandle h)\<lparr>ah_readers := 1\<rparr>"
  let ?g1 = "(openGate h)\<lparr>g_handle := ?r1, g_active := 1\<rparr>"
  let ?r2 = "?r1\<lparr>ah_state := HandleFinalizing, ah_readersDone := True\<rparr>"
  let ?g2 = "?g1\<lparr>g_handle := ?r2, g_phase := Waiting Close\<rparr>"
  have "gate_reachable call closedError h ?g1"
    using gate_reachable.Reader [OF gate_reachable.Start reader_step.Admit, of closedError h ?r1 call]
      assms(2) by (simp add: openGate_def)
  from gate_reachable.Final [OF this final_step.Begin [of ?g1 True ?r2 call Close]]
  have "gate_reachable call closedError h ?g2"
    by (simp add: openGate_def beginFinalize_def)
  from gate_reachable.Reader [OF this reader_step.StartRead]
  have "gate_reachable call closedError h (?g2\<lparr>g_reading := True\<rparr>)"
    by (simp add: openGate_def)
  then show ?thesis by (intro exI conjI) (assumption, simp_all)
qed

lemmas sample_reservation =
  sample_reading [of Reservation_call "NewReservationFromHandle (Some 7)" _ _ ErrReservationClosed]
lemmas sample_operation =
  sample_reading [of DropCopyOperation_call "NewDropCopyOperationFromHandle (Some 7)" _ _ ErrDropCopyOperationClosed]

text \<open>
  C16: a snapshot read of an asynchronous reservation or drop-copy operation never overlaps
  the native call of a lifecycle method and never reads a released handle, under every
  interleaving of readers and lifecycle calls.
\<close>

theorem snapshot_reads_are_safe:
  "(gate_reachable Reservation_call ErrReservationClosed r g \<and> \<not> Reservation_IsClosed r \<and> g_reading g \<longrightarrow>
      \<not> Reservation_IsClosed (ah_inner (g_handle g)) \<and> g_phase g \<noteq> Ready op \<and> g_phase g \<noteq> Called op)
   \<and> (gate_reachable DropCopyOperation_call ErrDropCopyOperationClosed d k
        \<and> \<not> DropCopyOperation_IsClosed d \<and> g_reading k \<longrightarrow>
      \<not> DropCopyOperation_IsClosed (ah_inner (g_handle k)) \<and> g_phase k \<noteq> Ready op \<and> g_phase k \<noteq> Called op)"
  using ares.reading_live [of r g op] aop.reading_live [of d k op]
  by (auto simp: liveReservation_def liveOperation_def)

theorem snapshot_reads_are_safe_witness:
  "\<exists>(g :: reservation gate) (k :: dropCopyOperation gate). g_reading g \<and> g_reading k
    \<and> \<not> Reservation_IsClosed (ah_inner (g_handle g)) \<and> \<not> DropCopyOperation_IsClosed (ah_inner (g_handle k))"
proof -
  obtain g :: "reservation gate" where
    g: "gate_reachable Reservation_call ErrReservationClosed (NewReservationFromHandle (Some 7)) g" "g_reading g"
    using sample_reservation by (fastforce simp: beginRead_def newAsyncHandle_def)
  obtain k :: "dropCopyOperation gate" where
    k: "gate_reachable DropCopyOperation_call ErrDropCopyOperationClosed (NewDropCopyOperationFromHandle (Some 7)) k"
      "g_reading k"
    using sample_operation by (fastforce simp: beginRead_def newAsyncHandle_def)
  from snapshot_reads_are_safe [of "NewReservationFromHandle (Some 7)" g Close
      "NewDropCopyOperationFromHandle (Some 7)" k] g k
  show ?thesis
    by (auto simp: Reservation_IsClosed_def NewReservationFromHandle_def DropCopyOperation_IsClosed_def
        NewDropCopyOperationFromHandle_def)
qed

text \<open>
  A snapshot read is refused with the wrapper's closed error exactly once a closing call
  has ended, with \<^verbatim>\<open>ErrFinalizationInProgress\<close> exactly while a lifecycle call is under way
  before that, and admitted otherwise; and the native calls made are those the same lifecycle
  calls make one after the other on the bare handle.
\<close>

lemma snapshot_admission_exact:
  "(gate_reachable Reservation_call ErrReservationClosed r g \<and> \<not> Reservation_IsClosed r \<longrightarrow>
      fst (AsyncReservation_beginRead (g_handle g)) =
        (if ah_closed (g_handle g) then Some (Sentinel ErrReservationClosed)
         else if g_phase g = Idle then None else Some (Sentinel ErrFinalizationInProgress))
      \<and> g_natives g = snd (lifecycles Reservation_call (g_calls g) r))
   \<and> (gate_reachable DropCopyOperation_call ErrDropCopyOperationClosed d k \<and> \<not> DropCopyOperation_IsClosed d \<longrightarrow>
      fst (AsyncDropCopyOperation_beginRead (g_handle k)) =
        (if ah_closed (g_handle k) then Some (Sentinel ErrDropCopyOperationClosed)
         else if g_phase k = Idle then None else Some (Sentinel ErrFinalizationInProgress))
      \<and> g_natives k = snd (lifecycles DropCopyOperation_call (g_calls k) d))"
  using ares.admission [of r g] aop.admission [of d k] ares.natives_log [of r g] aop.natives_log [of d k]
  by (auto simp: liveReservation_def liveOperation_def AsyncReservation_beginRead_def
      AsyncDropCopyOperation_beginRead_def)

text \<open>
  Readers cannot starve a lifecycle call.  While it waits no further reader is admitted,
  and the readers inside can all leave, after which it goes on to its native call.
\<close>

lemma lifecycle_call_not_starved:
  assumes "gate_reachable Reservation_call ErrReservationClosed r g" and "\<not> Reservation_IsClosed r"
    and "g_phase g = Waiting op"
  shows "(reader_step ErrReservationClosed g g' \<longrightarrow> g_active g' \<le> g_active g \<and> g_phase g' = Waiting op)
    \<and> (\<exists>u v. (reader_step ErrReservationClosed)\<^sup>*\<^sup>* g u \<and> final_step Reservation_call u v \<and> g_phase v = Ready op)"
proof -
  have inv: "ares.gateInv g" using ares.gate_inv [OF assms(1)] assms(2) by (simp add: liveReservation_def)
  from ares.waiting_drains [OF this assms(3)] obtain u where
    u: "(reader_step ErrReservationClosed)\<^sup>*\<^sup>* g u" "g_phase u = Waiting op" "\<not> ah_readersDone (g_handle u)"
    by blast
  have "final_step Reservation_call u (u\<lparr>g_phase := Ready op\<rparr>)"
    by (rule final_step.Drained [OF u(2,3)])
  moreover have "g_phase (u\<lparr>g_phase := Ready op\<rparr>) = Ready op" by simp
  ultimately show ?thesis
    using u(1) ares.waiting_shrinks [OF _ assms(3) inv] by blast
qed

end
