(* ===== verification/Dynamic.thy ===== *)
theory Dynamic
  imports Lane "HOL-Library.AList"
begin

text \<open>
  The queue table of the Dynamic strategy (\<^verbatim>\<open>asyncengine/dynamic.go\<close>): lanes made on
  first use, idle retirement, the key-local barriers of cleanup that has no lane, and the
  freeze at stop.  Each definition is one critical section of \<^verbatim>\<open>s.mu\<close>; \<open>dynamic_step\<close>
  interleaves them.  A queue is named by a number; what the lane itself holds is the subject
  of \<open>Lane\<close>, so retirement takes the outcome of the lane's idle check as a parameter.
\<close>

section \<open>The table\<close>

text \<open>
  \<open>dy_queues\<close> is the Go map \<^verbatim>\<open>queues\<close> as an association list; \<open>dy_closed\<close> are the queues
  whose \<^verbatim>\<open>closed\<close> flag is set, \<open>dy_workers\<close> those a worker was started for, with their
  keys, in order; \<open>dy_section\<close> says that an \<^verbatim>\<open>Exclusive\<close> section is installed and
  \<open>dy_snapshot\<close> and \<open>dy_barred\<close> list the queues its installation returned and those made
  with its barrier since.
\<close>

record dynamic =
  dy_stopped :: bool
  dy_stopping :: bool
  dy_queues :: "(routingKey \<times> nat) list"
  dy_barriers :: "routingKey list"
  dy_maxQueues :: int
  dy_closed :: "nat list"
  dy_workers :: "(nat \<times> routingKey) list"
  dy_section :: bool
  dy_snapshot :: "nat list"
  dy_barred :: "nat list"

definition newDynamicStrategy :: "int \<Rightarrow> dynamic" where
  "newDynamicStrategy maxQueues =
     \<lparr>dy_stopped = False, dy_stopping = False, dy_queues = [], dy_barriers = [],
      dy_maxQueues = maxQueues, dy_closed = [], dy_workers = [], dy_section = False,
      dy_snapshot = [], dy_barred = []\<rparr>"

definition liveQueue :: "dynamic \<Rightarrow> routingKey \<Rightarrow> nat option" where
  "liveQueue s key =
     (case map_of (dy_queues s) key of
        Some q \<Rightarrow> if q \<in> set (dy_closed s) then None else Some q
      | None \<Rightarrow> None)"

text \<open>The background scan's cadence and the shape of a configuration, in nanoseconds.\<close>

definition second :: int where "second = 1000000000"

definition defaultIdleCleanupPeriod :: int where "defaultIdleCleanupPeriod = 60 * second"

definition idleCleanupPeriod :: "int \<Rightarrow> int" where
  "idleCleanupPeriod idleCleanupAfter =
     (let period = idleCleanupAfter div 5 in
      if period < second then defaultIdleCleanupPeriod else period)"

definition cleanupCadence :: "int \<Rightarrow> int \<Rightarrow> int \<times> bool" where
  "cleanupCadence idleCleanupAfter cleanupPeriod =
     (let idle = (if idleCleanupAfter < 0 then 0 else idleCleanupAfter);
          period = (if cleanupPeriod \<le> 0 then idleCleanupPeriod idle else cleanupPeriod)
      in (period, 0 < idle))"

section \<open>Lookup and creation\<close>

datatype lookup =
    QueueReady nat bool nat
  | QueueStopped
  | QueueLimit
  | QueueBarrier
  | QueueMiss

text \<open>One pass of the loop of \<^verbatim>\<open>getOrCreate\<close>: the read-locked look, then the write lock.\<close>

definition getOrCreate_look :: "routingKey \<Rightarrow> dynamic \<Rightarrow> lookup" where
  "getOrCreate_look key s =
     (if dy_stopped s then QueueStopped
      else case liveQueue s key of
             Some q \<Rightarrow> QueueReady q False 0
           | None \<Rightarrow>
               if dy_stopping s then QueueStopped
               else if key \<in> set (dy_barriers s) then QueueBarrier
               else QueueMiss)"

definition getOrCreate_make :: "routingKey \<Rightarrow> dynamic \<Rightarrow> lookup \<times> dynamic" where
  "getOrCreate_make key s =
     (if dy_stopping s then (QueueStopped, s)
      else case liveQueue s key of
             Some q \<Rightarrow> (QueueReady q False 0, s)
           | None \<Rightarrow>
               if key \<in> set (dy_barriers s) then (QueueBarrier, s)
               else if 0 < dy_maxQueues s \<and> dy_maxQueues s \<le> int (length (dy_queues s)) then (QueueLimit, s)
               else
                 let q = length (dy_workers s);
                     s' = s\<lparr>dy_queues := AList.update key q (dy_queues s),
                            dy_workers := dy_workers s @ [(q, key)],
                            dy_barred := (if dy_section s then q # dy_barred s else dy_barred s)\<rparr>
                 in (QueueReady q True (length (dy_queues s')), s'))"

section \<open>Retirement, cleanup without a lane, stop\<close>

text \<open>
  \<^verbatim>\<open>retireIfIdle\<close>: \<open>idle\<close> is the outcome of the lane's own checks (pending, channel,
  activity, gate and backlog).
\<close>

definition retireIfIdle :: "bool \<Rightarrow> routingKey \<Rightarrow> nat \<Rightarrow> dynamic \<Rightarrow> (bool \<times> nat) \<times> dynamic" where
  "retireIfIdle idle key q s =
     (if dy_section s then ((False, 0), s)
      else if map_of (dy_queues s) key \<noteq> Some q then ((False, 0), s)
      else if \<not> idle then ((False, 0), s)
      else
        let s' = s\<lparr>dy_closed := q # dy_closed s, dy_queues := AList.delete key (dy_queues s)\<rparr>
        in ((True, length (dy_queues s')), s'))"

datatype laneless = HandedToSection | BarrierInstalled | TryAgain

definition cleanupWithoutLiveLane :: "routingKey \<Rightarrow> dynamic \<Rightarrow> laneless \<times> dynamic" where
  "cleanupWithoutLiveLane key s =
     (if dy_stopping s then (TryAgain, s)
      else if liveQueue s key \<noteq> None then (TryAgain, s)
      else if key \<in> set (dy_barriers s) then (TryAgain, s)
      else if dy_section s then (HandedToSection, s)
      else (BarrierInstalled, s\<lparr>dy_barriers := key # dy_barriers s\<rparr>))"

definition removeBarrier :: "routingKey \<Rightarrow> dynamic \<Rightarrow> dynamic" where
  "removeBarrier key s = s\<lparr>dy_barriers := removeAll key (dy_barriers s)\<rparr>"

definition markStoppingAndSnapshot :: "dynamic \<Rightarrow> nat list \<times> dynamic" where
  "markStoppingAndSnapshot s = (map snd (dy_queues s), s\<lparr>dy_stopping := True\<rparr>)"

definition closeQueues :: "nat list \<Rightarrow> dynamic \<Rightarrow> dynamic" where
  "closeQueues qs s = s\<lparr>dy_closed := filter (\<lambda>q. q \<notin> set (dy_closed s)) qs @ dy_closed s\<rparr>"

definition installExclusive :: "dynamic \<Rightarrow> (nat list \<times> routingKey list) \<times> dynamic" where
  "installExclusive s =
     (let qs = filter (\<lambda>q. q \<notin> set (dy_closed s)) (map snd (dy_queues s)) in
      ((qs, dy_barriers s), s\<lparr>dy_section := True, dy_snapshot := qs, dy_barred := []\<rparr>))"

definition withdrawExclusive :: "dynamic \<Rightarrow> dynamic" where
  "withdrawExclusive s = s\<lparr>dy_section := False\<rparr>"

text \<open>
  The stop calls close channels only after the stop signal and the snapshot; the queues they
  close are those of a snapshot.
\<close>

inductive dynamic_step :: "dynamic \<Rightarrow> dynamic \<Rightarrow> bool" where
  Make: "getOrCreate_make key s = (r, s') \<Longrightarrow> dynamic_step s s'"
| Retire: "retireIfIdle idle key q s = (r, s') \<Longrightarrow> dynamic_step s s'"
| Laneless: "cleanupWithoutLiveLane key s = (r, s') \<Longrightarrow> dynamic_step s s'"
| Unbar: "dynamic_step s (removeBarrier key s)"
| Signal: "dynamic_step s (s\<lparr>dy_stopped := True\<rparr>)"
| Freeze: "dy_stopped s \<Longrightarrow> markStoppingAndSnapshot s = (qs, s') \<Longrightarrow> dynamic_step s s'"
| CloseAll: "dy_stopping s \<Longrightarrow> set qs \<subseteq> snd ` set (dy_queues s) \<Longrightarrow> dynamic_step s (closeQueues qs s)"
| Install: "\<not> dy_section s \<Longrightarrow> installExclusive s = (r, s') \<Longrightarrow> dynamic_step s s'"
| Withdraw: "dynamic_step s (withdrawExclusive s)"

inductive dynamic_reachable :: "int \<Rightarrow> dynamic \<Rightarrow> bool" for maxQueues :: int where
  New: "dynamic_reachable maxQueues (newDynamicStrategy maxQueues)"
| Step: "dynamic_reachable maxQueues s \<Longrightarrow> dynamic_step s s' \<Longrightarrow> dynamic_reachable maxQueues s'"

section \<open>The table's invariant\<close>

definition openLane :: "dynamic \<Rightarrow> nat \<Rightarrow> routingKey \<Rightarrow> bool" where
  "openLane s q key \<longleftrightarrow> (q, key) \<in> set (dy_workers s) \<and> q \<notin> set (dy_closed s)"

definition tableInv :: "int \<Rightarrow> dynamic \<Rightarrow> bool" where
  "tableInv maxQueues s \<longleftrightarrow>
     distinct (map fst (dy_queues s))
   \<and> map fst (dy_workers s) = [0..<length (dy_workers s)]
   \<and> (\<forall>(key, q)\<in>set (dy_queues s). (q, key) \<in> set (dy_workers s))
   \<and> (\<forall>q key. openLane s q key \<longrightarrow> (key, q) \<in> set (dy_queues s))
   \<and> dy_maxQueues s = maxQueues
   \<and> \<not> (0 < maxQueues \<and> maxQueues < int (length (dy_queues s)))
   \<and> (\<not> dy_stopping s \<longrightarrow> (\<forall>(key, q)\<in>set (dy_queues s). q \<notin> set (dy_closed s)))
   \<and> set (dy_barriers s) \<inter> fst ` set (dy_queues s) = {}
   \<and> (\<forall>q\<in>set (dy_closed s). q < length (dy_workers s))
   \<and> (dy_section s \<longrightarrow> (\<forall>q key. openLane s q key \<longrightarrow> q \<in> set (dy_snapshot s) \<union> set (dy_barred s)))"

lemma worker_fresh: "map fst (dy_workers s) = [0..<length (dy_workers s)] \<Longrightarrow>
    (q, key) \<in> set (dy_workers s) \<Longrightarrow> q < length (dy_workers s)"
  by (metis atLeastLessThan_iff fst_conv image_eqI list.set_map set_upt)

lemma worker_unique: "map fst (dy_workers s) = [0..<length (dy_workers s)] \<Longrightarrow>
    (q, key) \<in> set (dy_workers s) \<Longrightarrow> (q, key') \<in> set (dy_workers s) \<Longrightarrow> key = key'"
  by (metis distinct_upt eq_key_imp_eq_value)

lemma update_new: "k \<notin> fst ` set al \<Longrightarrow> AList.update k v al = al @ [(k, v)]"
  by (induction al) auto

lemma make_inv: "getOrCreate_make key s = (r, s') \<Longrightarrow> tableInv m s \<Longrightarrow> tableInv m s'"
proof -
  assume a: "getOrCreate_make key s = (r, s')" "tableInv m s"
  show ?thesis
  proof (cases "s' = s")
    case False
    then have new: "\<not> dy_stopping s" "liveQueue s key = None" "key \<notin> set (dy_barriers s)"
      "\<not> (0 < dy_maxQueues s \<and> dy_maxQueues s \<le> int (length (dy_queues s)))"
      and s': "s' = s\<lparr>dy_queues := AList.update key (length (dy_workers s)) (dy_queues s),
          dy_workers := dy_workers s @ [(length (dy_workers s), key)],
          dy_barred := (if dy_section s then length (dy_workers s) # dy_barred s else dy_barred s)\<rparr>"
      using a(1) by (auto simp: getOrCreate_make_def Let_def split: if_splits option.splits)
    have "map_of (dy_queues s) key = None"
    proof (cases "map_of (dy_queues s) key")
      case (Some q)
      then have "(key, q) \<in> set (dy_queues s)" by (rule map_of_SomeD)
      with a(2) new(1) have "q \<notin> set (dy_closed s)" by (auto simp: tableInv_def)
      with Some new(2) show ?thesis by (simp add: liveQueue_def)
    qed
    then have none: "key \<notin> fst ` set (dy_queues s)" by (simp add: map_of_eq_None_iff)
    then have up: "AList.update key q (dy_queues s) = dy_queues s @ [(key, q)]" for q
      by (rule update_new)
    have fresh: "(q, k) \<in> set (dy_workers s) \<Longrightarrow> q \<noteq> length (dy_workers s)" for q k
      using a(2) worker_fresh [of s q k] by (auto simp: tableInv_def)
    show ?thesis
      using a(2) none new up fresh unfolding s' tableInv_def openLane_def
      by auto
  qed (use a in simp)
qed

lemma retire_inv:
  assumes "retireIfIdle idle key q s = (r, s')" "tableInv m s"
  shows "tableInv m s'"
proof (cases "s' = s")
  case False
  with assms(1) have idle: "\<not> dy_section s" "map_of (dy_queues s) key = Some q"
    and s': "s' = s\<lparr>dy_closed := q # dy_closed s, dy_queues := AList.delete key (dy_queues s)\<rparr>"
    by (auto simp: retireIfIdle_def Let_def split: if_splits)
  have q: "(key, q) \<in> set (dy_queues s)" by (rule map_of_SomeD [OF idle(2)])
  have inv: "distinct (map fst (dy_queues s))" "map fst (dy_workers s) = [0..<length (dy_workers s)]"
    "\<forall>(key, q)\<in>set (dy_queues s). (q, key) \<in> set (dy_workers s)"
    using assms(2) by (simp_all add: tableInv_def)
  have other: "(k, q) \<in> set (dy_queues s) \<Longrightarrow> k = key" for k
    using worker_unique [OF inv(2), of q k key] inv(3) q by blast
  have own: "(key, p) \<in> set (dy_queues s) \<Longrightarrow> p = q" for p
    using eq_key_imp_eq_value [OF inv(1), of key p q] q by blast
  have len: "length (AList.delete key (dy_queues s)) \<le> length (dy_queues s)"
    by (rule AList.length_delete_le)
  have lt: "q < length (dy_workers s)" using worker_fresh [OF inv(2)] inv(3) q by blast
  have del: "set (AList.delete key (dy_queues s)) = {kq \<in> set (dy_queues s). fst kq \<noteq> key}"
    by (auto simp: AList.delete_eq)
  have queues: "dy_queues s' = AList.delete key (dy_queues s)" and workers: "dy_workers s' = dy_workers s"
    and rest: "dy_maxQueues s' = dy_maxQueues s" "dy_stopping s' = dy_stopping s"
      "dy_barriers s' = dy_barriers s" "dy_section s' = dy_section s"
    and closed: "set (dy_closed s') = insert q (set (dy_closed s))"
    by (simp_all add: s')
  have bound: "m = dy_maxQueues s" "\<not> (0 < m \<and> m < int (length (dy_queues s)))"
    "\<forall>q\<in>set (dy_closed s). q < length (dy_workers s)"
    "set (dy_barriers s) \<inter> fst ` set (dy_queues s) = {}"
    "\<not> dy_stopping s \<Longrightarrow> \<forall>(key, q)\<in>set (dy_queues s). q \<notin> set (dy_closed s)"
    and open_mapped: "\<And>p k. openLane s p k \<Longrightarrow> (k, p) \<in> set (dy_queues s)"
    using assms(2) by (simp_all add: tableInv_def)
  show ?thesis unfolding tableInv_def
  proof (intro conjI)
    show "distinct (map fst (dy_queues s'))"
      unfolding queues using inv(1) by (rule AList.distinct_delete)
    show "\<forall>(key, q)\<in>set (dy_queues s'). (q, key) \<in> set (dy_workers s')"
      using inv(3) unfolding queues workers del by blast
    show "\<forall>p k. openLane s' p k \<longrightarrow> (k, p) \<in> set (dy_queues s')"
      using open_mapped own unfolding openLane_def queues workers closed del by fastforce
    show "\<not> (0 < m \<and> m < int (length (dy_queues s')))"
      using bound(2) len unfolding queues by linarith
    show "\<not> dy_stopping s' \<longrightarrow> (\<forall>(key, q)\<in>set (dy_queues s'). q \<notin> set (dy_closed s'))"
      using bound(5) other unfolding queues rest closed del by fastforce
    show "set (dy_barriers s') \<inter> fst ` set (dy_queues s') = {}"
      using bound(4) unfolding queues rest del by blast
    show "\<forall>q\<in>set (dy_closed s'). q < length (dy_workers s')"
      using bound(3) lt unfolding closed workers by blast
  qed (use inv(2) bound(1) idle(1) workers rest in simp_all)
qed (use assms in simp)

lemma laneless_key:
  "liveQueue s key = None \<Longrightarrow> \<not> dy_stopping s \<Longrightarrow> tableInv m s \<Longrightarrow> key \<notin> fst ` set (dy_queues s)"
proof
  assume a: "liveQueue s key = None" "\<not> dy_stopping s" "tableInv m s" "key \<in> fst ` set (dy_queues s)"
  then obtain q where "map_of (dy_queues s) key = Some q" by (metis map_of_eq_None_iff option.exhaust)
  moreover from map_of_SomeD [OF this] a(2,3) have "q \<notin> set (dy_closed s)"
    by (auto simp: tableInv_def)
  ultimately show False using a(1) by (simp add: liveQueue_def)
qed

lemma table_step: "dynamic_step s s' \<Longrightarrow> tableInv m s \<Longrightarrow> tableInv m s'"
proof (induction rule: dynamic_step.induct)
  case (Make key s r s')
  then show ?case by (blast intro: make_inv)
next
  case (Retire idle key q s r s')
  then show ?case by (blast intro: retire_inv)
next
  case (Laneless key s r s')
  with laneless_key [of s key m] show ?case
    by (auto simp: cleanupWithoutLiveLane_def split: if_splits) (auto simp: tableInv_def openLane_def)
next
  case (CloseAll s qs)
  have "q < length (dy_workers s)" if "q \<in> set qs" for q
  proof -
    from that CloseAll(2) obtain kq where "kq \<in> set (dy_queues s)" "q = snd kq" by blast
    then obtain key where "(key, q) \<in> set (dy_queues s)" by (metis prod.collapse)
    then show ?thesis using CloseAll(3) worker_fresh [of s q key] by (auto simp: tableInv_def)
  qed
  with CloseAll show ?case by (auto simp: tableInv_def openLane_def closeQueues_def)
next
  case (Install s r s')
  then have "s' = s\<lparr>dy_section := True, dy_barred := [],
      dy_snapshot := filter (\<lambda>q. q \<notin> set (dy_closed s)) (map snd (dy_queues s))\<rparr>"
    by (auto simp: installExclusive_def Let_def)
  moreover have "q \<in> set (filter (\<lambda>q. q \<notin> set (dy_closed s)) (map snd (dy_queues s)))"
    if "openLane s q key" for q key
  proof -
    have "(key, q) \<in> set (dy_queues s)" using that Install(3) by (simp add: tableInv_def)
    then have "snd (key, q) \<in> snd ` set (dy_queues s)" by (rule imageI)
    with that show ?thesis by (simp add: openLane_def)
  qed
  ultimately show ?case
    using Install(3) unfolding tableInv_def openLane_def by simp blast
next
  case (Unbar s key)
  then show ?case by (auto simp: tableInv_def openLane_def removeBarrier_def)
next
  case (Freeze s qs s')
  then have "s' = s\<lparr>dy_stopping := True\<rparr>" by (auto simp: markStoppingAndSnapshot_def)
  with Freeze(3) show ?case by (simp add: tableInv_def openLane_def)
next
  case (Signal s)
  then show ?case by (simp add: tableInv_def openLane_def)
next
  case (Withdraw s)
  then show ?case by (simp add: tableInv_def openLane_def withdrawExclusive_def)
qed

lemma table_reachable: "dynamic_reachable m s \<Longrightarrow> tableInv m s"
  by (induction rule: dynamic_reachable.induct)
    (auto intro: table_step, simp add: tableInv_def newDynamicStrategy_def openLane_def)

section \<open>Properties\<close>

lemma open_found:
  assumes "tableInv m s" "openLane s q key" "\<not> dy_stopped s"
  shows "getOrCreate_look key s = QueueReady q False 0"
proof -
  have "(key, q) \<in> set (dy_queues s)" "distinct (map fst (dy_queues s))"
    using assms(1,2) by (auto simp: tableInv_def)
  then have "map_of (dy_queues s) key = Some q" by simp
  with assms(2,3) show ?thesis by (simp add: getOrCreate_look_def liveQueue_def openLane_def)
qed

lemma stopping_frozen: "dynamic_step s s' \<Longrightarrow> dy_stopping s \<Longrightarrow> dy_workers s' = dy_workers s"
  by (induction rule: dynamic_step.induct)
    (auto simp: getOrCreate_make_def retireIfIdle_def cleanupWithoutLiveLane_def removeBarrier_def
      markStoppingAndSnapshot_def closeQueues_def installExclusive_def withdrawExclusive_def Let_def
      split: if_splits)

text \<open>
  C17: the Dynamic queue table, however lookups, retirement, laneless cleanup, exclusive
  sections and stop interleave: never more queues than the limit, at most one open lane per
  routing key and every lookup finds it, no open lane for a key whose cleanup runs without
  one, every lane that is open during an exclusive section either in its snapshot or made
  with its barrier, and no worker started once stop has frozen the table.
\<close>

theorem dynamic_table_invariant:
  assumes "dynamic_reachable m s"
  shows "(0 < m \<longrightarrow> int (length (dy_queues s)) \<le> m)
    \<and> (openLane s q key \<and> openLane s q' key \<longrightarrow> q = q')
    \<and> (openLane s q key \<and> \<not> dy_stopped s \<longrightarrow> getOrCreate_look key s = QueueReady q False 0)
    \<and> (key \<in> set (dy_barriers s) \<longrightarrow> \<not> openLane s q key)
    \<and> (dy_section s \<and> openLane s q key \<longrightarrow> q \<in> set (dy_snapshot s) \<union> set (dy_barred s))
    \<and> (dy_stopping s \<and> dynamic_step s s' \<longrightarrow> dy_workers s' = dy_workers s)"
proof -
  have inv: "tableInv m s" by (rule table_reachable [OF assms])
  then have mapped: "\<And>q key. openLane s q key \<Longrightarrow> (key, q) \<in> set (dy_queues s)"
    and keys: "distinct (map fst (dy_queues s))" "set (dy_barriers s) \<inter> fst ` set (dy_queues s) = {}"
    by (simp_all add: tableInv_def)
  have "openLane s q key \<and> openLane s q' key \<longrightarrow> q = q'"
    using mapped eq_key_imp_eq_value [OF keys(1)] by blast
  moreover have "key \<in> set (dy_barriers s) \<longrightarrow> \<not> openLane s q key"
    using mapped [of q key] keys(2) by force
  ultimately show ?thesis
    using inv open_found [OF inv, of q key] stopping_frozen [of s s']
    by (auto simp: tableInv_def)
qed

theorem dynamic_table_invariant_witness:
  "getOrCreate_look (accountRoutingKey 5) (snd (getOrCreate_make (accountRoutingKey 5) (newDynamicStrategy 1)))
     = QueueReady 0 False 0"
proof -
  let ?s = "snd (getOrCreate_make (accountRoutingKey 5) (newDynamicStrategy 1))"
  have "dynamic_reachable 1 ?s"
    by (rule dynamic_reachable.Step [OF dynamic_reachable.New dynamic_step.Make]) (rule surjective_pairing)
  from dynamic_table_invariant [OF this, of 0 "accountRoutingKey 5"]
  show ?thesis
    by (simp add: openLane_def getOrCreate_make_def newDynamicStrategy_def liveQueue_def Let_def)
qed

text \<open>
  The scan cadence.  A cadence that was not set explicitly is a fifth of the idle window
  when that is at least a second and one minute otherwise, so it is at least one second but
  may be tighter than the default cadence of one minute; a scan runs only when idle cleanup
  is on.
\<close>

lemma cleanup_cadence_bounds:
  "second \<le> idleCleanupPeriod after
   \<and> (idleCleanupPeriod after < defaultIdleCleanupPeriod \<longleftrightarrow>
        second \<le> after div 5 \<and> after div 5 < defaultIdleCleanupPeriod)
   \<and> fst (cleanupCadence after 0) = idleCleanupPeriod (max after 0)
   \<and> (snd (cleanupCadence after period) \<longleftrightarrow> 0 < after)
   \<and> 0 < fst (cleanupCadence after period)"
  by (auto simp: idleCleanupPeriod_def cleanupCadence_def defaultIdleCleanupPeriod_def second_def Let_def max_def)

end
