(* ===== verification/Exclusive.thy ===== *)
theory Exclusive
  imports Go_Prelude
begin

text \<open>
  \<^verbatim>\<open>AsyncEngine.Exclusive\<close> (\<^verbatim>\<open>asyncengine/exclusive.go\<close>) and the accounting of cleanup
  that has no lane (\<^verbatim>\<open>strategy.go\<close>, the lifecycle cleanups).  A lane is reduced to what the
  section protocol sees of it: whether it still takes mandatory work, whether its worker is
  running a task, and the barriers of past and present sections in its backlog.  Sections are
  numbered; only one is in progress at a time.
\<close>

section \<open>Lanes and sections\<close>

text \<open>
  \<open>el_at\<close> is the barrier the worker is in: its section's number, and whether it has been
  reached, has parked, or was aborted by a hard stop and only waits for the release.
  \<open>el_fresh\<close> marks a lane made during a section that has not reached its barrier yet: the
  barrier was queued before the worker started and waits for nothing, so it comes first.
\<close>

datatype barrier = Reached | Parked | Aborting

record exLane =
  el_open :: bool
  el_closed :: bool
  el_busy :: bool
  el_fresh :: bool
  el_queued :: "nat list"
  el_at :: "(nat \<times> barrier) option"

definition newLane :: exLane where
  "newLane = \<lparr>el_open = True, el_closed = False, el_busy = False, el_fresh = False, el_queued = [],
     el_at = None\<rparr>"

datatype exPhase =
    XOut | XTurn | XBegan | XCleanups "nat list" | XPlacing "nat list" | XCollecting nat
  | XFinalCheck | XRunning | XDrain | XDrainRun "nat list" | XReleasing | XDone

text \<open>
  \<open>ex_count\<close> counts the off-lane releases in progress (lifecycle cleanups, and for Dynamic
  the laneless ones behind a key barrier); \<open>ex_untracked\<close> those started after a completed
  stop.  \<open>ex_postponed\<close> and \<open>ex_drained\<close> list the releases this section was handed and those
  it has run.
\<close>

record exState =
  ex_stopped :: bool
  ex_hard :: bool
  ex_turn :: bool
  ex_sections :: nat
  ex_active :: bool
  ex_number :: nat
  ex_released :: bool
  ex_aborted :: bool
  ex_expected :: int
  ex_deferred :: "nat list"
  ex_count :: nat
  ex_sealed :: bool
  ex_untracked :: nat
  ex_phase :: exPhase
  ex_lanes :: "exLane list"
  ex_postponed :: "nat list"
  ex_drained :: "nat list"

definition newExclusiveState :: "nat \<Rightarrow> exState" where
  "newExclusiveState lanes =
     \<lparr>ex_stopped = False, ex_hard = False, ex_turn = False, ex_sections = 0, ex_active = False,
      ex_number = 0, ex_released = True, ex_aborted = False, ex_expected = 0, ex_deferred = [],
      ex_count = 0, ex_sealed = False, ex_untracked = 0, ex_phase = XOut,
      ex_lanes = replicate lanes newLane, ex_postponed = [], ex_drained = []\<rparr>"

section \<open>Critical sections\<close>

definition beginSection :: "exState \<Rightarrow> bool \<times> exState" where
  "beginSection s =
     (if ex_stopped s then (False, s) else (True, s\<lparr>ex_sections := ex_sections s + 1\<rparr>))"

text \<open>
  \<^verbatim>\<open>newExclusiveSection\<close> and \<^verbatim>\<open>installExclusive\<close>: the section takes the next number; the
  snapshot is the lanes not closed (a shard is never closed before stop).
\<close>

definition installSection :: "exState \<Rightarrow> nat list \<times> exState" where
  "installSection s =
     (filter (\<lambda>l. el_open (ex_lanes s ! l) \<and> \<not> el_closed (ex_lanes s ! l)) [0..<length (ex_lanes s)],
      s\<lparr>ex_active := True, ex_number := ex_number s + 1, ex_released := False, ex_aborted := False,
        ex_expected := 0, ex_deferred := [], ex_postponed := [], ex_drained := []\<rparr>)"

definition withdrawSection :: "exState \<Rightarrow> nat list option \<times> exState" where
  "withdrawSection s =
     (if ex_deferred s \<noteq> [] then (Some (ex_deferred s), s\<lparr>ex_deferred := []\<rparr>)
      else (None, s\<lparr>ex_active := False\<rparr>))"

definition postpone :: "nat \<Rightarrow> exState \<Rightarrow> exState" where
  "postpone c s = s\<lparr>ex_deferred := ex_deferred s @ [c], ex_postponed := ex_postponed s @ [c]\<rparr>"

text \<open>\<^verbatim>\<open>enqueueBarrier\<close> with the count of a barrier the lane took.\<close>

definition enqueueBarrier :: "nat \<Rightarrow> exState \<Rightarrow> exState" where
  "enqueueBarrier l s =
     (let lane = ex_lanes s ! l in
      if el_open lane
      then s\<lparr>ex_lanes := (ex_lanes s)[l := lane\<lparr>el_queued := el_queued lane @ [ex_number s]\<rparr>],
             ex_expected := ex_expected s + 1\<rparr>
      else s)"

text \<open>A Dynamic lane made on demand; during a section it starts with the barrier.\<close>

definition createLane :: "exState \<Rightarrow> exState" where
  "createLane s =
     (if ex_active s
      then s\<lparr>ex_lanes := ex_lanes s @ [newLane\<lparr>el_fresh := True, el_queued := [ex_number s]\<rparr>],
             ex_expected := ex_expected s + 1\<rparr>
      else s\<lparr>ex_lanes := ex_lanes s @ [newLane]\<rparr>)"

datatype lifecycleCleanupAdmission = Tracked | Untracked | Postponed

definition beginLifecycleCleanup :: "nat \<Rightarrow> exState \<Rightarrow> lifecycleCleanupAdmission \<times> exState" where
  "beginLifecycleCleanup c s =
     (if ex_sealed s then (Untracked, s)
      else if ex_active s then (Postponed, postpone c s)
      else (Tracked, s\<lparr>ex_count := ex_count s + 1\<rparr>))"

definition endLifecycleCleanup :: "exState \<Rightarrow> exState" where
  "endLifecycleCleanup s = (if ex_count s = 0 then s else s\<lparr>ex_count := ex_count s - 1\<rparr>)"

definition finishLifecycleCleanups :: "exState \<Rightarrow> bool \<times> exState" where
  "finishLifecycleCleanups s =
     (if ex_count s = 0 then (True, s\<lparr>ex_sealed := True\<rparr>) else (False, s))"

definition runLifecycleCleanup :: "nat \<Rightarrow> exState \<Rightarrow> exState" where
  "runLifecycleCleanup c s =
     (case beginLifecycleCleanup c s of
        (Untracked, s') \<Rightarrow> s'\<lparr>ex_untracked := ex_untracked s' + 1\<rparr>
      | (_, s') \<Rightarrow> s')"

definition setLane :: "nat \<Rightarrow> (exLane \<Rightarrow> exLane) \<Rightarrow> exState \<Rightarrow> exState" where
  "setLane l f s = s\<lparr>ex_lanes := (ex_lanes s)[l := f (ex_lanes s ! l)]\<rparr>"

section \<open>Steps\<close>

text \<open>
  The caller of \<^verbatim>\<open>runExclusive\<close>.  Its waits may end at any time because the context may be
  cancelled; they also end at the stop signal or when a barrier was aborted.
\<close>

inductive section_step :: "exState \<Rightarrow> exState \<Rightarrow> bool" where
  Turn: "ex_phase s = XOut \<Longrightarrow> \<not> ex_turn s \<Longrightarrow>
    section_step s (s\<lparr>ex_turn := True, ex_phase := XTurn\<rparr>)"
| Begin: "ex_phase s = XTurn \<Longrightarrow> beginSection s = (True, s') \<Longrightarrow> section_step s (s'\<lparr>ex_phase := XBegan\<rparr>)"
| Stopped: "ex_phase s = XTurn \<Longrightarrow> beginSection s = (False, s') \<Longrightarrow>
    section_step s (s'\<lparr>ex_turn := False, ex_phase := XOut\<rparr>)"
| Install: "ex_phase s = XBegan \<Longrightarrow> installSection s = (ls, s') \<Longrightarrow>
    section_step s (s'\<lparr>ex_phase := XCleanups ls\<rparr>)"
| CleanupsDone: "ex_phase s = XCleanups ls \<Longrightarrow> ex_count s = 0 \<Longrightarrow>
    section_step s (s\<lparr>ex_phase := XPlacing ls\<rparr>)"
| Place: "ex_phase s = XPlacing (l # ls) \<Longrightarrow>
    section_step s (enqueueBarrier l s\<lparr>ex_phase := XPlacing ls\<rparr>)"
| Collect: "ex_phase s = XPlacing [] \<Longrightarrow> section_step s (s\<lparr>ex_phase := XCollecting 0\<rparr>)"
| Receive: "ex_phase s = XCollecting n \<Longrightarrow> int n < ex_expected s \<Longrightarrow> l < length (ex_lanes s) \<Longrightarrow>
    el_at (ex_lanes s ! l) = Some (ex_number s, Reached) \<Longrightarrow>
    section_step s (setLane l (\<lambda>lane. lane\<lparr>el_at := Some (ex_number s, Parked)\<rparr>) s\<lparr>ex_phase := XCollecting (Suc n)\<rparr>)"
| Collected: "ex_phase s = XCollecting n \<Longrightarrow> ex_expected s \<le> int n \<Longrightarrow>
    section_step s (s\<lparr>ex_phase := XFinalCheck\<rparr>)"
| Fail: "ex_phase s = XCleanups ls \<or> ex_phase s = XCollecting n \<or> ex_phase s = XFinalCheck \<Longrightarrow>
    section_step s (s\<lparr>ex_phase := XDrain\<rparr>)"
| Run: "ex_phase s = XFinalCheck \<Longrightarrow> \<not> ex_stopped s \<Longrightarrow> section_step s (s\<lparr>ex_phase := XRunning\<rparr>)"
| RunDone: "ex_phase s = XRunning \<Longrightarrow> section_step s (s\<lparr>ex_phase := XDrain\<rparr>)"
| TakeDeferred: "ex_phase s = XDrain \<Longrightarrow> withdrawSection s = (Some cs, s') \<Longrightarrow>
    section_step s (s'\<lparr>ex_phase := XDrainRun cs\<rparr>)"
| RunDeferred: "ex_phase s = XDrainRun (c # cs) \<Longrightarrow>
    section_step s (s\<lparr>ex_phase := XDrainRun cs, ex_drained := ex_drained s @ [c]\<rparr>)"
| DrainAgain: "ex_phase s = XDrainRun [] \<Longrightarrow> section_step s (s\<lparr>ex_phase := XDrain\<rparr>)"
| Withdraw: "ex_phase s = XDrain \<Longrightarrow> withdrawSection s = (None, s') \<Longrightarrow>
    section_step s (s'\<lparr>ex_phase := XReleasing\<rparr>)"
| Release: "ex_phase s = XReleasing \<Longrightarrow> section_step s (s\<lparr>ex_released := True, ex_phase := XDone\<rparr>)"
| Leave: "ex_phase s = XDone \<Longrightarrow>
    section_step s (s\<lparr>ex_sections := ex_sections s - 1, ex_turn := False, ex_phase := XOut\<rparr>)"

text \<open>
  Workers, off-lane releases, retirement and stop.  \<open>tight\<close> says that idle retirement never
  seals a lane whose worker is running something; the code as it is does (see \<open>Lane_Props\<close>).
\<close>

definition barrierFree :: "exState \<Rightarrow> nat \<Rightarrow> bool" where
  "barrierFree s g \<longleftrightarrow> g \<noteq> ex_number s \<or> ex_released s"

inductive around_step :: "bool \<Rightarrow> exState \<Rightarrow> exState \<Rightarrow> bool" for tight :: bool where
  StartTask: "l < length (ex_lanes s) \<Longrightarrow> el_open (ex_lanes s ! l) \<Longrightarrow> \<not> el_busy (ex_lanes s ! l) \<Longrightarrow>
    \<not> el_fresh (ex_lanes s ! l) \<Longrightarrow> el_at (ex_lanes s ! l) = None \<Longrightarrow>
    around_step tight s (setLane l (\<lambda>lane. lane\<lparr>el_busy := True\<rparr>) s)"
| EndTask: "l < length (ex_lanes s) \<Longrightarrow>
    around_step tight s (setLane l (\<lambda>lane. lane\<lparr>el_busy := False\<rparr>) s)"
| TakeBarrier: "l < length (ex_lanes s) \<Longrightarrow> \<not> el_busy (ex_lanes s ! l) \<Longrightarrow> el_at (ex_lanes s ! l) = None \<Longrightarrow>
    el_queued (ex_lanes s ! l) = g # gs \<Longrightarrow> \<not> ex_hard s \<Longrightarrow>
    around_step tight s (setLane l (\<lambda>lane. lane\<lparr>el_fresh := False, el_queued := gs, el_at := Some (g, Reached)\<rparr>) s)"
| AbortBarrier: "l < length (ex_lanes s) \<Longrightarrow> \<not> el_busy (ex_lanes s ! l) \<Longrightarrow> el_at (ex_lanes s ! l) = None \<Longrightarrow>
    el_queued (ex_lanes s ! l) = g # gs \<Longrightarrow> ex_hard s \<Longrightarrow>
    around_step tight s (setLane l (\<lambda>lane. lane\<lparr>el_fresh := False, el_queued := gs, el_at := Some (g, Aborting)\<rparr>) s
      \<lparr>ex_aborted := (ex_aborted s \<or> g = ex_number s)\<rparr>)"
| FreeLane: "l < length (ex_lanes s) \<Longrightarrow> el_at (ex_lanes s ! l) = Some (g, p) \<Longrightarrow> barrierFree s g \<Longrightarrow>
    around_step tight s (setLane l (\<lambda>lane. lane\<lparr>el_at := None\<rparr>) s)"
| Create: "around_step tight s (createLane s)"
| Retire: "l < length (ex_lanes s) \<Longrightarrow> \<not> ex_active s \<Longrightarrow> el_queued (ex_lanes s ! l) = [] \<Longrightarrow>
    el_at (ex_lanes s ! l) = None \<Longrightarrow> (tight \<longrightarrow> \<not> el_busy (ex_lanes s ! l)) \<Longrightarrow>
    around_step tight s (setLane l (\<lambda>lane. lane\<lparr>el_open := False, el_closed := True\<rparr>) s)"
| Exit: "l < length (ex_lanes s) \<Longrightarrow> ex_stopped s \<Longrightarrow> el_queued (ex_lanes s ! l) = [] \<Longrightarrow>
    el_at (ex_lanes s ! l) = None \<Longrightarrow> \<not> el_busy (ex_lanes s ! l) \<Longrightarrow>
    around_step tight s (setLane l (\<lambda>lane. lane\<lparr>el_open := False\<rparr>) s)"
| CleanupBegin: "around_step tight s (runLifecycleCleanup c s)"
| CleanupEnd: "around_step tight s (endLifecycleCleanup s)"
| Signal: "around_step tight s (s\<lparr>ex_stopped := True\<rparr>)"
| HardSignal: "around_step tight s (s\<lparr>ex_hard := True\<rparr>)"
| CloseLanes: "l < length (ex_lanes s) \<Longrightarrow> ex_stopped s \<Longrightarrow>
    around_step tight s (setLane l (\<lambda>lane. lane\<lparr>el_closed := True\<rparr>) s)"
| Seal: "ex_stopped s \<Longrightarrow> ex_sections s = 0 \<Longrightarrow> finishLifecycleCleanups s = (True, s') \<Longrightarrow>
    around_step tight s s'"

inductive ex_reachable :: "bool \<Rightarrow> exState \<Rightarrow> bool" for tight :: bool where
  Init: "ex_reachable tight (newExclusiveState lanes)"
| Section: "ex_reachable tight s \<Longrightarrow> section_step s s' \<Longrightarrow> ex_reachable tight s'"
| Around: "ex_reachable tight s \<Longrightarrow> around_step tight s s' \<Longrightarrow> ex_reachable tight s'"

section \<open>Invariants of the protocol\<close>

fun installed :: "exPhase \<Rightarrow> bool" where
  "installed XOut = False"
| "installed XTurn = False"
| "installed XBegan = False"
| "installed XReleasing = False"
| "installed XDone = False"
| "installed ph = True"

fun inHand :: "exPhase \<Rightarrow> nat list" where
  "inHand (XDrainRun cs) = cs"
| "inHand ph = []"

fun unplaced :: "exPhase \<Rightarrow> nat list" where
  "unplaced (XCleanups ls) = ls"
| "unplaced (XPlacing ls) = ls"
| "unplaced ph = []"

fun drained :: "exPhase \<Rightarrow> bool" where
  "drained (XPlacing ls) = True"
| "drained (XCollecting n) = True"
| "drained XFinalCheck = True"
| "drained XRunning = True"
| "drained ph = False"

definition turnInv :: "exState \<Rightarrow> bool" where
  "turnInv s \<longleftrightarrow>
     ex_turn s = (ex_phase s \<noteq> XOut)
   \<and> ex_sections s = (if ex_phase s = XOut \<or> ex_phase s = XTurn then 0 else 1)
   \<and> ex_active s = installed (ex_phase s)
   \<and> ex_released s = (\<not> installed (ex_phase s) \<and> ex_phase s \<noteq> XReleasing)"

definition ledgerInv :: "exState \<Rightarrow> bool" where
  "ledgerInv s \<longleftrightarrow>
     ex_postponed s = ex_drained s @ inHand (ex_phase s) @ ex_deferred s
   \<and> (\<not> ex_active s \<longrightarrow> ex_deferred s = [])"

definition quietInv :: "exState \<Rightarrow> bool" where
  "quietInv s \<longleftrightarrow>
     (ex_sealed s \<longrightarrow> ex_stopped s \<and> ex_sections s = 0)
   \<and> (\<not> ex_sealed s \<longrightarrow> ex_untracked s = 0)
   \<and> (drained (ex_phase s) \<longrightarrow> ex_count s = 0)"

lemmas section_defs = beginSection_def installSection_def withdrawSection_def enqueueBarrier_def
  setLane_def
lemmas around_defs = setLane_def createLane_def runLifecycleCleanup_def beginLifecycleCleanup_def
  postpone_def endLifecycleCleanup_def finishLifecycleCleanups_def

lemma section_turn: "section_step s s' \<Longrightarrow> turnInv s \<Longrightarrow> turnInv s'"
  by (induction rule: section_step.induct)
    (auto simp: turnInv_def section_defs Let_def split: if_splits)

lemma section_ledger: "section_step s s' \<Longrightarrow> turnInv s \<Longrightarrow> ledgerInv s \<Longrightarrow> ledgerInv s'"
  by (induction rule: section_step.induct)
    (auto simp: ledgerInv_def turnInv_def section_defs Let_def split: if_splits)

lemma section_quiet: "section_step s s' \<Longrightarrow> turnInv s \<Longrightarrow> quietInv s \<Longrightarrow> quietInv s'"
  by (induction rule: section_step.induct)
    (auto simp: quietInv_def turnInv_def section_defs Let_def split: if_splits)

lemma around_turn: "around_step tight s s' \<Longrightarrow> turnInv s \<Longrightarrow> turnInv s'"
  by (induction rule: around_step.induct) (simp_all add: turnInv_def around_defs split: if_splits, auto)

lemma around_ledger: "around_step tight s s' \<Longrightarrow> ledgerInv s \<Longrightarrow> ledgerInv s'"
  by (induction rule: around_step.induct) (simp_all add: ledgerInv_def around_defs split: if_splits, auto)

lemma drained_installed: "drained ph \<Longrightarrow> installed ph"
  by (cases ph) auto

lemma around_quiet: "around_step tight s s' \<Longrightarrow> turnInv s \<Longrightarrow> quietInv s \<Longrightarrow> quietInv s'"
  by (induction rule: around_step.induct)
    (auto simp: quietInv_def turnInv_def around_defs dest: drained_installed split: if_splits)

text \<open>The lanes that hold the current section's barrier, and those parked at it.\<close>

definition holdsBarrier :: "nat \<Rightarrow> exLane \<Rightarrow> bool" where
  "holdsBarrier g lane \<longleftrightarrow> g \<in> set (el_queued lane) \<or> (\<exists>b. el_at lane = Some (g, b))"

definition holders :: "exState \<Rightarrow> nat set" where
  "holders s = {l. l < length (ex_lanes s) \<and> holdsBarrier (ex_number s) (ex_lanes s ! l)}"

definition parked :: "exState \<Rightarrow> nat set" where
  "parked s = {l. l < length (ex_lanes s) \<and> el_at (ex_lanes s ! l) = Some (ex_number s, Parked)}"

definition laneOK :: "bool \<Rightarrow> exState \<Rightarrow> exLane \<Rightarrow> bool" where
  "laneOK tight s lane \<longleftrightarrow>
     (el_at lane \<noteq> None \<longrightarrow> \<not> el_busy lane)
   \<and> (el_fresh lane \<longrightarrow> \<not> el_busy lane \<and> el_at lane = None \<and> el_queued lane \<noteq> [])
   \<and> (\<forall>g\<in>set (el_queued lane). g \<le> ex_number s)
   \<and> (\<forall>g b. el_at lane = Some (g, b) \<longrightarrow> g \<le> ex_number s)
   \<and> (el_closed lane \<and> el_open lane \<longrightarrow> ex_stopped s)
   \<and> (tight \<and> \<not> el_open lane \<longrightarrow> \<not> el_busy lane)"

definition lanesInv :: "bool \<Rightarrow> exState \<Rightarrow> bool" where
  "lanesInv tight s \<longleftrightarrow> (\<forall>lane\<in>set (ex_lanes s). laneOK tight s lane)"

lemma lanes_upd:
  "lanesInv tight s \<Longrightarrow> l < length (ex_lanes s) \<Longrightarrow> laneOK tight s (f (ex_lanes s ! l)) \<Longrightarrow>
     lanesInv tight (setLane l f s)"
  by (auto simp: lanesInv_def setLane_def laneOK_def dest!: set_update_subset_insert [THEN subsetD])

lemma lane_of: "lanesInv tight s \<Longrightarrow> l < length (ex_lanes s) \<Longrightarrow> laneOK tight s (ex_lanes s ! l)"
  by (simp add: lanesInv_def)

lemma section_lanes: "section_step s s' \<Longrightarrow> lanesInv tight s \<Longrightarrow> lanesInv tight s'"
proof (induction rule: section_step.induct)
  case (Place s l ls)
  show ?case
  proof (cases "l < length (ex_lanes s)")
    case True
    from Place lane_of [OF Place(2) True] show ?thesis
      by (auto simp: enqueueBarrier_def lanesInv_def laneOK_def Let_def
          dest!: set_update_subset_insert [THEN subsetD])
  qed (use Place in \<open>auto simp: enqueueBarrier_def lanesInv_def laneOK_def Let_def list_update_beyond\<close>)
next
  case (Receive s n l)
  from lane_of [OF Receive(5,3)] Receive(4)
  have "lanesInv tight (setLane l (\<lambda>lane. lane\<lparr>el_at := Some (ex_number s, Parked)\<rparr>) s)"
    by (intro lanes_upd [OF Receive(5,3)]) (auto simp: laneOK_def)
  then show ?case by (simp add: lanesInv_def laneOK_def)
qed (auto simp: lanesInv_def laneOK_def beginSection_def installSection_def withdrawSection_def
    intro: le_SucI split: if_splits)

lemma around_lanes: "around_step tight s s' \<Longrightarrow> lanesInv tight s \<Longrightarrow> lanesInv tight s'"
proof (induction rule: around_step.induct)
  case (AbortBarrier l s g gs)
  from lane_of [OF AbortBarrier(6,1)] AbortBarrier(2-4)
  have "lanesInv tight (setLane l (\<lambda>lane. lane\<lparr>el_fresh := False, el_queued := gs, el_at := Some (g, Aborting)\<rparr>) s)"
    by (intro lanes_upd [OF AbortBarrier(6,1)]) (auto simp: laneOK_def)
  then show ?case by (simp add: lanesInv_def laneOK_def)
next
  case (Create s)
  then show ?case by (auto simp: createLane_def lanesInv_def laneOK_def newLane_def)
next
  case (CleanupBegin s c)
  then show ?case
    by (simp add: lanesInv_def laneOK_def runLifecycleCleanup_def beginLifecycleCleanup_def postpone_def)
next
  case (CleanupEnd s)
  then show ?case by (simp add: lanesInv_def laneOK_def endLifecycleCleanup_def)
next
  case (Seal s s')
  then show ?case
    by (auto simp: lanesInv_def laneOK_def finishLifecycleCleanups_def split: if_splits)
next
  case (Signal s)
  then show ?case by (simp add: lanesInv_def laneOK_def)
next
  case (HardSignal s)
  then show ?case by (simp add: lanesInv_def laneOK_def)
qed (auto intro!: lanes_upd dest: lane_of simp: laneOK_def)

definition heldAt :: "nat \<Rightarrow> exLane \<Rightarrow> bool" where
  "heldAt g lane \<longleftrightarrow> (\<exists>b. el_at lane = Some (g, b)) \<or> el_fresh lane \<and> el_queued lane = [g]"

definition allHeld :: "exState \<Rightarrow> bool" where
  "allHeld s \<longleftrightarrow> (\<forall>l<length (ex_lanes s). el_open (ex_lanes s ! l) \<longrightarrow> heldAt (ex_number s) (ex_lanes s ! l))"

definition gathering :: "nat list \<Rightarrow> exState \<Rightarrow> bool" where
  "gathering ls s \<longleftrightarrow>
     distinct ls \<and> (\<forall>l\<in>set ls. l < length (ex_lanes s) \<and> l \<notin> holders s)
   \<and> ex_expected s = int (card (holders s))
   \<and> (ex_stopped s \<or> (\<forall>l<length (ex_lanes s). el_open (ex_lanes s ! l) \<longrightarrow> l \<in> holders s \<union> set ls))"

definition coverInv :: "exState \<Rightarrow> bool" where
  "coverInv s \<longleftrightarrow>
     (case ex_phase s of
        XCleanups ls \<Rightarrow> gathering ls s \<and> parked s = {}
      | XPlacing ls \<Rightarrow> gathering ls s \<and> parked s = {}
      | XCollecting n \<Rightarrow> gathering [] s \<and> n = card (parked s)
      | XFinalCheck \<Rightarrow> ex_stopped s \<or> allHeld s
      | XRunning \<Rightarrow> allHeld s
      | _ \<Rightarrow> True)"

lemma finite_holders [simp]: "finite (holders s)" "finite (parked s)"
  by (simp_all add: holders_def parked_def)

lemma parked_holders: "parked s \<subseteq> holders s"
  by (auto simp: parked_def holders_def holdsBarrier_def)

lemma nth_setLane:
  "l < length (ex_lanes s) \<Longrightarrow> k < length (ex_lanes s) \<Longrightarrow>
     ex_lanes (setLane l f s) ! k = (if k = l then f (ex_lanes s ! l) else ex_lanes s ! k)"
  by (simp add: setLane_def nth_list_update)

lemma setLane_simps [simp]:
  "length (ex_lanes (setLane l f s)) = length (ex_lanes s)" "ex_number (setLane l f s) = ex_number s"
  "ex_stopped (setLane l f s) = ex_stopped s" "ex_expected (setLane l f s) = ex_expected s"
  "ex_phase (setLane l f s) = ex_phase s"
  by (simp_all add: setLane_def)

lemma cover_upd:
  assumes "coverInv s" "l < length (ex_lanes s)"
    and "holdsBarrier (ex_number s) (f (ex_lanes s ! l)) = holdsBarrier (ex_number s) (ex_lanes s ! l)"
    and "el_at (f (ex_lanes s ! l)) = Some (ex_number s, Parked) \<longleftrightarrow>
      el_at (ex_lanes s ! l) = Some (ex_number s, Parked)"
    and "el_open (f (ex_lanes s ! l)) \<Longrightarrow> el_open (ex_lanes s ! l)"
    and "el_open (ex_lanes s ! l) \<Longrightarrow> heldAt (ex_number s) (ex_lanes s ! l) \<Longrightarrow>
      heldAt (ex_number s) (f (ex_lanes s ! l))"
  shows "coverInv (setLane l f s)"
proof -
  have "holders (setLane l f s) = holders s"
    using assms(2,3) by (auto simp: holders_def nth_setLane split: if_splits)
  moreover have "parked (setLane l f s) = parked s"
    using assms(2,4) by (auto simp: parked_def nth_setLane split: if_splits)
  moreover have "gathering ls s \<Longrightarrow> gathering ls (setLane l f s)" for ls
    using calculation(1) assms(2,5) by (auto simp: gathering_def nth_setLane)
  moreover have "allHeld s \<Longrightarrow> allHeld (setLane l f s)"
    using assms(2,5,6) by (auto simp: allHeld_def nth_setLane)
  ultimately show ?thesis
    using assms(1) by (auto simp: coverInv_def split: exPhase.splits)
qed

text \<open>Changes elsewhere in the state.\<close>

lemma cover_other:
  assumes "coverInv s" "ex_lanes s' = ex_lanes s" "ex_number s' = ex_number s"
    "ex_expected s' = ex_expected s" "ex_phase s' = ex_phase s" "ex_stopped s \<Longrightarrow> ex_stopped s'"
  shows "coverInv s'"
proof -
  have "holders s' = holders s" "parked s' = parked s" "allHeld s' = allHeld s"
    using assms(2,3) by (simp_all add: holders_def parked_def allHeld_def)
  moreover have "gathering ls s \<Longrightarrow> gathering ls s'" for ls
    using assms calculation(1) by (auto simp: gathering_def)
  ultimately show ?thesis
    using assms by (auto simp: coverInv_def split: exPhase.splits)
qed

lemma create_cover:
  assumes "coverInv s" "ex_active s = installed (ex_phase s)"
  shows "coverInv (createLane s)"
proof (cases "ex_active s")
  case True
  let ?n = "length (ex_lanes s)" and ?new = "newLane\<lparr>el_fresh := True, el_queued := [ex_number s]\<rparr>"
  let ?s = "s\<lparr>ex_lanes := ex_lanes s @ [?new], ex_expected := ex_expected s + 1\<rparr>"
  have new: "holders ?s = insert ?n (holders s)" "?n \<notin> holders s" "parked ?s = parked s"
    by (auto simp: holders_def parked_def holdsBarrier_def newLane_def nth_append less_Suc_eq split: if_splits)
  have "gathering ls s \<Longrightarrow> gathering ls ?s" for ls
    using new by (auto simp: gathering_def nth_append less_Suc_eq)
  moreover have "allHeld s \<Longrightarrow> allHeld ?s"
    by (auto simp: allHeld_def nth_append heldAt_def newLane_def less_Suc_eq)
  ultimately show ?thesis
    using assms(1) True new(3) by (auto simp: coverInv_def createLane_def split: exPhase.splits)
next
  case False
  with assms show ?thesis
    by (auto simp: coverInv_def createLane_def split: exPhase.splits)
qed

lemma uncovered:
  "turnInv s \<Longrightarrow> \<not> ex_active s \<Longrightarrow> ex_phase s' = ex_phase s \<Longrightarrow> coverInv s'"
  by (cases "ex_phase s") (auto simp: turnInv_def coverInv_def)

lemma around_cover:
  assumes "around_step tight s s'" "turnInv s" "lanesInv tight s" "coverInv s"
  shows "coverInv s'"
  using assms
proof (induction rule: around_step.induct)
  case (StartTask l s)
  then show ?case by (intro cover_upd) (auto simp: holdsBarrier_def heldAt_def)
next
  case (EndTask l s)
  then show ?case by (intro cover_upd) (auto simp: holdsBarrier_def heldAt_def)
next
  case (TakeBarrier l s g gs)
  then show ?case by (intro cover_upd) (auto simp: holdsBarrier_def heldAt_def)
next
  case (AbortBarrier l s g gs)
  have "coverInv (setLane l (\<lambda>lane. lane\<lparr>el_fresh := False, el_queued := gs, el_at := Some (g, Aborting)\<rparr>) s)"
    using AbortBarrier by (intro cover_upd) (auto simp: holdsBarrier_def heldAt_def)
  then show ?case by (rule cover_other) simp_all
next
  case (FreeLane l s g p)
  show ?case
  proof (cases "g = ex_number s")
    case True
    with FreeLane(3,4) have "\<not> ex_active s"
      by (auto simp: barrierFree_def turnInv_def)
    with FreeLane(4) show ?thesis by (rule uncovered) simp
  next
    case False
    with FreeLane lane_of [OF FreeLane(5,1)] show ?thesis
      by (intro cover_upd) (auto simp: holdsBarrier_def heldAt_def laneOK_def)
  qed
next
  case (Create s)
  then show ?case by (intro create_cover) (simp_all add: turnInv_def)
next
  case (Retire l s)
  then show ?case by (intro uncovered [of s]) simp_all
next
  case (Exit l s)
  then show ?case by (intro cover_upd) (auto simp: holdsBarrier_def heldAt_def)
next
  case (CloseLanes l s)
  then show ?case by (intro cover_upd) (auto simp: holdsBarrier_def heldAt_def)
next
  case (CleanupBegin s c)
  show ?case
    by (rule cover_other [OF CleanupBegin(3)])
      (auto simp: runLifecycleCleanup_def beginLifecycleCleanup_def postpone_def)
next
  case (CleanupEnd s)
  show ?case by (rule cover_other [OF CleanupEnd(3)]) (simp_all add: endLifecycleCleanup_def)
next
  case (Seal s s')
  show ?case
    by (rule cover_other [OF Seal(6)]) (use Seal in \<open>auto simp: finishLifecycleCleanups_def split: if_splits\<close>)
qed (auto intro: cover_other)

lemma install_cover:
  assumes "installSection s = (ls, s')" "lanesInv tight s"
  shows "gathering ls (s'\<lparr>ex_phase := XCleanups ls\<rparr>) \<and> parked (s'\<lparr>ex_phase := XCleanups ls\<rparr>) = {}"
proof -
  let ?s = "s'\<lparr>ex_phase := XCleanups ls\<rparr>"
  have s': "ex_lanes ?s = ex_lanes s" "ex_number ?s = Suc (ex_number s)" "ex_expected ?s = 0"
    "ex_stopped ?s = ex_stopped s"
    and ls: "ls = filter (\<lambda>l. el_open (ex_lanes s ! l) \<and> \<not> el_closed (ex_lanes s ! l)) [0..<length (ex_lanes s)]"
    using assms(1) by (auto simp: installSection_def)
  have "\<not> holdsBarrier (Suc (ex_number s)) (ex_lanes s ! l)"
    "el_at (ex_lanes s ! l) \<noteq> Some (Suc (ex_number s), Parked)" if "l < length (ex_lanes s)" for l
    using lane_of [OF assms(2) that] by (auto simp: laneOK_def holdsBarrier_def)
  then have none: "holders ?s = {}" "parked ?s = {}"
    unfolding holders_def parked_def s' by auto
  have "el_open (ex_lanes s ! l) \<Longrightarrow> l \<in> set ls \<or> ex_stopped s" if "l < length (ex_lanes s)" for l
    using lane_of [OF assms(2) that] that by (auto simp: ls laneOK_def)
  with none show ?thesis by (auto simp: gathering_def s') (simp_all add: ls)
qed

lemma place_cover:
  assumes "gathering (l # ls) s" "parked s = {}"
  shows "gathering ls (enqueueBarrier l s) \<and> parked (enqueueBarrier l s) = {}"
proof (cases "el_open (ex_lanes s ! l)")
  case True
  let ?f = "\<lambda>lane. lane\<lparr>el_queued := el_queued lane @ [ex_number s]\<rparr>"
  have e: "enqueueBarrier l s = setLane l ?f s\<lparr>ex_expected := ex_expected s + 1\<rparr>"
    using True by (simp add: enqueueBarrier_def setLane_def Let_def)
  have l: "l < length (ex_lanes s)" "l \<notin> holders s"
    using assms(1) by (auto simp: gathering_def)
  then have "holders (setLane l ?f s) = insert l (holders s)" "parked (setLane l ?f s) = parked s"
    by (auto simp: holders_def parked_def nth_setLane holdsBarrier_def split: if_splits)
  then have h: "holders (enqueueBarrier l s) = insert l (holders s)"
    "parked (enqueueBarrier l s) = parked s"
    unfolding e by (simp_all add: holders_def parked_def)
  have lanes: "length (ex_lanes (enqueueBarrier l s)) = length (ex_lanes s)"
    "\<And>k. k < length (ex_lanes s) \<Longrightarrow>
       el_open (ex_lanes (enqueueBarrier l s) ! k) = el_open (ex_lanes s ! k)"
    "ex_stopped (enqueueBarrier l s) = ex_stopped s"
    "ex_expected (enqueueBarrier l s) = ex_expected s + 1"
    using l(1) unfolding e by (simp_all add: nth_setLane)
  show ?thesis
    using assms h l lanes by (auto simp: gathering_def)
next
  case False
  then have "enqueueBarrier l s = s" by (simp add: enqueueBarrier_def Let_def)
  with assms False show ?thesis by (auto simp: gathering_def)
qed

lemma collected_held:
  assumes "gathering [] s" "card (parked s) = n" "ex_expected s \<le> int n" "\<not> ex_stopped s"
  shows "allHeld s"
proof -
  have "card (holders s) \<le> card (parked s)" using assms(1-3) by (simp add: gathering_def)
  then have "parked s = holders s"
    using card_seteq [OF finite_holders(1) parked_holders] by simp
  with assms(1,4) show ?thesis
    by (auto simp: gathering_def allHeld_def heldAt_def parked_def)
qed

lemma cover_phase:
  "holders (s\<lparr>ex_phase := ph\<rparr>) = holders s" "parked (s\<lparr>ex_phase := ph\<rparr>) = parked s"
  "gathering ls (s\<lparr>ex_phase := ph\<rparr>) = gathering ls s" "allHeld (s\<lparr>ex_phase := ph\<rparr>) = allHeld s"
  by (simp_all add: holders_def parked_def gathering_def allHeld_def)

lemma section_cover:
  assumes "section_step s s'" "lanesInv tight s" "coverInv s"
  shows "coverInv s'"
  using assms
proof (induction rule: section_step.induct)
  case (Install s ls s')
  then show ?case using install_cover [OF Install(2,3)] by (simp add: coverInv_def)
next
  case (Place s l ls)
  then show ?case
    using place_cover [of l ls s] by (simp add: coverInv_def cover_phase)
next
  case (Receive s n l)
  let ?u = "setLane l (\<lambda>lane. lane\<lparr>el_at := Some (ex_number s, Parked)\<rparr>) s"
  have "holders ?u = holders s" "parked ?u = insert l (parked s)" "l \<notin> parked s"
    using Receive(3,4) by (auto simp: holders_def parked_def nth_setLane holdsBarrier_def split: if_splits)
  moreover have "gathering [] s \<Longrightarrow> gathering [] ?u"
    using calculation(1) Receive(3) by (auto simp: gathering_def nth_setLane)
  ultimately show ?case
    using Receive(1,6) by (simp add: coverInv_def cover_phase)
next
  case (Collected s n)
  then show ?case using collected_held [of s n] by (auto simp: coverInv_def cover_phase)
qed (auto simp: coverInv_def cover_phase beginSection_def withdrawSection_def split: if_splits)

lemma ex_invariants:
  "ex_reachable tight s \<Longrightarrow> turnInv s \<and> ledgerInv s \<and> quietInv s \<and> lanesInv tight s \<and> coverInv s"
proof (induction rule: ex_reachable.induct)
  case (Init lanes)
  then show ?case
    by (simp add: newExclusiveState_def turnInv_def ledgerInv_def quietInv_def lanesInv_def laneOK_def
        newLane_def coverInv_def)
next
  case (Section s s')
  then show ?case
    using section_turn section_ledger section_quiet section_lanes section_cover by metis
next
  case (Around s s')
  then show ?case
    using around_turn around_ledger around_quiet around_lanes around_cover by metis
qed

section \<open>Properties\<close>

text \<open>A section over one lane, up to the point where it runs.\<close>

lemma sample_running:
  "ex_reachable tight (newExclusiveState 1\<lparr>ex_turn := True, ex_sections := 1, ex_active := True,
     ex_number := 1, ex_released := False, ex_expected := 1, ex_phase := XRunning,
     ex_lanes := [newLane\<lparr>el_at := Some (1, Parked)\<rparr>]\<rparr>)"
proof -
  note sec = ex_reachable.Section [of tight]
  note defs = newExclusiveState_def beginSection_def installSection_def enqueueBarrier_def setLane_def
    newLane_def
  let ?s0 = "newExclusiveState 1"
  let ?s1 = "?s0\<lparr>ex_turn := True, ex_phase := XTurn\<rparr>"
  let ?s2 = "?s1\<lparr>ex_sections := 1, ex_phase := XBegan\<rparr>"
  let ?s3 = "?s2\<lparr>ex_active := True, ex_number := 1, ex_released := False, ex_phase := XCleanups [0]\<rparr>"
  let ?s4 = "?s3\<lparr>ex_phase := XPlacing [0]\<rparr>"
  let ?s5 = "?s4\<lparr>ex_lanes := [newLane\<lparr>el_queued := [1]\<rparr>], ex_expected := 1, ex_phase := XPlacing []\<rparr>"
  let ?s6 = "?s5\<lparr>ex_lanes := [newLane\<lparr>el_at := Some (1, Reached)\<rparr>]\<rparr>"
  let ?s7 = "?s6\<lparr>ex_phase := XCollecting 0\<rparr>"
  let ?s8 = "?s7\<lparr>ex_lanes := [newLane\<lparr>el_at := Some (1, Parked)\<rparr>], ex_phase := XCollecting 1\<rparr>"
  have "ex_reachable tight ?s0" by (rule ex_reachable.Init)
  from sec [OF this section_step.Turn] have "ex_reachable tight ?s1" by (simp add: defs)
  from sec [OF this section_step.Begin [of ?s1 "?s1\<lparr>ex_sections := 1\<rparr>"]] have "ex_reachable tight ?s2"
    by (simp add: defs)
  from sec [OF this section_step.Install [of ?s2 "[0]" "?s2\<lparr>ex_active := True, ex_number := 1, ex_released := False\<rparr>"]]
  have "ex_reachable tight ?s3" by (simp add: defs)
  from sec [OF this section_step.CleanupsDone [of ?s3 "[0]"]] have "ex_reachable tight ?s4" by (simp add: defs)
  from sec [OF this section_step.Place [of ?s4 0 "[]"]] have "ex_reachable tight ?s5" by (simp add: defs)
  from ex_reachable.Around [OF this around_step.TakeBarrier [of 0 ?s5 1 "[]"]]
  have "ex_reachable tight ?s6" by (simp add: defs)
  from sec [OF this section_step.Collect] have "ex_reachable tight ?s7" by (simp add: defs)
  from sec [OF this section_step.Receive [of ?s7 0 0]] have "ex_reachable tight ?s8" by (simp add: defs)
  from sec [OF this section_step.Collected [of ?s8 1]]
  have "ex_reachable tight (?s8\<lparr>ex_phase := XFinalCheck\<rparr>)" by (simp add: defs)
  from sec [OF this section_step.Run] show ?thesis by (simp add: defs)
qed

text \<open>
  C18: while the function of an exclusive section runs, no lane that still takes work runs a
  task, no off-lane release is in progress, and the section is registered, so that a stop
  waits for it; if idle retirement never sealed a busy lane, no lane at all would run anything.
\<close>

theorem exclusive_runs_alone:
  assumes "ex_reachable tight s" and "ex_phase s = XRunning" and "l < length (ex_lanes s)"
  shows "(el_open (ex_lanes s ! l) \<or> tight \<longrightarrow> \<not> el_busy (ex_lanes s ! l))
    \<and> (el_open (ex_lanes s ! l) \<longrightarrow> heldAt (ex_number s) (ex_lanes s ! l))
    \<and> ex_count s = 0 \<and> ex_untracked s = 0 \<and> ex_sections s = 1"
proof -
  have inv: "turnInv s" "quietInv s" "lanesInv tight s" "coverInv s"
    using ex_invariants [OF assms(1)] by simp_all
  have lane: "laneOK tight s (ex_lanes s ! l)" by (rule lane_of [OF inv(3) assms(3)])
  have held: "el_open (ex_lanes s ! l) \<longrightarrow> heldAt (ex_number s) (ex_lanes s ! l)"
    using inv(4) assms(2,3) by (simp add: coverInv_def allHeld_def)
  with lane have "el_open (ex_lanes s ! l) \<or> tight \<longrightarrow> \<not> el_busy (ex_lanes s ! l)"
    by (auto simp: laneOK_def heldAt_def)
  with held inv(1,2) assms(2) show ?thesis by (auto simp: turnInv_def quietInv_def)
qed

theorem exclusive_runs_alone_witness:
  "\<exists>s. ex_reachable False s \<and> ex_phase s = XRunning \<and> el_open (ex_lanes s ! 0)
    \<and> \<not> el_busy (ex_lanes s ! 0)"
  using exclusive_runs_alone [OF sample_running [of False], of 0] sample_running [of False]
  by (intro exI conjI) (assumption, simp_all add: newLane_def)

text \<open>
  Every off-lane release that reaches the engine while a section is installed is run by
  the section exactly once, in order of arrival, before any lane goes on; and once the lanes
  are released none stays held by a barrier of this or an earlier section.
\<close>

lemma postponed_releases_run_once:
  assumes "ex_reachable tight s"
  shows "ex_postponed s = ex_drained s @ inHand (ex_phase s) @ ex_deferred s
    \<and> (ex_phase s = XReleasing \<or> ex_phase s = XDone \<longrightarrow> ex_drained s = ex_postponed s)
    \<and> (ex_released s \<longrightarrow> ex_phase s \<noteq> XReleasing \<and> (\<forall>g. barrierFree s g))
    \<and> (\<not> ex_released s \<and> ex_phase s \<noteq> XReleasing \<longrightarrow> ex_active s)"
proof -
  have inv: "turnInv s" "ledgerInv s" using ex_invariants [OF assms] by simp_all
  then have "ex_phase s = XReleasing \<or> ex_phase s = XDone \<Longrightarrow> ex_deferred s = []"
    by (auto simp: turnInv_def ledgerInv_def)
  with inv show ?thesis by (auto simp: turnInv_def ledgerInv_def barrierFree_def)
qed

text \<open>
  With the retirement of the code as it is, the function of a section can run beside a
  release that still runs on a retired lane: retirement sealed that lane while its worker was
  busy, so the section neither sees it nor stops it.
\<close>

lemma exclusive_beside_retired_lane:
  "\<exists>s. ex_reachable False s \<and> ex_phase s = XRunning \<and> el_busy (ex_lanes s ! 0)"
proof -
  note sec = ex_reachable.Section [of False]
  note defs = newExclusiveState_def beginSection_def installSection_def setLane_def newLane_def
  let ?busy = "newLane\<lparr>el_open := False, el_closed := True, el_busy := True\<rparr>"
  let ?s0 = "newExclusiveState 1\<lparr>ex_lanes := [?busy]\<rparr>"
  let ?s1 = "?s0\<lparr>ex_turn := True, ex_phase := XTurn\<rparr>"
  let ?s2 = "?s1\<lparr>ex_sections := 1, ex_phase := XBegan\<rparr>"
  let ?s3 = "?s2\<lparr>ex_active := True, ex_number := 1, ex_released := False, ex_phase := XCleanups []\<rparr>"
  have "ex_reachable False (newExclusiveState 1)" by (rule ex_reachable.Init)
  from ex_reachable.Around [OF this around_step.StartTask [of 0]]
  have "ex_reachable False (newExclusiveState 1\<lparr>ex_lanes := [newLane\<lparr>el_busy := True\<rparr>]\<rparr>)"
    by (simp add: defs)
  from ex_reachable.Around [OF this around_step.Retire [of 0]] have "ex_reachable False ?s0"
    by (simp add: defs)
  from sec [OF this section_step.Turn] have "ex_reachable False ?s1" by (simp add: defs)
  from sec [OF this section_step.Begin [of ?s1 "?s1\<lparr>ex_sections := 1\<rparr>"]] have "ex_reachable False ?s2"
    by (simp add: defs)
  from sec [OF this section_step.Install [of ?s2 "[]" "?s2\<lparr>ex_active := True, ex_number := 1, ex_released := False\<rparr>"]]
  have "ex_reachable False ?s3" by (simp add: defs)
  from sec [OF this section_step.CleanupsDone [of ?s3 "[]"]]
  have "ex_reachable False (?s3\<lparr>ex_phase := XPlacing []\<rparr>)" by (simp add: defs)
  from sec [OF this section_step.Collect]
  have "ex_reachable False (?s3\<lparr>ex_phase := XCollecting 0\<rparr>)" by (simp add: defs)
  from sec [OF this section_step.Collected [of _ 0]]
  have "ex_reachable False (?s3\<lparr>ex_phase := XFinalCheck\<rparr>)" by (simp add: defs)
  from sec [OF this section_step.Run]
  have "ex_reachable False (?s3\<lparr>ex_phase := XRunning\<rparr>)" by (simp add: defs)
  then show ?thesis by (intro exI conjI) (assumption, simp_all)
qed

end
