(* ===== verification/Strategy.thy ===== *)
theory Strategy
  imports Dynamic Exclusive
begin

text \<open>
  The two strategies as the facade calls them: submit with its failure handoff, the handoff
  of a release after a failed submit, and the stop sequences.  What happens on the way (the
  stop signal, the table's answer, the lane's answer) is supplied per pass of the loop, so a
  theorem over all passes covers every interleaving.
\<close>

section \<open>Submit\<close>

text \<open>
  The result of a submit and the errors its failure handoff was called with.
\<close>

type_synonym submitResult = "err \<times> go_error list"

definition failWith :: "go_error \<Rightarrow> submitResult" where
  "failWith e = (Some e, [e])"

text \<open>
  One send as its caller sees it: what the lane looks like at each look at it, and which arm
  of each select fires.  \<open>hasQuit\<close> says that the caller passed the lane's \<^verbatim>\<open>quit\<close> channel
  (a nil channel never fires: an answer that names its arm is skipped), \<open>ce\<close> is what the context's \<^verbatim>\<open>Err\<close> returns once it is done.
  \<open>None\<close> means that the send is still waiting.  \<open>Lane_Machine\<close> has the effect of these
  arms on the lane.
\<close>

datatype fenceArm = FenceProgress | FenceQuit | FenceCtxDone | FenceStop

record 't fencePass =
  fp_stopped :: bool
  fp_queue :: "'t keyQueue"
  fp_arm :: fenceArm

fun waitForMandatoryCleanup ::
  "bool \<Rightarrow> go_error \<Rightarrow> routingKey \<Rightarrow> 't fencePass list \<Rightarrow> err option" where
  "waitForMandatoryCleanup hasQuit ce key [] = None"
| "waitForMandatoryCleanup hasQuit ce key (p # ps) =
     (case checkFence (fp_stopped p) key (fp_queue p) of
        FenceOpen \<Rightarrow> Some None
      | FenceWait g \<Rightarrow>
          (case fp_arm p of
             FenceProgress \<Rightarrow> waitForMandatoryCleanup hasQuit ce key ps
           | FenceQuit \<Rightarrow>
               if hasQuit then Some (Some (Sentinel errQueueRetired))
               else waitForMandatoryCleanup hasQuit ce key ps
           | FenceCtxDone \<Rightarrow> Some (Some ce)
           | FenceStop \<Rightarrow> Some (Some (Sentinel ErrStopped))))"

datatype sendArm = SendTaken | SendQuit | SendCtxDone | SendStop | SendTick

fun sendLoop :: "bool \<Rightarrow> go_error \<Rightarrow> sendArm list \<Rightarrow> err option" where
  "sendLoop hasQuit ce [] = None"
| "sendLoop hasQuit ce (SendTaken # as) = Some None"
| "sendLoop hasQuit ce (SendQuit # as) =
     (if hasQuit then Some (Some (Sentinel errQueueRetired)) else sendLoop hasQuit ce as)"
| "sendLoop hasQuit ce (SendCtxDone # as) = Some (Some ce)"
| "sendLoop hasQuit ce (SendStop # as) = Some (Some (Sentinel ErrStopped))"
| "sendLoop hasQuit ce (SendTick # as) = sendLoop hasQuit ce as"

record 't sendRun =
  sr_fence :: "'t fencePass list"
  sr_ctxDone :: bool
  sr_queue :: "'t keyQueue"
  sr_arms :: "sendArm list"

definition sendToQueue ::
  "bool \<Rightarrow> go_error \<Rightarrow> 't queuedTask \<Rightarrow> 't sendRun \<Rightarrow> err option" where
  "sendToQueue hasQuit ce qt r =
     (case waitForMandatoryCleanup hasQuit ce (qt_key qt) (sr_fence r) of
        None \<Rightarrow> None
      | Some (Some e) \<Rightarrow> Some (Some e)
      | Some None \<Rightarrow>
          if sr_ctxDone r then Some (Some ce)
          else case sendCh qt (sr_queue r) of
                 Some q \<Rightarrow> Some None
               | None \<Rightarrow> sendLoop hasQuit ce (sr_arms r))"

definition submitToRegisteredQueue ::
  "go_error \<Rightarrow> 't queuedTask \<Rightarrow> bool \<Rightarrow> 't sendRun \<Rightarrow> err option" where
  "submitToRegisteredQueue ce qt closed r =
     (if closed then Some (Some (Sentinel errQueueRetired)) else sendToQueue True ce qt r)"

text \<open>\<^verbatim>\<open>submitToShardWithFailureHandoff\<close> passes no \<^verbatim>\<open>quit\<close> channel.\<close>

definition shardedSubmit ::
  "go_error \<Rightarrow> 't queuedTask \<Rightarrow> bool \<Rightarrow> 't sendRun \<Rightarrow> submitResult option" where
  "shardedSubmit ce qt began r =
     (if \<not> began then Some (failWith (Sentinel ErrStopped))
      else case sendToQueue False ce qt r of
             None \<Rightarrow> None
           | Some None \<Rightarrow> Some (None, [])
           | Some (Some e) \<Rightarrow> Some (failWith e))"

record 't pass =
  ps_stopped :: bool
  ps_lookup :: lookup
  ps_closed :: bool
  ps_send :: "'t sendRun"

definition queueLimitError :: "int \<Rightarrow> go_error" where
  "queueLimitError maxQueues = Wrap '''' (Sentinel ErrQueueLimit) ''max''"

text \<open>
  The loop of the Dynamic \<^verbatim>\<open>submitWithFailureHandoff\<close>; \<open>None\<close> means the passes given do
  not end it, or a send still waits.  \<^verbatim>\<open>getOrCreate\<close> waits out key barriers itself, so those two answers do not
  reach the loop.
\<close>

fun dynamicSubmitLoop ::
  "int \<Rightarrow> go_error \<Rightarrow> 't queuedTask \<Rightarrow> 't pass list \<Rightarrow> submitResult option" where
  "dynamicSubmitLoop m ce qt [] = None"
| "dynamicSubmitLoop m ce qt (p # ps) =
     (if ps_stopped p then Some (failWith (Sentinel ErrStopped))
      else case ps_lookup p of
             QueueStopped \<Rightarrow> Some (failWith (Sentinel ErrStopped))
           | QueueLimit \<Rightarrow> Some (failWith (queueLimitError m))
           | QueueReady q created n \<Rightarrow>
               (case submitToRegisteredQueue ce qt (ps_closed p) (ps_send p) of
                  None \<Rightarrow> None
                | Some None \<Rightarrow> Some (None, [])
                | Some (Some e) \<Rightarrow>
                    if errors_Is (Some e) errQueueRetired then dynamicSubmitLoop m ce qt ps
                    else Some (failWith e))
           | _ \<Rightarrow> dynamicSubmitLoop m ce qt ps)"

definition dynamicSubmit ::
  "int \<Rightarrow> go_error \<Rightarrow> 't queuedTask \<Rightarrow> bool \<Rightarrow> 't pass list \<Rightarrow> submitResult option" where
  "dynamicSubmit m ce qt began ps =
     (if \<not> began then Some (failWith (Sentinel ErrStopped)) else dynamicSubmitLoop m ce qt ps)"

section \<open>The release after a failed submit\<close>

text \<open>Who ends up with the release: a lane's backlog, the caller, or an exclusive section.\<close>

datatype owner = LaneBacklog bool | BehindBarrier | SectionDrain | CallerTracked | CallerUntracked

definition lifecycleOwner :: "lifecycleCleanupAdmission \<Rightarrow> owner" where
  "lifecycleOwner a =
     (case a of Tracked \<Rightarrow> CallerTracked | Untracked \<Rightarrow> CallerUntracked | Postponed \<Rightarrow> SectionDrain)"

text \<open>
  \<^verbatim>\<open>cleanupAfterStoppedLane\<close>: \<open>taken\<close> says that the mapped lane, if any, took the release.
\<close>

definition cleanupAfterStoppedLane :: "bool \<Rightarrow> lifecycleCleanupAdmission \<Rightarrow> owner list" where
  "cleanupAfterStoppedLane taken a = (if taken then [LaneBacklog True] else [lifecycleOwner a])"

definition shardedSchedule :: "bool \<Rightarrow> bool \<Rightarrow> bool \<Rightarrow> lifecycleCleanupAdmission \<Rightarrow> owner list" where
  "shardedSchedule began takenFirst takenFenced a =
     (let first = (if began \<and> takenFirst then [LaneBacklog False] else []) in
      if first \<noteq> [] then first
      else if takenFenced then [LaneBacklog True] else [lifecycleOwner a])"

record cleanupPass =
  cp_stopped :: bool
  cp_lookup :: lookup
  cp_began :: bool
  cp_laneless :: laneless
  cp_taken :: bool

text \<open>
  The Dynamic loop; \<open>taken\<close> and \<open>a\<close> are the answers should it end on the stopped-lane path.
\<close>

fun dynamicSchedule ::
  "bool \<Rightarrow> lifecycleCleanupAdmission \<Rightarrow> cleanupPass list \<Rightarrow> owner list option" where
  "dynamicSchedule taken a [] = None"
| "dynamicSchedule taken a (p # ps) =
     (if cp_stopped p then Some (cleanupAfterStoppedLane taken a)
      else case cp_lookup p of
             QueueStopped \<Rightarrow> Some (cleanupAfterStoppedLane taken a)
           | QueueLimit \<Rightarrow>
               if \<not> cp_began p then Some (cleanupAfterStoppedLane taken a)
               else (case cp_laneless p of
                       HandedToSection \<Rightarrow> Some [SectionDrain]
                     | BarrierInstalled \<Rightarrow> Some [BehindBarrier]
                     | TryAgain \<Rightarrow> dynamicSchedule taken a ps)
           | QueueReady q created n \<Rightarrow>
               if \<not> cp_began p then Some (cleanupAfterStoppedLane taken a)
               else if cp_taken p then Some [LaneBacklog False]
               else dynamicSchedule taken a ps
           | _ \<Rightarrow> dynamicSchedule taken a ps)"

section \<open>Stop\<close>

datatype stopEvent =
    StopCleanupLoop | HardSignalled | StopSignalled | InFlightDrained | ChannelsClosed
  | WorkersJoined | SectionsJoined | CleanupsSealed

text \<open>
  The waits of a stop: what each reports when the context may fire first.  A wait that fails
  ends the stop with its error.
\<close>

record stopWaits =
  sw_inFlight :: err
  sw_workers :: err
  sw_sections :: err
  sw_cleanups :: err

definition stopTail :: "stopWaits \<Rightarrow> err \<times> stopEvent list" where
  "stopTail w =
     (case sw_inFlight w of
        Some e \<Rightarrow> (Some e, [])
      | None \<Rightarrow>
        (case sw_workers w of
           Some e \<Rightarrow> (Some e, [InFlightDrained, ChannelsClosed])
         | None \<Rightarrow>
           (case sw_sections w of
              Some e \<Rightarrow> (Some e, [InFlightDrained, ChannelsClosed, WorkersJoined])
            | None \<Rightarrow>
              (case sw_cleanups w of
                 Some e \<Rightarrow> (Some e, [InFlightDrained, ChannelsClosed, WorkersJoined, SectionsJoined])
               | None \<Rightarrow> (None,
                   [InFlightDrained, ChannelsClosed, WorkersJoined, SectionsJoined, CleanupsSealed])))))"

definition withEvents :: "stopEvent list \<Rightarrow> err \<times> stopEvent list \<Rightarrow> err \<times> stopEvent list" where
  "withEvents evs r = (fst r, evs @ snd r)"

definition dynamic_stopGraceful :: "stopWaits \<Rightarrow> err \<times> stopEvent list" where
  "dynamic_stopGraceful w = withEvents [StopCleanupLoop, StopSignalled] (stopTail w)"

definition dynamic_stopHard :: "stopWaits \<Rightarrow> err \<times> stopEvent list" where
  "dynamic_stopHard w = withEvents [StopCleanupLoop, HardSignalled, StopSignalled] (stopTail w)"

definition sharded_stopGraceful :: "stopWaits \<Rightarrow> err \<times> stopEvent list" where
  "sharded_stopGraceful w = withEvents [StopSignalled] (stopTail w)"

definition sharded_stopHard :: "stopWaits \<Rightarrow> err \<times> stopEvent list" where
  "sharded_stopHard w = withEvents [HardSignalled, StopSignalled] (stopTail w)"

lemmas stop_defs = dynamic_stopGraceful_def dynamic_stopHard_def sharded_stopGraceful_def
  sharded_stopHard_def withEvents_def stopTail_def

section \<open>Properties\<close>

text \<open>Without a \<^verbatim>\<open>quit\<close> channel a send fails with \<^verbatim>\<open>ErrStopped\<close> or the context's error.\<close>

lemma waitFor_errors:
  "waitForMandatoryCleanup False ce key ps = Some (Some e) \<Longrightarrow> e = Sentinel ErrStopped \<or> e = ce"
proof (induction ps)
  case (Cons p ps)
  then show ?case by (cases "fp_arm p") (auto split: fenceCheck.splits)
qed simp

lemma sendLoop_errors: "sendLoop False ce as = Some (Some e) \<Longrightarrow> e = Sentinel ErrStopped \<or> e = ce"
  by (induction False ce as rule: sendLoop.induct) auto

lemma send_errors:
  "sendToQueue False ce qt r = Some (Some e) \<Longrightarrow> e = Sentinel ErrStopped \<or> e = ce"
  by (auto simp: sendToQueue_def dest: waitFor_errors sendLoop_errors split: option.splits if_splits)

lemma loop_handoff:
  "dynamicSubmitLoop m ce qt ps = Some (r, fs) \<Longrightarrow>
     fs = (case r of None \<Rightarrow> [] | Some e \<Rightarrow> [e]) \<and> \<not> errors_Is r errQueueRetired"
proof (induction ps)
  case (Cons p ps)
  have sentinels: "\<not> errors_Is (Some (Sentinel ErrStopped)) errQueueRetired"
    "\<not> errors_Is (Some (queueLimitError m)) errQueueRetired" "\<not> errors_Is None errQueueRetired"
    by (simp_all add: errors_Is_def queueLimitError_def)
  show ?case
  proof (cases "ps_stopped p")
    case False
    then show ?thesis using Cons sentinels
      by (cases "ps_lookup p") (auto simp: failWith_def split: option.splits if_splits)
  qed (use Cons sentinels in \<open>auto simp: failWith_def\<close>)
qed simp

lemma dynamic_handoff:
  "dynamicSubmit m ce qt began ps = Some (r, fs) \<Longrightarrow>
     fs = (case r of None \<Rightarrow> [] | Some e \<Rightarrow> [e]) \<and> \<not> errors_Is r errQueueRetired"
  using loop_handoff [of m ce qt ps r fs]
  by (auto simp: dynamicSubmit_def failWith_def errors_Is_def split: if_splits)

lemma sharded_handoff:
  assumes "shardedSubmit ce qt began sr = Some (r, fs)"
  shows "fs = (case r of None \<Rightarrow> [] | Some e \<Rightarrow> [e])
    \<and> (\<forall>e. r = Some e \<longrightarrow> e = Sentinel ErrStopped \<or> e = ce)
    \<and> (errors_Is r errQueueRetired \<longrightarrow> errors_Is (Some ce) errQueueRetired)"
proof (cases r)
  case None
  with assms show ?thesis
    by (auto simp: shardedSubmit_def failWith_def errors_Is_def split: if_splits option.splits)
next
  case (Some e)
  with assms have "fs = [e] \<and> (e = Sentinel ErrStopped \<or> e = ce)"
    using send_errors [of ce qt sr e]
    by (auto simp: shardedSubmit_def failWith_def split: if_splits option.splits)
  moreover have "\<not> errors_Is (Some (Sentinel ErrStopped)) errQueueRetired"
    by (simp add: errors_Is_def)
  ultimately show ?thesis using Some by auto
qed

text \<open>
  C19: a submit that fails hands its failure over exactly once, with the error it returns,
  and one that succeeds hands nothing over.  The internal retirement error never reaches a
  caller: the Dynamic loop retries on it, and a Sharded submit, which passes no \<^verbatim>\<open>quit\<close>
  channel, fails with \<^verbatim>\<open>ErrStopped\<close> or with its context's own error only.
\<close>

theorem submit_failure_handed_over_once:
  "(dynamicSubmit m ce qt began ps = Some (r, fs) \<longrightarrow>
      fs = (case r of None \<Rightarrow> [] | Some e \<Rightarrow> [e]) \<and> \<not> errors_Is r errQueueRetired)
   \<and> (shardedSubmit ce qt began sr = Some (r', fs') \<longrightarrow>
      fs' = (case r' of None \<Rightarrow> [] | Some e \<Rightarrow> [e])
      \<and> (\<forall>e. r' = Some e \<longrightarrow> e = Sentinel ErrStopped \<or> e = ce)
      \<and> (errors_Is r' errQueueRetired \<longrightarrow> errors_Is (Some ce) errQueueRetired))"
  using dynamic_handoff sharded_handoff by blast

definition sampleSend :: "unit sendRun" where
  "sampleSend = \<lparr>sr_fence = [], sr_ctxDone = False, sr_queue = newKeyQueue 1 0, sr_arms = []\<rparr>"

definition sampleTask1 :: "unit queuedTask" where
  "sampleTask1 = \<lparr>qt_task = (), qt_key = accountRoutingKey 1\<rparr>"

theorem submit_failure_handed_over_once_witness:
  "\<exists>fs. dynamicSubmit 1 (Text ''context canceled'') sampleTask1 True
       [\<lparr>ps_stopped = False, ps_lookup = QueueReady 0 False 0, ps_closed = True, ps_send = sampleSend\<rparr>,
        \<lparr>ps_stopped = True, ps_lookup = QueueStopped, ps_closed = False, ps_send = sampleSend\<rparr>]
     = Some (Some (Sentinel ErrStopped), fs) \<and> fs = [Sentinel ErrStopped]"
  using submit_failure_handed_over_once [where m = 1 and began = True and r = "Some (Sentinel ErrStopped)"
      and ce = "Text ''context canceled''" and qt = sampleTask1
      and ps = "[\<lparr>ps_stopped = False, ps_lookup = QueueReady 0 False 0, ps_closed = True, ps_send = sampleSend\<rparr>,
        \<lparr>ps_stopped = True, ps_lookup = QueueStopped, ps_closed = False, ps_send = sampleSend\<rparr>]"
      and fs = "[Sentinel ErrStopped]"]
  by (simp add: dynamicSubmit_def failWith_def submitToRegisteredQueue_def errors_Is_def)

text \<open>A release handed to a strategy gets exactly one owner.\<close>

lemma scheduled_release_has_one_owner:
  "dynamicSchedule taken a ps = Some owners \<Longrightarrow> length owners = 1"
  "length (shardedSchedule began takenFirst takenFenced a) = 1"
  by (induction taken a ps rule: dynamicSchedule.induct)
    (auto simp: cleanupAfterStoppedLane_def shardedSchedule_def Let_def
      split: if_splits lookup.splits laneless.splits)

text \<open>
  A stop of either strategy, graceful or hard, reports success exactly when every wait
  succeeded, and has then drained the producers before closing channels, joined the workers
  and the sections, and sealed the cleanups last; a failing wait ends the stop there.
\<close>

lemma stop_order:
  "stop \<in> {dynamic_stopGraceful, dynamic_stopHard, sharded_stopGraceful, sharded_stopHard} \<Longrightarrow>
     (fst (stop w) = None \<longleftrightarrow> sw_inFlight w = None \<and> sw_workers w = None \<and> sw_sections w = None \<and> sw_cleanups w = None)
   \<and> (fst (stop w) = None \<longrightarrow> (\<exists>signals. StopSignalled \<in> set signals \<and>
        snd (stop w) = signals @ [InFlightDrained, ChannelsClosed, WorkersJoined, SectionsJoined, CleanupsSealed]))
   \<and> (ChannelsClosed \<in> set (snd (stop w)) \<longrightarrow> sw_inFlight w = None)"
  by (auto simp: stop_defs split: option.splits)

end

