(* ===== verification/Param_Values.thy ===== *)
theory Param_Values
  imports Go_Prelude "HOL-Library.Word"
begin

text \<open>
  The values the model structs of the SDK are made of (\<^verbatim>\<open>param\<close>, \<^verbatim>\<open>pkg/optional\<close>,
  \<^verbatim>\<open>internal/native/string.go\<close>): C string views and the Go values that keep their buffers
  alive, assets and instruments, decimals, and the encodings of an absent value.
\<close>

section \<open>Strings across the C boundary\<close>

text \<open>
  \<^verbatim>\<open>native.String\<close> is an immutable buffer on the C heap, freed when no Go value refers to
  it; it is represented by its address and its bytes.  An \<^verbatim>\<open>Asset\<close> refers to such a buffer or
  is zero.  A \<^verbatim>\<open>StringView\<close> is a raw pointer and a length: it sees the same buffer but does
  not keep it alive.
\<close>

record buffer =
  bf_addr :: nat
  bf_bytes :: string

type_synonym asset = "buffer option"
type_synonym stringView = "buffer option"

definition NewString :: "string \<Rightarrow> nat \<Rightarrow> buffer \<times> nat" where
  "NewString source next = (\<lparr>bf_addr = next, bf_bytes = source\<rparr>, next + 1)"

definition Asset_Unsafe :: "asset \<Rightarrow> string" where
  "Asset_Unsafe a = (case a of None \<Rightarrow> '''' | Some b \<Rightarrow> bf_bytes b)"

definition Asset_Equal :: "asset \<Rightarrow> asset \<Rightarrow> bool" where
  "Asset_Equal a b = (Asset_Unsafe a = Asset_Unsafe b)"

text \<open>\<^verbatim>\<open>importString\<close> of the string that \<^verbatim>\<open>Asset.Handle\<close> returns.\<close>

definition importString :: "asset \<Rightarrow> stringView" where
  "importString a = (if Asset_Unsafe a = '''' then None else a)"

definition StringView_IsSet :: "stringView \<Rightarrow> bool" where
  "StringView_IsSet v = (case v of None \<Rightarrow> False | Some b \<Rightarrow> bf_bytes b \<noteq> '''')"

definition StringView_Safe :: "stringView \<Rightarrow> string" where
  "StringView_Safe v = (if StringView_IsSet v then bf_bytes (the v) else '''')"

text \<open>Reading an asset from a view copies it into a buffer of its own.\<close>

definition NewAssetFromHandle :: "stringView \<Rightarrow> nat \<Rightarrow> asset option \<times> nat" where
  "NewAssetFromHandle v next =
     (if \<not> StringView_IsSet v then (None, next)
      else case NewString (StringView_Safe v) next of (b, next') \<Rightarrow> (Some (Some b), next'))"

record instrument =
  in_underlying :: asset
  in_settlement :: asset

record cInstrument =
  ci_underlying :: stringView
  ci_settlement :: stringView

definition noInstrument :: instrument where
  "noInstrument = \<lparr>in_underlying = None, in_settlement = None\<rparr>"

definition zeroInstrument :: cInstrument where
  "zeroInstrument = \<lparr>ci_underlying = None, ci_settlement = None\<rparr>"

definition Instrument_Handle :: "instrument \<Rightarrow> cInstrument" where
  "Instrument_Handle i =
     \<lparr>ci_underlying = importString (in_underlying i), ci_settlement = importString (in_settlement i)\<rparr>"

definition NewInstrumentFromHandle :: "cInstrument \<Rightarrow> nat \<Rightarrow> instrument option \<times> nat" where
  "NewInstrumentFromHandle i next =
     (case NewAssetFromHandle (ci_underlying i) next of
        (None, n1) \<Rightarrow> (None, n1)
      | (Some u, n1) \<Rightarrow>
          (case NewAssetFromHandle (ci_settlement i) n1 of
             (None, n2) \<Rightarrow> (None, n2)
           | (Some s, n2) \<Rightarrow> (Some \<lparr>in_underlying = u, in_settlement = s\<rparr>, n2)))"

text \<open>An instrument both of whose assets came from \<^verbatim>\<open>NewAsset\<close>, which refuses the empty string.\<close>

definition complete :: "instrument \<Rightarrow> bool" where
  "complete i \<longleftrightarrow> Asset_Unsafe (in_underlying i) \<noteq> '''' \<and> Asset_Unsafe (in_settlement i) \<noteq> ''''"

definition sameInstrument :: "instrument \<Rightarrow> instrument \<Rightarrow> bool" where
  "sameInstrument i j \<longleftrightarrow> Asset_Equal (in_underlying i) (in_underlying j)
     \<and> Asset_Equal (in_settlement i) (in_settlement j)"

section \<open>Numbers and absent values\<close>

record decimal =
  dc_lo :: "64 word"
  dc_hi :: "64 word"
  dc_scale :: "32 word"

definition zeroDecimal :: decimal where
  "zeroDecimal = \<lparr>dc_lo = 0, dc_hi = 0, dc_scale = 0\<rparr>"

record tradeAmount =
  ta_value :: decimal
  ta_kind :: "8 word"

definition zeroTradeAmount :: tradeAmount where
  "zeroTradeAmount = \<lparr>ta_value = zeroDecimal, ta_kind = 0\<rparr>"

definition NewTradeAmountFromHandle :: "tradeAmount \<Rightarrow> tradeAmount option" where
  "NewTradeAmountFromHandle amount = (if ta_kind amount = 0 then None else Some amount)"

text \<open>The C optional: a payload and a flag.\<close>

record 'a cOptional =
  co_value :: 'a
  co_set :: bool

definition cNone :: "'a \<Rightarrow> 'a cOptional" where
  "cNone zero = \<lparr>co_value = zero, co_set = False\<rparr>"

definition cSome :: "'a \<Rightarrow> 'a cOptional" where
  "cSome v = \<lparr>co_value = v, co_set = True\<rparr>"

definition optionFromHandle :: "'a cOptional \<Rightarrow> 'a option" where
  "optionFromHandle v = (if co_set v then Some (co_value v) else None)"

text \<open>
  Enumerations of one byte whose zero means not set; the conversion of any other unknown value
  panics.
\<close>

definition NewSideFromHandle :: "8 word \<Rightarrow> 8 word option res" where
  "NewSideFromHandle v =
     (if v = 2 then Ret (Some 2) else if v = 1 then Ret (Some 1) else if v = 0 then Ret None
      else Panic (PanicValue ''unknown native ParamSide value''))"

definition NewPositionSideFromHandle :: "8 word \<Rightarrow> 8 word option res" where
  "NewPositionSideFromHandle v =
     (if v = 1 then Ret (Some 1) else if v = 2 then Ret (Some 2) else if v = 0 then Ret None
      else Panic (PanicValue ''unknown native ParamPositionSide value''))"

definition NewLeverageOptionFromHandle :: "16 word \<Rightarrow> 16 word option" where
  "NewLeverageOptionFromHandle v = (if v = 0 then None else Some v)"

text \<open>\<^verbatim>\<open>optional.Bool\<close> is an \<^verbatim>\<open>int8\<close> whose unset value is -1; the zero value is false.\<close>

type_synonym optionalBool = "8 word"

definition BoolNone :: optionalBool where "BoolNone = -1"

definition BoolSome :: "bool \<Rightarrow> optionalBool" where
  "BoolSome v = (if v then 1 else 0)"

definition Bool_IsSet :: "optionalBool \<Rightarrow> bool" where
  "Bool_IsSet b = (b \<noteq> BoolNone)"

definition Bool_Get :: "optionalBool \<Rightarrow> bool \<times> bool" where
  "Bool_Get b = (b = 1, Bool_IsSet b)"

definition NewNativeTriBool :: "bool \<Rightarrow> 8 word" where
  "NewNativeTriBool v = (if v then 2 else 1)"

definition NewBoolOptionFromNative :: "8 word \<Rightarrow> optionalBool" where
  "NewBoolOptionFromNative v = (if v = 0 then BoolNone else BoolSome (v = 2))"

section \<open>Buffers a value points into and buffers it keeps alive\<close>

definition assetBuffers :: "buffer option \<Rightarrow> buffer set" where
  "assetBuffers a = set_option a"

definition instrumentBuffers :: "instrument \<Rightarrow> buffer set" where
  "instrumentBuffers i = assetBuffers (in_underlying i) \<union> assetBuffers (in_settlement i)"

definition viewBuffers :: "cInstrument \<Rightarrow> buffer set" where
  "viewBuffers i = assetBuffers (ci_underlying i) \<union> assetBuffers (ci_settlement i)"

lemma assetBuffers_simps [simp]: "assetBuffers None = {}" "assetBuffers (Some b) = {b}"
  by (simp_all add: assetBuffers_def)

lemma importString_buffers [simp]: "assetBuffers (importString a) \<subseteq> assetBuffers a"
  by (simp add: importString_def)

lemma handle_buffers [simp]: "viewBuffers (Instrument_Handle i) \<subseteq> instrumentBuffers i"
  by (auto simp: viewBuffers_def instrumentBuffers_def Instrument_Handle_def importString_def)

lemma noInstrument_buffers [simp]: "instrumentBuffers noInstrument = {}" "viewBuffers zeroInstrument = {}"
  by (simp_all add: instrumentBuffers_def noInstrument_def viewBuffers_def zeroInstrument_def)

lemma importString_IsSet [simp]: "StringView_IsSet (importString a) \<longleftrightarrow> Asset_Unsafe a \<noteq> ''''"
  by (auto simp: StringView_IsSet_def importString_def Asset_Unsafe_def split: option.splits)

lemma importString_Safe [simp]: "StringView_Safe (importString a) = Asset_Unsafe a"
  by (auto simp: StringView_Safe_def StringView_IsSet_def importString_def Asset_Unsafe_def
      split: option.splits)

lemma asset_import:
  "NewAssetFromHandle (importString a) n =
     (if Asset_Unsafe a = '''' then (None, n)
      else (Some (Some \<lparr>bf_addr = n, bf_bytes = Asset_Unsafe a\<rparr>), n + 1))"
  by (simp add: NewAssetFromHandle_def NewString_def)

lemma instrument_import:
  "\<exists>m. NewInstrumentFromHandle (Instrument_Handle i) n = (if complete i then
     Some \<lparr>in_underlying = Some \<lparr>bf_addr = n, bf_bytes = Asset_Unsafe (in_underlying i)\<rparr>,
           in_settlement = Some \<lparr>bf_addr = n + 1, bf_bytes = Asset_Unsafe (in_settlement i)\<rparr>\<rparr>
     else None, m)"
  by (auto simp: NewInstrumentFromHandle_def Instrument_Handle_def asset_import complete_def)

lemma Bool_roundtrip [simp]: "NewBoolOptionFromNative (NewNativeTriBool v) = BoolSome v"
  by (simp add: NewBoolOptionFromNative_def NewNativeTriBool_def)

lemma BoolNone_simps [simp]: "NewBoolOptionFromNative 0 = BoolNone" "Bool_IsSet BoolNone = False"
  "Bool_IsSet (BoolSome v)" "Bool_Get (BoolSome v) = (v, True)"
  by (simp_all add: NewBoolOptionFromNative_def Bool_IsSet_def BoolSome_def BoolNone_def Bool_Get_def)

lemma optionFromHandle_simps [simp]: "optionFromHandle (cSome v) = Some v" "optionFromHandle (cNone z) = None"
  by (simp_all add: optionFromHandle_def cSome_def cNone_def)

lemma cOptional_simps [simp]: "co_value (cSome v) = v" "co_set (cSome v)" "co_value (cNone z) = z"
  "\<not> co_set (cNone z)"
  by (simp_all add: cSome_def cNone_def)

end
