(* ===== verification/Order_Model.thy ===== *)
theory Order_Model
  imports Param_Values
begin

text \<open>
  The order of the public API (\<^verbatim>\<open>model/order.go\<close> over \<^verbatim>\<open>internal/native/order.go\<close>): the
  C structs, the Go values that wrap them with the assets they retain, the mutable views, and
  the lifetime discipline that keeps every string pointer of a C struct backed.
\<close>

section \<open>The C structs\<close>

record cOrderOperation =
  oo_trade_amount :: tradeAmount
  oo_instrument :: cInstrument
  oo_price :: "decimal cOptional"
  oo_account_id :: "64 word cOptional"
  oo_side :: "8 word"

record cOrderPosition =
  ps_side :: "8 word"
  ps_reduce_only :: "8 word"
  ps_close_position :: "8 word"

record cOrderMargin =
  mg_collateral :: stringView
  mg_auto_borrow :: "8 word"
  mg_leverage :: "16 word"

record cOrder =
  cr_operation :: "cOrderOperation cOptional"
  cr_position :: "cOrderPosition cOptional"
  cr_margin :: "cOrderMargin cOptional"

definition zeroOperation :: cOrderOperation where
  "zeroOperation = \<lparr>oo_trade_amount = zeroTradeAmount, oo_instrument = zeroInstrument,
     oo_price = cNone zeroDecimal, oo_account_id = cNone 0, oo_side = 0\<rparr>"

definition zeroPosition :: cOrderPosition where
  "zeroPosition = \<lparr>ps_side = 0, ps_reduce_only = 0, ps_close_position = 0\<rparr>"

definition zeroMargin :: cOrderMargin where
  "zeroMargin = \<lparr>mg_collateral = None, mg_auto_borrow = 0, mg_leverage = 0\<rparr>"

definition zeroOrder :: cOrder where
  "zeroOrder = \<lparr>cr_operation = cNone zeroOperation, cr_position = cNone zeroPosition,
     cr_margin = cNone zeroMargin\<rparr>"

section \<open>The operation of an order\<close>

record orderOperation =
  op_value :: cOrderOperation
  op_retain :: instrument

record orderOperationValues =
  ov_tradeAmount :: "tradeAmount option"
  ov_instrument :: "instrument option"
  ov_price :: "decimal option"
  ov_accountID :: "64 word option"
  ov_side :: "8 word option"

definition NewOrderOperation :: orderOperation where
  "NewOrderOperation = \<lparr>op_value = zeroOperation, op_retain = noInstrument\<rparr>"

definition OrderOperation_Reset :: "orderOperation \<Rightarrow> orderOperation" where
  "OrderOperation_Reset o1 = o1\<lparr>op_value := zeroOperation, op_retain := noInstrument\<rparr>"

definition OrderOperation_TradeAmount :: "orderOperation \<Rightarrow> tradeAmount option" where
  "OrderOperation_TradeAmount o1 = NewTradeAmountFromHandle (oo_trade_amount (op_value o1))"

definition OrderOperation_SetTradeAmount :: "tradeAmount \<Rightarrow> orderOperation \<Rightarrow> orderOperation" where
  "OrderOperation_SetTradeAmount v o1 = o1\<lparr>op_value := (op_value o1)\<lparr>oo_trade_amount := v\<rparr>\<rparr>"

definition OrderOperation_UnsetTradeAmount :: "orderOperation \<Rightarrow> orderOperation" where
  "OrderOperation_UnsetTradeAmount o1 = o1\<lparr>op_value := (op_value o1)\<lparr>oo_trade_amount := zeroTradeAmount\<rparr>\<rparr>"

definition OrderOperation_Instrument :: "orderOperation \<Rightarrow> nat \<Rightarrow> instrument option \<times> nat" where
  "OrderOperation_Instrument o1 next = NewInstrumentFromHandle (oo_instrument (op_value o1)) next"

definition OrderOperation_SetInstrument :: "instrument \<Rightarrow> orderOperation \<Rightarrow> orderOperation" where
  "OrderOperation_SetInstrument i o1 =
     o1\<lparr>op_value := (op_value o1)\<lparr>oo_instrument := Instrument_Handle i\<rparr>, op_retain := i\<rparr>"

definition OrderOperation_UnsetInstrument :: "orderOperation \<Rightarrow> orderOperation" where
  "OrderOperation_UnsetInstrument o1 =
     o1\<lparr>op_value := (op_value o1)\<lparr>oo_instrument := zeroInstrument\<rparr>, op_retain := noInstrument\<rparr>"

definition OrderOperation_Price :: "orderOperation \<Rightarrow> decimal option" where
  "OrderOperation_Price o1 = optionFromHandle (oo_price (op_value o1))"

definition OrderOperation_SetPrice :: "decimal \<Rightarrow> orderOperation \<Rightarrow> orderOperation" where
  "OrderOperation_SetPrice p o1 = o1\<lparr>op_value := (op_value o1)\<lparr>oo_price := cSome p\<rparr>\<rparr>"

definition OrderOperation_UnsetPrice :: "orderOperation \<Rightarrow> orderOperation" where
  "OrderOperation_UnsetPrice o1 = o1\<lparr>op_value := (op_value o1)\<lparr>oo_price := cNone zeroDecimal\<rparr>\<rparr>"

definition OrderOperation_AccountID :: "orderOperation \<Rightarrow> 64 word option" where
  "OrderOperation_AccountID o1 = optionFromHandle (oo_account_id (op_value o1))"

definition OrderOperation_SetAccountID :: "64 word \<Rightarrow> orderOperation \<Rightarrow> orderOperation" where
  "OrderOperation_SetAccountID a o1 = o1\<lparr>op_value := (op_value o1)\<lparr>oo_account_id := cSome a\<rparr>\<rparr>"

definition OrderOperation_UnsetAccountID :: "orderOperation \<Rightarrow> orderOperation" where
  "OrderOperation_UnsetAccountID o1 = o1\<lparr>op_value := (op_value o1)\<lparr>oo_account_id := cNone 0\<rparr>\<rparr>"

definition OrderOperation_Side :: "orderOperation \<Rightarrow> 8 word option res" where
  "OrderOperation_Side o1 = NewSideFromHandle (oo_side (op_value o1))"

definition OrderOperation_SetSide :: "8 word \<Rightarrow> orderOperation \<Rightarrow> orderOperation" where
  "OrderOperation_SetSide s o1 = o1\<lparr>op_value := (op_value o1)\<lparr>oo_side := s\<rparr>\<rparr>"

definition OrderOperation_UnsetSide :: "orderOperation \<Rightarrow> orderOperation" where
  "OrderOperation_UnsetSide o1 = o1\<lparr>op_value := (op_value o1)\<lparr>oo_side := 0\<rparr>\<rparr>"

definition applySome :: "('v \<Rightarrow> 's \<Rightarrow> 's) \<Rightarrow> 'v option \<Rightarrow> 's \<Rightarrow> 's" where
  "applySome f v s = (case v of None \<Rightarrow> s | Some x \<Rightarrow> f x s)"

definition OrderOperation_setValues :: "orderOperationValues \<Rightarrow> orderOperation \<Rightarrow> orderOperation" where
  "OrderOperation_setValues vs o1 =
     applySome OrderOperation_SetSide (ov_side vs)
     (applySome OrderOperation_SetAccountID (ov_accountID vs)
     (applySome OrderOperation_SetPrice (ov_price vs)
     (applySome OrderOperation_SetInstrument (ov_instrument vs)
     (applySome OrderOperation_SetTradeAmount (ov_tradeAmount vs) o1))))"

definition OrderOperation_SetValues :: "orderOperationValues \<Rightarrow> orderOperation \<Rightarrow> orderOperation" where
  "OrderOperation_SetValues vs o1 = OrderOperation_setValues vs (OrderOperation_Reset o1)"

definition NewOrderOperationFromValues :: "orderOperationValues \<Rightarrow> orderOperation" where
  "NewOrderOperationFromValues vs = OrderOperation_setValues vs NewOrderOperation"

text \<open>The getters run in field order; reading the side may panic.\<close>

definition OrderOperation_Values :: "orderOperation \<Rightarrow> nat \<Rightarrow> orderOperationValues res \<times> nat" where
  "OrderOperation_Values o1 next =
     (case OrderOperation_Instrument o1 next of (i, next') \<Rightarrow>
       (case OrderOperation_Side o1 of
          Panic p \<Rightarrow> Panic p
        | Ret s \<Rightarrow> Ret \<lparr>ov_tradeAmount = OrderOperation_TradeAmount o1, ov_instrument = i,
            ov_price = OrderOperation_Price o1, ov_accountID = OrderOperation_AccountID o1,
            ov_side = s\<rparr>, next'))"

lemmas operation_defs = OrderOperation_Reset_def OrderOperation_SetTradeAmount_def
  OrderOperation_UnsetTradeAmount_def OrderOperation_SetInstrument_def OrderOperation_UnsetInstrument_def
  OrderOperation_SetPrice_def OrderOperation_UnsetPrice_def OrderOperation_SetAccountID_def
  OrderOperation_UnsetAccountID_def OrderOperation_SetSide_def OrderOperation_UnsetSide_def
lemmas operation_getters = OrderOperation_TradeAmount_def OrderOperation_Instrument_def
  OrderOperation_Price_def OrderOperation_AccountID_def OrderOperation_Side_def

section \<open>The position and the margin of an order\<close>

text \<open>An \<^verbatim>\<open>OrderPosition\<close> holds its C struct and no reference.\<close>

record orderPositionValues =
  pv_side :: "8 word option"
  pv_reduceOnly :: optionalBool
  pv_closePosition :: optionalBool

definition OrderPosition_Side :: "cOrderPosition \<Rightarrow> 8 word option res" where
  "OrderPosition_Side p = NewPositionSideFromHandle (ps_side p)"

definition OrderPosition_SetSide :: "8 word \<Rightarrow> cOrderPosition \<Rightarrow> cOrderPosition" where
  "OrderPosition_SetSide s p = p\<lparr>ps_side := s\<rparr>"

definition OrderPosition_UnsetSide :: "cOrderPosition \<Rightarrow> cOrderPosition" where
  "OrderPosition_UnsetSide p = p\<lparr>ps_side := 0\<rparr>"

definition OrderPosition_ReduceOnly :: "cOrderPosition \<Rightarrow> optionalBool" where
  "OrderPosition_ReduceOnly p = NewBoolOptionFromNative (ps_reduce_only p)"

definition OrderPosition_SetReduceOnly :: "bool \<Rightarrow> cOrderPosition \<Rightarrow> cOrderPosition" where
  "OrderPosition_SetReduceOnly b p = p\<lparr>ps_reduce_only := NewNativeTriBool b\<rparr>"

definition OrderPosition_UnsetReduceOnly :: "cOrderPosition \<Rightarrow> cOrderPosition" where
  "OrderPosition_UnsetReduceOnly p = p\<lparr>ps_reduce_only := 0\<rparr>"

definition OrderPosition_ClosePosition :: "cOrderPosition \<Rightarrow> optionalBool" where
  "OrderPosition_ClosePosition p = NewBoolOptionFromNative (ps_close_position p)"

definition OrderPosition_SetClosePosition :: "bool \<Rightarrow> cOrderPosition \<Rightarrow> cOrderPosition" where
  "OrderPosition_SetClosePosition b p = p\<lparr>ps_close_position := NewNativeTriBool b\<rparr>"

definition OrderPosition_UnsetClosePosition :: "cOrderPosition \<Rightarrow> cOrderPosition" where
  "OrderPosition_UnsetClosePosition p = p\<lparr>ps_close_position := 0\<rparr>"

definition applyBool :: "(bool \<Rightarrow> 's \<Rightarrow> 's) \<Rightarrow> optionalBool \<Rightarrow> 's \<Rightarrow> 's" where
  "applyBool f b s = (case Bool_Get b of (v, ok) \<Rightarrow> if ok then f v s else s)"

definition OrderPosition_setValues :: "orderPositionValues \<Rightarrow> cOrderPosition \<Rightarrow> cOrderPosition" where
  "OrderPosition_setValues vs p =
     applyBool OrderPosition_SetClosePosition (pv_closePosition vs)
     (applyBool OrderPosition_SetReduceOnly (pv_reduceOnly vs)
     (applySome OrderPosition_SetSide (pv_side vs) p))"

definition OrderPosition_SetValues :: "orderPositionValues \<Rightarrow> cOrderPosition \<Rightarrow> cOrderPosition" where
  "OrderPosition_SetValues vs p = OrderPosition_setValues vs zeroPosition"

definition NewOrderPositionFromValues :: "orderPositionValues \<Rightarrow> cOrderPosition" where
  "NewOrderPositionFromValues vs = OrderPosition_setValues vs zeroPosition"

definition OrderPosition_Values :: "cOrderPosition \<Rightarrow> orderPositionValues res" where
  "OrderPosition_Values p =
     (case OrderPosition_Side p of
        Panic q \<Rightarrow> Panic q
      | Ret s \<Rightarrow> Ret \<lparr>pv_side = s, pv_reduceOnly = OrderPosition_ReduceOnly p,
          pv_closePosition = OrderPosition_ClosePosition p\<rparr>)"

lemmas position_defs = OrderPosition_Side_def OrderPosition_SetSide_def OrderPosition_UnsetSide_def
  OrderPosition_ReduceOnly_def OrderPosition_SetReduceOnly_def OrderPosition_UnsetReduceOnly_def
  OrderPosition_ClosePosition_def OrderPosition_SetClosePosition_def OrderPosition_UnsetClosePosition_def

record orderMargin =
  om_value :: cOrderMargin
  om_retain :: asset

record orderMarginValues =
  mv_collateralAsset :: "asset option"
  mv_autoBorrow :: optionalBool
  mv_leverage :: "16 word option"

definition NewOrderMargin :: orderMargin where
  "NewOrderMargin = \<lparr>om_value = zeroMargin, om_retain = None\<rparr>"

definition OrderMargin_Reset :: "orderMargin \<Rightarrow> orderMargin" where
  "OrderMargin_Reset m = m\<lparr>om_value := zeroMargin, om_retain := None\<rparr>"

definition OrderMargin_CollateralAsset :: "orderMargin \<Rightarrow> nat \<Rightarrow> asset option \<times> nat" where
  "OrderMargin_CollateralAsset m next = NewAssetFromHandle (mg_collateral (om_value m)) next"

definition OrderMargin_SetCollateralAsset :: "asset \<Rightarrow> orderMargin \<Rightarrow> orderMargin" where
  "OrderMargin_SetCollateralAsset a m =
     m\<lparr>om_value := (om_value m)\<lparr>mg_collateral := importString a\<rparr>, om_retain := a\<rparr>"

definition OrderMargin_UnsetCollateralAsset :: "orderMargin \<Rightarrow> orderMargin" where
  "OrderMargin_UnsetCollateralAsset m = m\<lparr>om_value := (om_value m)\<lparr>mg_collateral := None\<rparr>, om_retain := None\<rparr>"

definition OrderMargin_AutoBorrow :: "orderMargin \<Rightarrow> optionalBool" where
  "OrderMargin_AutoBorrow m = NewBoolOptionFromNative (mg_auto_borrow (om_value m))"

definition OrderMargin_SetAutoBorrow :: "bool \<Rightarrow> orderMargin \<Rightarrow> orderMargin" where
  "OrderMargin_SetAutoBorrow b m = m\<lparr>om_value := (om_value m)\<lparr>mg_auto_borrow := NewNativeTriBool b\<rparr>\<rparr>"

definition OrderMargin_UnsetAutoBorrow :: "orderMargin \<Rightarrow> orderMargin" where
  "OrderMargin_UnsetAutoBorrow m = m\<lparr>om_value := (om_value m)\<lparr>mg_auto_borrow := 0\<rparr>\<rparr>"

definition OrderMargin_Leverage :: "orderMargin \<Rightarrow> 16 word option" where
  "OrderMargin_Leverage m = NewLeverageOptionFromHandle (mg_leverage (om_value m))"

definition OrderMargin_SetLeverage :: "16 word \<Rightarrow> orderMargin \<Rightarrow> orderMargin" where
  "OrderMargin_SetLeverage l m = m\<lparr>om_value := (om_value m)\<lparr>mg_leverage := l\<rparr>\<rparr>"

definition OrderMargin_UnsetLeverage :: "orderMargin \<Rightarrow> orderMargin" where
  "OrderMargin_UnsetLeverage m = m\<lparr>om_value := (om_value m)\<lparr>mg_leverage := 0\<rparr>\<rparr>"

definition OrderMargin_setValues :: "orderMarginValues \<Rightarrow> orderMargin \<Rightarrow> orderMargin" where
  "OrderMargin_setValues vs m =
     applySome OrderMargin_SetLeverage (mv_leverage vs)
     (applyBool OrderMargin_SetAutoBorrow (mv_autoBorrow vs)
     (applySome OrderMargin_SetCollateralAsset (mv_collateralAsset vs) m))"

definition OrderMargin_SetValues :: "orderMarginValues \<Rightarrow> orderMargin \<Rightarrow> orderMargin" where
  "OrderMargin_SetValues vs m = OrderMargin_setValues vs (OrderMargin_Reset m)"

definition NewOrderMarginFromValues :: "orderMarginValues \<Rightarrow> orderMargin" where
  "NewOrderMarginFromValues vs = OrderMargin_setValues vs NewOrderMargin"

definition OrderMargin_Values :: "orderMargin \<Rightarrow> nat \<Rightarrow> orderMarginValues \<times> nat" where
  "OrderMargin_Values m next =
     (case OrderMargin_CollateralAsset m next of (a, next') \<Rightarrow>
        (\<lparr>mv_collateralAsset = a, mv_autoBorrow = OrderMargin_AutoBorrow m,
          mv_leverage = OrderMargin_Leverage m\<rparr>, next'))"

lemmas margin_defs = OrderMargin_Reset_def OrderMargin_SetCollateralAsset_def
  OrderMargin_UnsetCollateralAsset_def OrderMargin_SetAutoBorrow_def OrderMargin_UnsetAutoBorrow_def
  OrderMargin_SetLeverage_def OrderMargin_UnsetLeverage_def
lemmas margin_getters = OrderMargin_CollateralAsset_def OrderMargin_AutoBorrow_def OrderMargin_Leverage_def

section \<open>The order\<close>

record orderFieldsRetain =
  rt_instrument :: instrument
  rt_collateral :: asset

record order =
  od_value :: cOrder
  od_retain :: orderFieldsRetain

record orderValues =
  vs_operation :: "orderOperation option"
  vs_position :: "cOrderPosition option"
  vs_margin :: "orderMargin option"

definition noRetain :: orderFieldsRetain where
  "noRetain = \<lparr>rt_instrument = noInstrument, rt_collateral = None\<rparr>"

definition NewOrderFromHandle :: "cOrder \<Rightarrow> order" where
  "NewOrderFromHandle v = \<lparr>od_value = v, od_retain = noRetain\<rparr>"

definition NewOrder :: order where
  "NewOrder = NewOrderFromHandle zeroOrder"

definition Order_Reset :: "order \<Rightarrow> order" where
  "Order_Reset o1 = o1\<lparr>od_value := zeroOrder, od_retain := noRetain\<rparr>"

text \<open>
  The operation stored in an order together with the retain field that belongs to it, and the
  same for the margin: what a view of the group refers to.
\<close>

definition operationPart :: "order \<Rightarrow> orderOperation" where
  "operationPart o1 = \<lparr>op_value = co_value (cr_operation (od_value o1)),
     op_retain = rt_instrument (od_retain o1)\<rparr>"

definition marginPart :: "order \<Rightarrow> orderMargin" where
  "marginPart o1 = \<lparr>om_value = co_value (cr_margin (od_value o1)),
     om_retain = rt_collateral (od_retain o1)\<rparr>"

definition Order_Operation :: "order \<Rightarrow> orderOperation option" where
  "Order_Operation o1 =
     (if \<not> co_set (cr_operation (od_value o1)) then None else Some (operationPart o1))"

definition Order_SetOperation :: "orderOperation \<Rightarrow> order \<Rightarrow> order" where
  "Order_SetOperation x o1 =
     o1\<lparr>od_value := (od_value o1)\<lparr>cr_operation := cSome (op_value x)\<rparr>,
        od_retain := (od_retain o1)\<lparr>rt_instrument := op_retain x\<rparr>\<rparr>"

definition Order_UnsetOperation :: "order \<Rightarrow> order" where
  "Order_UnsetOperation o1 =
     o1\<lparr>od_value := (od_value o1)\<lparr>cr_operation := cNone zeroOperation\<rparr>,
        od_retain := (od_retain o1)\<lparr>rt_instrument := noInstrument\<rparr>\<rparr>"

text \<open>
  \<^verbatim>\<open>EnsureOperationView\<close> and a method of the view it returns.  The view holds the address of
  the operation inside the order and of the order's retain field, and has the methods of
  \<^verbatim>\<open>OrderOperation\<close>; it stays usable whatever happens to the order, so a method of a view
  does not depend on the group's flag.
\<close>

definition Order_EnsureOperation :: "order \<Rightarrow> order" where
  "Order_EnsureOperation o1 =
     (if co_set (cr_operation (od_value o1)) then o1
      else o1\<lparr>od_value := (od_value o1)\<lparr>cr_operation := cSome zeroOperation\<rparr>\<rparr>)"

definition OrderOperationView :: "(orderOperation \<Rightarrow> orderOperation) \<Rightarrow> order \<Rightarrow> order" where
  "OrderOperationView method o1 =
     (let x = method (operationPart o1) in
      o1\<lparr>od_value := (od_value o1)\<lparr>cr_operation := (cr_operation (od_value o1))\<lparr>co_value := op_value x\<rparr>\<rparr>,
         od_retain := (od_retain o1)\<lparr>rt_instrument := op_retain x\<rparr>\<rparr>)"

definition Order_Position :: "order \<Rightarrow> cOrderPosition option" where
  "Order_Position o1 = optionFromHandle (cr_position (od_value o1))"

definition Order_SetPosition :: "cOrderPosition \<Rightarrow> order \<Rightarrow> order" where
  "Order_SetPosition p o1 = o1\<lparr>od_value := (od_value o1)\<lparr>cr_position := cSome p\<rparr>\<rparr>"

definition Order_UnsetPosition :: "order \<Rightarrow> order" where
  "Order_UnsetPosition o1 = o1\<lparr>od_value := (od_value o1)\<lparr>cr_position := cNone zeroPosition\<rparr>\<rparr>"

definition Order_EnsurePosition :: "order \<Rightarrow> order" where
  "Order_EnsurePosition o1 =
     (if co_set (cr_position (od_value o1)) then o1
      else o1\<lparr>od_value := (od_value o1)\<lparr>cr_position := cSome zeroPosition\<rparr>\<rparr>)"

definition OrderPositionView :: "(cOrderPosition \<Rightarrow> cOrderPosition) \<Rightarrow> order \<Rightarrow> order" where
  "OrderPositionView method o1 =
     o1\<lparr>od_value := (od_value o1)\<lparr>cr_position := (cr_position (od_value o1))
       \<lparr>co_value := method (co_value (cr_position (od_value o1)))\<rparr>\<rparr>\<rparr>"

definition Order_Margin :: "order \<Rightarrow> orderMargin option" where
  "Order_Margin o1 =
     (if \<not> co_set (cr_margin (od_value o1)) then None else Some (marginPart o1))"

definition Order_SetMargin :: "orderMargin \<Rightarrow> order \<Rightarrow> order" where
  "Order_SetMargin m o1 =
     o1\<lparr>od_value := (od_value o1)\<lparr>cr_margin := cSome (om_value m)\<rparr>,
        od_retain := (od_retain o1)\<lparr>rt_collateral := om_retain m\<rparr>\<rparr>"

definition Order_UnsetMargin :: "order \<Rightarrow> order" where
  "Order_UnsetMargin o1 =
     o1\<lparr>od_value := (od_value o1)\<lparr>cr_margin := cNone zeroMargin\<rparr>,
        od_retain := (od_retain o1)\<lparr>rt_collateral := None\<rparr>\<rparr>"

definition Order_EnsureMargin :: "order \<Rightarrow> order" where
  "Order_EnsureMargin o1 =
     (if co_set (cr_margin (od_value o1)) then o1
      else o1\<lparr>od_value := (od_value o1)\<lparr>cr_margin := cSome zeroMargin\<rparr>\<rparr>)"

definition OrderMarginView :: "(orderMargin \<Rightarrow> orderMargin) \<Rightarrow> order \<Rightarrow> order" where
  "OrderMarginView method o1 =
     (let x = method (marginPart o1) in
      o1\<lparr>od_value := (od_value o1)\<lparr>cr_margin := (cr_margin (od_value o1))\<lparr>co_value := om_value x\<rparr>\<rparr>,
         od_retain := (od_retain o1)\<lparr>rt_collateral := om_retain x\<rparr>\<rparr>)"

definition Order_setValues :: "orderValues \<Rightarrow> order \<Rightarrow> order" where
  "Order_setValues vs o1 =
     applySome Order_SetMargin (vs_margin vs)
     (applySome Order_SetPosition (vs_position vs)
     (applySome Order_SetOperation (vs_operation vs) o1))"

definition Order_SetValues :: "orderValues \<Rightarrow> order \<Rightarrow> order" where
  "Order_SetValues vs o1 = Order_setValues vs (Order_Reset o1)"

definition NewOrderFromValues :: "orderValues \<Rightarrow> order" where
  "NewOrderFromValues vs = Order_setValues vs NewOrder"

definition Order_Values :: "order \<Rightarrow> orderValues" where
  "Order_Values o1 = \<lparr>vs_operation = Order_Operation o1, vs_position = Order_Position o1,
     vs_margin = Order_Margin o1\<rparr>"

lemmas order_defs = Order_Reset_def Order_SetOperation_def Order_UnsetOperation_def
  Order_EnsureOperation_def OrderOperationView_def Order_SetPosition_def Order_UnsetPosition_def
  Order_EnsurePosition_def OrderPositionView_def Order_SetMargin_def Order_UnsetMargin_def
  Order_EnsureMargin_def OrderMarginView_def

section \<open>What a caller can build\<close>

text \<open>The methods that change an operation or a margin, of the value or of the view.\<close>

inductive operation_method :: "(orderOperation \<Rightarrow> orderOperation) \<Rightarrow> bool" where
  "operation_method OrderOperation_Reset"
| "operation_method (OrderOperation_SetTradeAmount v)"
| "operation_method OrderOperation_UnsetTradeAmount"
| "operation_method (OrderOperation_SetInstrument i)"
| "operation_method OrderOperation_UnsetInstrument"
| "operation_method (OrderOperation_SetPrice p)"
| "operation_method OrderOperation_UnsetPrice"
| "operation_method (OrderOperation_SetAccountID a)"
| "operation_method OrderOperation_UnsetAccountID"
| "operation_method (OrderOperation_SetSide s)"
| "operation_method OrderOperation_UnsetSide"
| "operation_method (OrderOperation_SetValues vs)"

inductive margin_method :: "(orderMargin \<Rightarrow> orderMargin) \<Rightarrow> bool" where
  "margin_method OrderMargin_Reset"
| "margin_method (OrderMargin_SetCollateralAsset a)"
| "margin_method OrderMargin_UnsetCollateralAsset"
| "margin_method (OrderMargin_SetAutoBorrow b)"
| "margin_method OrderMargin_UnsetAutoBorrow"
| "margin_method (OrderMargin_SetLeverage l)"
| "margin_method OrderMargin_UnsetLeverage"
| "margin_method (OrderMargin_SetValues vs)"

text \<open>The buffers an order's C struct points into, and those the order keeps alive.\<close>

definition orderPointers :: "cOrder \<Rightarrow> buffer set" where
  "orderPointers v = viewBuffers (oo_instrument (co_value (cr_operation v)))
     \<union> assetBuffers (mg_collateral (co_value (cr_margin v)))"

definition orderHolds :: "orderFieldsRetain \<Rightarrow> buffer set" where
  "orderHolds r = instrumentBuffers (rt_instrument r) \<union> assetBuffers (rt_collateral r)"

text \<open>
  Every order, operation and margin a caller can build: from new values or from a handle, with
  every method of the values and of the views, and by moving groups from one order to another.
  \<open>E\<close> is the engine memory the handles the caller was given point into.
\<close>

inductive built_order :: "buffer set \<Rightarrow> order \<Rightarrow> bool"
  and built_operation :: "buffer set \<Rightarrow> orderOperation \<Rightarrow> bool"
  and built_margin :: "buffer set \<Rightarrow> orderMargin \<Rightarrow> bool" for E :: "buffer set" where
  "built_order E NewOrder"
| "orderPointers v \<subseteq> E \<Longrightarrow> built_order E (NewOrderFromHandle v)"
| "built_order E o1 \<Longrightarrow> built_order E (Order_Reset o1)"
| "built_order E o1 \<Longrightarrow> built_operation E x \<Longrightarrow> built_order E (Order_SetOperation x o1)"
| "built_order E o1 \<Longrightarrow> built_order E (Order_UnsetOperation o1)"
| "built_order E o1 \<Longrightarrow> built_order E (Order_EnsureOperation o1)"
| "built_order E o1 \<Longrightarrow> operation_method f \<Longrightarrow> built_order E (OrderOperationView f o1)"
| "built_order E o1 \<Longrightarrow> built_order E (Order_SetPosition p o1)"
| "built_order E o1 \<Longrightarrow> built_order E (Order_UnsetPosition o1)"
| "built_order E o1 \<Longrightarrow> built_order E (Order_EnsurePosition o1)"
| "built_order E o1 \<Longrightarrow> built_order E (OrderPositionView g o1)"
| "built_order E o1 \<Longrightarrow> built_margin E m \<Longrightarrow> built_order E (Order_SetMargin m o1)"
| "built_order E o1 \<Longrightarrow> built_order E (Order_UnsetMargin o1)"
| "built_order E o1 \<Longrightarrow> built_order E (Order_EnsureMargin o1)"
| "built_order E o1 \<Longrightarrow> margin_method h \<Longrightarrow> built_order E (OrderMarginView h o1)"
| "built_operation E NewOrderOperation"
| "built_operation E x \<Longrightarrow> operation_method f \<Longrightarrow> built_operation E (f x)"
| "built_order E o1 \<Longrightarrow> Order_Operation o1 = Some x \<Longrightarrow> built_operation E x"
| "built_margin E NewOrderMargin"
| "built_margin E m \<Longrightarrow> margin_method h \<Longrightarrow> built_margin E (h m)"
| "built_order E o1 \<Longrightarrow> Order_Margin o1 = Some m \<Longrightarrow> built_margin E m"

section \<open>Retention\<close>

text \<open>A group is backed when what it points into is retained or is engine memory.\<close>

definition operationBacked :: "buffer set \<Rightarrow> orderOperation \<Rightarrow> bool" where
  "operationBacked E x \<longleftrightarrow> viewBuffers (oo_instrument (op_value x)) \<subseteq> instrumentBuffers (op_retain x) \<union> E"

definition marginBacked :: "buffer set \<Rightarrow> orderMargin \<Rightarrow> bool" where
  "marginBacked E m \<longleftrightarrow> assetBuffers (mg_collateral (om_value m)) \<subseteq> assetBuffers (om_retain m) \<union> E"

definition orderBacked :: "buffer set \<Rightarrow> order \<Rightarrow> bool" where
  "orderBacked E o1 \<longleftrightarrow> operationBacked E (operationPart o1) \<and> marginBacked E (marginPart o1)"

lemma part_simps [simp]:
  "operationPart (Order_SetOperation x o1) = x"
  "operationPart (Order_UnsetOperation o1) = NewOrderOperation"
  "operationPart (Order_Reset o1) = NewOrderOperation"
  "operationPart NewOrder = NewOrderOperation"
  "operationPart (OrderOperationView f o1) = f (operationPart o1)"
  "operationPart (Order_SetPosition p o1) = operationPart o1"
  "operationPart (Order_UnsetPosition o1) = operationPart o1"
  "operationPart (Order_EnsurePosition o1) = operationPart o1"
  "operationPart (OrderPositionView g o1) = operationPart o1"
  "operationPart (Order_SetMargin m o1) = operationPart o1"
  "operationPart (Order_UnsetMargin o1) = operationPart o1"
  "operationPart (Order_EnsureMargin o1) = operationPart o1"
  "operationPart (OrderMarginView h o1) = operationPart o1"
  "marginPart (Order_SetOperation x o1) = marginPart o1"
  "marginPart (Order_UnsetOperation o1) = marginPart o1"
  "marginPart (Order_Reset o1) = NewOrderMargin"
  "marginPart NewOrder = NewOrderMargin"
  "marginPart (Order_EnsureOperation o1) = marginPart o1"
  "marginPart (OrderOperationView f o1) = marginPart o1"
  "marginPart (Order_SetPosition p o1) = marginPart o1"
  "marginPart (Order_UnsetPosition o1) = marginPart o1"
  "marginPart (Order_EnsurePosition o1) = marginPart o1"
  "marginPart (OrderPositionView g o1) = marginPart o1"
  "marginPart (Order_SetMargin m o1) = m"
  "marginPart (Order_UnsetMargin o1) = NewOrderMargin"
  "marginPart (OrderMarginView h o1) = h (marginPart o1)"
  by (simp_all add: operationPart_def marginPart_def order_defs NewOrder_def NewOrderFromHandle_def
      noRetain_def zeroOrder_def NewOrderOperation_def NewOrderMargin_def Let_def)

lemma ensure_backed:
  "operationBacked E (operationPart o1) \<Longrightarrow> operationBacked E (operationPart (Order_EnsureOperation o1))"
  "marginBacked E (marginPart o1) \<Longrightarrow> marginBacked E (marginPart (Order_EnsureMargin o1))"
  by (simp_all add: Order_EnsureOperation_def Order_EnsureMargin_def operationPart_def marginPart_def
      operationBacked_def marginBacked_def zeroOperation_def zeroMargin_def)

lemma new_backed [simp]: "operationBacked E NewOrderOperation" "marginBacked E NewOrderMargin"
  by (simp_all add: operationBacked_def NewOrderOperation_def zeroOperation_def marginBacked_def
      NewOrderMargin_def zeroMargin_def)

lemma set_backed [simp]:
  "operationBacked E (OrderOperation_SetInstrument i x)"
  "operationBacked E (OrderOperation_UnsetInstrument x)"
  "operationBacked E (OrderOperation_Reset x)"
  "operationBacked E (OrderOperation_SetTradeAmount v x) = operationBacked E x"
  "operationBacked E (OrderOperation_UnsetTradeAmount x) = operationBacked E x"
  "operationBacked E (OrderOperation_SetPrice p x) = operationBacked E x"
  "operationBacked E (OrderOperation_UnsetPrice x) = operationBacked E x"
  "operationBacked E (OrderOperation_SetAccountID a x) = operationBacked E x"
  "operationBacked E (OrderOperation_UnsetAccountID x) = operationBacked E x"
  "operationBacked E (OrderOperation_SetSide d x) = operationBacked E x"
  "operationBacked E (OrderOperation_UnsetSide x) = operationBacked E x"
  by (auto simp: operationBacked_def operation_defs zeroOperation_def
      dest: subsetD [OF handle_buffers])

lemma margin_backed [simp]:
  "marginBacked E (OrderMargin_SetCollateralAsset a m)"
  "marginBacked E (OrderMargin_UnsetCollateralAsset m)"
  "marginBacked E (OrderMargin_Reset m)"
  "marginBacked E (OrderMargin_SetAutoBorrow b m) = marginBacked E m"
  "marginBacked E (OrderMargin_UnsetAutoBorrow m) = marginBacked E m"
  "marginBacked E (OrderMargin_SetLeverage l m) = marginBacked E m"
  "marginBacked E (OrderMargin_UnsetLeverage m) = marginBacked E m"
  by (auto simp: marginBacked_def margin_defs zeroMargin_def dest: subsetD [OF importString_buffers])

lemma operation_setValues_backed [simp]:
  "operationBacked E x \<Longrightarrow> operationBacked E (OrderOperation_setValues vs x)"
  by (simp add: OrderOperation_setValues_def applySome_def split: option.split)

lemma margin_setValues_backed [simp]: "marginBacked E m \<Longrightarrow> marginBacked E (OrderMargin_setValues vs m)"
  by (simp add: OrderMargin_setValues_def applySome_def applyBool_def split: option.split prod.split)

lemma operation_method_backed: "operation_method f \<Longrightarrow> operationBacked E x \<Longrightarrow> operationBacked E (f x)"
  by (induction rule: operation_method.induct) (simp_all add: OrderOperation_SetValues_def)

lemma margin_method_backed: "margin_method h \<Longrightarrow> marginBacked E m \<Longrightarrow> marginBacked E (h m)"
  by (induction rule: margin_method.induct) (simp_all add: OrderMargin_SetValues_def)

lemma handle_backed:
  assumes "orderPointers v \<subseteq> E"
  shows "operationBacked E (operationPart (NewOrderFromHandle v))"
    "marginBacked E (marginPart (NewOrderFromHandle v))"
  using assms
  by (auto simp: orderPointers_def operationBacked_def marginBacked_def operationPart_def marginPart_def
      NewOrderFromHandle_def)

lemma built_backed:
  shows built_order_backed: "built_order E o1 \<Longrightarrow> orderBacked E o1"
    and built_operation_backed: "built_operation E x \<Longrightarrow> operationBacked E x"
    and built_margin_backed: "built_margin E m \<Longrightarrow> marginBacked E m"
  by (induction rule: built_order_built_operation_built_margin.inducts)
    (simp_all add: orderBacked_def operation_method_backed margin_method_backed ensure_backed
      handle_backed Order_Operation_def Order_Margin_def split: if_splits)

section \<open>Reading back what was written\<close>

definition codeValid :: "8 word \<Rightarrow> bool" where "codeValid s \<longleftrightarrow> s = 1 \<or> s = 2"
definition boolValid :: "optionalBool \<Rightarrow> bool" where "boolValid b \<longleftrightarrow> b = BoolNone \<or> b = 0 \<or> b = 1"

definition operationValid :: "orderOperationValues \<Rightarrow> bool" where
  "operationValid vs \<longleftrightarrow> pred_option (\<lambda>a. ta_kind a \<noteq> 0) (ov_tradeAmount vs)
     \<and> pred_option complete (ov_instrument vs) \<and> pred_option codeValid (ov_side vs)"

definition positionValid :: "orderPositionValues \<Rightarrow> bool" where
  "positionValid vs \<longleftrightarrow> pred_option codeValid (pv_side vs) \<and> boolValid (pv_reduceOnly vs)
     \<and> boolValid (pv_closePosition vs)"

definition marginValid :: "orderMarginValues \<Rightarrow> bool" where
  "marginValid vs \<longleftrightarrow> pred_option (\<lambda>a. Asset_Unsafe a \<noteq> '''') (mv_collateralAsset vs)
     \<and> boolValid (mv_autoBorrow vs) \<and> pred_option (\<lambda>l. l \<noteq> 0) (mv_leverage vs)"

text \<open>Reading makes new assets, so instruments and assets come back equal in content.\<close>

definition sameOperationValues :: "orderOperationValues \<Rightarrow> orderOperationValues \<Rightarrow> bool" where
  "sameOperationValues vs ws \<longleftrightarrow> rel_option sameInstrument (ov_instrument vs) (ov_instrument ws)
     \<and> ov_tradeAmount ws = ov_tradeAmount vs \<and> ov_price ws = ov_price vs
     \<and> ov_accountID ws = ov_accountID vs \<and> ov_side ws = ov_side vs"

definition sameMarginValues :: "orderMarginValues \<Rightarrow> orderMarginValues \<Rightarrow> bool" where
  "sameMarginValues vs ws \<longleftrightarrow> rel_option Asset_Equal (mv_collateralAsset vs) (mv_collateralAsset ws)
     \<and> mv_autoBorrow ws = mv_autoBorrow vs \<and> mv_leverage ws = mv_leverage vs"

lemma applySome_simps [simp]: "applySome f None s = s" "applySome f (Some x) s = f x s"
  by (simp_all add: applySome_def)

lemma bool_readback:
  assumes "boolValid b"
  shows "NewBoolOptionFromNative (case Bool_Get b of (v, ok) \<Rightarrow> if ok then NewNativeTriBool v else 0) = b"
  using assms
  by (auto simp: boolValid_def Bool_Get_def Bool_IsSet_def NewBoolOptionFromNative_def NewNativeTriBool_def
      BoolSome_def BoolNone_def)

lemma read_no_instrument: "NewInstrumentFromHandle zeroInstrument n = (None, n)"
  by (simp add: NewInstrumentFromHandle_def NewAssetFromHandle_def StringView_IsSet_def zeroInstrument_def)

lemma instrument_readback:
  "pred_option complete i \<Longrightarrow> \<exists>j m. NewInstrumentFromHandle
     (case i of None \<Rightarrow> zeroInstrument | Some x \<Rightarrow> Instrument_Handle x) n = (j, m) \<and> rel_option sameInstrument i j"
  using instrument_import [of "the i" n]
  by (cases i) (auto simp: read_no_instrument sameInstrument_def Asset_Equal_def Asset_Unsafe_def)

lemma instrument_readback_iff:
  "(\<exists>j m. NewInstrumentFromHandle (Instrument_Handle x) n = (Some j, m) \<and> sameInstrument x j) \<longleftrightarrow> complete x"
  using instrument_import [of x n]
  by (auto simp: sameInstrument_def Asset_Equal_def Asset_Unsafe_def split: if_splits)

lemma bool_readback_iff:
  "NewBoolOptionFromNative (if Bool_IsSet b then NewNativeTriBool (b = 1) else 0) = b \<longleftrightarrow> boolValid b"
  by (auto simp: boolValid_def Bool_IsSet_def BoolSome_def BoolNone_def)

lemma position_roundtrip: "OrderPosition_Values (NewOrderPositionFromValues pv) = Ret pv \<longleftrightarrow> positionValid pv"
  using bool_readback_iff [of "pv_reduceOnly pv"] bool_readback_iff [of "pv_closePosition pv"]
  by (cases pv; cases "pv_side pv")
    (auto simp: OrderPosition_Values_def NewOrderPositionFromValues_def OrderPosition_setValues_def
      applyBool_def Bool_Get_def position_defs zeroPosition_def NewPositionSideFromHandle_def
      positionValid_def codeValid_def split: if_splits)

lemma read_no_asset [simp]: "NewAssetFromHandle None n = (None, n)"
  by (simp add: NewAssetFromHandle_def StringView_IsSet_def)

definition readAsset :: "nat \<Rightarrow> asset \<Rightarrow> asset option" where
  "readAsset n a = (if Asset_Unsafe a = '''' then None else Some (Some \<lparr>bf_addr = n, bf_bytes = Asset_Unsafe a\<rparr>))"

lemma read_asset: "fst (NewAssetFromHandle (importString a) n) = readAsset n a"
  by (simp add: readAsset_def asset_import)

lemma readAsset_same: "rel_option Asset_Equal (Some a) (readAsset n a) \<longleftrightarrow> Asset_Unsafe a \<noteq> ''''"
  by (auto simp: readAsset_def Asset_Equal_def Asset_Unsafe_def)

lemma margin_read:
  "fst (OrderMargin_Values (NewOrderMarginFromValues mv) n) =
     \<lparr>mv_collateralAsset = (case mv_collateralAsset mv of None \<Rightarrow> None | Some a \<Rightarrow> readAsset n a),
      mv_autoBorrow = NewBoolOptionFromNative
        (if Bool_IsSet (mv_autoBorrow mv) then NewNativeTriBool (mv_autoBorrow mv = 1) else 0),
      mv_leverage = (case mv_leverage mv of None \<Rightarrow> None | Some l \<Rightarrow> if l = 0 then None else Some l)\<rparr>"
  by (cases "mv_collateralAsset mv"; cases "mv_leverage mv")
    (simp_all add: OrderMargin_Values_def NewOrderMarginFromValues_def OrderMargin_setValues_def
      applyBool_def Bool_Get_def margin_defs margin_getters NewOrderMargin_def zeroMargin_def
      NewLeverageOptionFromHandle_def read_asset [symmetric] split: prod.split)

lemma margin_roundtrip:
  "sameMarginValues mv (fst (OrderMargin_Values (NewOrderMarginFromValues mv) n)) \<longleftrightarrow> marginValid mv"
  unfolding margin_read sameMarginValues_def marginValid_def
  using bool_readback_iff [of "mv_autoBorrow mv"]
  by (cases mv; cases "mv_collateralAsset mv"; cases "mv_leverage mv")
    (auto simp: readAsset_same)

lemma operation_read:
  "OrderOperation_Values (NewOrderOperationFromValues ov) n =
     (case NewInstrumentFromHandle (case ov_instrument ov of None \<Rightarrow> zeroInstrument | Some i \<Rightarrow> Instrument_Handle i) n of
        (i, m) \<Rightarrow> (case NewSideFromHandle (case ov_side ov of None \<Rightarrow> 0 | Some s \<Rightarrow> s) of
           Panic p \<Rightarrow> Panic p
         | Ret s \<Rightarrow> Ret \<lparr>ov_tradeAmount = (case ov_tradeAmount ov of None \<Rightarrow> None
               | Some a \<Rightarrow> if ta_kind a = 0 then None else Some a),
             ov_instrument = i, ov_price = ov_price ov, ov_accountID = ov_accountID ov, ov_side = s\<rparr>, m))"
  by (cases "ov_instrument ov"; cases "ov_side ov"; cases "ov_tradeAmount ov"; cases "ov_price ov";
      cases "ov_accountID ov")
    (simp_all add: OrderOperation_Values_def NewOrderOperationFromValues_def OrderOperation_setValues_def
      operation_defs operation_getters NewOrderOperation_def zeroOperation_def zeroTradeAmount_def
      NewTradeAmountFromHandle_def split: prod.split res.split)

lemma side_readback:
  "NewSideFromHandle (case s of None \<Rightarrow> 0 | Some x \<Rightarrow> x) = Ret s \<longleftrightarrow> pred_option codeValid s"
  by (auto simp: NewSideFromHandle_def codeValid_def split: option.splits if_splits)

lemma instrument_readback_option:
  "(\<exists>j m. NewInstrumentFromHandle (case i of None \<Rightarrow> zeroInstrument | Some x \<Rightarrow> Instrument_Handle x) n = (j, m)
     \<and> rel_option sameInstrument i j) \<longleftrightarrow> pred_option complete i"
  using instrument_readback_iff [of "the i" n]
  by (cases i) (auto simp: read_no_instrument option_rel_Some1)

lemma operation_roundtrip:
  "(\<exists>ws. fst (OrderOperation_Values (NewOrderOperationFromValues ov) n) = Ret ws \<and> sameOperationValues ov ws)
     \<longleftrightarrow> operationValid ov"
proof -
  obtain j m where j: "NewInstrumentFromHandle (case ov_instrument ov of None \<Rightarrow> zeroInstrument
      | Some i \<Rightarrow> Instrument_Handle i) n = (j, m)" by fastforce
  have r: "rel_option sameInstrument (ov_instrument ov) j \<longleftrightarrow> pred_option complete (ov_instrument ov)"
    using instrument_readback_option [of "ov_instrument ov" n] by (simp add: j)
  have t: "(case ov_tradeAmount ov of None \<Rightarrow> None | Some a \<Rightarrow> if ta_kind a = 0 then None else Some a)
      = ov_tradeAmount ov \<longleftrightarrow> pred_option (\<lambda>a. ta_kind a \<noteq> 0) (ov_tradeAmount ov)"
    by (auto split: option.split)
  show ?thesis
  proof (cases "NewSideFromHandle (case ov_side ov of None \<Rightarrow> 0 | Some x \<Rightarrow> x)")
    case (Ret s)
    then have "s = ov_side ov \<longleftrightarrow> pred_option codeValid (ov_side ov)"
      using side_readback [of "ov_side ov"] by auto
    with r t Ret show ?thesis
      by (auto simp: operation_read j operationValid_def sameOperationValues_def)
  next
    case (Panic p)
    then have "\<not> pred_option codeValid (ov_side ov)" using side_readback [of "ov_side ov"] by auto
    with Panic show ?thesis by (simp add: operation_read j operationValid_def)
  qed
qed

section \<open>Properties\<close>

lemma backed_pointers: "orderBacked E o1 \<Longrightarrow> orderPointers (od_value o1) \<subseteq> orderHolds (od_retain o1) \<union> E"
  by (auto simp: orderBacked_def operationBacked_def marginBacked_def operationPart_def marginPart_def
      orderPointers_def orderHolds_def)

text \<open>What a getter returns is in new buffers, whatever the group points into.\<close>

lemma read_fresh:
  "NewAssetFromHandle v n = (Some a, m) \<Longrightarrow> b \<in> assetBuffers a \<Longrightarrow> n \<le> bf_addr b"
  "NewInstrumentFromHandle i n = (Some j, m) \<Longrightarrow> b \<in> instrumentBuffers j \<Longrightarrow> n \<le> bf_addr b"
  by (auto simp: NewInstrumentFromHandle_def NewAssetFromHandle_def NewString_def assetBuffers_def
      instrumentBuffers_def split: if_splits option.splits prod.splits)


definition sampleInstrument :: instrument where
  "sampleInstrument = \<lparr>in_underlying = Some \<lparr>bf_addr = 1, bf_bytes = ''AAPL''\<rparr>,
     in_settlement = Some \<lparr>bf_addr = 2, bf_bytes = ''USD''\<rparr>\<rparr>"

text \<open>An order from a policy's hook, with a view of engine memory in its margin.\<close>

definition engineBuffer :: buffer where
  "engineBuffer = \<lparr>bf_addr = 9, bf_bytes = ''USD''\<rparr>"

definition hookOrder :: cOrder where
  "hookOrder = zeroOrder\<lparr>cr_margin := cSome (zeroMargin\<lparr>mg_collateral := Some engineBuffer\<rparr>)\<rparr>"


text \<open>
  An order reads back what it was given.  An order made from groups, or given them with
  \<^verbatim>\<open>SetValues\<close>, returns exactly those groups, whatever it held before.  A group made from
  values reads back the same values, assets by content, exactly when the values are
  representable: an instrument or a collateral asset with no empty name, a trade amount of a
  kind that is set, sides that are one of the two, a leverage other than zero, and flags that
  are unset, false or true.
\<close>

lemma order_values_roundtrip:
  "Order_Values (NewOrderFromValues vs) = vs \<and> Order_Values (Order_SetValues vs o1) = vs
   \<and> (operationValid ov \<longleftrightarrow> (\<exists>ws. fst (OrderOperation_Values (NewOrderOperationFromValues ov) n) = Ret ws
        \<and> sameOperationValues ov ws))
   \<and> (positionValid pv \<longleftrightarrow> OrderPosition_Values (NewOrderPositionFromValues pv) = Ret pv)
   \<and> (marginValid mv \<longleftrightarrow> sameMarginValues mv (fst (OrderMargin_Values (NewOrderMarginFromValues mv) n)))"
proof -
  have "Order_Values (Order_setValues vs (Order_Reset o1)) = vs" for o1
    by (cases vs; cases "vs_operation vs"; cases "vs_position vs"; cases "vs_margin vs")
      (simp_all add: Order_Values_def Order_setValues_def order_defs Order_Operation_def Order_Position_def
        Order_Margin_def operationPart_def marginPart_def zeroOrder_def)
  moreover have "NewOrder = Order_Reset NewOrder"
    by (simp add: NewOrder_def NewOrderFromHandle_def Order_Reset_def)
  ultimately show ?thesis
    by (metis NewOrderFromValues_def Order_SetValues_def operation_roundtrip position_roundtrip margin_roundtrip)
qed

end
