(* ===== verification/Report_Model.thy ===== *)
theory Report_Model
  imports Order_Model
begin

text \<open>
  The execution report of the public API (\<^verbatim>\<open>model/execution_report.go\<close> over
  \<^verbatim>\<open>internal/native/execution_report.go\<close>): besides assets, a fill holds a native pre-trade
  lock that a Go owner destroys when it becomes unreachable.  Groups read from a report are
  imported: their strings and locks move to buffers and owners of their own.
\<close>

section \<open>Native locks\<close>

text \<open>
  A native lock is an address and an immutable content; \<open>'c\<close> is the content.  The native
  decoder and encoder are parameters.
\<close>

type_synonym bytes = "8 word list"

record 'c lock =
  lk_addr :: nat
  lk_content :: 'c

record 'c lockCodec =
  lc_decode :: "bytes \<Rightarrow> go_error + 'c"
  lc_encode :: "'c \<Rightarrow> bytes"

definition CreatePretradePreTradeLockFromRaw ::
  "'c lockCodec \<Rightarrow> bytes \<Rightarrow> nat \<Rightarrow> (go_error + 'c lock) \<times> nat" where
  "CreatePretradePreTradeLockFromRaw codec data next =
     (case lc_decode codec data of
        Inl e \<Rightarrow> (Inl e, next)
      | Inr c \<Rightarrow> (Inr \<lparr>lk_addr = next, lk_content = c\<rparr>, next + 1))"

definition PretradePreTradeLockClone :: "'c lock \<Rightarrow> nat \<Rightarrow> 'c lock \<times> nat" where
  "PretradePreTradeLockClone l next = (l\<lparr>lk_addr := next\<rparr>, next + 1)"

section \<open>The fill\<close>

record trade =
  tr_price :: decimal
  tr_quantity :: decimal

record cMonetaryAmount =
  cm_amount :: decimal
  cm_currency :: stringView

record monetaryAmount =
  mn_amount :: decimal
  mn_currency :: asset

definition zeroTrade :: trade where "zeroTrade = \<lparr>tr_price = zeroDecimal, tr_quantity = zeroDecimal\<rparr>"

definition NewExecutionReportTrade :: "decimal \<Rightarrow> decimal \<Rightarrow> trade" where
  "NewExecutionReportTrade price quantity = \<lparr>tr_price = price, tr_quantity = quantity\<rparr>"

definition zeroMonetaryAmount :: cMonetaryAmount where
  "zeroMonetaryAmount = \<lparr>cm_amount = zeroDecimal, cm_currency = None\<rparr>"

definition MonetaryAmount_Handle :: "monetaryAmount \<Rightarrow> cMonetaryAmount" where
  "MonetaryAmount_Handle v = \<lparr>cm_amount = mn_amount v, cm_currency = importString (mn_currency v)\<rparr>"

definition NewMonetaryAmountOptionFromHandle ::
  "cMonetaryAmount cOptional \<Rightarrow> nat \<Rightarrow> monetaryAmount option \<times> nat" where
  "NewMonetaryAmountOptionFromHandle v next =
     (if \<not> co_set v then (None, next)
      else case NewAssetFromHandle (cm_currency (co_value v)) next of
             (None, next') \<Rightarrow> (None, next')
           | (Some a, next') \<Rightarrow> (Some \<lparr>mn_amount = cm_amount (co_value v), mn_currency = a\<rparr>, next'))"

record 'c cFill =
  cf_last_trade :: "trade cOptional"
  cf_fee :: "cMonetaryAmount cOptional"
  cf_remaining :: "decimal cOptional"
  cf_lock :: "'c lock option"
  cf_is_final :: "bool cOptional"

text \<open>\<open>fl_retainLock\<close> is the lock of the Go owner the fill refers to, if any.\<close>

record 'c fill =
  fl_value :: "'c cFill"
  fl_retainFee :: asset
  fl_retainLock :: "'c lock option"

record fillValues =
  fv_lastTrade :: "trade option"
  fv_fee :: "monetaryAmount option"
  fv_remaining :: "decimal option"
  fv_lock :: "bytes option"
  fv_isFinal :: optionalBool

definition zeroFill :: "'c cFill" where
  "zeroFill = \<lparr>cf_last_trade = cNone zeroTrade, cf_fee = cNone zeroMonetaryAmount,
     cf_remaining = cNone zeroDecimal, cf_lock = None, cf_is_final = cNone False\<rparr>"

text \<open>The zero \<^verbatim>\<open>ExecutionReportFill\<close>.\<close>

definition emptyFill :: "'c fill" where
  "emptyFill = \<lparr>fl_value = zeroFill, fl_retainFee = None, fl_retainLock = None\<rparr>"

definition Fill_Fee :: "'c fill \<Rightarrow> nat \<Rightarrow> monetaryAmount option \<times> nat" where
  "Fill_Fee f next = NewMonetaryAmountOptionFromHandle (cf_fee (fl_value f)) next"

definition newExecutionReportFill :: "'c cFill \<Rightarrow> nat \<Rightarrow> 'c fill \<times> nat" where
  "newExecutionReportFill v next =
     (let f = \<lparr>fl_value = v, fl_retainFee = None, fl_retainLock = None\<rparr> in
      case Fill_Fee f next of
        (None, next') \<Rightarrow> (f, next')
      | (Some fee, next') \<Rightarrow>
          (f\<lparr>fl_value := v\<lparr>cf_fee := cSome (MonetaryAmount_Handle fee)\<rparr>,
             fl_retainFee := mn_currency fee\<rparr>, next'))"

definition Fill_Reset :: "'c fill \<Rightarrow> 'c fill" where
  "Fill_Reset f = f\<lparr>fl_value := zeroFill, fl_retainFee := None, fl_retainLock := None\<rparr>"

definition Fill_LastTrade :: "'c fill \<Rightarrow> trade option" where
  "Fill_LastTrade f = optionFromHandle (cf_last_trade (fl_value f))"

definition Fill_SetLastTrade :: "trade \<Rightarrow> 'c fill \<Rightarrow> 'c fill" where
  "Fill_SetLastTrade t f = f\<lparr>fl_value := (fl_value f)\<lparr>cf_last_trade := cSome t\<rparr>\<rparr>"

definition Fill_UnsetLastTrade :: "'c fill \<Rightarrow> 'c fill" where
  "Fill_UnsetLastTrade f = f\<lparr>fl_value := (fl_value f)\<lparr>cf_last_trade := cNone zeroTrade\<rparr>\<rparr>"

definition Fill_SetFee :: "monetaryAmount \<Rightarrow> 'c fill \<Rightarrow> 'c fill" where
  "Fill_SetFee v f = f\<lparr>fl_retainFee := mn_currency v,
     fl_value := (fl_value f)\<lparr>cf_fee := cSome (MonetaryAmount_Handle v)\<rparr>\<rparr>"

definition Fill_UnsetFee :: "'c fill \<Rightarrow> 'c fill" where
  "Fill_UnsetFee f = f\<lparr>fl_value := (fl_value f)\<lparr>cf_fee := cNone zeroMonetaryAmount\<rparr>, fl_retainFee := None\<rparr>"

definition Fill_RemainingReservedQuantity :: "'c fill \<Rightarrow> decimal option" where
  "Fill_RemainingReservedQuantity f = optionFromHandle (cf_remaining (fl_value f))"

definition Fill_SetRemainingReservedQuantity :: "decimal \<Rightarrow> 'c fill \<Rightarrow> 'c fill" where
  "Fill_SetRemainingReservedQuantity q f = f\<lparr>fl_value := (fl_value f)\<lparr>cf_remaining := cSome q\<rparr>\<rparr>"

definition Fill_UnsetRemainingReservedQuantity :: "'c fill \<Rightarrow> 'c fill" where
  "Fill_UnsetRemainingReservedQuantity f = f\<lparr>fl_value := (fl_value f)\<lparr>cf_remaining := cNone zeroDecimal\<rparr>\<rparr>"

definition executionReportFillLockBytes :: "'c lockCodec \<Rightarrow> 'c lock option \<Rightarrow> bytes option" where
  "executionReportFillLockBytes codec l = map_option (\<lambda>l. lc_encode codec (lk_content l)) l"

definition Fill_Lock :: "'c lockCodec \<Rightarrow> 'c fill \<Rightarrow> bytes option" where
  "Fill_Lock codec f = executionReportFillLockBytes codec (cf_lock (fl_value f))"

text \<open>\<^verbatim>\<open>setExecutionReportFillLock\<close>, the body of \<^verbatim>\<open>SetLock\<close> of the fill and of its view.\<close>

definition setExecutionReportFillLock ::
  "'c lockCodec \<Rightarrow> bytes \<Rightarrow> 'c fill \<Rightarrow> nat \<Rightarrow> (err \<times> 'c fill) \<times> nat" where
  "setExecutionReportFillLock codec data f next =
     (if data = [] then ((None, f\<lparr>fl_value := (fl_value f)\<lparr>cf_lock := None\<rparr>, fl_retainLock := None\<rparr>), next)
      else case CreatePretradePreTradeLockFromRaw codec data next of
             (Inl e, next') \<Rightarrow> ((Some e, f), next')
           | (Inr h, next') \<Rightarrow>
               ((None, f\<lparr>fl_value := (fl_value f)\<lparr>cf_lock := Some h\<rparr>, fl_retainLock := Some h\<rparr>), next'))"

definition Fill_UnsetLock :: "'c fill \<Rightarrow> 'c fill" where
  "Fill_UnsetLock f = f\<lparr>fl_value := (fl_value f)\<lparr>cf_lock := None\<rparr>, fl_retainLock := None\<rparr>"

definition Fill_IsFinal :: "'c fill \<Rightarrow> optionalBool" where
  "Fill_IsFinal f = (let v = cf_is_final (fl_value f) in if \<not> co_set v then BoolNone else BoolSome (co_value v))"

definition Fill_SetIsFinal :: "bool \<Rightarrow> 'c fill \<Rightarrow> 'c fill" where
  "Fill_SetIsFinal b f = f\<lparr>fl_value := (fl_value f)\<lparr>cf_is_final := cSome b\<rparr>\<rparr>"

definition Fill_UnsetIsFinal :: "'c fill \<Rightarrow> 'c fill" where
  "Fill_UnsetIsFinal f = f\<lparr>fl_value := (fl_value f)\<lparr>cf_is_final := cNone False\<rparr>\<rparr>"

text \<open>An error of \<^verbatim>\<open>setValues\<close> leaves the fields set so far behind.\<close>

definition Fill_setValues ::
  "'c lockCodec \<Rightarrow> fillValues \<Rightarrow> 'c fill \<Rightarrow> nat \<Rightarrow> (err \<times> 'c fill) \<times> nat" where
  "Fill_setValues codec vs f next =
     (let f1 = applySome Fill_SetRemainingReservedQuantity (fv_remaining vs)
                 (applySome Fill_SetFee (fv_fee vs) (applySome Fill_SetLastTrade (fv_lastTrade vs) f)) in
      case (case fv_lock vs of None \<Rightarrow> ((None, f1), next)
            | Some data \<Rightarrow> setExecutionReportFillLock codec data f1 next) of
        ((Some e, f2), next') \<Rightarrow> ((Some e, f2), next')
      | ((None, f2), next') \<Rightarrow> ((None, applyBool Fill_SetIsFinal (fv_isFinal vs) f2), next'))"

definition NewExecutionReportFillFromValues ::
  "'c lockCodec \<Rightarrow> fillValues \<Rightarrow> nat \<Rightarrow> ('c fill \<times> err) \<times> nat" where
  "NewExecutionReportFillFromValues codec vs next =
     (case newExecutionReportFill zeroFill next of (f, n1) \<Rightarrow>
      case Fill_setValues codec vs f n1 of
        ((Some e, _), n2) \<Rightarrow> ((emptyFill, Some e), n2)
      | ((None, f'), n2) \<Rightarrow> ((f', None), n2))"

definition Fill_SetValues ::
  "'c lockCodec \<Rightarrow> fillValues \<Rightarrow> 'c fill \<Rightarrow> nat \<Rightarrow> (err \<times> 'c fill) \<times> nat" where
  "Fill_SetValues codec vs f next =
     (case NewExecutionReportFillFromValues codec vs next of
        ((_, Some e), n') \<Rightarrow> ((Some e, f), n')
      | ((f', None), n') \<Rightarrow> ((None, f'), n'))"

definition Fill_Values :: "'c lockCodec \<Rightarrow> 'c fill \<Rightarrow> nat \<Rightarrow> fillValues \<times> nat" where
  "Fill_Values codec f next =
     (case Fill_Fee f next of (fee, next') \<Rightarrow>
        (\<lparr>fv_lastTrade = Fill_LastTrade f, fv_fee = fee, fv_remaining = Fill_RemainingReservedQuantity f,
          fv_lock = Fill_Lock codec f, fv_isFinal = Fill_IsFinal f\<rparr>, next'))"

lemmas fill_defs = Fill_Reset_def Fill_SetLastTrade_def Fill_UnsetLastTrade_def Fill_SetFee_def
  Fill_UnsetFee_def Fill_SetRemainingReservedQuantity_def Fill_UnsetRemainingReservedQuantity_def
  Fill_UnsetLock_def Fill_SetIsFinal_def Fill_UnsetIsFinal_def
lemmas fill_getters = Fill_LastTrade_def Fill_Fee_def Fill_RemainingReservedQuantity_def Fill_Lock_def
  Fill_IsFinal_def executionReportFillLockBytes_def

section \<open>The other groups\<close>

record cReportOperation =
  ro_instrument :: cInstrument
  ro_account_id :: "64 word cOptional"
  ro_side :: "8 word"

record reportOperation =
  rp_value :: cReportOperation
  rp_retain :: instrument

definition zeroReportOperation :: cReportOperation where
  "zeroReportOperation = \<lparr>ro_instrument = zeroInstrument, ro_account_id = cNone 0, ro_side = 0\<rparr>"

definition ReportOperation_Instrument :: "reportOperation \<Rightarrow> nat \<Rightarrow> instrument option \<times> nat" where
  "ReportOperation_Instrument x next = NewInstrumentFromHandle (ro_instrument (rp_value x)) next"

definition newExecutionReportOperation :: "cReportOperation \<Rightarrow> nat \<Rightarrow> reportOperation \<times> nat" where
  "newExecutionReportOperation v next =
     (let x = \<lparr>rp_value = v, rp_retain = noInstrument\<rparr> in
      case ReportOperation_Instrument x next of
        (None, next') \<Rightarrow> (x, next')
      | (Some i, next') \<Rightarrow>
          (\<lparr>rp_value = v\<lparr>ro_instrument := Instrument_Handle i\<rparr>, rp_retain = i\<rparr>, next'))"

definition NewExecutionReportOperation :: reportOperation where
  "NewExecutionReportOperation = \<lparr>rp_value = zeroReportOperation, rp_retain = noInstrument\<rparr>"

definition ReportOperation_Reset :: "reportOperation \<Rightarrow> reportOperation" where
  "ReportOperation_Reset x = x\<lparr>rp_value := zeroReportOperation, rp_retain := noInstrument\<rparr>"

definition ReportOperation_SetInstrument :: "instrument \<Rightarrow> reportOperation \<Rightarrow> reportOperation" where
  "ReportOperation_SetInstrument i x =
     x\<lparr>rp_value := (rp_value x)\<lparr>ro_instrument := Instrument_Handle i\<rparr>, rp_retain := i\<rparr>"

definition ReportOperation_UnsetInstrument :: "reportOperation \<Rightarrow> reportOperation" where
  "ReportOperation_UnsetInstrument x =
     x\<lparr>rp_value := (rp_value x)\<lparr>ro_instrument := zeroInstrument\<rparr>, rp_retain := noInstrument\<rparr>"

definition ReportOperation_AccountID :: "reportOperation \<Rightarrow> 64 word option" where
  "ReportOperation_AccountID x = optionFromHandle (ro_account_id (rp_value x))"

definition ReportOperation_SetAccountID :: "64 word \<Rightarrow> reportOperation \<Rightarrow> reportOperation" where
  "ReportOperation_SetAccountID a x = x\<lparr>rp_value := (rp_value x)\<lparr>ro_account_id := cSome a\<rparr>\<rparr>"

definition ReportOperation_UnsetAccountID :: "reportOperation \<Rightarrow> reportOperation" where
  "ReportOperation_UnsetAccountID x = x\<lparr>rp_value := (rp_value x)\<lparr>ro_account_id := cNone 0\<rparr>\<rparr>"

definition ReportOperation_Side :: "reportOperation \<Rightarrow> 8 word option res" where
  "ReportOperation_Side x = NewSideFromHandle (ro_side (rp_value x))"

definition ReportOperation_SetSide :: "8 word \<Rightarrow> reportOperation \<Rightarrow> reportOperation" where
  "ReportOperation_SetSide s x = x\<lparr>rp_value := (rp_value x)\<lparr>ro_side := s\<rparr>\<rparr>"

definition ReportOperation_UnsetSide :: "reportOperation \<Rightarrow> reportOperation" where
  "ReportOperation_UnsetSide x = x\<lparr>rp_value := (rp_value x)\<lparr>ro_side := 0\<rparr>\<rparr>"

record reportOperationValues =
  rv_instrument :: "instrument option"
  rv_accountID :: "64 word option"
  rv_side :: "8 word option"

definition ReportOperation_setValues :: "reportOperationValues \<Rightarrow> reportOperation \<Rightarrow> reportOperation" where
  "ReportOperation_setValues vs x =
     applySome ReportOperation_SetSide (rv_side vs)
     (applySome ReportOperation_SetAccountID (rv_accountID vs)
     (applySome ReportOperation_SetInstrument (rv_instrument vs) x))"

definition ReportOperation_SetValues :: "reportOperationValues \<Rightarrow> reportOperation \<Rightarrow> reportOperation" where
  "ReportOperation_SetValues vs x = ReportOperation_setValues vs (ReportOperation_Reset x)"

lemmas report_operation_defs = ReportOperation_Reset_def ReportOperation_SetInstrument_def
  ReportOperation_UnsetInstrument_def ReportOperation_SetAccountID_def
  ReportOperation_UnsetAccountID_def ReportOperation_SetSide_def ReportOperation_UnsetSide_def

record financialImpact =
  fi_pnl :: "decimal cOptional"
  fi_fee :: "decimal cOptional"

record positionImpact =
  pi_effect :: "8 word"
  pi_side :: "8 word"

definition zeroFinancialImpact :: financialImpact where
  "zeroFinancialImpact = \<lparr>fi_pnl = cNone zeroDecimal, fi_fee = cNone zeroDecimal\<rparr>"

definition zeroPositionImpact :: positionImpact where
  "zeroPositionImpact = \<lparr>pi_effect = 0, pi_side = 0\<rparr>"

text \<open>
  Financial and position impact hold their C struct only; their views have the same methods.
\<close>

definition FinancialImpact_Pnl :: "financialImpact \<Rightarrow> decimal option" where
  "FinancialImpact_Pnl i = optionFromHandle (fi_pnl i)"

definition FinancialImpact_SetPnl :: "decimal \<Rightarrow> financialImpact \<Rightarrow> financialImpact" where
  "FinancialImpact_SetPnl v i = i\<lparr>fi_pnl := cSome v\<rparr>"

definition FinancialImpact_UnsetPnl :: "financialImpact \<Rightarrow> financialImpact" where
  "FinancialImpact_UnsetPnl i = i\<lparr>fi_pnl := cNone zeroDecimal\<rparr>"

definition FinancialImpact_Fee :: "financialImpact \<Rightarrow> decimal option" where
  "FinancialImpact_Fee i = optionFromHandle (fi_fee i)"

definition FinancialImpact_SetFee :: "decimal \<Rightarrow> financialImpact \<Rightarrow> financialImpact" where
  "FinancialImpact_SetFee v i = i\<lparr>fi_fee := cSome v\<rparr>"

definition FinancialImpact_UnsetFee :: "financialImpact \<Rightarrow> financialImpact" where
  "FinancialImpact_UnsetFee i = i\<lparr>fi_fee := cNone zeroDecimal\<rparr>"

definition FinancialImpact_setValues :: "decimal option \<Rightarrow> decimal option \<Rightarrow> financialImpact \<Rightarrow> financialImpact" where
  "FinancialImpact_setValues pnl fee i =
     applySome FinancialImpact_SetFee fee (applySome FinancialImpact_SetPnl pnl i)"

definition newPositionEffectFromHandle :: "8 word \<Rightarrow> 8 word option res" where
  "newPositionEffectFromHandle v =
     (if v = 1 then Ret (Some 1) else if v = 2 then Ret (Some 2) else if v = 0 then Ret None
      else Panic (PanicValue ''unknown native ParamPositionEffect value''))"

definition PositionImpact_PositionEffect :: "positionImpact \<Rightarrow> 8 word option res" where
  "PositionImpact_PositionEffect p = newPositionEffectFromHandle (pi_effect p)"

definition PositionImpact_SetPositionEffect :: "8 word \<Rightarrow> positionImpact \<Rightarrow> positionImpact" where
  "PositionImpact_SetPositionEffect v p = p\<lparr>pi_effect := v\<rparr>"

definition PositionImpact_UnsetPositionEffect :: "positionImpact \<Rightarrow> positionImpact" where
  "PositionImpact_UnsetPositionEffect p = p\<lparr>pi_effect := 0\<rparr>"

definition PositionImpact_PositionSide :: "positionImpact \<Rightarrow> 8 word option res" where
  "PositionImpact_PositionSide p = NewPositionSideFromHandle (pi_side p)"

definition PositionImpact_SetPositionSide :: "8 word \<Rightarrow> positionImpact \<Rightarrow> positionImpact" where
  "PositionImpact_SetPositionSide v p = p\<lparr>pi_side := v\<rparr>"

definition PositionImpact_UnsetPositionSide :: "positionImpact \<Rightarrow> positionImpact" where
  "PositionImpact_UnsetPositionSide p = p\<lparr>pi_side := 0\<rparr>"

definition PositionImpact_setValues :: "8 word option \<Rightarrow> 8 word option \<Rightarrow> positionImpact \<Rightarrow> positionImpact" where
  "PositionImpact_setValues effect side p =
     applySome PositionImpact_SetPositionSide side (applySome PositionImpact_SetPositionEffect effect p)"

section \<open>The report\<close>

record 'c cReport =
  rr_operation :: "cReportOperation cOptional"
  rr_financialImpact :: "financialImpact cOptional"
  rr_fill :: "'c cFill cOptional"
  rr_positionImpact :: "positionImpact cOptional"

record 'c report =
  rs_value :: "'c cReport"
  rs_instrument :: instrument
  rs_feeCurrency :: asset
  rs_lock :: "'c lock option"

definition zeroReport :: "'c cReport" where
  "zeroReport = \<lparr>rr_operation = cNone zeroReportOperation, rr_financialImpact = cNone zeroFinancialImpact,
     rr_fill = cNone zeroFill, rr_positionImpact = cNone zeroPositionImpact\<rparr>"

definition NewExecutionReportFromHandle :: "'c cReport \<Rightarrow> 'c report" where
  "NewExecutionReportFromHandle v =
     \<lparr>rs_value = v, rs_instrument = noInstrument, rs_feeCurrency = None, rs_lock = None\<rparr>"

definition NewExecutionReport :: "'c report" where
  "NewExecutionReport = NewExecutionReportFromHandle zeroReport"

definition Report_Reset :: "'c report \<Rightarrow> 'c report" where
  "Report_Reset r = r\<lparr>rs_value := zeroReport, rs_instrument := noInstrument, rs_feeCurrency := None, rs_lock := None\<rparr>"

definition Report_Operation :: "'c report \<Rightarrow> nat \<Rightarrow> reportOperation option \<times> nat" where
  "Report_Operation r next =
     (if \<not> co_set (rr_operation (rs_value r)) then (None, next)
      else case newExecutionReportOperation (co_value (rr_operation (rs_value r))) next of
             (x, next') \<Rightarrow> (Some x, next'))"

definition Report_SetOperation :: "reportOperation \<Rightarrow> 'c report \<Rightarrow> 'c report" where
  "Report_SetOperation x r =
     r\<lparr>rs_value := (rs_value r)\<lparr>rr_operation := cSome (rp_value x)\<rparr>, rs_instrument := rp_retain x\<rparr>"

definition Report_UnsetOperation :: "'c report \<Rightarrow> 'c report" where
  "Report_UnsetOperation r =
     r\<lparr>rs_value := (rs_value r)\<lparr>rr_operation := cNone zeroReportOperation\<rparr>, rs_instrument := noInstrument\<rparr>"

definition Report_EnsureOperation :: "'c report \<Rightarrow> 'c report" where
  "Report_EnsureOperation r =
     (if co_set (rr_operation (rs_value r)) then r
      else r\<lparr>rs_value := (rs_value r)\<lparr>rr_operation := cSome zeroReportOperation\<rparr>\<rparr>)"

text \<open>The operation and the fill with the retain fields of the report: what a view refers to.\<close>

definition reportOperationPart :: "'c report \<Rightarrow> reportOperation" where
  "reportOperationPart r = \<lparr>rp_value = co_value (rr_operation (rs_value r)), rp_retain = rs_instrument r\<rparr>"

definition ReportOperationView :: "(reportOperation \<Rightarrow> reportOperation) \<Rightarrow> 'c report \<Rightarrow> 'c report" where
  "ReportOperationView method r =
     (let x = method (reportOperationPart r) in
      r\<lparr>rs_value := (rs_value r)\<lparr>rr_operation := (rr_operation (rs_value r))\<lparr>co_value := rp_value x\<rparr>\<rparr>,
        rs_instrument := rp_retain x\<rparr>)"

definition Report_Fill :: "'c report \<Rightarrow> nat \<Rightarrow> 'c fill option \<times> nat" where
  "Report_Fill r next =
     (if \<not> co_set (rr_fill (rs_value r)) then (None, next)
      else case newExecutionReportFill (co_value (rr_fill (rs_value r))) next of
             (f, next') \<Rightarrow> (Some (f\<lparr>fl_retainLock := rs_lock r\<rparr>), next'))"

text \<open>A fill whose lock has no Go owner is given a clone of the lock, owned by Go.\<close>

definition Report_SetFill :: "'c fill \<Rightarrow> 'c report \<Rightarrow> nat \<Rightarrow> 'c report \<times> nat" where
  "Report_SetFill f r next =
     (case (case (cf_lock (fl_value f), fl_retainLock f) of
              (Some l, None) \<Rightarrow>
                (case PretradePreTradeLockClone l next of
                   (h, next') \<Rightarrow> (f\<lparr>fl_value := (fl_value f)\<lparr>cf_lock := Some h\<rparr>, fl_retainLock := Some h\<rparr>, next'))
            | _ \<Rightarrow> (f, next)) of
        (g, next') \<Rightarrow>
          (r\<lparr>rs_value := (rs_value r)\<lparr>rr_fill := cSome (fl_value g)\<rparr>,
             rs_feeCurrency := fl_retainFee g, rs_lock := fl_retainLock g\<rparr>, next'))"

definition Report_UnsetFill :: "'c report \<Rightarrow> 'c report" where
  "Report_UnsetFill r =
     r\<lparr>rs_value := (rs_value r)\<lparr>rr_fill := cNone zeroFill\<rparr>, rs_feeCurrency := None, rs_lock := None\<rparr>"

definition Report_EnsureFill :: "'c report \<Rightarrow> 'c report" where
  "Report_EnsureFill r =
     (if co_set (rr_fill (rs_value r)) then r
      else r\<lparr>rs_value := (rs_value r)\<lparr>rr_fill := cSome zeroFill\<rparr>\<rparr>)"

definition fillPart :: "'c report \<Rightarrow> 'c fill" where
  "fillPart r = \<lparr>fl_value = co_value (rr_fill (rs_value r)), fl_retainFee = rs_feeCurrency r,
     fl_retainLock = rs_lock r\<rparr>"

definition ExecutionReportFillView :: "('c fill \<Rightarrow> 'c fill) \<Rightarrow> 'c report \<Rightarrow> 'c report" where
  "ExecutionReportFillView method r =
     (let f = method (fillPart r) in
      r\<lparr>rs_value := (rs_value r)\<lparr>rr_fill := (rr_fill (rs_value r))\<lparr>co_value := fl_value f\<rparr>\<rparr>,
        rs_feeCurrency := fl_retainFee f, rs_lock := fl_retainLock f\<rparr>)"

definition Report_SetFinancialImpact :: "financialImpact \<Rightarrow> 'c report \<Rightarrow> 'c report" where
  "Report_SetFinancialImpact v r = r\<lparr>rs_value := (rs_value r)\<lparr>rr_financialImpact := cSome v\<rparr>\<rparr>"

definition Report_UnsetFinancialImpact :: "'c report \<Rightarrow> 'c report" where
  "Report_UnsetFinancialImpact r = r\<lparr>rs_value := (rs_value r)\<lparr>rr_financialImpact := cNone zeroFinancialImpact\<rparr>\<rparr>"

definition Report_FinancialImpact :: "'c report \<Rightarrow> financialImpact option" where
  "Report_FinancialImpact r = optionFromHandle (rr_financialImpact (rs_value r))"

definition Report_SetPositionImpact :: "positionImpact \<Rightarrow> 'c report \<Rightarrow> 'c report" where
  "Report_SetPositionImpact v r = r\<lparr>rs_value := (rs_value r)\<lparr>rr_positionImpact := cSome v\<rparr>\<rparr>"

definition Report_UnsetPositionImpact :: "'c report \<Rightarrow> 'c report" where
  "Report_UnsetPositionImpact r = r\<lparr>rs_value := (rs_value r)\<lparr>rr_positionImpact := cNone zeroPositionImpact\<rparr>\<rparr>"

definition Report_PositionImpact :: "'c report \<Rightarrow> positionImpact option" where
  "Report_PositionImpact r = optionFromHandle (rr_positionImpact (rs_value r))"

definition Report_EnsureFinancialImpact :: "'c report \<Rightarrow> 'c report" where
  "Report_EnsureFinancialImpact r =
     (if co_set (rr_financialImpact (rs_value r)) then r
      else r\<lparr>rs_value := (rs_value r)\<lparr>rr_financialImpact := cSome zeroFinancialImpact\<rparr>\<rparr>)"

definition FinancialImpactView :: "(financialImpact \<Rightarrow> financialImpact) \<Rightarrow> 'c report \<Rightarrow> 'c report" where
  "FinancialImpactView method r = r\<lparr>rs_value := (rs_value r)\<lparr>rr_financialImpact :=
     (rr_financialImpact (rs_value r))\<lparr>co_value := method (co_value (rr_financialImpact (rs_value r)))\<rparr>\<rparr>\<rparr>"

definition Report_EnsurePositionImpact :: "'c report \<Rightarrow> 'c report" where
  "Report_EnsurePositionImpact r =
     (if co_set (rr_positionImpact (rs_value r)) then r
      else r\<lparr>rs_value := (rs_value r)\<lparr>rr_positionImpact := cSome zeroPositionImpact\<rparr>\<rparr>)"

definition PositionImpactView :: "(positionImpact \<Rightarrow> positionImpact) \<Rightarrow> 'c report \<Rightarrow> 'c report" where
  "PositionImpactView method r = r\<lparr>rs_value := (rs_value r)\<lparr>rr_positionImpact :=
     (rr_positionImpact (rs_value r))\<lparr>co_value := method (co_value (rr_positionImpact (rs_value r)))\<rparr>\<rparr>\<rparr>"

text \<open>\<^verbatim>\<open>setValues\<close>: the groups in the order of the code.\<close>

record 'c reportValues =
  rn_operation :: "reportOperation option"
  rn_financialImpact :: "financialImpact option"
  rn_fill :: "'c fill option"
  rn_positionImpact :: "positionImpact option"

definition Report_setValues :: "'c reportValues \<Rightarrow> 'c report \<Rightarrow> nat \<Rightarrow> 'c report \<times> nat" where
  "Report_setValues vs r next =
     (let r1 = applySome Report_SetFinancialImpact (rn_financialImpact vs)
                 (applySome Report_SetOperation (rn_operation vs) r) in
      case (case rn_fill vs of None \<Rightarrow> (r1, next) | Some f \<Rightarrow> Report_SetFill f r1 next) of
        (r2, next') \<Rightarrow> (applySome Report_SetPositionImpact (rn_positionImpact vs) r2, next'))"

definition NewExecutionReportFromValues :: "'c reportValues \<Rightarrow> nat \<Rightarrow> 'c report \<times> nat" where
  "NewExecutionReportFromValues vs next = Report_setValues vs (Report_Reset NewExecutionReport) next"

lemmas report_defs = Report_Reset_def Report_SetOperation_def Report_UnsetOperation_def
  Report_EnsureOperation_def ReportOperationView_def Report_UnsetFill_def Report_EnsureFill_def
  ExecutionReportFillView_def Report_SetFinancialImpact_def Report_UnsetFinancialImpact_def
  Report_SetPositionImpact_def Report_UnsetPositionImpact_def Report_EnsureFinancialImpact_def
  FinancialImpactView_def Report_EnsurePositionImpact_def PositionImpactView_def

section \<open>What a caller can build\<close>

text \<open>
  \<open>E\<close> is the memory nobody here keeps alive: what the C reports point into that the caller was
  given by handle, and the buffers of any instrument that names one of its two assets only.
  An instrument is \<open>named\<close> when both of its assets are (as \<^verbatim>\<open>NewAsset\<close> makes them, not empty)
  or its buffers are in \<open>E\<close>.  Methods take the allocator because they may decode a lock or copy
  a string.
\<close>

definition named :: "buffer set \<Rightarrow> instrument \<Rightarrow> bool" where
  "named E i \<longleftrightarrow> complete i \<or> instrumentBuffers i \<subseteq> E"

inductive report_operation_method :: "buffer set \<Rightarrow> (reportOperation \<Rightarrow> reportOperation) \<Rightarrow> bool"
  for E :: "buffer set" where
  "report_operation_method E ReportOperation_Reset"
| "named E i \<Longrightarrow> report_operation_method E (ReportOperation_SetInstrument i)"
| "report_operation_method E ReportOperation_UnsetInstrument"
| "report_operation_method E (ReportOperation_SetAccountID a)"
| "report_operation_method E ReportOperation_UnsetAccountID"
| "report_operation_method E (ReportOperation_SetSide s)"
| "report_operation_method E ReportOperation_UnsetSide"
| "pred_option (named E) (rv_instrument vs) \<Longrightarrow> report_operation_method E (ReportOperation_SetValues vs)"

inductive fill_method :: "'c lockCodec \<Rightarrow> ('c fill \<Rightarrow> 'c fill) \<Rightarrow> bool" for codec :: "'c lockCodec" where
  "fill_method codec Fill_Reset"
| "fill_method codec (Fill_SetLastTrade t)"
| "fill_method codec Fill_UnsetLastTrade"
| "fill_method codec (Fill_SetFee v)"
| "fill_method codec Fill_UnsetFee"
| "fill_method codec (Fill_SetRemainingReservedQuantity q)"
| "fill_method codec Fill_UnsetRemainingReservedQuantity"
| "fill_method codec (\<lambda>f. snd (fst (setExecutionReportFillLock codec data f n)))"
| "fill_method codec Fill_UnsetLock"
| "fill_method codec (\<lambda>f. snd (fst (Fill_SetValues codec vs f n)))"
| "fill_method codec (Fill_SetIsFinal b)"
| "fill_method codec Fill_UnsetIsFinal"

text \<open>
  A foreign C report, such as one a policy callback receives, in which an instrument is named
  by both of its assets or by none.  Its strings and its lock belong to someone else.
\<close>

definition wholeInstrument :: "cInstrument \<Rightarrow> bool" where
  "wholeInstrument i \<longleftrightarrow> i = zeroInstrument \<or> (StringView_IsSet (ci_underlying i) \<and> StringView_IsSet (ci_settlement i))"

definition wholeFee :: "cMonetaryAmount cOptional \<Rightarrow> bool" where
  "wholeFee v \<longleftrightarrow> cm_currency (co_value v) = None \<or> (co_set v \<and> StringView_IsSet (cm_currency (co_value v)))"

definition wholeReport :: "'c cReport \<Rightarrow> bool" where
  "wholeReport v \<longleftrightarrow> wholeInstrument (ro_instrument (co_value (rr_operation v)))
     \<and> wholeFee (cf_fee (co_value (rr_fill v)))"

text \<open>The buffers a report's C struct points into, and those the report keeps alive.\<close>

definition reportPointers :: "'c cReport \<Rightarrow> buffer set" where
  "reportPointers v = viewBuffers (ro_instrument (co_value (rr_operation v)))
     \<union> assetBuffers (cm_currency (co_value (cf_fee (co_value (rr_fill v)))))"

definition reportHolds :: "'c report \<Rightarrow> buffer set" where
  "reportHolds r = instrumentBuffers (rs_instrument r) \<union> assetBuffers (rs_feeCurrency r)"

text \<open>\<open>L\<close> are the locks of the C reports the caller was given by handle.\<close>

definition ofHandle :: "buffer set \<Rightarrow> 'c lock set \<Rightarrow> 'c cReport \<Rightarrow> bool" where
  "ofHandle E L v \<longleftrightarrow> reportPointers v \<subseteq> E \<and> set_option (cf_lock (co_value (rr_fill v))) \<subseteq> L"

inductive built_report :: "'c lockCodec \<Rightarrow> buffer set \<Rightarrow> 'c lock set \<Rightarrow> 'c report \<Rightarrow> bool"
  and built_report_operation :: "'c lockCodec \<Rightarrow> buffer set \<Rightarrow> 'c lock set \<Rightarrow> reportOperation \<Rightarrow> bool"
  and built_fill :: "'c lockCodec \<Rightarrow> buffer set \<Rightarrow> 'c lock set \<Rightarrow> 'c fill \<Rightarrow> bool"
  for codec :: "'c lockCodec" and E :: "buffer set" and L :: "'c lock set" where
  "built_report codec E L NewExecutionReport"
| "ofHandle E L v \<Longrightarrow> built_report codec E L (NewExecutionReportFromHandle v)"
| "built_report codec E L r \<Longrightarrow> built_report codec E L (Report_Reset r)"
| "built_report codec E L r \<Longrightarrow> built_report_operation codec E L x \<Longrightarrow> built_report codec E L (Report_SetOperation x r)"
| "built_report codec E L r \<Longrightarrow> built_report codec E L (Report_UnsetOperation r)"
| "built_report codec E L r \<Longrightarrow> built_report codec E L (Report_EnsureOperation r)"
| "built_report codec E L r \<Longrightarrow> report_operation_method E f \<Longrightarrow> built_report codec E L (ReportOperationView f r)"
| "built_report codec E L r \<Longrightarrow> built_fill codec E L g \<Longrightarrow> built_report codec E L (fst (Report_SetFill g r n))"
| "built_report codec E L r \<Longrightarrow> built_report codec E L (Report_UnsetFill r)"
| "built_report codec E L r \<Longrightarrow> built_report codec E L (Report_EnsureFill r)"
| "built_report codec E L r \<Longrightarrow> fill_method codec h \<Longrightarrow> built_report codec E L (ExecutionReportFillView h r)"
| "built_report codec E L r \<Longrightarrow> built_report codec E L (Report_SetFinancialImpact v r)"
| "built_report codec E L r \<Longrightarrow> built_report codec E L (Report_UnsetFinancialImpact r)"
| "built_report codec E L r \<Longrightarrow> built_report codec E L (Report_SetPositionImpact p r)"
| "built_report codec E L r \<Longrightarrow> built_report codec E L (Report_UnsetPositionImpact r)"
| "built_report codec E L r \<Longrightarrow> built_report codec E L (Report_EnsureFinancialImpact r)"
| "built_report codec E L r \<Longrightarrow> built_report codec E L (FinancialImpactView a r)"
| "built_report codec E L r \<Longrightarrow> built_report codec E L (Report_EnsurePositionImpact r)"
| "built_report codec E L r \<Longrightarrow> built_report codec E L (PositionImpactView b r)"
| "built_report_operation codec E L NewExecutionReportOperation"
| "built_report_operation codec E L x \<Longrightarrow> report_operation_method E f \<Longrightarrow> built_report_operation codec E L (f x)"
| "built_report codec E L r \<Longrightarrow> Report_Operation r n = (Some x, m) \<Longrightarrow> built_report_operation codec E L x"
| "wholeReport (v :: 'c cReport) \<Longrightarrow> Report_Operation (NewExecutionReportFromHandle v) n = (Some x, m) \<Longrightarrow>
     built_report_operation codec E L x"
| "built_fill codec E L emptyFill"
| "built_fill codec E L g \<Longrightarrow> fill_method codec h \<Longrightarrow> built_fill codec E L (h g)"
| "NewExecutionReportFillFromValues codec vs n = ((g, None), m) \<Longrightarrow> built_fill codec E L g"
| "built_report codec E L r \<Longrightarrow> Report_Fill r n = (Some g, m) \<Longrightarrow> built_fill codec E L g"
| "wholeReport v \<Longrightarrow> Report_Fill (NewExecutionReportFromHandle v) n = (Some g, m) \<Longrightarrow> built_fill codec E L g"

section \<open>Retention\<close>

definition reportOperationBacked :: "buffer set \<Rightarrow> reportOperation \<Rightarrow> bool" where
  "reportOperationBacked E x \<longleftrightarrow>
     viewBuffers (ro_instrument (rp_value x)) \<subseteq> instrumentBuffers (rp_retain x) \<union> E
   \<and> (wholeInstrument (ro_instrument (rp_value x)) \<or> viewBuffers (ro_instrument (rp_value x)) \<subseteq> E)"

definition fillBacked :: "buffer set \<Rightarrow> 'c fill \<Rightarrow> bool" where
  "fillBacked E f \<longleftrightarrow>
     assetBuffers (cm_currency (co_value (cf_fee (fl_value f)))) \<subseteq> assetBuffers (fl_retainFee f) \<union> E
   \<and> (wholeFee (cf_fee (fl_value f)) \<or> assetBuffers (cm_currency (co_value (cf_fee (fl_value f)))) \<subseteq> E)
   \<and> (\<forall>l k. cf_lock (fl_value f) = Some l \<longrightarrow> fl_retainLock f = Some k \<longrightarrow> l = k)"

text \<open>The lock of a fill is the one its Go owner destroys, or a handle's own, with no Go owner.\<close>

definition lockOwned :: "'c lock set \<Rightarrow> 'c fill \<Rightarrow> bool" where
  "lockOwned L f \<longleftrightarrow> (\<forall>l. cf_lock (fl_value f) = Some l \<longrightarrow>
     fl_retainLock f = Some l \<or> (fl_retainLock f = None \<and> l \<in> L))"

definition reportBacked :: "buffer set \<Rightarrow> 'c lock set \<Rightarrow> 'c report \<Rightarrow> bool" where
  "reportBacked E L r \<longleftrightarrow> reportOperationBacked E (reportOperationPart r) \<and> fillBacked E (fillPart r)
     \<and> lockOwned L (fillPart r)"

lemma wholeInstrument_handle [simp]: "complete i \<Longrightarrow> wholeInstrument (Instrument_Handle i)"
  "wholeInstrument zeroInstrument"
  by (simp_all add: wholeInstrument_def complete_def Instrument_Handle_def)

lemma wholeFee_handle [simp]: "wholeFee (cSome (MonetaryAmount_Handle v))" "wholeFee (cNone zeroMonetaryAmount)"
  by (auto simp: wholeFee_def MonetaryAmount_Handle_def zeroMonetaryAmount_def importString_def
      StringView_IsSet_def Asset_Unsafe_def split: option.splits)

lemma report_operation_set_backed [simp]:
  "named E i \<Longrightarrow> reportOperationBacked E (ReportOperation_SetInstrument i x)"
  "reportOperationBacked E (ReportOperation_UnsetInstrument x)"
  "reportOperationBacked E (ReportOperation_Reset x)"
  "reportOperationBacked E (ReportOperation_SetAccountID a x) = reportOperationBacked E x"
  "reportOperationBacked E (ReportOperation_UnsetAccountID x) = reportOperationBacked E x"
  "reportOperationBacked E (ReportOperation_SetSide s x) = reportOperationBacked E x"
  "reportOperationBacked E (ReportOperation_UnsetSide x) = reportOperationBacked E x"
  by (auto simp: reportOperationBacked_def report_operation_defs zeroReportOperation_def named_def
      dest: subsetD [OF handle_buffers])

lemma report_operation_method_backed:
  "report_operation_method E f \<Longrightarrow> reportOperationBacked E x \<Longrightarrow> reportOperationBacked E (f x)"
  by (induction rule: report_operation_method.induct)
    (auto simp: ReportOperation_SetValues_def ReportOperation_setValues_def applySome_def split: option.split)

lemma zeroFill_simps [simp]: "cf_lock zeroFill = None" "cf_fee zeroFill = cNone zeroMonetaryAmount"
  "cm_currency zeroMonetaryAmount = None"
  by (simp_all add: zeroFill_def zeroMonetaryAmount_def)

lemma fee_handle_buffers: "assetBuffers (cm_currency (MonetaryAmount_Handle v)) \<subseteq> assetBuffers (mn_currency v) \<union> E"
  by (auto simp: MonetaryAmount_Handle_def dest: subsetD [OF importString_buffers])

lemma fill_set_backed [simp]:
  "fillBacked E f \<Longrightarrow> fillBacked E (Fill_SetLastTrade t f)" "lockOwned L (Fill_SetLastTrade t f) = lockOwned L f"
  "fillBacked E f \<Longrightarrow> fillBacked E (Fill_SetFee v f)" "lockOwned L (Fill_SetFee v f) = lockOwned L f"
  "fillBacked E f \<Longrightarrow> fillBacked E (Fill_SetRemainingReservedQuantity q f)"
  "lockOwned L (Fill_SetRemainingReservedQuantity q f) = lockOwned L f"
  "fillBacked E f \<Longrightarrow> fillBacked E (Fill_SetIsFinal b f)" "lockOwned L (Fill_SetIsFinal b f) = lockOwned L f"
  by (simp_all add: fillBacked_def lockOwned_def fill_defs fee_handle_buffers)

lemma set_lock_backed:
  "fillBacked E f \<Longrightarrow> fillBacked E (snd (fst (setExecutionReportFillLock codec data f n)))"
  "lockOwned L f \<Longrightarrow> lockOwned L (snd (fst (setExecutionReportFillLock codec data f n)))"
  by (simp_all add: fillBacked_def lockOwned_def setExecutionReportFillLock_def
      CreatePretradePreTradeLockFromRaw_def split: sum.split)

lemma import_fill_backed:
  assumes "newExecutionReportFill v n = (f, m)"
    and "wholeFee (cf_fee v) \<or> assetBuffers (cm_currency (co_value (cf_fee v))) \<subseteq> E"
  shows "fillBacked E f \<and> cf_lock (fl_value f) = cf_lock v \<and> fl_retainLock f = None"
proof (cases "Fill_Fee \<lparr>fl_value = v, fl_retainFee = None, fl_retainLock = None\<rparr> n")
  case (Pair fee k)
  show ?thesis
  proof (cases fee)
    case None
    with Pair have "wholeFee (cf_fee v) \<Longrightarrow> cm_currency (co_value (cf_fee v)) = None"
      by (auto simp: Fill_Fee_def NewMonetaryAmountOptionFromHandle_def NewAssetFromHandle_def wholeFee_def
          split: if_splits option.splits prod.splits)
    moreover from None Pair assms(1) have "f = \<lparr>fl_value = v, fl_retainFee = None, fl_retainLock = None\<rparr>"
      by (simp add: newExecutionReportFill_def)
    ultimately show ?thesis using assms(2) by (auto simp: fillBacked_def)
  next
    case (Some w)
    with Pair assms(1) have "f = \<lparr>fl_value = v\<lparr>cf_fee := cSome (MonetaryAmount_Handle w)\<rparr>,
        fl_retainFee = mn_currency w, fl_retainLock = None\<rparr>"
      by (simp add: newExecutionReportFill_def Let_def)
    then show ?thesis by (simp add: fillBacked_def fee_handle_buffers)
  qed
qed

lemma emptyFill_backed [simp]: "fillBacked E emptyFill" "lockOwned L emptyFill"
  by (simp_all add: fillBacked_def lockOwned_def emptyFill_def)

definition plainFields :: "fillValues \<Rightarrow> 'c fill \<Rightarrow> 'c fill" where
  "plainFields vs f = applySome Fill_SetRemainingReservedQuantity (fv_remaining vs)
     (applySome Fill_SetFee (fv_fee vs) (applySome Fill_SetLastTrade (fv_lastTrade vs) f))"

lemma setValues_cases:
  "Fill_setValues codec vs f n =
     (case (case fv_lock vs of None \<Rightarrow> ((None, plainFields vs f), n)
            | Some data \<Rightarrow> setExecutionReportFillLock codec data (plainFields vs f) n) of
        ((Some e, f2), n') \<Rightarrow> ((Some e, f2), n')
      | ((None, f2), n') \<Rightarrow> ((None, applyBool Fill_SetIsFinal (fv_isFinal vs) f2), n'))"
  unfolding Fill_setValues_def plainFields_def Let_def by (rule refl)

lemma setValues_backed:
  assumes "Fill_setValues codec vs f n = ((e, g), m)"
  shows "fillBacked E f \<Longrightarrow> fillBacked E g" and "lockOwned L f \<Longrightarrow> lockOwned L g"
proof -
  obtain e2 f2 n2 where l: "(case fv_lock vs of None \<Rightarrow> ((None, plainFields vs f), n)
      | Some data \<Rightarrow> setExecutionReportFillLock codec data (plainFields vs f) n) = ((e2, f2), n2)"
    by (metis surj_pair)
  have "fillBacked E f \<Longrightarrow> fillBacked E (plainFields vs f)" "lockOwned L f \<Longrightarrow> lockOwned L (plainFields vs f)"
    by (simp_all add: plainFields_def applySome_def split: option.split)
  with l set_lock_backed [of _ "plainFields vs f" codec _ n]
  have "fillBacked E f \<Longrightarrow> fillBacked E f2" "lockOwned L f \<Longrightarrow> lockOwned L f2"
    by (metis (no_types, lifting) fst_conv option.case_eq_if snd_conv)+
  with assms l show "fillBacked E f \<Longrightarrow> fillBacked E g" "lockOwned L f \<Longrightarrow> lockOwned L g"
    by (auto simp: setValues_cases applyBool_def split: option.splits prod.splits if_splits)
qed

lemma new_fill_backed:
  assumes "NewExecutionReportFillFromValues codec vs n = ((g, None), m)"
  shows "fillBacked E g" and "lockOwned L g"
proof -
  obtain f n1 where f: "newExecutionReportFill zeroFill n = (f :: 'a fill, n1)" by fastforce
  then have "fillBacked E f" "lockOwned L f"
    using import_fill_backed [OF f, where E = E] by (auto simp: lockOwned_def)
  with assms f show "fillBacked E g" "lockOwned L g"
    by (auto simp: NewExecutionReportFillFromValues_def split: option.splits prod.splits
        dest: setValues_backed)
qed

lemma set_values_backed:
  "fillBacked E f \<Longrightarrow> fillBacked E (snd (fst (Fill_SetValues codec vs f n)))"
  "lockOwned L f \<Longrightarrow> lockOwned L (snd (fst (Fill_SetValues codec vs f n)))"
  by (auto simp: Fill_SetValues_def split: prod.splits option.splits dest: new_fill_backed)

lemma fill_method_backed:
  assumes "fill_method codec h"
  shows "fillBacked E f \<Longrightarrow> fillBacked E (h f)" and "lockOwned L f \<Longrightarrow> lockOwned L (h f)"
  using assms
  by (induction rule: fill_method.induct)
    (simp_all add: set_lock_backed set_values_backed,
     simp_all add: fillBacked_def lockOwned_def fill_defs)

lemma read_complete: "NewInstrumentFromHandle i n = (Some j, m) \<Longrightarrow> complete j"
  by (auto simp: NewInstrumentFromHandle_def NewAssetFromHandle_def NewString_def complete_def Asset_Unsafe_def
      StringView_Safe_def StringView_IsSet_def split: option.splits if_splits prod.splits)

lemma whole_import:
  assumes "StringView_IsSet (ci_underlying i)" "StringView_IsSet (ci_settlement i)"
  shows "\<exists>j m. NewInstrumentFromHandle i n = (Some j, m)"
  using assms
  by (simp add: NewInstrumentFromHandle_def NewAssetFromHandle_def NewString_def split: option.splits)

lemma import_operation_backed:
  assumes "newExecutionReportOperation v n = (x, m)"
    and "wholeInstrument (ro_instrument v) \<or> viewBuffers (ro_instrument v) \<subseteq> E"
  shows "reportOperationBacked E x"
proof (cases "NewInstrumentFromHandle (ro_instrument v) n")
  case (Pair i k)
  show ?thesis
  proof (cases i)
    case None
    with Pair whole_import [of "ro_instrument v" n]
    have "wholeInstrument (ro_instrument v) \<Longrightarrow> ro_instrument v = zeroInstrument"
      by (auto simp: wholeInstrument_def)
    moreover from None Pair assms(1) have "x = \<lparr>rp_value = v, rp_retain = noInstrument\<rparr>"
      by (simp add: newExecutionReportOperation_def ReportOperation_Instrument_def)
    ultimately show ?thesis using assms(2) by (auto simp: reportOperationBacked_def)
  next
    case (Some j)
    with Pair assms(1) have "x = \<lparr>rp_value = v\<lparr>ro_instrument := Instrument_Handle j\<rparr>, rp_retain = j\<rparr>"
      by (simp add: newExecutionReportOperation_def ReportOperation_Instrument_def)
    moreover have "complete j" using Pair Some read_complete by simp
    ultimately show ?thesis
      by (auto simp: reportOperationBacked_def dest: subsetD [OF handle_buffers])
  qed
qed

lemma report_part_simps [simp]:
  "reportOperationPart (Report_SetOperation x r) = x"
  "reportOperationPart (Report_UnsetOperation r) = NewExecutionReportOperation"
  "reportOperationPart (Report_Reset r) = NewExecutionReportOperation"
  "reportOperationPart NewExecutionReport = NewExecutionReportOperation"
  "reportOperationPart (ReportOperationView f r) = f (reportOperationPart r)"
  "reportOperationPart (Report_UnsetFill r) = reportOperationPart r"
  "reportOperationPart (Report_EnsureFill r) = reportOperationPart r"
  "reportOperationPart (ExecutionReportFillView h r) = reportOperationPart r"
  "reportOperationPart (Report_SetFinancialImpact v r) = reportOperationPart r"
  "reportOperationPart (Report_UnsetFinancialImpact r) = reportOperationPart r"
  "reportOperationPart (Report_SetPositionImpact p r) = reportOperationPart r"
  "reportOperationPart (Report_UnsetPositionImpact r) = reportOperationPart r"
  "reportOperationPart (Report_EnsureFinancialImpact r) = reportOperationPart r"
  "reportOperationPart (FinancialImpactView a r) = reportOperationPart r"
  "reportOperationPart (Report_EnsurePositionImpact r) = reportOperationPart r"
  "reportOperationPart (PositionImpactView b r) = reportOperationPart r"
  "fillPart (Report_SetOperation x r) = fillPart r"
  "fillPart (Report_UnsetOperation r) = fillPart r"
  "fillPart (Report_EnsureOperation r) = fillPart r"
  "fillPart (Report_Reset r) = emptyFill"
  "fillPart NewExecutionReport = emptyFill"
  "fillPart (ReportOperationView f r) = fillPart r"
  "fillPart (Report_UnsetFill r) = emptyFill"
  "fillPart (ExecutionReportFillView h r) = h (fillPart r)"
  "fillPart (Report_SetFinancialImpact v r) = fillPart r"
  "fillPart (Report_UnsetFinancialImpact r) = fillPart r"
  "fillPart (Report_SetPositionImpact p r) = fillPart r"
  "fillPart (Report_UnsetPositionImpact r) = fillPart r"
  "fillPart (Report_EnsureFinancialImpact r) = fillPart r"
  "fillPart (FinancialImpactView a r) = fillPart r"
  "fillPart (Report_EnsurePositionImpact r) = fillPart r"
  "fillPart (PositionImpactView b r) = fillPart r"
  by (simp_all add: reportOperationPart_def fillPart_def report_defs NewExecutionReport_def
      NewExecutionReportFromHandle_def zeroReport_def NewExecutionReportOperation_def emptyFill_def Let_def)

lemma report_new_backed [simp]: "reportOperationBacked E NewExecutionReportOperation"
  by (simp add: reportOperationBacked_def NewExecutionReportOperation_def zeroReportOperation_def)

lemma report_ensure_backed:
  "reportOperationBacked E (reportOperationPart r) \<Longrightarrow> reportOperationBacked E (reportOperationPart (Report_EnsureOperation r))"
  "fillBacked E (fillPart r) \<Longrightarrow> fillBacked E (fillPart (Report_EnsureFill r))"
  "lockOwned L (fillPart r) \<Longrightarrow> lockOwned L (fillPart (Report_EnsureFill r))"
  by (simp_all add: Report_EnsureOperation_def Report_EnsureFill_def reportOperationPart_def fillPart_def
      reportOperationBacked_def zeroReportOperation_def fillBacked_def lockOwned_def)

lemma set_fill_parts:
  assumes "fillBacked E g"
  shows "fillBacked E (fillPart (fst (Report_SetFill g r n)))" "lockOwned L (fillPart (fst (Report_SetFill g r n)))"
    "reportOperationPart (fst (Report_SetFill g r n)) = reportOperationPart r"
  using assms
  by (auto simp: Report_SetFill_def PretradePreTradeLockClone_def fillPart_def fillBacked_def lockOwned_def
      reportOperationPart_def split: option.split)

lemma handle_report_backed:
  assumes "ofHandle E L v"
  shows "reportBacked E L (NewExecutionReportFromHandle v)"
  using assms
  by (auto simp: ofHandle_def reportPointers_def reportBacked_def reportOperationBacked_def
      reportOperationPart_def fillBacked_def lockOwned_def fillPart_def NewExecutionReportFromHandle_def)

lemma built_report_backed:
  shows built_report_invariant: "built_report codec E L r \<Longrightarrow> reportBacked E L r"
    and built_report_operation_backed: "built_report_operation codec E L x \<Longrightarrow> reportOperationBacked E x"
    and built_fill_backed: "built_fill codec E L f \<Longrightarrow> fillBacked E f"
proof (induction rule: built_report_built_report_operation_built_fill.inducts)
  case (2 v)
  then show ?case by (rule handle_report_backed)
next
  case (22 r n x m)
  then show ?case
    using import_operation_backed [where E = E]
    by (auto simp: Report_Operation_def reportBacked_def reportOperationBacked_def reportOperationPart_def
        split: if_splits prod.splits)
next
  case (23 v n x m)
  then show ?case
    using import_operation_backed [where E = E]
    by (auto simp: Report_Operation_def NewExecutionReportFromHandle_def wholeReport_def
        split: if_splits prod.splits)
next
  case (27 r n g m)
  then obtain f where f: "newExecutionReportFill (co_value (rr_fill (rs_value r))) n = (f, m)"
    "g = f\<lparr>fl_retainLock := rs_lock r\<rparr>" by (auto simp: Report_Fill_def split: if_splits prod.splits)
  have "wholeFee (cf_fee (co_value (rr_fill (rs_value r))))
      \<or> assetBuffers (cm_currency (co_value (cf_fee (co_value (rr_fill (rs_value r)))))) \<subseteq> E"
    using 27 by (simp add: reportBacked_def fillBacked_def fillPart_def)
  note b = import_fill_backed [OF f(1) this]
  have "\<forall>l k. cf_lock (co_value (rr_fill (rs_value r))) = Some l \<longrightarrow> rs_lock r = Some k \<longrightarrow> l = k"
    using 27 by (auto simp: reportBacked_def lockOwned_def fillPart_def)
  with b f(2) show ?case by (simp add: fillBacked_def)
next
  case (28 v n g m)
  then obtain f where f: "newExecutionReportFill (co_value (rr_fill v)) n = (f, m)"
    "g = f\<lparr>fl_retainLock := None\<rparr>"
    by (auto simp: Report_Fill_def NewExecutionReportFromHandle_def split: if_splits prod.splits)
  have "wholeFee (cf_fee (co_value (rr_fill v)))" using 28 by (simp add: wholeReport_def)
  from import_fill_backed [OF f(1), where E = E] this f(2) show ?case by (simp add: fillBacked_def)
next
  case (7 r f)
  then show ?case by (simp add: reportBacked_def report_operation_method_backed)
next
  case (11 r h)
  then show ?case
    using fill_method_backed [of codec h] by (simp add: reportBacked_def)
next
  case (21 x f)
  then show ?case by (simp add: report_operation_method_backed)
next
  case (25 g h)
  then show ?case using fill_method_backed(1) [of codec h] by simp
next
  case (26 vs n g m)
  then show ?case by (rule new_fill_backed)
qed (simp_all add: reportBacked_def set_fill_parts report_ensure_backed)

section \<open>Reading back a fill\<close>

definition lockResult :: "'c lockCodec \<Rightarrow> fillValues \<Rightarrow> go_error + 'c option" where
  "lockResult codec vs =
     (case fv_lock vs of
        None \<Rightarrow> Inr None
      | Some data \<Rightarrow> if data = [] then Inr None
          else (case lc_decode codec data of Inl e \<Rightarrow> Inl e | Inr c \<Rightarrow> Inr (Some c)))"

lemma plain_lock [simp]: "cf_lock (fl_value (plainFields vs f)) = cf_lock (fl_value f)"
  "cf_is_final (fl_value (plainFields vs f)) = cf_is_final (fl_value f)"
  "fl_retainLock (plainFields vs f) = fl_retainLock f"
  by (auto simp: plainFields_def applySome_def fill_defs split: option.split)

text \<open>The fill made from values, field by field.\<close>

definition madeFill :: "fillValues \<Rightarrow> 'c lock option \<Rightarrow> 'c fill" where
  "madeFill vs l = \<lparr>fl_value =
     \<lparr>cf_last_trade = (case fv_lastTrade vs of None \<Rightarrow> cNone zeroTrade | Some t \<Rightarrow> cSome t),
      cf_fee = (case fv_fee vs of None \<Rightarrow> cNone zeroMonetaryAmount | Some v \<Rightarrow> cSome (MonetaryAmount_Handle v)),
      cf_remaining = (case fv_remaining vs of None \<Rightarrow> cNone zeroDecimal | Some q \<Rightarrow> cSome q),
      cf_lock = l,
      cf_is_final = (if Bool_IsSet (fv_isFinal vs) then cSome (fv_isFinal vs = 1) else cNone False)\<rparr>,
     fl_retainFee = (case fv_fee vs of None \<Rightarrow> None | Some v \<Rightarrow> mn_currency v), fl_retainLock = l\<rparr>"

lemma zero_fill_import: "newExecutionReportFill zeroFill n = (emptyFill, n)"
  by (simp add: newExecutionReportFill_def Fill_Fee_def NewMonetaryAmountOptionFromHandle_def emptyFill_def Let_def)

lemma plain_made: "plainFields vs emptyFill = madeFill (vs\<lparr>fv_isFinal := BoolNone\<rparr>) None"
  by (simp add: plainFields_def applySome_def fill_defs emptyFill_def zeroFill_def madeFill_def split: option.split)

lemma final_made:
  "applyBool Fill_SetIsFinal (fv_isFinal vs) (madeFill (vs\<lparr>fv_isFinal := BoolNone\<rparr>) l) = madeFill vs l"
  by (simp add: applyBool_def Bool_Get_def madeFill_def fill_defs)

lemma lock_made: "(madeFill vs l)\<lparr>fl_value := (fl_value (madeFill vs l))\<lparr>cf_lock := k\<rparr>, fl_retainLock := k\<rparr> = madeFill vs k"
  by (simp add: madeFill_def)

lemma new_fill:
  "NewExecutionReportFillFromValues codec vs n =
     (case lockResult codec vs of
        Inl e \<Rightarrow> ((emptyFill, Some e), n)
      | Inr None \<Rightarrow> ((madeFill vs None, None), n)
      | Inr (Some c) \<Rightarrow> ((madeFill vs (Some \<lparr>lk_addr = n, lk_content = c\<rparr>), None), n + 1))"
  by (simp add: NewExecutionReportFillFromValues_def zero_fill_import setValues_cases plain_made lockResult_def
      setExecutionReportFillLock_def CreatePretradePreTradeLockFromRaw_def final_made lock_made
      split: option.split sum.split)

definition fillValid :: "fillValues \<Rightarrow> bool" where
  "fillValid vs \<longleftrightarrow> pred_option (\<lambda>v. Asset_Unsafe (mn_currency v) \<noteq> '''') (fv_fee vs) \<and> boolValid (fv_isFinal vs)"

definition sameFee :: "monetaryAmount \<Rightarrow> monetaryAmount \<Rightarrow> bool" where
  "sameFee v w \<longleftrightarrow> mn_amount v = mn_amount w \<and> Asset_Equal (mn_currency v) (mn_currency w)"

definition sameFillValues :: "fillValues \<Rightarrow> fillValues \<Rightarrow> bool" where
  "sameFillValues vs ws \<longleftrightarrow> rel_option sameFee (fv_fee vs) (fv_fee ws) \<and> fv_lastTrade ws = fv_lastTrade vs
     \<and> fv_remaining ws = fv_remaining vs \<and> fv_lock ws = fv_lock vs \<and> fv_isFinal ws = fv_isFinal vs"

lemma fee_read:
  "fst (Fill_Fee (madeFill vs l) n) = (case fv_fee vs of None \<Rightarrow> None
     | Some v \<Rightarrow> (case readAsset n (mn_currency v) of None \<Rightarrow> None
         | Some a \<Rightarrow> Some \<lparr>mn_amount = mn_amount v, mn_currency = a\<rparr>))"
  by (cases "fv_fee vs")
    (simp_all add: Fill_Fee_def madeFill_def NewMonetaryAmountOptionFromHandle_def MonetaryAmount_Handle_def
      readAsset_def asset_import)

lemma made_read:
  "fst (Fill_Values codec (madeFill vs l) n) =
     \<lparr>fv_lastTrade = fv_lastTrade vs, fv_fee = fst (Fill_Fee (madeFill vs l) n), fv_remaining = fv_remaining vs,
      fv_lock = map_option (\<lambda>l. lc_encode codec (lk_content l)) l,
      fv_isFinal = (if Bool_IsSet (fv_isFinal vs) then BoolSome (fv_isFinal vs = 1) else BoolNone)\<rparr>"
  by (simp add: Fill_Values_def fill_getters madeFill_def split: prod.split option.split)

lemma fee_same:
  "pred_option (\<lambda>v. Asset_Unsafe (mn_currency v) \<noteq> '''') (fv_fee vs) \<Longrightarrow>
     rel_option sameFee (fv_fee vs) (fst (Fill_Fee (madeFill vs l) n))"
  by (cases "fv_fee vs") (auto simp: fee_read readAsset_def sameFee_def Asset_Equal_def Asset_Unsafe_def)

section \<open>Properties\<close>

lemma report_pointers_held: "reportBacked E L r \<Longrightarrow> reportPointers (rs_value r) \<subseteq> reportHolds r \<union> E"
proof -
  assume "reportBacked E L r"
  then have "reportOperationBacked E (reportOperationPart r)" "fillBacked E (fillPart r)"
    by (simp_all add: reportBacked_def)
  then have "viewBuffers (ro_instrument (co_value (rr_operation (rs_value r)))) \<subseteq> instrumentBuffers (rs_instrument r) \<union> E"
    "assetBuffers (cm_currency (co_value (cf_fee (co_value (rr_fill (rs_value r)))))) \<subseteq> assetBuffers (rs_feeCurrency r) \<union> E"
    by (simp_all add: reportOperationBacked_def reportOperationPart_def fillBacked_def fillPart_def)
  then show ?thesis unfolding reportPointers_def reportHolds_def by blast
qed

lemma report_lock_owned:
  "reportBacked E L r \<Longrightarrow> \<forall>l. cf_lock (co_value (rr_fill (rs_value r))) = Some l \<longrightarrow>
     rs_lock r = Some l \<or> (rs_lock r = None \<and> l \<in> L)"
  by (simp add: reportBacked_def lockOwned_def fillPart_def)

lemma set_fill_lock:
  "built_fill codec E L g \<Longrightarrow> cf_lock (co_value (rr_fill (rs_value (fst (Report_SetFill g r n))))) = Some l \<Longrightarrow>
     rs_lock (fst (Report_SetFill g r n)) = Some l"
  using set_fill_parts(2) [of E g "{}" r n] built_fill_backed [of codec E L g]
  by (simp add: lockOwned_def fillPart_def)


definition sampleCodec :: "nat lockCodec" where
  "sampleCodec = \<lparr>lc_decode = (\<lambda>b. if length b = 1 then Inr (unat (hd b)) else Inl (Text ''lock'')),
     lc_encode = (\<lambda>c. [of_nat c])\<rparr>"

definition foreignReport :: "nat cReport" where
  "foreignReport = zeroReport\<lparr>rr_fill := cSome (zeroFill\<lparr>cf_lock := Some \<lparr>lk_addr = 7, lk_content = 5\<rparr>\<rparr>)\<rparr>"


text \<open>
  An instrument with only one asset escapes the import: an operation read from a report that
  holds one still points into the report's buffer and retains nothing.
\<close>

lemma half_instrument_escapes:
  "\<exists>x. fst (Report_Operation (Report_SetOperation (ReportOperation_SetInstrument
       \<lparr>in_underlying = Some b, in_settlement = None\<rparr> NewExecutionReportOperation) NewExecutionReport) n) = Some x
     \<and> rp_retain x = noInstrument \<and> (bf_bytes b \<noteq> '''' \<longrightarrow> viewBuffers (ro_instrument (rp_value x)) = {b})"
  by (simp add: Report_Operation_def Report_SetOperation_def ReportOperation_SetInstrument_def
      newExecutionReportOperation_def ReportOperation_Instrument_def NewInstrumentFromHandle_def
      Instrument_Handle_def NewExecutionReportOperation_def importString_def Asset_Unsafe_def
      NewAssetFromHandle_def StringView_IsSet_def NewString_def viewBuffers_def Let_def)

text \<open>
  A lock that cannot be decoded changes nothing.  Making a fill from values whose lock
  bytes the native decoder refuses, setting such values and setting such a lock each return
  the decoder's error; the fill is then exactly what it was, and a fill being made is the
  zero fill.
\<close>

lemma fill_lock_errors:
  assumes "fv_lock vs = Some data" "data \<noteq> []" "lc_decode codec data = Inl e"
  shows "fst (NewExecutionReportFillFromValues codec vs n) = (emptyFill, Some e)
     \<and> fst (Fill_SetValues codec vs f n) = (Some e, f)
     \<and> fst (setExecutionReportFillLock codec data f n) = (Some e, f)"
  using assms
  by (simp add: new_fill Fill_SetValues_def lockResult_def setExecutionReportFillLock_def
      CreatePretradePreTradeLockFromRaw_def)

definition sampleFillValues :: "bytes \<Rightarrow> fillValues" where
  "sampleFillValues data = \<lparr>fv_lastTrade = Some zeroTrade, fv_fee = None, fv_remaining = None,
     fv_lock = Some data, fv_isFinal = BoolSome True\<rparr>"

text \<open>
  A fill reads back the values it was made from.  When the native codec decodes what it
  encodes, making a fill from values with a lock so encoded (or none), a fee with a named
  currency (or none) and a final flag that is unset, false or true succeeds, and the fill
  returns the same values, the fee's currency by content.
\<close>

lemma fill_values_roundtrip:
  assumes "\<And>c. lc_decode codec (lc_encode codec c) = Inr c"
    and "fillValid vs"
    and "fv_lock vs = None \<or> (\<exists>c. fv_lock vs = Some (lc_encode codec c) \<and> lc_encode codec c \<noteq> [])"
  shows "\<exists>f m. NewExecutionReportFillFromValues codec vs n = ((f, None), m)
     \<and> sameFillValues vs (fst (Fill_Values codec f k))"
proof -
  obtain l m where l: "NewExecutionReportFillFromValues codec vs n = ((madeFill vs l, None), m)"
    and lock: "map_option (\<lambda>l. lc_encode codec (lk_content l)) l = fv_lock vs"
    using assms(1,3) by (auto simp: new_fill lockResult_def)
  have "(if Bool_IsSet (fv_isFinal vs) then BoolSome (fv_isFinal vs = 1) else BoolNone) = fv_isFinal vs"
    using assms(2) by (auto simp: fillValid_def boolValid_def Bool_IsSet_def BoolSome_def BoolNone_def)
  then have "sameFillValues vs (fst (Fill_Values codec (madeFill vs l) k))"
    using assms(2) fee_same [of vs l k] by (simp add: sameFillValues_def made_read lock fillValid_def)
  with l show ?thesis by blast
qed

definition byteCodec :: "8 word lockCodec" where
  "byteCodec = \<lparr>lc_decode = (\<lambda>b. if length b = 1 then Inr (hd b) else Inl (Text ''lock'')), lc_encode = (\<lambda>c. [c])\<rparr>"

end
