(* ===== verification/Decimal.thy ===== *)
theory Decimal
  imports Param_Values
begin

text \<open>
  The conversion between the SDK's decimals (an unbounded coefficient and a 32-bit exponent,
  \<^verbatim>\<open>shopspring/decimal\<close>) and the native decimal (a 128-bit mantissa in two halves and a
  32-bit scale): \<^verbatim>\<open>internal/native/decimal.go\<close>.
\<close>

section \<open>The conversions\<close>

text \<open>\<open>sd_exponent\<close> is an \<^verbatim>\<open>int32\<close>; \<open>sint\<close> reads it.\<close>

record bigDecimal =
  sd_coefficient :: int
  sd_exponent :: "32 word"

definition NewDecimalFromNative :: "decimal \<Rightarrow> bigDecimal" where
  "NewDecimalFromNative source =
     (let mantissa = sint (dc_hi source) * 2 ^ 64 in
      let mantissa = mantissa + uint (dc_lo source) in
      \<lparr>sd_coefficient = mantissa, sd_exponent = - dc_scale source\<rparr>)"

text \<open>Both errors wrap \<^verbatim>\<open>ErrOverflow\<close>; they differ in the text.\<close>

datatype overflow = ScaleOverflow int | MantissaOverflow int "32 word"

definition minInt32 :: "32 word" where "minInt32 = 0x80000000"

definition decimalMantissaOverflowExponent :: int where "decimalMantissaOverflowExponent = 39"

definition isInt64 :: "int \<Rightarrow> bool" where
  "isInt64 n \<longleftrightarrow> - (2 ^ 63) \<le> n \<and> n < 2 ^ 63"

text \<open>The part after the mantissa is known: the two halves, or the overflow error.\<close>

definition packMantissa :: "bigDecimal \<Rightarrow> int \<Rightarrow> 32 word \<Rightarrow> overflow + decimal" where
  "packMantissa source mantissa scale =
     (let hi = mantissa div 2 ^ 64 in
      if \<not> isInt64 hi then Inl (MantissaOverflow (sd_coefficient source) (sd_exponent source))
      else Inr \<lparr>dc_lo = word_of_int (mantissa mod 2 ^ 64), dc_hi = word_of_int hi, dc_scale = scale\<rparr>)"

definition NewNativeDecimalFromDecimal :: "bigDecimal \<Rightarrow> overflow + decimal" where
  "NewNativeDecimalFromDecimal source =
     (let coefficient = sd_coefficient source; exponent = sd_exponent source in
      if exponent = minInt32 then Inl (ScaleOverflow coefficient)
      else if 0 < sint exponent then
        (if coefficient \<noteq> 0 then
           (if decimalMantissaOverflowExponent \<le> sint exponent then Inl (MantissaOverflow coefficient exponent)
            else packMantissa source (coefficient * 10 ^ nat (sint exponent)) 0)
         else packMantissa source coefficient 0)
      else packMantissa source coefficient (- exponent))"

section \<open>Facts\<close>

lemma sint_div: "isInt64 (m div 2 ^ 64) \<Longrightarrow> sint (word_of_int (m div 2 ^ 64) :: 64 word) = m div 2 ^ 64"
  by (simp add: isInt64_def sint_sbintrunc' signed_take_bit_int_eq_self)

lemma uint_mod: "uint (word_of_int (m mod 2 ^ 64) :: 64 word) = m mod 2 ^ 64"
  by (simp add: uint_word_of_int)

lemma hi_range: "isInt64 (m div 2 ^ 64) \<longleftrightarrow> - (2 ^ 127) \<le> m \<and> m < 2 ^ 127"
proof -
  define q r where "q = m div 18446744073709551616" and "r = m mod 18446744073709551616"
  have m: "m = 18446744073709551616 * q + r" "0 \<le> r" "r < 18446744073709551616"
    by (simp_all add: q_def r_def)
  have "- 9223372036854775808 \<le> q \<longleftrightarrow> - 170141183460469231731687303715884105728 \<le> m" using m by linarith
  moreover have "q < 9223372036854775808 \<longleftrightarrow> m < 170141183460469231731687303715884105728"
    using m by linarith
  ultimately show ?thesis by (simp add: isInt64_def q_def)
qed

definition fits128 :: "int \<Rightarrow> bool" where
  "fits128 m \<longleftrightarrow> - (2 ^ 127) \<le> m \<and> m < 2 ^ 127"

lemma pack_ok:
  "fits128 m \<Longrightarrow> \<exists>d. packMantissa s m k = Inr d \<and> dc_scale d = k
     \<and> NewDecimalFromNative d = \<lparr>sd_coefficient = m, sd_exponent = - k\<rparr>"
  "\<not> fits128 m \<Longrightarrow> packMantissa s m k = Inl (MantissaOverflow (sd_coefficient s) (sd_exponent s))"
  using hi_range [of m] sint_div [of m] uint_mod [of m] div_mult_mod_eq [of m "2 ^ 64"]
  by (simp_all add: packMantissa_def NewDecimalFromNative_def fits128_def Let_def)

lemma power_overflow: "c \<noteq> 0 \<Longrightarrow> 39 \<le> n \<Longrightarrow> \<not> fits128 (c * 10 ^ n)"
proof -
  assume c: "c \<noteq> (0 :: int)" and n: "39 \<le> n"
  have "(10 :: int) ^ 39 \<le> 10 ^ n" using n by (rule power_increasing) simp
  then have big: "(2 :: int) ^ 127 < 10 ^ n" by simp
  have "10 ^ n \<le> \<bar>c * 10 ^ n\<bar>" using c by (simp add: abs_mult)
  then have "(2 :: int) ^ 127 < \<bar>c * 10 ^ n\<bar>" using big by linarith
  then show ?thesis by (simp only: fits128_def) linarith
qed

text \<open>
  The reference: the coefficient scaled by the positive part of the exponent, in unbounded
  arithmetic, then checked.
\<close>

definition scaled :: "bigDecimal \<Rightarrow> int" where
  "scaled s = sd_coefficient s * 10 ^ nat (sint (sd_exponent s))"

definition referenceConversion :: "bigDecimal \<Rightarrow> overflow + decimal" where
  "referenceConversion s =
     (if sint (sd_exponent s) = - (2 ^ 31) then Inl (ScaleOverflow (sd_coefficient s))
      else if \<not> fits128 (scaled s) then Inl (MantissaOverflow (sd_coefficient s) (sd_exponent s))
      else Inr \<lparr>dc_lo = word_of_int (scaled s), dc_hi = word_of_int (scaled s div 2 ^ 64),
             dc_scale = word_of_int (max 0 (- sint (sd_exponent s)))\<rparr>)"

lemma min_sint: "e = minInt32 \<longleftrightarrow> sint e = - (2 ^ 31)"
proof -
  have "sint minInt32 = - (2 ^ 31)" by (simp add: minInt32_def)
  then show ?thesis by (metis signed_word_eqI)
qed

lemma word_mod: "(word_of_int (m mod 2 ^ 64) :: 64 word) = word_of_int m"
  by (simp add: word_of_int_eq_iff take_bit_eq_mod)

lemma pack_reference:
  "packMantissa s m k = (if \<not> fits128 m then Inl (MantissaOverflow (sd_coefficient s) (sd_exponent s))
     else Inr \<lparr>dc_lo = word_of_int m, dc_hi = word_of_int (m div 2 ^ 64), dc_scale = k\<rparr>)"
  unfolding packMantissa_def hi_range word_mod fits128_def Let_def by (rule refl)

lemma scale_neg: "\<not> 0 < sint e \<Longrightarrow> - e = word_of_int (max 0 (- sint e))" for e :: "32 word"
  by (simp add: max_def)

lemma conversion_reference: "NewNativeDecimalFromDecimal s = referenceConversion s"
proof (cases "0 < sint (sd_exponent s)")
  case True
  then have e: "sint (sd_exponent s) \<noteq> - (2 ^ 31)" "max 0 (- sint (sd_exponent s)) = 0" by simp_all
  consider "sd_coefficient s = 0" | "sd_coefficient s \<noteq> 0" "39 \<le> sint (sd_exponent s)"
    | "sd_coefficient s \<noteq> 0" "\<not> 39 \<le> sint (sd_exponent s)" by blast
  then show ?thesis
  proof cases
    case 1
    then have "scaled s = 0" "fits128 0" by (simp_all add: scaled_def fits128_def)
    with 1 True e show ?thesis
      by (simp only: NewNativeDecimalFromDecimal_def referenceConversion_def min_sint pack_reference Let_def)
        simp
  next
    case 2
    then have "\<not> fits128 (scaled s)" unfolding scaled_def by (intro power_overflow) simp_all
    with 2 True e show ?thesis
      by (simp add: NewNativeDecimalFromDecimal_def referenceConversion_def min_sint
          decimalMantissaOverflowExponent_def Let_def)
  next
    case 3
    with True e show ?thesis
      unfolding NewNativeDecimalFromDecimal_def referenceConversion_def min_sint pack_reference Let_def
        decimalMantissaOverflowExponent_def scaled_def by simp
  qed
next
  case False
  then have c: "scaled s = sd_coefficient s" and e: "(0 < sint (sd_exponent s)) = False"
    by (simp_all add: scaled_def)
  show ?thesis
    unfolding NewNativeDecimalFromDecimal_def referenceConversion_def min_sint pack_reference Let_def
      c e if_False scale_neg [OF False] by (rule refl)
qed

definition nativeScale :: "32 word \<Rightarrow> 32 word" where
  "nativeScale e = (if 0 < sint e then 0 else - e)"

lemma conversion_pack:
  "NewNativeDecimalFromDecimal s =
     (if sd_exponent s = minInt32 then Inl (ScaleOverflow (sd_coefficient s))
      else packMantissa s (scaled s) (nativeScale (sd_exponent s)))"
proof -
  have "nativeScale e = word_of_int (max 0 (- sint e))" for e
  proof (cases "0 < sint e")
    case False
    then show ?thesis unfolding nativeScale_def scale_neg [OF False, symmetric] by simp
  qed (simp add: nativeScale_def)
  then show ?thesis
    unfolding conversion_reference referenceConversion_def min_sint [symmetric] pack_reference by simp
qed

lemma converted:
  assumes "NewNativeDecimalFromDecimal s = Inr d"
  shows "sd_exponent s \<noteq> minInt32" "fits128 (scaled s)"
    "d = \<lparr>dc_lo = word_of_int (scaled s), dc_hi = word_of_int (scaled s div 2 ^ 64),
       dc_scale = nativeScale (sd_exponent s)\<rparr>"
  using assms unfolding conversion_pack pack_reference by (simp_all split: if_splits)

section \<open>Properties\<close>

text \<open>
  C22: the conversion of a decimal is exact.  It agrees with the reference that scales the
  coefficient in unbounded arithmetic and then checks the range: the cut-off at exponent 39
  and the two-halves check refuse exactly the values whose mantissa does not fit 128 bits,
  and the smallest exponent, whose scale does not fit 32 bits, is refused first.
\<close>

theorem decimal_conversion_exact: "NewNativeDecimalFromDecimal s = referenceConversion s"
  by (rule conversion_reference)

text \<open>
  Decimals survive the boundary.  A decimal that converts comes back with its coefficient
  and exponent unchanged, or, when the exponent is positive, with the exponent folded into the
  coefficient; and what came back converts to the same native decimal again.
\<close>

lemma decimal_roundtrip:
  assumes "NewNativeDecimalFromDecimal s = Inr d"
  shows "NewDecimalFromNative d =
      (if 0 < sint (sd_exponent s)
       then \<lparr>sd_coefficient = sd_coefficient s * 10 ^ nat (sint (sd_exponent s)), sd_exponent = 0\<rparr> else s)
     \<and> NewNativeDecimalFromDecimal (NewDecimalFromNative d) = Inr d"
proof -
  note c = converted [OF assms]
  define k where "k = nativeScale (sd_exponent s)"
  have "packMantissa s (scaled s) k = Inr d"
    using c unfolding pack_reference k_def by simp
  with pack_ok(1) [OF c(2), of s k] have rd: "NewDecimalFromNative d = \<lparr>sd_coefficient = scaled s, sd_exponent = - k\<rparr>"
    by auto
  have neg: "\<not> 0 < sint (- k)" "- k \<noteq> minInt32" "nativeScale (- k) = k"
    using c(1) by (simp_all add: k_def nativeScale_def minInt32_def)
  have "scaled (NewDecimalFromNative d) = scaled s" using neg(1) by (simp add: rd scaled_def)
  then have "NewNativeDecimalFromDecimal (NewDecimalFromNative d) = packMantissa (NewDecimalFromNative d) (scaled s) k"
    unfolding conversion_pack using neg(2,3) by (simp add: rd)
  also have "\<dots> = Inr d" using c unfolding pack_reference k_def by simp
  finally show ?thesis
    using rd by (cases s) (simp add: k_def nativeScale_def scaled_def)
qed

end
