(* ===== verification/Adjustment_Model.thy ===== *)
theory Adjustment_Model
  imports Order_Model
begin

text \<open>
  The account adjustment of the public API (\<^verbatim>\<open>model/account_adjustment.go\<close>,
  \<^verbatim>\<open>account_adjustment_pnl.go\<close> and \<^verbatim>\<open>pnl.go\<close> over
  \<^verbatim>\<open>internal/native/account_adjustment.go\<close>): a C struct with three payloads and a
  selector, written through values and through views that outlive the selection, and the sum
  type it stands for.
\<close>

section \<open>The C structs\<close>

record cPnlState =
  pn_kind :: "8 word"
  pn_value :: decimal
  pn_reason :: "8 word"

record cBalanceOperation =
  bo_asset :: stringView
  bo_price :: "decimal cOptional"
  bo_pnl :: "cPnlState cOptional"

record cPositionOperation =
  po_instrument :: cInstrument
  po_collateral :: stringView
  po_price :: "decimal cOptional"
  po_leverage :: "16 word"
  po_mode :: "8 word"

record adjustmentAmount =
  aa_value :: decimal
  aa_kind :: "8 word"

record cAmount =
  am_balance :: adjustmentAmount
  am_held :: adjustmentAmount
  am_incoming :: adjustmentAmount

record cBounds =
  bn_balance_upper :: "decimal cOptional"
  bn_balance_lower :: "decimal cOptional"
  bn_held_upper :: "decimal cOptional"
  bn_held_lower :: "decimal cOptional"
  bn_incoming_upper :: "decimal cOptional"
  bn_incoming_lower :: "decimal cOptional"

record cAdjustment =
  aj_kind :: "8 word"
  aj_balance :: cBalanceOperation
  aj_position :: cPositionOperation
  aj_pnl :: cPnlState
  aj_amount :: "cAmount cOptional"
  aj_bounds :: "cBounds cOptional"
  aj_user_data :: "64 word"

definition zeroPnlState :: cPnlState where
  "zeroPnlState = \<lparr>pn_kind = 0, pn_value = zeroDecimal, pn_reason = 0\<rparr>"

definition zeroBalance :: cBalanceOperation where
  "zeroBalance = \<lparr>bo_asset = None, bo_price = cNone zeroDecimal, bo_pnl = cNone zeroPnlState\<rparr>"

definition zeroPositionOperation :: cPositionOperation where
  "zeroPositionOperation = \<lparr>po_instrument = zeroInstrument, po_collateral = None,
     po_price = cNone zeroDecimal, po_leverage = 0, po_mode = 0\<rparr>"

definition zeroAdjustmentAmount :: adjustmentAmount where
  "zeroAdjustmentAmount = \<lparr>aa_value = zeroDecimal, aa_kind = 0\<rparr>"

definition zeroAmount :: cAmount where
  "zeroAmount = \<lparr>am_balance = zeroAdjustmentAmount, am_held = zeroAdjustmentAmount,
     am_incoming = zeroAdjustmentAmount\<rparr>"

definition zeroBounds :: cBounds where
  "zeroBounds = \<lparr>bn_balance_upper = cNone zeroDecimal, bn_balance_lower = cNone zeroDecimal,
     bn_held_upper = cNone zeroDecimal, bn_held_lower = cNone zeroDecimal,
     bn_incoming_upper = cNone zeroDecimal, bn_incoming_lower = cNone zeroDecimal\<rparr>"

definition zeroAdjustment :: cAdjustment where
  "zeroAdjustment = \<lparr>aj_kind = 0, aj_balance = zeroBalance, aj_position = zeroPositionOperation,
     aj_pnl = zeroPnlState, aj_amount = cNone zeroAmount, aj_bounds = cNone zeroBounds,
     aj_user_data = 0\<rparr>"

text \<open>The selector.\<close>

definition kindBalance :: "8 word" where "kindBalance = 1"
definition kindPosition :: "8 word" where "kindPosition = 2"
definition kindAccountPnl :: "8 word" where "kindAccountPnl = 3"

text \<open>Every write of a payload selects it and clears the other two.\<close>

definition nativeSetBalance :: "cBalanceOperation \<Rightarrow> cAdjustment \<Rightarrow> cAdjustment" where
  "nativeSetBalance x a = a\<lparr>aj_kind := kindBalance, aj_balance := x,
     aj_position := zeroPositionOperation, aj_pnl := zeroPnlState\<rparr>"

definition nativeSelectBalance :: "cAdjustment \<Rightarrow> cAdjustment" where
  "nativeSelectBalance a =
     (let a1 = (if aj_kind a \<noteq> kindBalance then a\<lparr>aj_balance := zeroBalance\<rparr> else a) in
      a1\<lparr>aj_kind := kindBalance, aj_position := zeroPositionOperation, aj_pnl := zeroPnlState\<rparr>)"

definition nativeUnsetBalance :: "cAdjustment \<Rightarrow> cAdjustment" where
  "nativeUnsetBalance a =
     (if aj_kind a = kindBalance then a\<lparr>aj_kind := 0\<rparr> else a)\<lparr>aj_balance := zeroBalance\<rparr>"

definition nativeSetPosition :: "cPositionOperation \<Rightarrow> cAdjustment \<Rightarrow> cAdjustment" where
  "nativeSetPosition x a = a\<lparr>aj_kind := kindPosition, aj_position := x,
     aj_balance := zeroBalance, aj_pnl := zeroPnlState\<rparr>"

definition nativeSelectPosition :: "cAdjustment \<Rightarrow> cAdjustment" where
  "nativeSelectPosition a =
     (let a1 = (if aj_kind a \<noteq> kindPosition then a\<lparr>aj_position := zeroPositionOperation\<rparr> else a) in
      a1\<lparr>aj_kind := kindPosition, aj_balance := zeroBalance, aj_pnl := zeroPnlState\<rparr>)"

definition nativeUnsetPosition :: "cAdjustment \<Rightarrow> cAdjustment" where
  "nativeUnsetPosition a =
     (if aj_kind a = kindPosition then a\<lparr>aj_kind := 0\<rparr> else a)\<lparr>aj_position := zeroPositionOperation\<rparr>"

definition nativeSetAccountPnl :: "cPnlState \<Rightarrow> cAdjustment \<Rightarrow> cAdjustment" where
  "nativeSetAccountPnl x a = a\<lparr>aj_kind := kindAccountPnl, aj_pnl := x,
     aj_balance := zeroBalance, aj_position := zeroPositionOperation\<rparr>"

definition nativeUnsetAccountPnl :: "cAdjustment \<Rightarrow> cAdjustment" where
  "nativeUnsetAccountPnl a =
     (if aj_kind a = kindAccountPnl then a\<lparr>aj_kind := 0\<rparr> else a)\<lparr>aj_pnl := zeroPnlState\<rparr>"

section \<open>PnL states\<close>

definition PnlHaltReason_Valid :: "8 word \<Rightarrow> bool" where
  "PnlHaltReason_Valid r \<longleftrightarrow> r = 1 \<or> r = 2 \<or> r = 3 \<or> r = 4 \<or> r = 5"

record pnlState =
  pl_value :: decimal
  pl_haltReason :: "8 word"

definition NewPnlState :: "decimal \<Rightarrow> pnlState" where
  "NewPnlState v = \<lparr>pl_value = v, pl_haltReason = 0\<rparr>"

text \<open>The error is \<^verbatim>\<open>ErrInvalidPnlHaltReason\<close> with the refused reason.\<close>

datatype pnlError = ErrInvalidPnlHaltReason "8 word"

definition NewPnlHaltedState :: "8 word \<Rightarrow> pnlError + pnlState" where
  "NewPnlHaltedState r =
     (if \<not> PnlHaltReason_Valid r then Inl (ErrInvalidPnlHaltReason r)
      else Inr \<lparr>pl_value = zeroDecimal, pl_haltReason = r\<rparr>)"

definition PnlState_IsHalted :: "pnlState \<Rightarrow> bool" where
  "PnlState_IsHalted s \<longleftrightarrow> pl_haltReason s \<noteq> 0"

definition PnlState_Value :: "pnlState \<Rightarrow> decimal \<times> bool" where
  "PnlState_Value s = (pl_value s, \<not> PnlState_IsHalted s)"

definition PnlState_HaltReason :: "pnlState \<Rightarrow> 8 word \<times> bool" where
  "PnlState_HaltReason s = (pl_haltReason s, PnlState_IsHalted s)"

definition PnlState_Handle :: "pnlState \<Rightarrow> cPnlState" where
  "PnlState_Handle s =
     (if PnlState_IsHalted s then zeroPnlState\<lparr>pn_kind := 1, pn_reason := pl_haltReason s\<rparr>
      else zeroPnlState\<lparr>pn_kind := 0, pn_value := pl_value s\<rparr>)"

definition NewPnlStateFromHandle :: "cPnlState \<Rightarrow> pnlState" where
  "NewPnlStateFromHandle s =
     (if pn_kind s = 1 then \<lparr>pl_value = zeroDecimal, pl_haltReason = pn_reason s\<rparr>
      else NewPnlState (pn_value s))"

text \<open>An account-wide PnL operation is its C struct.\<close>

definition NewAccountPnlOperation :: "pnlState \<Rightarrow> cPnlState" where
  "NewAccountPnlOperation s = PnlState_Handle s"

definition AccountPnlOperation_State :: "cPnlState \<Rightarrow> pnlState" where
  "AccountPnlOperation_State o1 = NewPnlStateFromHandle o1"

section \<open>The balance operation\<close>

record balanceOperation =
  bl_value :: cBalanceOperation
  bl_retain :: asset

record balanceOperationValues =
  bv_asset :: "asset option"
  bv_averageEntryPrice :: "decimal option"
  bv_realizedPnl :: "pnlState option"

definition NewBalanceOperation :: balanceOperation where
  "NewBalanceOperation = \<lparr>bl_value = zeroBalance, bl_retain = None\<rparr>"

definition BalanceOperation_Reset :: "balanceOperation \<Rightarrow> balanceOperation" where
  "BalanceOperation_Reset o1 = o1\<lparr>bl_value := zeroBalance, bl_retain := None\<rparr>"

definition BalanceOperation_Asset :: "balanceOperation \<Rightarrow> nat \<Rightarrow> asset option \<times> nat" where
  "BalanceOperation_Asset o1 next = NewAssetFromHandle (bo_asset (bl_value o1)) next"

definition BalanceOperation_SetAsset :: "asset \<Rightarrow> balanceOperation \<Rightarrow> balanceOperation" where
  "BalanceOperation_SetAsset a o1 =
     o1\<lparr>bl_value := (bl_value o1)\<lparr>bo_asset := importString a\<rparr>, bl_retain := a\<rparr>"

definition BalanceOperation_UnsetAsset :: "balanceOperation \<Rightarrow> balanceOperation" where
  "BalanceOperation_UnsetAsset o1 = o1\<lparr>bl_value := (bl_value o1)\<lparr>bo_asset := None\<rparr>, bl_retain := None\<rparr>"

definition BalanceOperation_AverageEntryPrice :: "balanceOperation \<Rightarrow> decimal option" where
  "BalanceOperation_AverageEntryPrice o1 = optionFromHandle (bo_price (bl_value o1))"

definition BalanceOperation_SetAverageEntryPrice :: "decimal \<Rightarrow> balanceOperation \<Rightarrow> balanceOperation" where
  "BalanceOperation_SetAverageEntryPrice p o1 = o1\<lparr>bl_value := (bl_value o1)\<lparr>bo_price := cSome p\<rparr>\<rparr>"

definition BalanceOperation_UnsetAverageEntryPrice :: "balanceOperation \<Rightarrow> balanceOperation" where
  "BalanceOperation_UnsetAverageEntryPrice o1 = o1\<lparr>bl_value := (bl_value o1)\<lparr>bo_price := cNone zeroDecimal\<rparr>\<rparr>"

definition BalanceOperation_RealizedPnl :: "balanceOperation \<Rightarrow> pnlState option" where
  "BalanceOperation_RealizedPnl o1 =
     (if \<not> co_set (bo_pnl (bl_value o1)) then None
      else Some (NewPnlStateFromHandle (co_value (bo_pnl (bl_value o1)))))"

definition BalanceOperation_SetRealizedPnl :: "pnlState \<Rightarrow> balanceOperation \<Rightarrow> balanceOperation" where
  "BalanceOperation_SetRealizedPnl s o1 =
     o1\<lparr>bl_value := (bl_value o1)\<lparr>bo_pnl := cSome (PnlState_Handle s)\<rparr>\<rparr>"

definition BalanceOperation_UnsetRealizedPnl :: "balanceOperation \<Rightarrow> balanceOperation" where
  "BalanceOperation_UnsetRealizedPnl o1 = o1\<lparr>bl_value := (bl_value o1)\<lparr>bo_pnl := cNone zeroPnlState\<rparr>\<rparr>"

definition BalanceOperation_setValues :: "balanceOperationValues \<Rightarrow> balanceOperation \<Rightarrow> balanceOperation" where
  "BalanceOperation_setValues vs o1 =
     applySome BalanceOperation_SetRealizedPnl (bv_realizedPnl vs)
     (applySome BalanceOperation_SetAverageEntryPrice (bv_averageEntryPrice vs)
     (applySome BalanceOperation_SetAsset (bv_asset vs) o1))"

definition BalanceOperation_SetValues :: "balanceOperationValues \<Rightarrow> balanceOperation \<Rightarrow> balanceOperation" where
  "BalanceOperation_SetValues vs o1 = BalanceOperation_setValues vs (BalanceOperation_Reset o1)"

definition NewBalanceOperationFromValues :: "balanceOperationValues \<Rightarrow> balanceOperation" where
  "NewBalanceOperationFromValues vs = BalanceOperation_setValues vs NewBalanceOperation"

definition BalanceOperation_Values :: "balanceOperation \<Rightarrow> nat \<Rightarrow> balanceOperationValues \<times> nat" where
  "BalanceOperation_Values o1 next =
     (case BalanceOperation_Asset o1 next of (a, next') \<Rightarrow>
        (\<lparr>bv_asset = a, bv_averageEntryPrice = BalanceOperation_AverageEntryPrice o1,
          bv_realizedPnl = BalanceOperation_RealizedPnl o1\<rparr>, next'))"

lemmas balance_defs = BalanceOperation_Reset_def BalanceOperation_SetAsset_def
  BalanceOperation_UnsetAsset_def BalanceOperation_SetAverageEntryPrice_def
  BalanceOperation_UnsetAverageEntryPrice_def BalanceOperation_SetRealizedPnl_def
  BalanceOperation_UnsetRealizedPnl_def
lemmas balance_getters = BalanceOperation_Asset_def BalanceOperation_AverageEntryPrice_def
  BalanceOperation_RealizedPnl_def

section \<open>The position operation\<close>

record positionOperation =
  po_value :: cPositionOperation
  po_retainInstrument :: instrument
  po_retainCollateral :: asset

record positionOperationValues =
  pw_instrument :: "instrument option"
  pw_collateralAsset :: "asset option"
  pw_averageEntryPrice :: "decimal option"
  pw_leverage :: "16 word option"
  pw_mode :: "8 word option"

definition NewPositionModeFromHandle :: "8 word \<Rightarrow> 8 word option" where
  "NewPositionModeFromHandle v = (if v = 0 then None else Some v)"

definition NewPositionOperation :: positionOperation where
  "NewPositionOperation = \<lparr>po_value = zeroPositionOperation, po_retainInstrument = noInstrument,
     po_retainCollateral = None\<rparr>"

definition PositionOperation_Reset :: "positionOperation \<Rightarrow> positionOperation" where
  "PositionOperation_Reset o1 = o1\<lparr>po_value := zeroPositionOperation, po_retainInstrument := noInstrument,
     po_retainCollateral := None\<rparr>"

definition PositionOperation_Instrument :: "positionOperation \<Rightarrow> nat \<Rightarrow> instrument option \<times> nat" where
  "PositionOperation_Instrument o1 next = NewInstrumentFromHandle (po_instrument (po_value o1)) next"

definition PositionOperation_SetInstrument :: "instrument \<Rightarrow> positionOperation \<Rightarrow> positionOperation" where
  "PositionOperation_SetInstrument i o1 =
     o1\<lparr>po_value := (po_value o1)\<lparr>po_instrument := Instrument_Handle i\<rparr>, po_retainInstrument := i\<rparr>"

definition PositionOperation_UnsetInstrument :: "positionOperation \<Rightarrow> positionOperation" where
  "PositionOperation_UnsetInstrument o1 =
     o1\<lparr>po_value := (po_value o1)\<lparr>po_instrument := zeroInstrument\<rparr>, po_retainInstrument := noInstrument\<rparr>"

definition PositionOperation_CollateralAsset :: "positionOperation \<Rightarrow> nat \<Rightarrow> asset option \<times> nat" where
  "PositionOperation_CollateralAsset o1 next = NewAssetFromHandle (po_collateral (po_value o1)) next"

definition PositionOperation_SetCollateralAsset :: "asset \<Rightarrow> positionOperation \<Rightarrow> positionOperation" where
  "PositionOperation_SetCollateralAsset a o1 =
     o1\<lparr>po_value := (po_value o1)\<lparr>po_collateral := importString a\<rparr>, po_retainCollateral := a\<rparr>"

definition PositionOperation_UnsetCollateralAsset :: "positionOperation \<Rightarrow> positionOperation" where
  "PositionOperation_UnsetCollateralAsset o1 =
     o1\<lparr>po_value := (po_value o1)\<lparr>po_collateral := None\<rparr>, po_retainCollateral := None\<rparr>"

definition PositionOperation_AverageEntryPrice :: "positionOperation \<Rightarrow> decimal option" where
  "PositionOperation_AverageEntryPrice o1 = optionFromHandle (po_price (po_value o1))"

definition PositionOperation_SetAverageEntryPrice :: "decimal \<Rightarrow> positionOperation \<Rightarrow> positionOperation" where
  "PositionOperation_SetAverageEntryPrice p o1 = o1\<lparr>po_value := (po_value o1)\<lparr>po_price := cSome p\<rparr>\<rparr>"

definition PositionOperation_UnsetAverageEntryPrice :: "positionOperation \<Rightarrow> positionOperation" where
  "PositionOperation_UnsetAverageEntryPrice o1 =
     o1\<lparr>po_value := (po_value o1)\<lparr>po_price := cNone zeroDecimal\<rparr>\<rparr>"

definition PositionOperation_Leverage :: "positionOperation \<Rightarrow> 16 word option" where
  "PositionOperation_Leverage o1 = NewLeverageOptionFromHandle (po_leverage (po_value o1))"

definition PositionOperation_SetLeverage :: "16 word \<Rightarrow> positionOperation \<Rightarrow> positionOperation" where
  "PositionOperation_SetLeverage l o1 = o1\<lparr>po_value := (po_value o1)\<lparr>po_leverage := l\<rparr>\<rparr>"

definition PositionOperation_UnsetLeverage :: "positionOperation \<Rightarrow> positionOperation" where
  "PositionOperation_UnsetLeverage o1 = o1\<lparr>po_value := (po_value o1)\<lparr>po_leverage := 0\<rparr>\<rparr>"

definition PositionOperation_Mode :: "positionOperation \<Rightarrow> 8 word option" where
  "PositionOperation_Mode o1 = NewPositionModeFromHandle (po_mode (po_value o1))"

definition PositionOperation_SetMode :: "8 word \<Rightarrow> positionOperation \<Rightarrow> positionOperation" where
  "PositionOperation_SetMode v o1 = o1\<lparr>po_value := (po_value o1)\<lparr>po_mode := v\<rparr>\<rparr>"

definition PositionOperation_UnsetMode :: "positionOperation \<Rightarrow> positionOperation" where
  "PositionOperation_UnsetMode o1 = o1\<lparr>po_value := (po_value o1)\<lparr>po_mode := 0\<rparr>\<rparr>"

definition PositionOperation_setValues :: "positionOperationValues \<Rightarrow> positionOperation \<Rightarrow> positionOperation" where
  "PositionOperation_setValues vs o1 =
     applySome PositionOperation_SetMode (pw_mode vs)
     (applySome PositionOperation_SetLeverage (pw_leverage vs)
     (applySome PositionOperation_SetAverageEntryPrice (pw_averageEntryPrice vs)
     (applySome PositionOperation_SetCollateralAsset (pw_collateralAsset vs)
     (applySome PositionOperation_SetInstrument (pw_instrument vs) o1))))"

definition PositionOperation_SetValues :: "positionOperationValues \<Rightarrow> positionOperation \<Rightarrow> positionOperation" where
  "PositionOperation_SetValues vs o1 = PositionOperation_setValues vs (PositionOperation_Reset o1)"

definition NewPositionOperationFromValues :: "positionOperationValues \<Rightarrow> positionOperation" where
  "NewPositionOperationFromValues vs = PositionOperation_setValues vs NewPositionOperation"

definition PositionOperation_Values :: "positionOperation \<Rightarrow> nat \<Rightarrow> positionOperationValues \<times> nat" where
  "PositionOperation_Values o1 next =
     (case PositionOperation_Instrument o1 next of (i, n1) \<Rightarrow>
       (case PositionOperation_CollateralAsset o1 n1 of (a, n2) \<Rightarrow>
          (\<lparr>pw_instrument = i, pw_collateralAsset = a,
            pw_averageEntryPrice = PositionOperation_AverageEntryPrice o1,
            pw_leverage = PositionOperation_Leverage o1, pw_mode = PositionOperation_Mode o1\<rparr>, n2)))"

lemmas position_operation_defs = PositionOperation_Reset_def PositionOperation_SetInstrument_def
  PositionOperation_UnsetInstrument_def PositionOperation_SetCollateralAsset_def
  PositionOperation_UnsetCollateralAsset_def PositionOperation_SetAverageEntryPrice_def
  PositionOperation_UnsetAverageEntryPrice_def PositionOperation_SetLeverage_def
  PositionOperation_UnsetLeverage_def PositionOperation_SetMode_def PositionOperation_UnsetMode_def
lemmas position_operation_getters = PositionOperation_Instrument_def
  PositionOperation_CollateralAsset_def PositionOperation_AverageEntryPrice_def
  PositionOperation_Leverage_def PositionOperation_Mode_def

section \<open>Amounts and bounds\<close>

text \<open>Both hold their C struct and no reference.\<close>

definition NewDeltaAdjustmentAmount :: "decimal \<Rightarrow> adjustmentAmount" where
  "NewDeltaAdjustmentAmount v = \<lparr>aa_value = v, aa_kind = 1\<rparr>"

definition NewAbsoluteAdjustmentAmount :: "decimal \<Rightarrow> adjustmentAmount" where
  "NewAbsoluteAdjustmentAmount v = \<lparr>aa_value = v, aa_kind = 2\<rparr>"

definition NewAdjustmentAmountFromHandle :: "adjustmentAmount \<Rightarrow> adjustmentAmount option" where
  "NewAdjustmentAmountFromHandle a = (if aa_kind a = 0 then None else Some a)"

record amountValues =
  av_balance :: "adjustmentAmount option"
  av_held :: "adjustmentAmount option"
  av_incoming :: "adjustmentAmount option"

definition Amount_Balance :: "cAmount \<Rightarrow> adjustmentAmount option" where
  "Amount_Balance a = NewAdjustmentAmountFromHandle (am_balance a)"

definition Amount_SetBalance :: "adjustmentAmount \<Rightarrow> cAmount \<Rightarrow> cAmount" where
  "Amount_SetBalance v a = a\<lparr>am_balance := v\<rparr>"

definition Amount_UnsetBalance :: "cAmount \<Rightarrow> cAmount" where
  "Amount_UnsetBalance a = a\<lparr>am_balance := zeroAdjustmentAmount\<rparr>"

definition Amount_Held :: "cAmount \<Rightarrow> adjustmentAmount option" where
  "Amount_Held a = NewAdjustmentAmountFromHandle (am_held a)"

definition Amount_SetHeld :: "adjustmentAmount \<Rightarrow> cAmount \<Rightarrow> cAmount" where
  "Amount_SetHeld v a = a\<lparr>am_held := v\<rparr>"

definition Amount_UnsetHeld :: "cAmount \<Rightarrow> cAmount" where
  "Amount_UnsetHeld a = a\<lparr>am_held := zeroAdjustmentAmount\<rparr>"

definition Amount_Incoming :: "cAmount \<Rightarrow> adjustmentAmount option" where
  "Amount_Incoming a = NewAdjustmentAmountFromHandle (am_incoming a)"

definition Amount_SetIncoming :: "adjustmentAmount \<Rightarrow> cAmount \<Rightarrow> cAmount" where
  "Amount_SetIncoming v a = a\<lparr>am_incoming := v\<rparr>"

definition Amount_UnsetIncoming :: "cAmount \<Rightarrow> cAmount" where
  "Amount_UnsetIncoming a = a\<lparr>am_incoming := zeroAdjustmentAmount\<rparr>"

definition Amount_setValues :: "amountValues \<Rightarrow> cAmount \<Rightarrow> cAmount" where
  "Amount_setValues vs a =
     applySome Amount_SetIncoming (av_incoming vs)
     (applySome Amount_SetHeld (av_held vs) (applySome Amount_SetBalance (av_balance vs) a))"

definition Amount_SetValues :: "amountValues \<Rightarrow> cAmount \<Rightarrow> cAmount" where
  "Amount_SetValues vs a = Amount_setValues vs zeroAmount"

definition NewAmountFromValues :: "amountValues \<Rightarrow> cAmount" where
  "NewAmountFromValues vs = Amount_setValues vs zeroAmount"

definition Amount_Values :: "cAmount \<Rightarrow> amountValues" where
  "Amount_Values a = \<lparr>av_balance = Amount_Balance a, av_held = Amount_Held a, av_incoming = Amount_Incoming a\<rparr>"

record boundsValues =
  nv_balance_upper :: "decimal option"
  nv_balance_lower :: "decimal option"
  nv_held_upper :: "decimal option"
  nv_held_lower :: "decimal option"
  nv_incoming_upper :: "decimal option"
  nv_incoming_lower :: "decimal option"

definition Bounds_BalanceUpper :: "cBounds \<Rightarrow> decimal option" where
  "Bounds_BalanceUpper b = optionFromHandle (bn_balance_upper b)"

definition Bounds_SetBalanceUpper :: "decimal \<Rightarrow> cBounds \<Rightarrow> cBounds" where
  "Bounds_SetBalanceUpper v b = b\<lparr>bn_balance_upper := cSome v\<rparr>"

definition Bounds_UnsetBalanceUpper :: "cBounds \<Rightarrow> cBounds" where
  "Bounds_UnsetBalanceUpper b = b\<lparr>bn_balance_upper := cNone zeroDecimal\<rparr>"

definition Bounds_BalanceLower :: "cBounds \<Rightarrow> decimal option" where
  "Bounds_BalanceLower b = optionFromHandle (bn_balance_lower b)"

definition Bounds_SetBalanceLower :: "decimal \<Rightarrow> cBounds \<Rightarrow> cBounds" where
  "Bounds_SetBalanceLower v b = b\<lparr>bn_balance_lower := cSome v\<rparr>"

definition Bounds_UnsetBalanceLower :: "cBounds \<Rightarrow> cBounds" where
  "Bounds_UnsetBalanceLower b = b\<lparr>bn_balance_lower := cNone zeroDecimal\<rparr>"

definition Bounds_HeldUpper :: "cBounds \<Rightarrow> decimal option" where
  "Bounds_HeldUpper b = optionFromHandle (bn_held_upper b)"

definition Bounds_SetHeldUpper :: "decimal \<Rightarrow> cBounds \<Rightarrow> cBounds" where
  "Bounds_SetHeldUpper v b = b\<lparr>bn_held_upper := cSome v\<rparr>"

definition Bounds_UnsetHeldUpper :: "cBounds \<Rightarrow> cBounds" where
  "Bounds_UnsetHeldUpper b = b\<lparr>bn_held_upper := cNone zeroDecimal\<rparr>"

definition Bounds_HeldLower :: "cBounds \<Rightarrow> decimal option" where
  "Bounds_HeldLower b = optionFromHandle (bn_held_lower b)"

definition Bounds_SetHeldLower :: "decimal \<Rightarrow> cBounds \<Rightarrow> cBounds" where
  "Bounds_SetHeldLower v b = b\<lparr>bn_held_lower := cSome v\<rparr>"

definition Bounds_UnsetHeldLower :: "cBounds \<Rightarrow> cBounds" where
  "Bounds_UnsetHeldLower b = b\<lparr>bn_held_lower := cNone zeroDecimal\<rparr>"

definition Bounds_IncomingUpper :: "cBounds \<Rightarrow> decimal option" where
  "Bounds_IncomingUpper b = optionFromHandle (bn_incoming_upper b)"

definition Bounds_SetIncomingUpper :: "decimal \<Rightarrow> cBounds \<Rightarrow> cBounds" where
  "Bounds_SetIncomingUpper v b = b\<lparr>bn_incoming_upper := cSome v\<rparr>"

definition Bounds_UnsetIncomingUpper :: "cBounds \<Rightarrow> cBounds" where
  "Bounds_UnsetIncomingUpper b = b\<lparr>bn_incoming_upper := cNone zeroDecimal\<rparr>"

definition Bounds_IncomingLower :: "cBounds \<Rightarrow> decimal option" where
  "Bounds_IncomingLower b = optionFromHandle (bn_incoming_lower b)"

definition Bounds_SetIncomingLower :: "decimal \<Rightarrow> cBounds \<Rightarrow> cBounds" where
  "Bounds_SetIncomingLower v b = b\<lparr>bn_incoming_lower := cSome v\<rparr>"

definition Bounds_UnsetIncomingLower :: "cBounds \<Rightarrow> cBounds" where
  "Bounds_UnsetIncomingLower b = b\<lparr>bn_incoming_lower := cNone zeroDecimal\<rparr>"

definition Bounds_setValues :: "boundsValues \<Rightarrow> cBounds \<Rightarrow> cBounds" where
  "Bounds_setValues vs b =
     applySome Bounds_SetIncomingLower (nv_incoming_lower vs)
     (applySome Bounds_SetIncomingUpper (nv_incoming_upper vs)
     (applySome Bounds_SetHeldLower (nv_held_lower vs)
     (applySome Bounds_SetHeldUpper (nv_held_upper vs)
     (applySome Bounds_SetBalanceLower (nv_balance_lower vs)
     (applySome Bounds_SetBalanceUpper (nv_balance_upper vs)
     b)))))"

definition Bounds_SetValues :: "boundsValues \<Rightarrow> cBounds \<Rightarrow> cBounds" where
  "Bounds_SetValues vs b = Bounds_setValues vs zeroBounds"

definition NewBoundsFromValues :: "boundsValues \<Rightarrow> cBounds" where
  "NewBoundsFromValues vs = Bounds_setValues vs zeroBounds"

definition Bounds_Values :: "cBounds \<Rightarrow> boundsValues" where
  "Bounds_Values b = \<lparr>nv_balance_upper = Bounds_BalanceUpper b,
     nv_balance_lower = Bounds_BalanceLower b,
     nv_held_upper = Bounds_HeldUpper b,
     nv_held_lower = Bounds_HeldLower b,
     nv_incoming_upper = Bounds_IncomingUpper b,
     nv_incoming_lower = Bounds_IncomingLower b\<rparr>"

lemmas amount_defs = Amount_Balance_def Amount_SetBalance_def Amount_UnsetBalance_def Amount_Held_def Amount_SetHeld_def Amount_UnsetHeld_def Amount_Incoming_def Amount_SetIncoming_def Amount_UnsetIncoming_def
lemmas bounds_defs = Bounds_BalanceUpper_def Bounds_SetBalanceUpper_def Bounds_UnsetBalanceUpper_def Bounds_BalanceLower_def Bounds_SetBalanceLower_def Bounds_UnsetBalanceLower_def Bounds_HeldUpper_def Bounds_SetHeldUpper_def Bounds_UnsetHeldUpper_def Bounds_HeldLower_def Bounds_SetHeldLower_def Bounds_UnsetHeldLower_def Bounds_IncomingUpper_def Bounds_SetIncomingUpper_def Bounds_UnsetIncomingUpper_def Bounds_IncomingLower_def Bounds_SetIncomingLower_def Bounds_UnsetIncomingLower_def

section \<open>The adjustment\<close>

record adjustmentRetain =
  ar_balanceAsset :: asset
  ar_positionInstrument :: instrument
  ar_positionCollateral :: asset

record adjustment =
  ad_value :: cAdjustment
  ad_retain :: adjustmentRetain

record adjustmentValues =
  dv_balance :: "balanceOperation option"
  dv_position :: "positionOperation option"
  dv_accountPnl :: "cPnlState option"
  dv_amount :: "cAmount option"
  dv_bounds :: "cBounds option"

definition noAdjustmentRetain :: adjustmentRetain where
  "noAdjustmentRetain = \<lparr>ar_balanceAsset = None, ar_positionInstrument = noInstrument,
     ar_positionCollateral = None\<rparr>"

definition NewAdjustmentFromHandle :: "cAdjustment \<Rightarrow> adjustment" where
  "NewAdjustmentFromHandle v = \<lparr>ad_value = v, ad_retain = noAdjustmentRetain\<rparr>"

definition NewAdjustment :: adjustment where
  "NewAdjustment = NewAdjustmentFromHandle zeroAdjustment"

definition Adjustment_Reset :: "adjustment \<Rightarrow> adjustment" where
  "Adjustment_Reset a = a\<lparr>ad_value := zeroAdjustment, ad_retain := noAdjustmentRetain\<rparr>"

text \<open>
  The payload of an operation with the retain fields that belong to it, selected or not: what
  the getters copy and what a view of the operation refers to.
\<close>

definition balancePart :: "adjustment \<Rightarrow> balanceOperation" where
  "balancePart a = \<lparr>bl_value = aj_balance (ad_value a), bl_retain = ar_balanceAsset (ad_retain a)\<rparr>"

definition positionPart :: "adjustment \<Rightarrow> positionOperation" where
  "positionPart a = \<lparr>po_value = aj_position (ad_value a),
     po_retainInstrument = ar_positionInstrument (ad_retain a),
     po_retainCollateral = ar_positionCollateral (ad_retain a)\<rparr>"

definition Adjustment_BalanceOperation :: "adjustment \<Rightarrow> balanceOperation option" where
  "Adjustment_BalanceOperation a =
     (if aj_kind (ad_value a) \<noteq> kindBalance then None else Some (balancePart a))"

definition Adjustment_EnsureBalance :: "adjustment \<Rightarrow> adjustment" where
  "Adjustment_EnsureBalance a =
     a\<lparr>ad_value := nativeSelectBalance (ad_value a),
       ad_retain := (ad_retain a)\<lparr>ar_positionInstrument := noInstrument, ar_positionCollateral := None\<rparr>\<rparr>"

definition Adjustment_SetBalanceOperation :: "balanceOperation \<Rightarrow> adjustment \<Rightarrow> adjustment" where
  "Adjustment_SetBalanceOperation x a =
     a\<lparr>ad_value := nativeSetBalance (bl_value x) (ad_value a),
       ad_retain := (ad_retain a)\<lparr>ar_balanceAsset := bl_retain x,
         ar_positionInstrument := noInstrument, ar_positionCollateral := None\<rparr>\<rparr>"

definition Adjustment_UnsetBalanceOperation :: "adjustment \<Rightarrow> adjustment" where
  "Adjustment_UnsetBalanceOperation a =
     a\<lparr>ad_value := nativeUnsetBalance (ad_value a), ad_retain := (ad_retain a)\<lparr>ar_balanceAsset := None\<rparr>\<rparr>"

text \<open>
  A method of a view writes the payload and the retain fields of its operation, whether or not
  that operation is still the selected one.
\<close>

definition BalanceOperationView :: "(balanceOperation \<Rightarrow> balanceOperation) \<Rightarrow> adjustment \<Rightarrow> adjustment" where
  "BalanceOperationView method a =
     (let x = method (balancePart a) in
      a\<lparr>ad_value := (ad_value a)\<lparr>aj_balance := bl_value x\<rparr>,
        ad_retain := (ad_retain a)\<lparr>ar_balanceAsset := bl_retain x\<rparr>\<rparr>)"

definition Adjustment_PositionOperation :: "adjustment \<Rightarrow> positionOperation option" where
  "Adjustment_PositionOperation a =
     (if aj_kind (ad_value a) \<noteq> kindPosition then None else Some (positionPart a))"

definition Adjustment_EnsurePosition :: "adjustment \<Rightarrow> adjustment" where
  "Adjustment_EnsurePosition a =
     a\<lparr>ad_value := nativeSelectPosition (ad_value a), ad_retain := (ad_retain a)\<lparr>ar_balanceAsset := None\<rparr>\<rparr>"

definition Adjustment_SetPositionOperation :: "positionOperation \<Rightarrow> adjustment \<Rightarrow> adjustment" where
  "Adjustment_SetPositionOperation x a =
     a\<lparr>ad_value := nativeSetPosition (po_value x) (ad_value a),
       ad_retain := (ad_retain a)\<lparr>ar_positionInstrument := po_retainInstrument x,
         ar_positionCollateral := po_retainCollateral x, ar_balanceAsset := None\<rparr>\<rparr>"

definition Adjustment_UnsetPositionOperation :: "adjustment \<Rightarrow> adjustment" where
  "Adjustment_UnsetPositionOperation a =
     a\<lparr>ad_value := nativeUnsetPosition (ad_value a),
       ad_retain := (ad_retain a)\<lparr>ar_positionInstrument := noInstrument, ar_positionCollateral := None\<rparr>\<rparr>"

definition PositionOperationView :: "(positionOperation \<Rightarrow> positionOperation) \<Rightarrow> adjustment \<Rightarrow> adjustment" where
  "PositionOperationView method a =
     (let x = method (positionPart a) in
      a\<lparr>ad_value := (ad_value a)\<lparr>aj_position := po_value x\<rparr>,
        ad_retain := (ad_retain a)\<lparr>ar_positionInstrument := po_retainInstrument x,
          ar_positionCollateral := po_retainCollateral x\<rparr>\<rparr>)"

definition Adjustment_AccountPnlOperation :: "adjustment \<Rightarrow> cPnlState option" where
  "Adjustment_AccountPnlOperation a =
     (if aj_kind (ad_value a) \<noteq> kindAccountPnl then None else Some (aj_pnl (ad_value a)))"

definition Adjustment_SetAccountPnlOperation :: "cPnlState \<Rightarrow> adjustment \<Rightarrow> adjustment" where
  "Adjustment_SetAccountPnlOperation x a =
     a\<lparr>ad_value := nativeSetAccountPnl x (ad_value a), ad_retain := noAdjustmentRetain\<rparr>"

definition Adjustment_UnsetAccountPnlOperation :: "adjustment \<Rightarrow> adjustment" where
  "Adjustment_UnsetAccountPnlOperation a = a\<lparr>ad_value := nativeUnsetAccountPnl (ad_value a)\<rparr>"

definition Adjustment_Amount :: "adjustment \<Rightarrow> cAmount option" where
  "Adjustment_Amount a =
     (let amount = aj_amount (ad_value a) in if \<not> co_set amount then None else Some (co_value amount))"

definition Adjustment_EnsureAmount :: "adjustment \<Rightarrow> adjustment" where
  "Adjustment_EnsureAmount a =
     (if co_set (aj_amount (ad_value a)) then a
      else a\<lparr>ad_value := (ad_value a)\<lparr>aj_amount := cSome zeroAmount\<rparr>\<rparr>)"

definition Adjustment_SetAmount :: "cAmount \<Rightarrow> adjustment \<Rightarrow> adjustment" where
  "Adjustment_SetAmount x a = a\<lparr>ad_value := (ad_value a)\<lparr>aj_amount := cSome x\<rparr>\<rparr>"

definition Adjustment_UnsetAmount :: "adjustment \<Rightarrow> adjustment" where
  "Adjustment_UnsetAmount a = a\<lparr>ad_value := (ad_value a)\<lparr>aj_amount := cNone zeroAmount\<rparr>\<rparr>"

definition AmountView :: "(cAmount \<Rightarrow> cAmount) \<Rightarrow> adjustment \<Rightarrow> adjustment" where
  "AmountView method a =
     a\<lparr>ad_value := (ad_value a)\<lparr>aj_amount := (aj_amount (ad_value a))
       \<lparr>co_value := method (co_value (aj_amount (ad_value a)))\<rparr>\<rparr>\<rparr>"

definition Adjustment_Bounds :: "adjustment \<Rightarrow> cBounds option" where
  "Adjustment_Bounds a =
     (let bounds = aj_bounds (ad_value a) in if \<not> co_set bounds then None else Some (co_value bounds))"

definition Adjustment_EnsureBounds :: "adjustment \<Rightarrow> adjustment" where
  "Adjustment_EnsureBounds a =
     (if co_set (aj_bounds (ad_value a)) then a
      else a\<lparr>ad_value := (ad_value a)\<lparr>aj_bounds := cSome zeroBounds\<rparr>\<rparr>)"

definition Adjustment_SetBounds :: "cBounds \<Rightarrow> adjustment \<Rightarrow> adjustment" where
  "Adjustment_SetBounds x a = a\<lparr>ad_value := (ad_value a)\<lparr>aj_bounds := cSome x\<rparr>\<rparr>"

definition Adjustment_UnsetBounds :: "adjustment \<Rightarrow> adjustment" where
  "Adjustment_UnsetBounds a = a\<lparr>ad_value := (ad_value a)\<lparr>aj_bounds := cNone zeroBounds\<rparr>\<rparr>"

definition BoundsView :: "(cBounds \<Rightarrow> cBounds) \<Rightarrow> adjustment \<Rightarrow> adjustment" where
  "BoundsView method a =
     a\<lparr>ad_value := (ad_value a)\<lparr>aj_bounds := (aj_bounds (ad_value a))
       \<lparr>co_value := method (co_value (aj_bounds (ad_value a)))\<rparr>\<rparr>\<rparr>"

text \<open>The options are applied in this order, so the last operation given wins.\<close>

definition Adjustment_setValues :: "adjustmentValues \<Rightarrow> adjustment \<Rightarrow> adjustment" where
  "Adjustment_setValues vs a =
     applySome Adjustment_SetBounds (dv_bounds vs)
     (applySome Adjustment_SetAmount (dv_amount vs)
     (applySome Adjustment_SetAccountPnlOperation (dv_accountPnl vs)
     (applySome Adjustment_SetPositionOperation (dv_position vs)
     (applySome Adjustment_SetBalanceOperation (dv_balance vs) a))))"

definition Adjustment_SetValues :: "adjustmentValues \<Rightarrow> adjustment \<Rightarrow> adjustment" where
  "Adjustment_SetValues vs a = Adjustment_setValues vs (Adjustment_Reset a)"

definition NewAdjustmentFromValues :: "adjustmentValues \<Rightarrow> adjustment" where
  "NewAdjustmentFromValues vs = Adjustment_setValues vs NewAdjustment"

definition Adjustment_Values :: "adjustment \<Rightarrow> adjustmentValues" where
  "Adjustment_Values a = \<lparr>dv_balance = Adjustment_BalanceOperation a,
     dv_position = Adjustment_PositionOperation a, dv_accountPnl = Adjustment_AccountPnlOperation a,
     dv_amount = Adjustment_Amount a, dv_bounds = Adjustment_Bounds a\<rparr>"

lemmas native_adjustment_defs = nativeSetBalance_def nativeSelectBalance_def nativeUnsetBalance_def
  nativeSetPosition_def nativeSelectPosition_def nativeUnsetPosition_def nativeSetAccountPnl_def
  nativeUnsetAccountPnl_def
lemmas kind_defs = kindBalance_def kindPosition_def kindAccountPnl_def
lemmas adjustment_defs = Adjustment_Reset_def Adjustment_EnsureBalance_def
  Adjustment_SetBalanceOperation_def Adjustment_UnsetBalanceOperation_def BalanceOperationView_def
  Adjustment_EnsurePosition_def Adjustment_SetPositionOperation_def
  Adjustment_UnsetPositionOperation_def PositionOperationView_def
  Adjustment_SetAccountPnlOperation_def Adjustment_UnsetAccountPnlOperation_def
  Adjustment_EnsureAmount_def Adjustment_SetAmount_def Adjustment_UnsetAmount_def AmountView_def
  Adjustment_EnsureBounds_def Adjustment_SetBounds_def Adjustment_UnsetBounds_def BoundsView_def
  NewAdjustment_def NewAdjustmentFromHandle_def

end
