(* ===== verification/Adjustment_Facts.thy ===== *)
theory Adjustment_Facts
  imports Adjustment_Model
begin

text \<open>
  What the account adjustments of \<open>Adjustment_Model\<close> promise: their strings stay alive, they
  behave as an optional operation out of three with an optional amount and optional bounds,
  also through views of an operation that is no longer selected, and they read back what they
  were given.
\<close>

section \<open>What a caller can build\<close>

inductive balance_method :: "(balanceOperation \<Rightarrow> balanceOperation) \<Rightarrow> bool" where
  "balance_method BalanceOperation_Reset"
| "balance_method (BalanceOperation_SetAsset a)"
| "balance_method BalanceOperation_UnsetAsset"
| "balance_method (BalanceOperation_SetAverageEntryPrice p)"
| "balance_method BalanceOperation_UnsetAverageEntryPrice"
| "balance_method (BalanceOperation_SetRealizedPnl s)"
| "balance_method BalanceOperation_UnsetRealizedPnl"
| "balance_method (BalanceOperation_SetValues vs)"

inductive position_method :: "(positionOperation \<Rightarrow> positionOperation) \<Rightarrow> bool" where
  "position_method PositionOperation_Reset"
| "position_method (PositionOperation_SetInstrument i)"
| "position_method PositionOperation_UnsetInstrument"
| "position_method (PositionOperation_SetCollateralAsset a)"
| "position_method PositionOperation_UnsetCollateralAsset"
| "position_method (PositionOperation_SetAverageEntryPrice p)"
| "position_method PositionOperation_UnsetAverageEntryPrice"
| "position_method (PositionOperation_SetLeverage l)"
| "position_method PositionOperation_UnsetLeverage"
| "position_method (PositionOperation_SetMode v)"
| "position_method PositionOperation_UnsetMode"
| "position_method (PositionOperation_SetValues vs)"

text \<open>
  Every adjustment and operation a caller can build: from new values, with every method of the
  values and of the views, stale ones included, and by moving operations between adjustments.
\<close>

inductive built_adjustment :: "adjustment \<Rightarrow> bool"
  and built_balance :: "balanceOperation \<Rightarrow> bool"
  and built_position :: "positionOperation \<Rightarrow> bool" where
  "built_adjustment NewAdjustment"
| "built_adjustment a \<Longrightarrow> built_adjustment (Adjustment_Reset a)"
| "built_adjustment a \<Longrightarrow> built_adjustment (Adjustment_EnsureBalance a)"
| "built_adjustment a \<Longrightarrow> built_balance x \<Longrightarrow> built_adjustment (Adjustment_SetBalanceOperation x a)"
| "built_adjustment a \<Longrightarrow> built_adjustment (Adjustment_UnsetBalanceOperation a)"
| "built_adjustment a \<Longrightarrow> balance_method f \<Longrightarrow> built_adjustment (BalanceOperationView f a)"
| "built_adjustment a \<Longrightarrow> built_adjustment (Adjustment_EnsurePosition a)"
| "built_adjustment a \<Longrightarrow> built_position y \<Longrightarrow> built_adjustment (Adjustment_SetPositionOperation y a)"
| "built_adjustment a \<Longrightarrow> built_adjustment (Adjustment_UnsetPositionOperation a)"
| "built_adjustment a \<Longrightarrow> position_method g \<Longrightarrow> built_adjustment (PositionOperationView g a)"
| "built_adjustment a \<Longrightarrow> built_adjustment (Adjustment_SetAccountPnlOperation s a)"
| "built_adjustment a \<Longrightarrow> built_adjustment (Adjustment_UnsetAccountPnlOperation a)"
| "built_adjustment a \<Longrightarrow> built_adjustment (Adjustment_EnsureAmount a)"
| "built_adjustment a \<Longrightarrow> built_adjustment (Adjustment_SetAmount m a)"
| "built_adjustment a \<Longrightarrow> built_adjustment (Adjustment_UnsetAmount a)"
| "built_adjustment a \<Longrightarrow> built_adjustment (AmountView h a)"
| "built_adjustment a \<Longrightarrow> built_adjustment (Adjustment_EnsureBounds a)"
| "built_adjustment a \<Longrightarrow> built_adjustment (Adjustment_SetBounds b a)"
| "built_adjustment a \<Longrightarrow> built_adjustment (Adjustment_UnsetBounds a)"
| "built_adjustment a \<Longrightarrow> built_adjustment (BoundsView k a)"
| "built_balance NewBalanceOperation"
| "built_balance x \<Longrightarrow> balance_method f \<Longrightarrow> built_balance (f x)"
| "built_adjustment a \<Longrightarrow> Adjustment_BalanceOperation a = Some x \<Longrightarrow> built_balance x"
| "built_position NewPositionOperation"
| "built_position y \<Longrightarrow> position_method g \<Longrightarrow> built_position (g y)"
| "built_adjustment a \<Longrightarrow> Adjustment_PositionOperation a = Some y \<Longrightarrow> built_position y"

section \<open>Retention\<close>

definition balanceBacked :: "balanceOperation \<Rightarrow> bool" where
  "balanceBacked x \<longleftrightarrow> assetBuffers (bo_asset (bl_value x)) \<subseteq> assetBuffers (bl_retain x)"

definition positionBacked :: "positionOperation \<Rightarrow> bool" where
  "positionBacked y \<longleftrightarrow> viewBuffers (po_instrument (po_value y)) \<subseteq> instrumentBuffers (po_retainInstrument y)
     \<and> assetBuffers (po_collateral (po_value y)) \<subseteq> assetBuffers (po_retainCollateral y)"

definition adjustmentBacked :: "adjustment \<Rightarrow> bool" where
  "adjustmentBacked a \<longleftrightarrow> balanceBacked (balancePart a) \<and> positionBacked (positionPart a)"

text \<open>The buffers an adjustment's C struct points into, and those the adjustment keeps alive.\<close>

definition adjustmentPointers :: "cAdjustment \<Rightarrow> buffer set" where
  "adjustmentPointers v = assetBuffers (bo_asset (aj_balance v))
     \<union> viewBuffers (po_instrument (aj_position v)) \<union> assetBuffers (po_collateral (aj_position v))"

definition adjustmentHolds :: "adjustmentRetain \<Rightarrow> buffer set" where
  "adjustmentHolds r = assetBuffers (ar_balanceAsset r) \<union> instrumentBuffers (ar_positionInstrument r)
     \<union> assetBuffers (ar_positionCollateral r)"

lemmas part_defs = balancePart_def positionPart_def
lemmas backed_defs = balanceBacked_def positionBacked_def
lemmas zero_defs = zeroBalance_def zeroPositionOperation_def

lemma zero_backed [simp]: "balanceBacked NewBalanceOperation" "positionBacked NewPositionOperation"
  by (simp_all add: backed_defs NewBalanceOperation_def NewPositionOperation_def zero_defs)

lemma balance_set_backed [simp]:
  "balanceBacked (BalanceOperation_Reset x)" "balanceBacked (BalanceOperation_SetAsset a x)"
  "balanceBacked (BalanceOperation_UnsetAsset x)"
  "balanceBacked (BalanceOperation_SetAverageEntryPrice p x) = balanceBacked x"
  "balanceBacked (BalanceOperation_UnsetAverageEntryPrice x) = balanceBacked x"
  "balanceBacked (BalanceOperation_SetRealizedPnl s x) = balanceBacked x"
  "balanceBacked (BalanceOperation_UnsetRealizedPnl x) = balanceBacked x"
  by (simp_all add: backed_defs balance_defs zero_defs)

lemma position_set_backed [simp]:
  "positionBacked (PositionOperation_Reset y)"
  "positionBacked y \<Longrightarrow> positionBacked (PositionOperation_SetInstrument i y)"
  "positionBacked y \<Longrightarrow> positionBacked (PositionOperation_UnsetInstrument y)"
  "positionBacked y \<Longrightarrow> positionBacked (PositionOperation_SetCollateralAsset a y)"
  "positionBacked y \<Longrightarrow> positionBacked (PositionOperation_UnsetCollateralAsset y)"
  "positionBacked (PositionOperation_SetAverageEntryPrice p y) = positionBacked y"
  "positionBacked (PositionOperation_UnsetAverageEntryPrice y) = positionBacked y"
  "positionBacked (PositionOperation_SetLeverage l y) = positionBacked y"
  "positionBacked (PositionOperation_UnsetLeverage y) = positionBacked y"
  "positionBacked (PositionOperation_SetMode v y) = positionBacked y"
  "positionBacked (PositionOperation_UnsetMode y) = positionBacked y"
  by (simp_all add: backed_defs position_operation_defs zero_defs)

lemma applySome_keeps: "(\<And>v s. P s \<Longrightarrow> P (f v s)) \<Longrightarrow> P s \<Longrightarrow> P (applySome f v s)"
  by (simp add: applySome_def split: option.split)

lemma balance_method_backed: "balance_method f \<Longrightarrow> balanceBacked x \<Longrightarrow> balanceBacked (f x)"
  by (induction rule: balance_method.induct)
    (simp_all add: BalanceOperation_SetValues_def BalanceOperation_setValues_def applySome_keeps)

lemma position_method_backed: "position_method f \<Longrightarrow> positionBacked y \<Longrightarrow> positionBacked (f y)"
  by (induction rule: position_method.induct)
    (simp_all add: PositionOperation_SetValues_def PositionOperation_setValues_def applySome_keeps)

lemma adjustment_part_simps [simp]:
  "balancePart (Adjustment_SetBalanceOperation x a) = x"
  "balancePart (Adjustment_UnsetBalanceOperation a) = NewBalanceOperation"
  "balancePart (BalanceOperationView f a) = f (balancePart a)"
  "balancePart (Adjustment_SetPositionOperation y a) = NewBalanceOperation"
  "balancePart (Adjustment_EnsurePosition a) = NewBalanceOperation"
  "balancePart (Adjustment_UnsetPositionOperation a) = balancePart a"
  "balancePart (PositionOperationView g a) = balancePart a"
  "balancePart (Adjustment_SetAccountPnlOperation s a) = NewBalanceOperation"
  "balancePart (Adjustment_UnsetAccountPnlOperation a) = balancePart a"
  "positionPart (Adjustment_SetPositionOperation y a) = y"
  "positionPart (Adjustment_UnsetPositionOperation a) = NewPositionOperation"
  "positionPart (PositionOperationView g a) = g (positionPart a)"
  "positionPart (Adjustment_SetBalanceOperation x a) = NewPositionOperation"
  "positionPart (Adjustment_EnsureBalance a) = NewPositionOperation"
  "positionPart (Adjustment_UnsetBalanceOperation a) = positionPart a"
  "positionPart (BalanceOperationView f a) = positionPart a"
  "positionPart (Adjustment_SetAccountPnlOperation s a) = NewPositionOperation"
  "positionPart (Adjustment_UnsetAccountPnlOperation a) = positionPart a"
  by (simp_all add: part_defs adjustment_defs native_adjustment_defs NewBalanceOperation_def
      NewPositionOperation_def noAdjustmentRetain_def Let_def)

lemma group_parts [simp]:
  "balancePart (Adjustment_EnsureAmount a) = balancePart a" "positionPart (Adjustment_EnsureAmount a) = positionPart a"
  "balancePart (Adjustment_SetAmount m a) = balancePart a" "positionPart (Adjustment_SetAmount m a) = positionPart a"
  "balancePart (Adjustment_UnsetAmount a) = balancePart a" "positionPart (Adjustment_UnsetAmount a) = positionPart a"
  "balancePart (AmountView h a) = balancePart a" "positionPart (AmountView h a) = positionPart a"
  "balancePart (Adjustment_EnsureBounds a) = balancePart a" "positionPart (Adjustment_EnsureBounds a) = positionPart a"
  "balancePart (Adjustment_SetBounds b a) = balancePart a" "positionPart (Adjustment_SetBounds b a) = positionPart a"
  "balancePart (Adjustment_UnsetBounds a) = balancePart a" "positionPart (Adjustment_UnsetBounds a) = positionPart a"
  "balancePart (BoundsView k a) = balancePart a" "positionPart (BoundsView k a) = positionPart a"
  by (simp_all add: part_defs adjustment_defs)

lemma adjustment_fresh_parts [simp]:
  "balancePart NewAdjustment = NewBalanceOperation" "positionPart NewAdjustment = NewPositionOperation"
  "balancePart (Adjustment_Reset a) = NewBalanceOperation" "positionPart (Adjustment_Reset a) = NewPositionOperation"
  by (simp_all add: part_defs adjustment_defs NewBalanceOperation_def NewPositionOperation_def
      noAdjustmentRetain_def zeroAdjustment_def)

lemma ensure_parts_backed:
  "balanceBacked (balancePart a) \<Longrightarrow> balanceBacked (balancePart (Adjustment_EnsureBalance a))"
  "positionBacked (positionPart a) \<Longrightarrow> positionBacked (positionPart (Adjustment_EnsurePosition a))"
  by (simp_all add: backed_defs part_defs adjustment_defs native_adjustment_defs zero_defs)

lemma built_adjustment_backed: "built_adjustment a \<Longrightarrow> adjustmentBacked a"
  and "built_balance x \<Longrightarrow> balanceBacked x"
  and "built_position y \<Longrightarrow> positionBacked y"
  by (induction rule: built_adjustment_built_balance_built_position.inducts)
    (simp_all add: adjustmentBacked_def balance_method_backed position_method_backed ensure_parts_backed
      Adjustment_BalanceOperation_def Adjustment_PositionOperation_def split: if_splits)

section \<open>The sum an adjustment stands for\<close>

datatype operationSpec = NoOperation | BalanceSpec cBalanceOperation
  | PositionSpec cPositionOperation | AccountPnlSpec cPnlState

record adjustmentSpec =
  sp_operation :: operationSpec
  sp_amount :: "cAmount option"
  sp_bounds :: "cBounds option"

definition absOperation :: "cAdjustment \<Rightarrow> operationSpec" where
  "absOperation v = (if aj_kind v = kindBalance then BalanceSpec (aj_balance v)
     else if aj_kind v = kindPosition then PositionSpec (aj_position v)
     else if aj_kind v = kindAccountPnl then AccountPnlSpec (aj_pnl v) else NoOperation)"

definition absAdjustment :: "adjustment \<Rightarrow> adjustmentSpec" where
  "absAdjustment a = \<lparr>sp_operation = absOperation (ad_value a), sp_amount = Adjustment_Amount a,
     sp_bounds = Adjustment_Bounds a\<rparr>"

text \<open>
  The effect of the methods on the sum.  A method of an operation changes the C payload
  without looking at the retained assets; a view changes the payload while its operation is
  selected and nothing otherwise.
\<close>

definition balanceEffect :: "(balanceOperation \<Rightarrow> balanceOperation) \<Rightarrow> cBalanceOperation \<Rightarrow> cBalanceOperation" where
  "balanceEffect f v = bl_value (f (NewBalanceOperation\<lparr>bl_value := v\<rparr>))"

definition positionEffect :: "(positionOperation \<Rightarrow> positionOperation) \<Rightarrow> cPositionOperation \<Rightarrow> cPositionOperation" where
  "positionEffect g v = po_value (g (NewPositionOperation\<lparr>po_value := v\<rparr>))"

fun ensureBalanceSpec :: "operationSpec \<Rightarrow> operationSpec" where
  "ensureBalanceSpec (BalanceSpec v) = BalanceSpec v"
| "ensureBalanceSpec _ = BalanceSpec zeroBalance"

fun ensurePositionSpec :: "operationSpec \<Rightarrow> operationSpec" where
  "ensurePositionSpec (PositionSpec v) = PositionSpec v"
| "ensurePositionSpec _ = PositionSpec zeroPositionOperation"

fun unsetBalanceSpec :: "operationSpec \<Rightarrow> operationSpec" where
  "unsetBalanceSpec (BalanceSpec v) = NoOperation"
| "unsetBalanceSpec s = s"

fun unsetPositionSpec :: "operationSpec \<Rightarrow> operationSpec" where
  "unsetPositionSpec (PositionSpec v) = NoOperation"
| "unsetPositionSpec s = s"

fun unsetAccountPnlSpec :: "operationSpec \<Rightarrow> operationSpec" where
  "unsetAccountPnlSpec (AccountPnlSpec v) = NoOperation"
| "unsetAccountPnlSpec s = s"

fun viewBalanceSpec :: "(cBalanceOperation \<Rightarrow> cBalanceOperation) \<Rightarrow> operationSpec \<Rightarrow> operationSpec" where
  "viewBalanceSpec f (BalanceSpec v) = BalanceSpec (f v)"
| "viewBalanceSpec f s = s"

fun viewPositionSpec :: "(cPositionOperation \<Rightarrow> cPositionOperation) \<Rightarrow> operationSpec \<Rightarrow> operationSpec" where
  "viewPositionSpec f (PositionSpec v) = PositionSpec (f v)"
| "viewPositionSpec f s = s"

definition ensured :: "'a \<Rightarrow> 'a option \<Rightarrow> 'a option" where
  "ensured zero v = (case v of None \<Rightarrow> Some zero | Some x \<Rightarrow> Some x)"

inductive adjustment_call :: "(adjustment \<Rightarrow> adjustment) \<Rightarrow> (adjustmentSpec \<Rightarrow> adjustmentSpec) \<Rightarrow> bool" where
  "adjustment_call Adjustment_Reset (\<lambda>s. \<lparr>sp_operation = NoOperation, sp_amount = None, sp_bounds = None\<rparr>)"
| "adjustment_call Adjustment_EnsureBalance (sp_operation_update ensureBalanceSpec)"
| "adjustment_call (Adjustment_SetBalanceOperation x) (sp_operation_update (\<lambda>_. BalanceSpec (bl_value x)))"
| "adjustment_call Adjustment_UnsetBalanceOperation (sp_operation_update unsetBalanceSpec)"
| "balance_method f \<Longrightarrow>
     adjustment_call (BalanceOperationView f) (sp_operation_update (viewBalanceSpec (balanceEffect f)))"
| "adjustment_call Adjustment_EnsurePosition (sp_operation_update ensurePositionSpec)"
| "adjustment_call (Adjustment_SetPositionOperation y) (sp_operation_update (\<lambda>_. PositionSpec (po_value y)))"
| "adjustment_call Adjustment_UnsetPositionOperation (sp_operation_update unsetPositionSpec)"
| "position_method g \<Longrightarrow>
     adjustment_call (PositionOperationView g) (sp_operation_update (viewPositionSpec (positionEffect g)))"
| "adjustment_call (Adjustment_SetAccountPnlOperation p) (sp_operation_update (\<lambda>_. AccountPnlSpec p))"
| "adjustment_call Adjustment_UnsetAccountPnlOperation (sp_operation_update unsetAccountPnlSpec)"
| "adjustment_call Adjustment_EnsureAmount (sp_amount_update (ensured zeroAmount))"
| "adjustment_call (Adjustment_SetAmount m) (sp_amount_update (\<lambda>_. Some m))"
| "adjustment_call Adjustment_UnsetAmount (sp_amount_update (\<lambda>_. None))"
| "adjustment_call (AmountView h) (sp_amount_update (map_option h))"
| "adjustment_call Adjustment_EnsureBounds (sp_bounds_update (ensured zeroBounds))"
| "adjustment_call (Adjustment_SetBounds b) (sp_bounds_update (\<lambda>_. Some b))"
| "adjustment_call Adjustment_UnsetBounds (sp_bounds_update (\<lambda>_. None))"
| "adjustment_call (BoundsView k) (sp_bounds_update (map_option k))"

lemma balance_set_value:
  "bl_value x = bl_value y \<Longrightarrow> bl_value (BalanceOperation_setValues vs x) = bl_value (BalanceOperation_setValues vs y)"
  by (cases "bv_asset vs"; cases "bv_averageEntryPrice vs"; cases "bv_realizedPnl vs")
    (simp_all add: BalanceOperation_setValues_def balance_defs)

lemma balance_method_value: "balance_method f \<Longrightarrow> bl_value x = bl_value y \<Longrightarrow> bl_value (f x) = bl_value (f y)"
  by (induction rule: balance_method.induct)
    (simp_all add: balance_defs BalanceOperation_SetValues_def balance_set_value)

lemma position_set_value:
  "po_value y = po_value z \<Longrightarrow> po_value (PositionOperation_setValues vs y) = po_value (PositionOperation_setValues vs z)"
  by (cases "pw_instrument vs"; cases "pw_collateralAsset vs"; cases "pw_averageEntryPrice vs";
      cases "pw_leverage vs"; cases "pw_mode vs")
    (simp_all add: PositionOperation_setValues_def position_operation_defs)

lemma position_method_value: "position_method f \<Longrightarrow> po_value x = po_value y \<Longrightarrow> po_value (f x) = po_value (f y)"
  by (induction rule: position_method.induct)
    (simp_all add: position_operation_defs PositionOperation_SetValues_def position_set_value)

lemma balance_effect: "balance_method f \<Longrightarrow> bl_value (f x) = balanceEffect f (bl_value x)"
  unfolding balanceEffect_def by (rule balance_method_value) simp_all

lemma position_effect: "position_method g \<Longrightarrow> po_value (g y) = positionEffect g (po_value y)"
  unfolding positionEffect_def by (rule position_method_value) simp_all

lemmas abs_defs = absAdjustment_def absOperation_def Adjustment_Amount_def Adjustment_Bounds_def

lemma view_refines:
  "balance_method f \<Longrightarrow> absAdjustment (BalanceOperationView f a)
     = sp_operation_update (viewBalanceSpec (balanceEffect f)) (absAdjustment a)"
  "position_method g \<Longrightarrow> absAdjustment (PositionOperationView g a)
     = sp_operation_update (viewPositionSpec (positionEffect g)) (absAdjustment a)"
  using balance_effect [of f "balancePart a"] position_effect [of g "positionPart a"]
  by (simp_all add: abs_defs adjustment_defs part_defs kind_defs Let_def)

lemma operation_refines:
  "absOperation (nativeSelectBalance v) = ensureBalanceSpec (absOperation v)"
  "absOperation (nativeSetBalance x v) = BalanceSpec x"
  "absOperation (nativeUnsetBalance v) = unsetBalanceSpec (absOperation v)"
  "absOperation (nativeSelectPosition v) = ensurePositionSpec (absOperation v)"
  "absOperation (nativeSetPosition y v) = PositionSpec y"
  "absOperation (nativeUnsetPosition v) = unsetPositionSpec (absOperation v)"
  "absOperation (nativeSetAccountPnl p v) = AccountPnlSpec p"
  "absOperation (nativeUnsetAccountPnl v) = unsetAccountPnlSpec (absOperation v)"
  by (simp_all add: absOperation_def native_adjustment_defs kind_defs Let_def)

lemma native_groups [simp]:
  "aj_amount (nativeSelectBalance v) = aj_amount v" "aj_bounds (nativeSelectBalance v) = aj_bounds v"
  "aj_amount (nativeSetBalance x v) = aj_amount v" "aj_bounds (nativeSetBalance x v) = aj_bounds v"
  "aj_amount (nativeUnsetBalance v) = aj_amount v" "aj_bounds (nativeUnsetBalance v) = aj_bounds v"
  "aj_amount (nativeSelectPosition v) = aj_amount v" "aj_bounds (nativeSelectPosition v) = aj_bounds v"
  "aj_amount (nativeSetPosition y v) = aj_amount v" "aj_bounds (nativeSetPosition y v) = aj_bounds v"
  "aj_amount (nativeUnsetPosition v) = aj_amount v" "aj_bounds (nativeUnsetPosition v) = aj_bounds v"
  "aj_amount (nativeSetAccountPnl p v) = aj_amount v" "aj_bounds (nativeSetAccountPnl p v) = aj_bounds v"
  "aj_amount (nativeUnsetAccountPnl v) = aj_amount v" "aj_bounds (nativeUnsetAccountPnl v) = aj_bounds v"
  by (simp_all add: native_adjustment_defs Let_def)

lemma group_operation [simp]:
  "absOperation (v\<lparr>aj_amount := m\<rparr>) = absOperation v" "absOperation (v\<lparr>aj_bounds := b\<rparr>) = absOperation v"
  "absOperation zeroAdjustment = NoOperation"
  "aj_amount zeroAdjustment = cNone zeroAmount" "aj_bounds zeroAdjustment = cNone zeroBounds"
  by (simp_all add: absOperation_def zeroAdjustment_def kind_defs)

lemma call_refines: "adjustment_call f g \<Longrightarrow> absAdjustment (f a) = g (absAdjustment a)"
proof (induction rule: adjustment_call.induct)
  case (5 f) then show ?case by (rule view_refines)
next
  case (9 g) then show ?case by (rule view_refines)
qed (simp_all add: absAdjustment_def Adjustment_Amount_def Adjustment_Bounds_def
    Adjustment_Reset_def Adjustment_EnsureBalance_def Adjustment_SetBalanceOperation_def
    Adjustment_UnsetBalanceOperation_def Adjustment_EnsurePosition_def
    Adjustment_SetPositionOperation_def Adjustment_UnsetPositionOperation_def
    Adjustment_SetAccountPnlOperation_def Adjustment_UnsetAccountPnlOperation_def
    Adjustment_EnsureAmount_def Adjustment_SetAmount_def Adjustment_UnsetAmount_def AmountView_def
    Adjustment_EnsureBounds_def Adjustment_SetBounds_def Adjustment_UnsetBounds_def BoundsView_def
    operation_refines ensured_def Let_def)

section \<open>Reading back what was written\<close>

text \<open>A PnL state that is halted carries no value: \<^verbatim>\<open>NewPnlHaltedState\<close> leaves it zero.\<close>

definition pnlValid :: "pnlState \<Rightarrow> bool" where
  "pnlValid s \<longleftrightarrow> PnlState_IsHalted s \<longrightarrow> pl_value s = zeroDecimal"

definition balanceValid :: "balanceOperationValues \<Rightarrow> bool" where
  "balanceValid vs \<longleftrightarrow> pred_option (\<lambda>a. Asset_Unsafe a \<noteq> '''') (bv_asset vs) \<and> pred_option pnlValid (bv_realizedPnl vs)"

definition positionOperationValid :: "positionOperationValues \<Rightarrow> bool" where
  "positionOperationValid vs \<longleftrightarrow> pred_option complete (pw_instrument vs)
     \<and> pred_option (\<lambda>a. Asset_Unsafe a \<noteq> '''') (pw_collateralAsset vs)
     \<and> pred_option (\<lambda>l. l \<noteq> 0) (pw_leverage vs) \<and> pred_option (\<lambda>m. m \<noteq> 0) (pw_mode vs)"

definition amountValid :: "amountValues \<Rightarrow> bool" where
  "amountValid vs \<longleftrightarrow> pred_option (\<lambda>v. aa_kind v \<noteq> 0) (av_balance vs)
     \<and> pred_option (\<lambda>v. aa_kind v \<noteq> 0) (av_held vs) \<and> pred_option (\<lambda>v. aa_kind v \<noteq> 0) (av_incoming vs)"

definition sameBalanceValues :: "balanceOperationValues \<Rightarrow> balanceOperationValues \<Rightarrow> bool" where
  "sameBalanceValues vs ws \<longleftrightarrow> rel_option Asset_Equal (bv_asset vs) (bv_asset ws)
     \<and> bv_averageEntryPrice ws = bv_averageEntryPrice vs \<and> bv_realizedPnl ws = bv_realizedPnl vs"

definition samePositionValues :: "positionOperationValues \<Rightarrow> positionOperationValues \<Rightarrow> bool" where
  "samePositionValues vs ws \<longleftrightarrow> rel_option sameInstrument (pw_instrument vs) (pw_instrument ws)
     \<and> rel_option Asset_Equal (pw_collateralAsset vs) (pw_collateralAsset ws)
     \<and> pw_averageEntryPrice ws = pw_averageEntryPrice vs \<and> pw_leverage ws = pw_leverage vs
     \<and> pw_mode ws = pw_mode vs"

text \<open>The operation that survives: of the options given, the last one in the order of application.\<close>

definition lastOperationOnly :: "adjustmentValues \<Rightarrow> adjustmentValues" where
  "lastOperationOnly vs =
     (if dv_accountPnl vs \<noteq> None then vs\<lparr>dv_balance := None, dv_position := None\<rparr>
      else if dv_position vs \<noteq> None then vs\<lparr>dv_balance := None\<rparr> else vs)"

lemma pnl_readback: "NewPnlStateFromHandle (PnlState_Handle s) = s \<longleftrightarrow> pnlValid s"
  by (cases s) (auto simp: NewPnlStateFromHandle_def PnlState_Handle_def pnlValid_def PnlState_IsHalted_def
      zeroPnlState_def NewPnlState_def)

lemma made_pnl_valid: "pnlValid (NewPnlState v)" "NewPnlHaltedState r = Inr s \<Longrightarrow> pnlValid s \<and> PnlState_IsHalted s"
  by (auto simp: pnlValid_def NewPnlState_def PnlState_IsHalted_def NewPnlHaltedState_def
      PnlHaltReason_Valid_def split: if_splits)

lemma balance_read:
  "fst (BalanceOperation_Values (NewBalanceOperationFromValues vs) n) =
     \<lparr>bv_asset = (case bv_asset vs of None \<Rightarrow> None | Some a \<Rightarrow> readAsset n a),
      bv_averageEntryPrice = bv_averageEntryPrice vs,
      bv_realizedPnl = map_option (\<lambda>s. NewPnlStateFromHandle (PnlState_Handle s)) (bv_realizedPnl vs)\<rparr>"
  by (cases "bv_asset vs"; cases "bv_averageEntryPrice vs"; cases "bv_realizedPnl vs")
    (simp_all add: BalanceOperation_Values_def NewBalanceOperationFromValues_def
      BalanceOperation_setValues_def balance_defs balance_getters NewBalanceOperation_def zeroBalance_def
      read_asset [symmetric] split: prod.split)

lemma balance_roundtrip:
  "sameBalanceValues vs (fst (BalanceOperation_Values (NewBalanceOperationFromValues vs) n)) \<longleftrightarrow> balanceValid vs"
  unfolding balance_read sameBalanceValues_def balanceValid_def
  by (cases "bv_asset vs"; cases "bv_realizedPnl vs") (auto simp: readAsset_same pnl_readback)

lemma position_read:
  "fst (PositionOperation_Values (NewPositionOperationFromValues vs) n) =
     (case NewInstrumentFromHandle (case pw_instrument vs of None \<Rightarrow> zeroInstrument | Some i \<Rightarrow> Instrument_Handle i) n of
        (i, m) \<Rightarrow> \<lparr>pw_instrument = i,
          pw_collateralAsset = (case pw_collateralAsset vs of None \<Rightarrow> None | Some a \<Rightarrow> readAsset m a),
          pw_averageEntryPrice = pw_averageEntryPrice vs,
          pw_leverage = (case pw_leverage vs of None \<Rightarrow> None | Some l \<Rightarrow> if l = 0 then None else Some l),
          pw_mode = (case pw_mode vs of None \<Rightarrow> None | Some l \<Rightarrow> if l = 0 then None else Some l)\<rparr>)"
  by (cases "pw_instrument vs"; cases "pw_collateralAsset vs"; cases "pw_averageEntryPrice vs";
      cases "pw_leverage vs"; cases "pw_mode vs")
    (simp_all add: PositionOperation_Values_def NewPositionOperationFromValues_def
      PositionOperation_setValues_def position_operation_defs position_operation_getters
      NewPositionOperation_def zeroPositionOperation_def NewLeverageOptionFromHandle_def
      NewPositionModeFromHandle_def read_asset [symmetric] split: prod.split)

lemma nonzero_readback:
  "(case v of None \<Rightarrow> None | Some l \<Rightarrow> if l = 0 then None else Some l) = v \<longleftrightarrow> pred_option (\<lambda>l. l \<noteq> 0) v"
  by (cases v) auto

lemma asset_readback:
  "rel_option Asset_Equal v (case v of None \<Rightarrow> None | Some a \<Rightarrow> readAsset m a)
     \<longleftrightarrow> pred_option (\<lambda>a. Asset_Unsafe a \<noteq> '''') v"
  by (cases v) (simp_all add: readAsset_same)

lemma position_operation_roundtrip:
  "samePositionValues vs (fst (PositionOperation_Values (NewPositionOperationFromValues vs) n))
     \<longleftrightarrow> positionOperationValid vs"
proof -
  obtain i m where i: "NewInstrumentFromHandle (case pw_instrument vs of None \<Rightarrow> zeroInstrument
      | Some x \<Rightarrow> Instrument_Handle x) n = (i, m)" by fastforce
  have "rel_option sameInstrument (pw_instrument vs) i \<longleftrightarrow> pred_option complete (pw_instrument vs)"
    using instrument_readback_option [of "pw_instrument vs" n] by (simp add: i)
  then show ?thesis
    by (simp add: position_read i samePositionValues_def positionOperationValid_def nonzero_readback
        asset_readback)
qed

lemma amount_readback:
  "(case v of None \<Rightarrow> None | Some a \<Rightarrow> NewAdjustmentAmountFromHandle a) = v \<longleftrightarrow> pred_option (\<lambda>a. aa_kind a \<noteq> 0) v"
  by (cases v) (auto simp: NewAdjustmentAmountFromHandle_def)

lemma amount_read:
  "Amount_Values (NewAmountFromValues vs) =
     \<lparr>av_balance = (case av_balance vs of None \<Rightarrow> None | Some a \<Rightarrow> NewAdjustmentAmountFromHandle a),
      av_held = (case av_held vs of None \<Rightarrow> None | Some a \<Rightarrow> NewAdjustmentAmountFromHandle a),
      av_incoming = (case av_incoming vs of None \<Rightarrow> None | Some a \<Rightarrow> NewAdjustmentAmountFromHandle a)\<rparr>"
  by (cases "av_balance vs"; cases "av_held vs"; cases "av_incoming vs")
    (simp_all add: Amount_Values_def NewAmountFromValues_def Amount_setValues_def amount_defs zeroAmount_def
      zeroAdjustmentAmount_def NewAdjustmentAmountFromHandle_def)

lemma amount_roundtrip: "Amount_Values (NewAmountFromValues vs) = vs \<longleftrightarrow> amountValid vs"
  by (cases vs) (simp only: amount_read amountValid_def amount_readback amountValues.simps amountValues.iffs simp_thms conj_assoc)

definition boundOf :: "decimal option \<Rightarrow> decimal cOptional \<Rightarrow> decimal cOptional" where
  "boundOf v b = (case v of None \<Rightarrow> b | Some x \<Rightarrow> cSome x)"

lemma boundOf_none [simp]: "optionFromHandle (boundOf v (cNone zeroDecimal)) = v"
  by (cases v) (simp_all add: boundOf_def)

lemma apply_bounds:
  "applySome Bounds_SetBalanceUpper v b = b\<lparr>bn_balance_upper := boundOf v (bn_balance_upper b)\<rparr>"
  "applySome Bounds_SetBalanceLower v b = b\<lparr>bn_balance_lower := boundOf v (bn_balance_lower b)\<rparr>"
  "applySome Bounds_SetHeldUpper v b = b\<lparr>bn_held_upper := boundOf v (bn_held_upper b)\<rparr>"
  "applySome Bounds_SetHeldLower v b = b\<lparr>bn_held_lower := boundOf v (bn_held_lower b)\<rparr>"
  "applySome Bounds_SetIncomingUpper v b = b\<lparr>bn_incoming_upper := boundOf v (bn_incoming_upper b)\<rparr>"
  "applySome Bounds_SetIncomingLower v b = b\<lparr>bn_incoming_lower := boundOf v (bn_incoming_lower b)\<rparr>"
  by (cases v; simp add: boundOf_def bounds_defs)+

lemma bounds_roundtrip: "Bounds_Values (NewBoundsFromValues vs) = vs"
  by (simp add: Bounds_Values_def NewBoundsFromValues_def Bounds_setValues_def apply_bounds
      Bounds_BalanceUpper_def Bounds_BalanceLower_def Bounds_HeldUpper_def Bounds_HeldLower_def
      Bounds_IncomingUpper_def Bounds_IncomingLower_def zeroBounds_def)

lemma set_values_read: "Adjustment_Values (Adjustment_setValues vs (Adjustment_Reset a)) = lastOperationOnly vs"
proof -
  have o1: "Adjustment_BalanceOperation (Adjustment_setValues vs (Adjustment_Reset a)) = dv_balance (lastOperationOnly vs)"
    and o2: "Adjustment_PositionOperation (Adjustment_setValues vs (Adjustment_Reset a)) = dv_position (lastOperationOnly vs)"
    and o3: "Adjustment_AccountPnlOperation (Adjustment_setValues vs (Adjustment_Reset a)) = dv_accountPnl (lastOperationOnly vs)"
    by (cases "dv_balance vs"; cases "dv_position vs"; cases "dv_accountPnl vs"; cases "dv_amount vs";
        cases "dv_bounds vs";
        simp add: Adjustment_setValues_def adjustment_defs native_adjustment_defs kind_defs part_defs
          Adjustment_BalanceOperation_def Adjustment_PositionOperation_def Adjustment_AccountPnlOperation_def
          lastOperationOnly_def zeroAdjustment_def)+
  have "Adjustment_Amount (Adjustment_setValues vs (Adjustment_Reset a)) = dv_amount vs"
    and "Adjustment_Bounds (Adjustment_setValues vs (Adjustment_Reset a)) = dv_bounds vs"
    by (cases "dv_balance vs"; cases "dv_position vs"; cases "dv_accountPnl vs"; cases "dv_amount vs";
        cases "dv_bounds vs";
        simp add: Adjustment_setValues_def adjustment_defs native_adjustment_defs Adjustment_Amount_def
          Adjustment_Bounds_def zeroAdjustment_def)+
  then show ?thesis
    by (simp add: Adjustment_Values_def o1 o2 o3) (simp add: lastOperationOnly_def)
qed

section \<open>Properties\<close>

text \<open>
  No dangling string.  Whatever a caller does with adjustments, operations and views, also
  with views of an operation that was unset or replaced, every buffer the C struct of an
  adjustment points into is kept alive by the assets that adjustment retains.
\<close>

lemma adjustment_strings_retained:
  "built_adjustment a \<Longrightarrow> adjustmentPointers (ad_value a) \<subseteq> adjustmentHolds (ad_retain a)
     \<and> (\<forall>x. Adjustment_BalanceOperation a = Some x \<longrightarrow> balanceBacked x)
     \<and> (\<forall>y. Adjustment_PositionOperation a = Some y \<longrightarrow> positionBacked y)"
  using built_adjustment_backed(1) [of a]
  by (auto simp: adjustmentBacked_def backed_defs part_defs adjustmentPointers_def adjustmentHolds_def
      Adjustment_BalanceOperation_def Adjustment_PositionOperation_def split: if_splits)

definition sampleStale :: adjustment where
  "sampleStale = BalanceOperationView (BalanceOperation_SetAsset (Some \<lparr>bf_addr = 7, bf_bytes = ''USD''\<rparr>))
     (Adjustment_EnsurePosition (Adjustment_EnsureBalance NewAdjustment))"

text \<open>
  C23: an adjustment is an optional operation, one of three, with an optional amount and
  optional bounds.  Every method, and every method of a view, has the effect on the C struct
  that its specification has on that value: selecting an operation drops the others and starts
  it from zero unless it was selected already, a view of an operation that is no longer
  selected changes nothing, and the getters read the value.
\<close>

theorem adjustment_refines_sum:
  assumes "adjustment_call f g"
  shows "absAdjustment (f a) = g (absAdjustment a)
    \<and> map_option bl_value (Adjustment_BalanceOperation a)
        = (case sp_operation (absAdjustment a) of BalanceSpec v \<Rightarrow> Some v | _ \<Rightarrow> None)
    \<and> map_option po_value (Adjustment_PositionOperation a)
        = (case sp_operation (absAdjustment a) of PositionSpec v \<Rightarrow> Some v | _ \<Rightarrow> None)
    \<and> Adjustment_AccountPnlOperation a
        = (case sp_operation (absAdjustment a) of AccountPnlSpec v \<Rightarrow> Some v | _ \<Rightarrow> None)"
  using call_refines [OF assms, of a]
  by (simp add: absAdjustment_def absOperation_def Adjustment_BalanceOperation_def part_defs
      Adjustment_PositionOperation_def Adjustment_AccountPnlOperation_def kind_defs)

theorem adjustment_refines_sum_witness:
  "sp_operation (absAdjustment sampleStale) = PositionSpec zeroPositionOperation"
  unfolding sampleStale_def
  using adjustment_refines_sum [of "BalanceOperationView (BalanceOperation_SetAsset (Some \<lparr>bf_addr = 7, bf_bytes = ''USD''\<rparr>))",
      OF adjustment_call.intros(5), OF balance_method.intros(2),
      of "Adjustment_EnsurePosition (Adjustment_EnsureBalance NewAdjustment)"]
  by (simp add: absAdjustment_def Adjustment_EnsurePosition_def operation_refines Adjustment_EnsureBalance_def
      NewAdjustment_def NewAdjustmentFromHandle_def)

text \<open>
  An adjustment reads back what it was given.  One made from values, or given them with
  \<^verbatim>\<open>SetValues\<close>, returns exactly its amount, its bounds and the last of its operations, whatever
  it held before.  The groups made from values read back the same values, assets by content,
  exactly when the values are representable; bounds always do.  A PnL state reads back unless
  it is halted with a value, which no constructor makes, and a halted state is refused exactly
  for a reason that is none of the five.
\<close>

lemma adjustment_values_roundtrip:
  "Adjustment_Values (NewAdjustmentFromValues vs) = lastOperationOnly vs
   \<and> Adjustment_Values (Adjustment_SetValues vs a) = lastOperationOnly vs
   \<and> (balanceValid bv \<longleftrightarrow> sameBalanceValues bv (fst (BalanceOperation_Values (NewBalanceOperationFromValues bv) n)))
   \<and> (positionOperationValid pv \<longleftrightarrow>
        samePositionValues pv (fst (PositionOperation_Values (NewPositionOperationFromValues pv) n)))
   \<and> (amountValid av \<longleftrightarrow> Amount_Values (NewAmountFromValues av) = av)
   \<and> Bounds_Values (NewBoundsFromValues nv) = nv
   \<and> (pnlValid s \<longleftrightarrow> AccountPnlOperation_State (NewAccountPnlOperation s) = s)
   \<and> pnlValid (NewPnlState d)
   \<and> NewPnlHaltedState r = (if r \<in> {1, 2, 3, 4, 5} then Inr \<lparr>pl_value = zeroDecimal, pl_haltReason = r\<rparr>
        else Inl (ErrInvalidPnlHaltReason r))"
proof -
  have "NewAdjustment = Adjustment_Reset NewAdjustment"
    by (simp add: adjustment_defs)
  then have "Adjustment_Values (NewAdjustmentFromValues vs) = lastOperationOnly vs"
    by (metis NewAdjustmentFromValues_def set_values_read)
  then show ?thesis
    by (simp add: Adjustment_SetValues_def set_values_read balance_roundtrip position_operation_roundtrip
        amount_roundtrip bounds_roundtrip AccountPnlOperation_State_def NewAccountPnlOperation_def
        pnl_readback made_pnl_valid NewPnlHaltedState_def PnlHaltReason_Valid_def)
qed

end
