(* ===== verification/Callbacks.thy ===== *)
theory Callbacks
  imports World
begin

text \<open>
  The way back from the native engine into Go: the handle table of \<^verbatim>\<open>runtime/cgo\<close>, the
  payload adapters of client policies (\<^verbatim>\<open>pretrade/policy_adapter.go\<close>), the exported
  callbacks of custom policies (\<^verbatim>\<open>internal/custompolicy\<close>), the reject lists they return
  (\<^verbatim>\<open>internal/convert/reject.go\<close>) and the mutation callbacks
  (\<^verbatim>\<open>internal/mutation\<close>, \<^verbatim>\<open>tx/mutations.go\<close>).
\<close>

section \<open>Handles\<close>

text \<open>
  \<^verbatim>\<open>cgo.Handle\<close>: a number for a Go value that C code carries around.  Numbers are never
  reused and never zero; \<^verbatim>\<open>Value\<close> and \<^verbatim>\<open>Delete\<close> panic on a number that stands for
  nothing.  Values are tagged with their dynamic type, which is what a type assertion looks at.
\<close>

record preTrade =
  pt_impl :: nat
  pt_dryRun :: bool
  pt_retirement :: bool
  pt_name :: string

datatype ('o, 'r, 'a) goValue =
    OrderValue 'o | ReportValue 'r | AdjustmentValue 'a
  | PolicyValue preTrade | CallbacksValue nat nat | OtherValue nat

text \<open>
  The world of a callback: the handle table, the number of native lists that are allocated,
  the messages given to the diagnostic sink, and the rest of the process.
\<close>

record ('o, 'r, 'a, 'e) cgo =
  cg_next :: nat
  cg_values :: "nat \<Rightarrow> ('o, 'r, 'a) goValue option"
  cg_lists :: nat
  cg_reports :: "string list"
  cg_env :: 'e

definition invalidHandle :: panic where
  "invalidHandle = PanicValue ''runtime/cgo: misuse of an invalid Handle''"

definition failedAssertion :: panic where
  "failedAssertion = PanicValue ''interface conversion''"

definition NewHandle :: "('o, 'r, 'a) goValue \<Rightarrow> (('o, 'r, 'a, 'e) cgo, nat) go" where
  "NewHandle v w = (let h = cg_next w + 1 in
     (Ret h, w\<lparr>cg_next := h, cg_values := (cg_values w)(h \<mapsto> v)\<rparr>))"

definition handleValue :: "nat \<Rightarrow> (('o, 'r, 'a, 'e) cgo, ('o, 'r, 'a) goValue) go" where
  "handleValue h w = (case cg_values w h of None \<Rightarrow> (Panic invalidHandle, w) | Some v \<Rightarrow> (Ret v, w))"

definition handleDelete :: "nat \<Rightarrow> (('o, 'r, 'a, 'e) cgo, unit) go" where
  "handleDelete h w = (case cg_values w h of None \<Rightarrow> (Panic invalidHandle, w)
     | Some _ \<Rightarrow> (Ret (), w\<lparr>cg_values := (cg_values w)(h := None)\<rparr>))"

text \<open>
  A deferred function that calls \<^verbatim>\<open>recover\<close> stops every panic, but \<^verbatim>\<open>recover\<close> returns
  nil for some of them: none as Go runs by default, \<^verbatim>\<open>panic(nil)\<close> under
  \<^verbatim>\<open>GODEBUG=panicnil=1\<close>.  The code then returns what its named result holds.
\<close>

definition guarded :: "(panic \<Rightarrow> bool) \<Rightarrow> 'a \<Rightarrow> ('w, 'a) go \<Rightarrow> (panic \<Rightarrow> ('w, 'a) go) \<Rightarrow> ('w, 'a) go" where
  "guarded recoversNil preset body onPanic w =
     (case body w of
        (Ret x, t) \<Rightarrow> (Ret x, t)
      | (Panic p, t) \<Rightarrow> if recoversNil p then (Ret preset, t) else onPanic p t)"

section \<open>Native reject lists\<close>

datatype nativeRejects = AcceptList | RejectList "reject list" | NilRejects
datatype nativeBlocks = NilBlocks | BlockList "accountBlock list"

definition CodeSystemUnavailable :: nat where "CodeSystemUnavailable = 39"
definition ScopeOrder :: nat where "ScopeOrder = 1"

definition rejectNew :: "nat \<Rightarrow> string \<Rightarrow> string \<Rightarrow> string \<Rightarrow> nat \<Rightarrow> reject" where
  "rejectNew code policy reason details scope =
     \<lparr>rj_Reason = reason, rj_Details = details, rj_Policy = policy, rj_UserData = 0, rj_Code = code,
      rj_Scope = scope\<rparr>"

definition NewAccountBlock :: "nat \<Rightarrow> string \<Rightarrow> string \<Rightarrow> string \<Rightarrow> accountBlock" where
  "NewAccountBlock code policy reason details =
     \<lparr>ab_Reason = reason, ab_Details = details, ab_Policy = policy, ab_UserData = 0, ab_Code = code\<rparr>"

definition createList :: "(('o, 'r, 'a, 'e) cgo, unit) go" where
  "createList = modify (\<lambda>w. w\<lparr>cg_lists := cg_lists w + 1\<rparr>)"

definition destroyList :: "(('o, 'r, 'a, 'e) cgo, unit) go" where
  "destroyList = modify (\<lambda>w. w\<lparr>cg_lists := cg_lists w - 1\<rparr>)"

text \<open>
  \<open>push\<close> is the native push, which refuses a reject it cannot represent; the whole result is
  then replaced by one reject that names the cause.
\<close>

definition fallbackReject :: reject where
  "fallbackReject = rejectNew CodeSystemUnavailable ''openpit.callback'' ''custom policy callback failed''
     ''reject scope is invalid'' ScopeOrder"

definition NewNativeRejectList ::
    "(reject \<Rightarrow> bool) \<Rightarrow> reject list \<Rightarrow> (('o, 'r, 'a, 'e) cgo, nativeRejects) go" where
  "NewNativeRejectList push source =
     (if source = [] then ret AcceptList
      else bind createList (\<lambda>_.
        if list_all push source then ret (RejectList source)
        else bind destroyList (\<lambda>_. bind createList (\<lambda>_.
          if push fallbackReject then ret (RejectList [fallbackReject])
          else bind destroyList (\<lambda>_. ret NilRejects)))))"

definition NewNativeAccountBlockListOrNil ::
    "accountBlock list \<Rightarrow> (('o, 'r, 'a, 'e) cgo, nativeBlocks) go" where
  "NewNativeAccountBlockListOrNil source =
     (if source = [] then ret NilBlocks else bind createList (\<lambda>_. ret (BlockList source)))"

section \<open>Policies and the payload adapters\<close>

text \<open>
  An engine order, report or adjustment as a callback sees it: its content and its opaque
  user data, zero for none.  \<open>'c\<close> stands for the other native arguments of a hook.
\<close>

record 'b engineValue =
  ev_body :: 'b
  ev_userData :: nat

text \<open>A value of the interface \<^verbatim>\<open>Policy\<close>, or of \<^verbatim>\<open>ClientPreTradePolicy\<close>.\<close>

record ('w, 'c, 'ord, 'rep, 'adj) policy =
  pm_Close :: "('w, unit) go"
  pm_Name :: string
  pm_CheckPreTradeStart :: "'c \<Rightarrow> 'ord \<Rightarrow> ('w, reject list) go"
  pm_PerformPreTradeCheck :: "'c \<Rightarrow> 'ord \<Rightarrow> ('w, reject list) go"
  pm_ApplyExecutionReport :: "'c \<Rightarrow> 'rep \<Rightarrow> ('w, accountBlock list) go"
  pm_ApplyAccountAdjustment :: "'c \<Rightarrow> 'adj \<Rightarrow> ('w, accountBlock list \<times> reject list) go"

fun asOrder :: "('o, 'r, 'a) goValue \<Rightarrow> 'o option" where
  "asOrder (OrderValue x) = Some x"
| "asOrder _ = None"

fun asReport :: "('o, 'r, 'a) goValue \<Rightarrow> 'r option" where
  "asReport (ReportValue x) = Some x"
| "asReport _ = None"

text \<open>Absent for a payload that is missing, of another type, or whose handle was released.\<close>

definition safePayload ::
    "(panic \<Rightarrow> bool) \<Rightarrow> (('o, 'r, 'a) goValue \<Rightarrow> 'p option) \<Rightarrow> nat \<Rightarrow> (('o, 'r, 'a, 'e) cgo, 'p option) go" where
  "safePayload rn cast userData =
     (if userData = 0 then ret None
      else guarded rn None (bind (handleValue userData) (\<lambda>v. ret (cast v))) (\<lambda>_. ret None))"

definition unsafeFastPayload ::
    "(('o, 'r, 'a) goValue \<Rightarrow> 'p option) \<Rightarrow> nat \<Rightarrow> (('o, 'r, 'a, 'e) cgo, 'p) go" where
  "unsafeFastPayload cast userData =
     bind (handleValue userData) (\<lambda>v. case cast v of None \<Rightarrow> panic failedAssertion | Some p \<Rightarrow> ret p)"

text \<open>The details name the expected type; they are parameters.\<close>

definition clientPayloadMismatchReject :: "string \<Rightarrow> string \<Rightarrow> reject list" where
  "clientPayloadMismatchReject details name =
     [rejectNew CodeSystemUnavailable name ''client order payload mismatch'' details ScopeOrder]"

type_synonym ('o, 'r, 'a, 'e, 'c, 'b, 'd, 'j) clientPolicy =
  "(('o, 'r, 'a, 'e) cgo, 'c, 'o, 'r, 'j) policy"
type_synonym ('o, 'r, 'a, 'e, 'c, 'b, 'd, 'j) enginePolicy =
  "(('o, 'r, 'a, 'e) cgo, 'c, 'b engineValue, 'd engineValue, 'j) policy"

definition safeClientPreTradePolicy ::
    "(panic \<Rightarrow> bool) \<Rightarrow> string \<Rightarrow> ('o, 'r, 'a, 'e, 'c, 'b, 'd, 'j) clientPolicy
      \<Rightarrow> ('o, 'r, 'a, 'e, 'c, 'b, 'd, 'j) enginePolicy" where
  "safeClientPreTradePolicy rn details p =
     \<lparr>pm_Close = pm_Close p,
      pm_Name = pm_Name p,
      pm_CheckPreTradeStart = (\<lambda>ctx ord. bind (safePayload rn asOrder (ev_userData ord)) (\<lambda>v. case v of
          None \<Rightarrow> ret (clientPayloadMismatchReject details (pm_Name p))
        | Some x \<Rightarrow> pm_CheckPreTradeStart p ctx x)),
      pm_PerformPreTradeCheck = (\<lambda>ctx ord. bind (safePayload rn asOrder (ev_userData ord)) (\<lambda>v. case v of
          None \<Rightarrow> ret (clientPayloadMismatchReject details (pm_Name p))
        | Some x \<Rightarrow> pm_PerformPreTradeCheck p ctx x)),
      pm_ApplyExecutionReport = (\<lambda>ctx rep. bind (safePayload rn asReport (ev_userData rep)) (\<lambda>v. case v of
          None \<Rightarrow> ret [NewAccountBlock CodeSystemUnavailable (pm_Name p)
            ''client execution report payload mismatch'' details]
        | Some x \<Rightarrow> pm_ApplyExecutionReport p ctx x)),
      pm_ApplyAccountAdjustment = pm_ApplyAccountAdjustment p\<rparr>"

definition unsafeFastClientPreTradePolicy ::
    "('o, 'r, 'a, 'e, 'c, 'b, 'd, 'j) clientPolicy \<Rightarrow> ('o, 'r, 'a, 'e, 'c, 'b, 'd, 'j) enginePolicy" where
  "unsafeFastClientPreTradePolicy p =
     \<lparr>pm_Close = pm_Close p,
      pm_Name = pm_Name p,
      pm_CheckPreTradeStart =
        (\<lambda>ctx ord. bind (unsafeFastPayload asOrder (ev_userData ord)) (pm_CheckPreTradeStart p ctx)),
      pm_PerformPreTradeCheck =
        (\<lambda>ctx ord. bind (unsafeFastPayload asOrder (ev_userData ord)) (pm_PerformPreTradeCheck p ctx)),
      pm_ApplyExecutionReport =
        (\<lambda>ctx rep. bind (unsafeFastPayload asReport (ev_userData rep)) (pm_ApplyExecutionReport p ctx)),
      pm_ApplyAccountAdjustment = pm_ApplyAccountAdjustment p\<rparr>"

section \<open>The callbacks of custom policies\<close>

text \<open>
  What the exported functions rely on: the policies behind the implementation numbers, the
  closures behind the closure numbers, the native push, and the texts of recovered values.
\<close>

record ('o, 'r, 'a, 'e, 'c, 'b, 'd, 'j) boundary =
  bd_recoversNil :: "panic \<Rightarrow> bool"
  bd_push :: "reject \<Rightarrow> bool"
  bd_format :: "panic \<Rightarrow> string"
  bd_policy :: "nat \<Rightarrow> ('o, 'r, 'a, 'e, 'c, 'b, 'd, 'j) enginePolicy"
  bd_checkDryRun :: "nat \<Rightarrow> 'c \<Rightarrow> 'b engineValue \<Rightarrow> (('o, 'r, 'a, 'e) cgo, reject list) go"
  bd_performDryRun :: "nat \<Rightarrow> 'c \<Rightarrow> 'b engineValue \<Rightarrow> (('o, 'r, 'a, 'e) cgo, reject list) go"
  bd_retireAccount :: "nat \<Rightarrow> 64 word \<Rightarrow> (('o, 'r, 'a, 'e) cgo, 8 word) go"
  bd_closure :: "nat \<Rightarrow> (('o, 'r, 'a, 'e) cgo, unit) go"

definition recoveredText :: "('o, 'r, 'a, 'e, 'c, 'b, 'd, 'j) boundary \<Rightarrow> panic \<Rightarrow> string" where
  "recoveredText x p = (if bd_recoversNil x p then ''<nil>'' else bd_format x p)"

definition callbackPanicRejects :: "string \<Rightarrow> string \<Rightarrow> reject list" where
  "callbackPanicRejects policyName recovered =
     [rejectNew CodeSystemUnavailable policyName ''custom policy callback panicked''
        (''panic: '' @ recovered) ScopeOrder]"

definition callbackPanicAccountBlocks :: "string \<Rightarrow> string \<Rightarrow> accountBlock list" where
  "callbackPanicAccountBlocks policyName recovered =
     [NewAccountBlock CodeSystemUnavailable policyName ''custom policy callback panicked''
        (''panic: '' @ recovered)]"

definition getPreTrade :: "nat \<Rightarrow> (('o, 'r, 'a, 'e) cgo, preTrade) go" where
  "getPreTrade userData = bind (handleValue userData) (\<lambda>v. case v of
     PolicyValue p \<Rightarrow> ret p | _ \<Rightarrow> panic failedAssertion)"

text \<open>
  The frame of every callback: the policy name is generic until the user data has led to the
  policy, and \<open>onPanic\<close> makes the result out of the name and the panic.
\<close>

definition callbackFrame ::
    "(panic \<Rightarrow> bool) \<Rightarrow> 'x \<Rightarrow> (string \<Rightarrow> panic \<Rightarrow> (('o, 'r, 'a, 'e) cgo, 'x) go) \<Rightarrow> nat
      \<Rightarrow> (preTrade \<Rightarrow> (('o, 'r, 'a, 'e) cgo, 'x) go) \<Rightarrow> (('o, 'r, 'a, 'e) cgo, 'x) go" where
  "callbackFrame rn preset onPanic userData run w =
     (case getPreTrade userData w of
        (Panic p, t) \<Rightarrow> if rn p then (Ret preset, t) else onPanic ''openpit.callback'' p t
      | (Ret policy, t) \<Rightarrow> guarded rn preset (run policy) (onPanic (pt_name policy)) t)"

definition rejectsOnPanic where
  "rejectsOnPanic x policyName p =
     NewNativeRejectList (bd_push x) (callbackPanicRejects policyName (recoveredText x p))"

definition pitCheckPreTradeStart where
  "pitCheckPreTradeStart x ctx ord userData =
     callbackFrame (bd_recoversNil x) NilRejects (rejectsOnPanic x) userData (\<lambda>policy.
       bind (pm_CheckPreTradeStart (bd_policy x (pt_impl policy)) ctx ord) (NewNativeRejectList (bd_push x)))"

definition pitPerformPreTradeCheck where
  "pitPerformPreTradeCheck x ctx ord userData =
     callbackFrame (bd_recoversNil x) NilRejects (rejectsOnPanic x) userData (\<lambda>policy.
       bind (pm_PerformPreTradeCheck (bd_policy x (pt_impl policy)) ctx ord) (NewNativeRejectList (bd_push x)))"

definition pitCheckPreTradeStartDryRun where
  "pitCheckPreTradeStartDryRun x ctx ord userData =
     callbackFrame (bd_recoversNil x) NilRejects (rejectsOnPanic x) userData (\<lambda>policy.
       bind (if pt_dryRun policy then bd_checkDryRun x (pt_impl policy) ctx ord else panic nilCall) (NewNativeRejectList (bd_push x)))"

definition pitPerformPreTradeCheckDryRun where
  "pitPerformPreTradeCheckDryRun x ctx ord userData =
     callbackFrame (bd_recoversNil x) NilRejects (rejectsOnPanic x) userData (\<lambda>policy.
       bind (if pt_dryRun policy then bd_performDryRun x (pt_impl policy) ctx ord else panic nilCall) (NewNativeRejectList (bd_push x)))"

text \<open>
  Reports: a block list of nil means no block, so a panic is told from completion by a flag
  rather than by what \<^verbatim>\<open>recover\<close> returns.
\<close>

definition blocksOnPanic where
  "blocksOnPanic x policyName p =
     NewNativeAccountBlockListOrNil (callbackPanicAccountBlocks policyName (recoveredText x p))"

definition pitApplyExecutionReport where
  "pitApplyExecutionReport x ctx rep userData =
     callbackFrame (\<lambda>_. False) NilBlocks (blocksOnPanic x) userData (\<lambda>policy.
       bind (pm_ApplyExecutionReport (bd_policy x (pt_impl policy)) ctx rep) NewNativeAccountBlockListOrNil)"

text \<open>The blocks of an adjustment go into the native result, the rejects are returned.\<close>

definition pitApplyAccountAdjustment where
  "pitApplyAccountAdjustment x ctx adj userData =
     callbackFrame (bd_recoversNil x) ([], NilRejects)
       (\<lambda>policyName p. bind (rejectsOnPanic x policyName p) (\<lambda>l. ret ([], l))) userData (\<lambda>policy.
       bind (pm_ApplyAccountAdjustment (bd_policy x (pt_impl policy)) ctx adj) (\<lambda>(blocks, rejects).
       bind (NewNativeRejectList (bd_push x) rejects) (\<lambda>l. ret (blocks, l))))"

definition AccountRetirementAccept :: "8 word" where "AccountRetirementAccept = 0"
definition AccountRetirementEvaluationFailed :: "8 word" where "AccountRetirementEvaluationFailed = 4"

definition pitRetireAccount where
  "pitRetireAccount x account userData =
     callbackFrame (bd_recoversNil x) AccountRetirementEvaluationFailed
       (\<lambda>_ _. ret AccountRetirementEvaluationFailed) userData
       (\<lambda>policy. if pt_retirement policy then bd_retireAccount x (pt_impl policy) account else panic nilCall)"

definition report :: "string \<Rightarrow> (('o, 'r, 'a, 'e) cgo, unit) go" where
  "report msg = modify (\<lambda>w. w\<lparr>cg_reports := cg_reports w @ [msg]\<rparr>)"

definition PreTrade_Close where
  "PreTrade_Close x h policy = deferring (pm_Close (bd_policy x (pt_impl policy))) (handleDelete h)"

definition pitClose where
  "pitClose x h =
     guarded (bd_recoversNil x) () (bind (handleValue h) (\<lambda>v. case v of
         PolicyValue policy \<Rightarrow> PreTrade_Close x h policy
       | _ \<Rightarrow> bind (handleDelete h) (\<lambda>_. report ''custom pre-trade policy close callback got foreign user data'')))
       (\<lambda>p. report (''custom pre-trade policy close callback panicked: '' @ bd_format x p))"

text \<open>
  \<^verbatim>\<open>StartPreTrade\<close>: \<open>create\<close> is the native registration, given the name, whether dry-run
  and retirement hooks are passed, and the user data.
\<close>

definition custompolicyStartPreTrade where
  "custompolicyStartPreTrade create impl dryRun retirement policy =
     (let name = pm_Name policy in
      bind (NewHandle (PolicyValue \<lparr>pt_impl = impl, pt_dryRun = dryRun, pt_retirement = retirement,
        pt_name = name\<rparr>)) (\<lambda>h.
      bind (create name dryRun retirement h) (\<lambda>e. case e of
        Some err \<Rightarrow> bind (handleDelete h) (\<lambda>_. ret (Inl err))
      | None \<Rightarrow> ret (Inr h))))"

section \<open>Mutation callbacks\<close>

definition NewCallbacks :: "nat \<Rightarrow> nat \<Rightarrow> (('o, 'r, 'a, 'e) cgo, nat) go" where
  "NewCallbacks commit rollback = NewHandle (CallbacksValue commit rollback)"

text \<open>
  \<^verbatim>\<open>Mutations.Push\<close> and \<^verbatim>\<open>RecordDropCopyStartMutation\<close>: \<open>push\<close> is the native
  registration of the callback set.
\<close>

definition Mutations_Push ::
    "(nat \<Rightarrow> (('o, 'r, 'a, 'e) cgo, err) go) \<Rightarrow> nat option \<Rightarrow> nat option \<Rightarrow> (('o, 'r, 'a, 'e) cgo, err) go" where
  "Mutations_Push push commit rollback =
     (case commit of
        None \<Rightarrow> ret (Some (Text ''mutation commit callback is nil''))
      | Some c \<Rightarrow> (case rollback of
          None \<Rightarrow> ret (Some (Text ''mutation rollback callback is nil''))
        | Some r \<Rightarrow> bind (NewCallbacks c r) (\<lambda>h. bind (push h) (\<lambda>e.
            if e \<noteq> None then bind (handleDelete h) (\<lambda>_. ret e) else ret None))))"

definition getCallbacks :: "nat \<Rightarrow> (('o, 'r, 'a, 'e) cgo, nat \<times> nat) go" where
  "getCallbacks userData = bind (handleValue userData) (\<lambda>v. case v of
     CallbacksValue c r \<Rightarrow> ret (c, r) | _ \<Rightarrow> panic (PanicValue ''user data is not a mutation callback set''))"

definition pitMutationCommit where
  "pitMutationCommit x userData =
     guarded (bd_recoversNil x) (False, None)
       (bind (getCallbacks userData) (\<lambda>(c, r). bind (bd_closure x c) (\<lambda>_. ret (True, None))))
       (\<lambda>p. ret (False, Some (''Go mutation commit callback panic: '' @ bd_format x p)))"

definition pitMutationRollback where
  "pitMutationRollback x userData =
     guarded (bd_recoversNil x) (False, None)
       (bind (getCallbacks userData) (\<lambda>(c, r). bind (bd_closure x r) (\<lambda>_. ret (True, None))))
       (\<lambda>p. ret (False, Some (''Go mutation rollback callback panic: '' @ bd_format x p)))"

definition pitMutationFree where
  "pitMutationFree x h =
     guarded (bd_recoversNil x) () (bind (handleValue h) (\<lambda>v. case v of
         CallbacksValue c r \<Rightarrow> handleDelete h
       | _ \<Rightarrow> bind (handleDelete h) (\<lambda>_. report ''mutation free callback got foreign user data'')))
       (\<lambda>p. report (''mutation free callback panicked: '' @ bd_format x p))"

end
