(* ===== verification/Callback_Props.thy ===== *)
theory Callback_Props
  imports Callbacks
begin

text \<open>
  What the callbacks promise the native engine: nothing unwinds through them, a hook that fails
  is never taken for one that accepts, a client policy gets exactly the payload its engine
  call carried, and a mutation callback runs the closure it was registered with.
\<close>

section \<open>Handles and lists\<close>

text \<open>Numbers are not reused: none above the last one made stands for a value, nor does zero.\<close>

definition handlesOK :: "('o, 'r, 'a, 'e) cgo \<Rightarrow> bool" where
  "handlesOK w \<longleftrightarrow> (\<forall>h. cg_values w h \<noteq> None \<longrightarrow> 0 < h \<and> h \<le> cg_next w)"

lemma handle_value_simps [simp]:
  "cg_values w h = Some v \<Longrightarrow> handleValue h w = (Ret v, w)"
  "cg_values w h = None \<Longrightarrow> handleValue h w = (Panic invalidHandle, w)"
  by (simp_all add: handleValue_def)

lemma handle_delete_simps [simp]:
  "cg_values w h = Some v \<Longrightarrow> handleDelete h w = (Ret (), w\<lparr>cg_values := (cg_values w)(h := None)\<rparr>)"
  "cg_values w h = None \<Longrightarrow> handleDelete h w = (Panic invalidHandle, w)"
  by (simp_all add: handleDelete_def)

lemma handle_value_world: "snd (handleValue h w) = w"
  by (simp add: handleValue_def split: option.split)

text \<open>The list that stands for a result, and how many lists it allocates.\<close>

definition rejectsResult :: "(reject \<Rightarrow> bool) \<Rightarrow> reject list \<Rightarrow> nativeRejects" where
  "rejectsResult push rs = (if rs = [] then AcceptList else if list_all push rs then RejectList rs
     else if push fallbackReject then RejectList [fallbackReject] else NilRejects)"

definition listsOf :: "nativeRejects \<Rightarrow> nat" where
  "listsOf r = (case r of RejectList rs \<Rightarrow> 1 | _ \<Rightarrow> 0)"

definition blocksOf :: "nativeBlocks \<Rightarrow> nat" where
  "blocksOf r = (case r of BlockList rs \<Rightarrow> 1 | _ \<Rightarrow> 0)"

lemma native_list: "NewNativeRejectList push rs w =
    (Ret (rejectsResult push rs), w\<lparr>cg_lists := cg_lists w + listsOf (rejectsResult push rs)\<rparr>)"
  by (simp add: NewNativeRejectList_def rejectsResult_def listsOf_def createList_def destroyList_def go_defs)

lemma native_blocks: "NewNativeAccountBlockListOrNil bs w =
    (Ret (if bs = [] then NilBlocks else BlockList bs), w\<lparr>cg_lists := cg_lists w + (if bs = [] then 0 else 1)\<rparr>)"
  by (simp add: NewNativeAccountBlockListOrNil_def createList_def go_defs)

lemma rejects_accept [simp]: "rejectsResult push rs = AcceptList \<longleftrightarrow> rs = []"
  by (simp add: rejectsResult_def)

section \<open>The frame of a callback\<close>

lemma get_pre_trade:
  "getPreTrade h w = (case cg_values w h of Some (PolicyValue p) \<Rightarrow> (Ret p, w)
     | Some _ \<Rightarrow> (Panic failedAssertion, w) | None \<Rightarrow> (Panic invalidHandle, w))"
  by (simp add: getPreTrade_def handleValue_def go_defs split: option.split goValue.split)

text \<open>The hook a callback stands for: it panics when the user data leads to no policy.\<close>

definition hookOf :: "nat \<Rightarrow> (preTrade \<Rightarrow> (('o, 'r, 'a, 'e) cgo, 'x) go) \<Rightarrow> (('o, 'r, 'a, 'e) cgo, 'x) go" where
  "hookOf userData hook = bind (getPreTrade userData) hook"

lemma frame_result:
  "callbackFrame rn preset onPanic userData (\<lambda>p. bind (hook p) finish) w =
     (case hookOf userData hook w of
        (Ret v, t) \<Rightarrow> guarded rn preset (finish v)
          (onPanic (case cg_values w userData of Some (PolicyValue p) \<Rightarrow> pt_name p | _ \<Rightarrow> ''openpit.callback'')) t
      | (Panic p, t) \<Rightarrow> if rn p then (Ret preset, t) else
          onPanic (case cg_values w userData of Some (PolicyValue q) \<Rightarrow> pt_name q | _ \<Rightarrow> ''openpit.callback'') p t)"
  by (simp add: callbackFrame_def hookOf_def get_pre_trade guarded_def go_defs
      split: option.split goValue.split prod.split res.split)

text \<open>
  A callback that answers with rejects is sound for a hook when it returns whatever the hook
  does, accepts exactly when the hook returned no reject, hands over the hook's rejects (or the
  fallback for a reject the native side refuses), answers a panic with a SystemUnavailable
  reject or, where \<^verbatim>\<open>recover\<close> saw nothing, with the nil list that stands for a
  failed callback, and leaves behind exactly the list it returns.
\<close>

definition failureOf :: "('o, 'r, 'a, 'e, 'c, 'b, 'd, 'j) boundary \<Rightarrow> panic \<Rightarrow> nativeRejects \<Rightarrow> bool" where
  "failureOf x p r \<longleftrightarrow> (if bd_recoversNil x p then r = NilRejects
     else \<exists>name. r = rejectsResult (bd_push x) (callbackPanicRejects name (bd_format x p)))"

definition answers ::
    "('o, 'r, 'a, 'e, 'c, 'b, 'd, 'j) boundary \<Rightarrow> (('o, 'r, 'a, 'e) cgo, reject list) go
      \<Rightarrow> (('o, 'r, 'a, 'e) cgo, nativeRejects) go \<Rightarrow> bool" where
  "answers x hook callback \<longleftrightarrow> (\<forall>w. \<exists>r. fst (callback w) = Ret r
     \<and> snd (callback w) = (snd (hook w))\<lparr>cg_lists := cg_lists (snd (hook w)) + listsOf r\<rparr>
     \<and> (case fst (hook w) of Ret rs \<Rightarrow> r = rejectsResult (bd_push x) rs | Panic p \<Rightarrow> failureOf x p r))"

lemma failure_not_accept: "failureOf x p r \<Longrightarrow> r \<noteq> AcceptList"
  by (auto simp: failureOf_def callbackPanicRejects_def split: if_splits)

lemma rejects_on_panic: "\<not> bd_recoversNil x p \<Longrightarrow> rejectsOnPanic x name p w =
    (Ret (rejectsResult (bd_push x) (callbackPanicRejects name (bd_format x p))),
     w\<lparr>cg_lists := cg_lists w + listsOf (rejectsResult (bd_push x) (callbackPanicRejects name (bd_format x p)))\<rparr>)"
  by (simp add: rejectsOnPanic_def native_list recoveredText_def)

lemma frame_answers:
  "answers x (hookOf userData hook)
     (callbackFrame (bd_recoversNil x) NilRejects (rejectsOnPanic x) userData
        (\<lambda>p. bind (hook p) (NewNativeRejectList (bd_push x))))"
  unfolding answers_def frame_result
  by (auto simp: guarded_def native_list rejects_on_panic failureOf_def listsOf_def split: prod.split res.split)

lemma answers_accept:
  assumes "answers x hook callback"
  shows "fst (callback w) = Ret AcceptList \<longleftrightarrow> fst (hook w) = Ret []"
proof -
  obtain r where "fst (callback w) = Ret r"
      "case fst (hook w) of Ret rs \<Rightarrow> r = rejectsResult (bd_push x) rs | Panic p \<Rightarrow> failureOf x p r"
    using assms unfolding answers_def by blast
  then show ?thesis
    by (cases "fst (hook w)") (auto dest: failure_not_accept)
qed

text \<open>The hooks behind the callbacks.\<close>

definition startHook where
  "startHook x ctx ord userData =
     hookOf userData (\<lambda>p. pm_CheckPreTradeStart (bd_policy x (pt_impl p)) ctx ord)"

definition performHook where
  "performHook x ctx ord userData =
     hookOf userData (\<lambda>p. pm_PerformPreTradeCheck (bd_policy x (pt_impl p)) ctx ord)"

definition startDryRunHook where
  "startDryRunHook x ctx ord userData =
     hookOf userData (\<lambda>p. if pt_dryRun p then bd_checkDryRun x (pt_impl p) ctx ord else panic nilCall)"

definition performDryRunHook where
  "performDryRunHook x ctx ord userData =
     hookOf userData (\<lambda>p. if pt_dryRun p then bd_performDryRun x (pt_impl p) ctx ord else panic nilCall)"

definition adjustmentHook where
  "adjustmentHook x ctx adj userData =
     hookOf userData (\<lambda>p. pm_ApplyAccountAdjustment (bd_policy x (pt_impl p)) ctx adj)"

definition reportHook where
  "reportHook x ctx rep userData =
     hookOf userData (\<lambda>p. pm_ApplyExecutionReport (bd_policy x (pt_impl p)) ctx rep)"

definition retireHook where
  "retireHook x account userData =
     hookOf userData (\<lambda>p. if pt_retirement p then bd_retireAccount x (pt_impl p) account else panic nilCall)"

lemmas hook_defs = startHook_def performHook_def startDryRunHook_def performDryRunHook_def
  adjustmentHook_def reportHook_def retireHook_def

lemma order_callbacks_answer:
  "answers x (startHook x ctx ord ud) (pitCheckPreTradeStart x ctx ord ud)"
  "answers x (performHook x ctx ord ud) (pitPerformPreTradeCheck x ctx ord ud)"
  "answers x (startDryRunHook x ctx ord ud) (pitCheckPreTradeStartDryRun x ctx ord ud)"
  "answers x (performDryRunHook x ctx ord ud) (pitPerformPreTradeCheckDryRun x ctx ord ud)"
  unfolding hook_defs pitCheckPreTradeStart_def pitPerformPreTradeCheck_def
    pitCheckPreTradeStartDryRun_def pitPerformPreTradeCheckDryRun_def
  by (rule frame_answers)+

lemma adjustment_callback_answers:
  "\<exists>r. fst (pitApplyAccountAdjustment x ctx adj ud w) = Ret (case fst (adjustmentHook x ctx adj ud w) of
        Ret (blocks, rejects) \<Rightarrow> (blocks, rejectsResult (bd_push x) rejects) | Panic p \<Rightarrow> ([], r))
    \<and> r \<noteq> AcceptList"
proof -
  let ?c = "callbackPanicRejects (case cg_values w ud of Some (PolicyValue q) \<Rightarrow> pt_name q | _ \<Rightarrow> ''openpit.callback'')"
  let ?r = "case fst (adjustmentHook x ctx adj ud w) of Ret _ \<Rightarrow> NilRejects
    | Panic p \<Rightarrow> if bd_recoversNil x p then NilRejects else rejectsResult (bd_push x) (?c (bd_format x p))"
  have "?r \<noteq> AcceptList"
    by (auto simp: callbackPanicRejects_def split: res.split)
  moreover have "fst (pitApplyAccountAdjustment x ctx adj ud w) = Ret (case fst (adjustmentHook x ctx adj ud w) of
        Ret (blocks, rejects) \<Rightarrow> (blocks, rejectsResult (bd_push x) rejects) | Panic p \<Rightarrow> ([], ?r))"
    unfolding pitApplyAccountAdjustment_def frame_result adjustmentHook_def
    by (auto simp: guarded_def native_list rejects_on_panic go_defs split: prod.split res.split)
  ultimately show ?thesis by blast
qed

lemma report_callback_answers:
  "\<exists>name. fst (pitApplyExecutionReport x ctx rep ud w) = Ret (case fst (reportHook x ctx rep ud w) of
        Ret bs \<Rightarrow> if bs = [] then NilBlocks else BlockList bs
      | Panic p \<Rightarrow> BlockList (callbackPanicAccountBlocks name (recoveredText x p)))"
  unfolding pitApplyExecutionReport_def frame_result reportHook_def
  by (auto simp: guarded_def blocksOnPanic_def native_blocks callbackPanicAccountBlocks_def
      split: prod.split res.split)

lemma retire_callback_answers:
  "fst (pitRetireAccount x account ud w) = Ret (case fst (retireHook x account ud w) of
      Ret d \<Rightarrow> d | Panic p \<Rightarrow> AccountRetirementEvaluationFailed)"
  unfolding pitRetireAccount_def retireHook_def hookOf_def callbackFrame_def
  by (auto simp: guarded_def go_defs split: prod.split res.split)

lemma report_world [simp]: "report msg w = (Ret (), w\<lparr>cg_reports := cg_reports w @ [msg]\<rparr>)"
  by (simp add: report_def modify_def)

lemma guarded_returns: "(\<And>p t. \<exists>v. fst (onPanic p t) = Ret v) \<Longrightarrow> \<exists>v. fst (guarded rn preset body onPanic w) = Ret v"
  by (auto simp: guarded_def split: prod.split res.split)

section \<open>Properties\<close>

text \<open>
  C24: the callbacks fail closed.  Whatever a custom policy does, also when it panics or its
  handle is stale, no callback unwinds into the engine.  A check accepts exactly when the
  policy's hook ran and returned no reject; an adjustment is accepted exactly when its hook
  returned and gave no reject, and its blocks are handed over; a report reports no block exactly
  when its hook returned none; a retirement is accepted exactly when its hook returned that.
\<close>

theorem callbacks_fail_closed:
  "(fst (pitCheckPreTradeStart x ctx ord ud w) = Ret AcceptList \<longleftrightarrow> fst (startHook x ctx ord ud w) = Ret [])
   \<and> (fst (pitPerformPreTradeCheck x ctx ord ud w) = Ret AcceptList \<longleftrightarrow> fst (performHook x ctx ord ud w) = Ret [])
   \<and> (fst (pitCheckPreTradeStartDryRun x ctx ord ud w) = Ret AcceptList
        \<longleftrightarrow> fst (startDryRunHook x ctx ord ud w) = Ret [])
   \<and> (fst (pitPerformPreTradeCheckDryRun x ctx ord ud w) = Ret AcceptList
        \<longleftrightarrow> fst (performDryRunHook x ctx ord ud w) = Ret [])
   \<and> answers x (startHook x ctx ord ud) (pitCheckPreTradeStart x ctx ord ud)
   \<and> answers x (performHook x ctx ord ud) (pitPerformPreTradeCheck x ctx ord ud)
   \<and> (\<exists>blocks r. fst (pitApplyAccountAdjustment x ctx adj ud w) = Ret (blocks, r)
        \<and> (r = AcceptList \<longleftrightarrow> fst (adjustmentHook x ctx adj ud w) = Ret (blocks, [])))
   \<and> (\<exists>r. fst (pitApplyExecutionReport x ctx rep ud w) = Ret r
        \<and> (r = NilBlocks \<longleftrightarrow> fst (reportHook x ctx rep ud w) = Ret []))
   \<and> (\<exists>d. fst (pitRetireAccount x account ud w) = Ret d
        \<and> (d = AccountRetirementAccept \<longleftrightarrow> fst (retireHook x account ud w) = Ret AccountRetirementAccept))
   \<and> (\<exists>u. fst (pitClose x ud w) = Ret u)"
proof (intro conjI)
  obtain r where r: "fst (pitApplyAccountAdjustment x ctx adj ud w) = Ret (case fst (adjustmentHook x ctx adj ud w) of
        Ret (blocks, rejects) \<Rightarrow> (blocks, rejectsResult (bd_push x) rejects) | Panic p \<Rightarrow> ([], r))"
    "r \<noteq> AcceptList"
    using adjustment_callback_answers [of x ctx adj ud w] by blast
  then show "\<exists>blocks r. fst (pitApplyAccountAdjustment x ctx adj ud w) = Ret (blocks, r)
      \<and> (r = AcceptList \<longleftrightarrow> fst (adjustmentHook x ctx adj ud w) = Ret (blocks, []))"
    by (cases "fst (adjustmentHook x ctx adj ud w)") (auto split: prod.split)
  obtain name where "fst (pitApplyExecutionReport x ctx rep ud w) = Ret (case fst (reportHook x ctx rep ud w) of
        Ret bs \<Rightarrow> if bs = [] then NilBlocks else BlockList bs
      | Panic p \<Rightarrow> BlockList (callbackPanicAccountBlocks name (recoveredText x p)))"
    using report_callback_answers [of x ctx rep ud w] by blast
  then show "\<exists>r. fst (pitApplyExecutionReport x ctx rep ud w) = Ret r
      \<and> (r = NilBlocks \<longleftrightarrow> fst (reportHook x ctx rep ud w) = Ret [])"
    by (cases "fst (reportHook x ctx rep ud w)") auto
  show "\<exists>u. fst (pitClose x ud w) = Ret u"
    unfolding pitClose_def by (rule guarded_returns) simp
qed (simp_all add: answers_accept [OF order_callbacks_answer(1)] answers_accept [OF order_callbacks_answer(2)]
    answers_accept [OF order_callbacks_answer(3)] answers_accept [OF order_callbacks_answer(4)]
    order_callbacks_answer retire_callback_answers AccountRetirementAccept_def
    AccountRetirementEvaluationFailed_def split: res.split)

section \<open>Mutations\<close>

text \<open>What a finalizer reports of a closure: success, or failure with the text of the panic.\<close>

definition mutationOutcome where
  "mutationOutcome x msg closure w = (case closure w of
     (Ret u, t) \<Rightarrow> (Ret (True, None), t)
   | (Panic p, t) \<Rightarrow> (Ret (False, if bd_recoversNil x p then None else Some (msg @ bd_format x p)), t))"

lemma guarded_mutation:
  "guarded (bd_recoversNil x) (False, None) (bind closure (\<lambda>_. ret (True, None)))
     (\<lambda>p. ret (False, Some (msg @ bd_format x p))) w = mutationOutcome x msg closure w"
  by (cases "closure w"; cases "fst (closure w)") (simp_all add: guarded_def mutationOutcome_def bind_def ret_def)

lemma mutation_calls:
  assumes "cg_values w h = Some (CallbacksValue c r)"
  shows "pitMutationCommit x h w = mutationOutcome x ''Go mutation commit callback panic: '' (bd_closure x c) w
     \<and> pitMutationRollback x h w = mutationOutcome x ''Go mutation rollback callback panic: '' (bd_closure x r) w
     \<and> pitMutationFree x h w = (Ret (), w\<lparr>cg_values := (cg_values w)(h := None)\<rparr>)"
proof -
  have get: "getCallbacks h w = (Ret (c, r), w)"
    using assms by (simp add: getCallbacks_def bind_def ret_def)
  have run: "guarded rn z (bind (getCallbacks h) k) f w = guarded rn z (k (c, r)) f w" for rn z k f
    by (simp add: guarded_def bind_def get)
  have "pitMutationFree x h w = (Ret (), w\<lparr>cg_values := (cg_values w)(h := None)\<rparr>)"
    using assms by (simp add: pitMutationFree_def guarded_def bind_def)
  then show ?thesis
    unfolding pitMutationCommit_def pitMutationRollback_def run prod.case guarded_mutation by simp
qed

lemma freed_mutation_calls:
  assumes "cg_values w h = None"
  shows "\<exists>m. pitMutationCommit x h w = (Ret (False, m), w)" "\<exists>m. pitMutationRollback x h w = (Ret (False, m), w)"
    "\<exists>ms. pitMutationFree x h w = (Ret (), w\<lparr>cg_reports := cg_reports w @ ms\<rparr>)"
proof -
  have get: "getCallbacks h w = (Panic invalidHandle, w)"
    using assms by (simp add: getCallbacks_def bind_def)
  show "\<exists>m. pitMutationCommit x h w = (Ret (False, m), w)" "\<exists>m. pitMutationRollback x h w = (Ret (False, m), w)"
    by (simp_all add: pitMutationCommit_def pitMutationRollback_def guarded_def bind_def get ret_def)
  have "pitMutationFree x h w = (Ret (), w\<lparr>cg_reports := cg_reports w
      @ (if bd_recoversNil x invalidHandle then [] else [''mutation free callback panicked: '' @ bd_format x invalidHandle])\<rparr>)"
    using assms by (simp add: pitMutationFree_def guarded_def bind_def)
  then show "\<exists>ms. pitMutationFree x h w = (Ret (), w\<lparr>cg_reports := cg_reports w @ ms\<rparr>)" by blast
qed

lemma fresh_handle: "handlesOK w \<Longrightarrow> cg_values w (cg_next w + 1) = None"
  unfolding handlesOK_def by (metis Suc_eq_plus1 not_less_eq_eq order_refl)

text \<open>
  C25: a mutation runs the closures it was pushed with.  A push that succeeds leaves one new
  handle, for exactly that commit and rollback; a push without a callback, or one the engine
  refuses, leaves none.  On such a handle commit and rollback run their own closure, report
  success exactly when it returned, and never unwind; freeing it releases it, once: a later
  call on it runs nothing, reports failure, and releases nothing.
\<close>

theorem mutation_callbacks_exact:
  assumes "handlesOK w" and push: "\<And>h v. \<exists>e t. push h v = (Ret e, t) \<and> cg_values t = cg_values v"
  shows "(case Mutations_Push push commit rollback w of (e, w1) \<Rightarrow>
      if e = Ret None then \<exists>c r h. commit = Some c \<and> rollback = Some r \<and> cg_values w h = None
          \<and> cg_values w1 = (cg_values w)(h \<mapsto> CallbacksValue c r)
      else (\<exists>err. e = Ret (Some err)) \<and> cg_values w1 = cg_values w)
    \<and> (\<forall>c r. cg_values v h = Some (CallbacksValue c r) \<longrightarrow>
        pitMutationCommit x h v = mutationOutcome x ''Go mutation commit callback panic: '' (bd_closure x c) v
      \<and> pitMutationRollback x h v = mutationOutcome x ''Go mutation rollback callback panic: '' (bd_closure x r) v
      \<and> pitMutationFree x h v = (Ret (), v\<lparr>cg_values := (cg_values v)(h := None)\<rparr>))
    \<and> (cg_values v h = None \<longrightarrow>
        (\<exists>m. pitMutationCommit x h v = (Ret (False, m), v)) \<and> (\<exists>m. pitMutationRollback x h v = (Ret (False, m), v))
      \<and> (\<exists>ms. pitMutationFree x h v = (Ret (), v\<lparr>cg_reports := cg_reports v @ ms\<rparr>)))"
proof -
  have pushed: "case Mutations_Push push commit rollback w of (e, w1) \<Rightarrow>
      if e = Ret None then \<exists>c r h. commit = Some c \<and> rollback = Some r \<and> cg_values w h = None
          \<and> cg_values w1 = (cg_values w)(h \<mapsto> CallbacksValue c r)
      else (\<exists>err. e = Ret (Some err)) \<and> cg_values w1 = cg_values w"
  proof (cases "\<exists>c r. commit = Some c \<and> rollback = Some r")
    case True
    then obtain c r where cr: "commit = Some c" "rollback = Some r" by blast
    let ?h = "cg_next w + 1" and ?v = "(cg_values w)(cg_next w + 1 \<mapsto> CallbacksValue c r)"
    obtain e t where t: "push ?h (w\<lparr>cg_next := ?h, cg_values := ?v\<rparr>) = (Ret e, t)" "cg_values t = ?v"
      using push [of ?h "w\<lparr>cg_next := ?h, cg_values := ?v\<rparr>"] by auto
    have dropped: "(cg_values w)(?h := None) = cg_values w"
      using fresh_handle [OF assms(1)] by auto
    show ?thesis
      using t fresh_handle [OF assms(1)] dropped
      by (cases e) (auto simp: Mutations_Push_def NewCallbacks_def NewHandle_def cr bind_def ret_def Let_def)
  next
    case False
    then show ?thesis
      by (cases commit; cases rollback) (auto simp: Mutations_Push_def ret_def)
  qed
  show ?thesis
    using mutation_calls [of v h _ _ x] freed_mutation_calls [of v h x] by (intro conjI pushed) blast+
qed

definition emptyTable :: "(nat, nat, nat, nat) cgo" where
  "emptyTable = \<lparr>cg_next = 0, cg_values = (\<lambda>_. None), cg_lists = 0, cg_reports = [], cg_env = 0\<rparr>"

definition sampleBoundaryOf :: "(nat, nat, nat, nat, unit, unit, unit, unit) boundary" where
  "sampleBoundaryOf = \<lparr>bd_recoversNil = (\<lambda>_. False), bd_push = (\<lambda>_. True), bd_format = (\<lambda>_. ''boom''),
     bd_policy = (\<lambda>_. \<lparr>pm_Close = ret (), pm_Name = ''sample'', pm_CheckPreTradeStart = (\<lambda>_ _. ret []),
       pm_PerformPreTradeCheck = (\<lambda>_ _. ret []), pm_ApplyExecutionReport = (\<lambda>_ _. ret []),
       pm_ApplyAccountAdjustment = (\<lambda>_ _. ret ([], []))\<rparr>),
     bd_checkDryRun = (\<lambda>_ _ _. ret []), bd_performDryRun = (\<lambda>_ _ _. ret []),
     bd_retireAccount = (\<lambda>_ _. ret 0),
     bd_closure = (\<lambda>c. if c = 5 then modify (\<lambda>w. w\<lparr>cg_env := 1\<rparr>) else panic (PanicValue ''x''))\<rparr>"

theorem mutation_callbacks_exact_witness:
  "\<exists>w1. Mutations_Push (\<lambda>_. ret None) (Some 5) (Some 6) emptyTable = (Ret None, w1)
     \<and> cg_values w1 1 = Some (CallbacksValue 5 6)
     \<and> pitMutationCommit sampleBoundaryOf 1 w1 = (Ret (True, None), w1\<lparr>cg_env := 1\<rparr>)
     \<and> pitMutationRollback sampleBoundaryOf 1 w1
         = (Ret (False, Some ''Go mutation rollback callback panic: boom''), w1)"
proof -
  let ?w1 = "emptyTable\<lparr>cg_next := 1, cg_values := (\<lambda>_. None)(1 \<mapsto> CallbacksValue 5 6)\<rparr>"
  have pushed: "Mutations_Push (\<lambda>_. ret None) (Some 5) (Some 6) emptyTable = (Ret None, ?w1)"
    by (simp add: Mutations_Push_def NewCallbacks_def NewHandle_def emptyTable_def go_defs)
  have "handlesOK emptyTable"
    by (simp add: handlesOK_def emptyTable_def)
  then have "pitMutationCommit sampleBoundaryOf 1 ?w1
        = mutationOutcome sampleBoundaryOf ''Go mutation commit callback panic: '' (bd_closure sampleBoundaryOf 5) ?w1
      \<and> pitMutationRollback sampleBoundaryOf 1 ?w1
        = mutationOutcome sampleBoundaryOf ''Go mutation rollback callback panic: '' (bd_closure sampleBoundaryOf 6) ?w1"
    using mutation_callbacks_exact [where w = emptyTable and push = "\<lambda>_. ret None" and v = ?w1 and h = 1
        and x = sampleBoundaryOf] by (simp add: ret_def)
  then show ?thesis
    by (simp add: pushed) (simp add: mutationOutcome_def sampleBoundaryOf_def modify_def panic_def)
qed

end
