(* ===== verification/Client_Engine.thy ===== *)
theory Client_Engine
  imports Callback_Props
begin

text \<open>
  The engine over client-owned types (\<^verbatim>\<open>client_engine.go\<close>): every call boxes the client's
  value in a handle, gives the engine a view whose user data is that handle, and releases the
  handle when the callbacks can no longer need it; a started request keeps it until it is
  executed or closed.
\<close>

section \<open>Payload handles\<close>

record clientPayloadHandle =
  ph_handle :: nat
  ph_done :: bool

definition newClientPayloadHandle ::
    "('o, 'r, 'a) goValue \<Rightarrow> (('o, 'r, 'a, 'e) cgo, clientPayloadHandle) go" where
  "newClientPayloadHandle v = bind (NewHandle v) (\<lambda>h. ret \<lparr>ph_handle = h, ph_done = False\<rparr>)"

text \<open>
  \<^verbatim>\<open>release\<close>: nothing for a nil handle; \<^verbatim>\<open>sync.Once\<close> counts the call as done
  before it runs the deletion.
\<close>

definition payloadRelease ::
    "clientPayloadHandle option \<Rightarrow> (('o, 'r, 'a, 'e) cgo, unit) go \<times> clientPayloadHandle option" where
  "payloadRelease p = (case p of
      None \<Rightarrow> (ret (), None)
    | Some q \<Rightarrow> (if ph_done q then ret () else handleDelete (ph_handle q), Some (q\<lparr>ph_done := True\<rparr>)))"

definition payloadsRelease :: "clientPayloadHandle list \<Rightarrow> (('o, 'r, 'a, 'e) cgo, unit) go" where
  "payloadsRelease ps = foldr (\<lambda>p k. bind (fst (payloadRelease (Some p))) (\<lambda>_. k)) ps (ret ())"

text \<open>
  \<open>view\<close> is the client's own method \<^verbatim>\<open>EngineOrder\<close>, \<^verbatim>\<open>EngineExecutionReport\<close> or
  \<^verbatim>\<open>EngineAccountAdjustment\<close>; it runs before the value is boxed.
\<close>

definition newClientPayload ::
    "('p \<Rightarrow> ('o, 'r, 'a) goValue) \<Rightarrow> ('p \<Rightarrow> (('o, 'r, 'a, 'e) cgo, 'b engineValue) go) \<Rightarrow> 'p
      \<Rightarrow> (('o, 'r, 'a, 'e) cgo, 'b engineValue \<times> clientPayloadHandle) go" where
  "newClientPayload box view x =
     bind (view x) (\<lambda>v. bind (newClientPayloadHandle (box x)) (\<lambda>p.
       ret (v\<lparr>ev_userData := ph_handle p\<rparr>, p)))"

definition newClientOrderPayload where "newClientOrderPayload = newClientPayload OrderValue"
definition newClientReportPayload where "newClientReportPayload = newClientPayload ReportValue"
definition newClientAdjustmentPayload where "newClientAdjustmentPayload = newClientPayload AdjustmentValue"

fun newClientAdjustmentPayloads ::
    "('a \<Rightarrow> (('o, 'r, 'a, 'e) cgo, 'j engineValue) go) \<Rightarrow> 'a list
      \<Rightarrow> (('o, 'r, 'a, 'e) cgo, 'j engineValue list \<times> clientPayloadHandle list) go" where
  "newClientAdjustmentPayloads view [] = ret ([], [])"
| "newClientAdjustmentPayloads view (x # xs) =
     bind (newClientAdjustmentPayload view x) (\<lambda>(v, p).
     bind (newClientAdjustmentPayloads view xs) (\<lambda>(vs, ps). ret (v # vs, p # ps)))"

section \<open>The calls\<close>

text \<open>
  \<open>engineCall\<close> is the method of the wrapped \<^verbatim>\<open>Engine\<close>, with the callbacks the native
  library makes inside it.
\<close>

definition Client_ExecutePreTrade where
  "Client_ExecutePreTrade view engineCall ord =
     bind (newClientOrderPayload view ord) (\<lambda>(v, p).
       deferring (engineCall v) (fst (payloadRelease (Some p))))"

definition Client_ApplyDropCopy where
  "Client_ApplyDropCopy view engineCall ord =
     bind (newClientOrderPayload view ord) (\<lambda>(v, p).
       deferring (engineCall v) (fst (payloadRelease (Some p))))"

definition Client_ApplyExecutionReport where
  "Client_ApplyExecutionReport view engineCall rep =
     bind (newClientReportPayload view rep) (\<lambda>(v, p).
       deferring (engineCall v) (fst (payloadRelease (Some p))))"

definition Client_ApplyAccountAdjustment where
  "Client_ApplyAccountAdjustment view engineCall account adjustments =
     bind (newClientAdjustmentPayloads view adjustments) (\<lambda>(vs, ps).
       deferring (engineCall (account :: 64 word) vs) (payloadsRelease ps))"

text \<open>A request is nil once it is closed; \<open>'q\<close> stands for the \<^verbatim>\<open>pretrade.Request\<close>.  A nil
  slice of rejects is told from an empty one, as the code does.\<close>

record 'q clientRequest =
  cq_request :: "'q option"
  cq_payload :: "clientPayloadHandle option"

definition newClientRequest :: "'q \<Rightarrow> clientPayloadHandle \<Rightarrow> 'q clientRequest" where
  "newClientRequest q p = \<lparr>cq_request = Some q, cq_payload = Some p\<rparr>"

definition Client_StartPreTrade ::
    "('o \<Rightarrow> (('o, 'r, 'a, 'e) cgo, 'b engineValue) go)
      \<Rightarrow> ('b engineValue \<Rightarrow> (('o, 'r, 'a, 'e) cgo, 'q \<times> reject list option \<times> err) go) \<Rightarrow> 'o
      \<Rightarrow> (('o, 'r, 'a, 'e) cgo, 'q clientRequest option \<times> reject list option \<times> err) go" where
  "Client_StartPreTrade view engineCall ord =
     bind (newClientOrderPayload view ord) (\<lambda>(v, p).
     bind (engineCall v) (\<lambda>(request, rejects, e).
       if e \<noteq> None \<or> rejects \<noteq> None then
         bind (fst (payloadRelease (Some p))) (\<lambda>_. ret (None, rejects, e))
       else ret (Some (newClientRequest request p), None, None)))"

text \<open>
  The methods of a request, each run under its mutex.  \<open>reqClose\<close> and \<open>reqExecute\<close> are the
  methods of the wrapped request.  They return the request as it is afterwards; \<open>Inl\<close> is
  \<^verbatim>\<open>ErrClientRequestClosed\<close>.
\<close>

datatype clientRequestClosed = ErrClientRequestClosed

definition ClientRequest_Close ::
    "('q \<Rightarrow> (('o, 'r, 'a, 'e) cgo, unit) go) \<Rightarrow> 'q clientRequest
      \<Rightarrow> (('o, 'r, 'a, 'e) cgo, 'q clientRequest) go" where
  "ClientRequest_Close reqClose r =
     bind (case cq_request r of None \<Rightarrow> ret () | Some q \<Rightarrow> reqClose q) (\<lambda>_.
       case payloadRelease (cq_payload r) of (release, p) \<Rightarrow>
         bind release (\<lambda>_. ret \<lparr>cq_request = None, cq_payload = p\<rparr>))"

definition ClientRequest_Execute ::
    "('q \<Rightarrow> (('o, 'r, 'a, 'e) cgo, 'x) go) \<Rightarrow> 'q clientRequest
      \<Rightarrow> (('o, 'r, 'a, 'e) cgo, (clientRequestClosed + 'x) \<times> 'q clientRequest) go" where
  "ClientRequest_Execute reqExecute r =
     (case cq_request r of
        None \<Rightarrow> ret (Inl ErrClientRequestClosed, r)
      | Some q \<Rightarrow> bind (reqExecute q) (\<lambda>x. case payloadRelease (cq_payload r) of (release, p) \<Rightarrow>
          bind release (\<lambda>_. ret (Inr x, r\<lparr>cq_payload := p\<rparr>))))"

text \<open>A sequence of method calls on one request, \<open>True\<close> for \<^verbatim>\<open>Execute\<close>, with the answers.\<close>

fun clientRequestCalls where
  "clientRequestCalls reqClose reqExecute [] r = ret ([], r)"
| "clientRequestCalls reqClose reqExecute (execute # cs) r =
     (if execute then bind (ClientRequest_Execute reqExecute r) (\<lambda>(a, r').
        bind (clientRequestCalls reqClose reqExecute cs r') (\<lambda>(as, r''). ret (Some a # as, r'')))
      else bind (ClientRequest_Close reqClose r) (\<lambda>r'.
        bind (clientRequestCalls reqClose reqExecute cs r') (\<lambda>(as, r''). ret (None # as, r''))))"

text \<open>
  The wrapped request itself (\<^verbatim>\<open>pretrade/request.go\<close> over its cgo wrapper).  The
  environment keeps the native calls made so far; \<open>stage\<close> is the native main stage with the
  callbacks made inside it, which answers with the status and the out-parameters.
\<close>

record 'f clientNative =
  cn_calls :: "native_call list"
  cn_env :: 'f

definition natively :: "native_call list \<Rightarrow> (('o, 'r, 'a, 'f clientNative) cgo, unit) go" where
  "natively cs = modify (\<lambda>w. w\<lparr>cg_env := (cg_env w)\<lparr>cn_calls := cn_calls (cg_env w) @ cs\<rparr>\<rparr>)"

definition wrappedClose :: "request \<Rightarrow> (('o, 'r, 'a, 'f clientNative) cgo, unit) go" where
  "wrappedClose q = natively (snd (Request_Close q))"

type_synonym stageAnswer = "c_status \<times> handle option \<times> reject list option \<times> string"

definition wrappedExecuteNative ::
    "(handle \<Rightarrow> (('o, 'r, 'a, 'f clientNative) cgo, stageAnswer) go) \<Rightarrow> handle
      \<Rightarrow> (('o, 'r, 'a, 'f clientNative) cgo, handle option \<times> reject list option \<times> err) go" where
  "wrappedExecuteNative stage h = bind (natively [PretradePreTradeRequestExecute h]) (\<lambda>_.
     bind (stage h) (\<lambda>(status, rh, rejects, outError). case status of
         StatusPassed \<Rightarrow> ret (rh, None, None)
       | StatusRejected \<Rightarrow> (case rejects of
           None \<Rightarrow> ret (None, None, Some (Text ''order rejected, but no reject reason provided''))
         | Some rs \<Rightarrow> ret (None, Some rs, None))
       | StatusError \<Rightarrow> ret (None, None, Some (Foreign outError))
       | StatusOther n \<Rightarrow> bind (natively ((case rh of None \<Rightarrow> [] | Some r \<Rightarrow> [DestroyPretradePreTradeReservation r])
             @ [DestroyPretradePreTradeRequest h])) (\<lambda>_. ret (None, None, Some (Text ''unexpected status'')))))"

definition wrappedExecute ::
    "(handle \<Rightarrow> (('o, 'r, 'a, 'f clientNative) cgo, stageAnswer) go) \<Rightarrow> request
      \<Rightarrow> (('o, 'r, 'a, 'f clientNative) cgo, reservation option \<times> reject list \<times> err) go" where
  "wrappedExecute stage q = (case req_handle q of
      None \<Rightarrow> ret (None, [], Some (Sentinel ErrRequestClosed))
    | Some h \<Rightarrow> bind (wrappedExecuteNative stage h) (\<lambda>(rh, rejects, e).
        ret (if e \<noteq> None then (None, [], e)
             else case rejects of
               Some rs \<Rightarrow> (case NewListFromHandle rs of
                   Inl le \<Rightarrow> (None, [], wrapf ''failed to create reject list for rejected order: '' le)
                 | Inr rs' \<Rightarrow> (None, rs', None))
             | None \<Rightarrow> (Some (NewReservationFromHandle rh), [], None))))"

section \<open>Adapters and payloads\<close>

text \<open>A policy of the engine that is a client policy behind one of the two adapters.\<close>

definition adapts where
  "adapts p policy \<longleftrightarrow> (\<exists>rn d. policy = safeClientPreTradePolicy rn d p) \<or> policy = unsafeFastClientPreTradePolicy p"

lemma safe_payload_live: "cg_values w h = Some v \<Longrightarrow> 0 < h \<Longrightarrow> safePayload rn cast h w = (Ret (cast v), w)"
  by (simp add: safePayload_def guarded_def bind_def ret_def)

lemma safe_payload_dead: "cg_values w h = None \<Longrightarrow> safePayload rn cast h w = (Ret None, w)"
  by (simp add: safePayload_def guarded_def bind_def ret_def)

lemma fast_payload:
  "unsafeFastPayload cast h w = (case cg_values w h of None \<Rightarrow> (Panic invalidHandle, w)
     | Some v \<Rightarrow> (case cast v of None \<Rightarrow> (Panic failedAssertion, w) | Some x \<Rightarrow> (Ret x, w)))"
  by (simp add: unsafeFastPayload_def bind_def panic_def ret_def handleValue_def split: option.split)

lemma hook_of_policy:
  "cg_values w ud = Some (PolicyValue pt) \<Longrightarrow> hookOf ud hook w = hook pt w"
  by (simp add: hookOf_def bind_def get_pre_trade)

text \<open>What a hook of an adapted policy does in a world, for a value with that handle.\<close>

lemma adapted_order_hooks:
  assumes "adapts p policy" and "handlesOK w" and "ev_userData ord = h"
  shows "cg_values w h = Some (OrderValue v) \<Longrightarrow>
      pm_CheckPreTradeStart policy ctx ord w = pm_CheckPreTradeStart p ctx v w
      \<and> pm_PerformPreTradeCheck policy ctx ord w = pm_PerformPreTradeCheck p ctx v w"
    and "\<forall>v. cg_values w h \<noteq> Some (OrderValue v) \<Longrightarrow>
      (\<exists>r. pm_CheckPreTradeStart policy ctx ord w = (r, w) \<and> r \<noteq> Ret [])
      \<and> (\<exists>r. pm_PerformPreTradeCheck policy ctx ord w = (r, w) \<and> r \<noteq> Ret [])"
proof -
  assume v: "cg_values w h = Some (OrderValue v)"
  then have "0 < h" using assms(2) by (auto simp: handlesOK_def)
  then show "pm_CheckPreTradeStart policy ctx ord w = pm_CheckPreTradeStart p ctx v w
      \<and> pm_PerformPreTradeCheck policy ctx ord w = pm_PerformPreTradeCheck p ctx v w"
    using assms v by (auto simp: adapts_def safeClientPreTradePolicy_def unsafeFastClientPreTradePolicy_def
        safe_payload_live fast_payload bind_def)
next
  assume none: "\<forall>v. cg_values w h \<noteq> Some (OrderValue v)"
  have safe: "safePayload rn asOrder h w = (Ret None, w)" for rn
  proof (cases "cg_values w h")
    case None then show ?thesis by (rule safe_payload_dead)
  next
    case (Some v)
    then have "0 < h" using assms(2) by (auto simp: handlesOK_def)
    moreover have "asOrder v = None" using none Some by (cases v) auto
    ultimately show ?thesis using Some by (simp add: safe_payload_live)
  qed
  have fast: "\<exists>q. unsafeFastPayload asOrder h w = (Panic q, w)"
  proof (cases "cg_values w h")
    case (Some v)
    then have "asOrder v = None" using none by (cases v) auto
    then show ?thesis using Some by (simp add: fast_payload)
  qed (simp add: fast_payload)
  show "(\<exists>r. pm_CheckPreTradeStart policy ctx ord w = (r, w) \<and> r \<noteq> Ret [])
      \<and> (\<exists>r. pm_PerformPreTradeCheck policy ctx ord w = (r, w) \<and> r \<noteq> Ret [])"
    using assms safe fast by (auto simp: adapts_def safeClientPreTradePolicy_def
        unsafeFastClientPreTradePolicy_def bind_def ret_def clientPayloadMismatchReject_def)
qed

section \<open>Lifetime of a payload\<close>

fun isPayload :: "('o, 'r, 'a) goValue \<Rightarrow> bool" where
  "isPayload (OrderValue x) = True"
| "isPayload (ReportValue x) = True"
| "isPayload (AdjustmentValue x) = True"
| "isPayload _ = False"

text \<open>
  What a call relies on: the code it calls does not release a payload that it was not given to
  release.
\<close>

definition keepsPayloads :: "(('o, 'r, 'a, 'e) cgo, 'x) go \<Rightarrow> bool" where
  "keepsPayloads m \<longleftrightarrow> (\<forall>w h v. cg_values w h = Some v \<and> isPayload v \<longrightarrow> cg_values (snd (m w)) h = Some v)"

lemma keepsPayloadsD:
  "keepsPayloads m \<Longrightarrow> cg_values w h = Some v \<Longrightarrow> isPayload v \<Longrightarrow> m w = (r, t) \<Longrightarrow> cg_values t h = Some v"
  unfolding keepsPayloads_def by (metis snd_conv)

definition boxed :: "('o, 'r, 'a) goValue \<Rightarrow> ('o, 'r, 'a, 'e) cgo \<Rightarrow> ('o, 'r, 'a, 'e) cgo" where
  "boxed v w = w\<lparr>cg_next := cg_next w + 1, cg_values := (cg_values w)(cg_next w + 1 \<mapsto> v)\<rparr>"

definition released :: "nat \<Rightarrow> ('o, 'r, 'a, 'e) cgo \<Rightarrow> ('o, 'r, 'a, 'e) cgo" where
  "released h w = w\<lparr>cg_values := (cg_values w)(h := None)\<rparr>"

lemma boxed_simps [simp]:
  "cg_values (boxed v w) = (cg_values w)(cg_next w + 1 \<mapsto> v)" "cg_next (boxed v w) = cg_next w + 1"
  "cg_values (released h w) = (cg_values w)(h := None)" "cg_next (released h w) = cg_next w"
  by (simp_all add: boxed_def released_def)

lemma new_payload: "view x w = (Ret v, w0) \<Longrightarrow>
    newClientPayload box view x w =
      (Ret (v\<lparr>ev_userData := cg_next w0 + 1\<rparr>, \<lparr>ph_handle = cg_next w0 + 1, ph_done = False\<rparr>), boxed (box x) w0)"
  by (simp add: newClientPayload_def newClientPayloadHandle_def NewHandle_def boxed_def bind_def ret_def Let_def)

lemma deferred_release:
  assumes "keepsPayloads m" and "cg_values w h = Some v" and "isPayload v"
  shows "deferring m (fst (payloadRelease (Some \<lparr>ph_handle = h, ph_done = False\<rparr>))) w
    = (case m w of (r, t) \<Rightarrow> (r, released h t))"
proof -
  have "cg_values (snd (m w)) h = Some v"
    using assms by (simp add: keepsPayloads_def)
  then show ?thesis
    by (cases "m w") (simp add: deferring_def payloadRelease_def released_def)
qed

lemma order_call_scoped:
  assumes "keepsPayloads (engineCall (v\<lparr>ev_userData := cg_next w0 + 1\<rparr>))" and "isPayload (box x)"
    and "view x w = (Ret v, w0)"
  shows "bind (newClientPayload box view x) (\<lambda>(v, p). deferring (engineCall v) (fst (payloadRelease (Some p)))) w
    = (case engineCall (v\<lparr>ev_userData := cg_next w0 + 1\<rparr>) (boxed (box x) w0) of
         (r, t) \<Rightarrow> (r, released (cg_next w0 + 1) t))"
  using assms deferred_release [of "engineCall (v\<lparr>ev_userData := cg_next w0 + 1\<rparr>)" "boxed (box x) w0"
      "cg_next w0 + 1" "box x"]
  by (simp add: bind_def new_payload)

lemma start_scoped:
  assumes "keepsPayloads (engineCall (v\<lparr>ev_userData := cg_next w0 + 1\<rparr>))" and "view x w = (Ret v, w0)"
  shows "Client_StartPreTrade view engineCall x w
    = (case engineCall (v\<lparr>ev_userData := cg_next w0 + 1\<rparr>) (boxed (OrderValue x) w0) of
         (Ret (q, rejects, e), t) \<Rightarrow> if e \<noteq> None \<or> rejects \<noteq> None then (Ret (None, rejects, e), released (cg_next w0 + 1) t)
           else (Ret (Some (newClientRequest q \<lparr>ph_handle = cg_next w0 + 1, ph_done = False\<rparr>), None, None), t)
       | (Panic p, t) \<Rightarrow> (Panic p, t))"
proof -
  obtain r t where t: "engineCall (v\<lparr>ev_userData := cg_next w0 + 1\<rparr>) (boxed (OrderValue x) w0) = (r, t)" by fastforce
  have "cg_values t (cg_next w0 + 1) = Some (OrderValue x)"
    using assms(1) t unfolding keepsPayloads_def
    by (metis boxed_simps(1) fun_upd_same isPayload.simps(1) snd_conv)
  then show ?thesis
    by (cases r) (auto simp: Client_StartPreTrade_def newClientOrderPayload_def bind_def ret_def
        new_payload [of view x w v w0, OF assms(2)] t payloadRelease_def released_def simp del: One_nat_def)
qed

text \<open>
  The payload of a client call lives exactly as long as its callbacks need it.  An order
  call boxes the order under a fresh handle, hands the engine the client's own view with that
  handle as user data, and releases it before it returns or unwinds; an accepted start keeps it
  for the request, a refused one releases it.  As long as the handle stands for the order, both
  adapters give the client's policy this very order; in every world where it does not, also
  after the release, the hook is not run and nothing is accepted.
\<close>

lemma client_payload_scoped:
  assumes "handlesOK w0" and "view ord w = (Ret v, w0)"
    and calls: "\<And>u. keepsPayloads (engineCall u)" "\<And>u. keepsPayloads (startCall u)"
    and "adapts p policy"
  shows "let h = cg_next w0 + 1; u = v\<lparr>ev_userData := h\<rparr>; w1 = boxed (OrderValue ord) w0 in
      cg_values w0 h = None
    \<and> Client_ExecutePreTrade view engineCall ord w = (case engineCall u w1 of (r, t) \<Rightarrow> (r, released h t))
    \<and> Client_ApplyDropCopy view engineCall ord w = (case engineCall u w1 of (r, t) \<Rightarrow> (r, released h t))
    \<and> Client_StartPreTrade view startCall ord w = (case startCall u w1 of
         (Ret (q, rejects, e), t) \<Rightarrow> if e \<noteq> None \<or> rejects \<noteq> None then (Ret (None, rejects, e), released h t)
           else (Ret (Some (newClientRequest q \<lparr>ph_handle = h, ph_done = False\<rparr>), None, None), t)
       | (Panic p, t) \<Rightarrow> (Panic p, t))
    \<and> (\<forall>t ctx. handlesOK t \<longrightarrow>
        (if cg_values t h = Some (OrderValue ord)
         then pm_CheckPreTradeStart policy ctx u t = pm_CheckPreTradeStart p ctx ord t
            \<and> pm_PerformPreTradeCheck policy ctx u t = pm_PerformPreTradeCheck p ctx ord t
         else cg_values t h = None \<longrightarrow>
            (\<exists>r. pm_CheckPreTradeStart policy ctx u t = (r, t) \<and> r \<noteq> Ret [])
            \<and> (\<exists>r. pm_PerformPreTradeCheck policy ctx u t = (r, t) \<and> r \<noteq> Ret [])))"
proof -
  let ?h = "cg_next w0 + 1" let ?u = "v\<lparr>ev_userData := ?h\<rparr>"
  have hooks: "if cg_values t ?h = Some (OrderValue ord)
      then pm_CheckPreTradeStart policy ctx ?u t = pm_CheckPreTradeStart p ctx ord t
         \<and> pm_PerformPreTradeCheck policy ctx ?u t = pm_PerformPreTradeCheck p ctx ord t
      else cg_values t ?h = None \<longrightarrow>
         (\<exists>r. pm_CheckPreTradeStart policy ctx ?u t = (r, t) \<and> r \<noteq> Ret [])
         \<and> (\<exists>r. pm_PerformPreTradeCheck policy ctx ?u t = (r, t) \<and> r \<noteq> Ret [])"
    if "handlesOK t" for t ctx
    using adapted_order_hooks [OF assms(5) that, of ?u ?h] by simp
  show ?thesis
    unfolding Let_def
    using fresh_handle [OF assms(1)] hooks
      order_call_scoped [where engineCall = engineCall and box = OrderValue and view = view and x = ord and w = w, OF calls(1) _ assms(2)] start_scoped [where engineCall = startCall and view = view and x = ord and w = w, OF calls(2) assms(2)]
    by (simp add: Client_ExecutePreTrade_def Client_ApplyDropCopy_def newClientOrderPayload_def del: One_nat_def)
qed

section \<open>Adjustments\<close>

lemma released_all:
  "distinct (map ph_handle ps) \<Longrightarrow> \<forall>p \<in> set ps. \<not> ph_done p \<and> cg_values w (ph_handle p) \<noteq> None \<Longrightarrow>
     payloadsRelease ps w = (Ret (), w\<lparr>cg_values := (\<lambda>h. if h \<in> ph_handle ` set ps then None else cg_values w h)\<rparr>)"
proof (induction ps arbitrary: w)
  case (Cons p ps)
  obtain v where v: "cg_values w (ph_handle p) = Some v" using Cons.prems(2) by auto
  have "payloadsRelease ps (w\<lparr>cg_values := (cg_values w)(ph_handle p := None)\<rparr>)
      = (Ret (), w\<lparr>cg_values := (\<lambda>h. if h \<in> ph_handle ` set (p # ps) then None else cg_values w h)\<rparr>)"
    using Cons.prems by (subst Cons.IH) (auto simp: image_iff intro!: cgo.fold_congs)
  then show ?case
    using Cons.prems v by (simp add: payloadsRelease_def payloadRelease_def bind_def)
qed (simp add: payloadsRelease_def ret_def)

lemma boxed_adjustments:
  assumes "\<And>x u. x \<in> set xs \<Longrightarrow> view x u = (Ret (f x), u)"
  shows "\<exists>vs ps w1. newClientAdjustmentPayloads view xs w = (Ret (vs, ps), w1)
    \<and> map ph_handle ps = map (\<lambda>i. cg_next w + 1 + i) [0..<length xs] \<and> (\<forall>p \<in> set ps. \<not> ph_done p)
    \<and> vs = map2 (\<lambda>x p. (f x)\<lparr>ev_userData := ph_handle p\<rparr>) xs ps
    \<and> (\<forall>h. cg_values w1 h = (if cg_next w < h \<and> h \<le> cg_next w + length xs
         then Some (AdjustmentValue (xs ! (h - cg_next w - 1))) else cg_values w h))"
  using assms
proof (induction xs arbitrary: w)
  case (Cons x xs)
  let ?b = "boxed (AdjustmentValue x) w"
  obtain vs ps w1 where ih: "newClientAdjustmentPayloads view xs ?b = (Ret (vs, ps), w1)"
      "map ph_handle ps = map (\<lambda>i. cg_next ?b + 1 + i) [0..<length xs]" "\<forall>p \<in> set ps. \<not> ph_done p"
      "vs = map2 (\<lambda>x p. (f x)\<lparr>ev_userData := ph_handle p\<rparr>) xs ps"
      "\<forall>h. cg_values w1 h = (if cg_next ?b < h \<and> h \<le> cg_next ?b + length xs
         then Some (AdjustmentValue (xs ! (h - cg_next ?b - 1))) else cg_values ?b h)"
    using Cons.IH [of ?b] Cons.prems by (metis list.set_intros(2))
  let ?p = "\<lparr>ph_handle = cg_next w + 1, ph_done = False\<rparr>"
  have "newClientAdjustmentPayload view x w = (Ret ((f x)\<lparr>ev_userData := cg_next w + 1\<rparr>, ?p), ?b)"
    unfolding newClientAdjustmentPayload_def by (rule new_payload) (simp add: Cons.prems)
  then have "newClientAdjustmentPayloads view (x # xs) w
      = (Ret ((f x)\<lparr>ev_userData := cg_next w + 1\<rparr> # vs, ?p # ps), w1)"
    using ih(1) by (simp add: bind_def ret_def)
  moreover have "map ph_handle (?p # ps) = map (\<lambda>i. cg_next w + 1 + i) [0..<length (x # xs)]"
    using ih(2) by (simp add: upt_conv_Cons map_Suc_upt [symmetric] del: upt_Suc)
  moreover have "cg_values w1 h = (if cg_next w < h \<and> h \<le> cg_next w + length (x # xs)
      then Some (AdjustmentValue ((x # xs) ! (h - cg_next w - 1))) else cg_values w h)" for h
    using ih(5) [rule_format, of h] by (auto simp: nth_Cons' Suc_le_eq)
  ultimately show ?case
    using ih(3,4) by (intro exI [of _ "(f x)\<lparr>ev_userData := cg_next w + 1\<rparr> # vs"] exI [of _ "?p # ps"] exI [of _ w1]) simp
qed (auto simp: ret_def)

text \<open>
  The payloads of a batch, in a client whose views return: one fresh handle per adjustment, in
  order, all live during the call and all released after it, whether it returns or panics.
\<close>

lemma adjustment_payloads_scoped:
  assumes "\<And>x u. x \<in> set xs \<Longrightarrow> view x u = (Ret (f x), u)" and "\<And>vs. keepsPayloads (engineCall account vs)"
  shows "\<exists>vs w1. map ev_userData vs = map (\<lambda>i. cg_next w + 1 + i) [0..<length xs]
    \<and> (\<forall>i < length xs. cg_values w1 (ev_userData (vs ! i)) = Some (AdjustmentValue (xs ! i)))
    \<and> Client_ApplyAccountAdjustment view engineCall account xs w = (case engineCall account vs w1 of
        (r, t) \<Rightarrow> (r, t\<lparr>cg_values := (\<lambda>h. if cg_next w < h \<and> h \<le> cg_next w + length xs then None else cg_values t h)\<rparr>))"
proof -
  obtain vs ps w1 where b: "newClientAdjustmentPayloads view xs w = (Ret (vs, ps), w1)"
      "map ph_handle ps = map (\<lambda>i. cg_next w + 1 + i) [0..<length xs]" "\<forall>p \<in> set ps. \<not> ph_done p"
      "vs = map2 (\<lambda>x p. (f x)\<lparr>ev_userData := ph_handle p\<rparr>) xs ps"
      "\<forall>h. cg_values w1 h = (if cg_next w < h \<and> h \<le> cg_next w + length xs
         then Some (AdjustmentValue (xs ! (h - cg_next w - 1))) else cg_values w h)"
    using boxed_adjustments [of xs view f w] assms(1) by blast
  have len: "length ps = length xs" using b(2) by (metis length_map length_upt minus_nat.diff_0)
  have ud: "map ev_userData vs = map ph_handle ps"
    using len by (simp add: b(4) list_eq_iff_nth_eq)
  have at: "ph_handle (ps ! i) = cg_next w + 1 + i" if "i < length xs" for i
    using b(2) len that by (metis add_0 length_upt minus_nat.diff_0 nth_map nth_upt)
  have live: "cg_values w1 (ph_handle (ps ! i)) = Some (AdjustmentValue (xs ! i))" if "i < length xs" for i
    using b(5) at [OF that] that by simp
  have hs: "ph_handle ` set ps = {h. cg_next w < h \<and> h \<le> cg_next w + length xs}"
  proof -
    have "ph_handle ` set ps = (\<lambda>i. cg_next w + 1 + i) ` {0..<length xs}"
      by (metis b(2) image_set set_upt)
    also have "\<dots> = {h. cg_next w < h \<and> h \<le> cg_next w + length xs}"
    proof (intro set_eqI iffI)
      fix h assume "h \<in> {h. cg_next w < h \<and> h \<le> cg_next w + length xs}"
      then have "h = cg_next w + 1 + (h - cg_next w - 1)" "h - cg_next w - 1 \<in> {0..<length xs}" by auto
      then show "h \<in> (\<lambda>i. cg_next w + 1 + i) ` {0..<length xs}" by (rule image_eqI)
    qed auto
    finally show ?thesis .
  qed
  obtain r t where t: "engineCall account vs w1 = (r, t)" by fastforce
  have kept: "cg_values t (ph_handle p) \<noteq> None" if "p \<in> set ps" for p
  proof -
    obtain i where i: "i < length xs" "p = ps ! i" using \<open>p \<in> set ps\<close> len by (auto simp: in_set_conv_nth)
    have "cg_values t (ph_handle (ps ! i)) = Some (AdjustmentValue (xs ! i))"
      by (rule keepsPayloadsD [OF assms(2) live [OF i(1)] _ t]) simp
    then show ?thesis using i(2) by simp
  qed
  have "distinct (map ph_handle ps)"
    by (simp add: b(2) distinct_map inj_on_def)
  then have "payloadsRelease ps t = (Ret (), t\<lparr>cg_values := (\<lambda>h. if cg_next w < h \<and> h \<le> cg_next w + length xs
      then None else cg_values t h)\<rparr>)"
    using b(3) kept hs by (subst released_all) auto
  then have "Client_ApplyAccountAdjustment view engineCall account xs w = (case engineCall account vs w1 of
        (r, t) \<Rightarrow> (r, t\<lparr>cg_values := (\<lambda>h. if cg_next w < h \<and> h \<le> cg_next w + length xs then None else cg_values t h)\<rparr>))"
    by (simp add: Client_ApplyAccountAdjustment_def bind_def b(1) deferring_def t)
  moreover have "\<forall>i < length xs. cg_values w1 (ev_userData (vs ! i)) = Some (AdjustmentValue (xs ! i))"
  proof (intro allI impI)
    fix i assume i: "i < length xs"
    have "ev_userData (vs ! i) = ph_handle (ps ! i)"
      using arg_cong [OF ud, of "\<lambda>l. l ! i"] i len by (simp add: b(4))
    then show "cg_values w1 (ev_userData (vs ! i)) = Some (AdjustmentValue (xs ! i))"
      using live [OF i] by simp
  qed
  ultimately show ?thesis
    using ud b(2) by (intro exI [of _ vs] exI [of _ w1]) (simp only: simp_thms)
qed

section \<open>Requests\<close>

text \<open>
  The calls a request makes on the request it wraps return, leave payloads that are not theirs
  alone, and make handles under new numbers only.
\<close>

definition respectsPayloads :: "(('o, 'r, 'a, 'e) cgo, 'x) go \<Rightarrow> bool" where
  "respectsPayloads m \<longleftrightarrow> (\<forall>w. (\<exists>x t. m w = (Ret x, t) \<and> cg_next w \<le> cg_next t
      \<and> (\<forall>h v. cg_values w h = Some v \<and> isPayload v \<longrightarrow> cg_values t h = Some v)
      \<and> (\<forall>h \<le> cg_next w. cg_values w h = None \<longrightarrow> cg_values t h = None)))"

lemma respectsPayloadsE:
  assumes "respectsPayloads m"
  obtains x t where "m w = (Ret x, t)" "cg_next w \<le> cg_next t"
    "\<And>h v. cg_values w h = Some v \<Longrightarrow> isPayload v \<Longrightarrow> cg_values t h = Some v"
    "\<And>h. h \<le> cg_next w \<Longrightarrow> cg_values w h = None \<Longrightarrow> cg_values t h = None"
  using assms unfolding respectsPayloads_def by blast

text \<open>A request whose payload is released; \<open>q\<close> is absent once it is closed.\<close>

definition spentRequest :: "nat \<Rightarrow> 'q option \<Rightarrow> 'q clientRequest" where
  "spentRequest h q = \<lparr>cq_request = q, cq_payload = Some \<lparr>ph_handle = h, ph_done = True\<rparr>\<rparr>"

text \<open>
  A close has no answer, and an execution answers \<^verbatim>\<open>ErrClientRequestClosed\<close> exactly when a
  close came before it.
\<close>

definition closedAnswers :: "bool list \<Rightarrow> (clientRequestClosed + 'x) option list \<Rightarrow> bool \<Rightarrow> bool" where
  "closedAnswers calls as wasOpen \<longleftrightarrow> length as = length calls \<and> (\<forall>i < length calls.
     (as ! i = None \<longleftrightarrow> \<not> calls ! i)
     \<and> (as ! i = Some (Inl ErrClientRequestClosed) \<longleftrightarrow> calls ! i \<and> (\<not> wasOpen \<or> (\<exists>j < i. \<not> calls ! j))))"

lemma closed_answers_Nil: "closedAnswers [] [] b"
  by (simp add: closedAnswers_def)

lemma closed_answers_Close: "closedAnswers cs as False \<Longrightarrow> closedAnswers (False # cs) (None # as) b"
  by (auto simp: closedAnswers_def All_less_Suc2 Ex_less_Suc2)

lemma closed_answers_Execute:
  "closedAnswers cs as b \<Longrightarrow> (a = Inl ErrClientRequestClosed \<longleftrightarrow> \<not> b)
     \<Longrightarrow> closedAnswers (True # cs) (Some a # as) b"
  by (auto simp: closedAnswers_def All_less_Suc2 Ex_less_Suc2)

lemma spent_calls:
  assumes "\<And>q. respectsPayloads (reqClose q)" and "\<And>q. respectsPayloads (reqExecute q)"
    and "cg_values w h = None" and "h \<le> cg_next w"
  shows "\<exists>as r t. clientRequestCalls reqClose reqExecute calls (spentRequest h q) w = (Ret (as, r), t)
    \<and> closedAnswers calls as (q \<noteq> None) \<and> cg_values t h = None"
  using assms(3,4)
proof (induction calls arbitrary: q w)
  case Nil
  then show ?case by (simp add: ret_def closed_answers_Nil)
next
  case (Cons execute cs)
  note d = spentRequest_def payloadRelease_def bind_def ret_def
  show ?case
  proof (cases q)
    case None
    obtain as r t where "clientRequestCalls reqClose reqExecute cs (spentRequest h None) w = (Ret (as, r), t)"
        "closedAnswers cs as False" "cg_values t h = None"
      using Cons.IH [OF Cons.prems, of None] by auto
    then show ?thesis
      using None closed_answers_Execute [of cs as False "Inl ErrClientRequestClosed"] closed_answers_Close [of cs as False]
      by (cases execute) (simp_all add: ClientRequest_Execute_def ClientRequest_Close_def d)
  next
    case (Some p)
    obtain x u where u: "reqExecute p w = (Ret x, u)" "cg_next w \<le> cg_next u" "cg_values u h = None"
      using assms(2) Cons.prems by (metis respectsPayloadsE)
    obtain y u' where u': "reqClose p w = (Ret y, u')" "cg_next w \<le> cg_next u'" "cg_values u' h = None"
      using assms(1) Cons.prems by (metis respectsPayloadsE)
    obtain as r t where "clientRequestCalls reqClose reqExecute cs (spentRequest h q) u = (Ret (as, r), t)"
        "closedAnswers cs as True" "cg_values t h = None"
      using Cons.IH [of u q] u Cons.prems(2) Some by auto
    moreover obtain as' r' t' where "clientRequestCalls reqClose reqExecute cs (spentRequest h None) u' = (Ret (as', r'), t')"
        "closedAnswers cs as' False" "cg_values t' h = None"
      using Cons.IH [of u' None] u' Cons.prems(2) by auto
    ultimately show ?thesis
      using Some u u' closed_answers_Execute [of cs as True "Inr x"] closed_answers_Close [of cs as' True]
      by (cases execute) (simp_all add: ClientRequest_Execute_def ClientRequest_Close_def d)
  qed
qed

text \<open>The first call on a request, in which its payload is still live.\<close>

lemma first_request_call:
  assumes "cg_values w h = Some v" and "isPayload v"
  shows "respectsPayloads (reqExecute q) \<Longrightarrow>
      ClientRequest_Execute reqExecute (newClientRequest q \<lparr>ph_handle = h, ph_done = False\<rparr>) w
        = (case reqExecute q w of (Ret x, t) \<Rightarrow> (Ret (Inr x, spentRequest h (Some q)), released h t)
             | (Panic p, t) \<Rightarrow> (Panic p, t))"
    and "respectsPayloads (reqClose q) \<Longrightarrow>
      ClientRequest_Close reqClose (newClientRequest q \<lparr>ph_handle = h, ph_done = False\<rparr>) w
        = (Ret (spentRequest h None), released h (snd (reqClose q w)))"
proof -
  assume "respectsPayloads (reqExecute q)"
  then obtain x t where "reqExecute q w = (Ret x, t)" "cg_values t h = Some v"
    using assms by (metis respectsPayloadsE)
  then show "ClientRequest_Execute reqExecute (newClientRequest q \<lparr>ph_handle = h, ph_done = False\<rparr>) w
      = (case reqExecute q w of (Ret x, t) \<Rightarrow> (Ret (Inr x, spentRequest h (Some q)), released h t)
           | (Panic p, t) \<Rightarrow> (Panic p, t))"
    by (simp add: ClientRequest_Execute_def newClientRequest_def payloadRelease_def spentRequest_def
        released_def bind_def ret_def)
next
  assume "respectsPayloads (reqClose q)"
  then obtain x t where "reqClose q w = (Ret x, t)" "cg_values t h = Some v"
    using assms by (metis respectsPayloadsE)
  then show "ClientRequest_Close reqClose (newClientRequest q \<lparr>ph_handle = h, ph_done = False\<rparr>) w
      = (Ret (spentRequest h None), released h (snd (reqClose q w)))"
    by (simp add: ClientRequest_Close_def newClientRequest_def payloadRelease_def spentRequest_def
        released_def bind_def ret_def)
qed

text \<open>
  Over any wrapped request, a started request releases its payload exactly once.  On any sequence of executions and
  closes the payload is live in the first call and dead after it, no call panics on the
  released handle, and an execution reports \<^verbatim>\<open>ErrClientRequestClosed\<close> exactly when a close
  came before it.  A request on which nothing is called keeps its payload.
\<close>

lemma client_request_calls:
  assumes "\<And>q. respectsPayloads (reqClose q)" and "\<And>q. respectsPayloads (reqExecute q)"
    and "cg_values w h = Some v" and "isPayload v" and "h \<le> cg_next w"
  shows "\<exists>as r t. clientRequestCalls reqClose reqExecute calls (newClientRequest q \<lparr>ph_handle = h, ph_done = False\<rparr>) w
      = (Ret (as, r), t)
    \<and> closedAnswers calls as True
    \<and> cg_values t h = (if calls = [] then Some v else None)
    \<and> ClientRequest_Execute reqExecute (newClientRequest q \<lparr>ph_handle = h, ph_done = False\<rparr>) w
        = (case reqExecute q w of (Ret x, u) \<Rightarrow> (Ret (Inr x, spentRequest h (Some q)), released h u)
             | (Panic p, u) \<Rightarrow> (Panic p, u))"
proof (cases calls)
  case Nil
  then show ?thesis
    using assms(3) first_request_call(1) [where reqExecute = reqExecute and q = q, OF assms(3,4,2)]
    by (simp add: ret_def closed_answers_Nil)
next
  case (Cons execute cs)
  note first = first_request_call(1) [where reqExecute = reqExecute and q = q, OF assms(3,4,2)]
    first_request_call(2) [where reqClose = reqClose and q = q, OF assms(3,4,1)]
  obtain x u where u: "reqExecute q w = (Ret x, u)" "cg_next w \<le> cg_next u"
    using assms(2) by (metis respectsPayloadsE)
  obtain y u' where u': "reqClose q w = (Ret y, u')" "cg_next w \<le> cg_next u'"
    using assms(1) by (metis respectsPayloadsE)
  obtain as r t where "clientRequestCalls reqClose reqExecute cs (spentRequest h (Some q)) (released h u) = (Ret (as, r), t)"
      "closedAnswers cs as True" "cg_values t h = None"
    using spent_calls [of reqClose reqExecute "released h u" h cs "Some q", OF assms(1,2)] u assms(5) by auto
  moreover obtain as' r' t' where "clientRequestCalls reqClose reqExecute cs (spentRequest h None) (released h u') = (Ret (as', r'), t')"
      "closedAnswers cs as' False" "cg_values t' h = None"
    using spent_calls [of reqClose reqExecute "released h u'" h cs None, OF assms(1,2)] u' assms(5) by auto
  ultimately show ?thesis
    using Cons u u' first closed_answers_Execute [of cs as True "Inr x"] closed_answers_Close [of cs as' True]
    by (cases execute) (simp_all add: bind_def ret_def)
qed

text \<open>
  What the native main stage of the handle \<open>h\<close> does: it returns with one of the documented
  statuses, respects the payloads, and makes no native call on \<open>h\<close> itself.
\<close>

definition documentedStage ::
    "(handle \<Rightarrow> (('o, 'r, 'a, 'f clientNative) cgo, stageAnswer) go) \<Rightarrow> handle \<Rightarrow> bool" where
  "documentedStage stage h \<longleftrightarrow> respectsPayloads (stage h) \<and> (\<forall>w. \<exists>status answer t ns.
     stage h w = (Ret (status, answer), t) \<and> (\<forall>n. status \<noteq> StatusOther n)
     \<and> cn_calls (cg_env t) = cn_calls (cg_env w) @ ns
     \<and> DestroyPretradePreTradeRequest h \<notin> set ns \<and> PretradePreTradeRequestExecute h \<notin> set ns)"

lemma respects_natively: "respectsPayloads (natively cs)"
  by (simp add: respectsPayloads_def natively_def modify_def)

lemma respects_bind:
  assumes "respectsPayloads m" and "\<And>w x t. m w = (Ret x, t) \<Longrightarrow> respectsPayloads (k x)"
  shows "respectsPayloads (bind m k)"
  unfolding respectsPayloads_def
proof
  fix w
  obtain x t where m: "m w = (Ret x, t)" "cg_next w \<le> cg_next t"
      "\<And>h v. cg_values w h = Some v \<Longrightarrow> isPayload v \<Longrightarrow> cg_values t h = Some v"
      "\<And>h. h \<le> cg_next w \<Longrightarrow> cg_values w h = None \<Longrightarrow> cg_values t h = None"
    using respectsPayloadsE [OF assms(1), of w] by blast
  obtain y u where k: "k x t = (Ret y, u)" "cg_next t \<le> cg_next u"
      "\<And>h v. cg_values t h = Some v \<Longrightarrow> isPayload v \<Longrightarrow> cg_values u h = Some v"
      "\<And>h. h \<le> cg_next t \<Longrightarrow> cg_values t h = None \<Longrightarrow> cg_values u h = None"
    using respectsPayloadsE [OF assms(2) [OF m(1)], of t] by blast
  have "bind m k w = (Ret y, u)" using m(1) k(1) by (simp add: bind_def)
  moreover have "cg_values u h = None" if "h \<le> cg_next w" "cg_values w h = None" for h
    using that m(2,4) k(4) le_trans by blast
  ultimately show "\<exists>x u. bind m k w = (Ret x, u) \<and> cg_next w \<le> cg_next u
      \<and> (\<forall>h v. cg_values w h = Some v \<and> isPayload v \<longrightarrow> cg_values u h = Some v)
      \<and> (\<forall>h \<le> cg_next w. cg_values w h = None \<longrightarrow> cg_values u h = None)"
    using m(2,3) k(2,3) by (intro exI [of _ y] exI [of _ u]) simp
qed

lemma respects_ret: "respectsPayloads (ret x)"
  by (simp add: respectsPayloads_def ret_def)

lemma respects_wrapped:
  assumes "\<And>h. respectsPayloads (stage h)"
  shows "respectsPayloads (wrappedExecute stage q)" and "respectsPayloads (wrappedClose q)"
  using assms
  by (auto simp: wrappedExecute_def wrappedExecuteNative_def wrappedClose_def respects_natively respects_ret
      split: option.split c_status.split intro!: respects_bind)

text \<open>The log of native calls under the steps of a request; a payload's release makes none.\<close>

definition logs :: "native_call list \<Rightarrow> ('o, 'r, 'a, 'f clientNative) cgo \<Rightarrow> ('o, 'r, 'a, 'f clientNative) cgo \<Rightarrow> bool" where
  "logs ns w t \<longleftrightarrow> cn_calls (cg_env t) = cn_calls (cg_env w) @ ns"

lemma logs_trans: "logs ns w t \<Longrightarrow> logs ms t u \<Longrightarrow> logs (ns @ ms) w u"
  by (simp add: logs_def)

lemma logs_release: "fst (payloadRelease p) w = (Ret x, t) \<Longrightarrow> logs [] w t"
  by (auto simp: payloadRelease_def handleDelete_def ret_def logs_def split: option.splits if_splits)

lemma bind_Ret: "bind m k w = (Ret y, u) \<Longrightarrow> (\<And>x t. m w = (Ret x, t) \<Longrightarrow> k x t = (Ret y, u) \<Longrightarrow> thesis) \<Longrightarrow> thesis"
  by (auto simp: bind_def split: prod.splits res.splits)

text \<open>The native calls on the handle of a request, of one method call.\<close>

definition onHandle :: "handle \<Rightarrow> native_call list \<Rightarrow> native_call list" where
  "onHandle h ns = filter (\<lambda>c. c = DestroyPretradePreTradeRequest h \<or> c = PretradePreTradeRequestExecute h) ns"

lemma onHandle_append [simp]: "onHandle h (ns @ ms) = onHandle h ns @ onHandle h ms"
  by (simp add: onHandle_def)

lemma execute_logs:
  assumes "documentedStage stage h"
    and "ClientRequest_Execute (wrappedExecute stage) r w = (Ret (a, r'), t)"
    and "cq_request r = Some (NewRequestFromHandle (Some h))"
  shows "cq_request r' = cq_request r \<and> (\<exists>ns. logs ns w t \<and> onHandle h ns = [PretradePreTradeRequestExecute h])"
proof -
  obtain x u p where x: "wrappedExecute stage (NewRequestFromHandle (Some h)) w = (Ret x, u)"
      "fst (payloadRelease (cq_payload r)) u = (Ret p, t)" "cq_request r' = cq_request r"
    using assms(2,3) by (auto simp: ClientRequest_Execute_def ret_def split_beta elim!: bind_Ret)
  let ?w = "snd (natively [PretradePreTradeRequestExecute h] w)"
  obtain status answer v ns where st: "stage h ?w = (Ret (status, answer), v)" "\<forall>n. status \<noteq> StatusOther n"
      "logs ns ?w v" "onHandle h ns = []"
    using assms(1) unfolding documentedStage_def logs_def onHandle_def
    by (metis (mono_tags, lifting) filter_False)
  have w: "natively [PretradePreTradeRequestExecute h] w = (Ret (), ?w)" "logs [PretradePreTradeRequestExecute h] w ?w"
    by (simp_all add: natively_def modify_def logs_def)
  have "u = v"
    using x(1) st(1,2) w(1)
    by (auto simp: wrappedExecute_def wrappedExecuteNative_def NewRequestFromHandle_def ret_def
        split: c_status.splits option.splits sum.splits elim!: bind_Ret)
  then have "logs ([PretradePreTradeRequestExecute h] @ ns @ []) w t"
    using w(2) st(3) logs_release [OF x(2)] logs_trans by blast
  moreover have "onHandle h ([PretradePreTradeRequestExecute h] @ ns @ []) = [PretradePreTradeRequestExecute h]"
    using st(4) by (simp add: onHandle_def)
  ultimately show ?thesis using x(3) by blast
qed

lemma close_logs:
  assumes "ClientRequest_Close wrappedClose r w = (Ret r', t)"
    and "cq_request r = Some (NewRequestFromHandle (Some h))"
  shows "cq_request r' = None \<and> logs [DestroyPretradePreTradeRequest h] w t"
proof -
  obtain u p where x: "wrappedClose (NewRequestFromHandle (Some h)) w = (Ret (), u)"
      "fst (payloadRelease (cq_payload r)) u = (Ret p, t)" "cq_request r' = None"
    using assms by (auto simp: ClientRequest_Close_def ret_def split_beta elim!: bind_Ret)
  have "logs [DestroyPretradePreTradeRequest h] w u"
    using x(1) by (auto simp: wrappedClose_def natively_def modify_def NewRequestFromHandle_def Request_Close_def logs_def)
  then show ?thesis
    using logs_trans [OF _ logs_release [OF x(2)]] x(3) by fastforce
qed

lemma closed_logs:
  "clientRequestCalls wrappedClose (wrappedExecute stage) calls r w = (Ret (as, r'), t) \<Longrightarrow> cq_request r = None
     \<Longrightarrow> cq_request r' = None \<and> logs [] w t"
proof (induction calls arbitrary: r w as)
  case Nil
  then show ?case by (simp add: ret_def logs_def)
next
  case (Cons execute cs)
  show ?case
  proof (cases execute)
    case True
    then obtain bs where "clientRequestCalls wrappedClose (wrappedExecute stage) cs r w = (Ret (bs, r'), t)"
      using Cons.prems by (auto simp: ClientRequest_Execute_def ret_def elim!: bind_Ret)
    then show ?thesis using Cons by blast
  next
    case False
    then obtain u r1 bs where c: "ClientRequest_Close wrappedClose r w = (Ret r1, u)"
        "clientRequestCalls wrappedClose (wrappedExecute stage) cs r1 u = (Ret (bs, r'), t)"
      using Cons.prems by (auto simp: ret_def elim!: bind_Ret)
    moreover obtain p where "fst (payloadRelease (cq_payload r)) w = (Ret p, u)" "cq_request r1 = None"
      using c(1) Cons.prems(2) by (auto simp: ClientRequest_Close_def ret_def split_beta elim!: bind_Ret)
    ultimately have b: "fst (payloadRelease (cq_payload r)) w = (Ret p, u)" "cq_request r1 = None"
        "clientRequestCalls wrappedClose (wrappedExecute stage) cs r1 u = (Ret (bs, r'), t)" by auto
    then show ?thesis
      using Cons.IH [OF b(3,2)] logs_trans [OF logs_release [OF b(1)], of "[]" t] by simp
  qed
qed

lemma calls_log:
  assumes "documentedStage stage h"
  shows "clientRequestCalls wrappedClose (wrappedExecute stage) calls r w = (Ret (as, r'), t)
     \<Longrightarrow> cq_request r = Some (NewRequestFromHandle (Some h))
     \<Longrightarrow> (cq_request r' = None \<longleftrightarrow> False \<in> set calls) \<and> (\<exists>ns. logs ns w t
       \<and> onHandle h ns = replicate (length (takeWhile (\<lambda>e. e) calls)) (PretradePreTradeRequestExecute h)
           @ (if False \<in> set calls then [DestroyPretradePreTradeRequest h] else []))"
proof (induction calls arbitrary: r w as)
  case Nil
  then show ?case by (auto simp: ret_def logs_def onHandle_def)
next
  case (Cons execute cs)
  show ?case
  proof (cases execute)
    case True
    then obtain a r1 u bs where b: "ClientRequest_Execute (wrappedExecute stage) r w = (Ret (a, r1), u)"
        "clientRequestCalls wrappedClose (wrappedExecute stage) cs r1 u = (Ret (bs, r'), t)"
      using Cons.prems(1) by (auto simp: ret_def elim!: bind_Ret)
    obtain ns where n: "cq_request r1 = cq_request r" "logs ns w u" "onHandle h ns = [PretradePreTradeRequestExecute h]"
      using execute_logs [OF assms b(1) Cons.prems(2)] by blast
    obtain ms where "cq_request r' = None \<longleftrightarrow> False \<in> set cs" "logs ms u t"
        "onHandle h ms = replicate (length (takeWhile (\<lambda>e. e) cs)) (PretradePreTradeRequestExecute h)
           @ (if False \<in> set cs then [DestroyPretradePreTradeRequest h] else [])"
      using Cons.IH [OF b(2)] n(1) Cons.prems(2) by auto
    then show ?thesis
      using True n(3) logs_trans [OF n(2)] by (auto intro!: exI [of _ "ns @ ms"])
  next
    case False
    then obtain r1 u bs where b: "ClientRequest_Close wrappedClose r w = (Ret r1, u)"
        "clientRequestCalls wrappedClose (wrappedExecute stage) cs r1 u = (Ret (bs, r'), t)"
      using Cons.prems(1) by (auto simp: ret_def elim!: bind_Ret)
    have c: "cq_request r1 = None" "logs [DestroyPretradePreTradeRequest h] w u"
      using close_logs [OF b(1) Cons.prems(2)] by auto
    have "cq_request r' = None \<and> logs [] u t"
      using closed_logs [OF b(2) c(1)] .
    then have "cq_request r' = None" "logs [DestroyPretradePreTradeRequest h] w t"
      using logs_trans [OF c(2), of "[]" t] by auto
    then show ?thesis
      using False by (auto simp: onHandle_def intro!: exI [of _ "[DestroyPretradePreTradeRequest h]"])
  qed
qed

text \<open>
  C26: a started request releases its payload and its native request exactly once.  Over any
  sequence of executions and closes, with a native main stage that answers as documented, no
  call panics, so that the payload handle, live before and dead after the first call, is
  deleted once.  The native calls on the request are one execution for each \<^verbatim>\<open>Execute\<close>
  before the first \<^verbatim>\<open>Close\<close> and then one release, made exactly when some call closes;
  nothing follows the release, and an execution reports \<^verbatim>\<open>ErrClientRequestClosed\<close> exactly
  when a close came before it.  A request on which nothing is called keeps its payload.  (On a
  status the header does not list, the cgo wrapper releases the native request itself, so a
  later close would release it again: \<^verbatim>\<open>internal/native/engine.go\<close>.)
\<close>

theorem client_request_releases_once:
  assumes "\<And>n. documentedStage stage n" and "cg_values w p = Some v" and "isPayload v" and "p \<le> cg_next w"
  shows "\<exists>as r t ns. clientRequestCalls wrappedClose (wrappedExecute stage) calls
        (newClientRequest (NewRequestFromHandle (Some h)) \<lparr>ph_handle = p, ph_done = False\<rparr>) w = (Ret (as, r), t)
    \<and> closedAnswers calls as True
    \<and> cg_values t p = (if calls = [] then Some v else None)
    \<and> (cq_request r = None \<longleftrightarrow> False \<in> set calls)
    \<and> cn_calls (cg_env t) = cn_calls (cg_env w) @ ns
    \<and> filter (\<lambda>c. c = DestroyPretradePreTradeRequest h \<or> c = PretradePreTradeRequestExecute h) ns
        = replicate (length (takeWhile (\<lambda>e. e) calls)) (PretradePreTradeRequestExecute h)
          @ (if False \<in> set calls then [DestroyPretradePreTradeRequest h] else [])"
proof -
  have s: "\<And>n. respectsPayloads (stage n)" using assms(1) by (simp add: documentedStage_def)
  let ?r = "newClientRequest (NewRequestFromHandle (Some h)) \<lparr>ph_handle = p, ph_done = False\<rparr>"
  obtain as r t where c: "clientRequestCalls wrappedClose (wrappedExecute stage) calls ?r w = (Ret (as, r), t)"
      "closedAnswers calls as True" "cg_values t p = (if calls = [] then Some v else None)"
    using client_request_calls [where reqClose = wrappedClose and reqExecute = "wrappedExecute stage"
        and q = "NewRequestFromHandle (Some h)" and calls = calls, OF respects_wrapped(2) respects_wrapped(1) assms(2-4),
        OF s s] by blast
  have "cq_request ?r = Some (NewRequestFromHandle (Some h))" by (simp add: newClientRequest_def)
  then show ?thesis
    using calls_log [OF assms(1) c(1)] c unfolding logs_def onHandle_def by blast
qed

definition sampleRequestTable :: "(nat, nat, nat, unit clientNative) cgo" where
  "sampleRequestTable = boxed (OrderValue 42) \<lparr>cg_next = 0, cg_values = (\<lambda>_. None), cg_lists = 0, cg_reports = [],
     cg_env = \<lparr>cn_calls = [], cn_env = ()\<rparr>\<rparr>"

theorem client_request_releases_once_witness:
  "\<exists>as r t. clientRequestCalls wrappedClose (wrappedExecute (\<lambda>_. ret (StatusPassed, Some 9, None, '''')))
        [True, False, True, False] (newClientRequest (NewRequestFromHandle (Some 7)) \<lparr>ph_handle = 1, ph_done = False\<rparr>)
        sampleRequestTable = (Ret (as, r), t)
     \<and> as = [Some (Inr (Some (NewReservationFromHandle (Some 9)), [], None)), None, Some (Inl ErrClientRequestClosed), None]
     \<and> cn_calls (cg_env t) = [PretradePreTradeRequestExecute 7, DestroyPretradePreTradeRequest 7] \<and> cg_values t 1 = None"
proof -
  let ?s = "\<lambda>_. ret (StatusPassed, Some 9, None, '''')" and ?c = "[True, False, True, False]"
  let ?q = "newClientRequest (NewRequestFromHandle (Some 7)) \<lparr>ph_handle = 1, ph_done = False\<rparr>"
  have ok: "documentedStage ?s n" for n
    by (simp add: documentedStage_def respects_ret) (auto simp: ret_def intro: exI [of _ "[]"])
  obtain as r t ns where "clientRequestCalls wrappedClose (wrappedExecute ?s) ?c ?q sampleRequestTable = (Ret (as, r), t)"
      "cg_values t 1 = (if ?c = [] then Some (OrderValue 42) else None)"
    using client_request_releases_once [where stage = ?s and w = sampleRequestTable and p = 1 and calls = ?c and h = 7
        and v = "OrderValue 42", OF ok]
    by (fastforce simp: sampleRequestTable_def boxed_def)
  then show ?thesis
    by (auto simp: ClientRequest_Execute_def ClientRequest_Close_def newClientRequest_def payloadRelease_def
        sampleRequestTable_def boxed_def bind_def ret_def wrappedExecute_def wrappedExecuteNative_def wrappedClose_def
        natively_def modify_def NewRequestFromHandle_def Request_Close_def handleDelete_def)
qed

end
