(* ===== verification/Native_Objects.thy ===== *)
theory Native_Objects
  imports World "HOL-Library.Multiset"
begin

text \<open>
  Ownership of native objects by the Go side: which objects it holds and must release, and the
  helpers of \<^verbatim>\<open>internal/native\<close> that read and release them.  A call that writes an object
  to an out-parameter hands it over; releasing null does nothing; reading or releasing an
  object that is not held is misuse of the C interface and sets a fault.
\<close>

datatype nativeKind =
    KRequest | KReservation | KDropCopy | KReport | KRejects | KBlocks | KOutcomes | KPostTrade
  | KBatchError | KRetirementError | KGroupError | KBlockError | KConfigError | KBlockOutcomes | KParamError | KString
  | KMarketData | KReferenceBook | KBuilder | KBuildError | KPolicy | KEngine

record 'e owned =
  ow_live :: "(nativeKind \<times> nat) multiset"
  ow_fault :: bool
  ow_env :: 'e

definition objects :: "(nativeKind \<times> nat option) list \<Rightarrow> (nativeKind \<times> nat) multiset" where
  "objects xs = mset (concat (map (\<lambda>(k, h). case h of None \<Rightarrow> [] | Some n \<Rightarrow> [(k, n)]) xs))"

lemma objects_simps [simp]:
  "objects [] = {#}"
  "objects ((k, None) # xs) = objects xs"
  "objects ((k, Some n) # xs) = add_mset (k, n) (objects xs)"
  by (simp_all add: objects_def)

text \<open>A native call, with the objects of its outputs.\<close>

definition issue ::
    "('r \<Rightarrow> (nativeKind \<times> nat option) list) \<Rightarrow> ('e \<Rightarrow> 'r \<times> 'e) \<Rightarrow> ('e owned, 'r) go" where
  "issue outs call w = (case call (ow_env w) of (r, e) \<Rightarrow>
     (Ret r, w\<lparr>ow_live := ow_live w + objects (outs r), ow_env := e\<rparr>))"

definition release :: "nativeKind \<Rightarrow> nat option \<Rightarrow> ('e owned, unit) go" where
  "release k h w = (case h of
      None \<Rightarrow> (Ret (), w)
    | Some n \<Rightarrow> (Ret (), if (k, n) \<in># ow_live w then w\<lparr>ow_live := ow_live w - {#(k, n)#}\<rparr> else w\<lparr>ow_fault := True\<rparr>))"

text \<open>Reading an object: null has the content \<open>zero\<close>.\<close>

definition inspect :: "nativeKind \<Rightarrow> nat option \<Rightarrow> 'a \<Rightarrow> (nat \<Rightarrow> 'e \<Rightarrow> 'a) \<Rightarrow> ('e owned, 'a) go" where
  "inspect k h zero f w = (case h of
      None \<Rightarrow> (Ret zero, w)
    | Some n \<Rightarrow> (Ret (f n (ow_env w)), if (k, n) \<in># ow_live w then w else w\<lparr>ow_fault := True\<rparr>))"

text \<open>\<open>str\<close> gives the text of a shared string.\<close>

definition consumeSharedString :: "(nat \<Rightarrow> 'e \<Rightarrow> string) \<Rightarrow> nat option \<Rightarrow> ('e owned, string) go" where
  "consumeSharedString str h = (if h = None then panic (PanicValue ''shared string is not provided'')
     else bind (inspect KString h [] str) (\<lambda>msg. bind (release KString h) (\<lambda>_. ret msg)))"

definition consumeSharedStringAsError ::
    "(nat \<Rightarrow> 'e \<Rightarrow> string) \<Rightarrow> nat option \<Rightarrow> string \<Rightarrow> ('e owned, go_error) go" where
  "consumeSharedStringAsError str h fallback =
     bind (consumeSharedString str h) (\<lambda>msg. ret (Text (if msg \<noteq> [] then msg else fallback)))"

text \<open>
  A parameter error has a code, which selects a sentinel of \<^verbatim>\<open>error.go\<close>, and may have a
  text, absent when its message is null.
\<close>

datatype paramSentinel =
    ErrNegative | ErrDivisionByZero | ErrOverflow | ErrUnderflow | ErrInvalidFloat | ErrInvalidFormat
  | ErrInvalidPrice | ErrInvalidLeverage | ErrAssetEmpty | ErrAccountIdEmpty

datatype paramError = ParamSentinel paramSentinel string | ParamText string

definition paramErrorByCode :: "nat \<Rightarrow> paramSentinel option" where
  "paramErrorByCode code = map_of (zip [1..<11] [ErrNegative, ErrDivisionByZero, ErrOverflow, ErrUnderflow, ErrInvalidFloat,
     ErrInvalidFormat, ErrInvalidPrice, ErrInvalidLeverage, ErrAssetEmpty, ErrAccountIdEmpty]) code"

definition consumeParamError ::
    "(nat \<Rightarrow> 'e \<Rightarrow> nat \<times> string option) \<Rightarrow> nat option \<Rightarrow> string \<Rightarrow> ('e owned, paramError) go" where
  "consumeParamError content h fallback =
     (if h = None then ret (ParamText fallback)
      else bind (inspect KParamError h (0, None) content) (\<lambda>(code, message). bind (release KParamError h) (\<lambda>_.
        let msg = (case message of None \<Rightarrow> [] | Some m \<Rightarrow> m) in
        ret (case paramErrorByCode code of
            Some s \<Rightarrow> ParamSentinel s msg
          | None \<Rightarrow> if msg \<noteq> [] then ParamText (''param: '' @ msg) else ParamText fallback))))"

section \<open>Reasoning\<close>

lemma wp_issue [wp]:
  "wp (issue outs call) Q E = (\<lambda>w. case call (ow_env w) of (r, e) \<Rightarrow>
     Q r (w\<lparr>ow_live := ow_live w + objects (outs r), ow_env := e\<rparr>))"
  by (rule ext) (simp add: wp_def issue_def split: prod.split)

lemma wp_release [wp]:
  "wp (release k h) Q E = (\<lambda>w. case h of None \<Rightarrow> Q () w
    | Some n \<Rightarrow> Q () (if (k, n) \<in># ow_live w then w\<lparr>ow_live := ow_live w - {#(k, n)#}\<rparr> else w\<lparr>ow_fault := True\<rparr>))"
  by (rule ext) (simp add: wp_def release_def split: option.split)

lemma wp_inspect [wp]:
  "wp (inspect k h zero f) Q E = (\<lambda>w. case h of None \<Rightarrow> Q zero w
    | Some n \<Rightarrow> Q (f n (ow_env w)) (if (k, n) \<in># ow_live w then w else w\<lparr>ow_fault := True\<rparr>))"
  by (rule ext) (simp add: wp_def inspect_def split: option.split)

lemma wp_consumeAsError [wp]:
  "wp (consumeSharedStringAsError str h fallback) Q E = (\<lambda>w. case h of
      None \<Rightarrow> E (PanicValue ''shared string is not provided'') w
    | Some n \<Rightarrow> Q (Text (if str n (ow_env w) \<noteq> [] then str n (ow_env w) else fallback))
        (if (KString, n) \<in># ow_live w then w\<lparr>ow_live := ow_live w - {#(KString, n)#}\<rparr> else w\<lparr>ow_fault := True\<rparr>))"
  unfolding consumeSharedStringAsError_def consumeSharedString_def
  by (rule ext, cases h) (simp_all add: wp)

end
