(* ===== verification/Closable.thy ===== *)
theory Closable
  imports Native_Objects
begin

text \<open>
  Wrappers that own one native object, or none once they are closed: the shape that
  \<^verbatim>\<open>marketdata.Service\<close> and \<^verbatim>\<open>ReferenceBook\<close> share.  Their methods run under a
  read-write mutex, \<^verbatim>\<open>Close\<close> as its writer, so a concurrent use of one value is a sequence
  of its calls.
\<close>

section \<open>Calls on a family of wrappers\<close>

datatype 'm familyCall = CallClose nat | CallClone nat | CallMethod nat 'm

fun familyCalls ::
    "('s \<Rightarrow> ('w, 's) go) \<Rightarrow> ('s \<Rightarrow> ('w, 's option) go) \<Rightarrow> ('m \<Rightarrow> 's \<Rightarrow> ('w, unit) go)
      \<Rightarrow> 'm familyCall list \<Rightarrow> 's list \<Rightarrow> ('w, 's list) go" where
  "familyCalls close clone operate [] ss = ret ss"
| "familyCalls close clone operate (c # cs) ss = bind
     (case c of
        CallClose i \<Rightarrow> if i < length ss then bind (close (ss ! i)) (\<lambda>s. ret (ss[i := s])) else ret ss
      | CallClone i \<Rightarrow> if i < length ss
          then bind (clone (ss ! i)) (\<lambda>r. ret (case r of None \<Rightarrow> ss | Some s \<Rightarrow> ss @ [s])) else ret ss
      | CallMethod i m \<Rightarrow> if i < length ss then bind (operate m (ss ! i)) (\<lambda>_. ret ss) else ret ss)
     (familyCalls close clone operate cs)"

definition family :: "nativeKind \<Rightarrow> nat option list \<Rightarrow> (nativeKind \<times> nat) multiset" where
  "family k hs = objects (map (Pair k) hs)"

lemma family_simps [simp]:
  "family k [] = {#}"
  "family k (h # hs) = objects [(k, h)] + family k hs"
  by (cases h; simp add: family_def)+

lemma family_append [simp]: "family k (xs @ ys) = family k xs + family k ys"
  by (induction xs) (simp_all del: objects_simps add: ac_simps)

lemma family_update:
  "i < length hs \<Longrightarrow> family k (hs[i := h]) + objects [(k, hs ! i)] = family k hs + objects [(k, h)]"
proof (induction hs arbitrary: i)
  case (Cons a hs)
  then show ?case by (cases i) (simp_all add: ac_simps del: objects_simps)
qed simp

lemma family_member: "i < length hs \<Longrightarrow> objects [(k, hs ! i)] \<subseteq># family k hs"
  by (induction hs arbitrary: i) (auto simp: nth_Cons' simp del: objects_simps intro: subset_mset.add_increasing2 subset_mset.add_increasing)

section \<open>Calls that keep what is held\<close>

text \<open>\<open>gives os m\<close>: \<open>m\<close> returns, releases the objects \<open>os\<close> and nothing else.\<close>

definition gives :: "(nativeKind \<times> nat option) list \<Rightarrow> ('e owned, 'a) go \<Rightarrow> bool" where
  "gives os m \<longleftrightarrow> (\<forall>w L. ow_live w = L + objects os \<longrightarrow>
     wp m (\<lambda>_ t. ow_live t = L \<and> ow_fault t = ow_fault w) (\<lambda>_ _. False) w)"

abbreviation keeps :: "('e owned, 'a) go \<Rightarrow> bool" where "keeps \<equiv> gives []"

lemma keepsD: "keeps m \<Longrightarrow> wp m (\<lambda>_ t. ow_fault t = ow_fault w \<and> ow_live t = ow_live w) (\<lambda>_ _. False) w"
  by (simp add: gives_def conj_commute)

lemma keepsI: "(\<And>w. wp m (\<lambda>_ t. ow_live t = ow_live w \<and> ow_fault t = ow_fault w) (\<lambda>_ _. False) w) \<Longrightarrow> keeps m"
  by (simp add: gives_def)

lemma keeps_ret [intro]: "keeps (ret a)" by (rule keepsI) (simp add: wp)

lemma keeps_read [intro]: "keeps (read f)" by (rule keepsI) (simp add: wp)

lemma gives_nil: "gives [(k, None)] m = keeps m"
  by (simp add: gives_def)

lemma gives_bind:
  fixes m :: "('e owned, 'a) go"
  assumes "gives os m" and "\<And>a. keeps (f a)"
  shows "gives os (bind m f)"
  unfolding gives_def wp
proof (intro allI impI)
  fix w :: "'e owned" and L
  assume "ow_live w = L + objects os"
  with assms(1) have "wp m (\<lambda>_ t. ow_live t = L \<and> ow_fault t = ow_fault w) (\<lambda>_ _. False) w"
    unfolding gives_def by blast
  then show "wp m (\<lambda>a. wp (f a) (\<lambda>_ t. ow_live t = L \<and> ow_fault t = ow_fault w) (\<lambda>_ _. False)) (\<lambda>_ _. False) w"
  proof (rule wp_mono)
    fix a and t :: "'e owned" assume t: "ow_live t = L \<and> ow_fault t = ow_fault w"
    show "wp (f a) (\<lambda>_ t. ow_live t = L \<and> ow_fault t = ow_fault w) (\<lambda>_ _. False) t"
      using keepsD [OF assms(2) [of a], where w = t] t by (simp add: conj_commute)
  qed
qed

lemmas keeps_bind [intro] = gives_bind [of "[]"]

lemma keeps_issued:
  fixes call :: "'e \<Rightarrow> 'r \<times> 'e"
  assumes "\<And>a r t. call a = (r, t) \<Longrightarrow> gives (outs r) (k r)"
  shows "keeps (bind (issue outs call) k)"
proof (rule keepsI)
  fix w :: "'e owned"
  obtain r t where c: "call (ow_env w) = (r, t)" by fastforce
  show "wp (bind (issue outs call) k) (\<lambda>_ t. ow_live t = ow_live w \<and> ow_fault t = ow_fault w) (\<lambda>_ _. False) w"
    using assms [OF c, unfolded gives_def, rule_format, of "w\<lparr>ow_live := ow_live w + objects (outs r), ow_env := t\<rparr>" "ow_live w"]
    by (simp add: wp c)
qed

lemma keeps_issue [intro]: "keeps (issue (\<lambda>_. []) call)"
  by (rule keepsI) (auto simp: wp split: prod.split)

lemma gives_answered: "b = (outError \<noteq> None) \<Longrightarrow> gives [(KString, outError)]
    (if b then bind (consumeSharedStringAsError str outError fallback) (\<lambda>e. ret (f e)) else ret c)"
  by (cases outError) (simp_all add: gives_def wp)

text \<open>\<open>safeWith k h m\<close>: \<open>m\<close> keeps what is held, given that the object \<open>h\<close> is.\<close>

definition safeWith :: "nativeKind \<Rightarrow> nat option \<Rightarrow> ('e owned, 'a) go \<Rightarrow> bool" where
  "safeWith k h m \<longleftrightarrow> (\<forall>w. objects [(k, h)] \<subseteq># ow_live w \<longrightarrow>
     wp m (\<lambda>_ t. ow_fault t = ow_fault w \<and> ow_live t = ow_live w) (\<lambda>_ _. False) w)"

named_theorems safe \<open>methods that keep what is held\<close>

lemma safe_keeps: "keeps m \<Longrightarrow> safeWith k h m"
  by (simp add: safeWith_def keepsD)

lemma safe_bind [safe]:
  fixes m :: "('e owned, 'a) go"
  assumes "safeWith k h m" and "\<And>a. keeps (f a)"
  shows "safeWith k h (bind m f)"
  unfolding safeWith_def wp
proof (intro allI impI)
  fix w :: "'e owned"
  assume "objects [(k, h)] \<subseteq># ow_live w"
  with assms(1) have "wp m (\<lambda>_ t. ow_fault t = ow_fault w \<and> ow_live t = ow_live w) (\<lambda>_ _. False) w"
    unfolding safeWith_def by blast
  then show "wp m (\<lambda>a. wp (f a) (\<lambda>_ t. ow_fault t = ow_fault w \<and> ow_live t = ow_live w) (\<lambda>_ _. False)) (\<lambda>_ _. False) w"
  proof (rule wp_mono)
    fix a and t :: "'e owned" assume t: "ow_fault t = ow_fault w \<and> ow_live t = ow_live w"
    show "wp (f a) (\<lambda>_ t. ow_fault t = ow_fault w \<and> ow_live t = ow_live w) (\<lambda>_ _. False) t"
      using keepsD [OF assms(2) [of a], where w = t] t by simp
  qed
qed

section \<open>The contract\<close>

text \<open>
  \<open>lawful\<close> is what the operations assume of the native library.  Each operation gets a wrapper
  whose object is held; \<open>close\<close> gives it back, \<open>clone\<close> hands out one more, and no other method
  changes what is held.
\<close>

locale closable =
  fixes kind :: nativeKind
    and handle :: "'s \<Rightarrow> nat option"
    and close :: "'s \<Rightarrow> ('e owned, 's) go"
    and clone :: "'s \<Rightarrow> ('e owned, 's option) go"
    and operate :: "'m \<Rightarrow> 's \<Rightarrow> ('e owned, unit) go"
    and lawful :: bool
  assumes close_law: "lawful \<Longrightarrow> objects [(kind, handle s)] \<subseteq># ow_live w \<Longrightarrow>
      wp (close s) (\<lambda>s' t. handle s' = None \<and> ow_fault t = ow_fault w
        \<and> ow_live t + objects [(kind, handle s)] = ow_live w) (\<lambda>_ _. False) w"
    and clone_law: "lawful \<Longrightarrow> objects [(kind, handle s)] \<subseteq># ow_live w \<Longrightarrow>
      wp (clone s) (\<lambda>r t. ow_fault t = ow_fault w
        \<and> ow_live t = ow_live w + (case r of None \<Rightarrow> {#} | Some s' \<Rightarrow> objects [(kind, handle s')])) (\<lambda>_ _. False) w"
    and method_law: "lawful \<Longrightarrow> objects [(kind, handle s)] \<subseteq># ow_live w \<Longrightarrow>
      wp (operate m s) (\<lambda>_ t. ow_fault t = ow_fault w \<and> ow_live t = ow_live w) (\<lambda>_ _. False) w"
begin

definition held :: "(nativeKind \<times> nat) multiset \<Rightarrow> bool \<Rightarrow> 's list \<Rightarrow> 'e owned \<Rightarrow> bool" where
  "held others fault ss w \<longleftrightarrow> ow_fault w = fault \<and> ow_live w = others + family kind (map handle ss)"

lemma held_member: "held others fault ss w \<Longrightarrow> i < length ss \<Longrightarrow> objects [(kind, handle (ss ! i))] \<subseteq># ow_live w"
  using family_member [of i "map handle ss" kind]
  by (simp add: held_def subset_mset.add_increasing del: objects_simps)

lemma calls_hold:
  assumes lawful
  shows "held others fault ss w \<Longrightarrow>
    wp (familyCalls close clone operate cs ss) (\<lambda>ss' t. held others fault ss' t) (\<lambda>_ _. False) w"
proof (induction cs arbitrary: ss w)
  case Nil
  then show ?case by (simp add: wp)
next
  case (Cons c cs)
  have step: "wp m (\<lambda>ss' t. wp (familyCalls close clone operate cs ss') (\<lambda>ss'' u. held others fault ss'' u) (\<lambda>_ _. False) t)
      (\<lambda>_ _. False) w" if "wp m (\<lambda>ss' t. held others fault ss' t) (\<lambda>_ _. False) w" for m
    using that by (rule wp_mono) (auto intro: Cons.IH)
  show ?case
  proof (cases c)
    case (CallClose i)
    have "wp (bind (close (ss ! i)) (\<lambda>s. ret (ss[i := s]))) (\<lambda>ss' t. held others fault ss' t) (\<lambda>_ _. False) w"
      if i: "i < length ss"
    proof -
      have shut: "held others fault (ss[i := s']) t" if "handle s' = None" "ow_fault t = ow_fault w"
          "ow_live t + objects [(kind, handle (ss ! i))] = ow_live w" for s' t
      proof -
        have "ow_live t + objects [(kind, handle (ss ! i))]
            = others + family kind (map handle (ss[i := s'])) + objects [(kind, handle (ss ! i))]"
          using family_update [of i "map handle ss" kind None] i that Cons.prems
          by (simp add: held_def map_update ac_simps del: objects_simps) simp
        then show ?thesis using that Cons.prems by (simp add: held_def del: objects_simps)
      qed
      show ?thesis unfolding wp
        by (rule wp_mono [OF close_law [OF assms held_member [OF Cons.prems i]]]) (use shut in blast)+
    qed
    then show ?thesis using CallClose Cons.prems by (simp add: wp_bind step wp_ret Cons.IH)
  next
    case (CallClone i)
    have "wp (bind (clone (ss ! i)) (\<lambda>r. ret (case r of None \<Rightarrow> ss | Some s \<Rightarrow> ss @ [s])))
      (\<lambda>ss' t. held others fault ss' t) (\<lambda>_ _. False) w" if "i < length ss"
      unfolding wp
      by (rule wp_mono [OF clone_law [OF assms held_member [OF Cons.prems that]]])
        (use Cons.prems in \<open>auto simp: held_def ac_simps simp del: objects_simps split: option.split\<close>)
    then show ?thesis using CallClone Cons.prems by (simp add: wp_bind step wp_ret Cons.IH)
  next
    case (CallMethod i m)
    have "wp (bind (operate m (ss ! i)) (\<lambda>_. ret ss)) (\<lambda>ss' t. held others fault ss' t) (\<lambda>_ _. False) w"
      if "i < length ss"
      unfolding wp
      by (rule wp_mono [OF method_law [OF assms held_member [OF Cons.prems that]]])
        (use Cons.prems in \<open>auto simp: held_def\<close>)
    then show ?thesis using CallMethod Cons.prems by (simp add: wp_bind step wp_ret Cons.IH)
  qed
qed

end

end
