(* ===== verification/Sync_Engine.thy ===== *)
theory Sync_Engine
  imports Native_Objects
begin

text \<open>
  The synchronous engine: the cgo wrappers that turn a C status with its out-parameters into a
  Go result (\<^verbatim>\<open>internal/native/engine.go\<close>, \<^verbatim>\<open>account_group.go\<close>) and the methods of
  \<^verbatim>\<open>Engine\<close> (\<^verbatim>\<open>engine.go\<close>), which copy what they were given and release it.
\<close>

section \<open>The native library\<close>

datatype adjust_status = AdjustError | AdjustApplied | AdjustRejected | AdjustOther nat

text \<open>
  The C entry points, given the engine pointer (absent for null), and the content of the
  objects they hand over.  Outputs: a status, then the out-parameters in the order of the C
  signature, the error string last.
\<close>

type_synonym 'e decision = "'e \<Rightarrow> (c_status \<times> nat option \<times> nat option \<times> nat option) \<times> 'e"
type_synonym 'e attempt = "'e \<Rightarrow> (bool \<times> nat option \<times> nat option) \<times> 'e"

record 'e nativeEngine =
  ne_start :: "nat option \<Rightarrow> order \<Rightarrow> 'e decision"
  ne_execute :: "nat option \<Rightarrow> order \<Rightarrow> 'e decision"
  ne_dropCopy :: "nat option \<Rightarrow> order \<Rightarrow> 'e decision"
  ne_startDryRun :: "nat option \<Rightarrow> order \<Rightarrow> 'e attempt"
  ne_executeDryRun :: "nat option \<Rightarrow> order \<Rightarrow> 'e attempt"
  ne_report :: "nat option \<Rightarrow> executionReport \<Rightarrow> 'e attempt"
  ne_adjust :: "nat option \<Rightarrow> accountID \<Rightarrow> adjustment list
    \<Rightarrow> 'e \<Rightarrow> (adjust_status \<times> nat option \<times> nat option \<times> nat option \<times> nat option) \<times> 'e"
  ne_retire :: "nat option \<Rightarrow> accountID \<Rightarrow> 'e attempt"
  ne_string :: "nat \<Rightarrow> 'e \<Rightarrow> string"
  ne_rejects :: "nat \<Rightarrow> 'e \<Rightarrow> reject list"
  ne_blocks :: "nat \<Rightarrow> 'e \<Rightarrow> accountBlock list"
  ne_outcomes :: "nat \<Rightarrow> 'e \<Rightarrow> adjustmentOutcome list"
  ne_postBlocks :: "nat \<Rightarrow> 'e \<Rightarrow> accountBlock list"
  ne_postAdjustments :: "nat \<Rightarrow> 'e \<Rightarrow> adjustmentOutcome list"
  ne_postPnls :: "nat \<Rightarrow> 'e \<Rightarrow> accountPnlOutcome list"
  ne_batchRejects :: "nat \<Rightarrow> 'e \<Rightarrow> reject list"
  ne_batchIndex :: "nat \<Rightarrow> 'e \<Rightarrow> nat"
  ne_retireMessage :: "nat \<Rightarrow> 'e \<Rightarrow> string"
  ne_retireKind :: "nat \<Rightarrow> 'e \<Rightarrow> nat"
  ne_retireRefusals :: "nat \<Rightarrow> 'e \<Rightarrow> (string option \<times> nat option) list"

section \<open>The wrappers\<close>

text \<open>The switch the three deciding wrappers share: \<open>k\<close> is the kind of their result.\<close>

definition decided ::
    "'e nativeEngine \<Rightarrow> nativeKind \<Rightarrow> string \<Rightarrow> string \<Rightarrow> 'e decision
      \<Rightarrow> ('e owned, nat option \<times> nat option \<times> err) go" where
  "decided x k noReason name call =
     bind (issue (\<lambda>(_, result, rejects, outError). [(k, result), (KRejects, rejects), (KString, outError)]) call)
       (\<lambda>(status, result, rejects, outError). case status of
          StatusPassed \<Rightarrow> ret (result, None, None)
        | StatusRejected \<Rightarrow>
            if rejects = None then ret (None, None, Some (Text noReason)) else ret (None, rejects, None)
        | StatusError \<Rightarrow>
            bind (consumeSharedStringAsError (ne_string x) outError (name @ '' failed'')) (\<lambda>e. ret (None, None, Some e))
        | StatusOther _ \<Rightarrow> bind (release k result) (\<lambda>_. bind (release KRejects rejects) (\<lambda>_.
            bind (release KString outError) (\<lambda>_.
              ret (None, None, Some (Text (name @ '' failed with unexpected status'')))))))"

definition EngineStartPreTrade where
  "EngineStartPreTrade x engine ord = decided x KRequest
     ''order rejected, but no reject reason provided'' ''openpit_engine_start_pre_trade'' (ne_start x engine ord)"

definition EngineExecutePreTrade where
  "EngineExecutePreTrade x engine ord = decided x KReservation
     ''order rejected, but no reject reason provided'' ''openpit_engine_execute_pre_trade'' (ne_execute x engine ord)"

definition EngineApplyDropCopy where
  "EngineApplyDropCopy x engine ord = decided x KDropCopy
     ''drop copy rejected, but no reject reason provided'' ''openpit_engine_apply_drop_copy'' (ne_dropCopy x engine ord)"

text \<open>The wrappers that answer with a flag and one object.\<close>

definition attempted ::
    "'e nativeEngine \<Rightarrow> nativeKind \<Rightarrow> string \<Rightarrow> 'e attempt \<Rightarrow> ('e owned, nat option \<times> err) go" where
  "attempted x k name call =
     bind (issue (\<lambda>(_, result, outError). [(k, result), (KString, outError)]) call)
       (\<lambda>(ok, result, outError).
          if \<not> ok then bind (consumeSharedStringAsError (ne_string x) outError (name @ '' failed''))
            (\<lambda>e. ret (None, Some e))
          else ret (result, None))"

definition EngineStartPreTradeDryRun where
  "EngineStartPreTradeDryRun x engine ord =
     attempted x KReport ''openpit_engine_start_pre_trade_dry_run'' (ne_startDryRun x engine ord)"

definition EngineExecutePreTradeDryRun where
  "EngineExecutePreTradeDryRun x engine ord =
     attempted x KReport ''openpit_engine_execute_pre_trade_dry_run'' (ne_executeDryRun x engine ord)"

definition EngineApplyExecutionReport where
  "EngineApplyExecutionReport x engine rep =
     attempted x KPostTrade ''openpit_engine_apply_execution_report'' (ne_report x engine rep)"

definition EngineApplyAccountAdjustment where
  "EngineApplyAccountAdjustment x engine account adjustments =
     bind (issue (\<lambda>(_, reject, outcomes, blocks, outError).
         [(KBatchError, reject), (KOutcomes, outcomes), (KBlocks, blocks), (KString, outError)])
       (ne_adjust x engine account adjustments))
       (\<lambda>(status, reject, outcomes, blocks, outError). case status of
          AdjustError \<Rightarrow> bind (consumeSharedStringAsError (ne_string x) outError
            ''openpit_engine_apply_account_adjustment failed'') (\<lambda>e. ret (None, None, None, Some e))
        | AdjustApplied \<Rightarrow> ret (None, outcomes, blocks, None)
        | AdjustRejected \<Rightarrow> ret (reject, None, None, None)
        | AdjustOther _ \<Rightarrow> bind (release KBatchError reject) (\<lambda>_. bind (release KOutcomes outcomes) (\<lambda>_.
            bind (release KBlocks blocks) (\<lambda>_. bind (release KString outError) (\<lambda>_.
              ret (None, None, None,
                Some (Text ''openpit_engine_apply_account_adjustment failed with unexpected status'')))))))"

text \<open>Here a retirement error, when there is one, is the answer to a failed call.\<close>

definition EngineRetireAccount where
  "EngineRetireAccount x engine account =
     bind (issue (\<lambda>(_, retirement, outError). [(KRetirementError, retirement), (KString, outError)])
       (ne_retire x engine account))
       (\<lambda>(ok, retirement, outError).
          if \<not> ok then (if retirement \<noteq> None then ret (retirement, None)
            else bind (consumeSharedStringAsError (ne_string x) outError ''openpit_engine_retire_account failed'')
              (\<lambda>e. ret (None, Some e)))
          else ret (None, None))"

section \<open>Decoding\<close>

text \<open>The length of a null list is zero.\<close>

definition rejectListFromHandle where
  "rejectListFromHandle x h = bind (inspect KRejects h [] (ne_rejects x)) (\<lambda>rs. ret (NewListFromHandle rs))"

definition NewAccountAdjustmentBatchErrorFromHandle where
  "NewAccountAdjustmentBatchErrorFromHandle x h =
     bind (inspect KBatchError h [] (ne_batchRejects x)) (\<lambda>rs. case NewListFromHandle rs of
        Inl e \<Rightarrow> ret (Inl e)
      | Inr rejects \<Rightarrow> bind (inspect KBatchError h 0 (ne_batchIndex x)) (\<lambda>i. ret (Inr (rejects, i))))"

record accountRetirementError =
  rt_Message :: string
  rt_Kind :: nat
  rt_Refusals :: "(string \<times> nat) list"

text \<open>The index of the offending refusal, which the texts name, is left out of them.\<close>

fun retirementRefusals :: "(string option \<times> nat option) list \<Rightarrow> go_error + (string \<times> nat) list" where
  "retirementRefusals [] = Inr []"
| "retirementRefusals ((name, kind) # rs) =
     (case name of None \<Rightarrow> Inl (Text ''account retirement refusal has no policy name'')
      | Some n \<Rightarrow> (case kind of None \<Rightarrow> Inl (Text ''account retirement refusal has no kind'')
        | Some k \<Rightarrow> (case retirementRefusals rs of Inl e \<Rightarrow> Inl e | Inr ps \<Rightarrow> Inr ((n, k) # ps))))"

definition NewAccountRetirementErrorFromHandle where
  "NewAccountRetirementErrorFromHandle x h = deferring
     (bind (inspect KRetirementError h [] (ne_retireMessage x)) (\<lambda>msg.
      bind (inspect KRetirementError h 0 (ne_retireKind x)) (\<lambda>kind.
      bind (inspect KRetirementError h [] (ne_retireRefusals x)) (\<lambda>rs.
        ret (case retirementRefusals rs of Inl e \<Rightarrow> Inl e
             | Inr ps \<Rightarrow> Inr \<lparr>rt_Message = msg, rt_Kind = kind, rt_Refusals = ps\<rparr>)))))
     (release KRetirementError h)"

section \<open>The engine\<close>

record syncEngine = se_handle :: "nat option"

definition newEngineFromHandle :: "nat option \<Rightarrow> syncEngine" where
  "newEngineFromHandle h = \<lparr>se_handle = h\<rparr>"

definition Engine_Stop :: "syncEngine \<Rightarrow> ('e owned, syncEngine) go" where
  "Engine_Stop e = bind (release KEngine (se_handle e)) (\<lambda>_. ret (e\<lparr>se_handle := None\<rparr>))"

text \<open>What the three deciding methods do with the answer of their wrapper.\<close>

definition delivered where
  "delivered x msg wrap answer = bind answer (\<lambda>(result, rejects, e).
     if e \<noteq> None then ret (None, [], e)
     else case rejects of
       None \<Rightarrow> ret (Some (wrap result), [], None)
     | Some l \<Rightarrow> bind (rejectListFromHandle x rejects) (\<lambda>r. bind (release KRejects rejects) (\<lambda>_.
         case r of Inl le \<Rightarrow> ret (None, [], wrapf msg le) | Inr rs \<Rightarrow> ret (None, rs, None))))"

definition Engine_StartPreTrade where
  "Engine_StartPreTrade x e ord = delivered x ''failed to create reject list for rejected pre-trade start: ''
     NewRequestFromHandle (EngineStartPreTrade x (se_handle e) ord)"

definition Engine_ExecutePreTrade where
  "Engine_ExecutePreTrade x e ord = delivered x ''failed to create reject list for rejected order: ''
     NewReservationFromHandle (EngineExecutePreTrade x (se_handle e) ord)"

definition Engine_ApplyDropCopy where
  "Engine_ApplyDropCopy x e ord = delivered x ''failed to create reject list for rejected drop copy: ''
     NewDropCopyOperationFromHandle (EngineApplyDropCopy x (se_handle e) ord)"

definition Engine_StartPreTradeDryRun where
  "Engine_StartPreTradeDryRun x e ord = bind (EngineStartPreTradeDryRun x (se_handle e) ord) (\<lambda>(r, err).
     if err \<noteq> None then ret (None, err) else ret (Some (NewDryRunReportFromHandle r), None))"

definition Engine_ExecutePreTradeDryRun where
  "Engine_ExecutePreTradeDryRun x e ord = bind (EngineExecutePreTradeDryRun x (se_handle e) ord) (\<lambda>(r, err).
     if err \<noteq> None then ret (None, err) else ret (Some (NewDryRunReportFromHandle r), None))"

definition Engine_ApplyExecutionReport where
  "Engine_ApplyExecutionReport x e rep = bind (EngineApplyExecutionReport x (se_handle e) rep) (\<lambda>(result, err).
     if err \<noteq> None then ret (zeroPostTradeResult, err)
     else deferring
       (bind (inspect KPostTrade result [] (ne_postBlocks x)) (\<lambda>blocks.
        bind (inspect KPostTrade result [] (ne_postAdjustments x)) (\<lambda>outcomes.
        bind (inspect KPostTrade result [] (ne_postPnls x)) (\<lambda>pnls.
          ret (\<lparr>ptr_AccountBlocks = blocks, ptr_AccountPnls = pnls, ptr_AccountAdjustments = outcomes\<rparr>, None)))))
       (release KPostTrade result))"

definition Engine_ApplyAccountAdjustment where
  "Engine_ApplyAccountAdjustment x e account adjustments =
     bind (EngineApplyAccountAdjustment x (se_handle e) account adjustments) (\<lambda>(reject, outcomes, blocks, err).
       if err \<noteq> None then ret (zeroBatchResult, err)
       else case reject of
         Some _ \<Rightarrow> bind (NewAccountAdjustmentBatchErrorFromHandle x reject) (\<lambda>r.
           bind (release KBatchError reject) (\<lambda>_. case r of
             Inl le \<Rightarrow> ret (zeroBatchResult,
               wrapf ''failed to create reject list for rejected account adjustment: '' le)
           | Inr be \<Rightarrow> ret (zeroBatchResult\<lparr>br_BatchError := Some be\<rparr>, None)))
       | None \<Rightarrow>
           bind (case outcomes of None \<Rightarrow> ret [] | Some _ \<Rightarrow>
             bind (inspect KOutcomes outcomes [] (ne_outcomes x)) (\<lambda>os. bind (release KOutcomes outcomes) (\<lambda>_. ret os)))
             (\<lambda>os.
           bind (case blocks of None \<Rightarrow> ret [] | Some _ \<Rightarrow>
             bind (inspect KBlocks blocks [] (ne_blocks x)) (\<lambda>bs. bind (release KBlocks blocks) (\<lambda>_. ret bs)))
             (\<lambda>bs. ret (\<lparr>br_BatchError = None, br_Outcomes = os, br_AccountBlocks = bs\<rparr>, None))))"

text \<open>The error is a transport error, or a domain error of retirement.\<close>

definition Engine_RetireAccount where
  "Engine_RetireAccount x e account = bind (EngineRetireAccount x (se_handle e) account) (\<lambda>(retirement, err).
     case err of
       Some te \<Rightarrow> ret (Some (Inl te))
     | None \<Rightarrow> (case retirement of
         None \<Rightarrow> ret None
       | Some _ \<Rightarrow> bind (NewAccountRetirementErrorFromHandle x retirement) (\<lambda>r.
           ret (case r of Inl ce \<Rightarrow> Some (Inl ce) | Inr re \<Rightarrow> Some (Inr re)))))"

end
