(* ===== verification/Engine_Builder.thy ===== *)
theory Engine_Builder
  imports Sync_Engine
begin

text \<open>
  The builder of the synchronous engine (\<^verbatim>\<open>engine_builder.go\<close>,
  \<^verbatim>\<open>client_engine_builder.go\<close>): it takes every policy it is given, hands each to the native
  builder or keeps it until it is closed itself, and releases the native builder when the
  engine is built or the builder is closed.
\<close>

section \<open>The native builder\<close>

text \<open>
  What became of the policies \<open>'p\<close> that were handed in: taken by the native side, which closes
  a policy with its last reference, or closed by the Go builder.
\<close>

record ('p, 'e) policies =
  po_taken :: "'p list"
  po_closed :: "'p list"
  po_env :: 'e

type_synonym ('p, 'e, 'a) building = "(('p, 'e) policies owned, 'a) go"

text \<open>
  C entry points, with the objects they write; \<open>nb_start\<close> is \<^verbatim>\<open>custompolicy.StartPreTrade\<close>,
  which on success leaves one reference to a native policy, and \<open>nb_close\<close> the policy's own
  \<^verbatim>\<open>Close\<close>.  \<open>nb_buildError\<close> reads a domain error of the build.
\<close>

datatype syncPolicy = SyncPolicyNone | SyncPolicyFull | SyncPolicyAccount

record ('p, 'e) nativeBuilder =
  nb_create :: "syncPolicy \<Rightarrow> 'e \<Rightarrow> (nat option \<times> nat option) \<times> 'e"
  nb_start :: "'p \<Rightarrow> 'e \<Rightarrow> (go_error + nat) \<times> 'e"
  nb_add :: "nat option \<Rightarrow> nat \<Rightarrow> 'e \<Rightarrow> (bool \<times> nat option) \<times> 'e"
  nb_build :: "nat option \<Rightarrow> 'e \<Rightarrow> (nat option \<times> nat option \<times> nat option) \<times> 'e"
  nb_string :: "nat \<Rightarrow> 'e \<Rightarrow> string"
  nb_buildError :: "nat \<Rightarrow> 'e \<Rightarrow> nat \<times> string \<times> 16 word"
  nb_name :: "'p \<Rightarrow> string"
  nb_close :: "'p \<Rightarrow> ('e, unit) go"

definition onNative :: "('e \<Rightarrow> 'r \<times> 'e) \<Rightarrow> ('p, 'e) policies \<Rightarrow> 'r \<times> ('p, 'e) policies" where
  "onNative call s = (case call (po_env s) of (r, e) \<Rightarrow> (r, s\<lparr>po_env := e\<rparr>))"

definition textOf :: "('p, 'e) nativeBuilder \<Rightarrow> nat \<Rightarrow> ('p, 'e) policies \<Rightarrow> string" where
  "textOf x h s = nb_string x h (po_env s)"

definition CreateEngineBuilder :: "('p, 'e) nativeBuilder \<Rightarrow> syncPolicy \<Rightarrow> ('p, 'e, go_error + nat) building" where
  "CreateEngineBuilder x sync =
     bind (issue (\<lambda>(b, outError). [(KBuilder, b), (KString, outError)]) (onNative (nb_create x sync)))
       (\<lambda>(b, outError). case b of
          None \<Rightarrow> bind (consumeSharedStringAsError (textOf x) outError ''openpit_create_engine_builder failed'')
            (\<lambda>e. ret (Inl e))
        | Some h \<Rightarrow> ret (Inr h))"

text \<open>The builder and the policy must be live, or the builder null.\<close>

definition EngineBuilderAddPreTradePolicy ::
    "('p, 'e) nativeBuilder \<Rightarrow> nat option \<Rightarrow> nat \<Rightarrow> ('p, 'e, err) building" where
  "EngineBuilderAddPreTradePolicy x b p =
     bind (inspect KBuilder b () (\<lambda>_ _. ())) (\<lambda>_. bind (inspect KPolicy (Some p) () (\<lambda>_ _. ())) (\<lambda>_.
     bind (issue (\<lambda>(_, outError). [(KString, outError)]) (onNative (nb_add x b p))) (\<lambda>(ok, outError).
       if ok then ret None
       else bind (consumeSharedStringAsError (textOf x) outError ''openpit_engine_builder_add_pre_trade_policy failed'')
         (\<lambda>e. ret (Some e)))))"

definition EngineBuilderBuild ::
    "('p, 'e) nativeBuilder \<Rightarrow> nat option \<Rightarrow> ('p, 'e, nat option \<times> nat option \<times> err) building" where
  "EngineBuilderBuild x b =
     bind (inspect KBuilder b () (\<lambda>_ _. ())) (\<lambda>_.
     bind (issue (\<lambda>(e, buildError, outError). [(KEngine, e), (KBuildError, buildError), (KString, outError)])
       (onNative (nb_build x b)))
       (\<lambda>(e, buildError, outError). case e of
          Some h \<Rightarrow> ret (Some h, None, None)
        | None \<Rightarrow> (case buildError of
            Some _ \<Rightarrow> ret (None, buildError, None)
          | None \<Rightarrow> bind (consumeSharedStringAsError (textOf x) outError ''openpit_engine_builder_build failed'')
              (\<lambda>err. ret (None, None, Some err)))))"

definition startPolicy :: "('p, 'e) nativeBuilder \<Rightarrow> 'p \<Rightarrow> ('p, 'e, go_error + nat) building" where
  "startPolicy x p = issue (\<lambda>r. case r of Inl _ \<Rightarrow> [] | Inr h \<Rightarrow> [(KPolicy, Some h)])
     (\<lambda>s. case onNative (nb_start x p) s of
        (Inl e, t) \<Rightarrow> (Inl e, t) | (Inr h, t) \<Rightarrow> (Inr h, t\<lparr>po_taken := po_taken t @ [p]\<rparr>))"

definition closePolicy :: "('p, 'e) nativeBuilder \<Rightarrow> 'p \<Rightarrow> ('p, 'e, unit) building" where
  "closePolicy x p w = (let s = ow_env w in case nb_close x p (po_env s) of
     (r, e) \<Rightarrow> (r, w\<lparr>ow_env := s\<lparr>po_closed := po_closed s @ [p], po_env := e\<rparr>\<rparr>))"

section \<open>The builder\<close>

record 'p readyEngineBuilder =
  rb_handle :: "nat option"
  rb_err :: err
  rb_unfinished :: "'p list"

definition newReadyEngineBuilder ::
    "('p, 'e) nativeBuilder \<Rightarrow> syncPolicy \<Rightarrow> ('p, 'e, 'p readyEngineBuilder) building" where
  "newReadyEngineBuilder x sync = bind (CreateEngineBuilder x sync) (\<lambda>r. case r of
     Inl e \<Rightarrow> ret \<lparr>rb_handle = None, rb_err = Some e, rb_unfinished = []\<rparr>
   | Inr h \<Rightarrow> ret \<lparr>rb_handle = Some h, rb_err = None, rb_unfinished = []\<rparr>)"

fun closeAll :: "('p, 'e) nativeBuilder \<Rightarrow> 'p list \<Rightarrow> ('p, 'e, unit) building" where
  "closeAll x [] = ret ()"
| "closeAll x (p # ps) = bind (closePolicy x p) (\<lambda>_. closeAll x ps)"

definition ReadyEngineBuilder_Close ::
    "('p, 'e) nativeBuilder \<Rightarrow> 'p readyEngineBuilder \<Rightarrow> ('p, 'e, 'p readyEngineBuilder) building" where
  "ReadyEngineBuilder_Close x b = bind (closeAll x (rb_unfinished b)) (\<lambda>_.
     if rb_handle b \<noteq> None then bind (release KBuilder (rb_handle b)) (\<lambda>_.
       ret (b\<lparr>rb_unfinished := [], rb_handle := None\<rparr>))
     else ret (b\<lparr>rb_unfinished := []\<rparr>))"

text \<open>The error of a policy that could not be added, with the policy's name.\<close>

definition newEngineBuilderPolicyAddError :: "go_error \<Rightarrow> string \<Rightarrow> go_error" where
  "newEngineBuilderPolicyAddError e name = Wrap (''failed to add policy '' @ name @ '': '') e []"

definition addPreTradePolicy ::
    "('p, 'e) nativeBuilder \<Rightarrow> 'p \<Rightarrow> 'p readyEngineBuilder \<Rightarrow> ('p, 'e, 'p readyEngineBuilder) building" where
  "addPreTradePolicy x p b =
     (if rb_err b \<noteq> None then ret (b\<lparr>rb_unfinished := rb_unfinished b @ [p]\<rparr>)
      else bind (startPolicy x p) (\<lambda>r. case r of
        Inl e \<Rightarrow> ret (b\<lparr>rb_err := Some (newEngineBuilderPolicyAddError e (nb_name x p)),
                       rb_unfinished := rb_unfinished b @ [p]\<rparr>)
      | Inr h \<Rightarrow> deferring
          (bind (EngineBuilderAddPreTradePolicy x (rb_handle b) h) (\<lambda>e. case e of
             None \<Rightarrow> ret b
           | Some err \<Rightarrow> ret (b\<lparr>rb_err := Some (newEngineBuilderPolicyAddError err (nb_name x p))\<rparr>)))
          (release KPolicy (Some h))))"

fun ReadyEngineBuilder_PreTrade ::
    "('p, 'e) nativeBuilder \<Rightarrow> 'p list \<Rightarrow> 'p readyEngineBuilder \<Rightarrow> ('p, 'e, 'p readyEngineBuilder) building" where
  "ReadyEngineBuilder_PreTrade x [] b = ret b"
| "ReadyEngineBuilder_PreTrade x (p # ps) b =
     bind (addPreTradePolicy x p b) (ReadyEngineBuilder_PreTrade x ps)"

text \<open>\<open>build\<close> is the method of the policy's own ready builder, given the native builder.\<close>

definition ReadyEngineBuilder_Builtin ::
    "(nat option \<Rightarrow> 'e \<Rightarrow> err \<times> 'e) \<Rightarrow> 'p readyEngineBuilder \<Rightarrow> ('p, 'e, 'p readyEngineBuilder) building" where
  "ReadyEngineBuilder_Builtin build b =
     (if rb_err b \<noteq> None then ret b
      else bind (inspect KBuilder (rb_handle b) () (\<lambda>_ _. ())) (\<lambda>_.
        bind (issue (\<lambda>_. []) (onNative (build (rb_handle b)))) (\<lambda>e.
          if e \<noteq> None then ret (b\<lparr>rb_err := e\<rparr>) else ret b)))"

record engineBuildError =
  eb_Code :: nat
  eb_PolicyName :: string
  eb_PolicyGroupID :: "16 word"

datatype buildFailure = BuildDomain engineBuildError | BuildOther go_error

definition newEngineBuildErrorFromHandle ::
    "('p, 'e) nativeBuilder \<Rightarrow> nat option \<Rightarrow> ('p, 'e, engineBuildError) building" where
  "newEngineBuildErrorFromHandle x h = bind
     (inspect KBuildError h (0, [], 0) (\<lambda>n s. nb_buildError x n (po_env s))) (\<lambda>(code, name, group).
       ret \<lparr>eb_Code = code, eb_PolicyName = name, eb_PolicyGroupID = group\<rparr>)"

text \<open>
  \<^verbatim>\<open>Build\<close> defers \<^verbatim>\<open>Close\<close>, which runs on the builder as it is, since nothing before it
  changes its fields, and leaves it closed.
\<close>

definition ReadyEngineBuilder_Build ::
    "('p, 'e) nativeBuilder \<Rightarrow> 'p readyEngineBuilder
      \<Rightarrow> ('p, 'e, (buildFailure + syncEngine) \<times> 'p readyEngineBuilder) building" where
  "ReadyEngineBuilder_Build x b =
     bind (deferring
       (case rb_err b of
         Some e \<Rightarrow> ret (Inl (BuildOther e))
       | None \<Rightarrow> bind (EngineBuilderBuild x (rb_handle b)) (\<lambda>(h, buildErr, err). case buildErr of
           Some _ \<Rightarrow> bind (newEngineBuildErrorFromHandle x buildErr) (\<lambda>structured.
             bind (release KBuildError buildErr) (\<lambda>_. ret (Inl (BuildDomain structured))))
         | None \<Rightarrow> (case err of Some e \<Rightarrow> ret (Inl (BuildOther e)) | None \<Rightarrow> ret (Inr (newEngineFromHandle h)))))
       (bind (ReadyEngineBuilder_Close x b) (\<lambda>_. ret ())))
       (\<lambda>r. ret (r, b\<lparr>rb_unfinished := [], rb_handle := None\<rparr>))"

section \<open>The stages before and around it\<close>

definition SyncedEngineBuilder_PreTrade where
  "SyncedEngineBuilder_PreTrade x sync ps =
     bind (newReadyEngineBuilder x sync) (ReadyEngineBuilder_PreTrade x ps)"

definition SyncedEngineBuilder_Builtin where
  "SyncedEngineBuilder_Builtin x sync build =
     bind (newReadyEngineBuilder x sync) (ReadyEngineBuilder_Builtin build)"

text \<open>
  A client builder adds its policies behind one of the adapters of
  \<^verbatim>\<open>policy_adapter.go\<close>, chosen once for the builder.
\<close>

fun ClientReadyEngineBuilder_PreTrade where
  "ClientReadyEngineBuilder_PreTrade x fast safe unsafe [] b = ret b"
| "ClientReadyEngineBuilder_PreTrade x fast safe unsafe (p # ps) b =
     bind (ReadyEngineBuilder_PreTrade x [if fast then unsafe p else safe p] b)
       (ClientReadyEngineBuilder_PreTrade x fast safe unsafe ps)"

definition ClientSyncedEngineBuilder_PreTrade where
  "ClientSyncedEngineBuilder_PreTrade x sync fast safe unsafe ps =
     bind (newReadyEngineBuilder x sync) (ClientReadyEngineBuilder_PreTrade x fast safe unsafe ps)"

end
