(* ===== verification/Market_Data.thy ===== *)
theory Market_Data
  imports Closable Callbacks Engine_Builder Param_Values "HOL-Library.Signed_Division"
begin

text \<open>
  The market-data service (\<^verbatim>\<open>marketdata/service.go\<close>, \<^verbatim>\<open>quote.go\<close>, \<^verbatim>\<open>errors.go\<close>,
  \<^verbatim>\<open>account_group_resolver.go\<close>) over \<^verbatim>\<open>internal/native/marketdata.go\<close>: a registry of
  instruments and quotes that lives in the native library.  The Go side guards a closed handle,
  splits durations, maps statuses to errors and answers the library's question for the group of
  a reading account.
\<close>

section \<open>Quotes and lifetimes\<close>

type_synonym instrumentID = "64 word"

record quote =
  qu_mark :: "decimal cOptional"
  qu_bid :: "decimal cOptional"
  qu_ask :: "decimal cOptional"

definition zeroQuote :: quote where
  "zeroQuote = \<lparr>qu_mark = cNone zeroDecimal, qu_bid = cNone zeroDecimal, qu_ask = cNone zeroDecimal\<rparr>"

definition Quote_WithMark :: "decimal \<Rightarrow> quote \<Rightarrow> quote" where "Quote_WithMark p q = q\<lparr>qu_mark := cSome p\<rparr>"
definition Quote_WithBid :: "decimal \<Rightarrow> quote \<Rightarrow> quote" where "Quote_WithBid p q = q\<lparr>qu_bid := cSome p\<rparr>"
definition Quote_WithAsk :: "decimal \<Rightarrow> quote \<Rightarrow> quote" where "Quote_WithAsk p q = q\<lparr>qu_ask := cSome p\<rparr>"

definition Quote_Mark :: "quote \<Rightarrow> decimal option" where "Quote_Mark q = optionFromHandle (qu_mark q)"
definition Quote_Bid :: "quote \<Rightarrow> decimal option" where "Quote_Bid q = optionFromHandle (qu_bid q)"
definition Quote_Ask :: "quote \<Rightarrow> decimal option" where "Quote_Ask q = optionFromHandle (qu_ask q)"

text \<open>
  A duration is a signed number of nanoseconds; Go's division truncates, and a conversion to an
  unsigned type wraps around.
\<close>

definition timeSecond :: int where "timeSecond = 1000000000"

datatype quoteTTL = InfiniteTTL | TTLWithin "64 word" "32 word"

definition WithinTTL :: "int \<Rightarrow> quoteTTL" where
  "WithinTTL d = TTLWithin (word_of_int (d sdiv timeSecond)) (word_of_int (d smod timeSecond))"

definition sourceAgeParts :: "int \<Rightarrow> 64 word \<times> 32 word" where
  "sourceAgeParts age = (if age < 0 then (0, 0)
     else (word_of_int (age sdiv timeSecond), word_of_int (age smod timeSecond)))"

section \<open>Errors\<close>

datatype marketSentinel =
    ErrServiceClosed | ErrUnknownInstrument | ErrQuoteUnavailable | ErrQuoteExpired
  | ErrInvalidQuoteResolution | ErrAccountGroupResolution | ErrNoTarget
  | ErrAlreadyRegistered | ErrDuplicateID | ErrDuplicateInstrument

datatype registrationErrorKind = KindDuplicateID | KindDuplicateInstrument

record registrationError =
  rg_Instrument :: "instrument option"
  rg_InstrumentID :: "instrumentID option"
  rg_Kind :: registrationErrorKind

datatype marketError =
    MarketSentinel marketSentinel
  | AlreadyRegisteredError instrument
  | RegistrationError registrationError
  | UnknownInstrumentIDError instrumentID
  | AccountGroupResolutionError "panic option" err
  | UninitializedGroupAt nat
  | MarketOther go_error

text \<open>What \<^verbatim>\<open>errors.Is\<close> finds through the \<^verbatim>\<open>Unwrap\<close> methods.\<close>

fun market_Is :: "marketError \<Rightarrow> marketSentinel \<Rightarrow> bool" where
  "market_Is (MarketSentinel s) t = (s = t)"
| "market_Is (AlreadyRegisteredError _) t = (t = ErrAlreadyRegistered)"
| "market_Is (RegistrationError e) t = (case rg_Kind e of
     KindDuplicateID \<Rightarrow> t = ErrDuplicateID | KindDuplicateInstrument \<Rightarrow> t = ErrDuplicateInstrument)"
| "market_Is (UnknownInstrumentIDError _) t = (t = ErrUnknownInstrument)"
| "market_Is (AccountGroupResolutionError _ _) t = (t = ErrAccountGroupResolution)"
| "market_Is _ t = False"

section \<open>The native library\<close>

datatype registerStatus =
    RegisterOk | StatusAlreadyRegistered | StatusDuplicateID | StatusDuplicateInstrument
  | StatusUnknownInstrument | StatusNoTarget | RegisterError | RegisterOther nat

datatype getStatus =
    GetFound | GetUnavailable | GetUnknownInstrument | GetQuoteExpired | GetGroupFailed | GetError
  | GetOther nat

datatype registration =
    RegisterDefault | RegisterTTL quoteTTL | RegisterID instrumentID | RegisterIDTTL instrumentID quoteTTL

datatype ttlCommand =
    SetInstrument instrumentID quoteTTL | ClearInstrument instrumentID
  | SetInstrumentAccount instrumentID accountID quoteTTL | ClearInstrumentAccount instrumentID accountID
  | SetInstrumentGroup instrumentID "32 word" quoteTTL | ClearInstrumentGroup instrumentID "32 word"

datatype marketCommand =
    SetAccount accountID quoteTTL | ClearAccount accountID
  | SetGroup "32 word" quoteTTL | ClearGroup "32 word" | ClearQuote instrumentID

text \<open>
  A read runs in the library, which may ask for the group of the account on its way: an ask
  hands over its state, and goes on with the answer and the state the asked code left.
\<close>

datatype groupAnswer = NoGroup | FoundGroup "32 word" | GroupFailed

datatype 'e getRun =
    GetAnswer getStatus quote 'e
  | GetAsk 'e "groupAnswer \<Rightarrow> 'e \<Rightarrow> 'e getRun"

record 'e nativeMarket =
  nm_create :: "syncPolicy \<Rightarrow> quoteTTL \<Rightarrow> 'e \<Rightarrow> (nat option \<times> nat option) \<times> 'e"
  nm_clone :: "nat \<Rightarrow> 'e \<Rightarrow> nat option \<times> 'e"
  nm_register :: "nat \<Rightarrow> registration \<Rightarrow> cInstrument \<Rightarrow> 'e \<Rightarrow> (registerStatus \<times> instrumentID \<times> nat option) \<times> 'e"
  nm_push :: "nat \<Rightarrow> instrumentID \<Rightarrow> quote \<Rightarrow> 64 word \<times> 32 word \<Rightarrow> 'e \<Rightarrow> (registerStatus \<times> nat option) \<times> 'e"
  nm_pushFor :: "nat \<Rightarrow> instrumentID \<Rightarrow> quote \<Rightarrow> 64 word \<times> 32 word \<Rightarrow> accountID list \<Rightarrow> 32 word list
    \<Rightarrow> 'e \<Rightarrow> (registerStatus \<times> nat option) \<times> 'e"
  nm_pushBy :: "nat \<Rightarrow> cInstrument \<Rightarrow> quote \<Rightarrow> 64 word \<times> 32 word \<Rightarrow> 'e \<Rightarrow> (bool \<times> instrumentID \<times> nat option) \<times> 'e"
  nm_ttl :: "nat \<Rightarrow> ttlCommand \<Rightarrow> 'e \<Rightarrow> registerStatus \<times> 'e"
  nm_command :: "nat \<Rightarrow> marketCommand \<Rightarrow> 'e \<Rightarrow> 'e"
  nm_get :: "nat \<Rightarrow> instrumentID \<Rightarrow> accountID \<Rightarrow> 8 word \<Rightarrow> 'e \<Rightarrow> 'e getRun"
  nm_resolve :: "nat \<Rightarrow> cInstrument \<Rightarrow> 'e \<Rightarrow> instrumentID \<times> bool"
  nm_string :: "nat \<Rightarrow> 'e \<Rightarrow> string"

text \<open>
  The process: the table of cgo handles, here for the pointers to resolver states (a pointer of
  another type is foreign), the states themselves, and the rest, in which the library and the
  caller's \<^verbatim>\<open>AccountInfo\<close> run.
\<close>

record 'i resolverState =
  rv_info :: 'i
  rv_failure :: "panic option"
  rv_err :: err

datatype boxedPointer = ResolverPtr nat | ForeignPtr nat

record ('i, 'e) marketEnv =
  me_next :: nat
  me_handles :: "nat \<Rightarrow> boxedPointer option"
  me_alloc :: nat
  me_states :: "nat \<Rightarrow> 'i resolverState"
  me_rest :: 'e

type_synonym ('i, 'e, 'a) market = "(('i, 'e) marketEnv owned, 'a) go"

definition onRest :: "('e \<Rightarrow> 'r \<times> 'e) \<Rightarrow> ('i, 'e) marketEnv \<Rightarrow> 'r \<times> ('i, 'e) marketEnv" where
  "onRest f e = (case f (me_rest e) of (r, t) \<Rightarrow> (r, e\<lparr>me_rest := t\<rparr>))"

definition envModify :: "(('i, 'e) marketEnv \<Rightarrow> ('i, 'e) marketEnv) \<Rightarrow> ('i, 'e, unit) market" where
  "envModify f = modify (\<lambda>w. w\<lparr>ow_env := f (ow_env w)\<rparr>)"

definition textIn :: "'e nativeMarket \<Rightarrow> nat \<Rightarrow> ('i, 'e) marketEnv \<Rightarrow> string" where
  "textIn x n e = nm_string x n (me_rest e)"

section \<open>The wrappers\<close>

definition CreateMarketDataService ::
    "'e nativeMarket \<Rightarrow> syncPolicy \<Rightarrow> quoteTTL \<Rightarrow> ('i, 'e, nat option \<times> err) market" where
  "CreateMarketDataService x policy ttl =
     bind (issue (\<lambda>(service, outError). [(KMarketData, service), (KString, outError)]) (onRest (nm_create x policy ttl)))
       (\<lambda>(service, outError). if service = None
          then bind (consumeSharedStringAsError (textIn x) outError ''openpit_create_marketdata_service failed'')
            (\<lambda>e. ret (None, Some e))
          else ret (service, None))"

definition MarketDataServiceClone :: "'e nativeMarket \<Rightarrow> nat \<Rightarrow> ('i, 'e, nat option) market" where
  "MarketDataServiceClone x h = issue (\<lambda>c. [(KMarketData, c)]) (onRest (nm_clone x h))"

definition registering ::
    "'e nativeMarket \<Rightarrow> string \<Rightarrow> nat \<Rightarrow> registration \<Rightarrow> cInstrument \<Rightarrow> ('i, 'e, registerStatus \<times> instrumentID \<times> err) market" where
  "registering x name h r inst =
     bind (issue (\<lambda>(_, _, outError). [(KString, outError)]) (onRest (nm_register x h r inst))) (\<lambda>(status, i, outError).
       if status = RegisterError
       then bind (consumeSharedStringAsError (textIn x) outError (name @ '' failed'')) (\<lambda>e. ret (status, i, Some e))
       else ret (status, i, None))"

definition MarketDataServiceRegister where
  "MarketDataServiceRegister x h inst = registering x ''openpit_marketdata_service_register'' h RegisterDefault inst"

definition MarketDataServiceRegisterWithTTL where
  "MarketDataServiceRegisterWithTTL x h inst ttl =
     registering x ''openpit_marketdata_service_register_with_ttl'' h (RegisterTTL ttl) inst"

definition MarketDataServiceRegisterWithID where
  "MarketDataServiceRegisterWithID x h inst i =
     registering x ''openpit_marketdata_service_register_with_id'' h (RegisterID i) inst"

definition MarketDataServiceRegisterWithIDAndTTL where
  "MarketDataServiceRegisterWithIDAndTTL x h inst i ttl =
     registering x ''openpit_marketdata_service_register_with_id_and_ttl'' h (RegisterIDTTL i ttl) inst"

definition pushing ::
    "'e nativeMarket \<Rightarrow> string \<Rightarrow> ('e \<Rightarrow> (registerStatus \<times> nat option) \<times> 'e) \<Rightarrow> ('i, 'e, registerStatus \<times> err) market" where
  "pushing x name call = bind (issue (\<lambda>(_, outError). [(KString, outError)]) (onRest call)) (\<lambda>(status, outError).
     if status = RegisterError
     then bind (consumeSharedStringAsError (textIn x) outError (name @ '' failed'')) (\<lambda>e. ret (status, Some e))
     else ret (status, None))"

definition MarketDataServicePush where
  "MarketDataServicePush x h i quote age =
     pushing x ''openpit_marketdata_service_push'' (nm_push x h i quote (sourceAgeParts age))"

definition MarketDataServicePushFor where
  "MarketDataServicePushFor x h i quote age accounts groups =
     pushing x ''openpit_marketdata_service_push_for'' (nm_pushFor x h i quote (sourceAgeParts age) accounts groups)"

definition MarketDataServicePushByInstrument ::
    "'e nativeMarket \<Rightarrow> nat \<Rightarrow> cInstrument \<Rightarrow> quote \<Rightarrow> int \<Rightarrow> ('i, 'e, instrumentID \<times> err) market" where
  "MarketDataServicePushByInstrument x h inst quote age =
     bind (issue (\<lambda>(_, _, outError). [(KString, outError)]) (onRest (nm_pushBy x h inst quote (sourceAgeParts age))))
       (\<lambda>(ok, i, outError). if \<not> ok
          then bind (consumeSharedStringAsError (textIn x) outError ''openpit_marketdata_service_push_by_instrument failed'')
            (\<lambda>e. ret (i, Some e))
          else ret (i, None))"

section \<open>The question for the account group\<close>

definition newResolverHandle :: "'i \<Rightarrow> ('i, 'e, nat \<times> nat) market" where
  "newResolverHandle info = bind (read (\<lambda>w. (me_next (ow_env w) + 1, me_alloc (ow_env w) + 1))) (\<lambda>(h, p).
     bind (envModify (\<lambda>e. e\<lparr>me_next := h, me_handles := (me_handles e)(h \<mapsto> ResolverPtr p), me_alloc := p,
         me_states := (me_states e)(p := \<lparr>rv_info = info, rv_failure = None, rv_err = None\<rparr>)\<rparr>))
       (\<lambda>_. ret (h, p)))"

definition deleteResolverHandle :: "nat \<Rightarrow> ('i, 'e, unit) market" where
  "deleteResolverHandle h = bind (read (\<lambda>w. me_handles (ow_env w) h)) (\<lambda>v. if v = None then panic invalidHandle
     else envModify (\<lambda>e. e\<lparr>me_handles := (me_handles e)(h := None)\<rparr>))"

definition setState :: "nat \<Rightarrow> ('i resolverState \<Rightarrow> 'i resolverState) \<Rightarrow> ('i, 'e, unit) market" where
  "setState p f = envModify (\<lambda>e. e\<lparr>me_states := (me_states e)(p := f (me_states e p))\<rparr>)"

text \<open>\<open>account\<close> is \<^verbatim>\<open>AccountInfo.AccountGroup\<close> of the caller, which may panic.\<close>

definition askAccountInfo ::
    "('i \<Rightarrow> ('e, accountGroupID option) go) \<Rightarrow> nat \<Rightarrow> ('i, 'e, accountGroupID option) market" where
  "askAccountInfo account p w = (case account (rv_info (me_states (ow_env w) p)) (me_rest (ow_env w)) of
     (r, e) \<Rightarrow> (r, w\<lparr>ow_env := (ow_env w)\<lparr>me_rest := e\<rparr>\<rparr>))"

text \<open>
  The handle is looked up under the same deferred \<^verbatim>\<open>recover\<close> as the question; a panic of the
  lookup finds no state to note it in.
\<close>

definition pitMarketDataAccountGroupResolver ::
    "(panic \<Rightarrow> bool) \<Rightarrow> ('i \<Rightarrow> ('e, accountGroupID option) go) \<Rightarrow> nat \<Rightarrow> bool \<Rightarrow> ('i, 'e, groupAnswer) market" where
  "pitMarketDataAccountGroupResolver recoversNil account userData outGiven =
     (if \<not> outGiven then ret GroupFailed
      else bind (read (\<lambda>w. me_handles (ow_env w) userData)) (\<lambda>v. case v of
          None \<Rightarrow> guarded recoversNil GroupFailed (panic invalidHandle) (\<lambda>_. ret GroupFailed)
        | Some (ForeignPtr _) \<Rightarrow> ret GroupFailed
        | Some (ResolverPtr p) \<Rightarrow> guarded recoversNil GroupFailed
            (bind (askAccountInfo account p) (\<lambda>answer. case answer of
                None \<Rightarrow> ret NoGroup
              | Some g \<Rightarrow> if \<not> grp_initialized g
                  then bind (setState p (\<lambda>s. s\<lparr>rv_err := Some (Sentinel ErrUninitializedAccountGroupID)\<rparr>))
                    (\<lambda>_. ret GroupFailed)
                  else ret (FoundGroup (grp_native g))))
            (\<lambda>q. bind (setState p (\<lambda>s. s\<lparr>rv_failure := Some q\<rparr>)) (\<lambda>_. ret GroupFailed))))"

text \<open>The library runs a read and asks through the callback it was given.\<close>

primrec runGet :: "('i, 'e, groupAnswer) market \<Rightarrow> 'e getRun \<Rightarrow> ('i, 'e, getStatus \<times> quote) market" where
  "runGet callback (GetAnswer status quote e) = bind (envModify (\<lambda>v. v\<lparr>me_rest := e\<rparr>)) (\<lambda>_. ret (status, quote))"
| "runGet callback (GetAsk e go_on) = bind (envModify (\<lambda>v. v\<lparr>me_rest := e\<rparr>)) (\<lambda>_. bind callback (\<lambda>answer.
     bind (read (\<lambda>w. me_rest (ow_env w))) (\<lambda>e'. runGet callback (go_on answer e'))))"

definition MarketDataServiceGet where
  "MarketDataServiceGet x h i account callback resolution =
     bind (read (\<lambda>w. nm_get x h i account resolution (me_rest (ow_env w)))) (runGet callback)"

section \<open>The service\<close>

record service = sv_handle :: "nat option"

definition newServiceFromHandle :: "nat option \<Rightarrow> service" where
  "newServiceFromHandle h = \<lparr>sv_handle = h\<rparr>"

definition Service_Close :: "service \<Rightarrow> ('i, 'e, service) market" where
  "Service_Close s = (case sv_handle s of None \<Rightarrow> ret s
     | Some h \<Rightarrow> bind (release KMarketData (Some h)) (\<lambda>_. ret (s\<lparr>sv_handle := None\<rparr>)))"

text \<open>
  What every other method starts with: on a closed service it returns \<open>closed\<close>, otherwise it
  uses the handle.
\<close>

definition onService :: "service \<Rightarrow> 'a \<Rightarrow> (nat \<Rightarrow> ('i, 'e, 'a) market) \<Rightarrow> ('i, 'e, 'a) market" where
  "onService s closed body = (case sv_handle s of None \<Rightarrow> ret closed
     | Some h \<Rightarrow> bind (inspect KMarketData (Some h) () (\<lambda>_ _. ())) (\<lambda>_. body h))"

abbreviation serviceClosed :: "marketError option" where "serviceClosed \<equiv> Some (MarketSentinel ErrServiceClosed)"

definition cloneHandle :: "'e nativeMarket \<Rightarrow> service \<Rightarrow> ('i, 'e, nat option \<times> marketError option) market" where
  "cloneHandle x s = onService s (None, serviceClosed) (\<lambda>h. bind (MarketDataServiceClone x h) (\<lambda>c. ret (c, None)))"

definition Service_Clone :: "'e nativeMarket \<Rightarrow> service \<Rightarrow> ('i, 'e, service option \<times> marketError option) market" where
  "Service_Clone x s = onService s (None, serviceClosed)
     (\<lambda>h. bind (MarketDataServiceClone x h) (\<lambda>c. ret (Some (newServiceFromHandle c), None)))"

text \<open>The answers of a registration without and with an id of the caller.\<close>

definition registered where
  "registered inst answer = bind answer (\<lambda>(status, i, e). ret (case status of
     RegisterOk \<Rightarrow> (i, None)
   | StatusAlreadyRegistered \<Rightarrow> (0, Some (AlreadyRegisteredError inst))
   | _ \<Rightarrow> (0, map_option MarketOther e)))"

definition registeredWithID where
  "registeredWithID inst i answer = bind answer (\<lambda>(status, out, e). ret (case status of
     RegisterOk \<Rightarrow> (out, None)
   | StatusDuplicateID \<Rightarrow> (0, Some (RegistrationError
       \<lparr>rg_Instrument = None, rg_InstrumentID = Some i, rg_Kind = KindDuplicateID\<rparr>))
   | StatusDuplicateInstrument \<Rightarrow> (0, Some (RegistrationError
       \<lparr>rg_Instrument = Some inst, rg_InstrumentID = None, rg_Kind = KindDuplicateInstrument\<rparr>))
   | _ \<Rightarrow> (0, map_option MarketOther e)))"

definition Service_Register :: "'e nativeMarket \<Rightarrow> service \<Rightarrow> instrument \<Rightarrow> ('i, 'e, instrumentID \<times> marketError option) market" where
  "Service_Register x s inst = onService s (0, serviceClosed)
     (\<lambda>h. registered inst (MarketDataServiceRegister x h (Instrument_Handle inst)))"

definition Service_RegisterWithTTL ::
    "'e nativeMarket \<Rightarrow> service \<Rightarrow> instrument \<Rightarrow> quoteTTL \<Rightarrow> ('i, 'e, instrumentID \<times> marketError option) market" where
  "Service_RegisterWithTTL x s inst ttl = onService s (0, serviceClosed)
     (\<lambda>h. registered inst (MarketDataServiceRegisterWithTTL x h (Instrument_Handle inst) ttl))"

definition Service_RegisterWithID ::
    "'e nativeMarket \<Rightarrow> service \<Rightarrow> instrument \<Rightarrow> instrumentID \<Rightarrow> ('i, 'e, instrumentID \<times> marketError option) market" where
  "Service_RegisterWithID x s inst i = onService s (0, serviceClosed)
     (\<lambda>h. registeredWithID inst i (MarketDataServiceRegisterWithID x h (Instrument_Handle inst) i))"

definition Service_RegisterWithIDAndTTL ::
    "'e nativeMarket \<Rightarrow> service \<Rightarrow> instrument \<Rightarrow> instrumentID \<Rightarrow> quoteTTL
      \<Rightarrow> ('i, 'e, instrumentID \<times> marketError option) market" where
  "Service_RegisterWithIDAndTTL x s inst i ttl = onService s (0, serviceClosed)
     (\<lambda>h. registeredWithID inst i (MarketDataServiceRegisterWithIDAndTTL x h (Instrument_Handle inst) i ttl))"

fun firstUninitialized :: "nat \<Rightarrow> accountGroupID list \<Rightarrow> nat option" where
  "firstUninitialized k [] = None"
| "firstUninitialized k (g # gs) = (if \<not> grp_initialized g then Some k else firstUninitialized (k + 1) gs)"

definition Service_PushFor ::
    "'e nativeMarket \<Rightarrow> service \<Rightarrow> instrumentID \<Rightarrow> quote \<Rightarrow> int \<Rightarrow> accountID list \<Rightarrow> accountGroupID list
      \<Rightarrow> ('i, 'e, marketError option) market" where
  "Service_PushFor x s i quote age accounts groups = (case firstUninitialized 0 groups of
     Some k \<Rightarrow> ret (Some (UninitializedGroupAt k))
   | None \<Rightarrow> onService s serviceClosed (\<lambda>h.
       bind (MarketDataServicePushFor x h i quote age accounts (map grp_native groups)) (\<lambda>(status, e).
         ret (case status of
             RegisterOk \<Rightarrow> None
           | StatusUnknownInstrument \<Rightarrow> Some (UnknownInstrumentIDError i)
           | StatusNoTarget \<Rightarrow> Some (MarketSentinel ErrNoTarget)
           | _ \<Rightarrow> map_option MarketOther e))))"

definition Service_Push ::
    "'e nativeMarket \<Rightarrow> service \<Rightarrow> instrumentID \<Rightarrow> quote \<Rightarrow> int \<Rightarrow> ('i, 'e, marketError option) market" where
  "Service_Push x s i quote age = onService s serviceClosed (\<lambda>h.
     bind (MarketDataServicePush x h i quote age) (\<lambda>(status, e). ret (case status of
         RegisterOk \<Rightarrow> None
       | StatusUnknownInstrument \<Rightarrow> Some (UnknownInstrumentIDError i)
       | _ \<Rightarrow> map_option MarketOther e)))"

definition Service_PushByInstrument ::
    "'e nativeMarket \<Rightarrow> service \<Rightarrow> instrument \<Rightarrow> quote \<Rightarrow> int \<Rightarrow> ('i, 'e, instrumentID \<times> marketError option) market" where
  "Service_PushByInstrument x s inst quote age = onService s (0, serviceClosed) (\<lambda>h.
     bind (MarketDataServicePushByInstrument x h (Instrument_Handle inst) quote age) (\<lambda>(i, e).
       ret (case e of Some err \<Rightarrow> (0, Some (MarketOther err)) | None \<Rightarrow> (i, None))))"

text \<open>The six lifetime commands on an instrument share their answer.\<close>

definition ttlCall ::
    "'e nativeMarket \<Rightarrow> service \<Rightarrow> string \<Rightarrow> instrumentID \<Rightarrow> ttlCommand \<Rightarrow> ('i, 'e, marketError option) market" where
  "ttlCall x s name i c = onService s serviceClosed (\<lambda>h.
     bind (issue (\<lambda>_. []) (onRest (nm_ttl x h c))) (\<lambda>status. ret (case status of
         RegisterOk \<Rightarrow> None
       | StatusUnknownInstrument \<Rightarrow> Some (UnknownInstrumentIDError i)
       | _ \<Rightarrow> Some (MarketOther (Text (name @ '': unexpected status''))))))"

definition marketVoid :: "'e nativeMarket \<Rightarrow> service \<Rightarrow> marketCommand \<Rightarrow> ('i, 'e, unit) market" where
  "marketVoid x s c = onService s () (\<lambda>h. issue (\<lambda>_. []) (onRest (\<lambda>e. ((), nm_command x h c e))))"

definition groupGuard :: "accountGroupID \<Rightarrow> ('i, 'e, marketError option) market \<Rightarrow> ('i, 'e, marketError option) market" where
  "groupGuard g body = (if \<not> grp_initialized g
     then ret (Some (MarketOther (Sentinel ErrUninitializedAccountGroupID))) else body)"

definition Service_SetInstrumentTTL where
  "Service_SetInstrumentTTL x s i ttl = ttlCall x s ''openpit_marketdata_service_set_instrument_ttl'' i (SetInstrument i ttl)"

definition Service_ClearInstrumentTTL where
  "Service_ClearInstrumentTTL x s i = ttlCall x s ''openpit_marketdata_service_clear_instrument_ttl'' i (ClearInstrument i)"

definition Service_SetAccountTTL where "Service_SetAccountTTL x s account ttl = marketVoid x s (SetAccount account ttl)"
definition Service_ClearAccountTTL where "Service_ClearAccountTTL x s account = marketVoid x s (ClearAccount account)"

definition Service_SetAccountGroupTTL where
  "Service_SetAccountGroupTTL x s g ttl = groupGuard g
     (bind (marketVoid x s (SetGroup (grp_native g) ttl)) (\<lambda>_. ret None))"

definition Service_ClearAccountGroupTTL where
  "Service_ClearAccountGroupTTL x s g = groupGuard g (bind (marketVoid x s (ClearGroup (grp_native g))) (\<lambda>_. ret None))"

definition Service_SetInstrumentAccountTTL where
  "Service_SetInstrumentAccountTTL x s i account ttl =
     ttlCall x s ''openpit_marketdata_service_set_instrument_account_ttl'' i (SetInstrumentAccount i account ttl)"

definition Service_ClearInstrumentAccountTTL where
  "Service_ClearInstrumentAccountTTL x s i account =
     ttlCall x s ''openpit_marketdata_service_clear_instrument_account_ttl'' i (ClearInstrumentAccount i account)"

definition Service_SetInstrumentAccountGroupTTL where
  "Service_SetInstrumentAccountGroupTTL x s i g ttl = groupGuard g (ttlCall x s
     ''openpit_marketdata_service_set_instrument_account_group_ttl'' i (SetInstrumentGroup i (grp_native g) ttl))"

definition Service_ClearInstrumentAccountGroupTTL where
  "Service_ClearInstrumentAccountGroupTTL x s i g = groupGuard g (ttlCall x s
     ''openpit_marketdata_service_clear_instrument_account_group_ttl'' i (ClearInstrumentGroup i (grp_native g)))"

definition Service_Clear where "Service_Clear x s i = marketVoid x s (ClearQuote i)"

text \<open>
  A read boxes the caller's \<^verbatim>\<open>AccountInfo\<close> for the callback and takes the box back before it
  looks at the answer.  The library calls back with the user data it was given.
\<close>

definition service_get where
  "service_get x recoversNil account h i acc info resolution = bind (newResolverHandle info) (\<lambda>(ud, p).
     bind (MarketDataServiceGet x h i acc (pitMarketDataAccountGroupResolver recoversNil account ud True) resolution)
       (\<lambda>(status, quote). bind (deleteResolverHandle ud) (\<lambda>_.
         bind (read (\<lambda>w. me_states (ow_env w) p)) (\<lambda>state. ret (status, quote, state)))))"

definition getAnswer :: "getStatus \<Rightarrow> quote \<Rightarrow> panic option \<Rightarrow> err \<Rightarrow> quote \<times> marketError option" where
  "getAnswer status quote failure e = (case status of
     GetFound \<Rightarrow> (quote, None)
   | GetUnknownInstrument \<Rightarrow> (zeroQuote, Some (MarketSentinel ErrUnknownInstrument))
   | GetQuoteExpired \<Rightarrow> (quote, Some (MarketSentinel ErrQuoteExpired))
   | GetGroupFailed \<Rightarrow> (zeroQuote, Some (AccountGroupResolutionError failure e))
   | GetError \<Rightarrow> (zeroQuote, Some (MarketSentinel ErrInvalidQuoteResolution))
   | _ \<Rightarrow> (zeroQuote, Some (MarketSentinel ErrQuoteUnavailable)))"

definition Service_Get ::
    "'e nativeMarket \<Rightarrow> (panic \<Rightarrow> bool) \<Rightarrow> ('i \<Rightarrow> ('e, accountGroupID option) go) \<Rightarrow> service \<Rightarrow> instrumentID \<Rightarrow> accountID
      \<Rightarrow> 'i \<Rightarrow> 8 word \<Rightarrow> ('i, 'e, quote \<times> marketError option) market" where
  "Service_Get x recoversNil account s i acc info resolution = onService s (zeroQuote, serviceClosed)
     (\<lambda>h. bind (service_get x recoversNil account h i acc info resolution) (\<lambda>(status, quote, state).
       ret (getAnswer status quote (rv_failure state) (rv_err state))))"

definition Service_GetOptional ::
    "'e nativeMarket \<Rightarrow> (panic \<Rightarrow> bool) \<Rightarrow> ('i \<Rightarrow> ('e, accountGroupID option) go) \<Rightarrow> service \<Rightarrow> instrumentID \<Rightarrow> accountID
      \<Rightarrow> 'i \<Rightarrow> 8 word \<Rightarrow> ('i, 'e, quote option) market" where
  "Service_GetOptional x recoversNil account s i acc info resolution = onService s None
     (\<lambda>h. bind (service_get x recoversNil account h i acc info resolution) (\<lambda>(status, quote, _).
       ret (if status \<noteq> GetFound then None else Some quote)))"

definition Service_Resolve :: "'e nativeMarket \<Rightarrow> service \<Rightarrow> instrument \<Rightarrow> ('i, 'e, instrumentID \<times> bool) market" where
  "Service_Resolve x s inst = onService s (0, False)
     (\<lambda>h. bind (read (\<lambda>w. nm_resolve x h (Instrument_Handle inst) (me_rest (ow_env w)))) (\<lambda>(i, ok).
       ret (if \<not> ok then (0, False) else (i, True))))"

record marketBuilder =
  mb_syncPolicy :: syncPolicy
  mb_defaultTTL :: quoteTTL

definition newReadyBuilder :: "syncPolicy \<Rightarrow> quoteTTL \<Rightarrow> marketBuilder" where
  "newReadyBuilder policy ttl = \<lparr>mb_syncPolicy = policy, mb_defaultTTL = ttl\<rparr>"

definition MarketBuilder_Build ::
    "'e nativeMarket \<Rightarrow> marketBuilder \<Rightarrow> ('i, 'e, service option \<times> err) market" where
  "MarketBuilder_Build x b = bind (CreateMarketDataService x (mb_syncPolicy b) (mb_defaultTTL b)) (\<lambda>(h, e).
     if e \<noteq> None then ret (None, e) else ret (Some (newServiceFromHandle h), None))"

end
