(* ===== verification/Market_Facts.thy ===== *)
theory Market_Facts
  imports Market_Data
begin

text \<open>
  What the market-data service promises: handles are owned and released once, a failed question
  for the account group fails the read, statuses become errors, and durations keep their value.
\<close>

section \<open>What the C header documents\<close>

text \<open>
  An error handle comes with the status that says so, and only then; a read whose question was
  answered with a failure ends with the status for it, and only such a read does.
\<close>

primrec getLaw :: "bool \<Rightarrow> 'e getRun \<Rightarrow> bool" where
  "getLaw failed (GetAnswer status quote e) = ((status = GetGroupFailed) = failed)"
| "getLaw failed (GetAsk e k) = (\<forall>a t. getLaw (failed \<or> a = GroupFailed) (k a t))"

lemma getLaw_mono: "getLaw failed r \<Longrightarrow> failed = failed' \<Longrightarrow> getLaw failed' r" by simp

definition marketDocumented :: "'e nativeMarket \<Rightarrow> bool" where
  "marketDocumented x \<longleftrightarrow> (\<forall>h a.
     (\<forall>policy ttl. (fst (fst (nm_create x policy ttl a)) = None) = (snd (fst (nm_create x policy ttl a)) \<noteq> None))
   \<and> (fst (nm_clone x h a) \<noteq> None)
   \<and> (\<forall>r inst. case fst (nm_register x h r inst a) of (status, i, outError) \<Rightarrow> (status = RegisterError) = (outError \<noteq> None))
   \<and> (\<forall>i quote age. case fst (nm_push x h i quote age a) of (status, outError) \<Rightarrow> (status = RegisterError) = (outError \<noteq> None))
   \<and> (\<forall>i quote age accounts groups. case fst (nm_pushFor x h i quote age accounts groups a) of
        (status, outError) \<Rightarrow> (status = RegisterError) = (outError \<noteq> None))
   \<and> (\<forall>inst quote age. case fst (nm_pushBy x h inst quote age a) of (ok, i, outError) \<Rightarrow> (\<not> ok) = (outError \<noteq> None))
   \<and> (\<forall>i acc resolution. getLaw False (nm_get x h i acc resolution a)))"

lemma documented_calls:
  assumes "marketDocumented x"
  shows "nm_register x h r inst a = ((status, i, outError), t) \<Longrightarrow> (status = RegisterError) = (outError \<noteq> None)"
    and "nm_push x h i quote age a = ((status, outError), t) \<Longrightarrow> (status = RegisterError) = (outError \<noteq> None)"
    and "nm_pushFor x h i quote age accounts groups a = ((status, outError), t) \<Longrightarrow> (status = RegisterError) = (outError \<noteq> None)"
    and "nm_pushBy x h inst quote age a = ((ok, i, outError), t) \<Longrightarrow> (\<not> ok) = (outError \<noteq> None)"
    and "getLaw False (nm_get x h i acc resolution a)"
    and "nm_create x policy ttl a = ((service, outError), t) \<Longrightarrow> (service = None) = (outError \<noteq> None)"
    and "nm_clone x h a = (c, t) \<Longrightarrow> c \<noteq> None"
proof -
  note d = assms [unfolded marketDocumented_def, THEN spec, of h, THEN spec, of a]
  show "nm_register x h r inst a = ((status, i, outError), t) \<Longrightarrow> (status = RegisterError) = (outError \<noteq> None)"
    using d [THEN conjunct2, THEN conjunct2, THEN conjunct1, THEN spec, THEN spec, of r inst] by simp
  show "nm_push x h i quote age a = ((status, outError), t) \<Longrightarrow> (status = RegisterError) = (outError \<noteq> None)"
    using d [THEN conjunct2, THEN conjunct2, THEN conjunct2, THEN conjunct1, rule_format, of i quote age] by simp
  show "nm_pushFor x h i quote age accounts groups a = ((status, outError), t) \<Longrightarrow> (status = RegisterError) = (outError \<noteq> None)"
    using d [THEN conjunct2, THEN conjunct2, THEN conjunct2, THEN conjunct2, THEN conjunct1, rule_format, of i quote age accounts groups]
    by simp
  show "nm_pushBy x h inst quote age a = ((ok, i, outError), t) \<Longrightarrow> (\<not> ok) = (outError \<noteq> None)"
    using d [THEN conjunct2, THEN conjunct2, THEN conjunct2, THEN conjunct2, THEN conjunct2, THEN conjunct1, rule_format, of inst quote age]
    by simp
  show "getLaw False (nm_get x h i acc resolution a)" using d by blast
  show "nm_create x policy ttl a = ((service, outError), t) \<Longrightarrow> (service = None) = (outError \<noteq> None)"
    using d [THEN conjunct1, rule_format, of policy ttl] by simp
  show "nm_clone x h a = (c, t) \<Longrightarrow> c \<noteq> None" using d [THEN conjunct2, THEN conjunct1] by simp
qed

section \<open>Calls that keep what is held\<close>

lemma keeps_env [intro]: "keeps (envModify f)" by (rule keepsI) (simp add: wp envModify_def)

lemma onRestE: "onRest f e = (r, t) \<Longrightarrow> \<exists>t'. f (me_rest e) = (r, t')"
  by (auto simp: onRest_def split: prod.splits)

lemma keeps_registering [intro]: "marketDocumented x \<Longrightarrow> keeps (registering x name h r inst)"
  unfolding registering_def
  by (rule keeps_issued) (auto simp del: if_split dest!: onRestE dest: documented_calls(1) intro!: gives_answered)

lemma keeps_pushing:
  assumes "\<And>a status outError t. call a = ((status, outError), t) \<Longrightarrow> (status = RegisterError) = (outError \<noteq> None)"
  shows "keeps (pushing x name call)"
  unfolding pushing_def
  by (rule keeps_issued) (auto simp del: if_split dest!: onRestE dest: assms intro!: gives_answered)

lemma keeps_pushBy [intro]: "marketDocumented x \<Longrightarrow> keeps (MarketDataServicePushByInstrument x h inst quote age)"
  unfolding MarketDataServicePushByInstrument_def
  by (rule keeps_issued) (auto simp del: if_split dest!: onRestE dest: documented_calls(4) intro!: gives_answered)

section \<open>Reads\<close>

text \<open>
  A read without callbacks and handles: what the question for the group is answered with, and
  what of a failure is kept, as a function of the caller's \<^verbatim>\<open>AccountInfo\<close>.
\<close>

primrec readSpec ::
    "(panic \<Rightarrow> bool) \<Rightarrow> ('e, accountGroupID option) go \<Rightarrow> 'e getRun \<Rightarrow> bool \<times> panic option \<times> err
      \<Rightarrow> getStatus \<times> quote \<times> (bool \<times> panic option \<times> err) \<times> 'e" where
  "readSpec rn ask (GetAnswer status quote e) c = (status, quote, c, e)"
| "readSpec rn ask (GetAsk e k) c = (case ask e of
     (Ret None, t) \<Rightarrow> readSpec rn ask (k NoGroup t) c
   | (Ret (Some g), t) \<Rightarrow> if grp_initialized g then readSpec rn ask (k (FoundGroup (grp_native g)) t) c
       else readSpec rn ask (k GroupFailed t) (True, fst (snd c), Some (Sentinel ErrUninitializedAccountGroupID))
   | (Panic q, t) \<Rightarrow> readSpec rn ask (k GroupFailed t) (True, if rn q then fst (snd c) else Some q, snd (snd c)))"

lemma readSpec_failed:
  "getLaw failed r \<Longrightarrow> readSpec rn ask r (failed, c) = (status, quote, (failed', c'), t) \<Longrightarrow> (status = GetGroupFailed) = failed'"
proof (induction r arbitrary: failed c)
  case (GetAsk e k)
  obtain q u where q: "ask e = (q, u)" by fastforce
  have law: "getLaw (failed \<or> a = GroupFailed) (k a u)" for a using GetAsk.prems(1) by simp
  note IH = GetAsk.IH [OF rangeI, OF rangeI]
  show ?case
    using GetAsk.prems(2) q law [of NoGroup] law [of GroupFailed] law [of "FoundGroup g" for g]
    by (cases q) (auto split: option.splits if_splits dest!: IH [rotated])
qed simp

lemma readSpec_cause:
  assumes "\<forall>p. \<not> rn p"
  shows "readSpec rn ask r (failed, q0, e0) = (status, quote, (failed', q, e), t) \<Longrightarrow> (failed \<longrightarrow> q0 \<noteq> None \<or> e0 \<noteq> None)
    \<Longrightarrow> failed' \<longrightarrow> q \<noteq> None \<or> e \<noteq> None"
proof (induction r arbitrary: failed q0 e0)
  case (GetAsk v k)
  obtain a u where a: "ask v = (a, u)" by fastforce
  note IH = GetAsk.IH [OF rangeI, OF rangeI]
  show ?case
  proof (cases a)
    case (Ret g)
    then show ?thesis using GetAsk.prems a by (auto split: option.splits if_splits dest!: IH)
  next
    case (Panic z)
    moreover have "\<not> rn z" using assms by blast
    ultimately show ?thesis using GetAsk.prems a by (auto dest!: IH)
  qed
qed simp

text \<open>One question: the answer the library gets, and what is noted in the state.\<close>

definition noted :: "nat \<Rightarrow> 'i resolverState \<Rightarrow> 'e \<Rightarrow> ('i, 'e) marketEnv owned \<Rightarrow> ('i, 'e) marketEnv owned" where
  "noted p st t w = w\<lparr>ow_env := (ow_env w)\<lparr>me_rest := t, me_states := (me_states (ow_env w))(p := st)\<rparr>\<rparr>"

lemma callback_answers:
  assumes "me_handles (ow_env w) ud = Some (ResolverPtr p)"
    and "account (rv_info (me_states (ow_env w) p)) (me_rest (ow_env w)) = (r, t)"
  shows "pitMarketDataAccountGroupResolver rn account ud True w = (let st = me_states (ow_env w) p in case r of
      Ret None \<Rightarrow> (Ret NoGroup, noted p st t w)
    | Ret (Some g) \<Rightarrow> if grp_initialized g then (Ret (FoundGroup (grp_native g)), noted p st t w)
        else (Ret GroupFailed, noted p (st\<lparr>rv_err := Some (Sentinel ErrUninitializedAccountGroupID)\<rparr>) t w)
    | Panic q \<Rightarrow> (Ret GroupFailed, noted p (if rn q then st else st\<lparr>rv_failure := Some q\<rparr>) t w))"
  using assms
  by (cases r) (simp_all add: pitMarketDataAccountGroupResolver_def bind_def read_def ret_def guarded_def askAccountInfo_def
      setState_def envModify_def modify_def noted_def Let_def split: option.split)

lemma noted_simps [simp]:
  "me_handles (ow_env (noted p st t w)) = me_handles (ow_env w)"
  "me_states (ow_env (noted p st t w)) = (me_states (ow_env w))(p := st)"
  "me_rest (ow_env (noted p st t w)) = t"
  "noted p st t (noted p st' t' w) = noted p st t w"
  "noted p st t (w\<lparr>ow_env := (ow_env w)\<lparr>me_rest := t'\<rparr>\<rparr>) = noted p st t w"
  by (simp_all add: noted_def)

lemma runGet_refines:
  fixes w :: "('i, 'e) marketEnv owned"
  shows "me_handles (ow_env w) ud = Some (ResolverPtr p) \<Longrightarrow> me_states (ow_env w) p = st \<Longrightarrow>
      readSpec rn (account (rv_info st)) r (failed, rv_failure st, rv_err st) = (status, quote, (failed', q, e'), t) \<Longrightarrow>
      runGet (pitMarketDataAccountGroupResolver rn account ud True) r w
        = (Ret (status, quote), noted p (st\<lparr>rv_failure := q, rv_err := e'\<rparr>) t w)"
proof (induction r arbitrary: w failed st)
  case (GetAnswer stat quo e)
  then show ?case
    by (auto simp: bind_def envModify_def modify_def ret_def noted_def)
next
  case (GetAsk e k)
  obtain r u where r: "account (rv_info st) e = (r, u)" by fastforce
  let ?w = "w\<lparr>ow_env := (ow_env w)\<lparr>me_rest := e\<rparr>\<rparr>"
  have h: "me_handles (ow_env ?w) ud = Some (ResolverPtr p)" and s: "me_states (ow_env ?w) p = st"
    using GetAsk.prems by simp_all
  have cb: "account (rv_info (me_states (ow_env ?w) p)) (me_rest (ow_env ?w)) = (r, u)" using s r by simp
  note answers = callback_answers [where w = ?w and ud = ud and rn = rn and p = p and account = account and r = r and t = u, OF h cb]
  note IH = GetAsk.IH [OF rangeI, OF rangeI]
  have run: "runGet (pitMarketDataAccountGroupResolver rn account ud True) (GetAsk e k) w
      = (case pitMarketDataAccountGroupResolver rn account ud True ?w of
          (Ret a, w') \<Rightarrow> runGet (pitMarketDataAccountGroupResolver rn account ud True) (k a (me_rest (ow_env w'))) w'
        | (Panic z, w') \<Rightarrow> (Panic z, w'))"
    by (simp add: bind_def envModify_def modify_def read_def split: prod.splits res.splits)
  have next_run: "runGet (pitMarketDataAccountGroupResolver rn account ud True) (k a u) (noted p st' u w)
      = (Ret (status, quote), noted p (st\<lparr>rv_failure := q, rv_err := e'\<rparr>) t w)"
    if "readSpec rn (account (rv_info st')) (k a u) (f, rv_failure st', rv_err st') = (status, quote, (failed', q, e'), t)"
      and "st'\<lparr>rv_failure := q, rv_err := e'\<rparr> = st\<lparr>rv_failure := q, rv_err := e'\<rparr>" for a st' f
    using IH [of "noted p st' u w" st' a u f] that GetAsk.prems(1) by simp
  show ?case
  proof (cases r)
    case (Ret g)
    then show ?thesis
      unfolding run answers
      using GetAsk.prems(3) r
      by (cases g) (auto simp: Let_def GetAsk.prems(2) split: if_splits intro!: next_run)
  next
    case (Panic z)
    then show ?thesis
      unfolding run answers
      using GetAsk.prems(3) r
      by (auto simp: Let_def GetAsk.prems(2) split: if_splits intro!: next_run)
  qed
qed

lemma service_get_spec:
  fixes w :: "('i, 'e) marketEnv owned"
  assumes "readSpec rn (account info) (nm_get x h i acc resolution (me_rest (ow_env w))) (False, None, None)
      = (status, quote, (failed, q, e), t)"
  shows "\<exists>env. service_get x rn account h i acc info resolution w
        = (Ret (status, quote, \<lparr>rv_info = info, rv_failure = q, rv_err = e\<rparr>), w\<lparr>ow_env := env\<rparr>)
      \<and> me_rest env = t \<and> me_handles env = (me_handles (ow_env w))(me_next (ow_env w) + 1 := None)"
proof -
  let ?ud = "me_next (ow_env w) + 1" and ?p = "me_alloc (ow_env w) + 1"
  let ?st = "\<lparr>rv_info = info, rv_failure = None, rv_err = None\<rparr>"
  let ?w = "w\<lparr>ow_env := (ow_env w)\<lparr>me_next := ?ud, me_handles := (me_handles (ow_env w))(?ud \<mapsto> ResolverPtr ?p),
      me_alloc := ?p, me_states := (me_states (ow_env w))(?p := ?st)\<rparr>\<rparr>"
  have run: "runGet (pitMarketDataAccountGroupResolver rn account ?ud True)
      (nm_get x h i acc resolution (me_rest (ow_env w))) ?w
      = (Ret (status, quote), noted ?p (?st\<lparr>rv_failure := q, rv_err := e\<rparr>) t ?w)"
    by (rule runGet_refines [where failed = False]) (use assms in simp_all)
  show ?thesis
    by (rule exI [of _ "(ow_env (noted ?p (?st\<lparr>rv_failure := q, rv_err := e\<rparr>) t ?w))
        \<lparr>me_handles := (me_handles (ow_env w))(?ud := None)\<rparr>"])
      (use run in \<open>simp add: service_get_def newResolverHandle_def MarketDataServiceGet_def deleteResolverHandle_def
        bind_def read_def ret_def envModify_def modify_def noted_def\<close>)
qed

lemma keeps_get [intro]: "keeps (service_get x rn account h i acc info resolution)"
proof (rule keepsI)
  fix w :: "('a, 'b) marketEnv owned"
  obtain status quote failed q e t where r: "readSpec rn (account info)
      (nm_get x h i acc resolution (me_rest (ow_env w))) (False, None, None) = (status, quote, (failed, q, e), t)"
    by (metis prod.collapse)
  show "wp (service_get x rn account h i acc info resolution)
      (\<lambda>_ t. ow_live t = ow_live w \<and> ow_fault t = ow_fault w) (\<lambda>_ _. False) w"
    using service_get_spec [where rn = rn and account = account, OF r] by (auto simp: wp_def)
qed

section \<open>Services own their handles\<close>

datatype 'i serviceCall =
    MRegister instrument | MRegisterTTL instrument quoteTTL | MRegisterID instrument instrumentID
  | MRegisterIDTTL instrument instrumentID quoteTTL
  | MPush instrumentID quote int | MPushByInstrument instrument quote int
  | MPushFor instrumentID quote int "accountID list" "accountGroupID list"
  | MSetInstrumentTTL instrumentID quoteTTL | MClearInstrumentTTL instrumentID
  | MSetAccountTTL accountID quoteTTL | MClearAccountTTL accountID
  | MSetAccountGroupTTL accountGroupID quoteTTL | MClearAccountGroupTTL accountGroupID
  | MSetInstrumentAccountTTL instrumentID accountID quoteTTL | MClearInstrumentAccountTTL instrumentID accountID
  | MSetInstrumentAccountGroupTTL instrumentID accountGroupID quoteTTL
  | MClearInstrumentAccountGroupTTL instrumentID accountGroupID
  | MClear instrumentID | MResolve instrument
  | MGet instrumentID accountID 'i "8 word" | MGetOptional instrumentID accountID 'i "8 word"

abbreviation ignoring :: "('w, 'a) go \<Rightarrow> ('w, unit) go" where "ignoring m \<equiv> bind m (\<lambda>_. ret ())"

fun runMethod ::
    "'e nativeMarket \<Rightarrow> (panic \<Rightarrow> bool) \<Rightarrow> ('i \<Rightarrow> ('e, accountGroupID option) go) \<Rightarrow> 'i serviceCall \<Rightarrow> service
      \<Rightarrow> ('i, 'e, unit) market" where
  "runMethod x rn account (MRegister inst) s = ignoring (Service_Register x s inst)"
| "runMethod x rn account (MRegisterTTL inst ttl) s = ignoring (Service_RegisterWithTTL x s inst ttl)"
| "runMethod x rn account (MRegisterID inst i) s = ignoring (Service_RegisterWithID x s inst i)"
| "runMethod x rn account (MRegisterIDTTL inst i ttl) s = ignoring (Service_RegisterWithIDAndTTL x s inst i ttl)"
| "runMethod x rn account (MPush i quote age) s = ignoring (Service_Push x s i quote age)"
| "runMethod x rn account (MPushByInstrument inst quote age) s = ignoring (Service_PushByInstrument x s inst quote age)"
| "runMethod x rn account (MPushFor i quote age accounts gs) s = ignoring (Service_PushFor x s i quote age accounts gs)"
| "runMethod x rn account (MSetInstrumentTTL i ttl) s = ignoring (Service_SetInstrumentTTL x s i ttl)"
| "runMethod x rn account (MClearInstrumentTTL i) s = ignoring (Service_ClearInstrumentTTL x s i)"
| "runMethod x rn account (MSetAccountTTL acc ttl) s = Service_SetAccountTTL x s acc ttl"
| "runMethod x rn account (MClearAccountTTL acc) s = Service_ClearAccountTTL x s acc"
| "runMethod x rn account (MSetAccountGroupTTL g ttl) s = ignoring (Service_SetAccountGroupTTL x s g ttl)"
| "runMethod x rn account (MClearAccountGroupTTL g) s = ignoring (Service_ClearAccountGroupTTL x s g)"
| "runMethod x rn account (MSetInstrumentAccountTTL i acc ttl) s = ignoring (Service_SetInstrumentAccountTTL x s i acc ttl)"
| "runMethod x rn account (MClearInstrumentAccountTTL i acc) s = ignoring (Service_ClearInstrumentAccountTTL x s i acc)"
| "runMethod x rn account (MSetInstrumentAccountGroupTTL i g ttl) s =
     ignoring (Service_SetInstrumentAccountGroupTTL x s i g ttl)"
| "runMethod x rn account (MClearInstrumentAccountGroupTTL i g) s =
     ignoring (Service_ClearInstrumentAccountGroupTTL x s i g)"
| "runMethod x rn account (MClear i) s = Service_Clear x s i"
| "runMethod x rn account (MResolve inst) s = ignoring (Service_Resolve x s inst)"
| "runMethod x rn account (MGet i acc info resolution) s = ignoring (Service_Get x rn account s i acc info resolution)"
| "runMethod x rn account (MGetOptional i acc info resolution) s =
     ignoring (Service_GetOptional x rn account s i acc info resolution)"

abbreviation safeOn :: "service \<Rightarrow> ('i, 'e, 'a) market \<Rightarrow> bool" where
  "safeOn s \<equiv> safeWith KMarketData (sv_handle s)"

lemma safe_onService [safe]: "(\<And>h. keeps (body h)) \<Longrightarrow> safeOn s (onService s closed body)"
  by (cases "sv_handle s") (auto simp: safeWith_def onService_def wp keepsD)

lemma safe_guard [safe]: "safeOn s m \<Longrightarrow> safeOn s (groupGuard g m)"
  by (auto simp: groupGuard_def intro: safe_keeps)

lemma safe_voids [safe]: "safeOn s (marketVoid x s c)" "safeOn s (ttlCall x s name i d)"
  unfolding marketVoid_def ttlCall_def by (auto intro!: safe)

lemma keeps_answers [intro]:
  "keeps m \<Longrightarrow> keeps (registered inst m)" "keeps n \<Longrightarrow> keeps (registeredWithID inst i n)"
  unfolding registered_def registeredWithID_def by (auto simp: case_prod_beta)

lemma keeps_pushes [intro]:
  "marketDocumented x \<Longrightarrow> keeps (MarketDataServicePush x h i quote age)"
  "marketDocumented x \<Longrightarrow> keeps (MarketDataServicePushFor x h i quote age accounts gs)"
  unfolding MarketDataServicePush_def MarketDataServicePushFor_def
  by (auto intro!: keeps_pushing dest: documented_calls(2,3))

lemma safe_method: "marketDocumented x \<Longrightarrow> safeOn s (runMethod x rn account m s)"
  unfolding Service_Register_def Service_RegisterWithTTL_def Service_RegisterWithID_def Service_RegisterWithIDAndTTL_def
    MarketDataServiceRegister_def MarketDataServiceRegisterWithTTL_def MarketDataServiceRegisterWithID_def
    MarketDataServiceRegisterWithIDAndTTL_def
  by (cases m) (auto simp: Service_Register_def Service_RegisterWithTTL_def Service_RegisterWithID_def
      Service_RegisterWithIDAndTTL_def MarketDataServiceRegister_def MarketDataServiceRegisterWithTTL_def
      MarketDataServiceRegisterWithID_def MarketDataServiceRegisterWithIDAndTTL_def Service_Push_def
      Service_PushByInstrument_def Service_PushFor_def Service_SetInstrumentTTL_def Service_ClearInstrumentTTL_def
      Service_SetAccountTTL_def Service_ClearAccountTTL_def Service_SetAccountGroupTTL_def
      Service_ClearAccountGroupTTL_def Service_SetInstrumentAccountTTL_def Service_ClearInstrumentAccountTTL_def
      Service_SetInstrumentAccountGroupTTL_def Service_ClearInstrumentAccountGroupTTL_def Service_Clear_def
      Service_Resolve_def Service_Get_def Service_GetOptional_def case_prod_beta
      intro!: safe split: option.split intro: safe_keeps)

definition cloneOf :: "'e nativeMarket \<Rightarrow> service \<Rightarrow> ('i, 'e, service option) market" where
  "cloneOf x s = bind (Service_Clone x s) (\<lambda>r. ret (fst r))"

interpretation services: closable KMarketData sv_handle Service_Close "cloneOf x" "runMethod x rn account" "marketDocumented x"
  for x :: "'e nativeMarket" and rn and account :: "'i \<Rightarrow> ('e, accountGroupID option) go"
proof
  fix s :: service and w :: "('i, 'e) marketEnv owned"
  assume "marketDocumented x" and held: "objects [(KMarketData, sv_handle s)] \<subseteq># ow_live w"
  show "wp (Service_Close s) (\<lambda>s' t. sv_handle s' = None \<and> ow_fault t = ow_fault w
      \<and> ow_live t + objects [(KMarketData, sv_handle s)] = ow_live w) (\<lambda>_ _. False) w"
    using held by (cases "sv_handle s") (simp_all add: Service_Close_def wp)
  show "wp (cloneOf x s) (\<lambda>r t. ow_fault t = ow_fault w
      \<and> ow_live t = ow_live w + (case r of None \<Rightarrow> {#} | Some s' \<Rightarrow> objects [(KMarketData, sv_handle s')])) (\<lambda>_ _. False) w"
    using held
    by (cases "sv_handle s") (auto simp: cloneOf_def Service_Clone_def onService_def MarketDataServiceClone_def
      newServiceFromHandle_def wp split: prod.split)
  show "wp (runMethod x rn account m s) (\<lambda>_ t. ow_fault t = ow_fault w \<and> ow_live t = ow_live w) (\<lambda>_ _. False) w" for m
    using safe_method [OF \<open>marketDocumented x\<close>] held unfolding safeWith_def by blast
qed

section \<open>Statuses\<close>

text \<open>
  A registration succeeds exactly on the status for it, among those its C function documents.
  On any other status it returns a nil error with the zero id, as if it had succeeded.
\<close>

lemma register_answers:
  assumes "sv_handle s = Some h" and "(KMarketData, h) \<in># ow_live w" and "marketDocumented x"
    and c: "nm_register x h RegisterDefault (Instrument_Handle inst) (me_rest (ow_env w)) = ((status, i, outError), t)"
  shows "wp (Service_Register x s inst) (\<lambda>(j, err) _. if status = RegisterOk then j = i \<and> err = None else j = 0 \<and>
      (case err of None \<Rightarrow> status \<notin> {StatusAlreadyRegistered, RegisterError}
       | Some e \<Rightarrow> market_Is e ErrAlreadyRegistered \<longleftrightarrow> status = StatusAlreadyRegistered)) (\<lambda>_ _. False) w"
  using assms(1,2) documented_calls(1) [OF assms(3) c]
  by (cases status; cases outError)
    (auto simp: Service_Register_def onService_def registered_def MarketDataServiceRegister_def registering_def onRest_def wp c)

lemma unknown_register_status_succeeds:
  assumes "sv_handle s = Some h" and "(KMarketData, h) \<in># ow_live w" and "marketDocumented x"
    and "nm_register x h RegisterDefault (Instrument_Handle inst) (me_rest (ow_env w)) = ((RegisterOther n, i, outError), t)"
  shows "fst (Service_Register x s inst w) = Ret (0, None)"
  using assms(1,2) documented_calls(1) [OF assms(3,4)]
  by (simp add: Service_Register_def onService_def registered_def MarketDataServiceRegister_def registering_def onRest_def
      assms(4) bind_def ret_def inspect_def issue_def)

section \<open>Properties\<close>

text \<open>
  C34: market-data services own their handles.  Over any calls on a service and its clones,
  in any order and also on closed ones, no call panics or uses a handle after its release, and
  the handles still held are exactly those of the services not yet closed; when all are closed
  nothing is left.  On a closed service every method returns at once, without a native call,
  and those with an error return \<^verbatim>\<open>ErrServiceClosed\<close>.
\<close>

theorem service_handles_owned:
  assumes "marketDocumented x"
  shows "wp (bind (MarketBuilder_Build x b) (\<lambda>(built, e). case built of None \<Rightarrow> ret []
        | Some s \<Rightarrow> familyCalls Service_Close (cloneOf x) (runMethod x rn account) calls [s]))
      (\<lambda>ss t. ow_fault t = ow_fault w \<and> ow_live t = ow_live w + family KMarketData (map sv_handle ss)) (\<lambda>_ _. False) w
    \<and> (\<forall>(s :: service) v. sv_handle s = None \<longrightarrow>
        Service_Close s v = (Ret s, v) \<and> Service_Clone x s v = (Ret (None, serviceClosed), v)
      \<and> Service_Register x s inst v = (Ret (0, serviceClosed), v)
      \<and> Service_Push x s i quote age v = (Ret serviceClosed, v)
      \<and> Service_Get x rn account s i acc info resolution v = (Ret (zeroQuote, serviceClosed), v)
      \<and> runMethod x rn account m s v = (Ret (), v))"
proof (intro conjI allI impI)
  fix s :: service and v assume s: "sv_handle s = None"
  note d = s onService_def bind_def ret_def
  show "Service_Close s v = (Ret s, v)" "Service_Clone x s v = (Ret (None, serviceClosed), v)"
    "Service_Register x s inst v = (Ret (0, serviceClosed), v)" "Service_Push x s i quote age v = (Ret serviceClosed, v)"
    "Service_Get x rn account s i acc info resolution v = (Ret (zeroQuote, serviceClosed), v)"
    by (simp_all add: Service_Close_def Service_Clone_def Service_Register_def Service_Push_def Service_Get_def d)
  show "runMethod x rn account m s v = (Ret (), v)"
    by (cases m) (simp_all add: Service_Register_def Service_RegisterWithTTL_def Service_RegisterWithID_def
      Service_RegisterWithIDAndTTL_def Service_Push_def Service_PushByInstrument_def Service_PushFor_def
      Service_SetInstrumentTTL_def Service_ClearInstrumentTTL_def
      Service_SetAccountTTL_def Service_ClearAccountTTL_def Service_SetAccountGroupTTL_def
      Service_ClearAccountGroupTTL_def Service_SetInstrumentAccountTTL_def Service_ClearInstrumentAccountTTL_def
      Service_SetInstrumentAccountGroupTTL_def Service_ClearInstrumentAccountGroupTTL_def Service_Clear_def
      Service_Resolve_def Service_Get_def Service_GetOptional_def marketVoid_def ttlCall_def groupGuard_def d
      split: option.split)
next
  obtain h outError t where c: "nm_create x (mb_syncPolicy b) (mb_defaultTTL b) (me_rest (ow_env w)) = ((h, outError), t)"
    by (metis prod.collapse)
  have doc: "(h = None) = (outError \<noteq> None)" using documented_calls(6) [OF assms c] .
  show "wp (bind (MarketBuilder_Build x b) (\<lambda>(built, e). case built of None \<Rightarrow> ret []
        | Some s \<Rightarrow> familyCalls Service_Close (cloneOf x) (runMethod x rn account) calls [s]))
      (\<lambda>ss t. ow_fault t = ow_fault w \<and> ow_live t = ow_live w + family KMarketData (map sv_handle ss)) (\<lambda>_ _. False) w"
  proof (cases h)
    case None
    then show ?thesis
      using doc by (auto simp: MarketBuilder_Build_def CreateMarketDataService_def onRest_def wp c)
  next
    case (Some n)
    let ?w = "w\<lparr>ow_live := ow_live w + {#(KMarketData, n)#}, ow_env := (ow_env w)\<lparr>me_rest := t\<rparr>\<rparr>"
    have "services.held (ow_live w) (ow_fault w) [newServiceFromHandle (Some n)] ?w"
      by (simp add: services.held_def newServiceFromHandle_def)
    then have "wp (familyCalls Service_Close (cloneOf x) (runMethod x rn account) calls [newServiceFromHandle (Some n)])
        (\<lambda>ss t. services.held (ow_live w) (ow_fault w) ss t) (\<lambda>_ _. False) ?w"
      by (rule services.calls_hold [OF assms])
    then show ?thesis
      using Some doc by (simp add: MarketBuilder_Build_def CreateMarketDataService_def onRest_def wp c services.held_def)
  qed
qed

text \<open>
  C35: a read of a quote fails closed.  It answers as the library's own run with every question
  for the account group put to the caller's \<^verbatim>\<open>AccountInfo\<close>: when a question panics or gets an
  uninitialized group, the read gives no quote and an \<^verbatim>\<open>AccountGroupResolutionError\<close> with
  the panic value or \<^verbatim>\<open>ErrUninitializedAccountGroupID\<close>, and never one otherwise; the account
  is never taken for one without a group.  The handle made for the callback is gone afterwards.
\<close>

theorem market_read_fails_closed:
  assumes "marketDocumented x" and "sv_handle s = Some h" and "(KMarketData, h) \<in># ow_live w"
    and "me_handles (ow_env w) (me_next (ow_env w) + 1) = None"
    and "readSpec rn (account info) (nm_get x h i acc resolution (me_rest (ow_env w))) (False, None, None)
      = (status, quote, (failed, q, e), t)"
  shows "(\<exists>env. Service_Get x rn account s i acc info resolution w = (Ret (getAnswer status quote q e), w\<lparr>ow_env := env\<rparr>)
      \<and> Service_GetOptional x rn account s i acc info resolution w
          = (Ret (if status = GetFound then Some quote else None), w\<lparr>ow_env := env\<rparr>)
      \<and> me_rest env = t \<and> me_handles env = me_handles (ow_env w))
    \<and> (if failed then getAnswer status quote q e = (zeroQuote, Some (AccountGroupResolutionError q e)) \<and> status \<noteq> GetFound
        \<and> ((\<forall>p. \<not> rn p) \<longrightarrow> q \<noteq> None \<or> e \<noteq> None)
      else \<forall>p e'. snd (getAnswer status quote q e) \<noteq> Some (AccountGroupResolutionError p e'))"
proof (rule conjI)
  obtain env where env: "service_get x rn account h i acc info resolution w
        = (Ret (status, quote, \<lparr>rv_info = info, rv_failure = q, rv_err = e\<rparr>), w\<lparr>ow_env := env\<rparr>)"
      "me_rest env = t" "me_handles env = (me_handles (ow_env w))(me_next (ow_env w) + 1 := None)"
    using service_get_spec [where account = account, OF assms(5)] by blast
  then show "\<exists>env. Service_Get x rn account s i acc info resolution w = (Ret (getAnswer status quote q e), w\<lparr>ow_env := env\<rparr>)
      \<and> Service_GetOptional x rn account s i acc info resolution w
          = (Ret (if status = GetFound then Some quote else None), w\<lparr>ow_env := env\<rparr>)
      \<and> me_rest env = t \<and> me_handles env = me_handles (ow_env w)"
    using assms(2-4)
    by (intro exI [of _ env]) (simp add: Service_Get_def Service_GetOptional_def onService_def inspect_def bind_def ret_def fun_upd_idem)
  have "(status = GetGroupFailed) = failed"
    by (rule readSpec_failed [OF documented_calls(5) [OF assms(1)] assms(5)])
  moreover have "(\<forall>p. \<not> rn p) \<longrightarrow> failed \<longrightarrow> q \<noteq> None \<or> e \<noteq> None"
    using readSpec_cause [OF _ assms(5)] by blast
  ultimately show "if failed then getAnswer status quote q e = (zeroQuote, Some (AccountGroupResolutionError q e)) \<and> status \<noteq> GetFound
        \<and> ((\<forall>p. \<not> rn p) \<longrightarrow> q \<noteq> None \<or> e \<noteq> None)
      else \<forall>p e'. snd (getAnswer status quote q e) \<noteq> Some (AccountGroupResolutionError p e')"
    by (auto simp: getAnswer_def split: getStatus.splits)
qed


section \<open>Examples\<close>

text \<open>A library that hands out fresh handles and asks for the group once in every read.\<close>

definition sampleRead :: "nat \<Rightarrow> nat getRun" where
  "sampleRead a = GetAsk a (\<lambda>answer t. GetAnswer (if answer = GroupFailed then GetGroupFailed else GetFound) zeroQuote t)"

definition sampleMarket :: "nat nativeMarket" where
  "sampleMarket = \<lparr>nm_create = (\<lambda>_ _ a. ((Some a, None), a + 1)), nm_clone = (\<lambda>_ a. (Some a, a + 1)),
     nm_register = (\<lambda>_ _ _ a. ((RegisterOk, 5, None), a)), nm_push = (\<lambda>_ _ _ _ a. ((RegisterOk, None), a)),
     nm_pushFor = (\<lambda>_ _ _ _ _ _ a. ((StatusNoTarget, None), a)), nm_pushBy = (\<lambda>_ _ _ _ a. ((True, 5, None), a)),
     nm_ttl = (\<lambda>_ _ a. (RegisterOk, a)), nm_command = (\<lambda>_ _ a. a), nm_get = (\<lambda>_ _ _ _. sampleRead),
     nm_resolve = (\<lambda>_ _ _. (5, True)), nm_string = (\<lambda>_ _. [])\<rparr>"

definition sampleProcess :: "(unit, nat) marketEnv owned" where
  "sampleProcess = \<lparr>ow_live = {#(KMarketData, 1)#}, ow_fault = False, ow_env = \<lparr>me_next = 0, me_handles = (\<lambda>_. None),
     me_alloc = 0, me_states = (\<lambda>_. \<lparr>rv_info = (), rv_failure = None, rv_err = None\<rparr>), me_rest = 2\<rparr>\<rparr>"

definition panickingInfo :: "unit \<Rightarrow> (nat, accountGroupID option) go" where
  "panickingInfo _ = panic (PanicValue ''no group'')"

lemma sample_market_documented: "marketDocumented sampleMarket"
  by (simp add: marketDocumented_def sampleMarket_def sampleRead_def)

theorem service_handles_owned_witness:
  "wp (bind (MarketBuilder_Build sampleMarket (newReadyBuilder SyncPolicyFull InfiniteTTL)) (\<lambda>(built, e). case built of None \<Rightarrow> ret []
        | Some s \<Rightarrow> familyCalls Service_Close (cloneOf sampleMarket) (runMethod sampleMarket (\<lambda>_. False) panickingInfo)
            [CallClone 0, CallClose 0, CallMethod 1 (MGet 5 7 () 0), CallClose 0, CallClose 1] [s]))
      (\<lambda>ss t. \<not> ow_fault t \<and> ow_live t = {#(KMarketData, 1)#} + family KMarketData (map sv_handle ss)) (\<lambda>_ _. False) sampleProcess"
proof -
  have start: "ow_live sampleProcess = {#(KMarketData, 1)#}" "ow_fault sampleProcess = False"
    by (simp_all add: sampleProcess_def)
  show ?thesis
    using service_handles_owned [where w = sampleProcess and account = panickingInfo and rn = "\<lambda>_. False"
        and b = "newReadyBuilder SyncPolicyFull InfiniteTTL"
        and calls = "[CallClone 0, CallClose 0, CallMethod 1 (MGet 5 7 () 0), CallClose 0, CallClose 1]",
        OF sample_market_documented, THEN conjunct1]
    by (simp only: start eq_False)
qed

theorem market_read_fails_closed_witness:
  "fst (Service_Get sampleMarket (\<lambda>_. False) panickingInfo (newServiceFromHandle (Some 1)) 5 7 () 0 sampleProcess)
     = Ret (zeroQuote, Some (AccountGroupResolutionError (Some (PanicValue ''no group'')) None))"
proof -
  have "readSpec (\<lambda>_. False) (panickingInfo ()) (nm_get sampleMarket 1 5 7 0 (me_rest (ow_env sampleProcess))) (False, None, None)
      = (GetGroupFailed, zeroQuote, (True, Some (PanicValue ''no group''), None), 2)"
    by (simp add: sampleMarket_def sampleRead_def panickingInfo_def panic_def sampleProcess_def)
  from market_read_fails_closed [where x = sampleMarket and s = "newServiceFromHandle (Some 1)" and w = sampleProcess
      and account = panickingInfo and info = "()" and rn = "\<lambda>_. False", OF sample_market_documented _ _ _ this]
  show ?thesis
    by (auto simp: newServiceFromHandle_def sampleProcess_def)
qed


end
