(* ===== verification/Sync_Engine_Facts.thy ===== *)
theory Sync_Engine_Facts
  imports Sync_Engine
begin

text \<open>
  The synchronous engine keeps nothing of what the native library hands it, and answers in the
  shapes the asynchronous facade expects of a driver.
\<close>

section \<open>What the C header documents\<close>

fun decisionOK :: "c_status \<times> nat option \<times> nat option \<times> nat option \<Rightarrow> bool" where
  "decisionOK (StatusPassed, result, rejects, outError) = (result \<noteq> None \<and> rejects = None \<and> outError = None)"
| "decisionOK (StatusRejected, result, rejects, outError) = (result = None \<and> outError = None)"
| "decisionOK (StatusError, result, rejects, outError) = (result = None \<and> rejects = None \<and> outError \<noteq> None)"
| "decisionOK (StatusOther _, result, rejects, outError) = True"

fun attemptOK :: "bool \<times> nat option \<times> nat option \<Rightarrow> bool" where
  "attemptOK (ok, result, outError) = (if ok then result \<noteq> None \<and> outError = None else result = None \<and> outError \<noteq> None)"

fun adjustOK :: "adjust_status \<times> nat option \<times> nat option \<times> nat option \<times> nat option \<Rightarrow> bool" where
  "adjustOK (AdjustError, reject, outcomes, blocks, outError)
     = (reject = None \<and> outcomes = None \<and> blocks = None \<and> outError \<noteq> None)"
| "adjustOK (AdjustApplied, reject, outcomes, blocks, outError) = (reject = None \<and> outError = None)"
| "adjustOK (AdjustRejected, reject, outcomes, blocks, outError)
     = (reject \<noteq> None \<and> outcomes = None \<and> blocks = None \<and> outError = None)"
| "adjustOK (AdjustOther _, reject, outcomes, blocks, outError) = True"

fun retireOK :: "bool \<times> nat option \<times> nat option \<Rightarrow> bool" where
  "retireOK (ok, retirement, outError)
     = (if ok then retirement = None \<and> outError = None else (retirement = None) \<noteq> (outError = None))"

text \<open>
  The documented ownership of the outputs, for a status the header names; nothing is assumed
  of any other status, nor that a rejection comes with a list.
\<close>

definition documented :: "'e nativeEngine \<Rightarrow> bool" where
  "documented x \<longleftrightarrow> (\<forall>h a.
     (\<forall>ord. decisionOK (fst (ne_start x h ord a)) \<and> decisionOK (fst (ne_execute x h ord a))
       \<and> decisionOK (fst (ne_dropCopy x h ord a))
       \<and> attemptOK (fst (ne_startDryRun x h ord a)) \<and> attemptOK (fst (ne_executeDryRun x h ord a)))
     \<and> (\<forall>rep. attemptOK (fst (ne_report x h rep a)))
     \<and> (\<forall>account adjs. adjustOK (fst (ne_adjust x h account adjs a)))
     \<and> (\<forall>account. retireOK (fst (ne_retire x h account a))))"

section \<open>The wrappers\<close>

text \<open>What the Go side holds after a call: what it held before, and \<open>os\<close>.\<close>

definition holds :: "'e owned \<Rightarrow> (nativeKind \<times> nat option) list \<Rightarrow> 'e owned \<Rightarrow> bool" where
  "holds w os t \<longleftrightarrow> ow_fault t = ow_fault w \<and> ow_live t = ow_live w + objects os"

lemma decided_holds:
  assumes "decisionOK (fst (call (ow_env w)))"
  shows "wp (decided x k noReason name call) (\<lambda>(result, rejects, e) t. holds w [(k, result), (KRejects, rejects)] t
      \<and> ow_env t = snd (call (ow_env w))
      \<and> (result \<noteq> None \<longleftrightarrow> fst (fst (call (ow_env w))) = StatusPassed)
      \<and> rejects = (if fst (fst (call (ow_env w))) = StatusRejected then fst (snd (snd (fst (call (ow_env w))))) else None)
      \<and> (e = None \<longleftrightarrow> result \<noteq> None \<or> rejects \<noteq> None)) (\<lambda>_ _. False) w"
proof -
  obtain status result rejects outError env where c: "call (ow_env w) = ((status, result, rejects, outError), env)"
    by (metis prod.collapse)
  show ?thesis
    using assms
    by (cases status; cases result; cases rejects; cases outError)
      (simp_all add: decided_def wp c holds_def)
qed

lemma attempted_holds:
  assumes "attemptOK (fst (call (ow_env w)))"
  shows "wp (attempted x k name call) (\<lambda>(result, e) t. holds w [(k, result)] t
      \<and> (result \<noteq> None \<longleftrightarrow> fst (fst (call (ow_env w)))) \<and> (e = None \<longleftrightarrow> result \<noteq> None)
      \<and> (e \<noteq> None \<longrightarrow> ow_live t = ow_live w)) (\<lambda>_ _. False) w"
proof -
  obtain ok result outError env where c: "call (ow_env w) = ((ok, result, outError), env)"
    by (metis prod.collapse)
  show ?thesis
    using assms by (cases ok; cases result; cases outError) (simp_all add: attempted_def wp c holds_def)
qed

lemma adjust_holds:
  assumes "adjustOK (fst (ne_adjust x h account adjs (ow_env w)))"
  shows "wp (EngineApplyAccountAdjustment x h account adjs) (\<lambda>(reject, outcomes, blocks, e) t.
      holds w [(KBatchError, reject), (KOutcomes, outcomes), (KBlocks, blocks)] t
      \<and> (reject \<noteq> None \<longleftrightarrow> fst (fst (ne_adjust x h account adjs (ow_env w))) = AdjustRejected)
      \<and> (e = None \<longleftrightarrow> fst (fst (ne_adjust x h account adjs (ow_env w))) \<in> {AdjustApplied, AdjustRejected})
      \<and> (reject \<noteq> None \<or> e \<noteq> None \<longrightarrow> outcomes = None \<and> blocks = None)) (\<lambda>_ _. False) w"
proof -
  obtain status reject outcomes blocks outError env
    where c: "ne_adjust x h account adjs (ow_env w) = ((status, reject, outcomes, blocks, outError), env)"
    by (metis prod.collapse)
  show ?thesis
    using assms
    by (cases status; cases reject; cases outcomes; cases blocks; cases outError)
      (simp_all add: EngineApplyAccountAdjustment_def wp c holds_def)
qed

lemma retire_holds:
  assumes "retireOK (fst (ne_retire x h account (ow_env w)))"
  shows "wp (EngineRetireAccount x h account) (\<lambda>(retirement, e) t. holds w [(KRetirementError, retirement)] t
      \<and> (fst (fst (ne_retire x h account (ow_env w))) \<longleftrightarrow> retirement = None \<and> e = None)
      \<and> (retirement = None \<or> e = None)) (\<lambda>_ _. False) w"
proof -
  obtain ok retirement outError env where c: "ne_retire x h account (ow_env w) = ((ok, retirement, outError), env)"
    by (metis prod.collapse)
  show ?thesis
    using assms by (cases ok; cases retirement; cases outError) (simp_all add: EngineRetireAccount_def wp c holds_def)
qed

section \<open>The methods\<close>

text \<open>What the native call made and what it rejected with.\<close>

definition verdict :: "'e decision \<Rightarrow> 'e \<Rightarrow> c_status" where
  "verdict call a = fst (fst (call a))"

definition made :: "'e decision \<Rightarrow> 'e \<Rightarrow> nat option" where
  "made call a = (case call a of ((status, result, _), _) \<Rightarrow> if status = StatusPassed then result else None)"

definition refusal :: "'e nativeEngine \<Rightarrow> 'e decision \<Rightarrow> 'e \<Rightarrow> reject list" where
  "refusal x call a = (case call a of ((status, _, rejects, _), b) \<Rightarrow>
     if status = StatusRejected then (case rejects of None \<Rightarrow> [] | Some l \<Rightarrow> ne_rejects x l b) else [])"

text \<open>
  A deciding method hands over the object the call made and holds nothing else; it answers with
  that object, with the rejects, or with an error.
\<close>

definition decides where
  "decides x k wrap call w m \<longleftrightarrow> wp m (\<lambda>(r, rejects, e) t.
     holds w [(k, made call (ow_env w))] t
     \<and> r = map_option (\<lambda>n. wrap (Some n)) (made call (ow_env w))
     \<and> rejects = refusal x call (ow_env w)
     \<and> (r \<noteq> None \<longleftrightarrow> verdict call (ow_env w) = StatusPassed)
     \<and> (e = None \<longleftrightarrow> r \<noteq> None \<or> rejects \<noteq> [])) (\<lambda>_ _. False) w"

lemma delivered_decides:
  assumes "decisionOK (fst (call (ow_env w)))"
  shows "decides x k wrap call w (delivered x msg wrap (decided x k noReason name call))"
proof -
  obtain status result rejects outError env where c: "call (ow_env w) = ((status, result, rejects, outError), env)"
    by (metis prod.collapse)
  show ?thesis
    using assms
    by (cases status; cases result; cases rejects; cases outError)
      (simp_all add: decides_def delivered_def decided_def wp c holds_def made_def refusal_def verdict_def
        rejectListFromHandle_def NewListFromHandle_def wrapf_def)
qed

lemma decides_live:
  "decides x k wrap call w m \<Longrightarrow> ow_live (snd (m w)) = ow_live w + objects [(k, made call (ow_env w))]"
  by (auto simp: decides_def wp_def holds_def split: prod.splits res.splits)

text \<open>A decision is one of the shapes \<open>validateDriverResult\<close> accepts.\<close>

lemma decides_shape:
  assumes "decides x k wrap call w m" and "\<And>n. live (wrap (Some n))"
  shows "wp m (\<lambda>(r, rejects, e) t. validateDriverResult (r \<noteq> None) (case r of None \<Rightarrow> False | Some v \<Rightarrow> live v) rejects e = None)
    (\<lambda>_ _. False) w"
  using assms(1) unfolding decides_def
  by (rule wp_mono) (use assms(2) in \<open>auto simp: validateDriverResult_None refusal_def made_def verdict_def split: prod.splits option.splits if_splits\<close>)


definition reported where
  "reported ok w m \<longleftrightarrow> wp m (\<lambda>(r, e) t. (\<exists>h. r = map_option (\<lambda>n. NewDryRunReportFromHandle (Some n)) h \<and> holds w [(KReport, h)] t)
     \<and> (r \<noteq> None \<longleftrightarrow> ok) \<and> (e = None \<longleftrightarrow> r \<noteq> None)) (\<lambda>_ _. False) w"

lemma dry_run_reported:
  assumes "attemptOK (fst (call (ow_env w)))"
  shows "reported (fst (fst (call (ow_env w)))) w (bind (attempted x KReport name call) (\<lambda>(r, err).
     if err \<noteq> None then ret (None, err) else ret (Some (NewDryRunReportFromHandle r), None)))"
proof -
  obtain ok result outError env where c: "call (ow_env w) = ((ok, result, outError), env)"
    by (metis prod.collapse)
  show ?thesis
    using assms
    by (cases ok; cases result; cases outError)
      (auto simp: reported_def attempted_def wp c holds_def intro: exI [of _ "Some h" for h])
qed

text \<open>A report that was applied returns the blocks, PnL and adjustments of its result.\<close>

definition posted where
  "posted x e rep w m \<longleftrightarrow> wp m (\<lambda>(r, err) t. holds w [] t
      \<and> (err = None \<longleftrightarrow> fst (fst (ne_report x (se_handle e) rep (ow_env w))))
      \<and> (err \<noteq> None \<longrightarrow> r = zeroPostTradeResult)
      \<and> (\<forall>h b. ne_report x (se_handle e) rep (ow_env w) = ((True, Some h, None), b) \<longrightarrow>
          r = \<lparr>ptr_AccountBlocks = ne_postBlocks x h b, ptr_AccountPnls = ne_postPnls x h b,
               ptr_AccountAdjustments = ne_postAdjustments x h b\<rparr>)) (\<lambda>_ _. False) w"

lemma report_applied:
  assumes "attemptOK (fst (ne_report x (se_handle e) rep (ow_env w)))"
  shows "posted x e rep w (Engine_ApplyExecutionReport x e rep)"
proof -
  obtain ok result outError env where c: "ne_report x (se_handle e) rep (ow_env w) = ((ok, result, outError), env)"
    by (metis prod.collapse)
  show ?thesis
    using assms
    by (cases ok; cases result; cases outError)
      (simp_all add: posted_def Engine_ApplyExecutionReport_def EngineApplyExecutionReport_def attempted_def wp c holds_def)
qed

text \<open>An adjustment that was applied returns its outcomes and blocks, a refused one its batch error.\<close>

definition adjusted where
  "adjusted x e account adjs w m \<longleftrightarrow> wp m (\<lambda>(r, err) t. holds w [] t
      \<and> (case ne_adjust x (se_handle e) account adjs (ow_env w) of ((status, reject, outcomes, blocks, _), b) \<Rightarrow>
          (case status of
             AdjustApplied \<Rightarrow> err = None \<and> r = \<lparr>br_BatchError = None,
               br_Outcomes = (case outcomes of None \<Rightarrow> [] | Some h \<Rightarrow> ne_outcomes x h b),
               br_AccountBlocks = (case blocks of None \<Rightarrow> [] | Some h \<Rightarrow> ne_blocks x h b)\<rparr>
           | AdjustRejected \<Rightarrow> (\<exists>h. reject = Some h \<and> (if ne_batchRejects x h b = [] then err \<noteq> None \<and> r = zeroBatchResult
               else err = None \<and> r = zeroBatchResult\<lparr>br_BatchError := Some (ne_batchRejects x h b, ne_batchIndex x h b)\<rparr>))
           | _ \<Rightarrow> err \<noteq> None \<and> r = zeroBatchResult))) (\<lambda>_ _. False) w"

lemma adjustment_applied:
  assumes "adjustOK (fst (ne_adjust x (se_handle e) account adjs (ow_env w)))"
  shows "adjusted x e account adjs w (Engine_ApplyAccountAdjustment x e account adjs)"
proof -
  obtain status reject outcomes blocks outError env
    where c: "ne_adjust x (se_handle e) account adjs (ow_env w) = ((status, reject, outcomes, blocks, outError), env)"
    by (metis prod.collapse)
  show ?thesis
    using assms
    by (cases status; cases reject; cases outcomes; cases blocks; cases outError)
      (simp_all add: adjusted_def Engine_ApplyAccountAdjustment_def EngineApplyAccountAdjustment_def wp c holds_def
        NewAccountAdjustmentBatchErrorFromHandle_def NewListFromHandle_def wrapf_def)
qed

lemma retirement_answered:
  assumes "retireOK (fst (ne_retire x (se_handle e) account (ow_env w)))"
  shows "wp (Engine_RetireAccount x e account) (\<lambda>err t. holds w [] t
      \<and> (err = None \<longleftrightarrow> fst (fst (ne_retire x (se_handle e) account (ow_env w))))) (\<lambda>_ _. False) w"
proof -
  obtain ok retirement outError env where c: "ne_retire x (se_handle e) account (ow_env w) = ((ok, retirement, outError), env)"
    by (metis prod.collapse)
  show ?thesis
    using assms
    by (cases ok; cases retirement; cases outError)
      (simp_all add: Engine_RetireAccount_def EngineRetireAccount_def NewAccountRetirementErrorFromHandle_def
        wp c holds_def split: sum.split)
qed

section \<open>Properties\<close>

text \<open>
  C27: the synchronous engine keeps nothing it is not asked to keep.  Whatever the native
  library answers within its documented ownership, also with a status the code does not know,
  no method panics, reads or releases an object it does not hold, or leaks one: afterwards the
  Go side holds one more object exactly when the method returns its wrapper.  A method accepts
  exactly when the native call passed, and returns the rejects, outcomes and blocks it was given.
\<close>

theorem sync_engine_owns_results:
  assumes "documented x"
  shows "decides x KRequest NewRequestFromHandle (ne_start x (se_handle e) ord) w (Engine_StartPreTrade x e ord)
    \<and> decides x KReservation NewReservationFromHandle (ne_execute x (se_handle e) ord) w (Engine_ExecutePreTrade x e ord)
    \<and> decides x KDropCopy NewDropCopyOperationFromHandle (ne_dropCopy x (se_handle e) ord) w (Engine_ApplyDropCopy x e ord)
    \<and> reported (fst (fst (ne_startDryRun x (se_handle e) ord (ow_env w)))) w (Engine_StartPreTradeDryRun x e ord)
    \<and> reported (fst (fst (ne_executeDryRun x (se_handle e) ord (ow_env w)))) w (Engine_ExecutePreTradeDryRun x e ord)
    \<and> posted x e rep w (Engine_ApplyExecutionReport x e rep)
    \<and> adjusted x e account adjs w (Engine_ApplyAccountAdjustment x e account adjs)
    \<and> wp (Engine_RetireAccount x e account) (\<lambda>err t. holds w [] t
        \<and> (err = None \<longleftrightarrow> fst (fst (ne_retire x (se_handle e) account (ow_env w))))) (\<lambda>_ _. False) w"
proof (intro conjI)
  note d = assms [unfolded documented_def, rule_format]
  show "decides x KRequest NewRequestFromHandle (ne_start x (se_handle e) ord) w (Engine_StartPreTrade x e ord)"
    "decides x KReservation NewReservationFromHandle (ne_execute x (se_handle e) ord) w (Engine_ExecutePreTrade x e ord)"
    "decides x KDropCopy NewDropCopyOperationFromHandle (ne_dropCopy x (se_handle e) ord) w (Engine_ApplyDropCopy x e ord)"
    unfolding Engine_StartPreTrade_def Engine_ExecutePreTrade_def Engine_ApplyDropCopy_def
      EngineStartPreTrade_def EngineExecutePreTrade_def EngineApplyDropCopy_def
    using d by (intro delivered_decides; blast)+
  show "reported (fst (fst (ne_startDryRun x (se_handle e) ord (ow_env w)))) w (Engine_StartPreTradeDryRun x e ord)"
    "reported (fst (fst (ne_executeDryRun x (se_handle e) ord (ow_env w)))) w (Engine_ExecutePreTradeDryRun x e ord)"
    unfolding Engine_StartPreTradeDryRun_def Engine_ExecutePreTradeDryRun_def
      EngineStartPreTradeDryRun_def EngineExecutePreTradeDryRun_def
    using d by (intro dry_run_reported; blast)+
  show "posted x e rep w (Engine_ApplyExecutionReport x e rep)"
    "adjusted x e account adjs w (Engine_ApplyAccountAdjustment x e account adjs)"
    using d by (blast intro: report_applied adjustment_applied)+
  show "wp (Engine_RetireAccount x e account) (\<lambda>err t. holds w [] t
      \<and> (err = None \<longleftrightarrow> fst (fst (ne_retire x (se_handle e) account (ow_env w))))) (\<lambda>_ _. False) w"
    using d by (intro wp_mono [OF retirement_answered]) auto
qed


text \<open>
  A native library that passes the orders marked 0, rejects those marked 1, and answers the
  others with a status nobody knows and every output set.
\<close>

definition sampleDecision :: "order \<Rightarrow> nat decision" where
  "sampleDecision ord a = (if ord_rest ord = 0 then (StatusPassed, Some 5, None, None)
     else if ord_rest ord = 1 then (StatusRejected, None, Some 6, None)
     else (StatusOther 9, Some 5, Some 6, Some 7), a)"

definition sampleReject :: reject where
  "sampleReject = \<lparr>rj_Reason = ''limit'', rj_Details = [], rj_Policy = ''p'', rj_UserData = 0, rj_Code = 1, rj_Scope = 1\<rparr>"

definition sampleNative :: "nat nativeEngine" where
  "sampleNative = \<lparr>ne_start = (\<lambda>_. sampleDecision), ne_execute = (\<lambda>_. sampleDecision), ne_dropCopy = (\<lambda>_. sampleDecision),
     ne_startDryRun = (\<lambda>_ _ a. ((True, Some 8, None), a)), ne_executeDryRun = (\<lambda>_ _ a. ((True, Some 8, None), a)),
     ne_report = (\<lambda>_ _ a. ((False, None, Some 7), a)), ne_adjust = (\<lambda>_ _ _ a. ((AdjustApplied, None, None, Some 9, None), a)),
     ne_retire = (\<lambda>_ _ a. ((True, None, None), a)), ne_string = (\<lambda>_ _. ''refused''),
     ne_rejects = (\<lambda>_ _. [sampleReject]), ne_blocks = (\<lambda>_ _. []), ne_outcomes = (\<lambda>_ _. []), ne_postBlocks = (\<lambda>_ _. []),
     ne_postAdjustments = (\<lambda>_ _. []), ne_postPnls = (\<lambda>_ _. []), ne_batchRejects = (\<lambda>_ _. []), ne_batchIndex = (\<lambda>_ _. 0),
     ne_retireMessage = (\<lambda>_ _. []), ne_retireKind = (\<lambda>_ _. 0), ne_retireRefusals = (\<lambda>_ _. [])\<rparr>"

definition sampleHeld :: "nat owned" where
  "sampleHeld = \<lparr>ow_live = {#(KEngine, 1)#}, ow_fault = False, ow_env = 0\<rparr>"

definition sampleOrder :: "nat \<Rightarrow> order" where
  "sampleOrder n = \<lparr>ord_operation = None, ord_rest = n\<rparr>"

lemma sample_documented: "documented sampleNative"
  by (simp add: documented_def sampleNative_def sampleDecision_def)

theorem sync_engine_owns_results_witness:
  "ow_live (snd (Engine_StartPreTrade sampleNative (newEngineFromHandle (Some 1)) (sampleOrder 2) sampleHeld)) = {#(KEngine, 1)#}
   \<and> ow_live (snd (Engine_StartPreTrade sampleNative (newEngineFromHandle (Some 1)) (sampleOrder 0) sampleHeld))
      = {#(KEngine, 1), (KRequest, 5)#}"
proof -
  have d: "decides sampleNative KRequest NewRequestFromHandle (ne_start sampleNative (Some 1) (sampleOrder n)) sampleHeld
      (Engine_StartPreTrade sampleNative (newEngineFromHandle (Some 1)) (sampleOrder n))" for n
    using sync_engine_owns_results [OF sample_documented, THEN conjunct1, of "newEngineFromHandle (Some 1)"]
    by (simp add: newEngineFromHandle_def)
  have "made (ne_start sampleNative (Some 1) (sampleOrder 2)) 0 = None"
    "made (ne_start sampleNative (Some 1) (sampleOrder 0)) 0 = Some 5"
    by (simp_all add: made_def sampleNative_def sampleDecision_def sampleOrder_def)
  then show ?thesis
    using decides_live [OF d [of 2]] decides_live [OF d [of 0]]
    by (simp add: sampleHeld_def)
qed

text \<open>
  C28: the synchronous engine is a lawful driver.  Every result of its deciding methods has one
  of the three shapes the asynchronous facade validates: a live handle and nothing else, rejects
  and nothing else, or an error and nothing else; so the facade never reports
  \<^verbatim>\<open>ErrDriverResult\<close> over it.
\<close>

theorem sync_engine_is_lawful_driver:
  assumes "documented x"
  shows "wp (Engine_StartPreTrade x e ord) (\<lambda>(r, rejects, err) t. validateDriverResult (r \<noteq> None)
        (case r of None \<Rightarrow> False | Some q \<Rightarrow> \<not> Request_IsClosed q) rejects err = None) (\<lambda>_ _. False) w
    \<and> wp (Engine_ExecutePreTrade x e ord) (\<lambda>(r, rejects, err) t. validateDriverResult (r \<noteq> None)
        (case r of None \<Rightarrow> False | Some q \<Rightarrow> \<not> Reservation_IsClosed q) rejects err = None) (\<lambda>_ _. False) w
    \<and> wp (Engine_ApplyDropCopy x e ord) (\<lambda>(r, rejects, err) t. validateDriverResult (r \<noteq> None)
        (case r of None \<Rightarrow> False | Some q \<Rightarrow> \<not> DropCopyOperation_IsClosed q) rejects err = None) (\<lambda>_ _. False) w"
proof -
  note d = assms [unfolded documented_def, rule_format]
  have a: "decides x KRequest NewRequestFromHandle (ne_start x (se_handle e) ord) w (Engine_StartPreTrade x e ord)"
    "decides x KReservation NewReservationFromHandle (ne_execute x (se_handle e) ord) w (Engine_ExecutePreTrade x e ord)"
    "decides x KDropCopy NewDropCopyOperationFromHandle (ne_dropCopy x (se_handle e) ord) w (Engine_ApplyDropCopy x e ord)"
    unfolding Engine_StartPreTrade_def Engine_ExecutePreTrade_def Engine_ApplyDropCopy_def
      EngineStartPreTrade_def EngineExecutePreTrade_def EngineApplyDropCopy_def
    using d by (intro delivered_decides; blast)+
  show ?thesis
    by (intro conjI decides_shape [OF a(1)] decides_shape [OF a(2)] decides_shape [OF a(3)])
      (simp_all add: Request_IsClosed_def NewRequestFromHandle_def Reservation_IsClosed_def NewReservationFromHandle_def
        DropCopyOperation_IsClosed_def NewDropCopyOperationFromHandle_def)
qed

theorem sync_engine_is_lawful_driver_witness:
  "case Engine_ApplyDropCopy sampleNative (newEngineFromHandle (Some 1)) (sampleOrder 1) sampleHeld of
     (Ret (r, rejects, err), t) \<Rightarrow> r = None \<and> validateDriverResult False False rejects err = None
   | _ \<Rightarrow> False"
proof -
  note d = sync_engine_is_lawful_driver [OF sample_documented, THEN conjunct2, THEN conjunct2,
      of "newEngineFromHandle (Some 1)" "sampleOrder 1" sampleHeld]
  have "fst (Engine_ApplyDropCopy sampleNative (newEngineFromHandle (Some 1)) (sampleOrder 1) sampleHeld) = Ret (None, [sampleReject], None)"
    by (simp add: Engine_ApplyDropCopy_def delivered_def EngineApplyDropCopy_def decided_def issue_def bind_def ret_def
        rejectListFromHandle_def inspect_def release_def NewListFromHandle_def sampleNative_def sampleDecision_def
        sampleOrder_def sampleHeld_def newEngineFromHandle_def)
  then show ?thesis
    using d by (simp add: wp_def split: prod.splits res.splits)
qed

end
