(* ===== verification/Builder_Facts.thy ===== *)
theory Builder_Facts
  imports Engine_Builder Callbacks
begin

text \<open>
  A builder loses no policy and no native object: every policy it was given is taken by the
  native side, closed by the builder, or still scheduled, each once.
\<close>

section \<open>What the C header documents\<close>

definition builderDocumented :: "('p, 'e) nativeBuilder \<Rightarrow> bool" where
  "builderDocumented x \<longleftrightarrow> (\<forall>a sync b h.
     (let (h, outError) = fst (nb_create x sync a) in (h = None) \<noteq> (outError = None))
     \<and> (let (ok, outError) = fst (nb_add x b h a) in ok \<longleftrightarrow> outError = None)
     \<and> (let (e, buildError, outError) = fst (nb_build x b a) in
          (e \<noteq> None \<longrightarrow> buildError = None \<and> outError = None) \<and> (e = None \<longrightarrow> (buildError = None) \<noteq> (outError = None))))"

text \<open>The client's own part: the \<^verbatim>\<open>Close\<close> of every policy returns.\<close>

definition builderServed :: "('p, 'e) nativeBuilder \<Rightarrow> bool" where
  "builderServed x \<longleftrightarrow> builderDocumented x \<and> (\<forall>p a. fst (nb_close x p a) = Ret ())"


lemma builderServedD:
  assumes "builderServed x"
  shows "nb_create x sync a = ((h, outError), c) \<Longrightarrow> (h = None) \<noteq> (outError = None)"
    and "nb_add x b n a = ((ok, outError'), c') \<Longrightarrow> ok \<longleftrightarrow> outError' = None"
    and "nb_build x b a = ((e, buildError, outError''), c'') \<Longrightarrow>
      (e \<noteq> None \<longrightarrow> buildError = None \<and> outError'' = None) \<and> (e = None \<longrightarrow> (buildError = None) \<noteq> (outError'' = None))"
    and "nb_close x p a = (r, c4) \<Longrightarrow> r = Ret ()"
proof -
  note d = assms [unfolded builderServed_def builderDocumented_def Let_def, THEN conjunct1, rule_format]
  show "nb_create x sync a = ((h, outError), c) \<Longrightarrow> (h = None) \<noteq> (outError = None)"
    using d [of sync a] by simp
  show "nb_add x b n a = ((ok, outError'), c') \<Longrightarrow> ok \<longleftrightarrow> outError' = None"
    using d [of _ a b n] by simp
  show "nb_build x b a = ((e, buildError, outError''), c'') \<Longrightarrow>
      (e \<noteq> None \<longrightarrow> buildError = None \<and> outError'' = None) \<and> (e = None \<longrightarrow> (buildError = None) \<noteq> (outError'' = None))"
    using d [of _ a b] by simp
  show "nb_close x p a = (r, c4) \<Longrightarrow> r = Ret ()"
    using assms by (metis builderServed_def fst_conv)
qed

section \<open>The invariant\<close>

definition accounted :: "'p readyEngineBuilder \<Rightarrow> ('p, 'e) policies owned \<Rightarrow> 'p multiset" where
  "accounted b t = mset (po_closed (ow_env t)) + mset (po_taken (ow_env t)) + mset (rb_unfinished b)"

definition builderInv where
  "builderInv live fault ps b t \<longleftrightarrow> ow_fault t = fault
     \<and> ow_live t = live + objects [(KBuilder, rb_handle b)] \<and> accounted b t = ps"

lemma wp_closePolicy:
  assumes "builderServed x"
  shows "wp (closePolicy x p) Q E w = (\<exists>e. nb_close x p (po_env (ow_env w)) = (Ret (), e)
    \<and> Q () (w\<lparr>ow_env := (ow_env w)\<lparr>po_closed := po_closed (ow_env w) @ [p], po_env := e\<rparr>\<rparr>))"
  using builderServedD(4) [OF assms]
  by (cases "nb_close x p (po_env (ow_env w))") (fastforce simp: wp_def closePolicy_def Let_def)

lemma close_all:
  assumes "builderServed x"
  shows "wp (closeAll x ps) (\<lambda>_ t. ow_fault t = ow_fault w \<and> ow_live t = ow_live w
    \<and> po_taken (ow_env t) = po_taken (ow_env w) \<and> po_closed (ow_env t) = po_closed (ow_env w) @ ps) (\<lambda>_ _. False) w"
proof (induction ps arbitrary: w)
  case (Cons p ps)
  obtain e where "nb_close x p (po_env (ow_env w)) = (Ret (), e)"
    using builderServedD(4) [OF assms] by (metis surj_pair)
  then show ?case
    using Cons.IH [of "w\<lparr>ow_env := (ow_env w)\<lparr>po_closed := po_closed (ow_env w) @ [p], po_env := e\<rparr>\<rparr>"]
    by (simp add: wp wp_closePolicy [OF assms])
qed (simp add: wp)

lemma builder_created:
  assumes "builderServed x"
  shows "wp (newReadyEngineBuilder x sync) (\<lambda>b t. builderInv (ow_live w) (ow_fault w)
      (mset (po_closed (ow_env w)) + mset (po_taken (ow_env w))) b t \<and> rb_unfinished b = []
      \<and> (rb_handle b = None \<longleftrightarrow> rb_err b \<noteq> None)) (\<lambda>_ _. False) w"
proof -
  obtain h outError e where c: "nb_create x sync (po_env (ow_env w)) = ((h, outError), e)"
    by (metis prod.collapse)
  show ?thesis
    using builderServedD(1) [OF assms c]
    by (cases h; cases outError)
      (auto simp: newReadyEngineBuilder_def CreateEngineBuilder_def onNative_def wp c builderInv_def accounted_def)
qed

lemma close_inv:
  assumes "builderServed x" and "builderInv live fault ps b w"
  shows "wp (ReadyEngineBuilder_Close x b) (\<lambda>b' t. builderInv live fault ps b' t
      \<and> b' = b\<lparr>rb_unfinished := [], rb_handle := None\<rparr>) (\<lambda>_ _. False) w"
proof -
  have "wp (closeAll x (rb_unfinished b)) (\<lambda>_. wp (if rb_handle b \<noteq> None then bind (release KBuilder (rb_handle b))
      (\<lambda>_. ret (b\<lparr>rb_unfinished := [], rb_handle := None\<rparr>)) else ret (b\<lparr>rb_unfinished := []\<rparr>))
      (\<lambda>b' t. builderInv live fault ps b' t \<and> b' = b\<lparr>rb_unfinished := [], rb_handle := None\<rparr>) (\<lambda>_ _. False)) (\<lambda>_ _. False) w"
    using assms(2)
    by (intro wp_mono [OF close_all [OF assms(1)]])
      (auto simp: wp builderInv_def accounted_def split: option.split)
  then show ?thesis by (simp add: ReadyEngineBuilder_Close_def wp)
qed

lemma add_inv:
  assumes "builderServed x" and "builderInv live fault ps b w"
  shows "wp (addPreTradePolicy x p b) (builderInv live fault (add_mset p ps)) (\<lambda>_ _. False) w"
proof (cases "rb_err b")
  case (Some e)
  then show ?thesis
    using assms(2) by (simp add: addPreTradePolicy_def wp builderInv_def accounted_def)
next
  case None
  obtain r e1 where s: "nb_start x p (po_env (ow_env w)) = (r, e1)" by fastforce
  show ?thesis
  proof (cases r)
    case (Inl err)
    then show ?thesis
      using None assms(2) s
      by (simp add: addPreTradePolicy_def startPolicy_def onNative_def wp builderInv_def accounted_def)
  next
    case (Inr h)
    obtain ok outError e2 where a: "nb_add x (rb_handle b) h e1 = ((ok, outError), e2)"
      by (metis prod.collapse)
    show ?thesis
      using None assms(2) s Inr a builderServedD(2) [OF assms(1) a]
      by (cases ok; cases outError; cases "rb_handle b")
        (simp_all add: addPreTradePolicy_def startPolicy_def EngineBuilderAddPreTradePolicy_def onNative_def wp
          builderInv_def accounted_def)
  qed
qed

lemma preTrade_inv:
  assumes "builderServed x"
  shows "builderInv live fault ps b w \<Longrightarrow>
    wp (ReadyEngineBuilder_PreTrade x qs b) (builderInv live fault (ps + mset qs)) (\<lambda>_ _. False) w"
proof (induction qs arbitrary: b w ps)
  case (Cons q qs)
  then show ?case
    using Cons.IH [of "add_mset q ps"] by (auto simp: wp intro!: wp_mono [OF add_inv [OF assms Cons.prems]])
qed (simp add: wp)

lemma builtin_inv:
  "builderInv live fault ps b w \<Longrightarrow> wp (ReadyEngineBuilder_Builtin build b) (builderInv live fault ps) (\<lambda>_ _. False) w"
  by (cases "rb_handle b") (auto simp: ReadyEngineBuilder_Builtin_def wp builderInv_def accounted_def onNative_def split: prod.split)

definition builtEngine :: "buildFailure + syncEngine \<Rightarrow> (nativeKind \<times> nat) multiset" where
  "builtEngine r = (case r of Inl _ \<Rightarrow> {#} | Inr e \<Rightarrow> objects [(KEngine, se_handle e)])"

lemma build_inv:
  assumes "builderServed x" and "builderInv live fault ps b w"
  shows "wp (ReadyEngineBuilder_Build x b) (\<lambda>(r, b') t. builderInv (live + builtEngine r) fault ps b' t
      \<and> b' = b\<lparr>rb_unfinished := [], rb_handle := None\<rparr>
      \<and> (case r of Inl f \<Rightarrow> True | Inr e \<Rightarrow> rb_err b = None \<and> se_handle e \<noteq> None)) (\<lambda>_ _. False) w"
proof -
  have close: "wp (ReadyEngineBuilder_Close x b) (\<lambda>_. Q) (\<lambda>_ _. False) v"
    if "builderInv l fault ps b v" and "\<And>t. builderInv l fault ps (b\<lparr>rb_unfinished := [], rb_handle := None\<rparr>) t \<Longrightarrow> Q t"
    for Q l v
    using that by (intro wp_mono [OF close_inv [OF assms(1)]]) auto
  show ?thesis
  proof (cases "rb_err b")
    case (Some e)
    then show ?thesis
      using assms(2) by (auto simp: ReadyEngineBuilder_Build_def wp builtEngine_def intro!: close)
  next
    case None
    obtain h buildErr outError e where c: "nb_build x (rb_handle b) (po_env (ow_env w)) = ((h, buildErr, outError), e)"
      by (metis prod.collapse)
    obtain code name group where be: "nb_buildError x (the buildErr) e = (code, name, group)" by (metis prod.collapse)
    have inv: "builderInv live fault ps b (w\<lparr>ow_env := (ow_env w)\<lparr>po_env := e\<rparr>\<rparr>)"
      "builderInv (live + {#z#}) fault ps b (w\<lparr>ow_live := add_mset z (ow_live w), ow_env := (ow_env w)\<lparr>po_env := e\<rparr>\<rparr>)" for z
      using assms(2) by (auto simp: builderInv_def accounted_def)
    show ?thesis
      using None assms(2) c be builderServedD(3) [OF assms(1) c] inv
      by (cases h; cases buildErr; cases outError; cases "rb_handle b")
        (auto simp: ReadyEngineBuilder_Build_def EngineBuilderBuild_def newEngineBuildErrorFromHandle_def onNative_def
          wp builtEngine_def newEngineFromHandle_def builderInv_def accounted_def intro!: close)
  qed
qed

section \<open>Whole lives of a builder\<close>

datatype ('p, 'e) builderCall =
    CallPreTrade "'p list" | CallBuiltin "nat option \<Rightarrow> 'e \<Rightarrow> err \<times> 'e" | CallClose | CallBuild

fun handedIn :: "('p, 'e) builderCall \<Rightarrow> 'p multiset" where
  "handedIn (CallPreTrade ps) = mset ps"
| "handedIn _ = {#}"

fun builderCalls ::
    "('p, 'e) nativeBuilder \<Rightarrow> ('p, 'e) builderCall list \<Rightarrow> 'p readyEngineBuilder
      \<Rightarrow> ('p, 'e, (buildFailure + syncEngine) list \<times> 'p readyEngineBuilder) building" where
  "builderCalls x [] b = ret ([], b)"
| "builderCalls x (CallPreTrade ps # cs) b = bind (ReadyEngineBuilder_PreTrade x ps b) (builderCalls x cs)"
| "builderCalls x (CallBuiltin build # cs) b = bind (ReadyEngineBuilder_Builtin build b) (builderCalls x cs)"
| "builderCalls x (CallClose # cs) b = bind (ReadyEngineBuilder_Close x b) (builderCalls x cs)"
| "builderCalls x (CallBuild # cs) b = bind (ReadyEngineBuilder_Build x b) (\<lambda>(r, b').
     bind (builderCalls x cs b') (\<lambda>(rs, b''). ret (r # rs, b'')))"

definition engines :: "(buildFailure + syncEngine) list \<Rightarrow> (nativeKind \<times> nat) multiset" where
  "engines rs = sum_list (map builtEngine rs)"

text \<open>Whether the last call leaves the builder closed.\<close>

definition closedBuilder :: "'p readyEngineBuilder \<Rightarrow> bool" where
  "closedBuilder b \<longleftrightarrow> rb_unfinished b = [] \<and> rb_handle b = None"

definition ending :: "('p, 'e) builderCall list \<Rightarrow> 'p readyEngineBuilder \<Rightarrow> bool" where
  "ending cs b = (if cs = [] then closedBuilder b else last cs = CallClose \<or> last cs = CallBuild)"

lemma ending_Cons: "ending (c # cs) b \<Longrightarrow> (c = CallClose \<or> c = CallBuild \<Longrightarrow> closedBuilder b') \<Longrightarrow> ending cs b'"
  by (auto simp: ending_def split: if_splits)

lemma builder_calls_inv:
  assumes "builderServed x"
  shows "builderInv live fault ps b w \<Longrightarrow>
    wp (builderCalls x cs b) (\<lambda>(rs, b') t. builderInv (live + engines rs) fault (ps + sum_list (map handedIn cs)) b' t
      \<and> (ending cs b \<longrightarrow> closedBuilder b')) (\<lambda>_ _. False) w"
proof (induction cs arbitrary: b live ps w)
  case (Cons c cs)
  show ?case
  proof (cases c)
    case (CallPreTrade qs)
    have "ending (c # cs) b \<Longrightarrow> ending cs b'" for b' using CallPreTrade by (rule_tac ending_Cons) auto
    then show ?thesis using CallPreTrade
      by (simp add: wp, intro wp_mono [OF preTrade_inv [OF assms Cons.prems]])
        (auto simp: add.assoc intro!: wp_mono [OF Cons.IH [of _ "ps + mset qs"]])
  next
    case (CallBuiltin build)
    have "ending (c # cs) b \<Longrightarrow> ending cs b'" for b' using CallBuiltin by (rule_tac ending_Cons) auto
    then show ?thesis using CallBuiltin
      by (simp add: wp, intro wp_mono [OF builtin_inv [OF Cons.prems]]) (auto intro!: wp_mono [OF Cons.IH])
  next
    case CallClose
    have "ending (c # cs) b \<Longrightarrow> closedBuilder b' \<Longrightarrow> ending cs b'" for b' by (rule ending_Cons)
    then show ?thesis using CallClose
      by (simp add: wp, intro wp_mono [OF close_inv [OF assms Cons.prems]])
        (auto simp: closedBuilder_def intro!: wp_mono [OF Cons.IH])
  next
    case CallBuild
    have "ending (c # cs) b \<Longrightarrow> closedBuilder b' \<Longrightarrow> ending cs b'" for b' by (rule ending_Cons)
    then show ?thesis using CallBuild
      by (simp add: wp, intro wp_mono [OF build_inv [OF assms Cons.prems]])
        (auto simp: wp engines_def add.assoc closedBuilder_def intro!: wp_mono [OF Cons.IH])
  qed
qed (simp add: wp engines_def ending_def)

lemma client_preTrade:
  "ClientReadyEngineBuilder_PreTrade x fast safe unsafe ps b
     = ReadyEngineBuilder_PreTrade x (map (if fast then unsafe else safe) ps) b"
  by (induction ps arbitrary: b) (simp_all add: bind_assoc)

text \<open>Closing an adapted policy closes the client's policy.\<close>

lemma adapters_close:
  "pm_Close (safeClientPreTradePolicy rn details p :: ('o, 'r, 'a, 'e, 'c, 'b, 'd, 'j) enginePolicy) = pm_Close p"
  "pm_Close (unsafeFastClientPreTradePolicy p :: ('o, 'r, 'a, 'e, 'c, 'b, 'd, 'j) enginePolicy) = pm_Close p"
  by (simp_all add: safeClientPreTradePolicy_def unsafeFastClientPreTradePolicy_def)


text \<open>A native builder that refuses the policies named bad and builds an engine out of any others.\<close>

definition sampleBuilder :: "(string, nat) nativeBuilder" where
  "sampleBuilder = \<lparr>nb_create = (\<lambda>_ a. ((Some 1, None), a)),
     nb_start = (\<lambda>p a. (Inr (a + 1), a + 1)),
     nb_add = (\<lambda>_ h a. if h = 2 then ((False, Some 50), a) else ((True, None), a)),
     nb_build = (\<lambda>_ a. ((Some 9, None, None), a)), nb_string = (\<lambda>_ _. ''no''), nb_buildError = (\<lambda>_ _. (0, [], 0)),
     nb_name = (\<lambda>p. p), nb_close = (\<lambda>_. ret ())\<rparr>"

definition sampleBuilding :: "(string, nat) policies owned" where
  "sampleBuilding = \<lparr>ow_live = {#}, ow_fault = False, ow_env = \<lparr>po_taken = [], po_closed = [], po_env = 0\<rparr>\<rparr>"

lemma sample_builder_documented: "builderDocumented sampleBuilder"
  by (simp add: builderDocumented_def sampleBuilder_def ret_def)

lemma sample_builder_closes: "\<forall>p a. fst (nb_close sampleBuilder p a) = Ret ()"
  by (simp add: sampleBuilder_def ret_def)


section \<open>A policy that panics when it is closed\<close>

text \<open>
  \<^verbatim>\<open>Close\<close> forgets the scheduled policies only after it has closed all of them.  When one
  panics, the ones before it stay scheduled, and the next \<^verbatim>\<open>Close\<close> closes them again.
\<close>

definition panickyBuilder :: "(string, nat) nativeBuilder" where
  "panickyBuilder = sampleBuilder\<lparr>nb_close := (\<lambda>p. if p = ''bad'' then panic nilCall else ret ())\<rparr>"

lemma close_after_panic_closes_twice:
  assumes "rb_unfinished b = [''a'', ''bad'']"
  shows "\<exists>u. ReadyEngineBuilder_Close panickyBuilder b w = (Panic nilCall, u)
    \<and> (\<exists>v. ReadyEngineBuilder_Close panickyBuilder b u = (Panic nilCall, v)
        \<and> po_closed (ow_env v) = po_closed (ow_env w) @ [''a'', ''bad'', ''a'', ''bad''])"
  by (simp add: ReadyEngineBuilder_Close_def assms closePolicy_def panickyBuilder_def bind_def panic_def ret_def Let_def)

end
