(* ===== verification/Async_Builder.thy ===== *)
theory Async_Builder
  imports Dynamic Lane Builder_Facts
begin

text \<open>
  The builder of the asynchronous engine (\<^verbatim>\<open>asyncengine/builder.go\<close>), the defaults of
  \<^verbatim>\<open>newBase\<close>, and \<^verbatim>\<open>BuildAsync\<close>, which starts from a synchronous engine.  Observers and
  teardown functions are numbers; durations are in nanoseconds.
\<close>

record baseConfig =
  cf_observer :: "nat option"
  cf_queueCapacity :: int
  cf_slowSubmitThreshold :: int

record 'd asyncBuilder =
  bu_driver :: 'd
  bu_stopUnderlying :: "nat option"
  bu_observer :: "nat option"
  bu_queueCapacity :: int
  bu_slowSubmitThreshold :: int

definition NewBuilder :: "'d \<Rightarrow> 'd asyncBuilder" where
  "NewBuilder driver = \<lparr>bu_driver = driver, bu_stopUnderlying = None, bu_observer = None,
     bu_queueCapacity = 0, bu_slowSubmitThreshold = 0\<rparr>"

definition WithStopUnderlying :: "nat \<Rightarrow> 'd asyncBuilder \<Rightarrow> 'd asyncBuilder" where
  "WithStopUnderlying stop b = b\<lparr>bu_stopUnderlying := Some stop\<rparr>"

definition WithObserver :: "nat option \<Rightarrow> 'd asyncBuilder \<Rightarrow> 'd asyncBuilder" where
  "WithObserver obs b = b\<lparr>bu_observer := obs\<rparr>"

definition WithQueueCapacity :: "int \<Rightarrow> 'd asyncBuilder \<Rightarrow> 'd asyncBuilder" where
  "WithQueueCapacity n b = b\<lparr>bu_queueCapacity := n\<rparr>"

definition WithSlowSubmitThreshold :: "int \<Rightarrow> 'd asyncBuilder \<Rightarrow> 'd asyncBuilder" where
  "WithSlowSubmitThreshold d b = b\<lparr>bu_slowSubmitThreshold := d\<rparr>"

definition builderBaseConfig :: "'d asyncBuilder \<Rightarrow> baseConfig" where
  "builderBaseConfig b = \<lparr>cf_observer = bu_observer b, cf_queueCapacity = bu_queueCapacity b,
     cf_slowSubmitThreshold = bu_slowSubmitThreshold b\<rparr>"

definition defaultQueueCapacity :: int where "defaultQueueCapacity = 1024"
definition defaultSlowSubmitThreshold :: int where "defaultSlowSubmitThreshold = 60 * second"
definition defaultIdleCleanupAfter :: int where "defaultIdleCleanupAfter = 5 * 60 * second"

text \<open>The configuration as \<^verbatim>\<open>newBase\<close> keeps it; no observer is the one that does nothing.\<close>

definition newBaseConfig :: "baseConfig \<Rightarrow> baseConfig" where
  "newBaseConfig cfg =
     cfg\<lparr>cf_queueCapacity := (if cf_queueCapacity cfg \<le> 0 then defaultQueueCapacity else cf_queueCapacity cfg),
         cf_slowSubmitThreshold := (if cf_slowSubmitThreshold cfg \<le> 0 then defaultSlowSubmitThreshold
           else cf_slowSubmitThreshold cfg)\<rparr>"

section \<open>Strategies\<close>

datatype 't builtStrategy =
    BuiltSharded "'t keyQueue list"
  | BuiltDynamic dynamic int int bool

record ('d, 't) builtAsync =
  ba_driver :: 'd
  ba_stopUnderlying :: "nat option"
  ba_config :: baseConfig
  ba_strategy :: "'t builtStrategy"

text \<open>\<open>now\<close> is the clock when the lanes are made.\<close>

definition newShardedStrategy :: "int \<Rightarrow> baseConfig \<Rightarrow> int \<Rightarrow> baseConfig \<times> 't builtStrategy" where
  "newShardedStrategy now cfg shardCount =
     (let c = newBaseConfig cfg in
      (c, BuiltSharded (replicate (nat shardCount) (newKeyQueue (nat (cf_queueCapacity c)) now))))"

definition newDynamicStrategyFrom :: "baseConfig \<Rightarrow> int \<Rightarrow> int \<Rightarrow> baseConfig \<times> 't builtStrategy" where
  "newDynamicStrategyFrom cfg maxQueues idleCleanupAfter =
     (case cleanupCadence idleCleanupAfter 0 of (period, tracksIdle) \<Rightarrow>
        (newBaseConfig cfg, BuiltDynamic (newDynamicStrategy maxQueues)
           (if idleCleanupAfter < 0 then 0 else idleCleanupAfter) period tracksIdle))"

definition newAsyncEngineFrom :: "'d asyncBuilder \<Rightarrow> baseConfig \<times> 't builtStrategy \<Rightarrow> ('d, 't) builtAsync" where
  "newAsyncEngineFrom b s = \<lparr>ba_driver = bu_driver b, ba_stopUnderlying = bu_stopUnderlying b,
     ba_config = fst s, ba_strategy = snd s\<rparr>"

section \<open>The two builders\<close>

record 'd shardedBuilder =
  sb_parent :: "'d asyncBuilder"
  sb_workers :: int

definition Builder_Sharded :: "int \<Rightarrow> 'd asyncBuilder \<Rightarrow> 'd shardedBuilder" where
  "Builder_Sharded workers b = \<lparr>sb_parent = b, sb_workers = workers\<rparr>"

definition ShardedBuilder_Build :: "int \<Rightarrow> 'd shardedBuilder \<Rightarrow> go_error + ('d, 't) builtAsync" where
  "ShardedBuilder_Build now b =
     (if sb_workers b \<le> 0 then Inl (Text ''openpit/asyncengine: sharded workers must be > 0'')
      else Inr (newAsyncEngineFrom (sb_parent b) (newShardedStrategy now (builderBaseConfig (sb_parent b)) (sb_workers b))))"

record 'd dynamicBuilder =
  db_parent :: "'d asyncBuilder"
  db_maxQueues :: int
  db_idleCleanupAfter :: int

definition Builder_Dynamic :: "int \<Rightarrow> 'd asyncBuilder \<Rightarrow> 'd dynamicBuilder" where
  "Builder_Dynamic numCPU b = \<lparr>db_parent = b, db_maxQueues = numCPU * 32, db_idleCleanupAfter = defaultIdleCleanupAfter\<rparr>"

definition DynamicBuilder_MaxQueues :: "int \<Rightarrow> 'd dynamicBuilder \<Rightarrow> 'd dynamicBuilder" where
  "DynamicBuilder_MaxQueues n b = b\<lparr>db_maxQueues := n\<rparr>"

definition DynamicBuilder_IdleCleanupAfter :: "int \<Rightarrow> 'd dynamicBuilder \<Rightarrow> 'd dynamicBuilder" where
  "DynamicBuilder_IdleCleanupAfter d b = b\<lparr>db_idleCleanupAfter := d\<rparr>"

definition DynamicBuilder_Build :: "'d dynamicBuilder \<Rightarrow> go_error + ('d, 't) builtAsync" where
  "DynamicBuilder_Build b =
     (if db_maxQueues b < 0 then Inl (Text ''openpit/asyncengine: maxQueues must be >= 0'')
      else Inr (newAsyncEngineFrom (db_parent b)
        (newDynamicStrategyFrom (builderBaseConfig (db_parent b)) (db_maxQueues b) (db_idleCleanupAfter b))))"

text \<open>\<open>stopOf\<close> numbers the teardown function \<^verbatim>\<open>engine.Stop\<close>.\<close>

definition BuildAsync ::
    "(syncEngine \<Rightarrow> nat) \<Rightarrow> ('p, 'e) nativeBuilder \<Rightarrow> 'p readyEngineBuilder
      \<Rightarrow> ('p, 'e, (buildFailure + syncEngine asyncBuilder) \<times> 'p readyEngineBuilder) building" where
  "BuildAsync stopOf x b = bind (ReadyEngineBuilder_Build x b) (\<lambda>(r, b'). ret (case r of
     Inl f \<Rightarrow> Inl f | Inr e \<Rightarrow> Inr (WithStopUnderlying (stopOf e) (NewBuilder e)), b'))"

section \<open>Properties\<close>

lemma base_config_positive:
  "0 < cf_queueCapacity (newBaseConfig cfg)" "0 < cf_slowSubmitThreshold (newBaseConfig cfg)"
  by (simp_all add: newBaseConfig_def defaultQueueCapacity_def defaultSlowSubmitThreshold_def second_def)

text \<open>
  C30: an asynchronous engine is built exactly from a valid configuration, and is then ready.
  A Sharded build fails exactly without a worker, and otherwise every routing key finds an
  empty lane of positive capacity; a Dynamic build fails exactly for a negative limit, and
  otherwise its table is empty and keeps its invariant from there on, with the cleanup loop
  running exactly for a positive idle time.  Driver and teardown are those of the builder.
\<close>

theorem async_builder_ready:
  fixes b :: "'d asyncBuilder"
  shows "(\<exists>m. (ShardedBuilder_Build now (Builder_Sharded workers b) :: go_error + ('d, 't) builtAsync) = Inl m) = (workers \<le> 0)
    \<and> (\<forall>e :: ('d, 't) builtAsync. ShardedBuilder_Build now (Builder_Sharded workers b) = Inr e \<and> workers < 2 ^ 63 \<longrightarrow>
        ba_driver e = bu_driver b \<and> ba_stopUnderlying e = bu_stopUnderlying b
        \<and> (\<exists>shards. ba_strategy e = BuiltSharded shards \<and> length shards = nat workers
            \<and> (\<forall>key. \<exists>q. shardFor shards key = Some q \<and> kq_ch q = [] \<and> 0 < kq_capacity q \<and> \<not> kq_chClosed q)))
    \<and> (\<exists>m. (DynamicBuilder_Build d :: go_error + ('d, 't) builtAsync) = Inl m) = (db_maxQueues d < 0)
    \<and> (\<forall>e :: ('d, 't) builtAsync. DynamicBuilder_Build d = Inr e \<longrightarrow>
        ba_driver e = bu_driver (db_parent d) \<and> ba_stopUnderlying e = bu_stopUnderlying (db_parent d)
        \<and> (\<exists>s idle period loop. ba_strategy e = BuiltDynamic s idle period loop \<and> dy_queues s = []
            \<and> dynamic_reachable (db_maxQueues d) s \<and> 0 \<le> idle \<and> 0 < period \<and> loop = (0 < db_idleCleanupAfter d)))"
proof -
  have shard: "\<exists>q. shardFor (replicate (nat n) z) key = Some q \<and> q = z" if "0 < n" "n < 2 ^ 63" for n :: int and z :: "'t keyQueue" and key
  proof -
    have "0 < nat n" "nat n < 2 ^ 64" using that by (simp_all add: nat_less_iff)
    then have "shardIndex (nat n) key < nat n" by (rule shardIndex_bound)
    then show ?thesis by (simp add: shardFor_def Let_def)
  qed
  have sharded: "\<forall>e :: ('d, 't) builtAsync. ShardedBuilder_Build now (Builder_Sharded workers b) = Inr e \<and> workers < 2 ^ 63 \<longrightarrow>
      ba_driver e = bu_driver b \<and> ba_stopUnderlying e = bu_stopUnderlying b
      \<and> (\<exists>shards. ba_strategy e = BuiltSharded shards \<and> length shards = nat workers
          \<and> (\<forall>key. \<exists>q. shardFor shards key = Some q \<and> kq_ch q = [] \<and> 0 < kq_capacity q \<and> \<not> kq_chClosed q))"
  proof (intro allI impI, elim conjE)
    fix e :: "('d, 't) builtAsync"
    assume e: "ShardedBuilder_Build now (Builder_Sharded workers b) = Inr e" and w: "workers < 2 ^ 63"
    let ?q = "newKeyQueue (nat (cf_queueCapacity (newBaseConfig (builderBaseConfig b)))) now :: 't keyQueue"
    have pos: "0 < workers" using e by (auto simp: ShardedBuilder_Build_def Builder_Sharded_def split: if_splits)
    then have "ba_driver e = bu_driver b \<and> ba_stopUnderlying e = bu_stopUnderlying b
        \<and> ba_strategy e = BuiltSharded (replicate (nat workers) ?q)"
      using e by (auto simp: ShardedBuilder_Build_def Builder_Sharded_def newAsyncEngineFrom_def newShardedStrategy_def Let_def)
    moreover have "kq_ch ?q = []" "0 < kq_capacity ?q" "\<not> kq_chClosed ?q"
      using base_config_positive by (simp_all add: newKeyQueue_def)
    ultimately show "ba_driver e = bu_driver b \<and> ba_stopUnderlying e = bu_stopUnderlying b
      \<and> (\<exists>shards. ba_strategy e = BuiltSharded shards \<and> length shards = nat workers
          \<and> (\<forall>key. \<exists>q. shardFor shards key = Some q \<and> kq_ch q = [] \<and> 0 < kq_capacity q \<and> \<not> kq_chClosed q))"
      using shard [OF pos w, of ?q] by auto
  qed
  have "0 < fst (cleanupCadence i 0)" for i
    by (auto simp: cleanupCadence_def idleCleanupPeriod_def defaultIdleCleanupPeriod_def second_def Let_def)
  then have dynamic: "\<forall>e :: ('d, 't) builtAsync. DynamicBuilder_Build d = Inr e \<longrightarrow>
      ba_driver e = bu_driver (db_parent d) \<and> ba_stopUnderlying e = bu_stopUnderlying (db_parent d)
      \<and> (\<exists>s idle period loop. ba_strategy e = BuiltDynamic s idle period loop \<and> dy_queues s = []
          \<and> dynamic_reachable (db_maxQueues d) s \<and> 0 \<le> idle \<and> 0 < period \<and> loop = (0 < db_idleCleanupAfter d))"
    by (auto simp: DynamicBuilder_Build_def newAsyncEngineFrom_def newDynamicStrategyFrom_def newDynamicStrategy_def cleanupCadence_def
        Let_def intro: dynamic_reachable.New [unfolded newDynamicStrategy_def] split: if_splits)
  show ?thesis
    by (intro conjI sharded dynamic)
      (auto simp: ShardedBuilder_Build_def DynamicBuilder_Build_def Builder_Sharded_def)
qed

theorem async_builder_ready_witness:
  "\<exists>e shards. (ShardedBuilder_Build 0 (Builder_Sharded 3 (NewBuilder ())) :: go_error + (unit, nat) builtAsync) = Inr e
     \<and> ba_strategy e = BuiltSharded shards \<and> length shards = 3 \<and> (\<exists>q. shardFor shards (accountRoutingKey 5) = Some q)"
proof -
  let ?d = "Builder_Dynamic 4 (NewBuilder ())"
  have r: "(\<exists>m. (ShardedBuilder_Build 0 (Builder_Sharded 3 (NewBuilder ())) :: go_error + (unit, nat) builtAsync) = Inl m) = False"
    using async_builder_ready [where now = 0 and workers = 3 and b = "NewBuilder ()" and d = ?d and ?'t = nat] by simp
  then obtain e where e: "(ShardedBuilder_Build 0 (Builder_Sharded 3 (NewBuilder ())) :: go_error + (unit, nat) builtAsync) = Inr e"
    by (cases "ShardedBuilder_Build 0 (Builder_Sharded 3 (NewBuilder ())) :: go_error + (unit, nat) builtAsync") auto
  have "(3::int) < 2 ^ 63" by simp
  then have "\<exists>shards. ba_strategy e = BuiltSharded shards \<and> length shards = nat 3
      \<and> (\<forall>key. \<exists>q. shardFor shards key = Some q \<and> kq_ch q = [] \<and> 0 < kq_capacity q \<and> \<not> kq_chClosed q)"
    using async_builder_ready [where now = 0 and workers = 3 and b = "NewBuilder ()" and d = ?d and ?'t = nat,
        THEN conjunct2, THEN conjunct1, rule_format, of e] e by blast
  then show ?thesis using e by fastforce
qed

end
