(* ===== verification/Lock_Model.thy ===== *)
theory Lock_Model
  imports World
begin

text \<open>
  The pre-trade lock (\<^verbatim>\<open>pretrade/lock.go\<close>): a Go value that holds the raw bytes of a native
  lock.  Every method that looks inside decodes the bytes into a native object, works on it,
  and releases it; a method that changes the lock encodes the object anew.
\<close>

section \<open>Native objects\<close>

text \<open>
  The native objects the Go side holds, with their content: locks, and the data objects made
  for one answer, which are byte buffers, shared strings (the text of an error, or a JSON
  payload), and lists of entries and of prices.  Using or releasing one it does not hold is
  misuse, and shown as a panic of its own.
\<close>

type_synonym bytes = "8 word list"

record 'p lockEntry =
  le_PolicyGroupID :: "16 word"
  le_Price :: 'p

datatype 'p lockData =
    SharedBytes bytes | ErrorString string | JSONString bytes | EntryList "'p lockEntry list" | PriceList "'p list"

fun asBytes where "asBytes (SharedBytes b) = Some b" | "asBytes _ = None"
fun asError where "asError (ErrorString m) = Some m" | "asError _ = None"
fun asJSON where "asJSON (JSONString b) = Some b" | "asJSON _ = None"
fun asEntries where "asEntries (EntryList es) = Some es" | "asEntries _ = None"
fun asPrices where "asPrices (PriceList ps) = Some ps" | "asPrices _ = None"

record ('l, 'p) lockWorld =
  lw_next :: nat
  lw_locks :: "nat \<Rightarrow> 'l option"
  lw_data :: "nat \<Rightarrow> 'p lockData option"

type_synonym ('l, 'p, 'a) locking = "(('l, 'p) lockWorld, 'a) go"

definition misuse :: panic where "misuse = PanicValue ''use of a released native object''"

definition allocLock :: "'l \<Rightarrow> ('l, 'p, nat) locking" where
  "allocLock l w = (Ret (lw_next w), w\<lparr>lw_next := lw_next w + 1, lw_locks := (lw_locks w)(lw_next w \<mapsto> l)\<rparr>)"

definition readLock :: "nat \<Rightarrow> ('l, 'p, 'l) locking" where
  "readLock h w = (case lw_locks w h of None \<Rightarrow> (Panic misuse, w) | Some l \<Rightarrow> (Ret l, w))"

definition writeLock :: "nat \<Rightarrow> 'l \<Rightarrow> ('l, 'p, unit) locking" where
  "writeLock h l w = (case lw_locks w h of None \<Rightarrow> (Panic misuse, w)
     | Some _ \<Rightarrow> (Ret (), w\<lparr>lw_locks := (lw_locks w)(h \<mapsto> l)\<rparr>))"

definition DestroyLock :: "nat \<Rightarrow> ('l, 'p, unit) locking" where
  "DestroyLock h w = (case lw_locks w h of None \<Rightarrow> (Panic misuse, w)
     | Some _ \<Rightarrow> (Ret (), w\<lparr>lw_locks := (lw_locks w)(h := None)\<rparr>))"

definition allocData :: "'p lockData \<Rightarrow> ('l, 'p, nat) locking" where
  "allocData d w = (Ret (lw_next w), w\<lparr>lw_next := lw_next w + 1, lw_data := (lw_data w)(lw_next w \<mapsto> d)\<rparr>)"

text \<open>A data object is read and released as what it is; \<open>pick\<close> is the kind the caller expects.\<close>

definition readData :: "('p lockData \<Rightarrow> 'a option) \<Rightarrow> nat \<Rightarrow> ('l, 'p, 'a) locking" where
  "readData pick h w = (case Option.bind (lw_data w h) pick of None \<Rightarrow> (Panic misuse, w) | Some a \<Rightarrow> (Ret a, w))"

definition destroyData :: "('p lockData \<Rightarrow> 'a option) \<Rightarrow> nat \<Rightarrow> ('l, 'p, unit) locking" where
  "destroyData pick h w = (case Option.bind (lw_data w h) pick of None \<Rightarrow> (Panic misuse, w)
     | Some _ \<Rightarrow> (Ret (), w\<lparr>lw_data := (lw_data w)(h := None)\<rparr>))"

text \<open>A copy of the content, and the release.\<close>

definition consumeData :: "('p lockData \<Rightarrow> 'a option) \<Rightarrow> nat \<Rightarrow> ('l, 'p, 'a) locking" where
  "consumeData pick h = bind (readData pick h) (\<lambda>a. bind (destroyData pick h) (\<lambda>_. ret a))"

text \<open>An object that may be null.\<close>

fun allocOptional :: "'p lockData option \<Rightarrow> ('l, 'p, nat option) locking" where
  "allocOptional None = ret None"
| "allocOptional (Some d) = bind (allocData d) (\<lambda>h. ret (Some h))"

section \<open>The native library\<close>

text \<open>
  The native functions on contents; \<open>Inl\<close> is the text of the error they write.  Prices of a
  group come as a status with the objects written for it; on a status the header does not list
  nothing is said of the out-parameters.
\<close>

datatype 'p pricesAnswer =
    PricesError "string option" | PricesEmpty | PricesOne 'p | PricesList "'p list option" 
  | PricesUnknown "'p list option" "string option"

record ('l, 'p) lockLib =
  ll_empty :: 'l
  ll_fromRaw :: "bytes \<Rightarrow> string + 'l"
  ll_fromMsgPack :: "bytes \<Rightarrow> string + 'l"
  ll_fromJSON :: "bytes \<Rightarrow> string + 'l"
  ll_fromCBOR :: "bytes \<Rightarrow> string + 'l"
  ll_fromEntries :: "'p lockEntry list \<Rightarrow> string + 'l"
  ll_toRaw :: "'l \<Rightarrow> bytes"
  ll_toMsgPack :: "'l \<Rightarrow> string + bytes"
  ll_toJSON :: "'l \<Rightarrow> string + bytes"
  ll_toCBOR :: "'l \<Rightarrow> string + bytes"
  ll_len :: "'l \<Rightarrow> nat"
  ll_isEmpty :: "'l \<Rightarrow> bool"
  ll_push :: "'l \<Rightarrow> 'p lockEntry list \<Rightarrow> string + 'l"
  ll_merge :: "'l \<Rightarrow> 'l \<Rightarrow> string + 'l"
  ll_entries :: "'l \<Rightarrow> 'p lockEntry list"
  ll_pricesOf :: "'l \<Rightarrow> 16 word \<Rightarrow> 'p pricesAnswer"

section \<open>The wrappers\<close>

text \<open>
  \<^verbatim>\<open>consumeSharedStringAsError\<close>: the text of a native error, or the wrapper's own when it
  is empty; the string is released.
\<close>

definition nativeError :: "string \<Rightarrow> string \<Rightarrow> go_error" where
  "nativeError fallback msg = Text (if msg = [] then fallback else msg)"

definition consumeError :: "string \<Rightarrow> nat \<Rightarrow> ('l, 'p, go_error) locking" where
  "consumeError fallback h = bind (consumeData asError h) (\<lambda>msg. ret (nativeError fallback msg))"

definition createLock :: "string \<Rightarrow> ('d \<Rightarrow> string + 'l) \<Rightarrow> 'd \<Rightarrow> ('l, 'p, go_error + nat) locking" where
  "createLock fallback create d = (case create d of
     Inl msg \<Rightarrow> bind (allocData (ErrorString msg)) (\<lambda>outError. bind (consumeError fallback outError) (\<lambda>e. ret (Inl e)))
   | Inr l \<Rightarrow> bind (allocLock l) (\<lambda>h. ret (Inr h)))"

definition createLockFromRaw where
  "createLockFromRaw x = createLock ''openpit_create_pretrade_pre_trade_lock_from_raw failed'' (ll_fromRaw x)"

definition createLockFromMsgPack where
  "createLockFromMsgPack x = createLock ''openpit_create_pretrade_pre_trade_lock_from_msgpack failed'' (ll_fromMsgPack x)"

definition createLockFromJSON where
  "createLockFromJSON x = createLock ''openpit_create_pretrade_pre_trade_lock_from_json failed'' (ll_fromJSON x)"

definition createLockFromCBOR where
  "createLockFromCBOR x = createLock ''openpit_create_pretrade_pre_trade_lock_from_cbor failed'' (ll_fromCBOR x)"

definition createLockFromEntries where
  "createLockFromEntries x = createLock ''openpit_create_pretrade_pre_trade_lock_from_entries failed'' (ll_fromEntries x)"

definition lockPushMany :: "('l, 'p) lockLib \<Rightarrow> nat \<Rightarrow> 'p lockEntry list \<Rightarrow> ('l, 'p, err) locking" where
  "lockPushMany x h entries = bind (readLock h) (\<lambda>l. case ll_push x l entries of
     Inl msg \<Rightarrow> bind (allocData (ErrorString msg)) (\<lambda>outError.
       bind (consumeError ''openpit_pretrade_pre_trade_lock_push_many failed'' outError) (\<lambda>e. ret (Some e)))
   | Inr l' \<Rightarrow> bind (writeLock h l') (\<lambda>_. ret None))"

definition lockMerge :: "('l, 'p) lockLib \<Rightarrow> nat \<Rightarrow> nat \<Rightarrow> ('l, 'p, err) locking" where
  "lockMerge x dst src = bind (readLock dst) (\<lambda>d. bind (readLock src) (\<lambda>s. case ll_merge x d s of
     Inl msg \<Rightarrow> bind (allocData (ErrorString msg)) (\<lambda>outError.
       bind (consumeError ''openpit_pretrade_pre_trade_lock_merge failed'' outError) (\<lambda>e. ret (Some e)))
   | Inr l \<Rightarrow> bind (writeLock dst l) (\<lambda>_. ret None)))"

definition lockEntriesOf :: "('l, 'p) lockLib \<Rightarrow> nat \<Rightarrow> ('l, 'p, 'p lockEntry list) locking" where
  "lockEntriesOf x h = bind (readLock h) (\<lambda>l. bind (allocData (EntryList (ll_entries x l))) (consumeData asEntries))"

text \<open>On a status it does not know the wrapper releases nothing.\<close>

definition lockPricesOf :: "('l, 'p) lockLib \<Rightarrow> nat \<Rightarrow> 16 word \<Rightarrow> ('l, 'p, go_error + 'p list) locking" where
  "lockPricesOf x h gid = bind (readLock h) (\<lambda>l. case ll_pricesOf x l gid of
     PricesError text \<Rightarrow> bind (allocOptional (map_option ErrorString text)) (\<lambda>outError. case outError of
         Some m \<Rightarrow> bind (consumeError ''openpit_pretrade_pre_trade_lock_prices_of failed'' m) (\<lambda>e. ret (Inl e))
       | None \<Rightarrow> ret (Inl (Text ''openpit_pretrade_pre_trade_lock_prices_of failed'')))
   | PricesEmpty \<Rightarrow> ret (Inr [])
   | PricesOne p \<Rightarrow> ret (Inr [p])
   | PricesList list \<Rightarrow> bind (allocOptional (map_option PriceList list)) (\<lambda>prices. case prices of
         None \<Rightarrow> ret (Inl (Text ''openpit_pretrade_pre_trade_lock_prices_of returned list status with nil list''))
       | Some ps \<Rightarrow> bind (consumeData asPrices ps) (\<lambda>r. ret (Inr r)))
   | PricesUnknown list text \<Rightarrow> bind (allocOptional (map_option PriceList list)) (\<lambda>_.
       bind (allocOptional (map_option ErrorString text)) (\<lambda>_.
         ret (Inl (Text ''openpit_pretrade_pre_trade_lock_prices_of returned unknown status'')))))"

text \<open>\<open>pack\<close> is the kind of object the encoder makes: a shared string for JSON, else bytes.\<close>

definition lockEncode ::
    "string \<Rightarrow> (bytes \<Rightarrow> 'p lockData) \<Rightarrow> ('l \<Rightarrow> string + bytes) \<Rightarrow> nat \<Rightarrow> ('l, 'p, go_error + nat) locking" where
  "lockEncode fallback pack enc h = bind (readLock h) (\<lambda>l. case enc l of
     Inl msg \<Rightarrow> bind (allocData (ErrorString msg)) (\<lambda>outError. bind (consumeError fallback outError) (\<lambda>e. ret (Inl e)))
   | Inr b \<Rightarrow> bind (allocData (pack b)) (\<lambda>raw. ret (Inr raw)))"

definition lockToMsgPack where
  "lockToMsgPack x = lockEncode ''openpit_pretrade_pre_trade_lock_to_msgpack failed'' SharedBytes (ll_toMsgPack x)"

definition lockToJSON where
  "lockToJSON x = lockEncode ''openpit_pretrade_pre_trade_lock_to_json failed'' JSONString (ll_toJSON x)"

definition lockToCBOR where
  "lockToCBOR x = lockEncode ''openpit_pretrade_pre_trade_lock_to_cbor failed'' SharedBytes (ll_toCBOR x)"

section \<open>The lock\<close>

record preTradeLock = pl_value :: bytes

definition newLockFromHandle :: "('l, 'p) lockLib \<Rightarrow> nat \<Rightarrow> ('l, 'p, preTradeLock) locking" where
  "newLockFromHandle x h = bind (readLock h) (\<lambda>l. bind (allocData (SharedBytes (ll_toRaw x l))) (\<lambda>raw.
     bind (consumeData asBytes raw) (\<lambda>value. ret \<lparr>pl_value = value\<rparr>)))"

definition NewLock :: "('l, 'p) lockLib \<Rightarrow> ('l, 'p, preTradeLock) locking" where
  "NewLock x = bind (allocLock (ll_empty x)) (\<lambda>h. bind (newLockFromHandle x h) (\<lambda>r.
     bind (DestroyLock h) (\<lambda>_. ret r)))"

definition NewLockFromBytes :: "bytes \<Rightarrow> preTradeLock" where
  "NewLockFromBytes value = \<lparr>pl_value = value\<rparr>"

text \<open>The constructors that decode a payload share their body.\<close>

definition newLockFrom ::
    "('l, 'p) lockLib \<Rightarrow> ('l, 'p, go_error + nat) locking \<Rightarrow> ('l, 'p, go_error + preTradeLock) locking" where
  "newLockFrom x create = bind create (\<lambda>r. case r of
     Inl e \<Rightarrow> ret (Inl e)
   | Inr h \<Rightarrow> bind (newLockFromHandle x h) (\<lambda>l. bind (DestroyLock h) (\<lambda>_. ret (Inr l))))"

definition NewLockFromMsgPack where
  "NewLockFromMsgPack x payload = newLockFrom x (createLockFromMsgPack x payload)"

definition NewLockFromJSON where
  "NewLockFromJSON x payload = newLockFrom x (createLockFromJSON x payload)"

definition NewLockFromCBOR where
  "NewLockFromCBOR x payload = newLockFrom x (createLockFromCBOR x payload)"

definition NewLockFromEntries where
  "NewLockFromEntries x entries = newLockFrom x (createLockFromEntries x entries)"

definition Lock_Equal :: "preTradeLock \<Rightarrow> preTradeLock \<Rightarrow> bool" where
  "Lock_Equal l other \<longleftrightarrow> pl_value l = pl_value other"

definition decodeLockBytes :: "('l, 'p) lockLib \<Rightarrow> bytes \<Rightarrow> ('l, 'p, go_error + nat) locking" where
  "decodeLockBytes x value = (if value = [] then ret (Inl (Text ''pre-trade lock byte set has no value''))
     else createLockFromRaw x value)"

text \<open>The methods that read: decode, look, release.\<close>

definition inspecting ::
    "('l, 'p) lockLib \<Rightarrow> preTradeLock \<Rightarrow> (nat \<Rightarrow> ('l, 'p, go_error + 'a) locking) \<Rightarrow> ('l, 'p, go_error + 'a) locking" where
  "inspecting x l look = bind (decodeLockBytes x (pl_value l)) (\<lambda>r. case r of
     Inl e \<Rightarrow> ret (Inl e)
   | Inr h \<Rightarrow> bind (look h) (\<lambda>a. bind (DestroyLock h) (\<lambda>_. ret a)))"

definition Lock_Len where
  "Lock_Len x l = inspecting x l (\<lambda>h. bind (readLock h) (\<lambda>c. ret (Inr (ll_len x c))))"

definition Lock_IsEmpty where
  "Lock_IsEmpty x l = inspecting x l (\<lambda>h. bind (readLock h) (\<lambda>c. ret (Inr (ll_isEmpty x c))))"

definition Lock_Entries where
  "Lock_Entries x l = inspecting x l (\<lambda>h. bind (lockEntriesOf x h) (\<lambda>es. ret (Inr es)))"

definition Lock_Prices where
  "Lock_Prices x l = bind (inspecting x l (\<lambda>h. bind (lockEntriesOf x h) (\<lambda>es. ret (Inr es))))
     (\<lambda>r. ret (case r of Inl e \<Rightarrow> Inl e | Inr es \<Rightarrow> Inr (map le_Price es)))"

definition Lock_PricesOf where
  "Lock_PricesOf x gid l = inspecting x l (\<lambda>h. lockPricesOf x h gid)"

definition Lock_PushMany ::
    "('l, 'p) lockLib \<Rightarrow> 'p lockEntry list \<Rightarrow> preTradeLock \<Rightarrow> ('l, 'p, err \<times> preTradeLock) locking" where
  "Lock_PushMany x entries l = bind (decodeLockBytes x (pl_value l)) (\<lambda>r. case r of
     Inl e \<Rightarrow> ret (Some e, l)
   | Inr h \<Rightarrow> bind (lockPushMany x h entries) (\<lambda>e. case e of
       Some _ \<Rightarrow> bind (DestroyLock h) (\<lambda>_. ret (e, l))
     | None \<Rightarrow> bind (newLockFromHandle x h) (\<lambda>l'. bind (DestroyLock h) (\<lambda>_. ret (None, l')))))"

definition Lock_Merge ::
    "('l, 'p) lockLib \<Rightarrow> preTradeLock \<Rightarrow> preTradeLock \<Rightarrow> ('l, 'p, err \<times> preTradeLock) locking" where
  "Lock_Merge x other l = bind (decodeLockBytes x (pl_value l)) (\<lambda>r. case r of
     Inl e \<Rightarrow> ret (Some e, l)
   | Inr dst \<Rightarrow> bind (decodeLockBytes x (pl_value other)) (\<lambda>q. case q of
       Inl e \<Rightarrow> bind (DestroyLock dst) (\<lambda>_. ret (Some e, l))
     | Inr src \<Rightarrow> bind (lockMerge x dst src) (\<lambda>e. case e of
         Some _ \<Rightarrow> bind (DestroyLock src) (\<lambda>_. bind (DestroyLock dst) (\<lambda>_. ret (e, l)))
       | None \<Rightarrow> bind (DestroyLock src) (\<lambda>_. bind (newLockFromHandle x dst) (\<lambda>l'.
           bind (DestroyLock dst) (\<lambda>_. ret (None, l')))))))"

text \<open>The three marshallers and unmarshallers share their bodies.\<close>

definition marshalLock ::
    "('p lockData \<Rightarrow> bytes option) \<Rightarrow> ('l, 'p) lockLib \<Rightarrow> (nat \<Rightarrow> ('l, 'p, go_error + nat) locking) \<Rightarrow> preTradeLock \<Rightarrow> ('l, 'p, go_error + bytes) locking" where
  "marshalLock pick x enc l = bind (decodeLockBytes x (pl_value l)) (\<lambda>r. case r of
     Inl e \<Rightarrow> ret (Inl e)
   | Inr h \<Rightarrow> bind (enc h) (\<lambda>q. case q of
       Inl e \<Rightarrow> bind (DestroyLock h) (\<lambda>_. ret (Inl e))
     | Inr payload \<Rightarrow> bind (consumeData pick payload) (\<lambda>b.
         bind (DestroyLock h) (\<lambda>_. ret (Inr b)))))"

definition Lock_MarshalJSON where "Lock_MarshalJSON x = marshalLock asJSON x (lockToJSON x)"
definition Lock_MarshalMsgpack where "Lock_MarshalMsgpack x = marshalLock asBytes x (lockToMsgPack x)"
definition Lock_MarshalCBOR where "Lock_MarshalCBOR x = marshalLock asBytes x (lockToCBOR x)"

definition unmarshalLock where
  "unmarshalLock restore l = bind restore (\<lambda>r. ret (case r of Inl e \<Rightarrow> (Some e, l) | Inr l' \<Rightarrow> (None, l')))"

definition Lock_UnmarshalJSON where
  "Lock_UnmarshalJSON x payload l = unmarshalLock (NewLockFromJSON x payload) l"
definition Lock_UnmarshalMsgpack where
  "Lock_UnmarshalMsgpack x payload l = unmarshalLock (NewLockFromMsgPack x payload) l"
definition Lock_UnmarshalCBOR where
  "Lock_UnmarshalCBOR x payload l = unmarshalLock (NewLockFromCBOR x payload) l"

end
