(* ===== verification/Lock_Facts.thy ===== *)
theory Lock_Facts
  imports Lock_Model
begin

text \<open>
  A lock as a value: what its bytes decode to.  The methods refine operations on that value,
  leave no native object behind, and change the lock only when they succeed.
\<close>

section \<open>The native side before and after\<close>

definition freshOK :: "('l, 'p) lockWorld \<Rightarrow> bool" where
  "freshOK w \<longleftrightarrow> (\<forall>h \<ge> lw_next w. lw_locks w h = None \<and> lw_data w h = None)"

text \<open>A call returns a value, and the Go side holds what it held before.\<close>

definition returns :: "('l, 'p, 'a) locking \<Rightarrow> ('l, 'p) lockWorld \<Rightarrow> 'a \<Rightarrow> bool" where
  "returns m w a \<longleftrightarrow> wp m (\<lambda>r t. r = a \<and> lw_locks t = lw_locks w \<and> lw_data t = lw_data w
     \<and> lw_next w \<le> lw_next t) (\<lambda>_ _. False) w"

lemma wp_allocLock [wp]:
  "wp (allocLock l) Q E = (\<lambda>w. Q (lw_next w) (w\<lparr>lw_next := lw_next w + 1, lw_locks := (lw_locks w)(lw_next w \<mapsto> l)\<rparr>))"
  by (rule ext) (simp add: wp_def allocLock_def)

lemma wp_readLock [wp]:
  "wp (readLock h) Q E = (\<lambda>w. case lw_locks w h of None \<Rightarrow> E misuse w | Some l \<Rightarrow> Q l w)"
  by (rule ext) (simp add: wp_def readLock_def split: option.split)

lemma wp_writeLock [wp]:
  "wp (writeLock h l) Q E = (\<lambda>w. case lw_locks w h of None \<Rightarrow> E misuse w
     | Some _ \<Rightarrow> Q () (w\<lparr>lw_locks := (lw_locks w)(h \<mapsto> l)\<rparr>))"
  by (rule ext) (simp add: wp_def writeLock_def split: option.split)

lemma wp_DestroyLock [wp]:
  "wp (DestroyLock h) Q E = (\<lambda>w. case lw_locks w h of None \<Rightarrow> E misuse w
     | Some _ \<Rightarrow> Q () (w\<lparr>lw_locks := (lw_locks w)(h := None)\<rparr>))"
  by (rule ext) (simp add: wp_def DestroyLock_def split: option.split)

lemma wp_allocData [wp]:
  "wp (allocData d) Q E = (\<lambda>w. Q (lw_next w) (w\<lparr>lw_next := lw_next w + 1, lw_data := (lw_data w)(lw_next w \<mapsto> d)\<rparr>))"
  by (rule ext) (simp add: wp_def allocData_def)

lemma wp_consumeData [wp]:
  "wp (consumeData pick h) Q E = (\<lambda>w. case Option.bind (lw_data w h) pick of None \<Rightarrow> E misuse w
     | Some a \<Rightarrow> Q a (w\<lparr>lw_data := (lw_data w)(h := None)\<rparr>))"
  by (rule ext) (simp add: wp_def consumeData_def bind_def ret_def readData_def destroyData_def split: option.split)

lemma fresh_none: "freshOK w \<Longrightarrow> lw_next w \<le> h \<Longrightarrow> lw_locks w h = None" "freshOK w \<Longrightarrow> lw_next w \<le> h \<Longrightarrow> lw_data w h = None"
  by (simp_all add: freshOK_def)

lemma fresh_upd: "freshOK w \<Longrightarrow> lw_next w \<le> h \<Longrightarrow> (lw_locks w)(h := None) = lw_locks w"
    "freshOK w \<Longrightarrow> lw_next w \<le> h \<Longrightarrow> (lw_data w)(h := None) = lw_data w"
  by (simp_all add: freshOK_def fun_upd_idem)

section \<open>Locks as values\<close>

definition lockValue :: "('l, 'p) lockLib \<Rightarrow> preTradeLock \<Rightarrow> go_error + 'l" where
  "lockValue x l = (if pl_value l = [] then Inl (Text ''pre-trade lock byte set has no value'')
     else case ll_fromRaw x (pl_value l) of
       Inl msg \<Rightarrow> Inl (nativeError ''openpit_create_pretrade_pre_trade_lock_from_raw failed'' msg) | Inr v \<Rightarrow> Inr v)"

definition lockOf :: "('l, 'p) lockLib \<Rightarrow> 'l \<Rightarrow> preTradeLock" where
  "lockOf x v = \<lparr>pl_value = ll_toRaw x v\<rparr>"

text \<open>What a value operation gives, with the text of a native error.\<close>

definition named :: "string \<Rightarrow> string + 'a \<Rightarrow> go_error + 'a" where
  "named fallback r = (case r of Inl msg \<Rightarrow> Inl (nativeError fallback msg) | Inr a \<Rightarrow> Inr a)"

definition andThen :: "go_error + 'a \<Rightarrow> ('a \<Rightarrow> go_error + 'b) \<Rightarrow> go_error + 'b" where
  "andThen r f = (case r of Inl e \<Rightarrow> Inl e | Inr a \<Rightarrow> f a)"

text \<open>A method that may change the lock: the new lock on success, the old one on an error.\<close>

definition updated :: "('l, 'p) lockLib \<Rightarrow> preTradeLock \<Rightarrow> go_error + 'l \<Rightarrow> err \<times> preTradeLock" where
  "updated x l r = (case r of Inl e \<Rightarrow> (Some e, l) | Inr v \<Rightarrow> (None, lockOf x v))"

lemmas value_defs = lockValue_def named_def andThen_def updated_def lockOf_def

lemmas wrapper_defs = createLockFromRaw_def createLockFromMsgPack_def createLockFromJSON_def createLockFromCBOR_def
  createLockFromEntries_def createLock_def consumeError_def decodeLockBytes_def newLockFromHandle_def

lemma constructors_return:
  assumes "freshOK w"
  shows "returns (NewLock x) w (lockOf x (ll_empty x))"
    and "returns (newLockFrom x (createLock fallback create d)) w
      (case named fallback (create d) of Inl e \<Rightarrow> Inl e | Inr v \<Rightarrow> Inr (lockOf x v))"
  using fresh_none [OF assms, of "lw_next w"] fresh_none [OF assms, of "lw_next w + 1"]
  by (cases "create d"; simp add: returns_def NewLock_def newLockFrom_def wrapper_defs value_defs wp fun_upd_idem)+

lemma inspecting_returns:
  assumes "freshOK w"
    and "\<And>v h u. lockValue x l = Inr v \<Longrightarrow> freshOK u \<Longrightarrow> lw_locks u h = Some v \<Longrightarrow> returns (look h) u (f v)"
  shows "returns (inspecting x l look) w (andThen (lockValue x l) f)"
proof (cases "lockValue x l")
  case (Inl e)
  then show ?thesis
    by (auto simp: returns_def inspecting_def wrapper_defs value_defs wp fresh_upd [OF assms(1)]
        split: sum.splits if_splits)
next
  case (Inr v)
  let ?u = "w\<lparr>lw_next := lw_next w + 1, lw_locks := (lw_locks w)(lw_next w \<mapsto> v)\<rparr>"
  have u: "freshOK ?u" "lw_locks ?u (lw_next w) = Some v" using assms(1) by (auto simp: freshOK_def)
  have "wp (look (lw_next w)) (\<lambda>r. wp (bind (DestroyLock (lw_next w)) (\<lambda>_. ret r))
      (\<lambda>r t. r = andThen (lockValue x l) f \<and> lw_locks t = lw_locks w \<and> lw_data t = lw_data w
       \<and> lw_next w \<le> lw_next t) (\<lambda>_ _. False)) (\<lambda>_ _. False) ?u"
    using Inr fresh_none [OF assms(1), of "lw_next w"]
    by (intro wp_mono [OF assms(2) [OF Inr u, unfolded returns_def]]) (auto simp: wp andThen_def fun_upd_idem)
  then show ?thesis
    using Inr by (auto simp: returns_def inspecting_def wrapper_defs lockValue_def wp split: sum.splits if_splits)
qed

lemma push_returns:
  assumes "freshOK w"
  shows "returns (Lock_PushMany x entries l) w (updated x l (andThen (lockValue x l)
    (\<lambda>v. named ''openpit_pretrade_pre_trade_lock_push_many failed'' (ll_push x v entries))))"
proof (cases "lockValue x l")
  case (Inl e)
  then show ?thesis
    by (auto simp: returns_def Lock_PushMany_def wrapper_defs value_defs wp fresh_upd [OF assms(1)]
        split: sum.splits if_splits)
next
  case (Inr v)
  then show ?thesis
    using fresh_none [OF assms, of "lw_next w"] fresh_none [OF assms, of "lw_next w + 1"]
    by (cases "ll_push x v entries")
      (auto simp: returns_def Lock_PushMany_def lockPushMany_def wrapper_defs value_defs wp fun_upd_idem
        split: sum.splits if_splits)
qed

lemma merge_returns:
  assumes "freshOK w"
  shows "returns (Lock_Merge x other l) w (updated x l (andThen (lockValue x l) (\<lambda>v. andThen (lockValue x other)
    (\<lambda>u. named ''openpit_pretrade_pre_trade_lock_merge failed'' (ll_merge x v u)))))"
proof (cases "lockValue x l")
  case (Inl e)
  then show ?thesis
    by (auto simp: returns_def Lock_Merge_def wrapper_defs value_defs wp fresh_upd [OF assms(1)]
        split: sum.splits if_splits)
next
  case (Inr v)
  note v = this
  note fresh = fresh_none [OF assms, of "lw_next w"] fresh_none [OF assms, of "lw_next w + 1"]
    fresh_none [OF assms, of "lw_next w + 2"]
  show ?thesis
  proof (cases "lockValue x other")
    case (Inl e)
    then show ?thesis
      using v fresh by (auto simp: returns_def Lock_Merge_def wrapper_defs value_defs wp fun_upd_idem
          split: sum.splits if_splits)
  next
    case (Inr u)
    then show ?thesis
      using v fresh
      by (cases "ll_merge x v u")
        (auto simp: returns_def Lock_Merge_def lockMerge_def wrapper_defs value_defs wp fun_upd_idem fun_upd_twist
          split: sum.splits if_splits)
  qed
qed

lemma marshal_returns:
  assumes "freshOK w" and "\<And>b. pick (pack b) = Some b"
  shows "returns (marshalLock pick x (lockEncode fallback pack enc) l) w (andThen (lockValue x l) (\<lambda>v. named fallback (enc v)))"
proof (cases "lockValue x l")
  case (Inl e)
  then show ?thesis
    by (auto simp: returns_def marshalLock_def wrapper_defs value_defs wp fresh_upd [OF assms(1)]
        split: sum.splits if_splits)
next
  case (Inr v)
  then show ?thesis
    using fresh_none [OF assms(1), of "lw_next w"] fresh_none [OF assms(1), of "lw_next w + 1"]
    by (cases "enc v")
      (auto simp: returns_def marshalLock_def assms(2) lockEncode_def wrapper_defs value_defs wp fun_upd_idem
        split: sum.splits if_splits)
qed

lemma unmarshal_returns:
  assumes "returns restore w (case r of Inl e \<Rightarrow> Inl e | Inr v \<Rightarrow> Inr (lockOf x v))"
  shows "returns (unmarshalLock restore l) w (updated x l r)"
proof -
  have "wp restore (\<lambda>z. wp (ret (case z of Inl e \<Rightarrow> (Some e, l) | Inr l' \<Rightarrow> (None, l')))
      (\<lambda>a t. a = updated x l r \<and> lw_locks t = lw_locks w \<and> lw_data t = lw_data w \<and> lw_next w \<le> lw_next t)
      (\<lambda>_ _. False)) (\<lambda>_ _. False) w"
    using assms unfolding returns_def
    by (rule wp_mono) (auto simp: wp updated_def lockOf_def split: sum.split)
  then show ?thesis by (simp add: returns_def unmarshalLock_def wp)
qed

section \<open>Properties\<close>

text \<open>The library reads back its own raw bytes, which are never empty, and its own payloads.\<close>

definition rawCodec :: "('l, 'p) lockLib \<Rightarrow> bool" where
  "rawCodec x \<longleftrightarrow> (\<forall>v. ll_toRaw x v \<noteq> [] \<and> ll_fromRaw x (ll_toRaw x v) = Inr v)"

definition payloadCodecs :: "('l, 'p) lockLib \<Rightarrow> bool" where
  "payloadCodecs x \<longleftrightarrow> (\<forall>v b. (ll_toJSON x v = Inr b \<longrightarrow> ll_fromJSON x b = Inr v)
     \<and> (ll_toMsgPack x v = Inr b \<longrightarrow> ll_fromMsgPack x b = Inr v)
     \<and> (ll_toCBOR x v = Inr b \<longrightarrow> ll_fromCBOR x b = Inr v))"

lemma value_of_lock: "rawCodec x \<Longrightarrow> lockValue x (lockOf x v) = Inr v"
  by (simp add: rawCodec_def lockValue_def lockOf_def)

lemma value_updated:
  "rawCodec x \<Longrightarrow> lockValue x (snd (updated x l r)) = (case r of Inl _ \<Rightarrow> lockValue x l | Inr v \<Rightarrow> Inr v)"
  by (simp add: updated_def value_of_lock split: sum.split)

text \<open>What a native value a constructor, or an unmarshalling method, is given makes of a lock.\<close>

definition restored :: "('l, 'p) lockLib \<Rightarrow> go_error + preTradeLock \<Rightarrow> string + 'l \<Rightarrow> bool" where
  "restored x r d \<longleftrightarrow> (case d of Inl _ \<Rightarrow> \<exists>e. r = Inl e | Inr v \<Rightarrow> \<exists>l'. r = Inr l' \<and> lockValue x l' = Inr v)"

definition replaced :: "('l, 'p) lockLib \<Rightarrow> preTradeLock \<Rightarrow> err \<times> preTradeLock \<Rightarrow> string + 'l \<Rightarrow> bool" where
  "replaced x l r d \<longleftrightarrow> (case d of Inl _ \<Rightarrow> fst r \<noteq> None \<and> snd r = l
     | Inr v \<Rightarrow> fst r = None \<and> lockValue x (snd r) = Inr v)"

text \<open>The prices of a group, on the statuses the header lists.\<close>

fun pricesAnswer :: "'p pricesAnswer \<Rightarrow> go_error + 'p list" where
  "pricesAnswer (PricesError text) = Inl (nativeError ''openpit_pretrade_pre_trade_lock_prices_of failed''
     (case text of None \<Rightarrow> [] | Some m \<Rightarrow> m))"
| "pricesAnswer PricesEmpty = Inr []"
| "pricesAnswer (PricesOne p) = Inr [p]"
| "pricesAnswer (PricesList (Some ps)) = Inr ps"
| "pricesAnswer (PricesList None) = Inl (Text ''openpit_pretrade_pre_trade_lock_prices_of returned list status with nil list'')"
| "pricesAnswer (PricesUnknown _ _) = Inl (Text ''openpit_pretrade_pre_trade_lock_prices_of returned unknown status'')"

fun listedStatus :: "'p pricesAnswer \<Rightarrow> bool" where
  "listedStatus (PricesUnknown _ _) = False"
| "listedStatus _ = True"

lemma entries_return: "freshOK u \<Longrightarrow> lw_locks u h = Some v \<Longrightarrow>
    returns (bind (lockEntriesOf x h) (\<lambda>es. ret (Inr (f es)))) u (Inr (f (ll_entries x v)))"
  using fresh_none(2) [of u "lw_next u"] by (simp add: returns_def lockEntriesOf_def wp fun_upd_idem)

lemma prices_return:
  assumes "freshOK u" and "lw_locks u h = Some v" and "listedStatus (ll_pricesOf x v gid)"
  shows "returns (lockPricesOf x h gid) u (pricesAnswer (ll_pricesOf x v gid))"
  using assms fresh_none(2) [OF assms(1), of "lw_next u"]
  by (cases "ll_pricesOf x v gid" rule: pricesAnswer.cases)
    (auto simp: returns_def lockPricesOf_def consumeError_def nativeError_def wp fun_upd_idem split: option.split)

lemma restored_lock:
  "freshOK w \<Longrightarrow> rawCodec x \<Longrightarrow> \<exists>r. returns (newLockFrom x (createLock fallback create d)) w r \<and> restored x r (create d)"
  by (rule exI, rule conjI [OF constructors_return(2)])
    (auto simp: restored_def named_def value_of_lock split: sum.splits)

lemma replaced_lock:
  assumes "freshOK w" and "rawCodec x"
  shows "\<exists>r. returns (unmarshalLock (newLockFrom x (createLock fallback create d)) l) w r \<and> replaced x l r (create d)"
  by (rule exI, rule conjI [OF unmarshal_returns [OF constructors_return(2) [OF assms(1)]]])
    (auto simp: replaced_def updated_def named_def value_of_lock [OF assms(2)] split: sum.splits)

lemma pushed_lock:
  assumes "freshOK w" and "rawCodec x"
  shows "\<exists>r. returns (Lock_PushMany x entries l) w r \<and> (case lockValue x l of Inl e \<Rightarrow> r = (Some e, l)
     | Inr v \<Rightarrow> replaced x l r (ll_push x v entries))"
  by (rule exI, rule conjI [OF push_returns [OF assms(1)]])
    (auto simp: replaced_def updated_def andThen_def named_def value_of_lock [OF assms(2)] split: sum.splits)

lemma merged_lock:
  assumes "freshOK w" and "rawCodec x"
  shows "\<exists>r. returns (Lock_Merge x other l) w r \<and> (case lockValue x l of Inl e \<Rightarrow> r = (Some e, l)
     | Inr v \<Rightarrow> (case lockValue x other of Inl e \<Rightarrow> r = (Some e, l) | Inr u \<Rightarrow> replaced x l r (ll_merge x v u)))"
  by (rule exI, rule conjI [OF merge_returns [OF assms(1)]])
    (auto simp: replaced_def updated_def andThen_def named_def value_of_lock [OF assms(2)] split: sum.splits)

lemmas payload_defs = NewLockFromEntries_def NewLockFromMsgPack_def NewLockFromJSON_def NewLockFromCBOR_def
  createLockFromEntries_def createLockFromMsgPack_def createLockFromJSON_def createLockFromCBOR_def
  Lock_UnmarshalJSON_def Lock_UnmarshalMsgpack_def Lock_UnmarshalCBOR_def

lemmas encode_defs = Lock_MarshalJSON_def Lock_MarshalMsgpack_def Lock_MarshalCBOR_def
  lockToJSON_def lockToMsgPack_def lockToCBOR_def

text \<open>
  C31: a lock is a value, and its methods refine the operations on it.  Each method that looks
  inside the bytes returns, leaves no native object behind (lock, buffer, string or list), and
  uses none it released, also on every error.  A reading method gives what the value has and a
  marshalling one its encoding; a changing or unmarshalling method makes the lock stand for the
  new value, or reports the error and leaves it exactly as it was; a constructor gives a lock
  of the decoded value or an error.  (\<^verbatim>\<open>PricesOf\<close>: on the statuses the header lists; on
  any other the wrapper leaks what came with it, \<open>unlisted_prices_leak\<close>.)
\<close>

theorem lock_methods_refine_value:
  assumes "freshOK w" and "rawCodec x"
  shows "returns (Lock_Len x l) w (andThen (lockValue x l) (\<lambda>v. Inr (ll_len x v)))
    \<and> returns (Lock_IsEmpty x l) w (andThen (lockValue x l) (\<lambda>v. Inr (ll_isEmpty x v)))
    \<and> returns (Lock_Entries x l) w (andThen (lockValue x l) (\<lambda>v. Inr (ll_entries x v)))
    \<and> returns (Lock_Prices x l) w (andThen (lockValue x l) (\<lambda>v. Inr (map le_Price (ll_entries x v))))
    \<and> ((\<forall>v. lockValue x l = Inr v \<longrightarrow> listedStatus (ll_pricesOf x v gid)) \<longrightarrow>
        returns (Lock_PricesOf x gid l) w (andThen (lockValue x l) (\<lambda>v. pricesAnswer (ll_pricesOf x v gid))))
    \<and> returns (Lock_MarshalJSON x l) w (andThen (lockValue x l)
        (\<lambda>v. named ''openpit_pretrade_pre_trade_lock_to_json failed'' (ll_toJSON x v)))
    \<and> returns (Lock_MarshalMsgpack x l) w (andThen (lockValue x l)
        (\<lambda>v. named ''openpit_pretrade_pre_trade_lock_to_msgpack failed'' (ll_toMsgPack x v)))
    \<and> returns (Lock_MarshalCBOR x l) w (andThen (lockValue x l)
        (\<lambda>v. named ''openpit_pretrade_pre_trade_lock_to_cbor failed'' (ll_toCBOR x v)))
    \<and> (\<exists>r. returns (Lock_PushMany x entries l) w r
        \<and> (case lockValue x l of Inl e \<Rightarrow> r = (Some e, l) | Inr v \<Rightarrow> replaced x l r (ll_push x v entries)))
    \<and> (\<exists>r. returns (Lock_Merge x other l) w r
        \<and> (case lockValue x l of Inl e \<Rightarrow> r = (Some e, l) | Inr v \<Rightarrow> (case lockValue x other of
             Inl e \<Rightarrow> r = (Some e, l) | Inr u \<Rightarrow> replaced x l r (ll_merge x v u))))
    \<and> (\<exists>r. returns (Lock_UnmarshalJSON x payload l) w r \<and> replaced x l r (ll_fromJSON x payload))
    \<and> (\<exists>r. returns (Lock_UnmarshalMsgpack x payload l) w r \<and> replaced x l r (ll_fromMsgPack x payload))
    \<and> (\<exists>r. returns (Lock_UnmarshalCBOR x payload l) w r \<and> replaced x l r (ll_fromCBOR x payload))
    \<and> (\<exists>r. returns (NewLock x) w r \<and> lockValue x r = Inr (ll_empty x))
    \<and> (\<exists>r. returns (NewLockFromEntries x entries) w r \<and> restored x r (ll_fromEntries x entries))
    \<and> (\<exists>r. returns (NewLockFromJSON x payload) w r \<and> restored x r (ll_fromJSON x payload))
    \<and> (\<exists>r. returns (NewLockFromMsgPack x payload) w r \<and> restored x r (ll_fromMsgPack x payload))
    \<and> (\<exists>r. returns (NewLockFromCBOR x payload) w r \<and> restored x r (ll_fromCBOR x payload))"
proof (intro conjI impI)
  show "returns (Lock_Len x l) w (andThen (lockValue x l) (\<lambda>v. Inr (ll_len x v)))"
    "returns (Lock_IsEmpty x l) w (andThen (lockValue x l) (\<lambda>v. Inr (ll_isEmpty x v)))"
    unfolding Lock_Len_def Lock_IsEmpty_def
    by (intro inspecting_returns [OF assms(1)], simp add: returns_def wp)+
  show e: "returns (Lock_Entries x l) w (andThen (lockValue x l) (\<lambda>v. Inr (ll_entries x v)))"
    unfolding Lock_Entries_def by (intro inspecting_returns [OF assms(1)] entries_return [of _ _ _ x "\<lambda>es. es"])
  show "returns (Lock_Prices x l) w (andThen (lockValue x l) (\<lambda>v. Inr (map le_Price (ll_entries x v))))"
    using e unfolding returns_def Lock_Entries_def Lock_Prices_def wp_bind wp_ret
    by (rule wp_mono) (auto simp: andThen_def split: sum.split)
  show "returns (Lock_PricesOf x gid l) w (andThen (lockValue x l) (\<lambda>v. pricesAnswer (ll_pricesOf x v gid)))"
    if "\<forall>v. lockValue x l = Inr v \<longrightarrow> listedStatus (ll_pricesOf x v gid)"
    unfolding Lock_PricesOf_def using that by (intro inspecting_returns [OF assms(1)] prices_return) auto
  show "\<exists>r. returns (NewLock x) w r \<and> lockValue x r = Inr (ll_empty x)"
    using constructors_return(1) [OF assms(1)] value_of_lock [OF assms(2)] by blast
qed (simp_all only: payload_defs encode_defs marshal_returns [OF assms(1)] asBytes.simps asJSON.simps
  restored_lock [OF assms] replaced_lock [OF assms] pushed_lock [OF assms] merged_lock [OF assms])

text \<open>The default branch of \<^verbatim>\<open>PretradePreTradeLockPricesOf\<close> releases neither object.\<close>

lemma unlisted_prices_leak:
  assumes "freshOK w" and "lockValue x l = Inr v" and "ll_pricesOf x v gid = PricesUnknown (Some ps) (Some m)"
  shows "wp (Lock_PricesOf x gid l) (\<lambda>r t. r = pricesAnswer (PricesUnknown (Some ps) (Some m))
    \<and> lw_data t = (lw_data w)(lw_next w + 1 \<mapsto> PriceList ps, lw_next w + 2 \<mapsto> ErrorString m)) (\<lambda>_ _. False) w"
  using assms fresh_none [OF assms(1)]
  by (auto simp: Lock_PricesOf_def inspecting_def lockPricesOf_def wrapper_defs lockValue_def wp
      split: sum.splits if_splits)

text \<open>
  What a lock marshals to, another lock unmarshals to the same value, in each of the
  three formats, without a native object left behind.
\<close>

lemma lock_marshal_roundtrip:
  assumes "freshOK w" and "freshOK w'" and "rawCodec x" and "payloadCodecs x" and "lockValue x l = Inr v"
  shows "(\<forall>b. ll_toJSON x v = Inr b \<longrightarrow> returns (Lock_MarshalJSON x l) w (Inr b)
        \<and> (\<exists>l'. returns (Lock_UnmarshalJSON x b k) w' (None, l') \<and> lockValue x l' = Inr v))
    \<and> (\<forall>b. ll_toMsgPack x v = Inr b \<longrightarrow> returns (Lock_MarshalMsgpack x l) w (Inr b)
        \<and> (\<exists>l'. returns (Lock_UnmarshalMsgpack x b k) w' (None, l') \<and> lockValue x l' = Inr v))
    \<and> (\<forall>b. ll_toCBOR x v = Inr b \<longrightarrow> returns (Lock_MarshalCBOR x l) w (Inr b)
        \<and> (\<exists>l'. returns (Lock_UnmarshalCBOR x b k) w' (None, l') \<and> lockValue x l' = Inr v))"
proof -
  have marshal: "returns (marshalLock pick x (lockEncode fallback pack enc) l) w (Inr b)"
    if "\<And>b. pick (pack b) = Some b" "enc v = Inr b" for pick pack fallback enc b
    using marshal_returns [OF assms(1), of pick pack x fallback enc l] that assms(5) by (simp add: andThen_def named_def)
  have unmarshal: "\<exists>l'. returns (unmarshalLock (newLockFrom x (createLock fallback dec b)) k) w' (None, l') \<and> lockValue x l' = Inr v"
    if "dec b = Inr v" for fallback and dec :: "bytes \<Rightarrow> string + _" and b
    using unmarshal_returns [OF constructors_return(2) [OF assms(2)], of x fallback dec b k] that
      value_of_lock [OF assms(3)] by (auto simp: named_def updated_def)
  note c = assms(4) [unfolded payloadCodecs_def, rule_format]
  show ?thesis
    unfolding payload_defs encode_defs
    using c by (intro conjI allI impI marshal unmarshal; (simp only: asBytes.simps asJSON.simps | blast))
qed


text \<open>A library whose locks are at most three prices, encoded behind a tag.\<close>

definition sampleDecode :: "8 word \<Rightarrow> bytes \<Rightarrow> string + bytes" where
  "sampleDecode tag b = (case b of [] \<Rightarrow> Inl ''empty'' | t # v \<Rightarrow> if t = tag then Inr v else Inl ''bad tag'')"

definition sampleLib :: "(bytes, 8 word) lockLib" where
  "sampleLib = \<lparr>ll_empty = [], ll_fromRaw = sampleDecode 1, ll_fromMsgPack = sampleDecode 2, ll_fromJSON = sampleDecode 3,
     ll_fromCBOR = sampleDecode 4, ll_fromEntries = (\<lambda>es. Inr (map le_Price es)), ll_toRaw = (\<lambda>v. 1 # v),
     ll_toMsgPack = (\<lambda>v. Inr (2 # v)), ll_toJSON = (\<lambda>v. Inr (3 # v)), ll_toCBOR = (\<lambda>v. Inr (4 # v)), ll_len = length,
     ll_isEmpty = (\<lambda>v. v = []),
     ll_push = (\<lambda>v es. if length v + length es \<le> 3 then Inr (v @ map le_Price es) else Inl ''full''),
     ll_merge = (\<lambda>v u. if length v + length u \<le> 3 then Inr (v @ u) else Inl ''full''),
     ll_entries = map (\<lambda>p. \<lparr>le_PolicyGroupID = 0, le_Price = p\<rparr>), ll_pricesOf = (\<lambda>v _. PricesList (Some v))\<rparr>"

definition noLocks :: "(bytes, 8 word) lockWorld" where
  "noLocks = \<lparr>lw_next = 1, lw_locks = (\<lambda>_. None), lw_data = (\<lambda>_. None)\<rparr>"

lemma sample_lib: "rawCodec sampleLib" "payloadCodecs sampleLib" "freshOK noLocks"
  by (auto simp: rawCodec_def payloadCodecs_def sampleLib_def sampleDecode_def freshOK_def noLocks_def)

theorem lock_methods_refine_value_witness:
  "(\<exists>r. returns (Lock_Merge sampleLib \<lparr>pl_value = [1, 7, 8]\<rparr> \<lparr>pl_value = [1, 5]\<rparr>) noLocks r
      \<and> lockValue sampleLib (snd r) = Inr [5, 7, 8])
   \<and> (\<exists>r. returns (Lock_Merge sampleLib \<lparr>pl_value = [1, 7, 8, 9]\<rparr> \<lparr>pl_value = [1, 5]\<rparr>) noLocks r
      \<and> fst r \<noteq> None \<and> snd r = \<lparr>pl_value = [1, 5]\<rparr>)"
proof -
  have v: "lockValue sampleLib \<lparr>pl_value = 1 # b\<rparr> = Inr b" for b
    by (simp add: lockValue_def sampleLib_def sampleDecode_def)
  have m: "\<exists>r. returns (Lock_Merge sampleLib other l) noLocks r \<and> (case lockValue sampleLib l of Inl e \<Rightarrow> r = (Some e, l)
      | Inr v \<Rightarrow> (case lockValue sampleLib other of Inl e \<Rightarrow> r = (Some e, l)
          | Inr u \<Rightarrow> replaced sampleLib l r (ll_merge sampleLib v u)))" for other l
    using lock_methods_refine_value [OF sample_lib(3,1), of l 0 "[]" other "[]"] by meson
  have "ll_merge sampleLib [5] [7, 8] = Inr [5, 7, 8]" "ll_merge sampleLib [5] [7, 8, 9] = Inl ''full''"
    by (simp_all add: sampleLib_def)
  then show ?thesis
    using m [of "\<lparr>pl_value = [1, 7, 8]\<rparr>" "\<lparr>pl_value = [1, 5]\<rparr>"] m [of "\<lparr>pl_value = [1, 7, 8, 9]\<rparr>" "\<lparr>pl_value = [1, 5]\<rparr>"]
    by (auto simp: v replaced_def)
qed

end
