(* ===== verification/Outcome_Model.thy ===== *)
theory Outcome_Model
  imports Adjustment_Model
begin

text \<open>
  What policies report back (\<^verbatim>\<open>accountadjustment/outcome.go\<close> and \<^verbatim>\<open>pnl.go\<close> over
  \<^verbatim>\<open>internal/native/account_outcome.go\<close>): per-asset outcomes and realized PnL, which is an
  amount or a reason why there is none, and their conversion to C structs and back.
\<close>

section \<open>The C structs\<close>

text \<open>
  A pair of handles is the same in Go and in C.  \<open>pnlZero\<close> below stands for the handle of
  \<^verbatim>\<open>param.NewPnlZero\<close>, which the native library makes.
\<close>

record outcomeAmount =
  ou_Delta :: decimal
  ou_Absolute :: decimal

definition zeroOutcomeAmount :: outcomeAmount where
  "zeroOutcomeAmount = \<lparr>ou_Delta = zeroDecimal, ou_Absolute = zeroDecimal\<rparr>"

record cPnlOutcome =
  cp_halt_reason :: "8 word"
  cp_amount :: "outcomeAmount cOptional"

record cOutcomeEntry =
  ce_asset :: stringView
  ce_balance :: "outcomeAmount cOptional"
  ce_held :: "outcomeAmount cOptional"
  ce_incoming :: "outcomeAmount cOptional"
  ce_realized_pnl :: "cPnlOutcome cOptional"
  ce_average_entry_price :: "decimal cOptional"

record cAdjustmentOutcome =
  ca_policy_group_id :: "16 word"
  ca_entry :: cOutcomeEntry

record cAccountPnlOutcome =
  cc_account_id :: "64 word"
  cc_policy_group_id :: "16 word"
  cc_halt_reason :: "8 word"
  cc_amount :: "outcomeAmount cOptional"

definition zeroPnlOutcome :: cPnlOutcome where
  "zeroPnlOutcome = \<lparr>cp_halt_reason = 0, cp_amount = cNone zeroOutcomeAmount\<rparr>"

definition AccountPnlOutcomeGetPnlOutcome :: "cAccountPnlOutcome \<Rightarrow> cPnlOutcome" where
  "AccountPnlOutcomeGetPnlOutcome c = \<lparr>cp_halt_reason = cc_halt_reason c, cp_amount = cc_amount c\<rparr>"

definition nativeNewAccountPnlOutcome :: "64 word \<Rightarrow> 16 word \<Rightarrow> cPnlOutcome \<Rightarrow> cAccountPnlOutcome" where
  "nativeNewAccountPnlOutcome account gid pnl = \<lparr>cc_account_id = account, cc_policy_group_id = gid,
     cc_halt_reason = cp_halt_reason pnl, cc_amount = cp_amount pnl\<rparr>"

section \<open>Realized PnL\<close>

record pnlOutcome =
  oc_pnl :: outcomeAmount
  oc_haltReason :: "8 word"

definition NewPnlOutcome :: "outcomeAmount \<Rightarrow> pnlOutcome" where
  "NewPnlOutcome pnl = \<lparr>oc_pnl = pnl, oc_haltReason = 0\<rparr>"

text \<open>The error is \<^verbatim>\<open>ErrInvalidPnlHaltReason\<close> with the refused reason.\<close>

definition NewPnlHaltedOutcome :: "8 word \<Rightarrow> 8 word + pnlOutcome" where
  "NewPnlHaltedOutcome reason = (if \<not> PnlHaltReason_Valid reason then Inl reason
     else Inr \<lparr>oc_pnl = zeroOutcomeAmount, oc_haltReason = reason\<rparr>)"

definition PnlOutcome_IsHalted :: "pnlOutcome \<Rightarrow> bool" where
  "PnlOutcome_IsHalted p \<longleftrightarrow> oc_haltReason p \<noteq> 0"

definition PnlOutcome_Amount :: "pnlOutcome \<Rightarrow> outcomeAmount \<times> bool" where
  "PnlOutcome_Amount p = (oc_pnl p, \<not> PnlOutcome_IsHalted p)"

definition PnlOutcome_HaltReason :: "pnlOutcome \<Rightarrow> 8 word \<times> bool" where
  "PnlOutcome_HaltReason p = (oc_haltReason p, PnlOutcome_IsHalted p)"

definition NewPnlOutcomeFromHandle :: "decimal \<Rightarrow> cPnlOutcome \<Rightarrow> pnlOutcome" where
  "NewPnlOutcomeFromHandle pnlZero c =
     \<lparr>oc_pnl = (if cp_halt_reason c = 0 then co_value (cp_amount c) else \<lparr>ou_Delta = pnlZero, ou_Absolute = pnlZero\<rparr>),
      oc_haltReason = cp_halt_reason c\<rparr>"

definition PnlOutcome_newNativeHandle :: "pnlOutcome \<Rightarrow> cPnlOutcome" where
  "PnlOutcome_newNativeHandle p = \<lparr>cp_halt_reason = oc_haltReason p,
     cp_amount = (if PnlOutcome_IsHalted p then cNone zeroOutcomeAmount else cSome (oc_pnl p))\<rparr>"

record accountPnlOutcome =
  ap_PnlOutcome :: pnlOutcome
  ap_PolicyGroupID :: "16 word"
  ap_AccountID :: "64 word"

definition NewAccountPnlOutcome :: "16 word \<Rightarrow> 64 word \<Rightarrow> outcomeAmount \<Rightarrow> accountPnlOutcome" where
  "NewAccountPnlOutcome gid account pnl =
     \<lparr>ap_PnlOutcome = NewPnlOutcome pnl, ap_PolicyGroupID = gid, ap_AccountID = account\<rparr>"

definition NewAccountPnlHaltedOutcome :: "16 word \<Rightarrow> 64 word \<Rightarrow> 8 word \<Rightarrow> 8 word + accountPnlOutcome" where
  "NewAccountPnlHaltedOutcome gid account reason = (case NewPnlHaltedOutcome reason of
     Inl e \<Rightarrow> Inl e
   | Inr p \<Rightarrow> Inr \<lparr>ap_PnlOutcome = p, ap_PolicyGroupID = gid, ap_AccountID = account\<rparr>)"

definition NewAccountPnlOutcomeFromHandle :: "decimal \<Rightarrow> cAccountPnlOutcome \<Rightarrow> accountPnlOutcome" where
  "NewAccountPnlOutcomeFromHandle pnlZero c =
     \<lparr>ap_PnlOutcome = NewPnlOutcomeFromHandle pnlZero (AccountPnlOutcomeGetPnlOutcome c),
      ap_PolicyGroupID = cc_policy_group_id c, ap_AccountID = cc_account_id c\<rparr>"

definition AccountPnlOutcome_NewHandle :: "accountPnlOutcome \<Rightarrow> cAccountPnlOutcome" where
  "AccountPnlOutcome_NewHandle a = nativeNewAccountPnlOutcome (ap_AccountID a) (ap_PolicyGroupID a)
     (PnlOutcome_newNativeHandle (ap_PnlOutcome a))"

definition NewAccountPnlListFromHandle :: "decimal \<Rightarrow> cAccountPnlOutcome list \<Rightarrow> accountPnlOutcome list" where
  "NewAccountPnlListFromHandle pnlZero cs = map (NewAccountPnlOutcomeFromHandle pnlZero) cs"

section \<open>Outcomes of an asset\<close>

record outcomeEntry =
  en_Asset :: asset
  en_Balance :: "outcomeAmount option"
  en_Held :: "outcomeAmount option"
  en_Incoming :: "outcomeAmount option"
  en_RealizedPnl :: "pnlOutcome option"
  en_AverageEntryPrice :: "decimal option"

definition newNativeOutcomeAmountOptional :: "outcomeAmount option \<Rightarrow> outcomeAmount cOptional" where
  "newNativeOutcomeAmountOptional v = (case v of None \<Rightarrow> cNone zeroOutcomeAmount | Some a \<Rightarrow> cSome a)"

definition newNativePnlOutcomeOptional :: "pnlOutcome option \<Rightarrow> cPnlOutcome cOptional" where
  "newNativePnlOutcomeOptional v = (case v of None \<Rightarrow> cNone zeroPnlOutcome | Some p \<Rightarrow> cSome (PnlOutcome_newNativeHandle p))"

definition newNativeParamPriceOptional :: "decimal option \<Rightarrow> decimal cOptional" where
  "newNativeParamPriceOptional v = (case v of None \<Rightarrow> cNone zeroDecimal | Some p \<Rightarrow> cSome p)"

definition NewPnlOutcomeOptionFromHandle :: "decimal \<Rightarrow> cPnlOutcome cOptional \<Rightarrow> pnlOutcome option" where
  "NewPnlOutcomeOptionFromHandle pnlZero c =
     (if \<not> co_set c then None else Some (NewPnlOutcomeFromHandle pnlZero (co_value c)))"

text \<open>An unset asset reads as the empty asset; a set one is copied into a buffer of its own.\<close>

definition NewAccountOutcomeEntryFromHandle :: "decimal \<Rightarrow> cOutcomeEntry \<Rightarrow> nat \<Rightarrow> outcomeEntry \<times> nat" where
  "NewAccountOutcomeEntryFromHandle pnlZero c next = (case NewAssetFromHandle (ce_asset c) next of (a, next') \<Rightarrow>
     (\<lparr>en_Asset = (case a of None \<Rightarrow> None | Some x \<Rightarrow> x),
       en_Balance = optionFromHandle (ce_balance c),
       en_Held = optionFromHandle (ce_held c),
       en_Incoming = optionFromHandle (ce_incoming c),
       en_RealizedPnl = NewPnlOutcomeOptionFromHandle pnlZero (ce_realized_pnl c),
       en_AverageEntryPrice = optionFromHandle (ce_average_entry_price c)\<rparr>, next'))"

definition AccountOutcomeEntry_NewHandle :: "outcomeEntry \<Rightarrow> cOutcomeEntry" where
  "AccountOutcomeEntry_NewHandle e =
     \<lparr>ce_asset = importString (en_Asset e),
      ce_balance = newNativeOutcomeAmountOptional (en_Balance e),
      ce_held = newNativeOutcomeAmountOptional (en_Held e),
      ce_incoming = newNativeOutcomeAmountOptional (en_Incoming e),
      ce_realized_pnl = newNativePnlOutcomeOptional (en_RealizedPnl e),
      ce_average_entry_price = newNativeParamPriceOptional (en_AverageEntryPrice e)\<rparr>"

record adjustmentOutcome =
  ao_PolicyGroupID :: "16 word"
  ao_Entry :: outcomeEntry

definition NewAccountAdjustmentOutcomeFromHandle ::
    "decimal \<Rightarrow> cAdjustmentOutcome \<Rightarrow> nat \<Rightarrow> adjustmentOutcome \<times> nat" where
  "NewAccountAdjustmentOutcomeFromHandle pnlZero c next =
     (case NewAccountOutcomeEntryFromHandle pnlZero (ca_entry c) next of (e, next') \<Rightarrow>
        (\<lparr>ao_PolicyGroupID = ca_policy_group_id c, ao_Entry = e\<rparr>, next'))"

definition AdjustmentOutcome_NewHandle :: "adjustmentOutcome \<Rightarrow> cAdjustmentOutcome" where
  "AdjustmentOutcome_NewHandle a =
     \<lparr>ca_policy_group_id = ao_PolicyGroupID a, ca_entry = AccountOutcomeEntry_NewHandle (ao_Entry a)\<rparr>"

fun outcomeListFromHandle :: "decimal \<Rightarrow> cAdjustmentOutcome list \<Rightarrow> nat \<Rightarrow> adjustmentOutcome list \<times> nat" where
  "outcomeListFromHandle pnlZero [] next = ([], next)"
| "outcomeListFromHandle pnlZero (c # cs) next =
     (case NewAccountAdjustmentOutcomeFromHandle pnlZero c next of (a, n1) \<Rightarrow>
      case outcomeListFromHandle pnlZero cs n1 of (as, n2) \<Rightarrow> (a # as, n2))"

section \<open>Properties\<close>

text \<open>What an outcome looks like after a trip through C: a halted one has the zero amount.\<close>

definition normalPnl :: "decimal \<Rightarrow> pnlOutcome \<Rightarrow> pnlOutcome" where
  "normalPnl pnlZero p =
     (if PnlOutcome_IsHalted p then p\<lparr>oc_pnl := \<lparr>ou_Delta = pnlZero, ou_Absolute = pnlZero\<rparr>\<rparr> else p)"

definition sameEntry :: "decimal \<Rightarrow> outcomeEntry \<Rightarrow> outcomeEntry \<Rightarrow> bool" where
  "sameEntry pnlZero e e' \<longleftrightarrow> Asset_Equal (en_Asset e) (en_Asset e') \<and> en_Balance e' = en_Balance e
     \<and> en_Held e' = en_Held e \<and> en_Incoming e' = en_Incoming e
     \<and> en_RealizedPnl e' = map_option (normalPnl pnlZero) (en_RealizedPnl e)
     \<and> en_AverageEntryPrice e' = en_AverageEntryPrice e"

lemma pnl_trip: "NewPnlOutcomeFromHandle z (PnlOutcome_newNativeHandle p) = normalPnl z p"
  by (simp add: NewPnlOutcomeFromHandle_def PnlOutcome_newNativeHandle_def normalPnl_def PnlOutcome_IsHalted_def)

lemma normal_twice: "normalPnl z (normalPnl z p) = normalPnl z p"
  by (simp add: normalPnl_def PnlOutcome_IsHalted_def)

lemma amount_trip: "optionFromHandle (newNativeOutcomeAmountOptional v) = v"
  by (simp add: newNativeOutcomeAmountOptional_def split: option.split)

lemma entry_trip: "sameEntry z e (fst (NewAccountOutcomeEntryFromHandle z (AccountOutcomeEntry_NewHandle e) n))"
  by (auto simp: sameEntry_def NewAccountOutcomeEntryFromHandle_def AccountOutcomeEntry_NewHandle_def asset_import
      amount_trip newNativeParamPriceOptional_def NewPnlOutcomeOptionFromHandle_def newNativePnlOutcomeOptional_def
      pnl_trip Asset_Equal_def Asset_Unsafe_def split: option.splits)

lemma outcome_list_trip:
  "list_all2 (\<lambda>a a'. ao_PolicyGroupID a' = ao_PolicyGroupID a \<and> sameEntry z (ao_Entry a) (ao_Entry a'))
     as (fst (outcomeListFromHandle z (map AdjustmentOutcome_NewHandle as) n))"
proof (induction as arbitrary: n)
  case (Cons a as)
  let ?e = "NewAccountOutcomeEntryFromHandle z (AccountOutcomeEntry_NewHandle (ao_Entry a)) n"
  show ?case
    using Cons.IH [of "snd ?e"] entry_trip [of z "ao_Entry a" n]
    by (simp add: NewAccountAdjustmentOutcomeFromHandle_def AdjustmentOutcome_NewHandle_def case_prod_beta)
qed simp

text \<open>
  C32: outcomes come back from C as they went.  A list of outcomes keeps its length, order,
  groups, assets, amounts and prices; a PnL outcome keeps its amount, or its reason with the
  zero amount, and a second trip changes nothing.  An outcome is halted exactly when it has a
  reason, and only the five named reasons can be given for one.
\<close>

theorem outcomes_roundtrip:
  "list_all2 (\<lambda>a a'. ao_PolicyGroupID a' = ao_PolicyGroupID a \<and> sameEntry z (ao_Entry a) (ao_Entry a'))
     as (fst (outcomeListFromHandle z (map AdjustmentOutcome_NewHandle as) n))
   \<and> NewAccountPnlListFromHandle z (map AccountPnlOutcome_NewHandle ps)
     = map (\<lambda>p. p\<lparr>ap_PnlOutcome := normalPnl z (ap_PnlOutcome p)\<rparr>) ps
   \<and> normalPnl z (normalPnl z p) = normalPnl z p
   \<and> PnlOutcome_Amount (normalPnl z (NewPnlOutcome v)) = (v, True)
   \<and> snd (PnlOutcome_Amount p) = (\<not> snd (PnlOutcome_HaltReason p))
   \<and> (case NewPnlHaltedOutcome r of Inl e \<Rightarrow> e = r \<and> r \<notin> {1, 2, 3, 4, 5}
        | Inr h \<Rightarrow> r \<in> {1, 2, 3, 4, 5} \<and> PnlOutcome_HaltReason (normalPnl z h) = (r, True))"
proof (intro conjI outcome_list_trip normal_twice)
  have "NewAccountPnlOutcomeFromHandle z (AccountPnlOutcome_NewHandle q) = q\<lparr>ap_PnlOutcome := normalPnl z (ap_PnlOutcome q)\<rparr>" for q
    by (cases q) (simp add: NewAccountPnlOutcomeFromHandle_def AccountPnlOutcome_NewHandle_def
        AccountPnlOutcomeGetPnlOutcome_def nativeNewAccountPnlOutcome_def NewPnlOutcomeFromHandle_def
        PnlOutcome_newNativeHandle_def normalPnl_def PnlOutcome_IsHalted_def)
  then show "NewAccountPnlListFromHandle z (map AccountPnlOutcome_NewHandle ps)
     = map (\<lambda>p. p\<lparr>ap_PnlOutcome := normalPnl z (ap_PnlOutcome p)\<rparr>) ps"
    by (simp add: NewAccountPnlListFromHandle_def)
qed (auto simp: normalPnl_def NewPnlOutcome_def PnlOutcome_Amount_def PnlOutcome_HaltReason_def PnlOutcome_IsHalted_def
    NewPnlHaltedOutcome_def PnlHaltReason_Valid_def)

end
