(* ===== verification/Accounts_Model.thy ===== *)
theory Accounts_Model
  imports Native_Objects
begin

text \<open>
  Account administration (\<^verbatim>\<open>accounts/accounts.go\<close> over
  \<^verbatim>\<open>internal/native/account_group.go\<close> and \<^verbatim>\<open>account_block.go\<close>): groups,
  currencies and blocks, with the domain errors of \<^verbatim>\<open>reject/account.go\<close>, which copy a
  native error and release it.
\<close>

section \<open>The native library\<close>

text \<open>
  The C entry points on an engine that is fixed, with their out-parameters; \<open>na_void\<close> are those
  that cannot fail.  The content of an error: a message, and for a block error its kind; account
  and group as far as it names them.
\<close>

datatype accountCommand =
    ClearAccountCurrency accountID | ClearAccountGroupCurrency "32 word" | BlockAccount accountID string
  | UnblockAccount accountID | UnblockAllAccounts

datatype blockCommand =
    ReplaceAccountBlockReason accountID string | BlockAccountGroup "32 word" string
  | UnblockAccountGroup "32 word" | ReplaceAccountGroupBlockReason "32 word" string

record 'e nativeAccounts =
  na_register :: "accountID list \<Rightarrow> 32 word \<Rightarrow> 'e \<Rightarrow> (bool \<times> nat option \<times> nat option) \<times> 'e"
  na_unregister :: "accountID list \<Rightarrow> 32 word \<Rightarrow> 'e \<Rightarrow> (bool \<times> nat option \<times> nat option) \<times> 'e"
  na_group :: "accountID \<Rightarrow> 'e \<Rightarrow> bool \<times> 32 word"
  na_setCurrency :: "accountID \<Rightarrow> string \<Rightarrow> 'e \<Rightarrow> (bool \<times> nat option) \<times> 'e"
  na_setGroupCurrency :: "32 word \<Rightarrow> string \<Rightarrow> 'e \<Rightarrow> (bool \<times> nat option) \<times> 'e"
  na_void :: "accountCommand \<Rightarrow> 'e \<Rightarrow> 'e"
  na_blockWithCause :: "accountID \<Rightarrow> accountBlock \<Rightarrow> 'e \<Rightarrow> (bool \<times> nat option) \<times> 'e"
  na_block :: "blockCommand \<Rightarrow> 'e \<Rightarrow> (bool \<times> nat option) \<times> 'e"
  na_string :: "nat \<Rightarrow> 'e \<Rightarrow> string"
  na_groupError :: "nat \<Rightarrow> 'e \<Rightarrow> string \<times> accountID \<times> 32 word option"
  na_blockError :: "nat \<Rightarrow> 'e \<Rightarrow> string \<times> nat \<times> accountID option \<times> 32 word option"
  na_paramError :: "nat \<Rightarrow> 'e \<Rightarrow> nat \<times> string option"

section \<open>Errors\<close>

record accountGroupError =
  ge_Message :: string
  ge_Account :: accountID
  ge_CurrentGroup :: "accountGroupID option"

record accountBlockError =
  be_Message :: string
  be_Kind :: nat
  be_Account :: "accountID option"
  be_Group :: "accountGroupID option"

datatype accountsError =
    AccountsGroupError accountGroupError | AccountsBlockError accountBlockError
  | AccountsParamError paramError | AccountsOther go_error

definition groupFromHandle :: "32 word \<Rightarrow> accountGroupID" where
  "groupFromHandle g = \<lparr>grp_native = g, grp_initialized = True\<rparr>"

definition NewAccountGroupErrorFromHandle ::
    "'e nativeAccounts \<Rightarrow> nat option \<Rightarrow> ('e owned, accountGroupError) go" where
  "NewAccountGroupErrorFromHandle x h = bind (inspect KGroupError h ([], 0, None) (na_groupError x))
     (\<lambda>(msg, account, current). bind (release KGroupError h) (\<lambda>_.
        ret \<lparr>ge_Message = msg, ge_Account = account, ge_CurrentGroup = map_option groupFromHandle current\<rparr>))"

definition NewAccountBlockErrorFromHandle ::
    "'e nativeAccounts \<Rightarrow> nat option \<Rightarrow> ('e owned, accountBlockError) go" where
  "NewAccountBlockErrorFromHandle x h = bind (inspect KBlockError h ([], 0, None, None) (na_blockError x))
     (\<lambda>(msg, kind, account, grp). bind (release KBlockError h) (\<lambda>_.
        ret \<lparr>be_Message = msg, be_Kind = kind, be_Account = account, be_Group = map_option groupFromHandle grp\<rparr>))"

section \<open>The wrappers\<close>

text \<open>A membership call that fails has a domain error or an error text.\<close>

definition membership where
  "membership x name call = bind (issue (\<lambda>(_, groupErr, outError). [(KGroupError, groupErr), (KString, outError)]) call)
     (\<lambda>(ok, groupErr, outError).
        if \<not> ok then (if groupErr \<noteq> None then ret (groupErr, None)
          else bind (consumeSharedStringAsError (na_string x) outError (name @ '' failed'')) (\<lambda>e. ret (None, Some e)))
        else ret (None, None))"

definition EngineRegisterAccountGroup where
  "EngineRegisterAccountGroup x accounts gid =
     membership x ''openpit_engine_register_account_group'' (na_register x accounts gid)"

definition EngineUnregisterAccountGroup where
  "EngineUnregisterAccountGroup x accounts gid =
     membership x ''openpit_engine_unregister_account_group'' (na_unregister x accounts gid)"

definition texted where
  "texted x name call = bind (issue (\<lambda>(_, outError). [(KString, outError)]) call) (\<lambda>(ok, outError).
     if \<not> ok then bind (consumeSharedStringAsError (na_string x) outError (name @ '' failed'')) (\<lambda>e. ret (Some e))
     else ret None)"

definition EngineSetAccountCurrency where
  "EngineSetAccountCurrency x account asset =
     texted x ''openpit_engine_set_account_currency'' (na_setCurrency x account asset)"

definition EngineSetAccountGroupCurrency where
  "EngineSetAccountGroupCurrency x gid asset =
     texted x ''openpit_engine_set_account_group_currency'' (na_setGroupCurrency x gid asset)"

definition EngineBlockAccountWithCause where
  "EngineBlockAccountWithCause x account cause =
     bind (issue (\<lambda>(_, outError). [(KParamError, outError)]) (na_blockWithCause x account cause)) (\<lambda>(ok, outError).
       if \<not> ok then bind (consumeParamError (na_paramError x) outError ''block account with cause failed'') (\<lambda>e. ret (Some e))
       else ret None)"

text \<open>The four block commands that can fail hand back the error object itself.\<close>

definition engineBlock where
  "engineBlock x c = bind (issue (\<lambda>(_, outError). [(KBlockError, outError)]) (na_block x c)) (\<lambda>(ok, outError).
     if \<not> ok then ret outError else ret None)"

section \<open>The accounts of an engine\<close>

definition Accounts_RegisterGroup where
  "Accounts_RegisterGroup x accounts gid =
     bind (EngineRegisterAccountGroup x accounts (grp_native gid)) (\<lambda>(groupErr, e).
       case e of Some te \<Rightarrow> ret (Some (AccountsOther te))
       | None \<Rightarrow> (case groupErr of None \<Rightarrow> ret None
         | Some _ \<Rightarrow> bind (NewAccountGroupErrorFromHandle x groupErr) (\<lambda>ge. ret (Some (AccountsGroupError ge)))))"

definition Accounts_UnregisterGroup where
  "Accounts_UnregisterGroup x accounts gid =
     bind (EngineUnregisterAccountGroup x accounts (grp_native gid)) (\<lambda>(groupErr, e).
       case e of Some te \<Rightarrow> ret (Some (AccountsOther te))
       | None \<Rightarrow> (case groupErr of None \<Rightarrow> ret None
         | Some _ \<Rightarrow> bind (NewAccountGroupErrorFromHandle x groupErr) (\<lambda>ge. ret (Some (AccountsGroupError ge)))))"

definition Accounts_GroupOf :: "'e nativeAccounts \<Rightarrow> accountID \<Rightarrow> ('e owned, accountGroupID option) go" where
  "Accounts_GroupOf x account = bind (read (\<lambda>w. na_group x account (ow_env w))) (\<lambda>(ok, g).
     ret (if ok then Some (groupFromHandle g) else None))"

definition Accounts_SetCurrency where
  "Accounts_SetCurrency x account asset = bind (EngineSetAccountCurrency x account asset) (\<lambda>e. ret (map_option AccountsOther e))"

definition command :: "'e nativeAccounts \<Rightarrow> accountCommand \<Rightarrow> ('e owned, unit) go" where
  "command x c = issue (\<lambda>_. []) (\<lambda>e. ((), na_void x c e))"

definition Accounts_ClearCurrency where
  "Accounts_ClearCurrency x account = command x (ClearAccountCurrency account)"

definition uninitialized :: accountsError where
  "uninitialized = AccountsOther (Sentinel ErrUninitializedAccountGroupID)"

definition Accounts_SetGroupCurrency where
  "Accounts_SetGroupCurrency x gid asset = (if \<not> grp_initialized gid then ret (Some uninitialized)
     else bind (EngineSetAccountGroupCurrency x (grp_native gid) asset) (\<lambda>e. ret (map_option AccountsOther e)))"

definition Accounts_ClearGroupCurrency where
  "Accounts_ClearGroupCurrency x gid = (if \<not> grp_initialized gid then ret (Some uninitialized)
     else bind (command x (ClearAccountGroupCurrency (grp_native gid))) (\<lambda>_. ret None))"

definition Accounts_Block where
  "Accounts_Block x account reason = command x (BlockAccount account reason)"

definition Accounts_BlockWithCause where
  "Accounts_BlockWithCause x account cause =
     bind (EngineBlockAccountWithCause x account cause) (\<lambda>e. ret (map_option AccountsParamError e))"

definition Accounts_Unblock where
  "Accounts_Unblock x account = command x (UnblockAccount account)"

definition Accounts_UnblockAll where
  "Accounts_UnblockAll x = command x UnblockAllAccounts"

definition blockAnswer where
  "blockAnswer x c = bind (engineBlock x c) (\<lambda>h. case h of None \<Rightarrow> ret None
     | Some _ \<Rightarrow> bind (NewAccountBlockErrorFromHandle x h) (\<lambda>be. ret (Some (AccountsBlockError be))))"

definition Accounts_ReplaceBlockReason where
  "Accounts_ReplaceBlockReason x account reason = blockAnswer x (ReplaceAccountBlockReason account reason)"

definition Accounts_BlockGroup where
  "Accounts_BlockGroup x gid reason = blockAnswer x (BlockAccountGroup (grp_native gid) reason)"

definition Accounts_UnblockGroup where
  "Accounts_UnblockGroup x gid = blockAnswer x (UnblockAccountGroup (grp_native gid))"

definition Accounts_ReplaceGroupBlockReason where
  "Accounts_ReplaceGroupBlockReason x gid reason = blockAnswer x (ReplaceAccountGroupBlockReason (grp_native gid) reason)"

section \<open>What the C header documents\<close>

definition accountsDocumented :: "'e nativeAccounts \<Rightarrow> bool" where
  "accountsDocumented x \<longleftrightarrow> (\<forall>a.
     (\<forall>accounts g. \<forall>call \<in> {na_register x accounts g, na_unregister x accounts g}.
        (let (ok, groupErr, outError) = fst (call a) in
          if ok then groupErr = None \<and> outError = None else (groupErr = None) \<noteq> (outError = None)))
     \<and> (\<forall>account asset. fst (fst (na_setCurrency x account asset a)) \<longleftrightarrow> snd (fst (na_setCurrency x account asset a)) = None)
     \<and> (\<forall>g asset. fst (fst (na_setGroupCurrency x g asset a)) \<longleftrightarrow> snd (fst (na_setGroupCurrency x g asset a)) = None)
     \<and> (\<forall>account cause. fst (fst (na_blockWithCause x account cause a)) \<longleftrightarrow> snd (fst (na_blockWithCause x account cause a)) = None)
     \<and> (\<forall>c. fst (fst (na_block x c a)) \<longleftrightarrow> snd (fst (na_block x c a)) = None))"

section \<open>Properties\<close>

text \<open>A call holds nothing afterwards, and succeeds exactly when the native call did.\<close>

definition settles :: "('e owned, accountsError option) go \<Rightarrow> 'e owned \<Rightarrow> bool \<Rightarrow> bool" where
  "settles m w ok \<longleftrightarrow> wp m (\<lambda>e t. ow_live t = ow_live w \<and> ow_fault t = ow_fault w \<and> (e = None \<longleftrightarrow> ok)) (\<lambda>_ _. False) w"

lemma membership_settles:
  assumes "let (ok, groupErr, outError) = fst (call (ow_env w)) in
      if ok then groupErr = None \<and> outError = None else (groupErr = None) \<noteq> (outError = None)"
  shows "settles (bind (membership x name call) (\<lambda>(groupErr, e).
       case e of Some te \<Rightarrow> ret (Some (AccountsOther te))
       | None \<Rightarrow> (case groupErr of None \<Rightarrow> ret None
         | Some _ \<Rightarrow> bind (NewAccountGroupErrorFromHandle x groupErr) (\<lambda>ge. ret (Some (AccountsGroupError ge))))))
     w (fst (fst (call (ow_env w))))"
proof -
  obtain ok groupErr outError e where c: "call (ow_env w) = ((ok, groupErr, outError), e)"
    by (metis prod.collapse)
  obtain a b d where g: "na_groupError x (the groupErr) e = (a, b, d)" by (metis prod.collapse)
  show ?thesis
    using assms g
    by (cases ok; cases groupErr; cases outError)
      (simp_all add: settles_def membership_def NewAccountGroupErrorFromHandle_def wp c)
qed

lemma texted_settles:
  assumes "fst (fst (call (ow_env w))) \<longleftrightarrow> snd (fst (call (ow_env w))) = None"
  shows "settles (bind (texted x name call) (\<lambda>e. ret (map_option AccountsOther e))) w (fst (fst (call (ow_env w))))"
proof -
  obtain ok outError e where c: "call (ow_env w) = ((ok, outError), e)" by (metis prod.collapse)
  show ?thesis
    using assms by (cases ok; cases outError) (simp_all add: settles_def texted_def wp c)
qed

lemma block_settles:
  assumes "fst (fst (na_block x c (ow_env w))) \<longleftrightarrow> snd (fst (na_block x c (ow_env w))) = None"
  shows "settles (blockAnswer x c) w (fst (fst (na_block x c (ow_env w))))"
proof -
  obtain ok outError e where c: "na_block x c (ow_env w) = ((ok, outError), e)" by (metis prod.collapse)
  obtain a b d f where g: "na_blockError x (the outError) e = (a, b, d, f)" by (metis prod.collapse)
  show ?thesis
    using assms g
    by (cases ok; cases outError)
      (simp_all add: settles_def blockAnswer_def engineBlock_def NewAccountBlockErrorFromHandle_def wp c)
qed

lemma cause_settles:
  assumes "fst (fst (na_blockWithCause x account cause (ow_env w))) \<longleftrightarrow> snd (fst (na_blockWithCause x account cause (ow_env w))) = None"
  shows "settles (Accounts_BlockWithCause x account cause) w (fst (fst (na_blockWithCause x account cause (ow_env w))))"
proof -
  obtain ok outError e where c: "na_blockWithCause x account cause (ow_env w) = ((ok, outError), e)" by (metis prod.collapse)
  obtain a b where g: "na_paramError x (the outError) e = (a, b)" by (metis prod.collapse)
  show ?thesis
    using assms g
    by (cases ok; cases outError)
      (simp_all add: settles_def Accounts_BlockWithCause_def EngineBlockAccountWithCause_def consumeParamError_def Let_def wp c)
qed


text \<open>An engine that refuses every account group 0 and passes everything else.\<close>

definition sampleAccounts :: "nat nativeAccounts" where
  "sampleAccounts = \<lparr>na_register = (\<lambda>_ g a. (if g = 0 then (False, Some 3, None) else (True, None, None), a)),
     na_unregister = (\<lambda>_ _ a. ((True, None, None), a)), na_group = (\<lambda>_ _. (False, 0)),
     na_setCurrency = (\<lambda>_ _ a. ((True, None), a)), na_setGroupCurrency = (\<lambda>_ _ a. ((True, None), a + 1)), na_void = (\<lambda>_ a. a),
     na_blockWithCause = (\<lambda>_ _ a. ((False, Some 4), a)), na_block = (\<lambda>_ a. ((True, None), a)), na_string = (\<lambda>_ _. []),
     na_groupError = (\<lambda>_ _. (''reserved'', 0, None)), na_blockError = (\<lambda>_ _. ([], 0, None, None)),
     na_paramError = (\<lambda>_ _. (6, Some ''bad code''))\<rparr>"

definition sampleGroups :: "nat owned" where
  "sampleGroups = \<lparr>ow_live = {#}, ow_fault = False, ow_env = 0\<rparr>"


end
