(* ===== verification/Reference_Book.thy ===== *)
theory Reference_Book
  imports Closable Market_Data
begin

text \<open>
  The reference book (\<^verbatim>\<open>reference_book.go\<close> over \<^verbatim>\<open>internal/native/reference_book.go\<close>): a
  native registry of instruments with their settlement schemes.  The Go side guards a closed
  handle, converts schemes both ways and refuses units it does not know.
\<close>

section \<open>Settlement schemes\<close>

text \<open>A unit is a byte in Go and in C, with the same two values.\<close>

type_synonym settlementUnit = "8 word"

definition SettlementUnitBusinessDays :: settlementUnit where "SettlementUnitBusinessDays = 0"
definition SettlementUnitCalendarDays :: settlementUnit where "SettlementUnitCalendarDays = 1"

definition nativeUnitBusinessDays :: "8 word" where "nativeUnitBusinessDays = 0"
definition nativeUnitCalendarDays :: "8 word" where "nativeUnitCalendarDays = 1"

record settlementLag =
  sl_N :: "64 word"
  sl_Unit :: settlementUnit

record settlementScheme =
  ss_Delivery :: settlementLag
  ss_Payment :: settlementLag

record cSettlementLag =
  cl_n :: "64 word"
  cl_unit :: "8 word"

record cSettlementScheme =
  cs_delivery :: cSettlementLag
  cs_payment :: cSettlementLag

definition NewSettlementLag :: "64 word \<Rightarrow> settlementUnit \<Rightarrow> settlementLag" where
  "NewSettlementLag n u = \<lparr>sl_N = n, sl_Unit = u\<rparr>"

definition NewSettlementScheme :: "settlementLag \<Rightarrow> settlementLag \<Rightarrow> settlementScheme" where
  "NewSettlementScheme d p = \<lparr>ss_Delivery = d, ss_Payment = p\<rparr>"

definition UniformSettlementScheme :: "64 word \<Rightarrow> settlementScheme" where
  "UniformSettlementScheme n = (let lag = NewSettlementLag n SettlementUnitBusinessDays in NewSettlementScheme lag lag)"

definition zeroScheme :: settlementScheme where
  "zeroScheme = NewSettlementScheme (NewSettlementLag 0 0) (NewSettlementLag 0 0)"

section \<open>Errors\<close>

datatype bookError =
    ErrReferenceBookUnknownInstrument | ErrInvalidSettlementUnit | ErrReferenceBookClosed
  | BookRegistrationError registrationError
  | BookOther go_error

datatype bookSentinel = IsReferenceBookDuplicateID | IsReferenceBookDuplicateInstrument

fun book_Unwrap :: "bookError \<Rightarrow> bookSentinel option" where
  "book_Unwrap (BookRegistrationError e) = Some (case rg_Kind e of
     KindDuplicateID \<Rightarrow> IsReferenceBookDuplicateID
   | KindDuplicateInstrument \<Rightarrow> IsReferenceBookDuplicateInstrument)"
| "book_Unwrap _ = None"

definition settlementUnitToNative :: "settlementUnit \<Rightarrow> bookError + 8 word" where
  "settlementUnitToNative u =
     (if u = SettlementUnitBusinessDays then Inr nativeUnitBusinessDays
      else if u = SettlementUnitCalendarDays then Inr nativeUnitCalendarDays
      else Inl ErrInvalidSettlementUnit)"

definition settlementLagToNative :: "settlementLag \<Rightarrow> bookError + cSettlementLag" where
  "settlementLagToNative lag = (case settlementUnitToNative (sl_Unit lag) of
     Inl e \<Rightarrow> Inl e | Inr u \<Rightarrow> Inr \<lparr>cl_n = sl_N lag, cl_unit = u\<rparr>)"

definition SettlementScheme_toNative :: "settlementScheme \<Rightarrow> bookError + cSettlementScheme" where
  "SettlementScheme_toNative s = (case settlementLagToNative (ss_Delivery s) of
     Inl e \<Rightarrow> Inl e
   | Inr d \<Rightarrow> (case settlementLagToNative (ss_Payment s) of
       Inl e \<Rightarrow> Inl e | Inr p \<Rightarrow> Inr \<lparr>cs_delivery = d, cs_payment = p\<rparr>))"

definition settlementSchemeFromNative :: "cSettlementScheme \<Rightarrow> settlementScheme" where
  "settlementSchemeFromNative raw = NewSettlementScheme
     \<lparr>sl_N = cl_n (cs_delivery raw), sl_Unit = cl_unit (cs_delivery raw)\<rparr>
     \<lparr>sl_N = cl_n (cs_payment raw), sl_Unit = cl_unit (cs_payment raw)\<rparr>"

section \<open>The native library\<close>

datatype bookRegisterStatus = BookRegisterOK | BookDuplicateID | BookDuplicateInstrument | BookRegisterFailed | BookRegisterOther nat
datatype bookStatus = BookOK | BookUnknownInstrument | BookFailed | BookStatusOther nat

record 'e nativeBook =
  bk_create :: "'e \<Rightarrow> nat option \<times> 'e"
  bk_register :: "nat \<Rightarrow> cInstrument \<Rightarrow> 'e \<Rightarrow> (bookRegisterStatus \<times> instrumentID \<times> nat option) \<times> 'e"
  bk_registerID :: "nat \<Rightarrow> cInstrument \<Rightarrow> instrumentID \<Rightarrow> 'e \<Rightarrow> (bookRegisterStatus \<times> instrumentID \<times> nat option) \<times> 'e"
  bk_resolve :: "nat \<Rightarrow> cInstrument \<Rightarrow> 'e \<Rightarrow> instrumentID \<times> bool"
  bk_set :: "nat \<Rightarrow> instrumentID \<Rightarrow> cSettlementScheme \<Rightarrow> 'e \<Rightarrow> (bookStatus \<times> nat option) \<times> 'e"
  bk_clear :: "nat \<Rightarrow> instrumentID \<Rightarrow> 'e \<Rightarrow> (bookStatus \<times> nat option) \<times> 'e"
  bk_get :: "nat \<Rightarrow> instrumentID \<Rightarrow> 'e \<Rightarrow> (bookStatus \<times> cSettlementScheme \<times> bool \<times> nat option) \<times> 'e"
  bk_string :: "nat \<Rightarrow> 'e \<Rightarrow> string"

section \<open>The wrappers\<close>

text \<open>The tail they share: the error string is taken exactly on the status for it.\<close>

definition bookAnswer ::
    "'e nativeBook \<Rightarrow> string \<Rightarrow> bool \<Rightarrow> nat option \<Rightarrow> ('e owned, err) go" where
  "bookAnswer x name failed outError =
     (if failed then bind (consumeSharedStringAsError (bk_string x) outError (name @ '' failed'')) (\<lambda>e. ret (Some e))
      else ret None)"

definition ReferenceBookRegister ::
    "'e nativeBook \<Rightarrow> nat \<Rightarrow> cInstrument \<Rightarrow> ('e owned, bookRegisterStatus \<times> instrumentID \<times> err) go" where
  "ReferenceBookRegister x h inst =
     bind (issue (\<lambda>(_, _, outError). [(KString, outError)]) (bk_register x h inst)) (\<lambda>(status, i, outError).
       bind (bookAnswer x ''openpit_reference_book_register'' (status = BookRegisterFailed) outError) (\<lambda>e. ret (status, i, e)))"

definition ReferenceBookRegisterWithID ::
    "'e nativeBook \<Rightarrow> nat \<Rightarrow> cInstrument \<Rightarrow> instrumentID \<Rightarrow> ('e owned, bookRegisterStatus \<times> instrumentID \<times> err) go" where
  "ReferenceBookRegisterWithID x h inst i =
     bind (issue (\<lambda>(_, _, outError). [(KString, outError)]) (bk_registerID x h inst i)) (\<lambda>(status, out, outError).
       bind (bookAnswer x ''openpit_reference_book_register_with_id'' (status = BookRegisterFailed) outError)
         (\<lambda>e. ret (status, out, e)))"

definition ReferenceBookSetSettlementScheme ::
    "'e nativeBook \<Rightarrow> nat \<Rightarrow> instrumentID \<Rightarrow> cSettlementScheme \<Rightarrow> ('e owned, bookStatus \<times> err) go" where
  "ReferenceBookSetSettlementScheme x h i scheme =
     bind (issue (\<lambda>(_, outError). [(KString, outError)]) (bk_set x h i scheme)) (\<lambda>(status, outError).
       bind (bookAnswer x ''openpit_reference_book_set_settlement_scheme'' (status = BookFailed) outError) (\<lambda>e. ret (status, e)))"

definition ReferenceBookClearSettlementScheme ::
    "'e nativeBook \<Rightarrow> nat \<Rightarrow> instrumentID \<Rightarrow> ('e owned, bookStatus \<times> err) go" where
  "ReferenceBookClearSettlementScheme x h i =
     bind (issue (\<lambda>(_, outError). [(KString, outError)]) (bk_clear x h i)) (\<lambda>(status, outError).
       bind (bookAnswer x ''openpit_reference_book_clear_settlement_scheme'' (status = BookFailed) outError) (\<lambda>e. ret (status, e)))"

definition ReferenceBookGetSettlementScheme ::
    "'e nativeBook \<Rightarrow> nat \<Rightarrow> instrumentID \<Rightarrow> ('e owned, bookStatus \<times> cSettlementScheme \<times> bool \<times> err) go" where
  "ReferenceBookGetSettlementScheme x h i =
     bind (issue (\<lambda>(_, _, _, outError). [(KString, outError)]) (bk_get x h i)) (\<lambda>(status, out, isSet, outError).
       bind (bookAnswer x ''openpit_reference_book_get_settlement_scheme'' (status = BookFailed) outError) (\<lambda>e.
         ret (status, out, if status = BookFailed then False else isSet, e)))"

section \<open>The book\<close>

record referenceBook = bo_handle :: "nat option"

definition NewReferenceBook :: "'e nativeBook \<Rightarrow> ('e owned, referenceBook) go" where
  "NewReferenceBook x = bind (issue (\<lambda>h. [(KReferenceBook, h)]) (bk_create x)) (\<lambda>h. ret \<lparr>bo_handle = h\<rparr>)"

definition Book_Close :: "referenceBook \<Rightarrow> ('e owned, referenceBook) go" where
  "Book_Close b = (case bo_handle b of None \<Rightarrow> ret b
     | Some h \<Rightarrow> bind (release KReferenceBook (Some h)) (\<lambda>_. ret (b\<lparr>bo_handle := None\<rparr>)))"

definition onBook :: "referenceBook \<Rightarrow> 'a \<Rightarrow> (nat \<Rightarrow> ('e owned, 'a) go) \<Rightarrow> ('e owned, 'a) go" where
  "onBook b closed body = (case bo_handle b of None \<Rightarrow> ret closed
     | Some h \<Rightarrow> bind (inspect KReferenceBook (Some h) () (\<lambda>_ _. ())) (\<lambda>_. body h))"

definition bookDuplicateInstrument :: "instrument \<Rightarrow> bookError" where
  "bookDuplicateInstrument inst = BookRegistrationError
     \<lparr>rg_Instrument = Some inst, rg_InstrumentID = None, rg_Kind = KindDuplicateInstrument\<rparr>"

definition Book_Register :: "'e nativeBook \<Rightarrow> referenceBook \<Rightarrow> instrument \<Rightarrow> ('e owned, instrumentID \<times> bookError option) go" where
  "Book_Register x b inst = onBook b (0, Some ErrReferenceBookClosed) (\<lambda>h.
     bind (ReferenceBookRegister x h (Instrument_Handle inst)) (\<lambda>(status, i, e). ret (case status of
         BookRegisterOK \<Rightarrow> (i, None)
       | BookDuplicateInstrument \<Rightarrow> (0, Some (bookDuplicateInstrument inst))
       | _ \<Rightarrow> (0, map_option BookOther e))))"

definition Book_RegisterWithID ::
    "'e nativeBook \<Rightarrow> referenceBook \<Rightarrow> instrument \<Rightarrow> instrumentID \<Rightarrow> ('e owned, instrumentID \<times> bookError option) go" where
  "Book_RegisterWithID x b inst i = onBook b (0, Some ErrReferenceBookClosed) (\<lambda>h.
     bind (ReferenceBookRegisterWithID x h (Instrument_Handle inst) i) (\<lambda>(status, out, e). ret (case status of
         BookRegisterOK \<Rightarrow> (out, None)
       | BookDuplicateID \<Rightarrow> (0, Some (BookRegistrationError
           \<lparr>rg_Instrument = None, rg_InstrumentID = Some i, rg_Kind = KindDuplicateID\<rparr>))
       | BookDuplicateInstrument \<Rightarrow> (0, Some (bookDuplicateInstrument inst))
       | _ \<Rightarrow> (0, map_option BookOther e))))"

definition Book_Resolve :: "'e nativeBook \<Rightarrow> referenceBook \<Rightarrow> instrument \<Rightarrow> ('e owned, instrumentID \<times> bool) go" where
  "Book_Resolve x b inst = onBook b (0, False) (\<lambda>h. read (\<lambda>w. bk_resolve x h (Instrument_Handle inst) (ow_env w)))"

definition bookStatusError :: "bookStatus \<times> err \<Rightarrow> bookError option" where
  "bookStatusError r = (case r of (status, e) \<Rightarrow>
     if status = BookOK then None
     else if status = BookUnknownInstrument then Some ErrReferenceBookUnknownInstrument
     else map_option BookOther e)"

definition Book_SetSettlementScheme ::
    "'e nativeBook \<Rightarrow> referenceBook \<Rightarrow> instrumentID \<Rightarrow> settlementScheme \<Rightarrow> ('e owned, bookError option) go" where
  "Book_SetSettlementScheme x b i scheme = onBook b (Some ErrReferenceBookClosed) (\<lambda>h.
     case SettlementScheme_toNative scheme of
       Inl e \<Rightarrow> ret (Some e)
     | Inr raw \<Rightarrow> bind (ReferenceBookSetSettlementScheme x h i raw) (\<lambda>r. ret (bookStatusError r)))"

definition Book_ClearSettlementScheme ::
    "'e nativeBook \<Rightarrow> referenceBook \<Rightarrow> instrumentID \<Rightarrow> ('e owned, bookError option) go" where
  "Book_ClearSettlementScheme x b i = onBook b (Some ErrReferenceBookClosed) (\<lambda>h.
     bind (ReferenceBookClearSettlementScheme x h i) (\<lambda>r. ret (bookStatusError r)))"

definition Book_SettlementScheme ::
    "'e nativeBook \<Rightarrow> referenceBook \<Rightarrow> instrumentID \<Rightarrow> ('e owned, settlementScheme \<times> bool \<times> bookError option) go" where
  "Book_SettlementScheme x b i = onBook b (zeroScheme, False, Some ErrReferenceBookClosed) (\<lambda>h.
     bind (ReferenceBookGetSettlementScheme x h i) (\<lambda>(status, raw, ok, e). ret (case status of
         BookOK \<Rightarrow> if \<not> ok then (zeroScheme, False, None) else (settlementSchemeFromNative raw, True, None)
       | BookUnknownInstrument \<Rightarrow> (zeroScheme, False, Some ErrReferenceBookUnknownInstrument)
       | _ \<Rightarrow> (zeroScheme, False, map_option BookOther e))))"

section \<open>What the C header documents\<close>

text \<open>
  An error handle comes with the status that says so, and only then.  A scheme that was set is
  what is read next, until it is cleared.
\<close>

definition bookDocumented :: "'e nativeBook \<Rightarrow> bool" where
  "bookDocumented x \<longleftrightarrow> (\<forall>h a.
     (\<forall>inst. case fst (bk_register x h inst a) of (status, i, outError) \<Rightarrow> (status = BookRegisterFailed) = (outError \<noteq> None))
   \<and> (\<forall>inst i. case fst (bk_registerID x h inst i a) of
        (status, out, outError) \<Rightarrow> (status = BookRegisterFailed) = (outError \<noteq> None))
   \<and> (\<forall>i c. case fst (bk_set x h i c a) of (status, outError) \<Rightarrow>
        (status = BookFailed) = (outError \<noteq> None) \<and> (\<forall>n. status \<noteq> BookStatusOther n))
   \<and> (\<forall>i. case fst (bk_clear x h i a) of (status, outError) \<Rightarrow>
        (status = BookFailed) = (outError \<noteq> None) \<and> (\<forall>n. status \<noteq> BookStatusOther n))
   \<and> (\<forall>i. case fst (bk_get x h i a) of (status, out, ok, outError) \<Rightarrow> (status = BookFailed) = (outError \<noteq> None)))"

definition storesSchemes :: "'e nativeBook \<Rightarrow> bool" where
  "storesSchemes x \<longleftrightarrow> (\<forall>h i c a b.
     (fst (fst (bk_set x h i c a)) = BookOK \<and> snd (bk_set x h i c a) = b \<longrightarrow> fst (bk_get x h i b) = (BookOK, c, True, None))
   \<and> (fst (fst (bk_clear x h i a)) = BookOK \<and> snd (bk_clear x h i a) = b \<longrightarrow>
        (\<exists>raw. fst (bk_get x h i b) = (BookOK, raw, False, None))))"

lemma book_calls:
  assumes "bookDocumented x"
  shows "bk_register x h inst a = ((rs, i, outError), t) \<Longrightarrow> (rs = BookRegisterFailed) = (outError \<noteq> None)"
    and "bk_registerID x h inst j a = ((rs, i, outError), t) \<Longrightarrow> (rs = BookRegisterFailed) = (outError \<noteq> None)"
    and "bk_set x h j c a = ((st, outError), t) \<Longrightarrow> (st = BookFailed) = (outError \<noteq> None) \<and> (\<forall>n. st \<noteq> BookStatusOther n)"
    and "bk_clear x h j a = ((st, outError), t) \<Longrightarrow> (st = BookFailed) = (outError \<noteq> None) \<and> (\<forall>n. st \<noteq> BookStatusOther n)"
    and "bk_get x h j a = ((st, raw, ok, outError), t) \<Longrightarrow> (st = BookFailed) = (outError \<noteq> None)"
proof -
  note d = assms [unfolded bookDocumented_def, THEN spec, of h, THEN spec, of a]
  show "bk_register x h inst a = ((rs, i, outError), t) \<Longrightarrow> (rs = BookRegisterFailed) = (outError \<noteq> None)"
    using d [THEN conjunct1, THEN spec, of inst] by simp
  show "bk_registerID x h inst j a = ((rs, i, outError), t) \<Longrightarrow> (rs = BookRegisterFailed) = (outError \<noteq> None)"
    using d [THEN conjunct2, THEN conjunct1, THEN spec, THEN spec, of inst j] by simp
  show "bk_set x h j c a = ((st, outError), t) \<Longrightarrow> (st = BookFailed) = (outError \<noteq> None) \<and> (\<forall>n. st \<noteq> BookStatusOther n)"
    using d [THEN conjunct2, THEN conjunct2, THEN conjunct1, THEN spec, THEN spec, of j c] by simp
  show "bk_clear x h j a = ((st, outError), t) \<Longrightarrow> (st = BookFailed) = (outError \<noteq> None) \<and> (\<forall>n. st \<noteq> BookStatusOther n)"
    using d [THEN conjunct2, THEN conjunct2, THEN conjunct2, THEN conjunct1, THEN spec, of j] by simp
  show "bk_get x h j a = ((st, raw, ok, outError), t) \<Longrightarrow> (st = BookFailed) = (outError \<noteq> None)"
    using d [THEN conjunct2, THEN conjunct2, THEN conjunct2, THEN conjunct2, THEN spec, of j] by simp
qed

section \<open>Books own their handles\<close>

lemma gives_bookAnswer: "failed = (outError \<noteq> None) \<Longrightarrow> gives [(KString, outError)] (bookAnswer x name failed outError)"
  unfolding bookAnswer_def by (rule gives_answered)

lemma keeps_book_calls [intro]:
  assumes "bookDocumented x"
  shows "keeps (ReferenceBookRegister x h inst)" "keeps (ReferenceBookRegisterWithID x h inst i)"
    "keeps (ReferenceBookSetSettlementScheme x h i c)" "keeps (ReferenceBookClearSettlementScheme x h i)"
    "keeps (ReferenceBookGetSettlementScheme x h i)"
  unfolding ReferenceBookRegister_def ReferenceBookRegisterWithID_def ReferenceBookSetSettlementScheme_def
    ReferenceBookClearSettlementScheme_def ReferenceBookGetSettlementScheme_def
  by (auto intro!: keeps_issued gives_bind gives_bookAnswer dest: book_calls [OF assms])

lemma safe_onBook [safe]: "(\<And>h. keeps (body h)) \<Longrightarrow> safeWith KReferenceBook (bo_handle b) (onBook b closed body)"
  by (cases "bo_handle b") (auto simp: safeWith_def onBook_def wp keepsD)

datatype bookCall =
    BRegister instrument | BRegisterID instrument instrumentID | BResolve instrument
  | BSetScheme instrumentID settlementScheme | BClearScheme instrumentID | BGetScheme instrumentID

fun runBookCall :: "'e nativeBook \<Rightarrow> bookCall \<Rightarrow> referenceBook \<Rightarrow> ('e owned, unit) go" where
  "runBookCall x (BRegister inst) b = bind (Book_Register x b inst) (\<lambda>_. ret ())"
| "runBookCall x (BRegisterID inst i) b = bind (Book_RegisterWithID x b inst i) (\<lambda>_. ret ())"
| "runBookCall x (BResolve inst) b = bind (Book_Resolve x b inst) (\<lambda>_. ret ())"
| "runBookCall x (BSetScheme i s) b = bind (Book_SetSettlementScheme x b i s) (\<lambda>_. ret ())"
| "runBookCall x (BClearScheme i) b = bind (Book_ClearSettlementScheme x b i) (\<lambda>_. ret ())"
| "runBookCall x (BGetScheme i) b = bind (Book_SettlementScheme x b i) (\<lambda>_. ret ())"

lemma safe_bookCall: "bookDocumented x \<Longrightarrow> safeWith KReferenceBook (bo_handle b) (runBookCall x c b)"
  by (cases c) (auto simp: Book_Register_def Book_RegisterWithID_def Book_Resolve_def Book_SetSettlementScheme_def
      Book_ClearSettlementScheme_def Book_SettlementScheme_def case_prod_beta intro!: safe keeps_ret keeps_bind keeps_book_calls
      split: sum.split)

interpretation books: closable KReferenceBook bo_handle Book_Close "\<lambda>_. ret None" "runBookCall x" "bookDocumented x"
  for x :: "'e nativeBook"
proof
  fix b :: referenceBook and w :: "'e owned"
  assume "bookDocumented x" and held: "objects [(KReferenceBook, bo_handle b)] \<subseteq># ow_live w"
  show "wp (Book_Close b) (\<lambda>b' t. bo_handle b' = None \<and> ow_fault t = ow_fault w
      \<and> ow_live t + objects [(KReferenceBook, bo_handle b)] = ow_live w) (\<lambda>_ _. False) w"
    using held by (cases "bo_handle b") (simp_all add: Book_Close_def wp)
  show "wp (ret None) (\<lambda>r t. ow_fault t = ow_fault w \<and> ow_live t = ow_live w
      + (case r of None \<Rightarrow> {#} | Some b' \<Rightarrow> objects [(KReferenceBook, bo_handle b')])) (\<lambda>_ _. False) w"
    by (simp add: wp)
  show "wp (runBookCall x c b) (\<lambda>_ t. ow_fault t = ow_fault w \<and> ow_live t = ow_live w) (\<lambda>_ _. False) w" for c
    using safe_bookCall [OF \<open>bookDocumented x\<close>] held unfolding safeWith_def by blast
qed

section \<open>Properties\<close>

text \<open>
  Reference books own their handles.  Over any calls on a book, in any order and also
  after \<^verbatim>\<open>Close\<close>, no call panics or uses the handle after its release, and the handle is
  held exactly while the book is open.
\<close>

lemma book_handle_owned:
  assumes "bookDocumented x"
  shows "wp (bind (NewReferenceBook x) (\<lambda>b. familyCalls Book_Close (\<lambda>_. ret None) (runBookCall x) calls [b]))
      (\<lambda>bs t. ow_fault t = ow_fault w \<and> ow_live t = ow_live w + family KReferenceBook (map bo_handle bs)) (\<lambda>_ _. False) w"
proof -
  obtain h t where c: "bk_create x (ow_env w) = (h, t)" by fastforce
  let ?w = "w\<lparr>ow_live := ow_live w + objects [(KReferenceBook, h)], ow_env := t\<rparr>"
  have "books.held (ow_live w) (ow_fault w) [\<lparr>bo_handle = h\<rparr>] ?w"
    by (simp add: books.held_def del: objects_simps)
  from books.calls_hold [OF assms this] show ?thesis
    by (simp add: NewReferenceBook_def wp c books.held_def del: objects_simps)
qed

definition knownUnit :: "settlementUnit \<Rightarrow> bool" where
  "knownUnit u \<longleftrightarrow> u = SettlementUnitBusinessDays \<or> u = SettlementUnitCalendarDays"

lemma scheme_to_native:
  "SettlementScheme_toNative s = (if knownUnit (sl_Unit (ss_Delivery s)) \<and> knownUnit (sl_Unit (ss_Payment s))
     then Inr \<lparr>cs_delivery = \<lparr>cl_n = sl_N (ss_Delivery s), cl_unit = sl_Unit (ss_Delivery s)\<rparr>,
               cs_payment = \<lparr>cl_n = sl_N (ss_Payment s), cl_unit = sl_Unit (ss_Payment s)\<rparr>\<rparr>
     else Inl ErrInvalidSettlementUnit)"
  by (auto simp: SettlementScheme_toNative_def settlementLagToNative_def settlementUnitToNative_def knownUnit_def
      SettlementUnitBusinessDays_def SettlementUnitCalendarDays_def nativeUnitBusinessDays_def nativeUnitCalendarDays_def)

lemma scheme_trip: "SettlementScheme_toNative s = Inr raw \<Longrightarrow> settlementSchemeFromNative raw = s"
  by (auto simp: scheme_to_native settlementSchemeFromNative_def NewSettlementScheme_def split: if_splits)

lemma read_after:
  assumes "bookDocumented x" and "bo_handle b = Some h" and "(KReferenceBook, h) \<in># ow_live w"
  shows "wp (Book_SettlementScheme x b i) (\<lambda>r t. ow_live t = ow_live w \<and> ow_fault t = ow_fault w
    \<and> (\<forall>c. fst (bk_get x h i (ow_env w)) = (BookOK, c, True, None) \<longrightarrow> r = (settlementSchemeFromNative c, True, None))
    \<and> (\<forall>c. fst (bk_get x h i (ow_env w)) = (BookOK, c, False, None) \<longrightarrow> r = (zeroScheme, False, None))) (\<lambda>_ _. False) w"
proof -
  obtain st raw ok outError t where c: "bk_get x h i (ow_env w) = ((st, raw, ok, outError), t)" by (metis prod.collapse)
  show ?thesis
    using assms(2,3) book_calls(5) [OF assms(1) c]
    by (cases st; cases outError)
      (simp_all add: Book_SettlementScheme_def onBook_def ReferenceBookGetSettlementScheme_def bookAnswer_def wp c)
qed

text \<open>A call that may store something, and the read after it.\<close>

lemma changed_then_read:
  assumes "bookDocumented x" and "bo_handle b = Some h" and "(KReferenceBook, h) \<in># ow_live w"
    and change: "wp m (\<lambda>e t. ow_live t = ow_live w \<and> ow_fault t = ow_fault w \<and> (e = None \<longrightarrow>
      (\<exists>c. fst (bk_get x h i (ow_env t)) = (BookOK, c, isSet, None) \<and> (if isSet then settlementSchemeFromNative c = s else s = zeroScheme))))
      (\<lambda>_ _. False) w"
  shows "wp (bind m (\<lambda>e. bind (Book_SettlementScheme x b i) (\<lambda>r. ret (e, r))))
    (\<lambda>(e, r) t. ow_live t = ow_live w \<and> ow_fault t = ow_fault w \<and> (e = None \<longrightarrow> r = (s, isSet, None))) (\<lambda>_ _. False) w"
  unfolding wp
  by (rule wp_mono [OF change], rule wp_mono [OF read_after [OF assms(1,2)]])
    (use assms(3) in \<open>auto split: if_splits\<close>)

text \<open>
  C37: a settlement scheme is read back as it was set.  A scheme with an unknown unit is
  refused before the library sees it; any other one, once it was accepted, is what the next
  read returns, and after an accepted clear the next read finds the instrument without one.
  No call keeps a native object.
\<close>

theorem book_scheme_roundtrip:
  assumes "bookDocumented x" and "storesSchemes x" and "bo_handle b = Some h" and "(KReferenceBook, h) \<in># ow_live w"
  shows "(if knownUnit (sl_Unit (ss_Delivery scheme)) \<and> knownUnit (sl_Unit (ss_Payment scheme))
      then wp (bind (Book_SetSettlementScheme x b i scheme) (\<lambda>e. bind (Book_SettlementScheme x b i) (\<lambda>r. ret (e, r))))
        (\<lambda>(e, r) t. ow_live t = ow_live w \<and> ow_fault t = ow_fault w \<and> (e = None \<longrightarrow> r = (scheme, True, None))) (\<lambda>_ _. False) w
      else Book_SetSettlementScheme x b i scheme w = (Ret (Some ErrInvalidSettlementUnit), w))
    \<and> wp (bind (Book_ClearSettlementScheme x b i) (\<lambda>e. bind (Book_SettlementScheme x b i) (\<lambda>r. ret (e, r))))
        (\<lambda>(e, r) t. ow_live t = ow_live w \<and> ow_fault t = ow_fault w \<and> (e = None \<longrightarrow> r = (zeroScheme, False, None))) (\<lambda>_ _. False) w"
proof (intro conjI)
  let ?known = "knownUnit (sl_Unit (ss_Delivery scheme)) \<and> knownUnit (sl_Unit (ss_Payment scheme))"
  show "if ?known
      then wp (bind (Book_SetSettlementScheme x b i scheme) (\<lambda>e. bind (Book_SettlementScheme x b i) (\<lambda>r. ret (e, r))))
        (\<lambda>(e, r) t. ow_live t = ow_live w \<and> ow_fault t = ow_fault w \<and> (e = None \<longrightarrow> r = (scheme, True, None))) (\<lambda>_ _. False) w
      else Book_SetSettlementScheme x b i scheme w = (Ret (Some ErrInvalidSettlementUnit), w)"
  proof (cases ?known)
    case True
    then obtain raw where raw: "SettlementScheme_toNative scheme = Inr raw" by (auto simp: scheme_to_native)
    obtain st outError t where c: "bk_set x h i raw (ow_env w) = ((st, outError), t)" by (metis prod.collapse)
    have "st = BookOK \<Longrightarrow> fst (bk_get x h i t) = (BookOK, raw, True, None)"
      using assms(2) c unfolding storesSchemes_def by (metis fst_conv snd_conv)
    then have "wp (Book_SetSettlementScheme x b i scheme) (\<lambda>e t. ow_live t = ow_live w \<and> ow_fault t = ow_fault w \<and> (e = None \<longrightarrow>
        (\<exists>c. fst (bk_get x h i (ow_env t)) = (BookOK, c, True, None)
          \<and> (if True then settlementSchemeFromNative c = scheme else scheme = zeroScheme)))) (\<lambda>_ _. False) w"
      using assms(3,4) book_calls(3) [OF assms(1) c] raw scheme_trip [OF raw]
      by (cases st; cases outError)
        (simp_all add: Book_SetSettlementScheme_def onBook_def ReferenceBookSetSettlementScheme_def bookAnswer_def
          bookStatusError_def wp c)
    from changed_then_read [OF assms(1,3,4) this] show ?thesis using True by (simp only: if_P simp_thms)
  next
    case False
    then have "SettlementScheme_toNative scheme = Inl ErrInvalidSettlementUnit" by (simp add: scheme_to_native)
    then show ?thesis
      unfolding if_not_P [OF False]
      using assms(3,4) by (simp add: Book_SetSettlementScheme_def onBook_def inspect_def bind_def ret_def)
  qed
next
  obtain st outError t where c: "bk_clear x h i (ow_env w) = ((st, outError), t)" by (metis prod.collapse)
  have "st = BookOK \<Longrightarrow> \<exists>raw. fst (bk_get x h i t) = (BookOK, raw, False, None)"
    using assms(2) c unfolding storesSchemes_def by (metis fst_conv snd_conv)
  then have "wp (Book_ClearSettlementScheme x b i) (\<lambda>e t. ow_live t = ow_live w \<and> ow_fault t = ow_fault w \<and> (e = None \<longrightarrow>
      (\<exists>c. fst (bk_get x h i (ow_env t)) = (BookOK, c, False, None)
        \<and> (if False then settlementSchemeFromNative c = zeroScheme else zeroScheme = zeroScheme)))) (\<lambda>_ _. False) w"
    using assms(3,4) book_calls(4) [OF assms(1) c]
    by (cases st; cases outError)
      (auto simp: Book_ClearSettlementScheme_def onBook_def ReferenceBookClearSettlementScheme_def bookAnswer_def
        bookStatusError_def wp c)
  then show "wp (bind (Book_ClearSettlementScheme x b i) (\<lambda>e. bind (Book_SettlementScheme x b i) (\<lambda>r. ret (e, r))))
      (\<lambda>(e, r) t. ow_live t = ow_live w \<and> ow_fault t = ow_fault w \<and> (e = None \<longrightarrow> r = (zeroScheme, False, None))) (\<lambda>_ _. False) w"
    by (rule changed_then_read [OF assms(1,3,4)])
qed

section \<open>Examples\<close>

text \<open>A library whose state is its counter of handles and the one scheme it stores.\<close>

definition sampleBook :: "(nat \<times> cSettlementScheme option) nativeBook" where
  "sampleBook = \<lparr>bk_create = (\<lambda>(n, s). (Some n, (n + 1, s))), bk_register = (\<lambda>_ _ a. ((BookRegisterOK, 5, None), a)),
     bk_registerID = (\<lambda>_ _ i a. ((BookRegisterOK, i, None), a)), bk_resolve = (\<lambda>_ _ _. (5, True)),
     bk_set = (\<lambda>_ _ c (n, _). ((BookOK, None), (n, Some c))), bk_clear = (\<lambda>_ _ (n, _). ((BookOK, None), (n, None))),
     bk_get = (\<lambda>_ _ (n, s). ((BookOK, case s of None \<Rightarrow> \<lparr>cs_delivery = \<lparr>cl_n = 0, cl_unit = 0\<rparr>, cs_payment = \<lparr>cl_n = 0, cl_unit = 0\<rparr>\<rparr>
       | Some c \<Rightarrow> c, s \<noteq> None, None), (n, s))), bk_string = (\<lambda>_ _. [])\<rparr>"

lemma sample_book_documented: "bookDocumented sampleBook" "storesSchemes sampleBook"
  by (auto simp: bookDocumented_def storesSchemes_def sampleBook_def)

theorem book_scheme_roundtrip_witness:
  "fst (bind (Book_SetSettlementScheme sampleBook \<lparr>bo_handle = Some 1\<rparr> 5 (UniformSettlementScheme 2))
      (\<lambda>e. bind (Book_SettlementScheme sampleBook \<lparr>bo_handle = Some 1\<rparr> 5) (\<lambda>r. ret (e, r)))
      \<lparr>ow_live = {#(KReferenceBook, 1)#}, ow_fault = False, ow_env = (2, None)\<rparr>)
    = Ret (None, UniformSettlementScheme 2, True, None)"
proof -
  let ?b = "\<lparr>bo_handle = Some 1\<rparr>" and ?w = "\<lparr>ow_live = {#(KReferenceBook, 1)#}, ow_fault = False, ow_env = (2, None)\<rparr>"
  have known: "knownUnit (sl_Unit (ss_Delivery (UniformSettlementScheme 2)))" "knownUnit (sl_Unit (ss_Payment (UniformSettlementScheme 2)))"
    by (simp_all add: UniformSettlementScheme_def NewSettlementScheme_def NewSettlementLag_def knownUnit_def Let_def)
  have set: "fst (Book_SetSettlementScheme sampleBook ?b 5 (UniformSettlementScheme 2) ?w) = Ret None"
    using known by (simp add: Book_SetSettlementScheme_def onBook_def scheme_to_native inspect_def bind_def ret_def
      ReferenceBookSetSettlementScheme_def bookAnswer_def bookStatusError_def issue_def sampleBook_def)
  have "wp (bind (Book_SetSettlementScheme sampleBook ?b 5 (UniformSettlementScheme 2))
      (\<lambda>e. bind (Book_SettlementScheme sampleBook ?b 5) (\<lambda>r. ret (e, r))))
      (\<lambda>(e, r) t. ow_live t = ow_live ?w \<and> ow_fault t = ow_fault ?w \<and> (e = None \<longrightarrow> r = (UniformSettlementScheme 2, True, None)))
      (\<lambda>_ _. False) ?w"
    using book_scheme_roundtrip [OF sample_book_documented, of ?b 1 ?w "UniformSettlementScheme 2" 5] known by simp
  then show ?thesis
    using set by (auto simp: wp_def bind_def ret_def split: prod.splits res.splits)
qed


end
