(* ===== verification/Policy_Settings.thy ===== *)
theory Policy_Settings
  imports Closable Param_Values Market_Data
begin

text \<open>
  The settings of the built-in policies (\<^verbatim>\<open>pretrade/policies\<close>): the builders of the rate
  limit, the order size limit, the P\&L bounds kill switch, spot funds and its kill switch, the C
  structs they collect (\<^verbatim>\<open>internal/native/policy.go\<close>), and the calls that add the policies
  to a native engine builder (\<^verbatim>\<open>internal/native/engine.go\<close>).

  A C struct refers to an asset by a view of its buffer, so a builder keeps every such asset
  beside the structs until the policy is added.  The first builder a caller gets only forwards
  to the ready builder, the one modelled here.
\<close>

section \<open>C structs\<close>

record cRateLimit =
  cr_max_orders :: "64 word"
  cr_window_nanoseconds :: "64 word"

record cRateAsset = cRateLimit +
  cra_settlement_asset :: stringView

record cRateAccount = cRateLimit +
  crc_account_id :: accountID

record cRateAccountAsset = cRateLimit +
  crb_account_id :: accountID
  crb_settlement_asset :: stringView

record cSizeLimit =
  cz_max_quantity :: "decimal cOptional"
  cz_max_notional :: "decimal cOptional"

record cSizeAsset =
  cza_limit :: cSizeLimit
  cza_asset :: stringView

record cSizeAccountAsset =
  czb_limit :: cSizeLimit
  czb_account_id :: accountID
  czb_asset :: stringView

record cPnlBounds =
  cb_asset :: stringView
  cb_lower_bound :: "decimal cOptional"
  cb_upper_bound :: "decimal cOptional"

record cAccountBounds =
  cab_account_id :: accountID
  cab_bounds :: cPnlBounds
  cab_initial_pnl :: decimal

record cAccountBoundsUpdate =
  cau_account_id :: accountID
  cau_bounds :: cPnlBounds

record cGroupBounds =
  cgb_account_group_id :: "32 word"
  cgb_barrier :: cPnlBounds

section \<open>Limits and barriers\<close>

text \<open>\<^verbatim>\<open>Window\<close> is a \<^verbatim>\<open>time.Duration\<close>, 64 bits with a sign; C gets the same bits.\<close>

record rateLimit =
  rl_MaxOrders :: "64 word"
  rl_Window :: "64 word"

record rateAssetBarrier =
  ra_Limit :: rateLimit
  ra_SettlementAsset :: asset

record rateAccountBarrier =
  rc_Limit :: rateLimit
  rc_AccountID :: accountID

record rateAccountAssetBarrier =
  rx_Limit :: rateLimit
  rx_AccountID :: accountID
  rx_SettlementAsset :: asset

record sizeLimit =
  sz_MaxQuantity :: "decimal option"
  sz_MaxNotional :: "decimal option"

record sizeAssetBarrier =
  sa_Limit :: sizeLimit
  sa_Asset :: asset

record sizeAccountAssetBarrier =
  sx_Limit :: sizeLimit
  sx_AccountID :: accountID
  sx_Asset :: asset

text \<open>
  \<open>boundsBarrier\<close> is \<^verbatim>\<open>PnlBoundsBrokerBarrier\<close> and
  \<^verbatim>\<open>SpotFundsPnlBoundsBarrier\<close>, which differ in the name of the asset only.
\<close>

record boundsBarrier =
  bb_Asset :: asset
  bb_LowerBound :: "decimal option"
  bb_UpperBound :: "decimal option"

record accountBoundsBarrier =
  ab_Barrier :: boundsBarrier
  ab_AccountID :: accountID
  ab_InitialPnl :: decimal

record accountBoundsUpdate =
  au_Barrier :: boundsBarrier
  au_AccountID :: accountID

record groupBoundsBarrier =
  gb_Barrier :: boundsBarrier
  gb_AccountGroupID :: accountGroupID

definition optionalToNative :: "decimal option \<Rightarrow> decimal cOptional" where
  "optionalToNative v = (case v of None \<Rightarrow> cNone zeroDecimal | Some d \<Rightarrow> cSome d)"

definition nativeRateLimit :: "rateLimit \<Rightarrow> cRateLimit" where
  "nativeRateLimit l = \<lparr>cr_max_orders = rl_MaxOrders l, cr_window_nanoseconds = rl_Window l\<rparr>"

definition nativeRateAsset :: "rateAssetBarrier \<Rightarrow> cRateAsset" where
  "nativeRateAsset b = \<lparr>cr_max_orders = rl_MaxOrders (ra_Limit b), cr_window_nanoseconds = rl_Window (ra_Limit b),
     cra_settlement_asset = importString (ra_SettlementAsset b)\<rparr>"

definition nativeRateAccount :: "rateAccountBarrier \<Rightarrow> cRateAccount" where
  "nativeRateAccount b = \<lparr>cr_max_orders = rl_MaxOrders (rc_Limit b), cr_window_nanoseconds = rl_Window (rc_Limit b),
     crc_account_id = rc_AccountID b\<rparr>"

definition nativeRateAccountAsset :: "rateAccountAssetBarrier \<Rightarrow> cRateAccountAsset" where
  "nativeRateAccountAsset b = \<lparr>cr_max_orders = rl_MaxOrders (rx_Limit b), cr_window_nanoseconds = rl_Window (rx_Limit b),
     crb_account_id = rx_AccountID b, crb_settlement_asset = importString (rx_SettlementAsset b)\<rparr>"

definition nativeSizeLimit :: "sizeLimit \<Rightarrow> cSizeLimit" where
  "nativeSizeLimit l = \<lparr>cz_max_quantity = optionalToNative (sz_MaxQuantity l),
     cz_max_notional = optionalToNative (sz_MaxNotional l)\<rparr>"

definition nativeSizeAsset :: "sizeAssetBarrier \<Rightarrow> cSizeAsset" where
  "nativeSizeAsset b = \<lparr>cza_limit = nativeSizeLimit (sa_Limit b), cza_asset = importString (sa_Asset b)\<rparr>"

definition nativeSizeAccountAsset :: "sizeAccountAssetBarrier \<Rightarrow> cSizeAccountAsset" where
  "nativeSizeAccountAsset b = \<lparr>czb_limit = nativeSizeLimit (sx_Limit b), czb_account_id = sx_AccountID b,
     czb_asset = importString (sx_Asset b)\<rparr>"

definition nativeBounds :: "boundsBarrier \<Rightarrow> cPnlBounds" where
  "nativeBounds b = \<lparr>cb_asset = importString (bb_Asset b), cb_lower_bound = optionalToNative (bb_LowerBound b),
     cb_upper_bound = optionalToNative (bb_UpperBound b)\<rparr>"

definition nativeAccountBounds :: "accountBoundsBarrier \<Rightarrow> cAccountBounds" where
  "nativeAccountBounds b = \<lparr>cab_account_id = ab_AccountID b, cab_bounds = nativeBounds (ab_Barrier b),
     cab_initial_pnl = ab_InitialPnl b\<rparr>"

definition nativeAccountBoundsUpdate :: "accountBoundsUpdate \<Rightarrow> cAccountBoundsUpdate" where
  "nativeAccountBoundsUpdate b = \<lparr>cau_account_id = au_AccountID b, cau_bounds = nativeBounds (au_Barrier b)\<rparr>"

definition nativeGroupBounds :: "groupBoundsBarrier \<Rightarrow> cGroupBounds" where
  "nativeGroupBounds b = \<lparr>cgb_account_group_id = grp_native (gb_AccountGroupID b), cgb_barrier = nativeBounds (gb_Barrier b)\<rparr>"


section \<open>The calls that add a policy\<close>

text \<open>A Go slice as C takes it: a pointer to its first element, null when it is empty, and its length.\<close>

record 'a carray =
  ca_ptr :: "'a list option"
  ca_len :: nat

definition sliceArg :: "'a list \<Rightarrow> 'a carray" where
  "sliceArg xs = \<lparr>ca_ptr = (if length xs > 0 then Some xs else None), ca_len = length xs\<rparr>"

text \<open>What C reads there.\<close>

definition readArray :: "'a carray \<Rightarrow> 'a list" where
  "readArray a = (case ca_ptr a of None \<Rightarrow> [] | Some xs \<Rightarrow> take (ca_len a) xs)"

text \<open>
  The target of an override is a tagged union; a cap on slippage that is not set leaves the
  decision to the next tier.
\<close>

datatype overridePayload =
    PayloadInstrument instrumentID | PayloadInstrumentAccount instrumentID accountID
  | PayloadInstrumentAccountGroup instrumentID "32 word"

datatype overrideTag = TagInstrument | TagInstrumentAccount | TagInstrumentAccountGroup

record cOverride =
  co_tag :: overrideTag
  co_payload :: overridePayload
  co_slippage_bps :: "16 word"
  co_has_slippage_bps :: bool

definition newPretradePoliciesSpotFundsOverride :: "overrideTag \<Rightarrow> overridePayload \<Rightarrow> 16 word option \<Rightarrow> cOverride" where
  "newPretradePoliciesSpotFundsOverride tag payload slippage = (case slippage of
     None \<Rightarrow> \<lparr>co_tag = tag, co_payload = payload, co_slippage_bps = 0, co_has_slippage_bps = False\<rparr>
   | Some s \<Rightarrow> \<lparr>co_tag = tag, co_payload = payload, co_slippage_bps = s, co_has_slippage_bps = True\<rparr>)"

definition NewPretradePoliciesSpotFundsOverride ::
    "instrumentID \<Rightarrow> accountID option \<Rightarrow> 32 word option \<Rightarrow> 16 word option \<Rightarrow> cOverride" where
  "NewPretradePoliciesSpotFundsOverride i account gid slippage = (case account of
     Some a \<Rightarrow> newPretradePoliciesSpotFundsOverride TagInstrumentAccount (PayloadInstrumentAccount i a) slippage
   | None \<Rightarrow> (case gid of
       Some g \<Rightarrow> newPretradePoliciesSpotFundsOverride TagInstrumentAccountGroup (PayloadInstrumentAccountGroup i g) slippage
     | None \<Rightarrow> newPretradePoliciesSpotFundsOverride TagInstrument (PayloadInstrument i) slippage))"

text \<open>The C functions, one for each policy, with the arguments they get.\<close>

datatype policyArgs =
    AddOrderValidation "16 word"
  | AddRateLimit "16 word" "cRateLimit option" "cRateAsset carray" "cRateAccount carray" "cRateAccountAsset carray"
  | AddOrderSizeLimit "16 word" "cSizeLimit option" "cSizeAsset carray" "cSizeAccountAsset carray"
  | AddPnlBoundsKillSwitch "16 word" "cPnlBounds carray" "cAccountBounds carray"
  | AddSpotFunds "nat option" "16 word option" "8 word" "cOverride carray" "16 word"
  | AddSpotFundsPnlBoundsKillSwitch "nat option" "16 word" "cPnlBounds option" "cGroupBounds carray" "cAccountBoundsUpdate carray"

record 'e nativePolicies =
  np_add :: "nat option \<Rightarrow> policyArgs \<Rightarrow> 'e \<Rightarrow> (bool \<times> nat option) \<times> 'e"
  np_string :: "nat \<Rightarrow> 'e \<Rightarrow> string"

fun argsService :: "policyArgs \<Rightarrow> nat option" where
  "argsService (AddSpotFunds h _ _ _ _) = h"
| "argsService (AddSpotFundsPnlBoundsKillSwitch h _ _ _ _) = h"
| "argsService _ = None"

definition addBuiltin :: "'e nativePolicies \<Rightarrow> nat option \<Rightarrow> policyArgs \<Rightarrow> string \<Rightarrow> ('e owned, err) go" where
  "addBuiltin x b args name = bind (inspect KBuilder b () (\<lambda>_ _. ())) (\<lambda>_.
     bind (inspect KMarketData (argsService args) () (\<lambda>_ _. ())) (\<lambda>_.
     bind (issue (\<lambda>(_, outError). [(KString, outError)]) (np_add x b args)) (\<lambda>(ok, outError).
       if \<not> ok then bind (consumeSharedStringAsError (np_string x) outError (name @ '' failed'')) (\<lambda>e. ret (Some e))
       else ret None)))"

definition EngineBuilderAddBuiltinOrderValidation where
  "EngineBuilderAddBuiltinOrderValidation x b gid =
     addBuiltin x b (AddOrderValidation gid) ''openpit_engine_builder_add_builtin_order_validation_policy''"

definition EngineBuilderAddBuiltinRateLimit where
  "EngineBuilderAddBuiltinRateLimit x b gid broker assets accounts accountAssets =
     addBuiltin x b (AddRateLimit gid broker (sliceArg assets) (sliceArg accounts) (sliceArg accountAssets))
       ''openpit_engine_builder_add_builtin_rate_limit_policy''"

definition EngineBuilderAddBuiltinOrderSizeLimit where
  "EngineBuilderAddBuiltinOrderSizeLimit x b gid broker assets accountAssets =
     addBuiltin x b (AddOrderSizeLimit gid broker (sliceArg assets) (sliceArg accountAssets))
       ''openpit_engine_builder_add_builtin_order_size_limit_policy''"

definition EngineBuilderAddBuiltinPnlBoundsKillSwitch where
  "EngineBuilderAddBuiltinPnlBoundsKillSwitch x b gid brokers accounts =
     addBuiltin x b (AddPnlBoundsKillSwitch gid (sliceArg brokers) (sliceArg accounts))
       ''openpit_engine_builder_add_builtin_pnl_bounds_killswitch_policy''"

definition EngineBuilderAddBuiltinSpotFunds where
  "EngineBuilderAddBuiltinSpotFunds x b service slippage source overrides gid =
     addBuiltin x b (AddSpotFunds service slippage source (sliceArg overrides) gid)
       ''openpit_engine_builder_add_builtin_spot_funds_policy''"

definition EngineBuilderAddBuiltinSpotFundsPnlBoundsKillSwitch where
  "EngineBuilderAddBuiltinSpotFundsPnlBoundsKillSwitch x b service gid barrier groups accounts =
     addBuiltin x b (AddSpotFundsPnlBoundsKillSwitch service gid barrier (sliceArg groups) (sliceArg accounts))
       ''openpit_engine_builder_add_builtin_spot_funds_pnl_bounds_killswitch_policy''"

section \<open>Order validation\<close>

definition DefaultPolicyGroupID :: "16 word" where "DefaultPolicyGroupID = 0"

record orderValidationBuilder = ovb_policyGroupID :: "16 word"

definition BuildOrderValidation :: orderValidationBuilder where
  "BuildOrderValidation = \<lparr>ovb_policyGroupID = DefaultPolicyGroupID\<rparr>"

definition OrderValidation_PolicyGroupID :: "16 word \<Rightarrow> orderValidationBuilder \<Rightarrow> orderValidationBuilder" where
  "OrderValidation_PolicyGroupID gid b = b\<lparr>ovb_policyGroupID := gid\<rparr>"

definition OrderValidation_Build :: "'e nativePolicies \<Rightarrow> nat option \<Rightarrow> orderValidationBuilder \<Rightarrow> ('e owned, err) go" where
  "OrderValidation_Build x h b = EngineBuilderAddBuiltinOrderValidation x h (ovb_policyGroupID b)"

section \<open>Rate limit\<close>

text \<open>No code ever sets \<^verbatim>\<open>err\<close>; every method looks at it first.\<close>

record rateLimitBuilder =
  rtb_broker :: "cRateLimit option"
  rtb_assetBarriers :: "cRateAsset list"
  rtb_assetBarrierSettlementAssets :: "asset list"
  rtb_accountBarriers :: "cRateAccount list"
  rtb_accountAssetBarriers :: "cRateAccountAsset list"
  rtb_accountAssetBarrierSettlementAssets :: "asset list"
  rtb_policyGroupID :: "16 word"
  rtb_err :: err

definition BuildRateLimit :: rateLimitBuilder where
  "BuildRateLimit = \<lparr>rtb_broker = None, rtb_assetBarriers = [], rtb_assetBarrierSettlementAssets = [],
     rtb_accountBarriers = [], rtb_accountAssetBarriers = [], rtb_accountAssetBarrierSettlementAssets = [],
     rtb_policyGroupID = DefaultPolicyGroupID, rtb_err = None\<rparr>"

definition RateLimit_PolicyGroupID :: "16 word \<Rightarrow> rateLimitBuilder \<Rightarrow> rateLimitBuilder" where
  "RateLimit_PolicyGroupID gid b = b\<lparr>rtb_policyGroupID := gid\<rparr>"

definition RateLimit_BrokerBarrier :: "rateLimit \<Rightarrow> rateLimitBuilder \<Rightarrow> rateLimitBuilder" where
  "RateLimit_BrokerBarrier l b = (if rtb_err b \<noteq> None then b else b\<lparr>rtb_broker := Some (nativeRateLimit l)\<rparr>)"

definition RateLimit_AssetBarriers :: "rateAssetBarrier list \<Rightarrow> rateLimitBuilder \<Rightarrow> rateLimitBuilder" where
  "RateLimit_AssetBarriers barriers b = (if rtb_err b \<noteq> None then b
     else fold (\<lambda>barrier b. b\<lparr>rtb_assetBarriers := rtb_assetBarriers b @ [nativeRateAsset barrier],
       rtb_assetBarrierSettlementAssets := rtb_assetBarrierSettlementAssets b @ [ra_SettlementAsset barrier]\<rparr>) barriers b)"

definition RateLimit_AccountBarriers :: "rateAccountBarrier list \<Rightarrow> rateLimitBuilder \<Rightarrow> rateLimitBuilder" where
  "RateLimit_AccountBarriers barriers b = (if rtb_err b \<noteq> None then b
     else fold (\<lambda>barrier b. b\<lparr>rtb_accountBarriers := rtb_accountBarriers b @ [nativeRateAccount barrier]\<rparr>) barriers b)"

definition RateLimit_AccountAssetBarriers :: "rateAccountAssetBarrier list \<Rightarrow> rateLimitBuilder \<Rightarrow> rateLimitBuilder" where
  "RateLimit_AccountAssetBarriers barriers b = (if rtb_err b \<noteq> None then b
     else fold (\<lambda>barrier b. b\<lparr>rtb_accountAssetBarriers := rtb_accountAssetBarriers b @ [nativeRateAccountAsset barrier],
       rtb_accountAssetBarrierSettlementAssets := rtb_accountAssetBarrierSettlementAssets b @ [rx_SettlementAsset barrier]\<rparr>)
       barriers b)"

definition RateLimit_Build :: "'e nativePolicies \<Rightarrow> nat option \<Rightarrow> rateLimitBuilder \<Rightarrow> ('e owned, err) go" where
  "RateLimit_Build x h b = (if rtb_err b \<noteq> None then ret (rtb_err b)
     else EngineBuilderAddBuiltinRateLimit x h (rtb_policyGroupID b) (rtb_broker b) (rtb_assetBarriers b)
       (rtb_accountBarriers b) (rtb_accountAssetBarriers b))"

section \<open>Order size limit\<close>

record sizeLimitBuilder =
  szb_broker :: "cSizeLimit option"
  szb_assetBarriers :: "cSizeAsset list"
  szb_assetBarrierAssets :: "asset list"
  szb_accountAssetBarriers :: "cSizeAccountAsset list"
  szb_accountAssetBarrierAssets :: "asset list"
  szb_policyGroupID :: "16 word"

definition BuildOrderSizeLimit :: sizeLimitBuilder where
  "BuildOrderSizeLimit = \<lparr>szb_broker = None, szb_assetBarriers = [], szb_assetBarrierAssets = [],
     szb_accountAssetBarriers = [], szb_accountAssetBarrierAssets = [], szb_policyGroupID = DefaultPolicyGroupID\<rparr>"

definition SizeLimit_PolicyGroupID :: "16 word \<Rightarrow> sizeLimitBuilder \<Rightarrow> sizeLimitBuilder" where
  "SizeLimit_PolicyGroupID gid b = b\<lparr>szb_policyGroupID := gid\<rparr>"

definition SizeLimit_BrokerBarrier :: "sizeLimit \<Rightarrow> sizeLimitBuilder \<Rightarrow> sizeLimitBuilder" where
  "SizeLimit_BrokerBarrier l b = b\<lparr>szb_broker := Some (nativeSizeLimit l)\<rparr>"

definition SizeLimit_AssetBarriers :: "sizeAssetBarrier list \<Rightarrow> sizeLimitBuilder \<Rightarrow> sizeLimitBuilder" where
  "SizeLimit_AssetBarriers barriers b =
     fold (\<lambda>barrier b. b\<lparr>szb_assetBarriers := szb_assetBarriers b @ [nativeSizeAsset barrier],
       szb_assetBarrierAssets := szb_assetBarrierAssets b @ [sa_Asset barrier]\<rparr>) barriers b"

definition SizeLimit_AccountAssetBarriers :: "sizeAccountAssetBarrier list \<Rightarrow> sizeLimitBuilder \<Rightarrow> sizeLimitBuilder" where
  "SizeLimit_AccountAssetBarriers barriers b =
     fold (\<lambda>barrier b. b\<lparr>szb_accountAssetBarriers := szb_accountAssetBarriers b @ [nativeSizeAccountAsset barrier],
       szb_accountAssetBarrierAssets := szb_accountAssetBarrierAssets b @ [sx_Asset barrier]\<rparr>) barriers b"

definition SizeLimit_Build :: "'e nativePolicies \<Rightarrow> nat option \<Rightarrow> sizeLimitBuilder \<Rightarrow> ('e owned, err) go" where
  "SizeLimit_Build x h b = EngineBuilderAddBuiltinOrderSizeLimit x h (szb_policyGroupID b) (szb_broker b)
     (szb_assetBarriers b) (szb_accountAssetBarriers b)"

section \<open>P\&L bounds kill switch\<close>

record boundsBuilder =
  bdb_brokerBarriers :: "cPnlBounds list"
  bdb_brokerBarrierSettlementAssets :: "asset list"
  bdb_accountBarriers :: "cAccountBounds list"
  bdb_accountBarrierSettlementAssets :: "asset list"
  bdb_policyGroupID :: "16 word"

definition BuildPnlBoundsKillSwitch :: boundsBuilder where
  "BuildPnlBoundsKillSwitch = \<lparr>bdb_brokerBarriers = [], bdb_brokerBarrierSettlementAssets = [], bdb_accountBarriers = [],
     bdb_accountBarrierSettlementAssets = [], bdb_policyGroupID = DefaultPolicyGroupID\<rparr>"

definition PnlBounds_PolicyGroupID :: "16 word \<Rightarrow> boundsBuilder \<Rightarrow> boundsBuilder" where
  "PnlBounds_PolicyGroupID gid b = b\<lparr>bdb_policyGroupID := gid\<rparr>"

definition PnlBounds_BrokerBarriers :: "boundsBarrier list \<Rightarrow> boundsBuilder \<Rightarrow> boundsBuilder" where
  "PnlBounds_BrokerBarriers barriers b =
     fold (\<lambda>barrier b. b\<lparr>bdb_brokerBarriers := bdb_brokerBarriers b @ [nativeBounds barrier],
       bdb_brokerBarrierSettlementAssets := bdb_brokerBarrierSettlementAssets b @ [bb_Asset barrier]\<rparr>) barriers b"

definition PnlBounds_AccountBarriers :: "accountBoundsBarrier list \<Rightarrow> boundsBuilder \<Rightarrow> boundsBuilder" where
  "PnlBounds_AccountBarriers barriers b =
     fold (\<lambda>barrier b. b\<lparr>bdb_accountBarriers := bdb_accountBarriers b @ [nativeAccountBounds barrier],
       bdb_accountBarrierSettlementAssets := bdb_accountBarrierSettlementAssets b @ [bb_Asset (ab_Barrier barrier)]\<rparr>) barriers b"

definition PnlBounds_Build :: "'e nativePolicies \<Rightarrow> nat option \<Rightarrow> boundsBuilder \<Rightarrow> ('e owned, err) go" where
  "PnlBounds_Build x h b = EngineBuilderAddBuiltinPnlBoundsKillSwitch x h (bdb_policyGroupID b)
     (bdb_brokerBarriers b) (bdb_accountBarriers b)"

section \<open>Spot funds\<close>

text \<open>
  An override target is a value of one of three struct types or a pointer to one, which may be
  nil, or no value at all; another package can still make one of its own by embedding.
\<close>

datatype overrideTarget =
    NilTarget
  | TargetInstrument instrumentID | TargetInstrumentPtr "instrumentID option"
  | TargetInstrumentAccount instrumentID accountID | TargetInstrumentAccountPtr "(instrumentID \<times> accountID) option"
  | TargetInstrumentAccountGroup instrumentID accountGroupID
  | TargetInstrumentAccountGroupPtr "(instrumentID \<times> accountGroupID) option"
  | ForeignTarget string

datatype targetError = TargetIsNil | UnsupportedTarget string

definition NewNativeSpotFundsOverride :: "overrideTarget \<Rightarrow> 16 word option \<Rightarrow> targetError + cOverride" where
  "NewNativeSpotFundsOverride target slippage = (case target of
     TargetInstrument i \<Rightarrow> Inr (NewPretradePoliciesSpotFundsOverride i None None slippage)
   | TargetInstrumentPtr p \<Rightarrow> (case p of None \<Rightarrow> Inl TargetIsNil
       | Some i \<Rightarrow> Inr (NewPretradePoliciesSpotFundsOverride i None None slippage))
   | TargetInstrumentAccount i a \<Rightarrow> Inr (NewPretradePoliciesSpotFundsOverride i (Some a) None slippage)
   | TargetInstrumentAccountPtr p \<Rightarrow> (case p of None \<Rightarrow> Inl TargetIsNil
       | Some (i, a) \<Rightarrow> Inr (NewPretradePoliciesSpotFundsOverride i (Some a) None slippage))
   | TargetInstrumentAccountGroup i g \<Rightarrow> Inr (NewPretradePoliciesSpotFundsOverride i None (Some (grp_native g)) slippage)
   | TargetInstrumentAccountGroupPtr p \<Rightarrow> (case p of None \<Rightarrow> Inl TargetIsNil
       | Some (i, g) \<Rightarrow> Inr (NewPretradePoliciesSpotFundsOverride i None (Some (grp_native g)) slippage))
   | NilTarget \<Rightarrow> Inl TargetIsNil
   | ForeignTarget name \<Rightarrow> Inl (UnsupportedTarget name))"

record overrideEntry =
  oe_Target :: overrideTarget
  oe_SlippageBps :: "16 word option"

text \<open>The loop over the overrides, which stops at the first bad target with its index.\<close>

fun nativeOverrides :: "nat \<Rightarrow> overrideEntry list \<Rightarrow> (nat \<times> targetError) + cOverride list" where
  "nativeOverrides i [] = Inr []"
| "nativeOverrides i (e # es) = (case NewNativeSpotFundsOverride (oe_Target e) (oe_SlippageBps e) of
     Inl err \<Rightarrow> Inl (i, err)
   | Inr o1 \<Rightarrow> (case nativeOverrides (i + 1) es of Inl err \<Rightarrow> Inl err | Inr os \<Rightarrow> Inr (o1 # os)))"

text \<open>
  A builder refers to a market-data service, whose state is looked up when the policy is built;
  \<open>marketData\<close> is the pointer.
\<close>

record spotFundsBuilder =
  sfb_marketData :: "nat option"
  sfb_marketSlippageBps :: "16 word option"
  sfb_pricingSource :: "8 word"
  sfb_overrides :: "overrideEntry list"
  sfb_policyGroupID :: "16 word"

definition BuildSpotFunds :: spotFundsBuilder where
  "BuildSpotFunds = \<lparr>sfb_marketData = None, sfb_marketSlippageBps = None, sfb_pricingSource = 0, sfb_overrides = [],
     sfb_policyGroupID = DefaultPolicyGroupID\<rparr>"

definition SpotFunds_WithMarketOrders :: "nat option \<Rightarrow> 16 word \<Rightarrow> spotFundsBuilder \<Rightarrow> spotFundsBuilder" where
  "SpotFunds_WithMarketOrders s slippage b = b\<lparr>sfb_marketData := s, sfb_marketSlippageBps := Some slippage\<rparr>"

definition SpotFunds_PricingSource :: "8 word \<Rightarrow> spotFundsBuilder \<Rightarrow> spotFundsBuilder" where
  "SpotFunds_PricingSource source b = b\<lparr>sfb_pricingSource := source\<rparr>"

definition SpotFunds_Overrides :: "overrideEntry list \<Rightarrow> spotFundsBuilder \<Rightarrow> spotFundsBuilder" where
  "SpotFunds_Overrides overrides b = b\<lparr>sfb_overrides := overrides\<rparr>"

definition SpotFunds_PolicyGroupID :: "16 word \<Rightarrow> spotFundsBuilder \<Rightarrow> spotFundsBuilder" where
  "SpotFunds_PolicyGroupID gid b = b\<lparr>sfb_policyGroupID := gid\<rparr>"

datatype policyError = PolicyMarketError marketError | PolicyOverrideError nat targetError | PolicyAddError go_error

text \<open>
  \<open>withClone\<close> is how both spot-funds policies start: a clone of the service, released on every
  way out.
\<close>

definition withClone ::
    "'e nativeMarket \<Rightarrow> (nat \<Rightarrow> service) \<Rightarrow> nat option \<Rightarrow> (nat option \<Rightarrow> ('i, 'e, policyError option) market)
      \<Rightarrow> ('i, 'e, policyError option) market" where
  "withClone m services s body = (case s of
     None \<Rightarrow> body None
   | Some p \<Rightarrow> bind (cloneHandle m (services p)) (\<lambda>(h, e). case e of
       Some err \<Rightarrow> ret (Some (PolicyMarketError err))
     | None \<Rightarrow> deferring (body h) (release KMarketData h)))"

definition SpotFunds_Build ::
    "'e nativeMarket \<Rightarrow> ('i, 'e) marketEnv nativePolicies \<Rightarrow> (nat \<Rightarrow> service) \<Rightarrow> nat option \<Rightarrow> spotFundsBuilder
      \<Rightarrow> ('i, 'e, policyError option) market" where
  "SpotFunds_Build m x services h b = withClone m services (sfb_marketData b) (\<lambda>service.
     case (if length (sfb_overrides b) > 0 then nativeOverrides 0 (sfb_overrides b) else Inr []) of
       Inl (i, e) \<Rightarrow> ret (Some (PolicyOverrideError i e))
     | Inr overrides \<Rightarrow> bind (EngineBuilderAddBuiltinSpotFunds x h service (sfb_marketSlippageBps b) (sfb_pricingSource b)
         overrides (sfb_policyGroupID b)) (\<lambda>e. ret (map_option PolicyAddError e)))"

section \<open>Spot funds P\&L bounds kill switch\<close>

text \<open>
  The barrier of one account is an \<open>accountBoundsUpdate\<close> again: a barrier and an account, and
  the same in C.
\<close>

record spotBoundsBuilder =
  sbb_marketData :: "nat option"
  sbb_globalBarrier :: "cPnlBounds option"
  sbb_accountGroupBarriers :: "cGroupBounds list"
  sbb_accountBarriers :: "cAccountBoundsUpdate list"
  sbb_globalBarrierCurrency :: asset
  sbb_accountGroupCurrencies :: "asset list"
  sbb_accountCurrencies :: "asset list"
  sbb_policyGroupID :: "16 word"

definition BuildSpotFundsPnlBoundsKillSwitch :: spotBoundsBuilder where
  "BuildSpotFundsPnlBoundsKillSwitch = \<lparr>sbb_marketData = None, sbb_globalBarrier = None, sbb_accountGroupBarriers = [],
     sbb_accountBarriers = [], sbb_globalBarrierCurrency = None, sbb_accountGroupCurrencies = [],
     sbb_accountCurrencies = [], sbb_policyGroupID = DefaultPolicyGroupID\<rparr>"

definition SpotBounds_WithMarketData :: "nat option \<Rightarrow> spotBoundsBuilder \<Rightarrow> spotBoundsBuilder" where
  "SpotBounds_WithMarketData s b = b\<lparr>sbb_marketData := s\<rparr>"

definition SpotBounds_PolicyGroupID :: "16 word \<Rightarrow> spotBoundsBuilder \<Rightarrow> spotBoundsBuilder" where
  "SpotBounds_PolicyGroupID gid b = b\<lparr>sbb_policyGroupID := gid\<rparr>"

definition SpotBounds_GlobalBarrier :: "boundsBarrier \<Rightarrow> spotBoundsBuilder \<Rightarrow> spotBoundsBuilder" where
  "SpotBounds_GlobalBarrier barrier b =
     b\<lparr>sbb_globalBarrier := Some (nativeBounds barrier), sbb_globalBarrierCurrency := bb_Asset barrier\<rparr>"

definition SpotBounds_AccountGroupBarriers :: "groupBoundsBarrier list \<Rightarrow> spotBoundsBuilder \<Rightarrow> spotBoundsBuilder" where
  "SpotBounds_AccountGroupBarriers barriers b =
     fold (\<lambda>barrier b. b\<lparr>sbb_accountGroupBarriers := sbb_accountGroupBarriers b @ [nativeGroupBounds barrier],
       sbb_accountGroupCurrencies := sbb_accountGroupCurrencies b @ [bb_Asset (gb_Barrier barrier)]\<rparr>) barriers b"

definition SpotBounds_AccountBarriers :: "accountBoundsUpdate list \<Rightarrow> spotBoundsBuilder \<Rightarrow> spotBoundsBuilder" where
  "SpotBounds_AccountBarriers barriers b =
     fold (\<lambda>barrier b. b\<lparr>sbb_accountBarriers := sbb_accountBarriers b @ [nativeAccountBoundsUpdate barrier],
       sbb_accountCurrencies := sbb_accountCurrencies b @ [bb_Asset (au_Barrier barrier)]\<rparr>) barriers b"

definition SpotBounds_Build ::
    "'e nativeMarket \<Rightarrow> ('i, 'e) marketEnv nativePolicies \<Rightarrow> (nat \<Rightarrow> service) \<Rightarrow> nat option \<Rightarrow> spotBoundsBuilder
      \<Rightarrow> ('i, 'e, policyError option) market" where
  "SpotBounds_Build m x services h b = withClone m services (sbb_marketData b) (\<lambda>service.
     bind (EngineBuilderAddBuiltinSpotFundsPnlBoundsKillSwitch x h service (sbb_policyGroupID b) (sbb_globalBarrier b)
       (sbb_accountGroupBarriers b) (sbb_accountBarriers b)) (\<lambda>e. ret (map_option PolicyAddError e)))"

end
