(* ===== verification/Policy_Facts.thy ===== *)
theory Policy_Facts
  imports Policy_Settings Market_Facts
begin

text \<open>
  What the policy builders promise: every asset a C struct points into is kept, the native
  library gets exactly the settings given, and the clone of a market-data service is released
  on every way out of the build.
\<close>

section \<open>Barriers and the assets they point into\<close>

text \<open>
  An axis of barriers is collected twice, as C structs with a view of the asset of each, and as
  the assets themselves.
\<close>

definition covered :: "stringView list \<Rightarrow> asset list \<Rightarrow> bool" where
  "covered views assets \<longleftrightarrow> (\<forall>v \<in> set views. \<exists>a \<in> set assets. assetBuffers v \<subseteq> assetBuffers a)"

locale barrier_axis =
  fixes native :: "'b \<Rightarrow> 'n"
    and asset :: "'b \<Rightarrow> asset"
    and view :: "'n \<Rightarrow> stringView"
  assumes view_law: "view (native b) = importString (asset b)"
begin

lemma views_covered: "covered (map view (map native bs)) (map asset bs)"
  by (auto simp: covered_def view_law importString_def)

lemma views_text: "map StringView_Safe (map view (map native bs)) = map Asset_Unsafe (map asset bs)"
  by (simp add: view_law)

end

interpretation rate_assets: barrier_axis nativeRateAsset ra_SettlementAsset cra_settlement_asset
  by unfold_locales (simp add: nativeRateAsset_def)

interpretation rate_account_assets: barrier_axis nativeRateAccountAsset rx_SettlementAsset crb_settlement_asset
  by unfold_locales (simp add: nativeRateAccountAsset_def)

interpretation size_assets: barrier_axis nativeSizeAsset sa_Asset cza_asset
  by unfold_locales (simp add: nativeSizeAsset_def)

interpretation size_account_assets: barrier_axis nativeSizeAccountAsset sx_Asset czb_asset
  by unfold_locales (simp add: nativeSizeAccountAsset_def)

interpretation bounds: barrier_axis nativeBounds bb_Asset cb_asset
  by unfold_locales (simp add: nativeBounds_def)

interpretation account_bounds: barrier_axis nativeAccountBounds "\<lambda>b. bb_Asset (ab_Barrier b)" "\<lambda>n. cb_asset (cab_bounds n)"
  by unfold_locales (simp add: nativeAccountBounds_def bounds.view_law)

interpretation group_bounds: barrier_axis nativeGroupBounds "\<lambda>b. bb_Asset (gb_Barrier b)" "\<lambda>n. cb_asset (cgb_barrier n)"
  by unfold_locales (simp add: nativeGroupBounds_def bounds.view_law)

interpretation account_updates: barrier_axis nativeAccountBoundsUpdate "\<lambda>b. bb_Asset (au_Barrier b)"
    "\<lambda>n. cb_asset (cau_bounds n)"
  by unfold_locales (simp add: nativeAccountBoundsUpdate_def bounds.view_law)

section \<open>What a caller gives a builder\<close>

text \<open>The calls on a builder in order; \<open>given\<close> and \<open>latest\<close> read off what they ask for.\<close>

datatype rateCall =
    RateGroup "16 word" | RateBroker rateLimit | RateAssets "rateAssetBarrier list"
  | RateAccounts "rateAccountBarrier list" | RateAccountAssets "rateAccountAssetBarrier list"

fun runRate :: "rateCall \<Rightarrow> rateLimitBuilder \<Rightarrow> rateLimitBuilder" where
  "runRate (RateGroup g) b = RateLimit_PolicyGroupID g b"
| "runRate (RateBroker l) b = RateLimit_BrokerBarrier l b"
| "runRate (RateAssets bs) b = RateLimit_AssetBarriers bs b"
| "runRate (RateAccounts bs) b = RateLimit_AccountBarriers bs b"
| "runRate (RateAccountAssets bs) b = RateLimit_AccountAssetBarriers bs b"

datatype sizeCall =
    SizeGroup "16 word" | SizeBroker sizeLimit | SizeAssets "sizeAssetBarrier list"
  | SizeAccountAssets "sizeAccountAssetBarrier list"

fun runSize :: "sizeCall \<Rightarrow> sizeLimitBuilder \<Rightarrow> sizeLimitBuilder" where
  "runSize (SizeGroup g) b = SizeLimit_PolicyGroupID g b"
| "runSize (SizeBroker l) b = SizeLimit_BrokerBarrier l b"
| "runSize (SizeAssets bs) b = SizeLimit_AssetBarriers bs b"
| "runSize (SizeAccountAssets bs) b = SizeLimit_AccountAssetBarriers bs b"

datatype boundsCall =
    BoundsGroup "16 word" | BoundsBrokers "boundsBarrier list" | BoundsAccounts "accountBoundsBarrier list"

fun runBounds :: "boundsCall \<Rightarrow> boundsBuilder \<Rightarrow> boundsBuilder" where
  "runBounds (BoundsGroup g) b = PnlBounds_PolicyGroupID g b"
| "runBounds (BoundsBrokers bs) b = PnlBounds_BrokerBarriers bs b"
| "runBounds (BoundsAccounts bs) b = PnlBounds_AccountBarriers bs b"

datatype spotBoundsCall =
    SpotMarketData "nat option" | SpotGroup "16 word" | SpotGlobal boundsBarrier
  | SpotGroups "groupBoundsBarrier list" | SpotAccounts "accountBoundsUpdate list"

fun runSpotBounds :: "spotBoundsCall \<Rightarrow> spotBoundsBuilder \<Rightarrow> spotBoundsBuilder" where
  "runSpotBounds (SpotMarketData s) b = SpotBounds_WithMarketData s b"
| "runSpotBounds (SpotGroup g) b = SpotBounds_PolicyGroupID g b"
| "runSpotBounds (SpotGlobal l) b = SpotBounds_GlobalBarrier l b"
| "runSpotBounds (SpotGroups bs) b = SpotBounds_AccountGroupBarriers bs b"
| "runSpotBounds (SpotAccounts bs) b = SpotBounds_AccountBarriers bs b"

definition given :: "('c \<Rightarrow> 'b list) \<Rightarrow> 'c list \<Rightarrow> 'b list" where
  "given f cs = concat (map f cs)"

definition latest :: "('c \<Rightarrow> 'v option) \<Rightarrow> 'v \<Rightarrow> 'c list \<Rightarrow> 'v" where
  "latest f v cs = fold (\<lambda>c v. case f c of None \<Rightarrow> v | Some u \<Rightarrow> u) cs v"

lemma given_simps [simp]: "given f [] = []" "given f (cs @ [c]) = given f cs @ f c"
  by (simp_all add: given_def)

lemma latest_simps [simp]: "latest f v [] = v"
  "latest f v (cs @ [c]) = (case f c of None \<Rightarrow> latest f v cs | Some u \<Rightarrow> u)"
  by (cases "f c"; simp add: latest_def)+

section \<open>The state of a builder\<close>

named_theorems collected \<open>the loops that collect barriers\<close>

lemma rate_AssetBarriers [collected]: "RateLimit_AssetBarriers bs b = (if rtb_err b \<noteq> None then b else b\<lparr>rtb_assetBarriers := rtb_assetBarriers b @ map nativeRateAsset bs, rtb_assetBarrierSettlementAssets := rtb_assetBarrierSettlementAssets b @ map ra_SettlementAsset bs\<rparr>)"
  unfolding RateLimit_AssetBarriers_def by (cases "rtb_err b", induction bs arbitrary: b) simp_all

lemma rate_AccountBarriers [collected]: "RateLimit_AccountBarriers bs b = (if rtb_err b \<noteq> None then b else b\<lparr>rtb_accountBarriers := rtb_accountBarriers b @ map nativeRateAccount bs\<rparr>)"
  unfolding RateLimit_AccountBarriers_def by (cases "rtb_err b", induction bs arbitrary: b) simp_all

lemma rate_AccountAssetBarriers [collected]: "RateLimit_AccountAssetBarriers bs b = (if rtb_err b \<noteq> None then b else b\<lparr>rtb_accountAssetBarriers := rtb_accountAssetBarriers b @ map nativeRateAccountAsset bs, rtb_accountAssetBarrierSettlementAssets := rtb_accountAssetBarrierSettlementAssets b @ map rx_SettlementAsset bs\<rparr>)"
  unfolding RateLimit_AccountAssetBarriers_def by (cases "rtb_err b", induction bs arbitrary: b) simp_all

lemma size_AssetBarriers [collected]: "SizeLimit_AssetBarriers bs b = b\<lparr>szb_assetBarriers := szb_assetBarriers b @ map nativeSizeAsset bs, szb_assetBarrierAssets := szb_assetBarrierAssets b @ map sa_Asset bs\<rparr>"
  unfolding SizeLimit_AssetBarriers_def by (induction bs arbitrary: b) simp_all

lemma size_AccountAssetBarriers [collected]: "SizeLimit_AccountAssetBarriers bs b = b\<lparr>szb_accountAssetBarriers := szb_accountAssetBarriers b @ map nativeSizeAccountAsset bs, szb_accountAssetBarrierAssets := szb_accountAssetBarrierAssets b @ map sx_Asset bs\<rparr>"
  unfolding SizeLimit_AccountAssetBarriers_def by (induction bs arbitrary: b) simp_all

lemma bounds_BrokerBarriers [collected]: "PnlBounds_BrokerBarriers bs b = b\<lparr>bdb_brokerBarriers := bdb_brokerBarriers b @ map nativeBounds bs, bdb_brokerBarrierSettlementAssets := bdb_brokerBarrierSettlementAssets b @ map bb_Asset bs\<rparr>"
  unfolding PnlBounds_BrokerBarriers_def by (induction bs arbitrary: b) simp_all

lemma bounds_AccountBarriers [collected]: "PnlBounds_AccountBarriers bs b = b\<lparr>bdb_accountBarriers := bdb_accountBarriers b @ map nativeAccountBounds bs, bdb_accountBarrierSettlementAssets := bdb_accountBarrierSettlementAssets b @ map (\<lambda>b. bb_Asset (ab_Barrier b)) bs\<rparr>"
  unfolding PnlBounds_AccountBarriers_def by (induction bs arbitrary: b) simp_all

lemma spotBounds_AccountGroupBarriers [collected]: "SpotBounds_AccountGroupBarriers bs b = b\<lparr>sbb_accountGroupBarriers := sbb_accountGroupBarriers b @ map nativeGroupBounds bs, sbb_accountGroupCurrencies := sbb_accountGroupCurrencies b @ map (\<lambda>b. bb_Asset (gb_Barrier b)) bs\<rparr>"
  unfolding SpotBounds_AccountGroupBarriers_def by (induction bs arbitrary: b) simp_all

lemma spotBounds_AccountBarriers [collected]: "SpotBounds_AccountBarriers bs b = b\<lparr>sbb_accountBarriers := sbb_accountBarriers b @ map nativeAccountBoundsUpdate bs, sbb_accountCurrencies := sbb_accountCurrencies b @ map (\<lambda>b. bb_Asset (au_Barrier b)) bs\<rparr>"
  unfolding SpotBounds_AccountBarriers_def by (induction bs arbitrary: b) simp_all


lemmas builder_steps = RateLimit_PolicyGroupID_def RateLimit_BrokerBarrier_def SizeLimit_PolicyGroupID_def
  SizeLimit_BrokerBarrier_def PnlBounds_PolicyGroupID_def SpotBounds_WithMarketData_def SpotBounds_PolicyGroupID_def
  SpotBounds_GlobalBarrier_def

lemma rate_state:
  "fold runRate cs BuildRateLimit =
    \<lparr>rtb_broker = latest (\<lambda>c. case c of RateBroker l \<Rightarrow> Some (Some (nativeRateLimit l)) | _ \<Rightarrow> None) None cs,
     rtb_assetBarriers = map nativeRateAsset (given (\<lambda>c. case c of RateAssets bs \<Rightarrow> bs | _ \<Rightarrow> []) cs),
     rtb_assetBarrierSettlementAssets = map ra_SettlementAsset (given (\<lambda>c. case c of RateAssets bs \<Rightarrow> bs | _ \<Rightarrow> []) cs),
     rtb_accountBarriers = map nativeRateAccount (given (\<lambda>c. case c of RateAccounts bs \<Rightarrow> bs | _ \<Rightarrow> []) cs),
     rtb_accountAssetBarriers = map nativeRateAccountAsset (given (\<lambda>c. case c of RateAccountAssets bs \<Rightarrow> bs | _ \<Rightarrow> []) cs),
     rtb_accountAssetBarrierSettlementAssets = map rx_SettlementAsset (given (\<lambda>c. case c of RateAccountAssets bs \<Rightarrow> bs | _ \<Rightarrow> []) cs),
     rtb_policyGroupID = latest (\<lambda>c. case c of RateGroup g \<Rightarrow> Some g | _ \<Rightarrow> None) DefaultPolicyGroupID cs,
     rtb_err = None\<rparr>"
proof (induction cs rule: rev_induct)
  case (snoc c cs)
  then show ?case by (cases c) (simp_all add: collected builder_steps)
qed (simp add: BuildRateLimit_def)

lemma size_state:
  "fold runSize cs BuildOrderSizeLimit =
    \<lparr>szb_broker = latest (\<lambda>c. case c of SizeBroker l \<Rightarrow> Some (Some (nativeSizeLimit l)) | _ \<Rightarrow> None) None cs,
     szb_assetBarriers = map nativeSizeAsset (given (\<lambda>c. case c of SizeAssets bs \<Rightarrow> bs | _ \<Rightarrow> []) cs),
     szb_assetBarrierAssets = map sa_Asset (given (\<lambda>c. case c of SizeAssets bs \<Rightarrow> bs | _ \<Rightarrow> []) cs),
     szb_accountAssetBarriers = map nativeSizeAccountAsset (given (\<lambda>c. case c of SizeAccountAssets bs \<Rightarrow> bs | _ \<Rightarrow> []) cs),
     szb_accountAssetBarrierAssets = map sx_Asset (given (\<lambda>c. case c of SizeAccountAssets bs \<Rightarrow> bs | _ \<Rightarrow> []) cs),
     szb_policyGroupID = latest (\<lambda>c. case c of SizeGroup g \<Rightarrow> Some g | _ \<Rightarrow> None) DefaultPolicyGroupID cs\<rparr>"
proof (induction cs rule: rev_induct)
  case (snoc c cs)
  then show ?case by (cases c) (simp_all add: collected builder_steps)
qed (simp add: BuildOrderSizeLimit_def)

lemma bounds_state:
  "fold runBounds cs BuildPnlBoundsKillSwitch =
    \<lparr>bdb_brokerBarriers = map nativeBounds (given (\<lambda>c. case c of BoundsBrokers bs \<Rightarrow> bs | _ \<Rightarrow> []) cs),
     bdb_brokerBarrierSettlementAssets = map bb_Asset (given (\<lambda>c. case c of BoundsBrokers bs \<Rightarrow> bs | _ \<Rightarrow> []) cs),
     bdb_accountBarriers = map nativeAccountBounds (given (\<lambda>c. case c of BoundsAccounts bs \<Rightarrow> bs | _ \<Rightarrow> []) cs),
     bdb_accountBarrierSettlementAssets =
       map (\<lambda>b. bb_Asset (ab_Barrier b)) (given (\<lambda>c. case c of BoundsAccounts bs \<Rightarrow> bs | _ \<Rightarrow> []) cs),
     bdb_policyGroupID = latest (\<lambda>c. case c of BoundsGroup g \<Rightarrow> Some g | _ \<Rightarrow> None) DefaultPolicyGroupID cs\<rparr>"
proof (induction cs rule: rev_induct)
  case (snoc c cs)
  then show ?case by (cases c) (simp_all add: collected builder_steps)
qed (simp add: BuildPnlBoundsKillSwitch_def)

lemma spot_bounds_state:
  "fold runSpotBounds cs BuildSpotFundsPnlBoundsKillSwitch =
    \<lparr>sbb_marketData = latest (\<lambda>c. case c of SpotMarketData s \<Rightarrow> Some s | _ \<Rightarrow> None) None cs,
     sbb_globalBarrier = latest (\<lambda>c. case c of SpotGlobal l \<Rightarrow> Some (Some (nativeBounds l)) | _ \<Rightarrow> None) None cs,
     sbb_accountGroupBarriers = map nativeGroupBounds (given (\<lambda>c. case c of SpotGroups bs \<Rightarrow> bs | _ \<Rightarrow> []) cs),
     sbb_accountBarriers = map nativeAccountBoundsUpdate (given (\<lambda>c. case c of SpotAccounts bs \<Rightarrow> bs | _ \<Rightarrow> []) cs),
     sbb_globalBarrierCurrency = latest (\<lambda>c. case c of SpotGlobal l \<Rightarrow> Some (bb_Asset l) | _ \<Rightarrow> None) None cs,
     sbb_accountGroupCurrencies = map (\<lambda>b. bb_Asset (gb_Barrier b)) (given (\<lambda>c. case c of SpotGroups bs \<Rightarrow> bs | _ \<Rightarrow> []) cs),
     sbb_accountCurrencies = map (\<lambda>b. bb_Asset (au_Barrier b)) (given (\<lambda>c. case c of SpotAccounts bs \<Rightarrow> bs | _ \<Rightarrow> []) cs),
     sbb_policyGroupID = latest (\<lambda>c. case c of SpotGroup g \<Rightarrow> Some g | _ \<Rightarrow> None) DefaultPolicyGroupID cs\<rparr>"
proof (induction cs rule: rev_induct)
  case (snoc c cs)
  then show ?case by (cases c) (simp_all add: collected builder_steps)
qed (simp add: BuildSpotFundsPnlBoundsKillSwitch_def)

text \<open>The global barrier and its currency are always those of one call.\<close>

lemma global_covered:
  "covered (case latest (\<lambda>c. case c of SpotGlobal l \<Rightarrow> Some (Some (nativeBounds l)) | _ \<Rightarrow> None) None cs of
      None \<Rightarrow> [] | Some n \<Rightarrow> [cb_asset n])
    [latest (\<lambda>c. case c of SpotGlobal l \<Rightarrow> Some (bb_Asset l) | _ \<Rightarrow> None) None cs]"
proof (induction cs rule: rev_induct)
  case (snoc c cs)
  then show ?case by (cases c) (simp_all add: covered_def bounds.view_law)
qed (simp add: covered_def)

lemma readArray_sliceArg [simp]: "readArray (sliceArg xs) = xs"
  by (simp add: readArray_def sliceArg_def)


section \<open>Spot funds\<close>

text \<open>
  What a target means, if it is one of the three types and not nil, and what C reads from an
  override: the payload its tag selects and the cap on slippage if one is set.
\<close>

fun targetMeaning :: "overrideTarget \<Rightarrow> overridePayload option" where
  "targetMeaning (TargetInstrument i) = Some (PayloadInstrument i)"
| "targetMeaning (TargetInstrumentPtr p) = map_option PayloadInstrument p"
| "targetMeaning (TargetInstrumentAccount i a) = Some (PayloadInstrumentAccount i a)"
| "targetMeaning (TargetInstrumentAccountPtr p) = map_option (\<lambda>(i, a). PayloadInstrumentAccount i a) p"
| "targetMeaning (TargetInstrumentAccountGroup i g) = Some (PayloadInstrumentAccountGroup i (grp_native g))"
| "targetMeaning (TargetInstrumentAccountGroupPtr p) = map_option (\<lambda>(i, g). PayloadInstrumentAccountGroup i (grp_native g)) p"
| "targetMeaning NilTarget = None"
| "targetMeaning (ForeignTarget name) = None"

fun tagOf :: "overridePayload \<Rightarrow> overrideTag" where
  "tagOf (PayloadInstrument _) = TagInstrument"
| "tagOf (PayloadInstrumentAccount _ _) = TagInstrumentAccount"
| "tagOf (PayloadInstrumentAccountGroup _ _) = TagInstrumentAccountGroup"

definition readOverride :: "cOverride \<Rightarrow> (overridePayload \<times> 16 word option) option" where
  "readOverride c = (if co_tag c = tagOf (co_payload c)
     then Some (co_payload c, if co_has_slippage_bps c then Some (co_slippage_bps c) else None) else None)"

lemma override_meaning:
  "case targetMeaning t of
     None \<Rightarrow> \<exists>e. NewNativeSpotFundsOverride t s = Inl e
   | Some p \<Rightarrow> \<exists>c. NewNativeSpotFundsOverride t s = Inr c \<and> readOverride c = Some (p, s)"
  by (cases t; cases s) (auto simp: NewNativeSpotFundsOverride_def NewPretradePoliciesSpotFundsOverride_def
      newPretradePoliciesSpotFundsOverride_def readOverride_def split: option.split)

definition badTarget :: "overrideEntry \<Rightarrow> bool" where
  "badTarget e \<longleftrightarrow> targetMeaning (oe_Target e) = None"

lemma bad_target: "badTarget e \<Longrightarrow> \<exists>err. NewNativeSpotFundsOverride (oe_Target e) s = Inl err"
  using override_meaning [of "oe_Target e" s] by (simp add: badTarget_def)

lemma good_target: "\<not> badTarget e \<Longrightarrow> \<exists>c. NewNativeSpotFundsOverride (oe_Target e) s = Inr c
    \<and> readOverride c = map_option (\<lambda>p. (p, s)) (targetMeaning (oe_Target e))"
  using override_meaning [of "oe_Target e" s] by (auto simp: badTarget_def)

lemma overrides_failed:
  "nativeOverrides n es = Inl (i, err) \<Longrightarrow> \<exists>k < length es. i = n + k \<and> badTarget (es ! k)
     \<and> NewNativeSpotFundsOverride (oe_Target (es ! k)) (oe_SlippageBps (es ! k)) = Inl err \<and> (\<forall>j < k. \<not> badTarget (es ! j))"
proof (induction es arbitrary: n)
  case (Cons a es)
  show ?case
  proof (cases "badTarget a")
    case True
    with bad_target [of a "oe_SlippageBps a"] Cons.prems show ?thesis by (intro exI [of _ 0]) auto
  next
    case False
    with good_target [of a "oe_SlippageBps a"] Cons.prems have "nativeOverrides (Suc n) es = Inl (i, err)"
      by (auto split: sum.splits)
    from Cons.IH [OF this] obtain k where "k < length es" "i = Suc n + k" "badTarget (es ! k)"
      "NewNativeSpotFundsOverride (oe_Target (es ! k)) (oe_SlippageBps (es ! k)) = Inl err" "\<forall>j < k. \<not> badTarget (es ! j)"
      by blast
    with False show ?thesis by (intro exI [of _ "Suc k"]) (auto simp: less_Suc_eq_0_disj)
  qed
qed simp

lemma overrides_read:
  "nativeOverrides n es = Inr cs \<Longrightarrow> list_all (\<lambda>e. \<not> badTarget e) es
     \<and> map readOverride cs = map (\<lambda>e. map_option (\<lambda>p. (p, oe_SlippageBps e)) (targetMeaning (oe_Target e))) es"
proof (induction es arbitrary: n cs)
  case (Cons a es)
  show ?case
  proof (cases "badTarget a")
    case True
    with bad_target [of a "oe_SlippageBps a"] Cons.prems show ?thesis by auto
  next
    case False
    with good_target [of a "oe_SlippageBps a"] obtain c where
      "NewNativeSpotFundsOverride (oe_Target a) (oe_SlippageBps a) = Inr c"
      "readOverride c = map_option (\<lambda>p. (p, oe_SlippageBps a)) (targetMeaning (oe_Target a))" by blast
    with Cons.prems Cons.IH [of "Suc n"] False show ?thesis by (auto split: sum.splits)
  qed
qed simp

section \<open>The native calls\<close>

definition policiesDocumented :: "'e nativePolicies \<Rightarrow> bool" where
  "policiesDocumented x \<longleftrightarrow> (\<forall>h args a. case fst (np_add x h args a) of (ok, outError) \<Rightarrow> (\<not> ok) = (outError \<noteq> None))"

lemma documented_add: "policiesDocumented x \<Longrightarrow> np_add x h args a = ((ok, outError), t) \<Longrightarrow> (\<not> ok) = (outError \<noteq> None)"
  by (drule policiesDocumented_def [THEN iffD1, THEN spec, THEN spec, THEN spec, of _ h args a]) simp

lemma add_owns:
  assumes "policiesDocumented x" and "objects [(KBuilder, h), (KMarketData, argsService args)] \<subseteq># ow_live w"
  shows "wp (addBuiltin x h args name) (\<lambda>e t. ow_live t = ow_live w \<and> ow_fault t = ow_fault w
      \<and> (e = None \<longleftrightarrow> fst (fst (np_add x h args (ow_env w)))) \<and> ow_env t = snd (np_add x h args (ow_env w))) (\<lambda>_ _. False) w"
proof -
  obtain ok outError t where c: "np_add x h args (ow_env w) = ((ok, outError), t)" by (metis prod.collapse)
  have held: "\<forall>n. h = Some n \<longrightarrow> (KBuilder, n) \<in># ow_live w" "\<forall>n. argsService args = Some n \<longrightarrow> (KMarketData, n) \<in># ow_live w"
    using assms(2) by (cases "argsService args"; cases h; auto dest: mset_subset_eqD)+
  show ?thesis
    using held documented_add [OF assms(1) c] c
    by (cases h; cases "argsService args"; cases outError) (simp_all add: addBuiltin_def wp)
qed


text \<open>
  Where a build starts that uses market data: nothing when the service is closed, otherwise the
  clone and the state after it.
\<close>

definition cloneStart ::
    "'e nativeMarket \<Rightarrow> (nat \<Rightarrow> service) \<Rightarrow> nat option \<Rightarrow> ('i, 'e) marketEnv \<Rightarrow> (nat option \<times> ('i, 'e) marketEnv) option" where
  "cloneStart m services s start = (case s of
     None \<Rightarrow> Some (None, start)
   | Some p \<Rightarrow> (case sv_handle (services p) of None \<Rightarrow> None
     | Some n \<Rightarrow> (case nm_clone m n (me_rest start) of (c, t) \<Rightarrow> Some (c, start\<lparr>me_rest := t\<rparr>))))"

lemma clone_scope:
  fixes w :: "('i, 'e) marketEnv owned"
  assumes "marketDocumented m" and "\<forall>p n. s = Some p \<longrightarrow> sv_handle (services p) = Some n \<longrightarrow> (KMarketData, n) \<in># ow_live w"
    and body: "\<And>c start v. cloneStart m services s (ow_env w) = Some (c, start) \<Longrightarrow>
      v = w\<lparr>ow_live := ow_live w + objects [(KMarketData, c)], ow_env := start\<rparr> \<Longrightarrow>
      wp (body c) (\<lambda>e t. ow_live t = ow_live v \<and> ow_fault t = ow_fault v \<and> Q e (ow_env t)) (\<lambda>_ _. False) v"
    and closed: "cloneStart m services s (ow_env w) = None \<Longrightarrow> Q (Some (PolicyMarketError (MarketSentinel ErrServiceClosed))) (ow_env w)"
  shows "wp (withClone m services s body) (\<lambda>e t. ow_live t = ow_live w \<and> ow_fault t = ow_fault w \<and> Q e (ow_env t)) (\<lambda>_ _. False) w"
proof (cases s)
  case None
  with body [of None "ow_env w"] show ?thesis by (simp add: withClone_def cloneStart_def)
next
  case (Some p)
  show ?thesis
  proof (cases "sv_handle (services p)")
    case None
    with Some closed show ?thesis by (simp add: withClone_def cloneHandle_def onService_def cloneStart_def wp)
  next
    case (Some n)
    obtain c t where clone: "nm_clone m n (me_rest (ow_env w)) = (c, t)" by fastforce
    with documented_calls(7) [OF assms(1) clone] obtain k where k: "c = Some k" by auto
    let ?v = "w\<lparr>ow_live := ow_live w + objects [(KMarketData, c)], ow_env := (ow_env w)\<lparr>me_rest := t\<rparr>\<rparr>"
    have "wp (body c) (\<lambda>e t. wp (release KMarketData c) (\<lambda>_ u. ow_live u = ow_live w \<and> ow_fault u = ow_fault w \<and> Q e (ow_env u)) (\<lambda>_ _. False) t)
        (\<lambda>p t. wp (release KMarketData c) (\<lambda>_ _. False) (\<lambda>_ _. False) t) ?v"
      by (rule wp_mono [OF body [of c "(ow_env w)\<lparr>me_rest := t\<rparr>" ?v]])
        (simp_all add: cloneStart_def \<open>s = Some p\<close> Some clone wp k)
    with \<open>s = Some p\<close> Some assms(2) clone k show ?thesis
      by (simp add: withClone_def cloneHandle_def onService_def MarketDataServiceClone_def onRest_def wp)
  qed
qed


text \<open>
  What a build with the clone \<open>c\<close> answers: the first bad target with its index, and no policy
  added; or what the native library answers, given overrides that it reads as they were asked
  for.
\<close>

definition firstBad :: "overrideEntry list \<Rightarrow> nat \<Rightarrow> targetError \<Rightarrow> bool" where
  "firstBad es i err \<longleftrightarrow> i < length es \<and> badTarget (es ! i) \<and> (\<forall>j < i. \<not> badTarget (es ! j))
     \<and> NewNativeSpotFundsOverride (oe_Target (es ! i)) (oe_SlippageBps (es ! i)) = Inl err"

definition readAs :: "cOverride list \<Rightarrow> overrideEntry list \<Rightarrow> bool" where
  "readAs cs es \<longleftrightarrow> map readOverride cs = map (\<lambda>e. map_option (\<lambda>p. (p, oe_SlippageBps e)) (targetMeaning (oe_Target e))) es"

definition addAnswer :: "'e nativePolicies \<Rightarrow> nat option \<Rightarrow> policyArgs \<Rightarrow> 'e \<Rightarrow> policyError option \<Rightarrow> 'e \<Rightarrow> bool" where
  "addAnswer x h args start e end \<longleftrightarrow> (case np_add x h args start of ((ok, _), u) \<Rightarrow>
     end = u \<and> (if ok then e = None else \<exists>err. e = Some (PolicyAddError err)))"

definition fundsAnswer ::
    "'e nativePolicies \<Rightarrow> nat option \<Rightarrow> spotFundsBuilder \<Rightarrow> nat option \<Rightarrow> 'e \<Rightarrow> policyError option \<Rightarrow> 'e \<Rightarrow> bool" where
  "fundsAnswer x h b c start e end \<longleftrightarrow>
     (if list_ex badTarget (sfb_overrides b)
      then end = start \<and> (\<exists>i err. e = Some (PolicyOverrideError i err) \<and> firstBad (sfb_overrides b) i err)
      else \<exists>os. readAs (readArray os) (sfb_overrides b)
        \<and> addAnswer x h (AddSpotFunds c (sfb_marketSlippageBps b) (sfb_pricingSource b) os (sfb_policyGroupID b)) start e end)"

lemma add_answered:
  assumes "policiesDocumented x" and "objects [(KBuilder, h), (KMarketData, argsService args)] \<subseteq># ow_live v"
  shows "wp (bind (addBuiltin x h args name) (\<lambda>e. ret (map_option PolicyAddError e)))
    (\<lambda>e t. ow_live t = ow_live v \<and> ow_fault t = ow_fault v \<and> addAnswer x h args (ow_env v) e (ow_env t)) (\<lambda>_ _. False) v"
  unfolding wp by (rule wp_mono [OF add_owns [OF assms]]) (auto simp: addAnswer_def split: prod.split)

lemma funds_body:
  assumes "policiesDocumented x" and "objects [(KBuilder, h), (KMarketData, c)] \<subseteq># ow_live v"
  shows "wp (case if length (sfb_overrides b) > 0 then nativeOverrides 0 (sfb_overrides b) else Inr [] of
         Inl (i, e) \<Rightarrow> ret (Some (PolicyOverrideError i e))
       | Inr overrides \<Rightarrow> bind (EngineBuilderAddBuiltinSpotFunds x h c (sfb_marketSlippageBps b) (sfb_pricingSource b)
           overrides (sfb_policyGroupID b)) (\<lambda>e. ret (map_option PolicyAddError e)))
    (\<lambda>e t. ow_live t = ow_live v \<and> ow_fault t = ow_fault v \<and> fundsAnswer x h b c (ow_env v) e (ow_env t)) (\<lambda>_ _. False) v"
proof -
  have empty: "(if length (sfb_overrides b) > 0 then nativeOverrides 0 (sfb_overrides b) else Inr []) = nativeOverrides 0 (sfb_overrides b)"
    by simp
  show ?thesis
  proof (cases "nativeOverrides 0 (sfb_overrides b)")
    case (Inl failure)
    obtain i err where f: "failure = (i, err)" by fastforce
    with overrides_failed [of 0 "sfb_overrides b" i err] Inl have "firstBad (sfb_overrides b) i err"
      by (auto simp: firstBad_def)
    moreover from this have "list_ex badTarget (sfb_overrides b)" by (auto simp: firstBad_def list_ex_length)
    ultimately show ?thesis unfolding empty unfolding Inl f by (simp add: wp fundsAnswer_def)
  next
    case (Inr os)
    from overrides_read [OF this] have "\<not> list_ex badTarget (sfb_overrides b)" "readAs (readArray (sliceArg os)) (sfb_overrides b)"
      by (auto simp: list_all_iff list_ex_iff readAs_def)
    then show ?thesis unfolding empty unfolding Inr EngineBuilderAddBuiltinSpotFunds_def sum.case
      by (intro wp_mono [OF add_answered [OF assms(1)]]) (use assms(2) in \<open>auto simp: fundsAnswer_def intro!: exI [of _ "sliceArg os"]\<close>)
  qed
qed

section \<open>Properties\<close>



text \<open>
  C39: a spot-funds policy is built with a clone of its market-data service.  The build never
  keeps a native object nor uses one it does not hold, whichever way it ends; on a closed service
  it makes no native call and returns \<^verbatim>\<open>ErrServiceClosed\<close>; the first override whose target is
  nil or of a foreign type ends it with that index and no policy added; otherwise the policy is
  added once, with the clone and with overrides that C reads as they were given.
\<close>

theorem spot_funds_built_with_clone:
  assumes "marketDocumented m" and "policiesDocumented x"
    and "\<forall>n. h = Some n \<longrightarrow> (KBuilder, n) \<in># ow_live w"
    and "\<forall>p n. sv_handle (services p) = Some n \<longrightarrow> (KMarketData, n) \<in># ow_live w"
  shows "wp (SpotFunds_Build m x services h b)
      (\<lambda>e t. ow_live t = ow_live w \<and> ow_fault t = ow_fault w
        \<and> (case cloneStart m services (sfb_marketData b) (ow_env w) of
            None \<Rightarrow> e = Some (PolicyMarketError (MarketSentinel ErrServiceClosed)) \<and> ow_env t = ow_env w
          | Some (c, start) \<Rightarrow> fundsAnswer x h b c start e (ow_env t))) (\<lambda>_ _. False) w
    \<and> wp (SpotBounds_Build m x services h g)
      (\<lambda>e t. ow_live t = ow_live w \<and> ow_fault t = ow_fault w
        \<and> (case cloneStart m services (sbb_marketData g) (ow_env w) of
            None \<Rightarrow> e = Some (PolicyMarketError (MarketSentinel ErrServiceClosed)) \<and> ow_env t = ow_env w
          | Some (c, start) \<Rightarrow> addAnswer x h (AddSpotFundsPnlBoundsKillSwitch c (sbb_policyGroupID g) (sbb_globalBarrier g)
                (sliceArg (sbb_accountGroupBarriers g)) (sliceArg (sbb_accountBarriers g))) start e (ow_env t))) (\<lambda>_ _. False) w"
    (is "?funds \<and> ?bounds")
proof
  have held: "objects [(KBuilder, h), (KMarketData, c)] \<subseteq># ow_live w + objects [(KMarketData, c)]" for c
    using assms(3) by (cases h; cases c) (simp_all add: insert_subset_eq_iff)
  note services = assms(4) [rule_format]
  show ?funds unfolding SpotFunds_Build_def
  proof (rule clone_scope [OF assms(1)])
    fix c start and v :: "('b, 'a) marketEnv owned"
    assume "cloneStart m services (sfb_marketData b) (ow_env w) = Some (c, start)"
      and "v = w\<lparr>ow_live := ow_live w + objects [(KMarketData, c)], ow_env := start\<rparr>"
    with funds_body [OF assms(2), of h c v b] held show "wp (case if length (sfb_overrides b) > 0 then nativeOverrides 0 (sfb_overrides b) else Inr [] of
         Inl (i, e) \<Rightarrow> ret (Some (PolicyOverrideError i e))
       | Inr overrides \<Rightarrow> bind (EngineBuilderAddBuiltinSpotFunds x h c (sfb_marketSlippageBps b) (sfb_pricingSource b)
           overrides (sfb_policyGroupID b)) (\<lambda>e. ret (map_option PolicyAddError e)))
      (\<lambda>e t. ow_live t = ow_live v \<and> ow_fault t = ow_fault v \<and> (case cloneStart m services (sfb_marketData b) (ow_env w) of
            None \<Rightarrow> e = Some (PolicyMarketError (MarketSentinel ErrServiceClosed)) \<and> ow_env t = ow_env w
          | Some (c, start) \<Rightarrow> fundsAnswer x h b c start e (ow_env t))) (\<lambda>_ _. False) v" by simp
  qed (use services in auto)
  show ?bounds unfolding SpotBounds_Build_def EngineBuilderAddBuiltinSpotFundsPnlBoundsKillSwitch_def
    by (rule clone_scope [OF assms(1)], use services in blast, rule wp_mono [OF add_answered [OF assms(2)]])
      (use held in auto)
qed


section \<open>Examples\<close>

text \<open>A library that accepts every policy, and a builder whose second override has a nil target.\<close>

definition samplePolicies :: "'e nativePolicies" where
  "samplePolicies = \<lparr>np_add = (\<lambda>_ _ a. ((True, None), a)), np_string = (\<lambda>_ _. [])\<rparr>"

definition sampleFunds :: spotFundsBuilder where
  "sampleFunds = SpotFunds_Overrides [\<lparr>oe_Target = TargetInstrument 5, oe_SlippageBps = Some 20\<rparr>,
     \<lparr>oe_Target = TargetInstrumentPtr None, oe_SlippageBps = None\<rparr>]
     (SpotFunds_WithMarketOrders (Some 0) 15 BuildSpotFunds)"

definition sampleBuild :: "(unit, nat) marketEnv owned" where
  "sampleBuild = sampleProcess\<lparr>ow_live := {#(KMarketData, 1), (KBuilder, 9)#}\<rparr>"

lemma sample_policies_documented: "policiesDocumented samplePolicies"
  by (simp add: policiesDocumented_def samplePolicies_def)

theorem spot_funds_built_with_clone_witness:
  "wp (SpotFunds_Build sampleMarket samplePolicies (\<lambda>_. newServiceFromHandle (Some 1)) (Some 9) sampleFunds)
     (\<lambda>e t. ow_live t = {#(KMarketData, 1), (KBuilder, 9)#} \<and> \<not> ow_fault t
       \<and> e = Some (PolicyOverrideError 1 TargetIsNil)) (\<lambda>_ _. False) sampleBuild"
proof -
  have start: "ow_live sampleBuild = {#(KMarketData, 1), (KBuilder, 9)#}" "ow_fault sampleBuild = False"
    by (simp_all add: sampleBuild_def sampleProcess_def)
  have clone: "cloneStart sampleMarket (\<lambda>_. newServiceFromHandle (Some 1)) (sfb_marketData sampleFunds) (ow_env sampleBuild)
      = Some (Some 2, (ow_env sampleBuild)\<lparr>me_rest := 3\<rparr>)"
    by (simp add: cloneStart_def sampleFunds_def SpotFunds_Overrides_def SpotFunds_WithMarketOrders_def
        newServiceFromHandle_def sampleMarket_def sampleBuild_def sampleProcess_def)
  have first: "firstBad (sfb_overrides sampleFunds) i err \<Longrightarrow> i = 1 \<and> err = TargetIsNil" for i err
    by (auto simp: firstBad_def sampleFunds_def SpotFunds_Overrides_def SpotFunds_WithMarketOrders_def badTarget_def
        NewNativeSpotFundsOverride_def less_Suc_eq split: if_splits)
  have bad: "list_ex badTarget (sfb_overrides sampleFunds)"
    by (simp add: sampleFunds_def SpotFunds_Overrides_def badTarget_def)
  from spot_funds_built_with_clone [OF sample_market_documented sample_policies_documented, where h = "Some 9"
      and services = "\<lambda>_. newServiceFromHandle (Some 1)" and w = sampleBuild and b = sampleFunds, THEN conjunct1]
  show ?thesis
    unfolding clone start fundsAnswer_def
    by (rule wp_mono) (use first bad in \<open>auto simp: newServiceFromHandle_def start\<close>)
qed

end
