(* ===== verification/Configure.thy ===== *)
theory Configure
  imports Policy_Settings Adjustment_Model
begin

text \<open>
  Runtime configuration of the built-in policies (\<^verbatim>\<open>configure/configure.go\<close> over
  \<^verbatim>\<open>internal/native/configure.go\<close>): every call names a policy of an engine and says for each
  axis of its settings whether to leave it, clear it or replace it.
\<close>

section \<open>The native library\<close>

text \<open>
  A slice is nil or not; C gets the array of a slice and a flag that tells a nil slice from an
  empty one.  The name is a string view, null when the name is empty.
\<close>

record 'a caxis =
  cx_array :: "'a carray"
  cx_has :: bool

definition axisArg :: "'a list option \<Rightarrow> 'a caxis" where
  "axisArg xs = \<lparr>cx_array = sliceArg (case xs of None \<Rightarrow> [] | Some ys \<Rightarrow> ys), cx_has = (xs \<noteq> None)\<rparr>"

definition importName :: "string \<Rightarrow> string option" where
  "importName name = (if name = [] then None else Some name)"

text \<open>The C functions that answer with a flag, and the two that answer with a list.\<close>

datatype configArgs =
    ConfigureRateLimit "cRateLimit option" bool "cRateAsset caxis" "cRateAccount caxis" "cRateAccountAsset caxis"
  | ConfigurePnlBounds "cPnlBounds caxis" "cAccountBoundsUpdate caxis"
  | ConfigureOrderSizeLimit "cSizeLimit option" bool "cSizeAsset caxis" "cSizeAccountAsset caxis"
  | ConfigureSpotFunds "16 word" bool "8 word" bool "cOverride caxis"
  | ConfigureGlobalLimitMode "8 word"
  | ConfigureAccountLimitMode accountID "8 word" bool
  | ConfigureAccountGroupLimitMode "32 word" "8 word" bool
  | ConfigurePositionLimit accountID stringView decimal bool
  | ConfigureSetAccountPnl accountID stringView decimal

record 'e nativeConfigure =
  nc_update :: "nat option \<Rightarrow> string option \<Rightarrow> configArgs \<Rightarrow> 'e \<Rightarrow> (bool \<times> nat option) \<times> 'e"
  nc_spotBounds :: "nat option \<Rightarrow> string option \<Rightarrow> cPnlBounds option \<Rightarrow> bool \<Rightarrow> cGroupBounds caxis \<Rightarrow> cAccountBoundsUpdate caxis
    \<Rightarrow> 'e \<Rightarrow> (nat option \<times> nat option) \<times> 'e"
  nc_setSpotPnl :: "nat option \<Rightarrow> string option \<Rightarrow> accountID \<Rightarrow> cPnlState \<Rightarrow> 'e \<Rightarrow> (nat option \<times> nat option) \<times> 'e"
  nc_error :: "nat \<Rightarrow> 'e \<Rightarrow> string \<times> nat"
  nc_outcomes :: "nat \<Rightarrow> 'e \<Rightarrow> (accountID \<times> accountBlock) list"
  nc_blocks :: "nat \<Rightarrow> 'e \<Rightarrow> accountBlock list"

text \<open>\<open>updateCall\<close> is what the nine flag-returning wrappers do with their C function.\<close>

definition updateCall :: "'e nativeConfigure \<Rightarrow> nat option \<Rightarrow> string \<Rightarrow> configArgs \<Rightarrow> ('e owned, nat option) go" where
  "updateCall x engine name args = bind (inspect KEngine engine () (\<lambda>_ _. ())) (\<lambda>_.
     bind (issue (\<lambda>(_, outError). [(KConfigError, outError)]) (nc_update x engine (importName name) args)) (\<lambda>(ok, outError).
       if \<not> ok then ret outError else ret None))"

definition EngineConfigureRateLimit where
  "EngineConfigureRateLimit x engine name broker hasBroker assets accounts accountAssets =
     updateCall x engine name (ConfigureRateLimit broker hasBroker (axisArg assets) (axisArg accounts) (axisArg accountAssets))"

definition EngineConfigurePnlBoundsKillSwitch where
  "EngineConfigurePnlBoundsKillSwitch x engine name brokers accounts =
     updateCall x engine name (ConfigurePnlBounds (axisArg brokers) (axisArg accounts))"

definition EngineConfigureOrderSizeLimit where
  "EngineConfigureOrderSizeLimit x engine name broker hasBroker assets accountAssets =
     updateCall x engine name (ConfigureOrderSizeLimit broker hasBroker (axisArg assets) (axisArg accountAssets))"

definition EngineConfigureSpotFunds :: "'e nativeConfigure \<Rightarrow> nat option \<Rightarrow> string \<Rightarrow> 16 word option \<Rightarrow> 8 word option
    \<Rightarrow> cOverride list option \<Rightarrow> ('e owned, nat option) go" where
  "EngineConfigureSpotFunds x engine name slippage source overrides = updateCall x engine name
     (ConfigureSpotFunds (case slippage of None \<Rightarrow> 0 | Some s \<Rightarrow> s) (slippage \<noteq> None)
       (case source of None \<Rightarrow> 0 | Some s \<Rightarrow> s) (source \<noteq> None) (axisArg overrides))"

definition EngineConfigureSpotFundsPnlBoundsKillSwitch ::
    "'e nativeConfigure \<Rightarrow> nat option \<Rightarrow> string \<Rightarrow> cPnlBounds option \<Rightarrow> bool \<Rightarrow> cGroupBounds list option
      \<Rightarrow> cAccountBoundsUpdate list option \<Rightarrow> ('e owned, nat option \<times> nat option) go" where
  "EngineConfigureSpotFundsPnlBoundsKillSwitch x engine name barrier hasGlobal groups accounts =
     bind (inspect KEngine engine () (\<lambda>_ _. ())) (\<lambda>_.
     bind (issue (\<lambda>(blocks, outError). [(KBlockOutcomes, blocks), (KConfigError, outError)])
       (nc_spotBounds x engine (importName name) barrier hasGlobal (axisArg groups) (axisArg accounts))) (\<lambda>(blocks, outError).
       if blocks = None then ret (None, outError) else ret (blocks, None)))"

definition EngineSetSpotFundsAccountPnl ::
    "'e nativeConfigure \<Rightarrow> nat option \<Rightarrow> string \<Rightarrow> accountID \<Rightarrow> cPnlState \<Rightarrow> ('e owned, nat option \<times> nat option) go" where
  "EngineSetSpotFundsAccountPnl x engine name account state = bind (inspect KEngine engine () (\<lambda>_ _. ())) (\<lambda>_.
     bind (issue (\<lambda>(blocks, outError). [(KBlocks, blocks), (KConfigError, outError)])
       (nc_setSpotPnl x engine (importName name) account state)) (\<lambda>(blocks, outError).
       if blocks = None then ret (None, outError) else ret (blocks, None)))"

section \<open>Errors and results\<close>

text \<open>The message is a native text, or the one of a bad override with its index.\<close>

datatype configMessage = NativeMessage string | OverrideMessage nat targetError

record configError =
  ce_Message :: configMessage
  ce_Kind :: nat

definition ErrorKindValidation :: nat where "ErrorKindValidation = 2"

definition newErrorFromHandle :: "'e nativeConfigure \<Rightarrow> nat option \<Rightarrow> ('e owned, configError) go" where
  "newErrorFromHandle x h = bind (inspect KConfigError h ([], 0) (nc_error x)) (\<lambda>(msg, kind).
     bind (release KConfigError h) (\<lambda>_. ret \<lparr>ce_Message = NativeMessage msg, ce_Kind = kind\<rparr>))"

text \<open>How every method without a result ends.\<close>

definition configured :: "'e nativeConfigure \<Rightarrow> ('e owned, nat option) go \<Rightarrow> ('e owned, configError option) go" where
  "configured x m = bind m (\<lambda>configErr. if configErr \<noteq> None
     then bind (newErrorFromHandle x configErr) (\<lambda>e. ret (Some e)) else ret None)"

definition newAccountBlockOutcomes :: "'e nativeConfigure \<Rightarrow> nat option \<Rightarrow> ('e owned, (accountID \<times> accountBlock) list) go" where
  "newAccountBlockOutcomes x h = deferring (inspect KBlockOutcomes h [] (nc_outcomes x)) (release KBlockOutcomes h)"

definition newPolicyConfigurationResult :: "'e nativeConfigure \<Rightarrow> nat option \<Rightarrow> ('e owned, accountBlock list) go" where
  "newPolicyConfigurationResult x h = deferring (inspect KBlocks h [] (nc_blocks x)) (release KBlocks h)"

section \<open>The configurator\<close>

record configurator = cf_engine :: "nat option"

definition NewFromHandle :: "nat option \<Rightarrow> configurator" where
  "NewFromHandle h = \<lparr>cf_engine = h\<rparr>"

text \<open>A broker is left alone (none), cleared (some nil) or set.\<close>

definition Configurator_RateLimitUpdate ::
    "'e nativeConfigure \<Rightarrow> configurator \<Rightarrow> string \<Rightarrow> rateLimit option option \<Rightarrow> rateAssetBarrier list option
      \<Rightarrow> rateAccountBarrier list option \<Rightarrow> rateAccountAssetBarrier list option \<Rightarrow> ('e owned, configError option) go" where
  "Configurator_RateLimitUpdate x c name broker assets accounts accountAssets =
     (let hasBroker = broker \<noteq> None;
          nativeBroker = (case broker of Some (Some b) \<Rightarrow> Some (nativeRateLimit b) | _ \<Rightarrow> None)
      in configured x (EngineConfigureRateLimit x (cf_engine c) name nativeBroker hasBroker
           (map_option (map nativeRateAsset) assets) (map_option (map nativeRateAccount) accounts)
           (map_option (map nativeRateAccountAsset) accountAssets)))"

definition Configurator_RateLimit where
  "Configurator_RateLimit x c name broker assets accounts accountAssets =
     Configurator_RateLimitUpdate x c name (if broker \<noteq> None then Some broker else None) assets accounts accountAssets"

definition Configurator_PnlBoundsKillSwitch ::
    "'e nativeConfigure \<Rightarrow> configurator \<Rightarrow> string \<Rightarrow> boundsBarrier list option \<Rightarrow> accountBoundsUpdate list option
      \<Rightarrow> ('e owned, configError option) go" where
  "Configurator_PnlBoundsKillSwitch x c name brokers accounts = configured x (EngineConfigurePnlBoundsKillSwitch x (cf_engine c)
     name (map_option (map nativeBounds) brokers) (map_option (map nativeAccountBoundsUpdate) accounts))"

definition EngineSetAccountPnl :: "'e nativeConfigure \<Rightarrow> nat option \<Rightarrow> string \<Rightarrow> accountID \<Rightarrow> asset \<Rightarrow> decimal \<Rightarrow> ('e owned, nat option) go" where
  "EngineSetAccountPnl x engine name account a pnl =
     updateCall x engine name (ConfigureSetAccountPnl account (importString a) pnl)"

definition Configurator_SetAccountPnl where
  "Configurator_SetAccountPnl x c name account a pnl = configured x (EngineSetAccountPnl x (cf_engine c) name account a pnl)"

definition Configurator_OrderSizeLimitUpdate ::
    "'e nativeConfigure \<Rightarrow> configurator \<Rightarrow> string \<Rightarrow> sizeLimit option option \<Rightarrow> sizeAssetBarrier list option
      \<Rightarrow> sizeAccountAssetBarrier list option \<Rightarrow> ('e owned, configError option) go" where
  "Configurator_OrderSizeLimitUpdate x c name broker assets accountAssets =
     (let hasBroker = broker \<noteq> None;
          nativeBroker = (case broker of Some (Some b) \<Rightarrow> Some (nativeSizeLimit b) | _ \<Rightarrow> None)
      in configured x (EngineConfigureOrderSizeLimit x (cf_engine c) name nativeBroker hasBroker
           (map_option (map nativeSizeAsset) assets) (map_option (map nativeSizeAccountAsset) accountAssets)))"

definition Configurator_OrderSizeLimit where
  "Configurator_OrderSizeLimit x c name broker assets accountAssets =
     Configurator_OrderSizeLimitUpdate x c name (if broker \<noteq> None then Some broker else None) assets accountAssets"


text \<open>The overrides are converted before the native call; the first bad one is a validation error.\<close>

definition Configurator_SpotFunds ::
    "'e nativeConfigure \<Rightarrow> configurator \<Rightarrow> string \<Rightarrow> 16 word option \<Rightarrow> 8 word option \<Rightarrow> overrideEntry list option
      \<Rightarrow> ('e owned, configError option) go" where
  "Configurator_SpotFunds x c name slippage source overrides =
     (case (case overrides of None \<Rightarrow> Inr None
         | Some es \<Rightarrow> (case nativeOverrides 0 es of Inl e \<Rightarrow> Inl e | Inr os \<Rightarrow> Inr (Some os))) of
        Inl (i, e) \<Rightarrow> ret (Some \<lparr>ce_Message = OverrideMessage i e, ce_Kind = ErrorKindValidation\<rparr>)
      | Inr os \<Rightarrow> configured x (EngineConfigureSpotFunds x (cf_engine c) name slippage source os))"

definition EngineConfigureSpotFundsGlobalLimitMode where
  "EngineConfigureSpotFundsGlobalLimitMode x engine name mode = updateCall x engine name (ConfigureGlobalLimitMode mode)"

definition Configurator_SpotFundsGlobalLimitMode where
  "Configurator_SpotFundsGlobalLimitMode x c name mode =
     configured x (EngineConfigureSpotFundsGlobalLimitMode x (cf_engine c) name mode)"

definition NativeSpotFundsLimitModeOption :: "8 word option \<Rightarrow> 8 word \<times> bool" where
  "NativeSpotFundsLimitModeOption mode = (case mode of Some v \<Rightarrow> (v, True) | None \<Rightarrow> (0, False))"

definition EngineConfigureSpotFundsAccountLimitMode where
  "EngineConfigureSpotFundsAccountLimitMode x engine name account mode hasMode =
     updateCall x engine name (ConfigureAccountLimitMode account mode hasMode)"

definition Configurator_SpotFundsAccountLimitMode where
  "Configurator_SpotFundsAccountLimitMode x c name account mode = (case NativeSpotFundsLimitModeOption mode of
     (nativeMode, hasMode) \<Rightarrow> configured x
       (EngineConfigureSpotFundsAccountLimitMode x (cf_engine c) name account nativeMode hasMode))"

definition EngineConfigureSpotFundsPositionLimit ::
    "'e nativeConfigure \<Rightarrow> nat option \<Rightarrow> string \<Rightarrow> accountID \<Rightarrow> asset \<Rightarrow> decimal \<Rightarrow> bool \<Rightarrow> ('e owned, nat option) go" where
  "EngineConfigureSpotFundsPositionLimit x engine name account a limit hasLimit =
     updateCall x engine name (ConfigurePositionLimit account (importString a) limit hasLimit)"

definition Configurator_SpotFundsPositionLimit where
  "Configurator_SpotFundsPositionLimit x c name account a limit =
     configured x (EngineConfigureSpotFundsPositionLimit x (cf_engine c) name account a
       (case limit of None \<Rightarrow> zeroDecimal | Some v \<Rightarrow> v) (limit \<noteq> None))"

definition EngineConfigureSpotFundsAccountGroupLimitMode where
  "EngineConfigureSpotFundsAccountGroupLimitMode x engine name gid mode hasMode =
     updateCall x engine name (ConfigureAccountGroupLimitMode gid mode hasMode)"

definition Configurator_SpotFundsAccountGroupLimitMode where
  "Configurator_SpotFundsAccountGroupLimitMode x c name gid mode = (case NativeSpotFundsLimitModeOption mode of
     (nativeMode, hasMode) \<Rightarrow> configured x
       (EngineConfigureSpotFundsAccountGroupLimitMode x (cf_engine c) name (grp_native gid) nativeMode hasMode))"

definition Configurator_SpotFundsPnlBoundsKillSwitch ::
    "'e nativeConfigure \<Rightarrow> configurator \<Rightarrow> string \<Rightarrow> boundsBarrier option option \<Rightarrow> groupBoundsBarrier list option
      \<Rightarrow> accountBoundsUpdate list option \<Rightarrow> ('e owned, (accountID \<times> accountBlock) list \<times> configError option) go" where
  "Configurator_SpotFundsPnlBoundsKillSwitch x c name barrier groups accounts =
     (let hasGlobal = barrier \<noteq> None;
          nativeGlobal = (case barrier of Some (Some b) \<Rightarrow> Some (nativeBounds b) | _ \<Rightarrow> None)
      in bind (EngineConfigureSpotFundsPnlBoundsKillSwitch x (cf_engine c) name nativeGlobal hasGlobal
           (map_option (map nativeGroupBounds) groups) (map_option (map nativeAccountBoundsUpdate) accounts)) (\<lambda>(blocks, configErr).
         if configErr \<noteq> None then bind (newErrorFromHandle x configErr) (\<lambda>e. ret ([], Some e))
         else bind (newAccountBlockOutcomes x blocks) (\<lambda>bs. ret (bs, None))))"

definition Configurator_SetSpotFundsAccountPnl ::
    "'e nativeConfigure \<Rightarrow> configurator \<Rightarrow> string \<Rightarrow> accountID \<Rightarrow> pnlState \<Rightarrow> ('e owned, accountBlock list \<times> configError option) go" where
  "Configurator_SetSpotFundsAccountPnl x c name account state =
     bind (EngineSetSpotFundsAccountPnl x (cf_engine c) name account (PnlState_Handle state)) (\<lambda>(blocks, configErr).
       if configErr \<noteq> None then bind (newErrorFromHandle x configErr) (\<lambda>e. ret ([], Some e))
       else bind (newPolicyConfigurationResult x blocks) (\<lambda>bs. ret (bs, None)))"

end
