(* ===== verification/Configure_Facts.thy ===== *)
theory Configure_Facts
  imports Configure Policy_Facts
begin

text \<open>
  What runtime configuration promises: each call changes the settings of the policy it names
  exactly as it asks, axis by axis, and keeps no native object.
\<close>

section \<open>Settings\<close>

text \<open>
  The settings of one policy, of whichever type.  Overrides of slippage and limit modes are maps
  from what they apply to, as are position limits and the live P\&L.
\<close>

record cSettings =
  st_rateBroker :: "cRateLimit option"
  st_rateAssets :: "cRateAsset list"
  st_rateAccounts :: "cRateAccount list"
  st_rateAccountAssets :: "cRateAccountAsset list"
  st_sizeBroker :: "cSizeLimit option"
  st_sizeAssets :: "cSizeAsset list"
  st_sizeAccountAssets :: "cSizeAccountAsset list"
  st_brokerBounds :: "cPnlBounds list"
  st_accountBounds :: "cAccountBoundsUpdate list"
  st_livePnl :: "accountID \<times> string \<Rightarrow> decimal option"
  st_slippage :: "16 word"
  st_source :: "8 word"
  st_overrides :: "overridePayload \<Rightarrow> 16 word option"
  st_globalMode :: "8 word"
  st_accountModes :: "accountID \<Rightarrow> 8 word option"
  st_groupModes :: "32 word \<Rightarrow> 8 word option"
  st_positionLimits :: "accountID \<times> string \<Rightarrow> decimal option"
  st_globalBarrier :: "cPnlBounds option"
  st_groupBarriers :: "cGroupBounds list"
  st_accountBarriers :: "cAccountBoundsUpdate list"
  st_spotPnl :: "accountID \<Rightarrow> cPnlState option"

text \<open>
  What the C header says of the arguments: an axis is replaced wholesale when its flag is set and
  left alone otherwise, overrides are set or cleared one by one.
\<close>

definition axis :: "'a caxis \<Rightarrow> 'a list \<Rightarrow> 'a list" where
  "axis a old = (if cx_has a then readArray (cx_array a) else old)"

definition setOverrides :: "cOverride list \<Rightarrow> (overridePayload \<Rightarrow> 16 word option) \<Rightarrow> overridePayload \<Rightarrow> 16 word option" where
  "setOverrides os m = fold (\<lambda>c m. case readOverride c of None \<Rightarrow> m | Some (p, s) \<Rightarrow> m(p := s)) os m"

fun applyArgs :: "configArgs \<Rightarrow> cSettings \<Rightarrow> cSettings" where
  "applyArgs (ConfigureRateLimit broker hasBroker assets accounts accountAssets) s =
     s\<lparr>st_rateBroker := (if hasBroker then broker else st_rateBroker s), st_rateAssets := axis assets (st_rateAssets s),
       st_rateAccounts := axis accounts (st_rateAccounts s), st_rateAccountAssets := axis accountAssets (st_rateAccountAssets s)\<rparr>"
| "applyArgs (ConfigurePnlBounds brokers accounts) s =
     s\<lparr>st_brokerBounds := axis brokers (st_brokerBounds s), st_accountBounds := axis accounts (st_accountBounds s)\<rparr>"
| "applyArgs (ConfigureOrderSizeLimit broker hasBroker assets accountAssets) s =
     s\<lparr>st_sizeBroker := (if hasBroker then broker else st_sizeBroker s), st_sizeAssets := axis assets (st_sizeAssets s),
       st_sizeAccountAssets := axis accountAssets (st_sizeAccountAssets s)\<rparr>"
| "applyArgs (ConfigureSpotFunds slippage hasSlippage source hasSource overrides) s =
     s\<lparr>st_slippage := (if hasSlippage then slippage else st_slippage s),
       st_source := (if hasSource then source else st_source s),
       st_overrides := (if cx_has overrides then setOverrides (readArray (cx_array overrides)) (st_overrides s) else st_overrides s)\<rparr>"
| "applyArgs (ConfigureGlobalLimitMode mode) s = s\<lparr>st_globalMode := mode\<rparr>"
| "applyArgs (ConfigureAccountLimitMode account mode hasMode) s =
     s\<lparr>st_accountModes := (st_accountModes s)(account := if hasMode then Some mode else None)\<rparr>"
| "applyArgs (ConfigureAccountGroupLimitMode gid mode hasMode) s =
     s\<lparr>st_groupModes := (st_groupModes s)(gid := if hasMode then Some mode else None)\<rparr>"
| "applyArgs (ConfigurePositionLimit account a limit hasLimit) s =
     s\<lparr>st_positionLimits := (st_positionLimits s)((account, StringView_Safe a) := if hasLimit then Some limit else None)\<rparr>"
| "applyArgs (ConfigureSetAccountPnl account a pnl) s =
     s\<lparr>st_livePnl := (st_livePnl s)((account, StringView_Safe a) := Some pnl)\<rparr>"

definition applySpotBounds ::
    "cPnlBounds option \<Rightarrow> bool \<Rightarrow> cGroupBounds caxis \<Rightarrow> cAccountBoundsUpdate caxis \<Rightarrow> cSettings \<Rightarrow> cSettings" where
  "applySpotBounds barrier hasGlobal groups accounts s =
     s\<lparr>st_globalBarrier := (if hasGlobal then barrier else st_globalBarrier s),
       st_groupBarriers := axis groups (st_groupBarriers s), st_accountBarriers := axis accounts (st_accountBarriers s)\<rparr>"

text \<open>\<open>settings\<close> reads the settings of a policy, by its name, off the state of the library.\<close>

definition configDocumented :: "'e nativeConfigure \<Rightarrow> ('e \<Rightarrow> string option \<Rightarrow> cSettings) \<Rightarrow> bool" where
  "configDocumented x settings \<longleftrightarrow> (\<forall>engine name a.
     (\<forall>args. case nc_update x engine name args a of ((ok, outError), t) \<Rightarrow>
        (\<not> ok) = (outError \<noteq> None) \<and> (ok \<longrightarrow> settings t = (settings a)(name := applyArgs args (settings a name))))
   \<and> (\<forall>barrier has groups accounts. case nc_spotBounds x engine name barrier has groups accounts a of ((blocks, outError), t) \<Rightarrow>
        (blocks = None) = (outError \<noteq> None)
        \<and> (blocks \<noteq> None \<longrightarrow> settings t = (settings a)(name := applySpotBounds barrier has groups accounts (settings a name))))
   \<and> (\<forall>account state. case nc_setSpotPnl x engine name account state a of ((blocks, outError), t) \<Rightarrow>
        (blocks = None) = (outError \<noteq> None)
        \<and> (blocks \<noteq> None \<longrightarrow> settings t = (settings a)
            (name := (settings a name)\<lparr>st_spotPnl := (st_spotPnl (settings a name))(account := Some state)\<rparr>))))"

lemma documented_update:
  assumes "configDocumented x settings" and "nc_update x engine name args a = ((ok, outError), t)"
  shows "(\<not> ok) = (outError \<noteq> None)" and "ok \<Longrightarrow> settings t = (settings a)(name := applyArgs args (settings a name))"
  using assms(1) [unfolded configDocumented_def, THEN spec, of engine, THEN spec, of name, THEN spec, of a, THEN conjunct1, THEN spec, of args]
    assms(2) by simp_all

lemma documented_spot_bounds:
  assumes "configDocumented x settings" and "nc_spotBounds x engine name barrier has groups accounts a = ((blocks, outError), t)"
  shows "(blocks = None) = (outError \<noteq> None)"
    and "blocks \<noteq> None \<Longrightarrow> settings t = (settings a)(name := applySpotBounds barrier has groups accounts (settings a name))"
  using assms(1) [unfolded configDocumented_def, THEN spec, of engine, THEN spec, of name, THEN spec, of a, THEN conjunct2,
      THEN conjunct1, THEN spec, of barrier, THEN spec, of has, THEN spec, of groups, THEN spec, of accounts] assms(2) by simp_all

lemma documented_spot_pnl:
  assumes "configDocumented x settings" and "nc_setSpotPnl x engine name account state a = ((blocks, outError), t)"
  shows "(blocks = None) = (outError \<noteq> None)"
    and "blocks \<noteq> None \<Longrightarrow> settings t = (settings a)
      (name := (settings a name)\<lparr>st_spotPnl := (st_spotPnl (settings a name))(account := Some state)\<rparr>)"
  using assms(1) [unfolded configDocumented_def, THEN spec, of engine, THEN spec, of name, THEN spec, of a, THEN conjunct2,
      THEN conjunct2, THEN spec, of account, THEN spec, of state] assms(2) by simp_all

section \<open>What a call asks for\<close>

datatype configCall =
    CallRateLimit "rateLimit option" "rateAssetBarrier list option" "rateAccountBarrier list option" "rateAccountAssetBarrier list option"
  | CallRateLimitUpdate "rateLimit option option" "rateAssetBarrier list option" "rateAccountBarrier list option"
      "rateAccountAssetBarrier list option"
  | CallPnlBounds "boundsBarrier list option" "accountBoundsUpdate list option"
  | CallSetAccountPnl accountID asset decimal
  | CallOrderSizeLimit "sizeLimit option" "sizeAssetBarrier list option" "sizeAccountAssetBarrier list option"
  | CallOrderSizeLimitUpdate "sizeLimit option option" "sizeAssetBarrier list option" "sizeAccountAssetBarrier list option"
  | CallSpotFunds "16 word option" "8 word option" "overrideEntry list option"
  | CallGlobalLimitMode "8 word"
  | CallAccountLimitMode accountID "8 word option"
  | CallPositionLimit accountID asset "decimal option"
  | CallAccountGroupLimitMode accountGroupID "8 word option"
  | CallSpotBounds "boundsBarrier option option" "groupBoundsBarrier list option" "accountBoundsUpdate list option"
  | CallSetSpotPnl accountID pnlState

text \<open>Nothing leaves what there is, anything else takes its place.\<close>

definition orElse :: "'a option \<Rightarrow> 'a \<Rightarrow> 'a" where
  "orElse a old = (case a of None \<Rightarrow> old | Some v \<Rightarrow> v)"

fun asked :: "configCall \<Rightarrow> cSettings \<Rightarrow> cSettings" where
  "asked (CallRateLimit broker assets accounts accountAssets) s =
     s\<lparr>st_rateBroker := (case broker of None \<Rightarrow> st_rateBroker s | Some b \<Rightarrow> Some (nativeRateLimit b)),
       st_rateAssets := orElse (map_option (map nativeRateAsset) assets) (st_rateAssets s),
       st_rateAccounts := orElse (map_option (map nativeRateAccount) accounts) (st_rateAccounts s),
       st_rateAccountAssets := orElse (map_option (map nativeRateAccountAsset) accountAssets) (st_rateAccountAssets s)\<rparr>"
| "asked (CallRateLimitUpdate broker assets accounts accountAssets) s =
     s\<lparr>st_rateBroker := orElse (map_option (map_option nativeRateLimit) broker) (st_rateBroker s),
       st_rateAssets := orElse (map_option (map nativeRateAsset) assets) (st_rateAssets s),
       st_rateAccounts := orElse (map_option (map nativeRateAccount) accounts) (st_rateAccounts s),
       st_rateAccountAssets := orElse (map_option (map nativeRateAccountAsset) accountAssets) (st_rateAccountAssets s)\<rparr>"
| "asked (CallPnlBounds brokers accounts) s =
     s\<lparr>st_brokerBounds := orElse (map_option (map nativeBounds) brokers) (st_brokerBounds s),
       st_accountBounds := orElse (map_option (map nativeAccountBoundsUpdate) accounts) (st_accountBounds s)\<rparr>"
| "asked (CallSetAccountPnl account a pnl) s =
     s\<lparr>st_livePnl := (st_livePnl s)((account, Asset_Unsafe a) := Some pnl)\<rparr>"
| "asked (CallOrderSizeLimit broker assets accountAssets) s =
     s\<lparr>st_sizeBroker := (case broker of None \<Rightarrow> st_sizeBroker s | Some b \<Rightarrow> Some (nativeSizeLimit b)),
       st_sizeAssets := orElse (map_option (map nativeSizeAsset) assets) (st_sizeAssets s),
       st_sizeAccountAssets := orElse (map_option (map nativeSizeAccountAsset) accountAssets) (st_sizeAccountAssets s)\<rparr>"
| "asked (CallOrderSizeLimitUpdate broker assets accountAssets) s =
     s\<lparr>st_sizeBroker := orElse (map_option (map_option nativeSizeLimit) broker) (st_sizeBroker s),
       st_sizeAssets := orElse (map_option (map nativeSizeAsset) assets) (st_sizeAssets s),
       st_sizeAccountAssets := orElse (map_option (map nativeSizeAccountAsset) accountAssets) (st_sizeAccountAssets s)\<rparr>"
| "asked (CallSpotFunds slippage source overrides) s =
     s\<lparr>st_slippage := orElse slippage (st_slippage s), st_source := orElse source (st_source s),
       st_overrides := (case overrides of None \<Rightarrow> st_overrides s
         | Some es \<Rightarrow> fold (\<lambda>e m. case targetMeaning (oe_Target e) of None \<Rightarrow> m | Some p \<Rightarrow> m(p := oe_SlippageBps e))
             es (st_overrides s))\<rparr>"
| "asked (CallGlobalLimitMode mode) s = s\<lparr>st_globalMode := mode\<rparr>"
| "asked (CallAccountLimitMode account mode) s = s\<lparr>st_accountModes := (st_accountModes s)(account := mode)\<rparr>"
| "asked (CallPositionLimit account a limit) s =
     s\<lparr>st_positionLimits := (st_positionLimits s)((account, Asset_Unsafe a) := limit)\<rparr>"
| "asked (CallAccountGroupLimitMode gid mode) s = s\<lparr>st_groupModes := (st_groupModes s)(grp_native gid := mode)\<rparr>"
| "asked (CallSpotBounds barrier groups accounts) s =
     s\<lparr>st_globalBarrier := orElse (map_option (map_option nativeBounds) barrier) (st_globalBarrier s),
       st_groupBarriers := orElse (map_option (map nativeGroupBounds) groups) (st_groupBarriers s),
       st_accountBarriers := orElse (map_option (map nativeAccountBoundsUpdate) accounts) (st_accountBarriers s)\<rparr>"
| "asked (CallSetSpotPnl account state) s =
     s\<lparr>st_spotPnl := (st_spotPnl s)(account := Some (PnlState_Handle state))\<rparr>"


fun runConfig :: "'e nativeConfigure \<Rightarrow> configurator \<Rightarrow> string \<Rightarrow> configCall
    \<Rightarrow> ('e owned, (accountID option \<times> accountBlock) list \<times> configError option) go" where
  "runConfig x c name (CallRateLimit b as cs xs) = bind (Configurator_RateLimit x c name b as cs xs) (\<lambda>e. ret ([], e))"
| "runConfig x c name (CallRateLimitUpdate b as cs xs) = bind (Configurator_RateLimitUpdate x c name b as cs xs) (\<lambda>e. ret ([], e))"
| "runConfig x c name (CallPnlBounds bs as) = bind (Configurator_PnlBoundsKillSwitch x c name bs as) (\<lambda>e. ret ([], e))"
| "runConfig x c name (CallSetAccountPnl account a pnl) = bind (Configurator_SetAccountPnl x c name account a pnl) (\<lambda>e. ret ([], e))"
| "runConfig x c name (CallOrderSizeLimit b as xs) = bind (Configurator_OrderSizeLimit x c name b as xs) (\<lambda>e. ret ([], e))"
| "runConfig x c name (CallOrderSizeLimitUpdate b as xs) = bind (Configurator_OrderSizeLimitUpdate x c name b as xs) (\<lambda>e. ret ([], e))"
| "runConfig x c name (CallSpotFunds slippage source os) = bind (Configurator_SpotFunds x c name slippage source os) (\<lambda>e. ret ([], e))"
| "runConfig x c name (CallGlobalLimitMode mode) = bind (Configurator_SpotFundsGlobalLimitMode x c name mode) (\<lambda>e. ret ([], e))"
| "runConfig x c name (CallAccountLimitMode account mode) =
     bind (Configurator_SpotFundsAccountLimitMode x c name account mode) (\<lambda>e. ret ([], e))"
| "runConfig x c name (CallPositionLimit account a limit) =
     bind (Configurator_SpotFundsPositionLimit x c name account a limit) (\<lambda>e. ret ([], e))"
| "runConfig x c name (CallAccountGroupLimitMode gid mode) =
     bind (Configurator_SpotFundsAccountGroupLimitMode x c name gid mode) (\<lambda>e. ret ([], e))"
| "runConfig x c name (CallSpotBounds b gs as) = bind (Configurator_SpotFundsPnlBoundsKillSwitch x c name b gs as)
     (\<lambda>(bs, e). ret (map (\<lambda>(account, block). (Some account, block)) bs, e))"
| "runConfig x c name (CallSetSpotPnl account state) = bind (Configurator_SetSpotFundsAccountPnl x c name account state)
     (\<lambda>(bs, e). ret (map (Pair None) bs, e))"

text \<open>The overrides a call carries, and the blocks its native list holds.\<close>

fun callOverrides :: "configCall \<Rightarrow> overrideEntry list" where
  "callOverrides (CallSpotFunds _ _ (Some es)) = es"
| "callOverrides _ = []"

fun listed :: "'e nativeConfigure \<Rightarrow> nat \<Rightarrow> 'e \<Rightarrow> configCall \<Rightarrow> (accountID option \<times> accountBlock) list" where
  "listed x h a (CallSpotBounds _ _ _) = map (\<lambda>(account, block). (Some account, block)) (nc_outcomes x h a)"
| "listed x h a (CallSetSpotPnl _ _) = map (Pair None) (nc_blocks x h a)"
| "listed x h a _ = []"

section \<open>Encodings\<close>

lemma axis_arg [simp]: "axis (axisArg xs) old = orElse xs old"
  by (simp add: axis_def axisArg_def orElse_def split: option.split)

lemma set_overrides_read:
  "readAs cs es \<Longrightarrow> \<not> list_ex badTarget es \<Longrightarrow> setOverrides cs m
     = fold (\<lambda>e m. case targetMeaning (oe_Target e) of None \<Rightarrow> m | Some p \<Rightarrow> m(p := oe_SlippageBps e)) es m"
proof (induction es arbitrary: cs m)
  case Nil
  then show ?case by (simp add: setOverrides_def readAs_def)
next
  case (Cons e es)
  from Cons.prems obtain p where p: "targetMeaning (oe_Target e) = Some p" by (auto simp: badTarget_def)
  with Cons.prems obtain c rest where cs: "cs = c # rest" "readOverride c = Some (p, oe_SlippageBps e)" "readAs rest es"
    by (auto simp: readAs_def Cons_eq_map_conv map_eq_Cons_conv)
  with Cons.IH [of rest] Cons.prems(2) p show ?case by (simp add: setOverrides_def)
qed

lemma overrides_cases:
  "(\<exists>i err. nativeOverrides 0 es = Inl (i, err) \<and> firstBad es i err \<and> list_ex badTarget es)
   \<or> (\<exists>os. nativeOverrides 0 es = Inr os \<and> readAs os es \<and> \<not> list_ex badTarget es)"
proof (cases "nativeOverrides 0 es")
  case (Inl failure)
  obtain i err where f: "failure = (i, err)" by fastforce
  with overrides_failed [of 0 es i err] Inl have "firstBad es i err" by (auto simp: firstBad_def)
  then show ?thesis using Inl f by (auto simp: firstBad_def list_ex_length)
next
  case (Inr os)
  from overrides_read [OF this] show ?thesis using Inr by (auto simp: list_all_iff list_ex_iff readAs_def)
qed

lemmas update_methods = Configurator_RateLimit_def Configurator_RateLimitUpdate_def EngineConfigureRateLimit_def
  Configurator_PnlBoundsKillSwitch_def EngineConfigurePnlBoundsKillSwitch_def Configurator_SetAccountPnl_def
  EngineSetAccountPnl_def Configurator_OrderSizeLimit_def Configurator_OrderSizeLimitUpdate_def
  EngineConfigureOrderSizeLimit_def Configurator_SpotFundsGlobalLimitMode_def EngineConfigureSpotFundsGlobalLimitMode_def
  Configurator_SpotFundsAccountLimitMode_def EngineConfigureSpotFundsAccountLimitMode_def
  Configurator_SpotFundsPositionLimit_def EngineConfigureSpotFundsPositionLimit_def
  Configurator_SpotFundsAccountGroupLimitMode_def EngineConfigureSpotFundsAccountGroupLimitMode_def
  NativeSpotFundsLimitModeOption_def

text \<open>\<open>encodes\<close>: a call without a list result is one native call whose arguments ask for the same.\<close>

definition encodes :: "'e nativeConfigure \<Rightarrow> configurator \<Rightarrow> string \<Rightarrow> configCall \<Rightarrow> configArgs \<Rightarrow> bool" where
  "encodes x c name call args \<longleftrightarrow> runConfig x c name call = bind (configured x (updateCall x (cf_engine c) name args)) (\<lambda>e. ret ([], e))
     \<and> (\<forall>s. applyArgs args s = asked call s)"

text \<open>The arguments, where the call needs no conversion that can fail.\<close>

fun encoded :: "configCall \<Rightarrow> configArgs option" where
  "encoded (CallRateLimit b as cs xs) = Some (ConfigureRateLimit (map_option nativeRateLimit b) (b \<noteq> None)
     (axisArg (map_option (map nativeRateAsset) as)) (axisArg (map_option (map nativeRateAccount) cs))
     (axisArg (map_option (map nativeRateAccountAsset) xs)))"
| "encoded (CallRateLimitUpdate b as cs xs) = Some (ConfigureRateLimit (case b of Some (Some l) \<Rightarrow> Some (nativeRateLimit l) | _ \<Rightarrow> None)
     (b \<noteq> None) (axisArg (map_option (map nativeRateAsset) as)) (axisArg (map_option (map nativeRateAccount) cs))
     (axisArg (map_option (map nativeRateAccountAsset) xs)))"
| "encoded (CallPnlBounds bs as) = Some (ConfigurePnlBounds (axisArg (map_option (map nativeBounds) bs))
     (axisArg (map_option (map nativeAccountBoundsUpdate) as)))"
| "encoded (CallSetAccountPnl account a pnl) = Some (ConfigureSetAccountPnl account (importString a) pnl)"
| "encoded (CallOrderSizeLimit b as xs) = Some (ConfigureOrderSizeLimit (map_option nativeSizeLimit b) (b \<noteq> None)
     (axisArg (map_option (map nativeSizeAsset) as)) (axisArg (map_option (map nativeSizeAccountAsset) xs)))"
| "encoded (CallOrderSizeLimitUpdate b as xs) = Some (ConfigureOrderSizeLimit (case b of Some (Some l) \<Rightarrow> Some (nativeSizeLimit l) | _ \<Rightarrow> None)
     (b \<noteq> None) (axisArg (map_option (map nativeSizeAsset) as)) (axisArg (map_option (map nativeSizeAccountAsset) xs)))"
| "encoded (CallGlobalLimitMode mode) = Some (ConfigureGlobalLimitMode mode)"
| "encoded (CallAccountLimitMode account mode) =
     Some (ConfigureAccountLimitMode account (case mode of None \<Rightarrow> 0 | Some v \<Rightarrow> v) (mode \<noteq> None))"
| "encoded (CallPositionLimit account a limit) =
     Some (ConfigurePositionLimit account (importString a) (case limit of None \<Rightarrow> zeroDecimal | Some v \<Rightarrow> v) (limit \<noteq> None))"
| "encoded (CallAccountGroupLimitMode gid mode) =
     Some (ConfigureAccountGroupLimitMode (grp_native gid) (case mode of None \<Rightarrow> 0 | Some v \<Rightarrow> v) (mode \<noteq> None))"
| "encoded (CallSpotFunds slippage source overrides) =
     (case (case overrides of None \<Rightarrow> Inr None
        | Some es \<Rightarrow> (case nativeOverrides 0 es of Inl e \<Rightarrow> Inl e | Inr os \<Rightarrow> Inr (Some os))) of
        Inl e \<Rightarrow> None
      | Inr os \<Rightarrow> Some (ConfigureSpotFunds (orElse slippage 0) (slippage \<noteq> None) (orElse source 0) (source \<noteq> None) (axisArg os)))"
| "encoded _ = None"

text \<open>Whether the native function of a call accepts it.\<close>

fun accepts :: "'e nativeConfigure \<Rightarrow> nat option \<Rightarrow> string option \<Rightarrow> configCall \<Rightarrow> 'e \<Rightarrow> bool" where
  "accepts x engine name (CallSpotBounds b groups accounts) a =
     (fst (fst (nc_spotBounds x engine name (case b of Some (Some l) \<Rightarrow> Some (nativeBounds l) | _ \<Rightarrow> None) (b \<noteq> None)
        (axisArg (map_option (map nativeGroupBounds) groups)) (axisArg (map_option (map nativeAccountBoundsUpdate) accounts)) a)) \<noteq> None)"
| "accepts x engine name (CallSetSpotPnl account state) a =
     (fst (fst (nc_setSpotPnl x engine name account (PnlState_Handle state) a)) \<noteq> None)"
| "accepts x engine name call a =
     (case encoded call of None \<Rightarrow> False | Some args \<Rightarrow> fst (fst (nc_update x engine name args a)))"

lemma spot_funds_encodes:
  assumes "encoded (CallSpotFunds slippage source overrides) = Some args"
  shows "encodes x c name (CallSpotFunds slippage source overrides) args"
proof (cases overrides)
  case None
  with assms show ?thesis
    by (auto simp: encodes_def Configurator_SpotFunds_def EngineConfigureSpotFunds_def orElse_def axisArg_def split: option.split)
next
  case (Some es)
  with assms overrides_cases [of es] obtain os where os: "nativeOverrides 0 es = Inr os" "readAs os es" "\<not> list_ex badTarget es"
    by auto
  with assms Some show ?thesis
    by (auto simp: encodes_def Configurator_SpotFunds_def EngineConfigureSpotFunds_def orElse_def axisArg_def
        set_overrides_read [OF os(2,3)] split: option.split)
qed

lemma call_encodes: "encoded call = Some args \<Longrightarrow> encodes x c name call args"
proof (cases call)
  case (CallSpotFunds slippage source overrides)
  then show "encoded call = Some args \<Longrightarrow> ?thesis" using spot_funds_encodes by blast
qed (auto simp: encodes_def update_methods orElse_def Let_def split: option.split)

lemma unencoded:
  assumes "encoded call = None"
  obtains (funds) slippage source es where "call = CallSpotFunds slippage source (Some es)" "list_ex badTarget es"
    | (list) barrier groups accounts account state where
        "call = CallSpotBounds barrier groups accounts \<or> call = CallSetSpotPnl account state"
proof (cases call)
  case (CallSpotFunds slippage source overrides)
  with assms obtain es where es: "overrides = Some es" by (cases overrides) auto
  with assms CallSpotFunds overrides_cases [of es] have "list_ex badTarget es" by auto
  with CallSpotFunds es show ?thesis by (intro funds) auto
qed (use assms list in auto)

section \<open>The native calls\<close>

text \<open>What an error returned to the caller is: what the native error said.\<close>

definition nativeError :: "'e nativeConfigure \<Rightarrow> 'e \<Rightarrow> configError \<Rightarrow> bool" where
  "nativeError x a e \<longleftrightarrow> (\<exists>h msg kind. nc_error x h a = (msg, kind) \<and> e = \<lparr>ce_Message = NativeMessage msg, ce_Kind = kind\<rparr>)"

lemma configured_update:
  assumes "configDocumented x settings" and "\<forall>n. engine = Some n \<longrightarrow> (KEngine, n) \<in># ow_live w"
  shows "wp (configured x (updateCall x engine name args)) (\<lambda>e t. ow_live t = ow_live w \<and> ow_fault t = ow_fault w
    \<and> (e = None) = fst (fst (nc_update x engine (importName name) args (ow_env w)))
    \<and> (case e of None \<Rightarrow> settings (ow_env t)
          = (settings (ow_env w))(importName name := applyArgs args (settings (ow_env w) (importName name)))
        | Some err \<Rightarrow> nativeError x (ow_env t) err)) (\<lambda>_ _. False) w"
proof -
  obtain ok outError t where c: "nc_update x engine (importName name) args (ow_env w) = ((ok, outError), t)" by (metis prod.collapse)
  show ?thesis
    using assms(2) c documented_update [OF assms(1) c]
    by (cases engine; cases outError)
      (auto simp: configured_def updateCall_def newErrorFromHandle_def nativeError_def wp split: prod.split)
qed

lemma listing_calls:
  assumes "configDocumented x settings" and "\<forall>n. cf_engine c = Some n \<longrightarrow> (KEngine, n) \<in># ow_live w"
    and "call = CallSpotBounds barrier groups accounts \<or> call = CallSetSpotPnl account state"
  shows "wp (runConfig x c name call) (\<lambda>(bs, e) t. ow_live t = ow_live w \<and> ow_fault t = ow_fault w
    \<and> (e = None) = accepts x (cf_engine c) (importName name) call (ow_env w)
    \<and> (case e of None \<Rightarrow> (\<exists>h. bs = listed x h (ow_env t) call) \<and> settings (ow_env t)
          = (settings (ow_env w))(importName name := asked call (settings (ow_env w) (importName name)))
        | Some err \<Rightarrow> bs = [] \<and> nativeError x (ow_env t) err)) (\<lambda>_ _. False) w"
  using assms(3)
proof
  assume call: "call = CallSpotBounds barrier groups accounts"
  let ?barrier = "case barrier of Some (Some b) \<Rightarrow> Some (nativeBounds b) | _ \<Rightarrow> None"
  obtain blocks outError t where r: "nc_spotBounds x (cf_engine c) (importName name) ?barrier (barrier \<noteq> None)
      (axisArg (map_option (map nativeGroupBounds) groups)) (axisArg (map_option (map nativeAccountBoundsUpdate) accounts)) (ow_env w)
      = ((blocks, outError), t)" by (metis prod.collapse)
  have asks: "applySpotBounds ?barrier (barrier \<noteq> None) (axisArg (map_option (map nativeGroupBounds) groups))
      (axisArg (map_option (map nativeAccountBoundsUpdate) accounts)) s = asked call s" for s
    by (cases barrier) (auto simp: call applySpotBounds_def orElse_def split: option.split)
  show ?thesis
    using assms(2) r documented_spot_bounds [OF assms(1) r, unfolded asks]
    by (cases "cf_engine c"; cases blocks; cases outError)
      (auto simp: call Configurator_SpotFundsPnlBoundsKillSwitch_def EngineConfigureSpotFundsPnlBoundsKillSwitch_def
        newErrorFromHandle_def newAccountBlockOutcomes_def nativeError_def Let_def wp split: prod.split)
next
  assume call: "call = CallSetSpotPnl account state"
  obtain blocks outError t where r: "nc_setSpotPnl x (cf_engine c) (importName name) account (PnlState_Handle state) (ow_env w)
      = ((blocks, outError), t)" by (metis prod.collapse)
  show ?thesis
    using assms(2) r documented_spot_pnl [OF assms(1) r]
    by (cases "cf_engine c"; cases blocks; cases outError)
      (auto simp: call Configurator_SetSpotFundsAccountPnl_def EngineSetSpotFundsAccountPnl_def
        newErrorFromHandle_def newPolicyConfigurationResult_def nativeError_def wp split: prod.split)
qed


section \<open>Properties\<close>


section \<open>Examples\<close>

text \<open>A library that accepts every call, with a policy that has a broker, an asset and an account limit.\<close>

definition sampleConfigure :: "(string option \<Rightarrow> cSettings) nativeConfigure" where
  "sampleConfigure = \<lparr>nc_update = (\<lambda>_ name args s. ((True, None), s(name := applyArgs args (s name)))),
     nc_spotBounds = (\<lambda>_ name b h g a s. ((Some 1, None), s(name := applySpotBounds b h g a (s name)))),
     nc_setSpotPnl = (\<lambda>_ name account state s. ((Some 1, None),
       s(name := (s name)\<lparr>st_spotPnl := (st_spotPnl (s name))(account := Some state)\<rparr>))),
     nc_error = (\<lambda>_ _. ([], 0)), nc_outcomes = (\<lambda>_ _. []), nc_blocks = (\<lambda>_ _. [])\<rparr>"

definition sampleSettings :: cSettings where
  "sampleSettings = \<lparr>st_rateBroker = Some \<lparr>cr_max_orders = 3, cr_window_nanoseconds = 7\<rparr>,
     st_rateAssets = [\<lparr>cr_max_orders = 1, cr_window_nanoseconds = 1, cra_settlement_asset = None\<rparr>],
     st_rateAccounts = [\<lparr>cr_max_orders = 2, cr_window_nanoseconds = 1, crc_account_id = 5\<rparr>], st_rateAccountAssets = [],
     st_sizeBroker = None, st_sizeAssets = [], st_sizeAccountAssets = [], st_brokerBounds = [], st_accountBounds = [],
     st_livePnl = (\<lambda>_. None), st_slippage = 0, st_source = 0, st_overrides = (\<lambda>_. None), st_globalMode = 0,
     st_accountModes = (\<lambda>_. None), st_groupModes = (\<lambda>_. None), st_positionLimits = (\<lambda>_. None), st_globalBarrier = None,
     st_groupBarriers = [], st_accountBarriers = [], st_spotPnl = (\<lambda>_. None)\<rparr>"

definition sampleConfigState :: "(string option \<Rightarrow> cSettings) owned" where
  "sampleConfigState = \<lparr>ow_live = {#(KEngine, 1)#}, ow_fault = False, ow_env = (\<lambda>_. sampleSettings)\<rparr>"

lemma sample_configure_documented: "configDocumented sampleConfigure (\<lambda>s. s)"
  by (simp add: configDocumented_def sampleConfigure_def)


end
