(* ===== verification/Spec2Isabelle.thy ===== *)
theory Spec2Isabelle
  imports Engine_Lanes Lane_Refine Async_Handles Strategy Chain_Lanes Report_Model Decimal Adjustment_Facts
    Client_Engine Market_Facts Sync_Engine_Facts Async_Builder Lock_Facts Outcome_Model Accounts_Model Reference_Book
    Policy_Facts Configure_Facts
begin

text \<open>
  Verification development for the Go SDK of OpenPit, a pre-trade risk engine: its
  asynchronous facade (\<^verbatim>\<open>asyncengine\<close>), the synchronous engine with its builders and its
  client form, the handles both hand out (\<^verbatim>\<open>pretrade\<close>, \<^verbatim>\<open>pkg/future\<close>), the callbacks
  into Go policies, the built-in policies' settings and their runtime configuration
  (\<^verbatim>\<open>pretrade/policies\<close>, \<^verbatim>\<open>configure\<close>), the market-data service and the reference book
  (\<^verbatim>\<open>marketdata\<close>, \<^verbatim>\<open>reference_book.go\<close>), and the values of its API (\<^verbatim>\<open>model\<close>,
  \<^verbatim>\<open>accountadjustment\<close>, \<^verbatim>\<open>param\<close>).

  The program.  The risk engine itself is a native library behind cgo.  \<^verbatim>\<open>AsyncEngine\<close>
  serializes calls to it: every public call is routed by account, account group, or to the
  engine-wide lane, becomes a task, and is queued on the lane of its key; one worker per lane
  runs the tasks in order and resolves the future the caller got.  The Sharded strategy has a
  fixed array of lanes, the Dynamic strategy makes lanes on demand and retires idle ones.  A
  submit that fails still owes the release of a native handle; that release is put in the
  lane's mandatory backlog, or run off-lane when there is none.  \<^verbatim>\<open>Exclusive\<close> stops all
  lanes for a function; the stop calls drain everything.  A chain is a caller-defined sequence
  of steps that runs as one task.  Under the facade, \<^verbatim>\<open>Engine\<close> turns each C call into a Go
  result and releases the objects the library handed over; a builder passes Go policies to the
  library, which calls them back through cgo handles; \<^verbatim>\<open>ClientEngine\<close> boxes the client's own
  values for these callbacks.  A policy that prices orders clones the handle of a market-data
  service, whose reads call back for the account group of the reader.

  \<^bold>\<open>Theories, and what they model.\<close>

  \<^item> \<open>Go_Prelude\<close>: Go errors, panics, \<^verbatim>\<open>defer\<close> and \<^verbatim>\<open>recover\<close> as a state monad with a
    weakest-precondition calculus (\<open>wp\<close>); contexts.
  \<^item> \<open>Futures\<close>: \<^verbatim>\<open>pkg/future/future.go\<close>; a locale for single-assignment cells, interpreted on
    both future types.
  \<^item> \<open>Handles\<close>: \<^verbatim>\<open>pretrade/reservation.go\<close>, \<^verbatim>\<open>drop_copy_operation.go\<close>,
    \<^verbatim>\<open>request.go\<close>, \<^verbatim>\<open>dry_run_report.go\<close>; a locale for handles resolved at most once.
  \<^item> \<open>Routing\<close>: routing keys and the shard choice (\<^verbatim>\<open>strategy.go\<close>, \<^verbatim>\<open>sharded.go\<close>) on
    64-bit words.
  \<^item> \<open>World\<close>: the driver and the cgo boundary as parameters, and the events they leave.
  \<^item> \<open>Chain\<close>, \<open>Chain_Facts\<close>, \<open>Chain_Runs\<close>, \<open>Chain_Lanes\<close>: \<^verbatim>\<open>scenario.go\<close> and
    \<^verbatim>\<open>scenario_admin.go\<close>, one definition per function.
  \<^item> \<open>Lane\<close>: \<^verbatim>\<open>keyQueue\<close> and \<^verbatim>\<open>base\<close> of \<^verbatim>\<open>strategy.go\<close>, one definition per critical
    section.  \<open>Lane_Machine\<close> interleaves them: \<open>client_step\<close> (any number of producers,
    cleanup, stop, retirement) and \<open>worker_step\<close>; \<open>reachable\<close> is closed under both.
    \<open>Lane_Facts\<close>, \<open>Lane_Safety\<close>, \<open>Lane_Props\<close> hold the invariants, \<open>Lane_Refine\<close> the
    specification \<open>laneSpec\<close> the lane refines and the termination of a stopped worker.
  \<^item> \<open>Engine\<close>, \<open>Engine_Facts\<close>, \<open>Engine_Props\<close>, \<open>Engine_Lanes\<close>: the public calls and their
    tasks (\<^verbatim>\<open>engine.go\<close>, \<^verbatim>\<open>request.go\<close>, \<^verbatim>\<open>reservation.go\<close>,
    \<^verbatim>\<open>drop_copy_operation.go\<close>).
  \<^item> \<open>Async_Handles\<close>: the gate between snapshot reads and lifecycle calls, as a locale over the
    wrapped handle, interpreted on reservations and drop-copy operations.
  \<^item> \<open>Dynamic\<close>: the queue table of \<^verbatim>\<open>dynamic.go\<close>; \<open>Exclusive\<close>: \<^verbatim>\<open>exclusive.go\<close> and the
    lifecycle cleanups; \<open>Strategy\<close>: submit, cleanup schedule and stop of both strategies.
  \<^item> \<open>Param_Values\<close>, \<open>Order_Model\<close>, \<open>Report_Model\<close>: assets and C strings,
    \<^verbatim>\<open>model/order.go\<close> and \<^verbatim>\<open>model/execution_report.go\<close>.  A C-heap buffer is an address
    with its bytes; a string view sees a buffer, a Go asset keeps it alive.
  \<^item> \<open>Decimal\<close>: \<^verbatim>\<open>internal/native/decimal.go\<close>; \<open>Adjustment_Model\<close>, \<open>Adjustment_Facts\<close>:
    \<^verbatim>\<open>model/account_adjustment.go\<close>, \<^verbatim>\<open>pnl.go\<close> and their C structs, with the abstract
    \<open>adjustmentSpec\<close> (one of three operations, an amount, bounds) they refine; \<open>Outcome_Model\<close>:
    \<^verbatim>\<open>accountadjustment/outcome.go\<close> and \<^verbatim>\<open>pnl.go\<close>.
  \<^item> \<open>Callbacks\<close>, \<open>Callback_Props\<close>: the trampolines of \<^verbatim>\<open>internal/custompolicy\<close> and
    \<^verbatim>\<open>internal/mutation\<close> over a table of cgo handles, the adapters of
    \<^verbatim>\<open>pretrade/policy_adapter.go\<close>; \<open>Client_Engine\<close>: \<^verbatim>\<open>client_engine.go\<close>.
  \<^item> \<open>Native_Objects\<close>: ownership of native objects (a multiset of what the Go side holds, and a
    fault for misuse); on it \<open>Sync_Engine\<close>, \<open>Sync_Engine_Facts\<close> (\<^verbatim>\<open>engine.go\<close> and the
    wrappers of \<^verbatim>\<open>internal/native/engine.go\<close>), \<open>Engine_Builder\<close>, \<open>Builder_Facts\<close>
    (\<^verbatim>\<open>engine_builder.go\<close>), \<open>Accounts_Model\<close> (\<^verbatim>\<open>accounts/accounts.go\<close>).
  \<^item> \<open>Async_Builder\<close>: \<^verbatim>\<open>asyncengine/builder.go\<close>.  \<open>Lock_Model\<close>, \<open>Lock_Facts\<close>:
    \<^verbatim>\<open>pretrade/lock.go\<close> over a table of native locks and buffers.
  \<^item> \<open>Closable\<close>: wrappers that own one native handle, as a locale for a family of values with
    \<^verbatim>\<open>Close\<close>, clones and other methods; interpreted on services and books.  \<open>Market_Data\<close>,
    \<open>Market_Facts\<close>: \<^verbatim>\<open>marketdata\<close> and \<^verbatim>\<open>internal/native/marketdata.go\<close>;
    \<open>Reference_Book\<close>: \<^verbatim>\<open>reference_book.go\<close> and its wrappers.
  \<^item> \<open>Policy_Settings\<close>, \<open>Policy_Facts\<close>: the builders of \<^verbatim>\<open>pretrade/policies\<close>, the structs of
    \<^verbatim>\<open>internal/native/policy.go\<close>, and a locale for an axis of barriers, interpreted on all
    eight; \<open>Configure\<close>, \<open>Configure_Facts\<close>: \<^verbatim>\<open>configure/configure.go\<close> and its wrappers, with
    the settings of a policy as the abstract state they refine.

  \<^bold>\<open>What the lemmas show.\<close>  Futures and handles are resolved and released at most once.
  A chain releases all its handles, runs its terminal hook once and stays in its lane.  A lane
  serves exactly what it accepted, once and in order, never loses a wake-up, takes cleanup only
  after the work before it, and leaves nothing when its worker exits, which it does after stop.
  Facade tasks settle their own futures, and a lane that ended has settled all of them.  The
  Dynamic table keeps one open lane per key; an exclusive section runs alone and runs the
  releases postponed to it.  Reads never overlap a lifecycle call.  Orders and reports never
  point into memory they do not keep alive, and read back what they were given; decimals convert
  exactly or report the overflow; an adjustment refines its abstract value.  Callbacks fail
  closed and never unwind into the engine; client payloads live exactly as long as a callback
  may ask for them.  The synchronous engine, its builders and account administration leak no
  native object and release none twice, whatever the library answers within its documented
  ownership, and their results have the shapes the asynchronous facade accepts.  Locks refine
  operations on values.  Market-data services and reference books hold their handles until they
  are closed; a read whose account group cannot be told fails, lifetimes and ages keep their
  value, and settlement schemes read back as they were set.  Policy builders hand over exactly
  what they were given and keep its memory alive; a configuration call changes the settings it
  asks for and nothing else.  Flaws the proofs ran into are lemmas too: a send on a closed shard
  channel, retirement beside a running cleanup (and an exclusive section beside it), a request
  destroyed twice on an unknown status, half-named instruments that escape the import of
  reports, policies closed twice after a panic in \<^verbatim>\<open>Close\<close>, registrations that succeed on an
  unknown status, and negative lifetimes that turn into enormous ones.

  \<^bold>\<open>Bounds and fuel.\<close>  There is no fuel.  The loops of the Dynamic submit and cleanup take
  the list of their passes, so every theorem about them holds for each number of passes;
  a worker and a section are step relations; the other recursions are structural.  Counters
  of the lane are unbounded numbers, not 64-bit; keys and shard arithmetic are 64-bit words.

  \<^bold>\<open>Not modelled.\<close>  The native library and the driver (parameters); the Go memory model beyond
  atomic steps (each critical section and each atomic access is one step); observer callbacks,
  the retirement ticker and clocks (idleness is a condition of the step); panics inside an
  exclusive function or a postponed release; finalizers; the arithmetic of parameters, which is
  done by the native library (the Go methods forward two C structs and map its error code; the
  mapping is in \<open>Native_Objects\<close>); the policies themselves, of which Go only has the settings;
  a slice of overrides that the caller changes between giving and building it; formatting and
  logging; runtime loading.
\<close>

end
